(* ===== verification/Prelude.thy ===== *)
theory Prelude
  imports Main "HOL-Library.List_Lexorder" "HOL-Library.Char_ord"
    "HOL-Library.Product_Lexorder" "HOL-Library.Sublist"
begin

text \<open>
  Shared vocabulary of the development: Go strings as byte lists (\<open>strings.TrimSpace\<close>,
  \<open>strings.Fields\<close>, \<open>strings.ToLower\<close>, decimal printing and parsing as the source uses
  them), tables as lists of rows with a key, and the hint collections the component theories
  extend.  A Go \<open>string\<close> is a sequence of bytes, so it is modelled by \<open>string\<close>, whose
  \<open>char\<close> is one byte; the order of \<open>List_Lexorder\<close> on it is the \<open>memcmp\<close> order
  SQLite's BINARY collation and Go's \<open><\<close> on strings use.
\<close>

named_theorems table_simps \<open>rewriting of table operations\<close>
named_theorems frame \<open>what an operation leaves unchanged\<close>

section \<open>Decimal printing and parsing\<close>

definition digit_char :: "nat \<Rightarrow> char" where
  "digit_char d = (''0123456789'' ! d)"

definition is_digit :: "char \<Rightarrow> bool" where
  "is_digit c = (48 \<le> (of_char c :: nat) \<and> (of_char c :: nat) \<le> 57)"

definition digit_val :: "char \<Rightarrow> nat" where
  "digit_val c = (of_char c :: nat) - 48"

fun show_nat :: "nat \<Rightarrow> string" where
  "show_nat n = (if n < 10 then [digit_char n] else show_nat (n div 10) @ [digit_char (n mod 10)])"

declare show_nat.simps [simp del]

text \<open>\<open>fmt.Sprintf("%d", i)\<close> and \<open>strconv.FormatInt(i, 10)\<close>.\<close>

definition show_int :: "int \<Rightarrow> string" where
  "show_int i = (if i < 0 then ''-'' @ show_nat (nat (- i)) else show_nat (nat i))"

fun parse_digits :: "nat \<Rightarrow> string \<Rightarrow> nat option" where
  "parse_digits acc [] = Some acc"
| "parse_digits acc (c # cs) =
     (if is_digit c then parse_digits (10 * acc + digit_val c) cs else None)"

definition parse_nat :: "string \<Rightarrow> nat option" where
  "parse_nat s = (if s = [] then None else parse_digits 0 s)"

text \<open>\<open>strconv.ParseInt(s, 10, 64)\<close>: optional sign, at least one digit, range checked.\<close>

definition parse_int64 :: "string \<Rightarrow> int option" where
  "parse_int64 s =
     (let neg = (s \<noteq> [] \<and> hd s = CHR ''-'');
          body = (if s \<noteq> [] \<and> (hd s = CHR ''-'' \<or> hd s = CHR ''+'') then tl s else s)
      in case parse_nat body of
           None \<Rightarrow> None
         | Some n \<Rightarrow>
             if neg then (if n \<le> 2 ^ 63 then Some (- int n) else None)
             else (if n < 2 ^ 63 then Some (int n) else None))"

lemma digit_char_props:
  assumes "d < 10"
  shows "is_digit (digit_char d)" "digit_val (digit_char d) = d" "digit_char d \<noteq> CHR ''-''"
    "digit_char d \<noteq> CHR ''+''"
proof -
  have "d \<in> {0,1,2,3,4,5,6,7,8,9}" using assms by auto
  then show "is_digit (digit_char d)" "digit_val (digit_char d) = d" "digit_char d \<noteq> CHR ''-''"
    "digit_char d \<noteq> CHR ''+''"
    by (auto simp: digit_char_def is_digit_def digit_val_def)
qed

lemma show_nat_not_Nil [simp]: "show_nat n \<noteq> []"
  by (subst show_nat.simps) simp

lemma set_show_nat: "c \<in> set (show_nat n) \<Longrightarrow> is_digit c"
proof (induction n rule: show_nat.induct)
  case (1 n)
  show ?case
  proof (cases "n < 10")
    case True
    with "1.prems" show ?thesis by (simp add: show_nat.simps [of n] digit_char_props)
  next
    case False
    with 1 show ?thesis by (auto simp: show_nat.simps [of n] digit_char_props)
  qed
qed

lemma hd_show_nat: "hd (show_nat n) \<noteq> CHR ''-''" "hd (show_nat n) \<noteq> CHR ''+''"
proof -
  have "is_digit (hd (show_nat n))"
    by (rule set_show_nat [of _ n]) simp
  then show "hd (show_nat n) \<noteq> CHR ''-''" "hd (show_nat n) \<noteq> CHR ''+''"
    by (auto simp: is_digit_def)
qed

lemma parse_digits_append:
  "parse_digits acc (xs @ ys) = (case parse_digits acc xs of None \<Rightarrow> None | Some a \<Rightarrow> parse_digits a ys)"
  by (induction acc xs rule: parse_digits.induct) auto

lemma parse_digits_show_nat: "parse_digits 0 (show_nat n) = Some n"
proof (induction n rule: show_nat.induct)
  case (1 n)
  show ?case
  proof (cases "n < 10")
    case True
    then show ?thesis by (simp add: show_nat.simps [of n] digit_char_props)
  next
    case False
    with 1 show ?thesis by (simp add: show_nat.simps [of n] digit_char_props parse_digits_append)
  qed
qed

lemma parse_nat_show_nat [simp]: "parse_nat (show_nat n) = Some n"
  by (simp add: parse_nat_def parse_digits_show_nat)

lemma show_nat_inject [simp]: "show_nat m = show_nat n \<longleftrightarrow> m = n"
  by (metis parse_nat_show_nat option.inject)

lemma show_int_inject [simp]: "show_int i = show_int j \<longleftrightarrow> i = j"
proof
  assume eq: "show_int i = show_int j"
  have False if "i < 0" "\<not> j < 0"
    using eq that hd_show_nat(1) [of "nat j"] by (auto simp: show_int_def dest: arg_cong [of _ _ hd])
  moreover have False if "\<not> i < 0" "j < 0"
    using eq that hd_show_nat(1) [of "nat i"] by (simp add: show_int_def)
  ultimately show "i = j" using eq by (auto simp: show_int_def split: if_splits)
qed simp

lemma parse_int64_show_int:
  assumes "- (2 ^ 63) \<le> i" "i < 2 ^ 63"
  shows "parse_int64 (show_int i) = Some i"
proof (cases "i < 0")
  case True
  with assms have "nat (- i) \<le> 2 ^ 63" by simp
  with True show ?thesis by (simp add: parse_int64_def show_int_def)
next
  case False
  with assms have "nat i < 2 ^ 63" by simp
  with False show ?thesis
    by (simp add: parse_int64_def show_int_def hd_show_nat)
qed

section \<open>Machine integers\<close>

text \<open>
  \<open>int64\<close> arithmetic is two's complement: \<open>wrap64\<close> is the value of a result that may not
  fit.  \<open>int_quot\<close> is Go's division, which truncates toward zero.
\<close>

definition wrap64 :: "int \<Rightarrow> int" where
  "wrap64 x = (x + 2 ^ 63) mod 2 ^ 64 - 2 ^ 63"

definition int_quot :: "int \<Rightarrow> int \<Rightarrow> int" where
  "int_quot a b = (if (a < 0) = (b < 0) then \<bar>a\<bar> div \<bar>b\<bar> else - (\<bar>a\<bar> div \<bar>b\<bar>))"

lemma wrap64_range: "- (2 ^ 63) \<le> wrap64 x" "wrap64 x < 2 ^ 63"
  by (simp_all add: wrap64_def)

lemma wrap64_id: "- (2 ^ 63) \<le> x \<Longrightarrow> x < 2 ^ 63 \<Longrightarrow> wrap64 x = x"
  by (simp add: wrap64_def)

section \<open>White space\<close>

text \<open>
  The UTF-8 encodings of the code points \<open>unicode.IsSpace\<close> accepts.  A lead byte of UTF-8
  is never a continuation byte, so looking for these byte sequences is what decoding runes finds.
\<close>

definition space_runes :: "string list" where
  "space_runes =
     [[CHR 0x20], [CHR 0x09], [CHR 0x0A], [CHR 0x0B], [CHR 0x0C], [CHR 0x0D],
      [CHR 0xC2, CHR 0x85], [CHR 0xC2, CHR 0xA0], [CHR 0xE1, CHR 0x9A, CHR 0x80],
      [CHR 0xE2, CHR 0x80, CHR 0x80], [CHR 0xE2, CHR 0x80, CHR 0x81], [CHR 0xE2, CHR 0x80, CHR 0x82],
      [CHR 0xE2, CHR 0x80, CHR 0x83], [CHR 0xE2, CHR 0x80, CHR 0x84], [CHR 0xE2, CHR 0x80, CHR 0x85],
      [CHR 0xE2, CHR 0x80, CHR 0x86], [CHR 0xE2, CHR 0x80, CHR 0x87], [CHR 0xE2, CHR 0x80, CHR 0x88],
      [CHR 0xE2, CHR 0x80, CHR 0x89], [CHR 0xE2, CHR 0x80, CHR 0x8A], [CHR 0xE2, CHR 0x80, CHR 0xA8],
      [CHR 0xE2, CHR 0x80, CHR 0xA9], [CHR 0xE2, CHR 0x80, CHR 0xAF], [CHR 0xE2, CHR 0x81, CHR 0x9F],
      [CHR 0xE3, CHR 0x80, CHR 0x80]]"

definition lead_space :: "string \<Rightarrow> string option" where
  "lead_space s = find (\<lambda>w. prefix w s) space_runes"

definition trail_space :: "string \<Rightarrow> string option" where
  "trail_space s = find (\<lambda>w. suffix w s) space_runes"

lemma space_runes_not_Nil: "w \<in> set space_runes \<Longrightarrow> w \<noteq> []"
  by (auto simp: space_runes_def)

lemma find_SomeD: "find P xs = Some x \<Longrightarrow> x \<in> set xs \<and> P x"
  by (auto simp: find_Some_iff)

lemma lead_space_Some:
  "lead_space s = Some w \<Longrightarrow> w \<in> set space_runes \<and> prefix w s \<and> w \<noteq> [] \<and> s \<noteq> []"
  unfolding lead_space_def
  by (drule find_SomeD) (auto dest: space_runes_not_Nil)

lemma trail_space_Some:
  "trail_space s = Some w \<Longrightarrow> w \<in> set space_runes \<and> suffix w s \<and> w \<noteq> [] \<and> s \<noteq> []"
  unfolding trail_space_def
  by (drule find_SomeD) (auto dest: space_runes_not_Nil)

function trim_left :: "string \<Rightarrow> string" where
  "trim_left s = (case lead_space s of None \<Rightarrow> s | Some w \<Rightarrow> trim_left (drop (length w) s))"
  by pat_completeness auto
termination
  by (relation "measure length") (auto dest!: lead_space_Some)

function trim_right :: "string \<Rightarrow> string" where
  "trim_right s =
     (case trail_space s of None \<Rightarrow> s | Some w \<Rightarrow> trim_right (take (length s - length w) s))"
  by pat_completeness auto
termination
  by (relation "measure length") (auto dest!: trail_space_Some)

declare trim_left.simps [simp del] trim_right.simps [simp del]

text \<open>\<open>strings.TrimSpace\<close>.\<close>

definition trim_space :: "string \<Rightarrow> string" where
  "trim_space s = trim_right (trim_left s)"

lemma trim_left_Nil [simp]: "trim_left [] = []"
  by (subst trim_left.simps) (auto simp: lead_space_def find_None_iff space_runes_def split: option.splits)

lemma trim_right_Nil [simp]: "trim_right [] = []"
  by (subst trim_right.simps) (auto simp: trail_space_def find_None_iff space_runes_def split: option.splits)

lemma trim_space_Nil [simp]: "trim_space [] = []"
  by (simp add: trim_space_def)

lemma lead_space_trim_left [simp]: "lead_space (trim_left s) = None"
proof (induction s rule: trim_left.induct)
  case (1 s)
  then show ?case by (subst trim_left.simps) (auto split: option.split)
qed

lemma trail_space_trim_right [simp]: "trail_space (trim_right s) = None"
proof (induction s rule: trim_right.induct)
  case (1 s)
  then show ?case by (subst trim_right.simps) (auto split: option.split)
qed

lemma prefix_trim_right: "prefix (trim_right s) s"
proof (induction s rule: trim_right.induct)
  case (1 s)
  show ?case
  proof (cases "trail_space s")
    case None
    then show ?thesis by (simp add: trim_right.simps [of s])
  next
    case (Some w)
    from 1 [OF Some] have "prefix (trim_right (take (length s - length w) s)) (take (length s - length w) s)" .
    moreover have "prefix (take (length s - length w) s) s" by (rule take_is_prefix)
    ultimately show ?thesis using Some by (simp add: trim_right.simps [of s])
  qed
qed

lemma suffix_trim_left: "suffix (trim_left s) s"
proof (induction s rule: trim_left.induct)
  case (1 s)
  show ?case
  proof (cases "lead_space s")
    case None
    then show ?thesis by (simp add: trim_left.simps [of s])
  next
    case (Some w)
    have "suffix (drop (length w) s) s" by (rule suffix_drop)
    with 1 [OF Some] Some show ?thesis
      by (simp add: trim_left.simps [of s])
  qed
qed

lemma lead_space_prefix_None: "lead_space s = None \<Longrightarrow> prefix t s \<Longrightarrow> lead_space t = None"
  by (auto simp: lead_space_def find_None_iff dest: prefix_order.trans)

lemma trim_left_id [simp]: "lead_space s = None \<Longrightarrow> trim_left s = s"
  by (simp add: trim_left.simps [of s])

lemma trim_right_id [simp]: "trail_space s = None \<Longrightarrow> trim_right s = s"
  by (simp add: trim_right.simps [of s])

lemma lead_space_trim_space [simp]: "lead_space (trim_space s) = None"
  unfolding trim_space_def by (rule lead_space_prefix_None [OF lead_space_trim_left prefix_trim_right])

lemma trail_space_trim_space [simp]: "trail_space (trim_space s) = None"
  by (simp add: trim_space_def)

lemma trim_space_id: "lead_space s = None \<Longrightarrow> trail_space s = None \<Longrightarrow> trim_space s = s"
  by (simp add: trim_space_def)

lemma trim_space_idem [simp]: "trim_space (trim_space s) = trim_space s"
  by (rule trim_space_id) simp_all

lemma length_trim_space: "length (trim_space s) \<le> length s"
  unfolding trim_space_def
  using prefix_length_le [OF prefix_trim_right, of "trim_left s"]
    suffix_length_le [OF suffix_trim_left, of s] by linarith

text \<open>
  \<open>strings.Fields\<close>: the maximal runs of bytes at which no white-space encoding starts.
\<close>

function split_word :: "string \<Rightarrow> string \<times> string" where
  "split_word [] = ([], [])"
| "split_word (c # cs) =
     (case lead_space (c # cs) of
        Some w \<Rightarrow> ([], c # cs)
      | None \<Rightarrow> (let (u, v) = split_word cs in (c # u, v)))"
  by pat_completeness auto
termination
  by (relation "measure length") auto

lemma split_word_append: "fst (split_word s) @ snd (split_word s) = s"
  by (induction s rule: split_word.induct) (auto split: option.splits prod.splits)

lemma length_snd_split_word: "length (snd (split_word s)) \<le> length s"
  using arg_cong [OF split_word_append [of s], of length] by simp

lemma length_trim_left: "length (trim_left s) \<le> length s"
  by (rule suffix_length_le) (rule suffix_trim_left)

lemma split_word_progress: "s \<noteq> [] \<Longrightarrow> lead_space s = None \<Longrightarrow> fst (split_word s) \<noteq> []"
  by (cases s) (auto split: prod.splits)

function string_fields :: "string \<Rightarrow> string list" where
  "string_fields s =
     (let t = trim_left s in
      if t = [] then [] else fst (split_word t) # string_fields (snd (split_word t)))"
  by pat_completeness auto
termination
proof (relation "measure length", simp, goal_cases)
  case (1 s x)
  then have "fst (split_word x) \<noteq> []" by (simp add: split_word_progress)
  then have "length (snd (split_word x)) < length x"
    using arg_cong [OF split_word_append [of x], of length]
    by (metis length_append length_greater_0_conv less_add_same_cancel2)
  with 1 length_trim_left [of s] show ?case by simp
qed

declare string_fields.simps [simp del]

section \<open>Case folding, splitting, joining\<close>

text \<open>
  \<open>strings.ToLower\<close> on the letters it maps into ASCII: the ASCII capitals, the Kelvin sign
  and the dotted capital I.  Every other code point is mapped to a code point outside ASCII, so a
  comparison with an ASCII literal, which is all the source does, is decided by these.
\<close>

fun to_lower :: "string \<Rightarrow> string" where
  "to_lower [] = []"
| "to_lower (c # cs) =
     (if 65 \<le> (of_char c :: nat) \<and> (of_char c :: nat) \<le> 90
      then char_of ((of_char c :: nat) + 32) # to_lower cs
      else if prefix [CHR 0xC4, CHR 0xB0] (c # cs) then CHR ''i'' # to_lower (drop 1 cs)
      else if prefix [CHR 0xE2, CHR 0x84, CHR 0xAA] (c # cs) then CHR ''k'' # to_lower (drop 2 cs)
      else c # to_lower cs)"

text \<open>\<open>strings.EqualFold\<close> against a literal made of letters with no fold partner outside ASCII.\<close>

fun ascii_lower :: "string \<Rightarrow> string" where
  "ascii_lower [] = []"
| "ascii_lower (c # cs) =
     (if 65 \<le> (of_char c :: nat) \<and> (of_char c :: nat) \<le> 90
      then char_of ((of_char c :: nat) + 32) # ascii_lower cs else c # ascii_lower cs)"

definition equal_fold :: "string \<Rightarrow> string \<Rightarrow> bool" where
  "equal_fold s t = (ascii_lower s = ascii_lower t)"

text \<open>\<open>strings.Split(s, sep)\<close> for a one-byte separator.\<close>

fun split_on :: "char \<Rightarrow> string \<Rightarrow> string list" where
  "split_on sep [] = [[]]"
| "split_on sep (c # cs) =
     (if c = sep then [] # split_on sep cs
      else (case split_on sep cs of [] \<Rightarrow> [[c]] | w # ws \<Rightarrow> (c # w) # ws))"

text \<open>\<open>strings.Join(parts, sep)\<close>.\<close>

fun join :: "string \<Rightarrow> string list \<Rightarrow> string" where
  "join sep [] = []"
| "join sep [w] = w"
| "join sep (w # v # ws) = w @ sep @ join sep (v # ws)"

text \<open>\<open>strings.ReplaceAll(s, old, new)\<close> for a one-byte \<open>old\<close>.\<close>

definition replace_char :: "char \<Rightarrow> string \<Rightarrow> string \<Rightarrow> string" where
  "replace_char c new s = concat (map (\<lambda>x. if x = c then new else [x]) s)"

lemma split_on_not_Nil [simp]: "split_on sep s \<noteq> []"
  by (induction s) (auto split: list.splits)

lemma join_split_on: "join [sep] (split_on sep s) = s"
proof (induction s)
  case Nil
  then show ?case by simp
next
  case (Cons c cs)
  then show ?case
    by (cases "split_on sep cs"; cases "tl (split_on sep cs)") (auto split: list.splits)
qed

lemma split_on_append_sep: "sep \<notin> set w \<Longrightarrow> split_on sep (w @ sep # s) = w # split_on sep s"
  by (induction w) auto

lemma split_on_single: "sep \<notin> set w \<Longrightarrow> split_on sep w = [w]"
  by (induction w) auto

lemma split_on_join:
  "ws \<noteq> [] \<Longrightarrow> (\<forall>w \<in> set ws. sep \<notin> set w) \<Longrightarrow> split_on sep (join [sep] ws) = ws"
proof (induction ws rule: induct_list012)
  case (2 w)
  then show ?case by (simp add: split_on_single)
next
  case (3 w v ws)
  then show ?case using split_on_append_sep [of sep w "join [sep] (v # ws)"] by simp
qed simp

lemma join_inject:
  assumes eq: "join [sep] ws = join [sep] vs" and "ws \<noteq> []" "vs \<noteq> []"
    "\<forall>w \<in> set ws. sep \<notin> set w" "\<forall>w \<in> set vs. sep \<notin> set w"
  shows "ws = vs"
proof -
  have "ws = split_on sep (join [sep] ws)" by (rule split_on_join [symmetric]) fact+
  also have "\<dots> = split_on sep (join [sep] vs)" by (rule arg_cong [OF eq])
  also have "\<dots> = vs" by (rule split_on_join) fact+
  finally show ?thesis .
qed

lemma split_on_no_sep: "w \<in> set (split_on sep s) \<Longrightarrow> sep \<notin> set w"
  by (induction s arbitrary: w) (auto split: if_splits list.splits)

section \<open>Tables\<close>

text \<open>
  A table is the list of its rows in insertion order.  \<open>insert_row\<close> is \<open>INSERT\<close> under
  a PRIMARY KEY or UNIQUE column, \<open>update_where\<close> is \<open>UPDATE ... WHERE\<close>, \<open>find_row\<close>
  a \<open>SELECT\<close> by key and \<open>first_by\<close> a \<open>SELECT ... ORDER BY ... LIMIT 1\<close>.
\<close>

definition insert_row :: "('r \<Rightarrow> 'k) \<Rightarrow> 'r \<Rightarrow> 'r list \<Rightarrow> 'r list option" where
  "insert_row key r rows = (if key r \<in> set (map key rows) then None else Some (rows @ [r]))"

definition update_where :: "('r \<Rightarrow> bool) \<Rightarrow> ('r \<Rightarrow> 'r) \<Rightarrow> 'r list \<Rightarrow> 'r list" where
  "update_where P f rows = map (\<lambda>r. if P r then f r else r) rows"

definition find_row :: "('r \<Rightarrow> 'k) \<Rightarrow> 'k \<Rightarrow> 'r list \<Rightarrow> 'r option" where
  "find_row key k rows = find (\<lambda>r. key r = k) rows"

definition first_by :: "('r \<Rightarrow> 'o::linorder) \<Rightarrow> 'r list \<Rightarrow> 'r option" where
  "first_by ord rows = (case sort_key ord rows of [] \<Rightarrow> None | r # _ \<Rightarrow> Some r)"

text \<open>\<open>INSERT ... ON CONFLICT(key) DO UPDATE\<close>.\<close>

definition upsert_row :: "('r \<Rightarrow> 'k) \<Rightarrow> 'r \<Rightarrow> ('r \<Rightarrow> 'r) \<Rightarrow> 'r list \<Rightarrow> 'r list" where
  "upsert_row key r f rows =
     (if key r \<in> set (map key rows) then update_where (\<lambda>r'. key r' = key r) f rows else rows @ [r])"

lemma insert_row_Some [table_simps]:
  "insert_row key r rows = Some rows' \<longleftrightarrow> key r \<notin> key ` set rows \<and> rows' = rows @ [r]"
  by (auto simp: insert_row_def)

lemma insert_row_None [table_simps]: "insert_row key r rows = None \<longleftrightarrow> key r \<in> key ` set rows"
  by (auto simp: insert_row_def)

lemma set_update_where:
  "set (update_where P f rows) = (\<lambda>r. if P r then f r else r) ` set rows"
  by (simp add: update_where_def)

lemma map_update_where [table_simps]:
  assumes "\<And>r. P r \<Longrightarrow> g (f r) = g r"
  shows "map g (update_where P f rows) = map g rows"
  using assms by (simp add: update_where_def)

lemma image_update_where:
  assumes "\<And>r. P r \<Longrightarrow> g (f r) = g r"
  shows "g ` set (update_where P f rows) = g ` set rows"
proof -
  have "map g (update_where P f rows) = map g rows" by (rule map_update_where) (rule assms)
  then show ?thesis by (metis set_map)
qed

lemma update_where_Nil [simp]: "update_where P f [] = []"
  by (simp add: update_where_def)

lemma update_where_Cons [simp]:
  "update_where P f (r # rows) = (if P r then f r else r) # update_where P f rows"
  by (simp add: update_where_def)

lemma update_where_append [simp]:
  "update_where P f (xs @ ys) = update_where P f xs @ update_where P f ys"
  by (simp add: update_where_def)

lemma length_update_where [simp]: "length (update_where P f rows) = length rows"
  by (simp add: update_where_def)

lemma update_where_cong_none: "(\<And>r. r \<in> set rows \<Longrightarrow> \<not> P r) \<Longrightarrow> update_where P f rows = rows"
  by (simp add: update_where_def map_idI)

lemma filter_update_where:
  assumes "\<And>r. P r \<Longrightarrow> \<not> Q (f r)"
  shows "filter Q (update_where P f rows) = filter (\<lambda>r. \<not> P r \<and> Q r) rows"
  using assms by (induction rows) auto

lemma filter_update_where_other:
  assumes "\<And>r. r \<in> set rows \<Longrightarrow> P r \<Longrightarrow> \<not> Q r \<and> \<not> Q (f r)"
  shows "filter Q (update_where P f rows) = filter Q rows"
  using assms by (induction rows) auto

lemma find_row_None: "find_row key k rows = None \<longleftrightarrow> k \<notin> key ` set rows"
  by (auto simp: find_row_def find_None_iff)

lemma find_row_SomeD: "find_row key k rows = Some r \<Longrightarrow> r \<in> set rows \<and> key r = k"
  by (auto simp: find_row_def find_Some_iff)

lemma find_row_Some_iff:
  assumes "distinct (map key rows)"
  shows "find_row key k rows = Some r \<longleftrightarrow> r \<in> set rows \<and> key r = k"
proof
  assume "find_row key k rows = Some r"
  then show "r \<in> set rows \<and> key r = k" by (rule find_row_SomeD)
next
  assume r: "r \<in> set rows \<and> key r = k"
  then obtain r' where r': "find_row key k rows = Some r'"
    by (metis find_row_None image_eqI option.exhaust)
  then have "r' \<in> set rows" "key r' = k" by (auto dest: find_row_SomeD)
  with r assms have "r' = r" by (metis distinct_map inj_onD)
  with r' show "find_row key k rows = Some r" by simp
qed

lemma find_row_append [simp]:
  "find_row key k (rows @ [r]) =
     (case find_row key k rows of Some r' \<Rightarrow> Some r' | None \<Rightarrow> if key r = k then Some r else None)"
  by (simp add: find_row_def) (induction rows; simp)

lemma find_row_update_where:
  assumes "\<And>r. P r \<Longrightarrow> key (f r) = key r"
  shows "find_row key k (update_where P f rows) =
     map_option (\<lambda>r. if P r then f r else r) (find_row key k rows)"
  using assms by (induction rows) (auto simp: find_row_def)

lemma find_row_upsert_row:
  assumes "\<And>r. key (f r) = key r"
  shows "find_row key k (upsert_row key r f rows) =
     (if k = key r then Some (case find_row key k rows of None \<Rightarrow> r | Some r' \<Rightarrow> f r')
      else find_row key k rows)"
proof (cases "key r \<in> set (map key rows)")
  case True
  then obtain r' where "find_row key (key r) rows = Some r'"
    by (metis find_row_None option.exhaust set_map)
  moreover have "map_option (\<lambda>r'. if key r' = key r then f r' else r') (find_row key k rows) = find_row key k rows"
    if "k \<noteq> key r"
    using that by (cases "find_row key k rows") (auto dest: find_row_SomeD)
  moreover have "key r' = key r" by (rule conjunct2, rule find_row_SomeD) fact
  ultimately show ?thesis
    using True assms by (auto simp: upsert_row_def find_row_update_where)
next
  case False
  then have "find_row key (key r) rows = None" by (simp add: find_row_None)
  with False show ?thesis by (auto simp: upsert_row_def split: option.splits)
qed

lemma distinct_upsert_row:
  assumes "\<And>r. key (f r) = key r" "distinct (map key rows)"
  shows "distinct (map key (upsert_row key r f rows))"
  using assms by (auto simp: upsert_row_def table_simps)

lemma first_by_SomeD: "first_by ord rows = Some r \<Longrightarrow> r \<in> set rows"
  by (auto simp: first_by_def split: list.splits) (metis list.set_intros(1) set_sort)

lemma first_by_least: "first_by ord rows = Some r \<Longrightarrow> r' \<in> set rows \<Longrightarrow> ord r \<le> ord r'"
proof -
  assume a: "first_by ord rows = Some r" and m: "r' \<in> set rows"
  from a obtain rs where s: "sort_key ord rows = r # rs"
    by (auto simp: first_by_def split: list.splits)
  have "sorted (map ord (r # rs))" using s sorted_sort_key [of ord rows] by simp
  moreover have "r' \<in> set (r # rs)" using m s by (metis set_sort)
  ultimately show "ord r \<le> ord r'" by auto
qed

lemma first_by_None [simp]: "first_by ord rows = None \<longleftrightarrow> rows = []"
  by (auto simp: first_by_def split: list.splits) (metis length_0_conv length_sort)

end
