(* ===== verification/Go_Time.thy ===== *)
theory Go_Time
  imports Prelude
begin

text \<open>
  \<open>time.Time\<close> as the program uses it: an instant in UTC, its RFC3339Nano text, which is what
  every timestamp column of the database holds (\<open>timeText\<close> in
  \<open>internal/store/tx/record_codec.go\<close>, \<open>queries/record_codec.go\<close>,
  \<open>projections/sessions.go\<close> and \<open>repo_util.go\<close>), and the parser that reads it back
  (\<open>mustParseTime\<close>).  An instant is the number of nanoseconds since the Unix epoch.  SQLite
  compares the texts, byte by byte, so the order of the texts matters: it is not the order of the
  instants (\<open>time_text_not_monotone\<close>).
\<close>

type_synonym time = int
type_synonym duration = int

abbreviation second :: duration where "second \<equiv> 1000000000"
abbreviation millisecond :: duration where "millisecond \<equiv> 1000000"
abbreviation minute :: duration where "minute \<equiv> 60000000000"
abbreviation day_secs :: int where "day_secs \<equiv> 86400"

text \<open>The zero \<open>time.Time\<close>: January 1 of year 1.\<close>

definition zero_time :: time where
  "zero_time = - 62135596800 * second"

definition is_zero_time :: "time \<Rightarrow> bool" where
  "is_zero_time t = (t = zero_time)"

definition unix_nano :: "time \<Rightarrow> int" where "unix_nano t = t"
definition unix_secs :: "time \<Rightarrow> int" where "unix_secs t = t div second"

section \<open>The proleptic Gregorian calendar\<close>

text \<open>Days from January 1 of year 0 to January 1 of year \<open>y\<close>.\<close>

definition days_before_year :: "int \<Rightarrow> int" where
  "days_before_year y = 365 * y + (y + 3) div 4 - (y + 99) div 100 + (y + 399) div 400"

definition leap_year :: "int \<Rightarrow> bool" where
  "leap_year y = (4 dvd y \<and> (\<not> 100 dvd y \<or> 400 dvd y))"

definition leap_int :: "int \<Rightarrow> int" where
  "leap_int y = (if leap_year y then 1 else 0)"

definition epoch_days :: int where "epoch_days = 719528"

definition year_of_days :: "int \<Rightarrow> int" where
  "year_of_days n =
     (let y = (400 * n) div 146097 in
      if n < days_before_year y then y - 1
      else if days_before_year (y + 1) \<le> n then y + 1 else y)"

definition month_start :: "int \<Rightarrow> int \<Rightarrow> int" where
  "month_start l m =
     (if m = 1 then 0 else if m = 2 then 31 else if m = 3 then 59 + l else if m = 4 then 90 + l
      else if m = 5 then 120 + l else if m = 6 then 151 + l else if m = 7 then 181 + l
      else if m = 8 then 212 + l else if m = 9 then 243 + l else if m = 10 then 273 + l
      else if m = 11 then 304 + l else 334 + l)"

definition month_of_yday :: "int \<Rightarrow> int \<Rightarrow> int" where
  "month_of_yday l d =
     (if d < 31 then 1 else if d < 59 + l then 2 else if d < 90 + l then 3 else if d < 120 + l then 4
      else if d < 151 + l then 5 else if d < 181 + l then 6 else if d < 212 + l then 7
      else if d < 243 + l then 8 else if d < 273 + l then 9 else if d < 304 + l then 10
      else if d < 334 + l then 11 else 12)"

definition days_in_month :: "int \<Rightarrow> int \<Rightarrow> int" where
  "days_in_month l m =
     (if m = 2 then 28 + l else if m \<in> {4, 6, 9, 11} then 30 else 31)"

text \<open>Year, month and day of the day \<open>n\<close> days after January 1 of year 0.\<close>

definition civil_of_days :: "int \<Rightarrow> int \<times> int \<times> int" where
  "civil_of_days n =
     (let y = year_of_days n; yd = n - days_before_year y; m = month_of_yday (leap_int y) yd
      in (y, m, yd - month_start (leap_int y) m + 1))"

definition days_of_civil :: "int \<Rightarrow> int \<Rightarrow> int \<Rightarrow> int" where
  "days_of_civil y m d = days_before_year y + month_start (leap_int y) m + d - 1"

lemma div_bounds: "0 < n \<Longrightarrow> n * (x div n) \<le> x \<and> x < n * (x div n) + n" for x n :: int
proof -
  assume n: "0 < n"
  have "x = n * (x div n) + x mod n" by simp
  moreover have "0 \<le> x mod n" "x mod n < n" using n by simp_all
  ultimately show ?thesis by linarith
qed

lemma div_Suc_step: "0 < n \<Longrightarrow> (y + n) div n = (y + (n - 1)) div n + (if n dvd y then 1 else 0)"
  for y n :: int
proof -
  assume n: "0 < n"
  define k r where "k = y div n" and "r = y mod n"
  have y: "y = n * k + r" by (simp add: k_def r_def)
  have r: "0 \<le> r" "r < n" using n by (auto simp: r_def)
  have 1: "(y + n) div n = k + 1"
    using n r by (intro int_div_pos_eq [where r = r]) (auto simp: y algebra_simps)
  show ?thesis
  proof (cases "r = 0")
    case True
    then have "n dvd y" by (simp add: y)
    moreover have "(y + (n - 1)) div n = k"
      using n r True by (intro int_div_pos_eq [where r = "n - 1"]) (auto simp: y algebra_simps)
    ultimately show ?thesis using 1 by simp
  next
    case False
    then have "\<not> n dvd y" by (simp add: r_def dvd_eq_mod_eq_0)
    moreover have "(y + (n - 1)) div n = k + 1"
      using n r False by (intro int_div_pos_eq [where r = "r - 1"]) (auto simp: y algebra_simps)
    ultimately show ?thesis using 1 by simp
  qed
qed

lemma days_before_year_bounds:
  "400 * days_before_year y \<le> 146097 * y + 800" "146097 * y - 600 \<le> 400 * days_before_year y"
proof -
  define a b c where "a = (y + 3) div 4" and "b = (y + 99) div 100" and "c = (y + 399) div 400"
  have d: "days_before_year y = 365 * y + a - b + c"
    by (simp add: days_before_year_def a_def b_def c_def)
  have a: "4 * a \<le> y + 3" "y + 3 < 4 * a + 4" using div_bounds [of 4 "y + 3"] by (auto simp: a_def)
  have b: "100 * b \<le> y + 99" "y + 99 < 100 * b + 100"
    using div_bounds [of 100 "y + 99"] by (auto simp: b_def)
  have c: "400 * c \<le> y + 399" "y + 399 < 400 * c + 400"
    using div_bounds [of 400 "y + 399"] by (auto simp: c_def)
  show "400 * days_before_year y \<le> 146097 * y + 800"
    unfolding d using a b c by (simp add: algebra_simps)
  show "146097 * y - 600 \<le> 400 * days_before_year y"
    unfolding d using a b c by (simp add: algebra_simps)
qed

lemma days_before_year_step: "days_before_year (y + 1) = days_before_year y + 365 + leap_int y"
proof -
  have a: "(y + 4) div 4 = (y + 3) div 4 + (if 4 dvd y then 1 else 0)"
    using div_Suc_step [of 4 y] by simp
  have b: "(y + 100) div 100 = (y + 99) div 100 + (if 100 dvd y then 1 else 0)"
    using div_Suc_step [of 100 y] by simp
  have c: "(y + 400) div 400 = (y + 399) div 400 + (if 400 dvd y then 1 else 0)"
    using div_Suc_step [of 400 y] by simp
  have d1: "400 dvd y \<Longrightarrow> 100 dvd y" by (rule dvd_trans [of 100 400]) simp_all
  have d2: "100 dvd y \<Longrightarrow> 4 dvd y" by (rule dvd_trans [of 4 100]) simp_all
  have l: "leap_int y = (if 4 dvd y then 1 else 0) - (if 100 dvd y then 1 else 0) + (if 400 dvd y then 1 else 0)"
    using d1 d2 by (cases "400 dvd y"; cases "100 dvd y"; cases "4 dvd y")
      (simp_all only: leap_int_def leap_year_def if_True if_False simp_thms, simp_all)
  have e: "y + 1 + 3 = y + 4" "y + 1 + 99 = y + 100" "y + 1 + 399 = y + 400" by simp_all
  show ?thesis
    unfolding days_before_year_def e a b c l by (simp only: algebra_simps)
qed

lemma leap_int_bounds: "0 \<le> leap_int y" "leap_int y \<le> 1"
  by (auto simp: leap_int_def)

lemma year_of_days_bounds:
  "days_before_year (year_of_days n) \<le> n \<and> n < days_before_year (year_of_days n + 1)"
proof -
  define y where "y = (400 * n) div 146097"
  have q: "146097 * y \<le> 400 * n" "400 * n < 146097 * y + 146097"
    using div_bounds [of 146097 "400 * n"] by (auto simp: y_def)
  have lo: "days_before_year (y - 1) \<le> n"
    using days_before_year_bounds(1) [of "y - 1"] q by (simp add: algebra_simps)
  have hi: "n < days_before_year (y + 2)"
    using days_before_year_bounds(2) [of "y + 2"] q by (simp add: algebra_simps)
  have s2: "y + 1 + 1 = y + 2" by simp
  show ?thesis
    using lo hi unfolding year_of_days_def Let_def y_def [symmetric] by (auto simp: s2)
qed

lemma yday_bounds:
  assumes "y = year_of_days n" "yd = n - days_before_year y"
  shows "0 \<le> yd" "yd < 365 + leap_int y"
  using year_of_days_bounds [of n] days_before_year_step [of y] assms by auto

lemma month_of_yday_range: "1 \<le> month_of_yday l d" "month_of_yday l d \<le> 12"
  by (auto simp: month_of_yday_def)

lemma month_day_range:
  assumes "0 \<le> yd" "yd < 365 + l" "0 \<le> l" "l \<le> 1" "m = month_of_yday l yd"
  shows "1 \<le> yd - month_start l m + 1" "yd - month_start l m + 1 \<le> days_in_month l m"
  using assms by (auto simp: month_of_yday_def month_start_def days_in_month_def split: if_splits)

lemma civil_of_days_correct:
  assumes "civil_of_days n = (y, m, d)"
  shows "days_of_civil y m d = n" "1 \<le> m" "m \<le> 12" "1 \<le> d" "d \<le> days_in_month (leap_int y) m"
proof -
  let ?yd = "n - days_before_year y"
  have y: "y = year_of_days n" and m: "m = month_of_yday (leap_int y) ?yd"
    and d: "d = ?yd - month_start (leap_int y) m + 1"
    using assms by (auto simp: civil_of_days_def Let_def)
  show "days_of_civil y m d = n" by (simp add: days_of_civil_def d)
  show "1 \<le> m" "m \<le> 12" using m month_of_yday_range by auto
  show "1 \<le> d" "d \<le> days_in_month (leap_int y) m"
    using month_day_range [OF yday_bounds [OF y refl] leap_int_bounds m] d by auto
qed

lemma days_in_month_le: "days_in_month (leap_int y) m \<le> 31"
  using leap_int_bounds [of y] by (auto simp: days_in_month_def)

section \<open>RFC3339Nano text\<close>

definition pad :: "nat \<Rightarrow> nat \<Rightarrow> string" where
  "pad w n = replicate (w - length (show_nat n)) (CHR ''0'') @ show_nat n"

definition pad_year :: "int \<Rightarrow> string" where
  "pad_year y = (if y < 0 then ''-'' @ pad 4 (nat (- y)) else pad 4 (nat y))"

definition strip_zeros :: "string \<Rightarrow> string" where
  "strip_zeros s = rev (dropWhile (\<lambda>c. c = CHR ''0'') (rev s))"

definition frac_text :: "nat \<Rightarrow> string" where
  "frac_text ns = (if ns = 0 then '''' else ''.'' @ strip_zeros (pad 9 ns))"

text \<open>
  \<open>timeText\<close>: \<open>t.UTC().Format(time.RFC3339Nano)\<close>; the fraction of the second is
  written without its trailing zeros, and not at all when it is zero.
\<close>

definition stamp_text :: "int \<Rightarrow> string" where
  "stamp_text secs =
     (let sod = secs mod day_secs;
          (y, m, d) = civil_of_days (secs div day_secs + epoch_days)
      in pad_year y @ ''-'' @ pad 2 (nat m) @ ''-'' @ pad 2 (nat d) @ ''T'' @
         pad 2 (nat (sod div 3600)) @ '':'' @ pad 2 (nat (sod div 60 mod 60)) @ '':'' @
         pad 2 (nat (sod mod 60)))"

definition time_text :: "time \<Rightarrow> string" where
  "time_text t = stamp_text (t div second) @ frac_text (nat (t mod second)) @ ''Z''"

text \<open>\<open>t.Format("2006-01-02")\<close> and \<open>t.Format(time.RFC3339)\<close>.\<close>

definition date_text :: "time \<Rightarrow> string" where
  "date_text t =
     (let (y, m, d) = civil_of_days (t div second div day_secs + epoch_days)
      in pad_year y @ ''-'' @ pad 2 (nat m) @ ''-'' @ pad 2 (nat d))"

definition rfc3339_text :: "time \<Rightarrow> string" where
  "rfc3339_text t = time_text (t - t mod second)"

text \<open>
  \<open>time.Parse(time.RFC3339Nano, s)\<close>: fixed positions, ranges checked, a fraction of any
  number of digits of which nine count, then \<open>Z\<close> or a numeric offset.
\<close>

definition parse_range :: "int \<Rightarrow> int \<Rightarrow> string \<Rightarrow> int option" where
  "parse_range lo hi s =
     (case parse_digits 0 s of
        None \<Rightarrow> None
      | Some n \<Rightarrow> if lo \<le> int n \<and> int n \<le> hi then Some (int n) else None)"

definition split_frac :: "string \<Rightarrow> string \<times> string" where
  "split_frac s =
     (if 2 \<le> length s \<and> hd s = CHR ''.'' \<and> is_digit (s ! 1)
      then (takeWhile is_digit (tl s), dropWhile is_digit (tl s)) else ([], s))"

definition frac_nanos :: "string \<Rightarrow> int" where
  "frac_nanos ds = int (case parse_digits 0 (take 9 (ds @ replicate 9 (CHR ''0''))) of None \<Rightarrow> 0 | Some n \<Rightarrow> n)"

definition parse_zone :: "string \<Rightarrow> int option" where
  "parse_zone s =
     (if s = ''Z'' then Some 0
      else if length s = 6 \<and> (hd s = CHR ''-'' \<or> hd s = CHR ''+'') \<and> s ! 3 = CHR '':'' then
        (case (parse_range 0 23 (take 2 (drop 1 s)), parse_range 0 59 (drop 4 s)) of
           (Some h, Some m) \<Rightarrow> Some ((if hd s = CHR ''-'' then - 1 else 1) * (h * 60 + m) * 60)
         | _ \<Rightarrow> None)
      else None)"

definition parse_rfc3339 :: "string \<Rightarrow> time option" where
  "parse_rfc3339 s =
     (if length s < 19 then None
      else if \<not> (s ! 4 = CHR ''-'' \<and> s ! 7 = CHR ''-'' \<and> s ! 10 = CHR ''T'' \<and>
                s ! 13 = CHR '':'' \<and> s ! 16 = CHR '':'') then None
      else
        (case (parse_range 0 9999 (take 4 s), parse_range 1 12 (take 2 (drop 5 s))) of
           (Some y, Some m) \<Rightarrow>
             (case (parse_range 1 (days_in_month (leap_int y) m) (take 2 (drop 8 s)),
                    parse_range 0 23 (take 2 (drop 11 s)), parse_range 0 59 (take 2 (drop 14 s)),
                    parse_range 0 59 (take 2 (drop 17 s))) of
                (Some d, Some hh, Some mi, Some ss) \<Rightarrow>
                  (let (frac, zone) = split_frac (drop 19 s) in
                   case parse_zone zone of
                     None \<Rightarrow> None
                   | Some off \<Rightarrow>
                       Some (((days_of_civil y m d - epoch_days) * day_secs + hh * 3600 + mi * 60 + ss - off)
                             * second + frac_nanos frac))
              | _ \<Rightarrow> None)
         | _ \<Rightarrow> None))"

text \<open>\<open>mustParseTime\<close>: the zero time for a blank or an unreadable column.\<close>

definition must_parse_time :: "string \<Rightarrow> time" where
  "must_parse_time raw =
     (if trim_space raw = [] then zero_time
      else case parse_rfc3339 raw of None \<Rightarrow> zero_time | Some t \<Rightarrow> t)"

section \<open>Fixed-width numbers\<close>

fun fixed_digits :: "nat \<Rightarrow> nat \<Rightarrow> string" where
  "fixed_digits 0 n = []"
| "fixed_digits (Suc w) n = fixed_digits w (n div 10) @ [digit_char (n mod 10)]"

lemma length_fixed_digits [simp]: "length (fixed_digits w n) = w"
  by (induction w arbitrary: n) auto

lemma fixed_digits_0: "fixed_digits w 0 = replicate w (CHR ''0'')"
proof (induction w)
  case (Suc w)
  then show ?case by (simp add: replicate_append_same digit_char_def flip: replicate_Suc)
qed simp

lemma pad_fixed_digits: "0 < w \<Longrightarrow> n < 10 ^ w \<Longrightarrow> pad w n = fixed_digits w n"
proof (induction w arbitrary: n)
  case (Suc w)
  show ?case
  proof (cases "n < 10")
    case True
    then show ?thesis by (simp add: pad_def show_nat.simps [of n] fixed_digits_0)
  next
    case False
    with Suc.prems have w: "0 < w" "n div 10 < 10 ^ w" by (cases w; auto)+
    have "pad (Suc w) n = pad w (n div 10) @ [digit_char (n mod 10)]"
      using False by (simp add: pad_def show_nat.simps [of n])
    with Suc.IH [OF w] show ?thesis by simp
  qed
qed simp

lemma set_fixed_digits: "c \<in> set (fixed_digits w n) \<Longrightarrow> is_digit c"
  by (induction w arbitrary: n) (auto simp: digit_char_props)

lemma parse_fixed_digits: "n < 10 ^ w \<Longrightarrow> parse_digits acc (fixed_digits w n) = Some (acc * 10 ^ w + n)"
proof (induction w arbitrary: n)
  case (Suc w)
  then have "n div 10 < 10 ^ w" by auto
  with Suc.IH show ?case
    by (simp add: parse_digits_append digit_char_props algebra_simps)
qed simp

lemma append_less_append:
  fixes u v x y :: "'a::linorder list"
  assumes "length u = length v"
  shows "u @ x < v @ y \<longleftrightarrow> u < v \<or> (u = v \<and> x < y)"
  using assms by (induction u v rule: list_induct2) auto

lemma of_char_digit_char: "d < 10 \<Longrightarrow> (of_char (digit_char d) :: nat) = 48 + d"
proof -
  assume "d < 10"
  then have "d \<in> {0,1,2,3,4,5,6,7,8,9}" by auto
  then show ?thesis by (auto simp: digit_char_def)
qed

lemma digit_char_less: "a < 10 \<Longrightarrow> b < 10 \<Longrightarrow> digit_char a < digit_char b \<longleftrightarrow> a < b"
  unfolding less_char_def by (simp only: of_char_digit_char) simp

lemma fixed_digits_inject:
  assumes "m < 10 ^ w" "n < 10 ^ w"
  shows "fixed_digits w m = fixed_digits w n \<longleftrightarrow> m = n"
proof
  assume "fixed_digits w m = fixed_digits w n"
  then have "Some (0 * 10 ^ w + m) = Some (0 * 10 ^ w + n)"
    by (metis parse_fixed_digits [OF assms(1)] parse_fixed_digits [OF assms(2)])
  then show "m = n" by (simp only: mult_0 add_0 option.inject)
qed simp

lemma digits_less:
  fixes m n :: nat
  shows "m div 10 < n div 10 \<or> (m div 10 = n div 10 \<and> m mod 10 < n mod 10) \<longleftrightarrow> m < n"
proof -
  have "m = 10 * (m div 10) + m mod 10" "n = 10 * (n div 10) + n mod 10" "m mod 10 < 10" "n mod 10 < 10" by simp_all
  then show ?thesis by linarith
qed

lemma fixed_digits_less:
  "m < 10 ^ w \<Longrightarrow> n < 10 ^ w \<Longrightarrow> fixed_digits w m < fixed_digits w n \<longleftrightarrow> m < n"
proof (induction w arbitrary: m n)
  case (Suc w)
  then have lt: "m div 10 < 10 ^ w" "n div 10 < 10 ^ w" by auto
  have "fixed_digits (Suc w) m < fixed_digits (Suc w) n \<longleftrightarrow>
      m div 10 < n div 10 \<or> (m div 10 = n div 10 \<and> m mod 10 < n mod 10)"
    using Suc.IH [OF lt] fixed_digits_inject [OF lt]
    by (simp add: append_less_append digit_char_less)
  also have "\<dots> \<longleftrightarrow> m < n"
    by (rule digits_less)
  finally show ?case .
qed simp

end
