(* ===== verification/Time_Text.thy ===== *)
theory Time_Text
  imports Go_Time
begin

text \<open>
  What the timestamp columns promise, for the years 0 to 9999: the text of an instant is read back
  as that instant, and the order of two texts is the order of the instants when they lie in
  different seconds.  Within one second it need not be.
\<close>

section \<open>Monotonicity of the calendar\<close>

lemma days_before_year_mono: "y \<le> y' \<Longrightarrow> days_before_year y \<le> days_before_year y'"
proof (induction rule: int_ge_induct)
  case (step i)
  then show ?case using days_before_year_step [of i] leap_int_bounds [of i] by linarith
qed simp

definition valid_date :: "int \<Rightarrow> int \<Rightarrow> int \<Rightarrow> bool" where
  "valid_date y m d \<longleftrightarrow> 1 \<le> m \<and> m \<le> 12 \<and> 1 \<le> d \<and> d \<le> days_in_month (leap_int y) m"

lemma month_cases:
  assumes "1 \<le> m" "m \<le> (12::int)"
  obtains "m = 1" | "m = 2" | "m = 3" | "m = 4" | "m = 5" | "m = 6" | "m = 7" | "m = 8" | "m = 9"
    | "m = 10" | "m = 11" | "m = 12"
proof -
  have "m = 1 \<or> m = 2 \<or> m = 3 \<or> m = 4 \<or> m = 5 \<or> m = 6 \<or> m = 7 \<or> m = 8 \<or> m = 9 \<or>
      m = 10 \<or> m = 11 \<or> m = 12"
    using assms by presburger
  then show thesis using that by blast
qed

lemma month_start_next:
  assumes l: "0 \<le> l" "l \<le> 1" and m: "1 \<le> m" "m < m'" "m' \<le> 12"
  shows "month_start l m + days_in_month l m \<le> month_start l m'"
proof -
  have "m \<le> 12" "1 \<le> m'" using m by auto
  show ?thesis
    by (rule month_cases [OF m(1) \<open>m \<le> 12\<close>]; rule month_cases [OF \<open>1 \<le> m'\<close> m(3)])
      (use l m in \<open>simp_all add: month_start_def days_in_month_def\<close>)
qed

lemma month_start_bounds:
  assumes "0 \<le> l" "l \<le> 1" "1 \<le> m" "m \<le> 12"
  shows "0 \<le> month_start l m" "month_start l m + days_in_month l m \<le> 365 + l"
  by (rule month_cases [OF assms(3,4)]; use assms in \<open>simp add: month_start_def days_in_month_def\<close>)+

lemma days_of_civil_range:
  assumes "valid_date y m d"
  shows "days_before_year y \<le> days_of_civil y m d" "days_of_civil y m d < days_before_year (y + 1)"
  using assms month_start_bounds [of "leap_int y" m] leap_int_bounds [of y] days_before_year_step [of y]
  by (auto simp: valid_date_def days_of_civil_def)

lemma days_of_civil_less:
  assumes v: "valid_date y m d" "valid_date y' m' d'"
    and lt: "(y, m, d) < (y', m', d')"
  shows "days_of_civil y m d < days_of_civil y' m' d'"
proof -
  have "y < y' \<or> (y = y' \<and> (m < m' \<or> (m = m' \<and> d < d')))"
    using lt by (simp add: less_prod_def')
  then consider "y < y'" | "y = y'" "m < m'" | "y = y'" "m = m'" "d < d'" by blast
  then show ?thesis
  proof cases
    case 1
    then have "days_before_year (y + 1) \<le> days_before_year y'" by (intro days_before_year_mono) simp
    with days_of_civil_range [OF v(1)] days_of_civil_range [OF v(2)] show ?thesis by linarith
  next
    case 2
    then have "month_start (leap_int y) m + days_in_month (leap_int y) m \<le> month_start (leap_int y) m'"
      using v leap_int_bounds [of y] by (intro month_start_next) (auto simp: valid_date_def)
    with 2 v show ?thesis by (auto simp: valid_date_def days_of_civil_def)
  next
    case 3
    then show ?thesis by (simp add: days_of_civil_def)
  qed
qed

lemma civil_of_days_valid: "civil_of_days n = (y, m, d) \<Longrightarrow> valid_date y m d"
  by (simp add: valid_date_def civil_of_days_correct)

lemma civil_of_days_less:
  assumes "n < n'" shows "civil_of_days n < civil_of_days n'"
proof -
  obtain y m d y' m' d' where c: "civil_of_days n = (y, m, d)" "civil_of_days n' = (y', m', d')"
    by (metis prod_cases3)
  have e: "days_of_civil y m d = n" "days_of_civil y' m' d' = n'"
    using c by (auto dest: civil_of_days_correct(1))
  show ?thesis
  proof (rule ccontr)
    assume "\<not> civil_of_days n < civil_of_days n'"
    then consider "(y', m', d') < (y, m, d)" | "(y', m', d') = (y, m, d)" using c by fastforce
    then show False
      using days_of_civil_less [OF civil_of_days_valid [OF c(2)] civil_of_days_valid [OF c(1)]] e assms
      by cases auto
  qed
qed

section \<open>Stamps\<close>

definition year_of_secs :: "int \<Rightarrow> int" where
  "year_of_secs secs = fst (civil_of_days (secs div day_secs + epoch_days))"

definition year_ok :: "time \<Rightarrow> bool" where
  "year_ok t \<longleftrightarrow> 0 \<le> year_of_secs (t div second) \<and> year_of_secs (t div second) \<le> 9999"

lemma three_parts: "a = 60 * q + s \<Longrightarrow> q = 60 * h + m \<Longrightarrow> a = 3600 * h + 60 * m + s"
  for a q h m s :: int
  by simp

lemma sod_parts:
  fixes a :: int
  assumes "0 \<le> a"
  shows "a = 3600 * (a div 3600) + 60 * (a div 60 mod 60) + a mod 60"
    "0 \<le> a div 3600" "0 \<le> a div 60 mod 60" "a div 60 mod 60 < 60" "0 \<le> a mod 60" "a mod 60 < 60"
proof -
  have e: "a div 60 div 60 = a div 3600"
    using zdiv_zmult2_eq [of 60 a 60, symmetric] by (simp only: refl zero_le_numeral simp_thms) simp
  show "a = 3600 * (a div 3600) + 60 * (a div 60 mod 60) + a mod 60"
    by (rule three_parts [OF mult_div_mod_eq [symmetric]])
      (simp only: e [symmetric] mult_div_mod_eq)
qed (use assms in \<open>simp_all only: pos_imp_zdiv_nonneg_iff pos_mod_sign pos_mod_bound zero_less_numeral\<close>)

lemma sod_parts_range:
  assumes "0 \<le> a" "a < (86400::int)"
  shows "nat (a div 3600) < 24" "nat (a div 60 mod 60) < 60" "nat (a mod 60) < 60"
proof -
  obtain h m s where d: "h = a div 3600" "m = a div 60 mod 60" "s = a mod 60" by blast
  note p = sod_parts [OF assms(1), folded d]
  have "h < 24" using p assms(2) by linarith
  with p show "nat (a div 3600) < 24" "nat (a div 60 mod 60) < 60" "nat (a mod 60) < 60"
    unfolding d [symmetric] by auto
qed

lemma stamp_text_fixed:
  assumes "civil_of_days (secs div day_secs + epoch_days) = (y, m, d)" "0 \<le> y" "y \<le> 9999"
    "sod = secs mod day_secs"
  shows "stamp_text secs = fixed_digits 4 (nat y) @ ''-'' @ fixed_digits 2 (nat m) @ ''-'' @
     fixed_digits 2 (nat d) @ ''T'' @ fixed_digits 2 (nat (sod div 3600)) @ '':'' @
     fixed_digits 2 (nat (sod div 60 mod 60)) @ '':'' @ fixed_digits 2 (nat (sod mod 60))"
proof -
  have m: "nat m < 10 ^ 2" "nat d < 10 ^ 2" and y: "nat y < 10 ^ 4"
    using civil_of_days_correct [OF assms(1)] days_in_month_le [of y m] assms(2,3) by auto
  have "0 \<le> sod" "sod < 86400" using assms(4) by auto
  from sod_parts_range [OF this]
  have s: "nat (sod div 3600) < 10 ^ 2" "nat (sod div 60 mod 60) < 10 ^ 2" "nat (sod mod 60) < 10 ^ 2"
    by (simp_all only: power2_eq_square)
  have p: "pad_year y = fixed_digits 4 (nat y)" "pad 2 (nat m) = fixed_digits 2 (nat m)"
    "pad 2 (nat d) = fixed_digits 2 (nat d)"
    "pad 2 (nat (sod div 3600)) = fixed_digits 2 (nat (sod div 3600))"
    "pad 2 (nat (sod div 60 mod 60)) = fixed_digits 2 (nat (sod div 60 mod 60))"
    "pad 2 (nat (sod mod 60)) = fixed_digits 2 (nat (sod mod 60))"
    using y m s assms(2) by (simp_all only: pad_fixed_digits zero_less_numeral pad_year_def not_less [symmetric] if_False)
  show ?thesis
    by (simp only: stamp_text_def assms(4) [symmetric] Let_def assms(1) prod.case p)
qed

lemma sod_parts_less:
  assumes "0 \<le> a" "a < (b::int)"
  shows "(nat (a div 3600), nat (a div 60 mod 60), nat (a mod 60)) <
         (nat (b div 3600), nat (b div 60 mod 60), nat (b mod 60))"
proof -
  have b: "0 \<le> b" using assms by simp
  obtain h m s h' m' s' where d: "h = a div 3600" "m = a div 60 mod 60" "s = a mod 60"
    "h' = b div 3600" "m' = b div 60 mod 60" "s' = b mod 60" by blast
  note p = sod_parts [OF assms(1), folded d] sod_parts [OF b, folded d]
  have r: "h < h' \<or> (h = h' \<and> (m < m' \<or> (m = m' \<and> s < s')))"
    using p assms(2) by linarith
  show ?thesis unfolding d [symmetric] using r p(2,3,5,8,9,11) by auto
qed

section \<open>Order\<close>

lemma length_stamp_text:
  assumes "civil_of_days (secs div day_secs + epoch_days) = (y, m, d)" "0 \<le> y" "y \<le> 9999"
  shows "length (stamp_text secs) = 19"
  by (simp add: stamp_text_fixed [OF assms refl])

lemma append_less_same: "u @ x < u @ y \<longleftrightarrow> x < y" for u x y :: "'a::linorder list"
  by (simp add: append_less_append)

lemma append_less_left:
  "length u = length v \<Longrightarrow> u < v \<Longrightarrow> u @ x < v @ y" for u v x y :: "'a::linorder list"
  by (simp add: append_less_append)

lemma fixed_less:
  "m < n \<Longrightarrow> n < 10 ^ w \<Longrightarrow> fixed_digits w m @ x < fixed_digits w n @ y"
  by (rule append_less_left) (simp_all add: fixed_digits_less)

lemma stamp_text_less:
  assumes y: "0 \<le> year_of_secs s" "year_of_secs s \<le> 9999" "0 \<le> year_of_secs s'" "year_of_secs s' \<le> 9999"
    and lt: "s < s'"
  shows "stamp_text s < stamp_text s'"
proof -
  define n n' where "n = s div day_secs + epoch_days" and "n' = s' div day_secs + epoch_days"
  obtain y m d y' m' d' where c: "civil_of_days n = (y, m, d)" "civil_of_days n' = (y', m', d')"
    by (metis prod_cases3)
  have yy: "0 \<le> y" "y \<le> 9999" "0 \<le> y'" "y' \<le> 9999"
    using y c by (simp_all add: year_of_secs_def n_def n'_def)
  note f = stamp_text_fixed [OF c(1) [unfolded n_def] yy(1,2) refl]
    stamp_text_fixed [OF c(2) [unfolded n'_def] yy(3,4) refl]
  have md: "1 \<le> m" "m \<le> 12" "1 \<le> d" "d \<le> 31" "1 \<le> m'" "m' \<le> 12" "1 \<le> d'" "d' \<le> 31"
    using civil_of_days_correct [OF c(1)] civil_of_days_correct [OF c(2)] days_in_month_le [of y m]
      days_in_month_le [of y' m'] by auto
  have "n \<le> n'" unfolding n_def n'_def using lt by (simp add: zdiv_mono1)
  then consider "n < n'" | "n = n'" by linarith
  then show ?thesis
  proof cases
    case 1
    then have "(y, m, d) < (y', m', d')" using civil_of_days_less [OF 1] c by simp
    then consider "y < y'" | "y = y'" "m < m'" | "y = y'" "m = m'" "d < d'"
      by (simp add: less_prod_def') blast
    then show ?thesis
    proof cases
      case 1
      then show ?thesis unfolding f by (intro fixed_less) (use yy in auto)
    next
      case 2
      then show ?thesis unfolding f 2(1)
        by (simp only: append_less_same) (intro fixed_less, use md in auto)
    next
      case 3
      then show ?thesis unfolding f 3(1,2)
        by (simp only: append_less_same) (intro fixed_less, use md in auto)
    qed
  next
    case 2
    then have e: "s div day_secs = s' div day_secs" by (simp add: n_def n'_def)
    define a b where "a = s mod day_secs" and "b = s' mod day_secs"
    define q where "q = s' div day_secs"
    have "s = day_secs * q + a"
      unfolding a_def q_def e [symmetric] by (rule mult_div_mod_eq [symmetric])
    moreover have "s' = day_secs * q + b"
      unfolding b_def q_def by (rule mult_div_mod_eq [symmetric])
    ultimately have "a < b" using lt by linarith
    then have ab: "0 \<le> a" "a < b" "b < 86400" by (simp_all add: a_def b_def)
    have cc: "y' = y" "m' = m" "d' = d" using c 2 by auto
    have r: "nat (b div 3600) < 10 ^ 2" "nat (b div 60 mod 60) < 10 ^ 2" "nat (b mod 60) < 10 ^ 2"
      using sod_parts_range [of b] ab by (simp_all only: power2_eq_square)
    obtain h mi se h' mi' se' where t: "h = nat (a div 3600)" "mi = nat (a div 60 mod 60)" "se = nat (a mod 60)"
      "h' = nat (b div 3600)" "mi' = nat (b div 60 mod 60)" "se' = nat (b mod 60)" by blast
    note r' = r [folded t(4-6)]
    have "(h, mi, se) < (h', mi', se')" unfolding t by (rule sod_parts_less) (use ab in auto)
    then consider "h < h'" | "h = h'" "mi < mi'" | "h = h'" "mi = mi'" "se < se'"
      by (simp add: less_prod_def') blast
    then show ?thesis
    proof cases
      case 1
      then show ?thesis unfolding f cc a_def [symmetric] b_def [symmetric] t [symmetric]
        by (simp only: append_less_same) (intro fixed_less, use r' in \<open>simp_all only:\<close>)
    next
      case 2
      then show ?thesis unfolding f cc a_def [symmetric] b_def [symmetric] t [symmetric] 2(1)
        by (simp only: append_less_same) (intro fixed_less, use r' in \<open>simp_all only:\<close>)
    next
      case 3
      then show ?thesis unfolding f cc a_def [symmetric] b_def [symmetric] t [symmetric] 3(1,2)
        by (simp only: append_less_same) (subst fixed_digits_less, use r' in \<open>simp_all only:\<close>)
    qed
  qed
qed

text \<open>Instants in different seconds are ordered as their texts.\<close>

lemma time_text_less_second:
  assumes "year_ok t" "year_ok t'" "t div second < t' div second"
  shows "time_text t < time_text t'"
proof -
  obtain y m d y' m' d' where c: "civil_of_days (t div second div day_secs + epoch_days) = (y, m, d)"
    "civil_of_days (t' div second div day_secs + epoch_days) = (y', m', d')"
    by (metis prod_cases3)
  have "length (stamp_text (t div second)) = length (stamp_text (t' div second))"
    using assms(1,2) length_stamp_text [OF c(1)] length_stamp_text [OF c(2)] c
    by (simp add: year_ok_def year_of_secs_def)
  then show ?thesis
    unfolding time_text_def
    by (rule append_less_left) (use assms stamp_text_less in \<open>simp add: year_ok_def\<close>)
qed

section \<open>Reading back\<close>

lemma strip_zeros_append:
  "\<exists>k. s = strip_zeros s @ replicate k (CHR ''0'')"
proof (induction s rule: rev_induct)
  case Nil
  show ?case by (simp add: strip_zeros_def)
next
  case (snoc c s)
  show ?case
  proof (cases "c = CHR ''0''")
    case True
    then have e: "strip_zeros (s @ [c]) = strip_zeros s" by (simp add: strip_zeros_def)
    from snoc obtain k where "s = strip_zeros s @ replicate k (CHR ''0'')" by blast
    then have "s @ [c] = strip_zeros s @ (replicate k (CHR ''0'') @ [CHR ''0''])"
      using True by (metis append_assoc)
    then have "s @ [c] = strip_zeros (s @ [c]) @ replicate (Suc k) (CHR ''0'')"
      unfolding e by (simp only: replicate_append_same replicate_Suc)
    then show ?thesis by blast
  next
    case False
    then have "strip_zeros (s @ [c]) = s @ [c]" by (simp add: strip_zeros_def)
    then show ?thesis by (intro exI [of _ 0]) simp
  qed
qed

lemma take_strip_zeros:
  assumes "length s = n"
  shows "take n (strip_zeros s @ replicate n (CHR ''0'')) = s"
proof -
  obtain k where k: "s = strip_zeros s @ replicate k (CHR ''0'')" using strip_zeros_append by blast
  then have "k \<le> n" "length (strip_zeros s) = n - k" using assms by (metis add_diff_cancel_right' le_add2 length_append length_replicate)+
  then have "take n (strip_zeros s @ replicate n (CHR ''0'')) = strip_zeros s @ replicate k (CHR ''0'')"
    by simp
  with k show ?thesis by simp
qed

lemma frac_nanos_strip:
  assumes "n < 10 ^ 9"
  shows "frac_nanos (strip_zeros (pad 9 n)) = int n"
proof -
  have p: "pad 9 n = fixed_digits 9 n" by (rule pad_fixed_digits) (use assms in auto)
  have l: "length (fixed_digits 9 n) = 9" by (rule length_fixed_digits)
  have q: "parse_digits 0 (fixed_digits 9 n) = Some (0 * 10 ^ 9 + n)"
    by (rule parse_fixed_digits [OF assms])
  show ?thesis unfolding frac_nanos_def p take_strip_zeros [OF l] q by simp
qed

lemma strip_zeros_digits: "\<forall>c \<in> set s. is_digit c \<Longrightarrow> \<forall>c \<in> set (strip_zeros s). is_digit c"
  by (auto simp: strip_zeros_def dest: set_dropWhileD)

lemma strip_zeros_Nil: "strip_zeros s = [] \<Longrightarrow> s = replicate (length s) (CHR ''0'')"
  by (metis append_Nil length_replicate strip_zeros_append)

lemma split_frac_text:
  assumes "n < 10 ^ 9"
  shows "split_frac (frac_text n @ ''Z'') = (if n = 0 then [] else strip_zeros (pad 9 n), ''Z'')"
proof (cases "n = 0")
  case True
  then show ?thesis by (simp add: frac_text_def split_frac_def)
next
  case False
  have p: "pad 9 n = fixed_digits 9 n" by (rule pad_fixed_digits) (use assms in auto)
  have "strip_zeros (pad 9 n) \<noteq> []"
  proof
    assume "strip_zeros (pad 9 n) = []"
    then have "fixed_digits 9 n = fixed_digits 9 0"
      using strip_zeros_Nil [of "fixed_digits 9 n"] unfolding p by (simp only: length_fixed_digits fixed_digits_0)
    then show False using False fixed_digits_inject [OF assms, of 0] by simp
  qed
  then obtain x xs where x: "strip_zeros (pad 9 n) = x # xs" by (cases "strip_zeros (pad 9 n)") auto
  have d: "\<forall>c \<in> set (x # xs). is_digit c"
    using strip_zeros_digits [of "fixed_digits 9 n"] set_fixed_digits [of _ 9 n] unfolding p [symmetric] x [symmetric] by auto
  have z: "\<not> is_digit (CHR ''Z'')" by (simp add: is_digit_def)
  have "takeWhile is_digit ((x # xs) @ ''Z'') = x # xs" "dropWhile is_digit ((x # xs) @ ''Z'') = ''Z''"
    using d z by (simp_all only: takeWhile_append2 dropWhile_append2 takeWhile.simps dropWhile.simps if_False append_Nil2)
  then show ?thesis
    using False d by (simp add: frac_text_def split_frac_def x)
qed

lemma parse_range_fixed:
  assumes "n < 10 ^ w" "lo \<le> int n" "int n \<le> hi"
  shows "parse_range lo hi (fixed_digits w n) = Some (int n)"
  using parse_fixed_digits [OF assms(1), of 0] assms(2,3) by (simp add: parse_range_def)

lemma length_4E:
  assumes "length s = 4" obtains a b c d where "s = [a, b, c, d]"
  using assms by (auto simp: eval_nat_numeral length_Suc_conv)

lemma length_2E:
  assumes "length s = 2" obtains a b where "s = [a, b]"
  using assms by (auto simp: eval_nat_numeral length_Suc_conv)

text \<open>The parser on a text of the printed shape.\<close>

lemma parse_rfc3339_stamp:
  assumes l: "length ys = 4" "length ms = 2" "length ds = 2" "length hs = 2" "length is = 2" "length ss = 2"
    and y: "parse_range 0 9999 ys = Some y" and m: "parse_range 1 12 ms = Some m"
    and d: "parse_range 1 (days_in_month (leap_int y) m) ds = Some d"
    and h: "parse_range 0 23 hs = Some h" and mi: "parse_range 0 59 is = Some i"
    and s: "parse_range 0 59 ss = Some sec" and f: "split_frac rest = (frac, ''Z'')"
  shows "parse_rfc3339 (ys @ ''-'' @ ms @ ''-'' @ ds @ ''T'' @ hs @ '':'' @ is @ '':'' @ ss @ rest) =
     Some (((days_of_civil y m d - epoch_days) * day_secs + h * 3600 + i * 60 + sec) * second + frac_nanos frac)"
proof -
  obtain y1 y2 y3 y4 m1 m2 d1 d2 h1 h2 i1 i2 s1 s2 where e: "ys = [y1, y2, y3, y4]" "ms = [m1, m2]"
    "ds = [d1, d2]" "hs = [h1, h2]" "is = [i1, i2]" "ss = [s1, s2]"
    using l by (elim length_4E length_2E) blast
  have z: "parse_zone ''Z'' = Some 0" by (simp add: parse_zone_def)
  note t = y [unfolded e] m [unfolded e] d [unfolded e] h [unfolded e] mi [unfolded e] s [unfolded e] f z
  show ?thesis
    unfolding e by (simp add: parse_rfc3339_def eval_nat_numeral t [unfolded eval_nat_numeral])
qed

lemma parse_time_text:
  assumes "year_ok t"
  shows "parse_rfc3339 (time_text t) = Some t"
proof -
  define secs n sod where "secs = t div second" and "n = secs div day_secs + epoch_days"
    and "sod = secs mod day_secs"
  obtain y m d where c: "civil_of_days n = (y, m, d)" by (metis prod_cases3)
  have y: "0 \<le> y" "y \<le> 9999" using assms c by (simp_all add: year_ok_def year_of_secs_def n_def secs_def)
  note cc = civil_of_days_correct [OF c]
  have sod: "0 \<le> sod" "sod < 86400" by (simp_all add: sod_def)
  obtain h mi s where p: "h = sod div 3600" "mi = sod div 60 mod 60" "s = sod mod 60" by blast
  note sp = sod_parts [OF sod(1), folded p]
  note sr = sod_parts_range [OF sod, folded p]
  define ns where "ns = nat (t mod second)"
  have ns: "ns < 10 ^ 9" "int ns = t mod second" by (simp_all add: ns_def nat_less_iff)
  have st: "stamp_text secs = fixed_digits 4 (nat y) @ ''-'' @ fixed_digits 2 (nat m) @ ''-'' @
     fixed_digits 2 (nat d) @ ''T'' @ fixed_digits 2 (nat h) @ '':'' @
     fixed_digits 2 (nat mi) @ '':'' @ fixed_digits 2 (nat s)"
    unfolding p by (rule stamp_text_fixed [OF c [unfolded n_def] y sod_def])
  have md: "nat m < 10 ^ 2" "nat d < 10 ^ 2" "nat y < 10 ^ 4"
    using cc days_in_month_le [of y m] y by auto
  have hms: "nat h < 10 ^ 2" "nat mi < 10 ^ 2" "nat s < 10 ^ 2" using sr by auto
  have rY: "parse_range 0 9999 (fixed_digits 4 (nat y)) = Some y"
    using parse_range_fixed [OF md(3), of 0 9999] y by simp
  have rM: "parse_range 1 12 (fixed_digits 2 (nat m)) = Some m"
    using parse_range_fixed [OF md(1), of 1 12] cc by simp
  have rD: "parse_range 1 (days_in_month (leap_int y) m) (fixed_digits 2 (nat d)) = Some d"
    using parse_range_fixed [OF md(2), of 1 "days_in_month (leap_int y) m"] cc by simp
  have rH: "parse_range 0 23 (fixed_digits 2 (nat h)) = Some h"
    using parse_range_fixed [OF hms(1), of 0 23] sp sr by simp
  have rI: "parse_range 0 59 (fixed_digits 2 (nat mi)) = Some mi"
    using parse_range_fixed [OF hms(2), of 0 59] sp by simp
  have rS: "parse_range 0 59 (fixed_digits 2 (nat s)) = Some s"
    using parse_range_fixed [OF hms(3), of 0 59] sp by simp
  define frac where "frac = (if ns = 0 then [] else strip_zeros (pad 9 ns))"
  have sf: "split_frac (frac_text ns @ ''Z'') = (frac, ''Z'')"
    unfolding frac_def by (rule split_frac_text [OF ns(1)])
  have fn: "frac_nanos frac = t mod second"
  proof (cases "ns = 0")
    case True
    then have "t mod second = 0" using ns(2) by simp
    moreover have "frac_nanos [] = 0" by (simp add: frac_nanos_def eval_nat_numeral is_digit_def digit_val_def)
    ultimately show ?thesis using True by (simp add: frac_def)
  next
    case False
    then show ?thesis unfolding frac_def using frac_nanos_strip [OF ns(1)] ns(2) by simp
  qed
  have "parse_rfc3339 (time_text t) =
     Some (((days_of_civil y m d - epoch_days) * day_secs + h * 3600 + mi * 60 + s) * second + frac_nanos frac)"
    unfolding time_text_def secs_def [symmetric] ns_def [symmetric] st append_assoc
    by (rule parse_rfc3339_stamp [OF length_fixed_digits length_fixed_digits length_fixed_digits
          length_fixed_digits length_fixed_digits length_fixed_digits rY rM rD rH rI rS sf])
  also have "(days_of_civil y m d - epoch_days) * day_secs + h * 3600 + mi * 60 + s = secs"
  proof -
    have "days_of_civil y m d - epoch_days = secs div day_secs" by (simp add: cc(1) n_def)
    moreover have "h * 3600 + mi * 60 + s = sod" using sp(1) by simp
    moreover have "secs div day_secs * day_secs + sod = secs"
      unfolding sod_def by (rule div_mult_mod_eq)
    ultimately show ?thesis by (simp only: add.assoc)
  qed
  also have "secs * second + frac_nanos frac = t"
    unfolding fn secs_def by (rule div_mult_mod_eq)
  finally show ?thesis .
qed

lemma space_runes_ends: "\<forall>w \<in> set space_runes. \<not> is_digit (hd w) \<and> last w \<noteq> CHR ''Z''"
  by (simp add: space_runes_def is_digit_def)

lemma time_text_not_blank: "year_ok t \<Longrightarrow> trim_space (time_text t) \<noteq> []"
proof -
  assume t: "year_ok t"
  obtain y m d where c: "civil_of_days (t div second div day_secs + epoch_days) = (y, m, d)"
    by (metis prod_cases3)
  have y: "0 \<le> y" "y \<le> 9999" using t c by (simp_all add: year_ok_def year_of_secs_def)
  obtain x xs where x: "time_text t = x # xs" "is_digit x"
    unfolding time_text_def stamp_text_fixed [OF c y refl]
    using set_fixed_digits [of _ 4 "nat y"] length_fixed_digits [of 4 "nat y"]
    by (cases "fixed_digits 4 (nat y)") auto
  have "lead_space (time_text t) = None"
  proof (rule ccontr)
    assume "lead_space (time_text t) \<noteq> None"
    then obtain w where w: "w \<in> set space_runes" "prefix w (time_text t)" "w \<noteq> []"
      by (auto dest: lead_space_Some)
    have "hd w = x" using w(2,3) unfolding x(1) by (cases w; simp)
    with w(1) space_runes_ends x(2) show False by blast
  qed
  then have "trim_left (time_text t) = time_text t" by simp
  moreover have "trail_space (time_text t) = None"
  proof (rule ccontr)
    assume "trail_space (time_text t) \<noteq> None"
    then obtain w where w: "w \<in> set space_runes" "suffix w (time_text t)" "w \<noteq> []"
      by (auto dest: trail_space_Some)
    then have "last w = last (time_text t)" by (auto simp: suffix_def)
    also have "\<dots> = CHR ''Z''" by (simp add: time_text_def)
    finally show False using w(1) space_runes_ends by blast
  qed
  ultimately show ?thesis by (simp add: trim_space_def x(1))
qed

text \<open>\<open>mustParseTime\<close> after \<open>timeText\<close> is the identity.\<close>

lemma must_parse_time_text: "year_ok t \<Longrightarrow> must_parse_time (time_text t) = t"
  by (simp add: must_parse_time_def parse_time_text time_text_not_blank)

end
