(* ===== verification/Data_Model.thy ===== *)
theory Data_Model
  imports Time_Text Complex_Main
begin

text \<open>
  The shared data of the program: the enumerations and records of \<open>pkg/model/types.go\<close>, the
  error codes of \<open>pkg/model/errors.go\<close> and the runtime records of
  \<open>internal/runtime/model/types.go\<close>.  A string-typed enumeration of the source is a
  \<open>datatype\<close>; where the source also uses the empty string (a column's default) the datatype
  has a constructor for it.  A Go \<open>map[string]T\<close> is an association list, a pointer that may
  be nil an \<open>option\<close>, a JSON value of type \<open>any\<close> a \<open>json\<close>.
\<close>

section \<open>Enumerations\<close>

datatype event_status =
  EventStatusReceived | EventStatusQueued | EventStatusProcessing
| EventStatusProcessed | EventStatusSuppressed | EventStatusFailed

datatype run_status = RunStatusStarted | RunStatusCompleted | RunStatusFailed

datatype outbox_status =
  OutboxStatusUnset | OutboxStatusPending | OutboxStatusSending | OutboxStatusSent
| OutboxStatusRetryWait | OutboxStatusDead

datatype scheduled_job_kind = ScheduledJobKindCron | ScheduledJobKindDelayed | ScheduledJobKindRetry

datatype scheduled_job_status = ScheduledJobStatusActive | ScheduledJobStatusPaused

datatype run_mode = RunModeUnset | RunModeNormal | RunModeNoReply

fun event_status_text :: "event_status \<Rightarrow> string" where
  "event_status_text EventStatusReceived = ''received''"
| "event_status_text EventStatusQueued = ''queued''"
| "event_status_text EventStatusProcessing = ''processing''"
| "event_status_text EventStatusProcessed = ''processed''"
| "event_status_text EventStatusSuppressed = ''suppressed''"
| "event_status_text EventStatusFailed = ''failed''"

fun job_kind_text :: "scheduled_job_kind \<Rightarrow> string" where
  "job_kind_text ScheduledJobKindCron = ''cron''"
| "job_kind_text ScheduledJobKindDelayed = ''delayed''"
| "job_kind_text ScheduledJobKindRetry = ''retry''"

lemma event_status_text_inject [simp]: "event_status_text s = event_status_text t \<longleftrightarrow> s = t"
  by (cases s; cases t) simp_all

text \<open>The statuses after which an event is not worked on any more.\<close>

definition event_terminal :: "event_status \<Rightarrow> bool" where
  "event_terminal s = (s \<in> {EventStatusProcessed, EventStatusSuppressed, EventStatusFailed})"

definition event_runnable :: "event_status \<Rightarrow> bool" where
  "event_runnable s = (s \<in> {EventStatusReceived, EventStatusQueued})"

lemma event_status_classes:
  "event_terminal s \<or> event_runnable s \<or> s = EventStatusProcessing"
  "\<not> (event_terminal s \<and> event_runnable s)"
  by (cases s; simp add: event_terminal_def event_runnable_def)+

section \<open>Error codes\<close>

definition ErrorCodeInvalidArgument :: string where "ErrorCodeInvalidArgument = ''INVALID_ARGUMENT''"
definition ErrorCodeRateLimited :: string where "ErrorCodeRateLimited = ''RATE_LIMITED''"
definition ErrorCodeConflict :: string where "ErrorCodeConflict = ''CONFLICT''"
definition ErrorCodeInternal :: string where "ErrorCodeInternal = ''INTERNAL''"
definition ErrorCodeQueueFull :: string where "ErrorCodeQueueFull = ''QUEUE_FULL''"
definition ErrorCodeQueueUnavailable :: string where "ErrorCodeQueueUnavailable = ''QUEUE_UNAVAILABLE''"
definition ErrorCodeCanceled :: string where "ErrorCodeCanceled = ''CANCELED''"
definition ErrorCodeUnauthorized :: string where "ErrorCodeUnauthorized = ''UNAUTHORIZED''"
definition ErrorCodeForbidden :: string where "ErrorCodeForbidden = ''FORBIDDEN''"
definition ErrorCodeNotFound :: string where "ErrorCodeNotFound = ''NOT_FOUND''"

section \<open>Records\<close>

datatype json =
  JNull | JBool bool | JNum rat | JStr string | JArr "json list" | JObj "(string \<times> json) list"

type_synonym json_object = "(string \<times> json) list"
type_synonym string_map = "(string \<times> string) list"

record conversation =
  conversation_id :: string
  thread_id :: string
  channel_type :: string
  participant_id :: string

record attachment =
  attachment_id :: string
  filename :: string
  mime :: string
  att_size :: int

record event_payload =
  payload_type :: string
  payload_text :: string
  mentions :: "string list"
  attachments :: "attachment list"
  native :: "json option"
  native_ref :: string
  extra :: string_map

record internal_event =
  event_id :: string
  source :: string
  tenant_id :: string
  scopes :: "string list"
  ie_conversation :: conversation
  session_key :: string
  idempotency_key :: string
  timestamp :: time
  payload :: event_payload
  active_session_id :: string

record error_block =
  eb_code :: string
  eb_message :: string
  eb_details :: json_object

record tool_call =
  tc_id :: string
  tc_name :: string
  tc_args :: json_object

record work_item =
  wi_event_id :: string
  wi_session_key :: string
  wi_lane_key :: string
  wi_source :: string
  wi_channel :: string
  wi_metadata :: string_map

record claim_context =
  cc_work :: work_item
  cc_event :: internal_event
  cc_run_id :: string
  cc_run_mode :: run_mode
  cc_session_key :: string
  cc_session_id :: string
  cc_source :: string
  cc_channel :: string
  cc_metadata :: string_map

record stored_message =
  sm_message_id :: string
  sm_session_key :: string
  sm_session_id :: string
  sm_run_id :: string
  sm_role :: string
  sm_content :: string
  sm_visible :: bool
  sm_tool_calls :: "tool_call list"
  sm_tool_call_id :: string
  sm_tool_name :: string
  sm_tool_args :: json_object
  sm_tool_result :: json_object
  sm_meta :: json_object
  sm_created_at :: time

text \<open>\<open>RunFinalize\<close>, which is also \<open>FinalizeCommand\<close>.\<close>

record finalize_command =
  fc_run_id :: string
  fc_event_id :: string
  fc_session_key :: string
  fc_session_id :: string
  fc_run_mode :: run_mode
  fc_run_status :: run_status
  fc_event_status :: event_status
  fc_provider :: string
  fc_model :: string
  fc_prompt_tokens :: int
  fc_completion_tokens :: int
  fc_total_tokens :: int
  fc_latency_ms :: int
  fc_finish_reason :: string
  fc_raw_finish_reason :: string
  fc_provider_request_id :: string
  fc_output_text :: string
  fc_tool_calls :: "tool_call list"
  fc_diagnostics :: string_map
  fc_error :: "error_block option"
  fc_assistant_reply :: string
  fc_messages :: "stored_message list"
  fc_outbox_channel :: string
  fc_outbox_target_id :: string
  fc_outbox_body :: string
  fc_now :: time

record delivery_intent =
  di_channel :: string
  di_target_id :: string
  di_body :: string
  di_metadata :: string_map

record execution_result =
  er_run_mode :: run_mode
  er_assistant_reply :: string
  er_output_messages :: "stored_message list"
  er_tool_calls :: "tool_call list"
  er_diagnostics :: string_map
  er_delivery :: "delivery_intent option"
  er_suppress_output :: bool
  er_provider :: string
  er_model :: string
  er_prompt_tokens :: int
  er_completion_tokens :: int
  er_total_tokens :: int
  er_latency_ms :: int
  er_finish_reason :: string
  er_raw_finish_reason :: string
  er_provider_request_id :: string
  er_output_text :: string
  er_error :: "error_block option"

text \<open>The zero value \<open>ExecutionResult{}\<close>.\<close>

definition empty_execution_result :: execution_result where
  "empty_execution_result = \<lparr> er_run_mode = RunModeUnset, er_assistant_reply = [], er_output_messages = [],
     er_tool_calls = [], er_diagnostics = [], er_delivery = None, er_suppress_output = False,
     er_provider = [], er_model = [], er_prompt_tokens = 0, er_completion_tokens = 0,
     er_total_tokens = 0, er_latency_ms = 0, er_finish_reason = [], er_raw_finish_reason = [],
     er_provider_request_id = [], er_output_text = [], er_error = None \<rparr>"

record event_record =
  rec_event_id :: string
  rec_status :: event_status
  rec_outbox_status :: outbox_status
  rec_session_key :: string
  rec_session_id :: string
  rec_run_id :: string
  rec_run_mode :: run_mode
  rec_assistant_reply :: string
  rec_outbox_id :: string
  rec_processing_lease :: string
  rec_received_at :: time
  rec_created_at :: time
  rec_updated_at :: time
  rec_payload_hash :: string
  rec_provider :: string
  rec_model :: string
  rec_provider_request_id :: string
  rec_error :: "error_block option"

record claimed_outbox =
  co_outbox_id :: string
  co_event_id :: string
  co_session_key :: string
  co_channel :: string
  co_target_id :: string
  co_body :: string
  co_attempt_count :: int
  co_created_at :: time

record scheduled_job_payload =
  jp_source :: string
  jp_tenant_id :: string
  jp_conversation :: conversation
  jp_payload :: event_payload
  jp_interval_seconds :: int

record claimed_job =
  cj_job_id :: string
  cj_name :: string
  cj_kind :: scheduled_job_kind
  cj_status :: scheduled_job_status
  cj_payload :: scheduled_job_payload
  cj_attempt_count :: int
  cj_next_run_at :: time

section \<open>Runtime events\<close>

datatype runtime_event_kind =
  RuntimeEventClaimed | RuntimeEventExecuting | RuntimeEventReasoningDelta | RuntimeEventTextDelta
| RuntimeEventToolStarted | RuntimeEventToolFinished | RuntimeEventFinalizeStarted
| RuntimeEventCompleted | RuntimeEventFailed

record runtime_event =
  re_kind :: runtime_event_kind
  re_work :: work_item
  re_event_id :: string
  re_sequence :: int
  re_run_id :: string
  re_session_key :: string
  re_session_id :: string
  re_status :: string
  re_delta :: string
  re_tool_call_id :: string
  re_tool_name :: string
  re_args :: json_object
  re_result :: json_object
  re_truncated :: bool
  re_message :: string
  re_occurred_at :: time
  re_metadata :: string_map
  re_error :: "error_block option"
  re_event_record :: "event_record option"

definition is_terminal :: "runtime_event \<Rightarrow> bool" where
  "is_terminal e = (re_kind e = RuntimeEventCompleted \<or> re_kind e = RuntimeEventFailed)"

end
