(* ===== verification/Bindings.thy ===== *)
theory Bindings
  imports Data_Model
begin

text \<open>
  \<open>internal/gateway/bindings\<close> and \<open>internal/gateway/model/types.go\<close>: how an ingress is
  bound to a session.  \<open>ComputeKey\<close> derives the session key from tenant, conversation and
  scope, and \<open>DefaultResolver\<close> chooses the scope.  SHA-256 is the argument \<open>sha256\<close>; the
  store behind \<open>SessionLookup\<close> is a record of its two operations.
\<close>

record normalized_ingress =
  in_source :: string
  in_conversation :: conversation
  in_session_key_hint :: string
  in_idempotency_key :: string
  in_timestamp :: time
  in_dm_scope :: string
  in_payload :: event_payload
  in_metadata :: string_map

record binding_context =
  bc_tenant_id :: string
  bc_session_key :: string
  bc_session_id :: string
  bc_scope :: string
  bc_conversation :: conversation
  bc_metadata :: string_map

record route_decision =
  rd_run_mode :: run_mode
  rd_payload_type :: string
  rd_suppress_output :: bool
  rd_metadata :: string_map

record session_scope_record =
  ss_conversation_id :: string
  ss_channel_type :: string
  ss_participant_id :: string
  ss_dm_scope :: string
  ss_session_id :: string

record session_lookup =
  get_conversation_dm_scope :: "string \<Rightarrow> conversation \<Rightarrow> string + string option"
  get_scope_session :: "string \<Rightarrow> string + session_scope_record option"

section \<open>Scopes\<close>

definition default_scope :: string where
  "default_scope = ''default''"

definition normalize_scope :: "string \<Rightarrow> string" where
  "normalize_scope scope = (let s = trim_space scope in if s = [] then default_scope else s)"

definition is_new_session_command :: "string \<Rightarrow> bool" where
  "is_new_session_command text =
     (case string_fields (trim_space text) of
        [token] \<Rightarrow> token = ''/new'' \<or> prefix ''/new@'' token
      | _ \<Rightarrow> False)"

definition hex_digit :: "nat \<Rightarrow> char" where
  "hex_digit d = ''0123456789abcdef'' ! d"

text \<open>\<open>hex.EncodeToString\<close>.\<close>

definition hex_encode :: "string \<Rightarrow> string" where
  "hex_encode bs = concat (map (\<lambda>b. [hex_digit ((of_char b :: nat) div 16), hex_digit ((of_char b :: nat) mod 16)]) bs)"

definition new_scope_from_id :: "(string \<Rightarrow> string) \<Rightarrow> string \<Rightarrow> string" where
  "new_scope_from_id sha256 idem =
     ''scope_'' @ hex_encode (take 8 (sha256 (''new_session:'' @ trim_space idem)))"

definition scope_from_ingress :: "normalized_ingress \<Rightarrow> string" where
  "scope_from_ingress i = normalize_scope (in_dm_scope i)"

section \<open>Session keys\<close>

definition raw_key :: "string \<Rightarrow> conversation \<Rightarrow> string \<Rightarrow> string \<Rightarrow> string" where
  "raw_key tenant conv participant scope =
     join ''|'' [tenant, conversation_id conv, channel_type conv, participant, scope]"

definition key_participant :: "conversation \<Rightarrow> string" where
  "key_participant conv = (if channel_type conv = ''dm'' then participant_id conv else ''-'')"

definition compute_key :: "(string \<Rightarrow> string) \<Rightarrow> string \<Rightarrow> conversation \<Rightarrow> string \<Rightarrow> string + string" where
  "compute_key sha256 tenant conv dm_scope =
     (if tenant = [] then Inl ''tenant_id is required''
      else if conversation_id conv = [] then Inl ''conversation_id is required''
      else if channel_type conv = [] then Inl ''channel_type is required''
      else if channel_type conv = ''dm'' \<and> participant_id conv = [] then Inl ''participant_id is required for dm''
      else Inr (''sk:'' @ hex_encode (sha256 (raw_key tenant conv (key_participant conv) (normalize_scope dm_scope)))))"

section \<open>Hints\<close>

definition HintPayloadTypeOverride :: string where "HintPayloadTypeOverride = ''payload_type_override''"
definition HintScopeSource :: string where "HintScopeSource = ''scope_source''"
definition ScopeSourceNewSession :: string where "ScopeSourceNewSession = ''new_session''"
definition ScopeSourceSessionKey :: string where "ScopeSourceSessionKey = ''session_key_hint''"
definition ScopeSourceIngress :: string where "ScopeSourceIngress = ''ingress''"
definition ScopeSourceStored :: string where "ScopeSourceStored = ''stored''"
definition ScopeSourceDefault :: string where "ScopeSourceDefault = ''default''"

text \<open>Assignment to a key of a Go map held as an association list.\<close>

fun map_put :: "'k \<Rightarrow> 'v \<Rightarrow> ('k \<times> 'v) list \<Rightarrow> ('k \<times> 'v) list" where
  "map_put k v [] = [(k, v)]"
| "map_put k v ((k', v') # m) = (if k' = k then (k, v) # m else (k', v') # map_put k v m)"

lemma map_of_map_put [simp]: "map_of (map_put k v m) = (map_of m)(k \<mapsto> v)"
  by (induction m) auto

text \<open>Reading a missing key of a Go map of strings gives the empty string.\<close>

definition map_get :: "(string \<times> string) list \<Rightarrow> string \<Rightarrow> string" where
  "map_get m k = (case map_of m k of None \<Rightarrow> [] | Some v \<Rightarrow> v)"

definition with_hint :: "string_map \<Rightarrow> string \<Rightarrow> string \<Rightarrow> string_map" where
  "with_hint meta key value = (if value = [] then meta else map_put key value meta)"

definition payload_type_override :: "string_map \<Rightarrow> string" where
  "payload_type_override meta = map_get meta HintPayloadTypeOverride"

section \<open>The resolver\<close>

definition payload_type_new_session :: string where
  "payload_type_new_session = ''new_session''"

definition scope_from_session_hint ::
  "session_lookup option \<Rightarrow> normalized_ingress \<Rightarrow> string + (string \<times> string) option" where
  "scope_from_session_hint repo i =
     (case repo of
        None \<Rightarrow> Inr None
      | Some r \<Rightarrow>
          if in_session_key_hint i = [] then Inr None
          else (case get_scope_session r (in_session_key_hint i) of
                  Inl e \<Rightarrow> Inl (''load session hint: '' @ e)
                | Inr None \<Rightarrow> Inr None
                | Inr (Some rec) \<Rightarrow>
                    if ss_conversation_id rec \<noteq> conversation_id (in_conversation i)
                       \<or> ss_channel_type rec \<noteq> channel_type (in_conversation i)
                       \<or> ss_participant_id rec \<noteq> participant_id (in_conversation i)
                    then Inr None
                    else Inr (Some (normalize_scope (ss_dm_scope rec), ss_session_id rec))))"

text \<open>The scope, the binding metadata and the session id.\<close>

definition resolve_scope ::
  "(string \<Rightarrow> string) \<Rightarrow> string \<Rightarrow> session_lookup option \<Rightarrow> normalized_ingress
   \<Rightarrow> string + (string \<times> string_map \<times> string)" where
  "resolve_scope sha256 tenant repo i =
     (if payload_type (in_payload i) = ''message'' \<and> is_new_session_command (payload_text (in_payload i))
      then Inr (new_scope_from_id sha256 (in_idempotency_key i),
                with_hint (with_hint [] HintPayloadTypeOverride payload_type_new_session)
                  HintScopeSource ScopeSourceNewSession, [])
      else
        (case scope_from_session_hint repo i of
           Inl e \<Rightarrow> Inl e
         | Inr (Some (scope, session_id)) \<Rightarrow>
             Inr (scope, with_hint [] HintScopeSource ScopeSourceSessionKey, session_id)
         | Inr None \<Rightarrow>
             if in_dm_scope i \<noteq> []
             then Inr (scope_from_ingress i, with_hint [] HintScopeSource ScopeSourceIngress, [])
             else
               (case repo of
                  None \<Rightarrow> Inr (default_scope, with_hint [] HintScopeSource ScopeSourceDefault, [])
                | Some r \<Rightarrow>
                    (case get_conversation_dm_scope r tenant (in_conversation i) of
                       Inl e \<Rightarrow> Inl (''load conversation scope: '' @ e)
                     | Inr (Some scope) \<Rightarrow>
                         Inr (normalize_scope scope, with_hint [] HintScopeSource ScopeSourceStored, [])
                     | Inr None \<Rightarrow>
                         Inr (default_scope, with_hint [] HintScopeSource ScopeSourceDefault, [])))))"

definition resolve_binding ::
  "(string \<Rightarrow> string) \<Rightarrow> string \<Rightarrow> session_lookup option \<Rightarrow> normalized_ingress \<Rightarrow> string + binding_context" where
  "resolve_binding sha256 tenant repo i =
     (case resolve_scope sha256 tenant repo i of
        Inl e \<Rightarrow> Inl e
      | Inr (scope, meta, session_id) \<Rightarrow>
          (case compute_key sha256 tenant (in_conversation i) scope of
             Inl e \<Rightarrow> Inl e
           | Inr key \<Rightarrow>
               Inr \<lparr> bc_tenant_id = tenant, bc_session_key = key, bc_session_id = session_id,
                     bc_scope = scope, bc_conversation = in_conversation i, bc_metadata = meta \<rparr>))"

section \<open>Facts\<close>

lemma normalize_scope_not_Nil [simp]: "normalize_scope s \<noteq> []"
  by (simp add: normalize_scope_def default_scope_def Let_def)

lemma trim_default_scope [simp]: "trim_space default_scope = default_scope"
  by (rule trim_space_id)
    (auto simp: lead_space_def trail_space_def find_None_iff space_runes_def default_scope_def suffix_def)

lemma normalize_scope_idem [simp]: "normalize_scope (normalize_scope s) = normalize_scope s"
  by (simp add: normalize_scope_def Let_def)

lemma normalize_default_scope [simp]: "normalize_scope default_scope = default_scope"
  using normalize_scope_idem [of "[]"] by (simp add: normalize_scope_def Let_def)

lemma hex_digit_inject:
  "a < 16 \<Longrightarrow> b < 16 \<Longrightarrow> hex_digit a = hex_digit b \<Longrightarrow> a = b"
proof -
  assume "a < 16" "b < 16" and eq: "hex_digit a = hex_digit b"
  moreover have "distinct ''0123456789abcdef''" by simp
  moreover have "length ''0123456789abcdef'' = 16" by simp
  ultimately show "a = b" unfolding hex_digit_def using nth_eq_iff_index_eq by metis
qed

lemma hex_encode_inject: "hex_encode xs = hex_encode ys \<longleftrightarrow> xs = ys"
proof
  show "hex_encode xs = hex_encode ys \<Longrightarrow> xs = ys"
  proof (induction xs arbitrary: ys)
    case Nil
    then show ?case by (cases ys) (simp_all add: hex_encode_def)
  next
    case (Cons x xs)
    then obtain y zs where ys: "ys = y # zs" by (cases ys) (simp_all add: hex_encode_def)
    have lt: "(of_char c :: nat) div 16 < 16" for c :: char
      using nat_of_char_less_256 [of c] by (simp add: less_mult_imp_div_less)
    have "(of_char x :: nat) div 16 = of_char y div 16" "(of_char x :: nat) mod 16 = of_char y mod 16"
      using Cons.prems by (auto simp: ys hex_encode_def intro!: hex_digit_inject lt)
    then have "(of_char x :: nat) = of_char y" by (metis div_mult_mod_eq)
    moreover have "xs = zs" using Cons by (simp add: ys hex_encode_def)
    ultimately show ?case by (simp add: ys)
  qed
qed simp

lemma compute_key_Inr:
  "compute_key sha256 tenant conv scope = Inr k \<longleftrightarrow>
     tenant \<noteq> [] \<and> conversation_id conv \<noteq> [] \<and> channel_type conv \<noteq> [] \<and>
     (channel_type conv = ''dm'' \<longrightarrow> participant_id conv \<noteq> []) \<and>
     k = ''sk:'' @ hex_encode (sha256 (raw_key tenant conv (key_participant conv) (normalize_scope scope)))"
  by (auto simp: compute_key_def)

lemma raw_key_inject:
  assumes "raw_key t c p s = raw_key t' c' p' s'"
    and "\<forall>w \<in> {t, conversation_id c, channel_type c, p, s, t', conversation_id c', channel_type c', p', s'}.
           CHR ''|'' \<notin> set w"
  shows "t = t' \<and> conversation_id c = conversation_id c' \<and> channel_type c = channel_type c' \<and> p = p' \<and> s = s'"
proof -
  have "[t, conversation_id c, channel_type c, p, s] = [t', conversation_id c', channel_type c', p', s']"
    by (rule join_inject [where sep = "CHR ''|''"]) (use assms in \<open>auto simp: raw_key_def\<close>)
  then show ?thesis by simp
qed

lemma resolve_scope_normalized:
  assumes "resolve_scope sha256 tenant repo i = Inr (scope, meta, sid)"
    "\<not> (payload_type (in_payload i) = ''message'' \<and> is_new_session_command (payload_text (in_payload i)))"
  shows "normalize_scope scope = scope"
  using assms
  by (auto simp: resolve_scope_def scope_from_session_hint_def scope_from_ingress_def
      split: option.splits sum.splits if_splits prod.splits)

lemma resolve_binding_InrD:
  assumes "resolve_binding sha256 tenant repo i = Inr b"
  shows "bc_tenant_id b = tenant" "bc_conversation b = in_conversation i"
    "compute_key sha256 tenant (in_conversation i) (bc_scope b) = Inr (bc_session_key b)"
    "resolve_scope sha256 tenant repo i = Inr (bc_scope b, bc_metadata b, bc_session_id b)"
  using assms by (auto simp: resolve_binding_def split: sum.splits prod.splits)

end
