(* ===== verification/Payloads.thy ===== *)
theory Payloads
  imports Bindings
begin

text \<open>
  \<open>internal/runtime/payload\<close> and \<open>internal/gateway/routing\<close>: the execution plan of each
  payload type, the registry that finds it, and the route a gateway takes from it.  A handler of
  the registry is the plan it returns; the copies \<open>clonePlan\<close> makes are values here.
\<close>

section \<open>Plans\<close>

datatype execution_kind = ExecutionKindInteractive | ExecutionKindMemoryWrite | ExecutionKindSuppressedLLM

datatype memory_write_target = MemoryWriteTargetNone | MemoryWriteTargetDaily | MemoryWriteTargetCurated

record plan =
  pl_run_mode :: run_mode
  pl_kind :: execution_kind
  pl_suppress_output :: bool
  pl_suppress_stream :: bool
  pl_user_visible :: bool
  pl_tool_visible :: bool
  pl_final_assistant_visible :: bool
  pl_allowed_tools :: "string list"
  pl_message_meta :: json_object
  pl_memory_write_target :: memory_write_target

definition interactive_plan :: plan where
  "interactive_plan = \<lparr> pl_run_mode = RunModeNormal, pl_kind = ExecutionKindInteractive,
     pl_suppress_output = False, pl_suppress_stream = False, pl_user_visible = True,
     pl_tool_visible = True, pl_final_assistant_visible = True, pl_allowed_tools = [],
     pl_message_meta = [], pl_memory_write_target = MemoryWriteTargetNone \<rparr>"

definition memory_flush_plan :: plan where
  "memory_flush_plan = \<lparr> pl_run_mode = RunModeNoReply, pl_kind = ExecutionKindMemoryWrite,
     pl_suppress_output = True, pl_suppress_stream = True, pl_user_visible = False,
     pl_tool_visible = False, pl_final_assistant_visible = False, pl_allowed_tools = [],
     pl_message_meta = [(''payload_type'', JStr ''memory_flush'')],
     pl_memory_write_target = MemoryWriteTargetDaily \<rparr>"

definition compaction_plan :: plan where
  "compaction_plan = \<lparr> pl_run_mode = RunModeNoReply, pl_kind = ExecutionKindMemoryWrite,
     pl_suppress_output = True, pl_suppress_stream = True, pl_user_visible = False,
     pl_tool_visible = False, pl_final_assistant_visible = False, pl_allowed_tools = [],
     pl_message_meta = [(''payload_type'', JStr ''compaction'')],
     pl_memory_write_target = MemoryWriteTargetCurated \<rparr>"

definition cron_fire_allowed_tools :: "string list" where
  "cron_fire_allowed_tools = [''memory_search'', ''memory_get'', ''context_get'']"

definition cron_fire_plan :: plan where
  "cron_fire_plan = \<lparr> pl_run_mode = RunModeNoReply, pl_kind = ExecutionKindSuppressedLLM,
     pl_suppress_output = True, pl_suppress_stream = True, pl_user_visible = False,
     pl_tool_visible = False, pl_final_assistant_visible = False,
     pl_allowed_tools = cron_fire_allowed_tools,
     pl_message_meta = [(''payload_type'', JStr ''cron_fire'')],
     pl_memory_write_target = MemoryWriteTargetNone \<rparr>"

section \<open>The registry\<close>

type_synonym payload_registry = "string \<rightharpoonup> plan"

definition register_plan :: "string \<times> plan \<Rightarrow> payload_registry \<Rightarrow> payload_registry" where
  "register_plan h r = r(fst h \<mapsto> snd h)"

definition builtin_registry :: payload_registry where
  "builtin_registry =
     fold register_plan
       [(''message'', interactive_plan), (''memory_flush'', memory_flush_plan),
        (''compaction'', compaction_plan), (''cron_fire'', cron_fire_plan)] Map.empty"

text \<open>\<open>Resolve\<close>; the receiver may be nil.\<close>

definition resolve_plan :: "payload_registry option \<Rightarrow> string \<Rightarrow> plan" where
  "resolve_plan r t =
     (case r of
        None \<Rightarrow> interactive_plan
      | Some reg \<Rightarrow> (case reg t of Some p \<Rightarrow> p | None \<Rightarrow> interactive_plan))"

section \<open>Routing\<close>

definition payload_type_for :: "normalized_ingress \<Rightarrow> binding_context \<Rightarrow> string" where
  "payload_type_for i b =
     (let override = payload_type_override (bc_metadata b)
      in if override \<noteq> [] then override else payload_type (in_payload i))"

definition route_resolve ::
  "payload_registry option \<Rightarrow> normalized_ingress \<Rightarrow> binding_context \<Rightarrow> string + route_decision" where
  "route_resolve payloads i b =
     (case payloads of
        None \<Rightarrow> Inl ''payload registry unavailable''
      | Some reg \<Rightarrow>
          (let pt = payload_type_for i b; p = resolve_plan (Some reg) pt
           in Inr \<lparr> rd_run_mode = pl_run_mode p, rd_payload_type = pt,
                    rd_suppress_output = pl_suppress_output p, rd_metadata = bc_metadata b \<rparr>))"

section \<open>Facts\<close>

lemmas builtin_plans = interactive_plan_def memory_flush_plan_def compaction_plan_def cron_fire_plan_def

lemma builtin_registry_apply:
  "builtin_registry t = (if t = ''message'' then Some interactive_plan
     else if t = ''memory_flush'' then Some memory_flush_plan
     else if t = ''compaction'' then Some compaction_plan
     else if t = ''cron_fire'' then Some cron_fire_plan else None)"
  by (simp add: builtin_registry_def register_plan_def)

lemma resolve_plan_range:
  "resolve_plan (Some builtin_registry) t \<in> {interactive_plan, memory_flush_plan, compaction_plan, cron_fire_plan}"
  by (simp add: resolve_plan_def builtin_registry_apply)

text \<open>A plan is interactive and visible, or it is silent in every respect.\<close>

lemma builtin_plan_coherent:
  "p = resolve_plan (Some builtin_registry) t \<Longrightarrow>
     (if pl_run_mode p = RunModeNoReply
      then pl_suppress_output p \<and> pl_suppress_stream p \<and> \<not> pl_user_visible p \<and> \<not> pl_tool_visible p \<and>
           \<not> pl_final_assistant_visible p \<and> pl_message_meta p = [(''payload_type'', JStr t)]
      else p = interactive_plan)"
  by (simp add: resolve_plan_def builtin_registry_apply builtin_plans)

end
