(* ===== verification/Store.thy ===== *)
theory Store
  imports Data_Model
begin

text \<open>
  The SQLite database of \<open>internal/store\<close>: one record per table of \<open>schema.sql\<close>, the
  database as the record of its tables, \<open>WithWriterTx\<close> of \<open>db.go\<close> and the codec of
  \<open>tx/record_codec.go\<close> and \<open>queries/record_codec.go\<close>.

  A table is the list of its rows in insertion (rowid) order.  A timestamp column holds its text,
  because the queries compare texts.  A JSON column holds the value that was encoded.  The driver
  is not under \<open>src/\<close>: when one of its calls fails is an argument, \<open>tx_fault\<close>.
\<close>

section \<open>Rows\<close>

record session_row =
  se_session_key :: string
  se_active_session_id :: string
  se_conversation_id :: string
  se_channel_type :: string
  se_participant_id :: string
  se_dm_scope :: string
  se_message_count :: int
  se_prompt_tokens_total :: int
  se_completion_tokens_total :: int
  se_total_tokens_total :: int
  se_last_model :: string
  se_last_run_id :: string
  se_last_activity_at :: string
  se_created_at :: string
  se_updated_at :: string

record scope_row =
  sc_tenant_id :: string
  sc_conversation_id :: string
  sc_channel_type :: string
  sc_participant_id :: string
  sc_dm_scope :: string
  sc_updated_at :: string

record message_row =
  ms_rowid :: nat
  ms_message_id :: string
  ms_session_key :: string
  ms_session_id :: string
  ms_run_id :: string
  ms_role :: string
  ms_content :: string
  ms_visible :: int
  ms_tool_call_id :: string
  ms_tool_name :: string
  ms_tool_args :: json_object
  ms_tool_result :: json_object
  ms_meta :: json_object
  ms_created_at :: string

record run_row =
  rn_run_id :: string
  rn_event_id :: string
  rn_session_key :: string
  rn_session_id :: string
  rn_run_mode :: run_mode
  rn_status :: run_status
  rn_provider :: string
  rn_model :: string
  rn_prompt_tokens :: int
  rn_completion_tokens :: int
  rn_total_tokens :: int
  rn_latency_ms :: int
  rn_finish_reason :: string
  rn_raw_finish_reason :: string
  rn_provider_request_id :: string
  rn_output_text :: string
  rn_tool_calls :: "tool_call list"
  rn_diagnostics :: string_map
  rn_error_code :: string
  rn_error_message :: string
  rn_started_at :: string
  rn_finished_at :: string

record event_row =
  ev_event_id :: string
  ev_source :: string
  ev_tenant_id :: string
  ev_conversation_id :: string
  ev_channel_type :: string
  ev_participant_id :: string
  ev_session_key :: string
  ev_session_id :: string
  ev_idempotency_key :: string
  ev_payload_type :: string
  ev_payload_text :: string
  ev_payload :: event_payload
  ev_payload_hash :: string
  ev_status :: event_status
  ev_run_id :: string
  ev_run_mode :: run_mode
  ev_assistant_reply :: string
  ev_outbox_id :: string
  ev_outbox_status :: outbox_status
  ev_processing_started_at :: string
  ev_provider :: string
  ev_model :: string
  ev_provider_request_id :: string
  ev_error_code :: string
  ev_error_message :: string
  ev_created_at :: string
  ev_updated_at :: string

record idempotency_row =
  ik_key :: string
  ik_event_id :: string
  ik_payload_hash :: string
  ik_session_key :: string
  ik_session_id :: string
  ik_created_at :: string

record outbox_row =
  ob_outbox_id :: string
  ob_event_id :: string
  ob_session_key :: string
  ob_channel :: string
  ob_target_id :: string
  ob_body :: string
  ob_status :: outbox_status
  ob_next_attempt_at :: string
  ob_locked_at :: string
  ob_lock_owner :: string
  ob_attempt_count :: int
  ob_last_error :: string
  ob_created_at :: string
  ob_updated_at :: string
  ob_sent_at :: string

record job_row =
  jb_job_id :: string
  jb_name :: string
  jb_kind :: scheduled_job_kind
  jb_status :: scheduled_job_status
  jb_payload :: scheduled_job_payload
  jb_next_run_at :: string
  jb_locked_at :: string
  jb_lock_owner :: string
  jb_attempt_count :: int
  jb_last_error :: string
  jb_created_at :: string
  jb_updated_at :: string

record heartbeat_row =
  hb_worker_name :: string
  hb_beat_at :: string
  hb_status :: string
  hb_details :: string

record database =
  db_sessions :: "session_row list"
  db_scopes :: "scope_row list"
  db_messages :: "message_row list"
  db_runs :: "run_row list"
  db_events :: "event_row list"
  db_idempotency :: "idempotency_row list"
  db_outbox :: "outbox_row list"
  db_jobs :: "job_row list"
  db_heartbeats :: "heartbeat_row list"

text \<open>The tables \<open>applySchema\<close> creates in a new workspace.\<close>

definition empty_db :: database where
  "empty_db = \<lparr> db_sessions = [], db_scopes = [], db_messages = [], db_runs = [], db_events = [],
     db_idempotency = [], db_outbox = [], db_jobs = [], db_heartbeats = [] \<rparr>"

text \<open>The PRIMARY KEY and UNIQUE constraints of \<open>schema.sql\<close>.\<close>

definition scope_key :: "scope_row \<Rightarrow> string \<times> string \<times> string \<times> string" where
  "scope_key r = (sc_tenant_id r, sc_conversation_id r, sc_channel_type r, sc_participant_id r)"

definition keys_unique :: "database \<Rightarrow> bool" where
  "keys_unique d \<longleftrightarrow>
     distinct (map se_session_key (db_sessions d)) \<and> distinct (map scope_key (db_scopes d)) \<and>
     distinct (map ms_message_id (db_messages d)) \<and> distinct (map rn_run_id (db_runs d)) \<and>
     distinct (map ev_event_id (db_events d)) \<and> distinct (map ev_idempotency_key (db_events d)) \<and>
     distinct (map ik_key (db_idempotency d)) \<and> distinct (map ob_outbox_id (db_outbox d)) \<and>
     distinct (map jb_job_id (db_jobs d)) \<and> distinct (map hb_worker_name (db_heartbeats d))"

lemma keys_uniqueI:
  assumes "distinct (map se_session_key (db_sessions d))" "distinct (map scope_key (db_scopes d))"
    "distinct (map ms_message_id (db_messages d))" "distinct (map rn_run_id (db_runs d))"
    "distinct (map ev_event_id (db_events d))" "distinct (map ev_idempotency_key (db_events d))"
    "distinct (map ik_key (db_idempotency d))" "distinct (map ob_outbox_id (db_outbox d))"
    "distinct (map jb_job_id (db_jobs d))" "distinct (map hb_worker_name (db_heartbeats d))"
  shows "keys_unique d"
  using assms by (simp add: keys_unique_def)

lemma keys_uniqueD:
  assumes "keys_unique d"
  shows "distinct (map se_session_key (db_sessions d))" "distinct (map scope_key (db_scopes d))"
    "distinct (map ms_message_id (db_messages d))" "distinct (map rn_run_id (db_runs d))"
    "distinct (map ev_event_id (db_events d))" "distinct (map ev_idempotency_key (db_events d))"
    "distinct (map ik_key (db_idempotency d))" "distinct (map ob_outbox_id (db_outbox d))"
    "distinct (map jb_job_id (db_jobs d))" "distinct (map hb_worker_name (db_heartbeats d))"
  using assms by (simp_all add: keys_unique_def)

lemma keys_unique_empty [simp]: "keys_unique empty_db"
  by (simp add: keys_unique_def empty_db_def)

section \<open>Errors and transactions\<close>

datatype store_error = IdempotencyConflict | UniqueViolation string | DriverError string | NoMutation

text \<open>Which call into the driver fails, if one does, while the transaction is run.\<close>

datatype tx_fault = TxOk | TxBeginFails string | TxStmtFails string | TxCommitFails string

type_synonym 'a tx = "database \<Rightarrow> store_error + ('a \<times> database)"

definition with_writer_tx :: "tx_fault \<Rightarrow> 'a tx \<Rightarrow> database \<Rightarrow> (store_error + 'a) \<times> database" where
  "with_writer_tx flt fn d =
     (case flt of
        TxBeginFails m \<Rightarrow> (Inl (DriverError m), d)
      | TxStmtFails m \<Rightarrow> (Inl (DriverError m), d)
      | TxOk \<Rightarrow> (case fn d of Inl e \<Rightarrow> (Inl e, d) | Inr (a, d') \<Rightarrow> (Inr a, d'))
      | TxCommitFails m \<Rightarrow> (case fn d of Inl e \<Rightarrow> (Inl e, d) | Inr _ \<Rightarrow> (Inl (DriverError m), d)))"

text \<open>A single statement outside a transaction: it takes effect as a whole or not at all.\<close>

definition exec_writer :: "tx_fault \<Rightarrow> (database \<Rightarrow> database) \<Rightarrow> database \<Rightarrow> (store_error + unit) \<times> database" where
  "exec_writer flt f d = with_writer_tx flt (\<lambda>d. Inr ((), f d)) d"

text \<open>\<open>CheckReadWrite\<close>: a read, and a writer transaction that is rolled back.\<close>

definition check_read_write :: "tx_fault \<Rightarrow> database \<Rightarrow> (store_error + unit) \<times> database" where
  "check_read_write flt d =
     (case flt of TxOk \<Rightarrow> (Inr (), d) | TxBeginFails m \<Rightarrow> (Inl (DriverError m), d)
      | TxStmtFails m \<Rightarrow> (Inl (DriverError m), d) | TxCommitFails m \<Rightarrow> (Inl (DriverError m), d))"

lemma with_writer_tx_Inl: "with_writer_tx flt fn d = (Inl e, d') \<Longrightarrow> d' = d"
  by (auto simp: with_writer_tx_def split: tx_fault.splits sum.splits prod.splits)

lemma with_writer_tx_InrD: "with_writer_tx flt fn d = (Inr a, d') \<Longrightarrow> flt = TxOk \<and> fn d = Inr (a, d')"
  by (auto simp: with_writer_tx_def split: tx_fault.splits sum.splits prod.splits)

lemma with_writer_tx_Inr [simp]: "fn d = Inr (a, d') \<Longrightarrow> with_writer_tx TxOk fn d = (Inr a, d')"
  by (simp add: with_writer_tx_def)

lemma with_writer_tx_invariant:
  assumes "with_writer_tx flt fn d = (r, d')" "I d" "\<And>a d'. fn d = Inr (a, d') \<Longrightarrow> I d'"
  shows "I d'"
proof (cases r)
  case (Inl e)
  with assms(1,2) show ?thesis by (auto dest: with_writer_tx_Inl)
next
  case (Inr a)
  with assms(1) have "fn d = Inr (a, d')" by (auto dest: with_writer_tx_InrD)
  then show ?thesis by (rule assms(3))
qed

lemma exec_writer_cases:
  assumes "exec_writer flt f d = (r, d')"
  obtains "r = Inr ()" "d' = f d" | e where "r = Inl e" "d' = d"
  using assms unfolding exec_writer_def
  by (cases r) (auto dest: with_writer_tx_Inl with_writer_tx_InrD)

text \<open>Sequencing of statements that may fail.\<close>

definition and_then :: "'e + 'a \<Rightarrow> ('a \<Rightarrow> 'e + 'b) \<Rightarrow> 'e + 'b" where
  "and_then r f = (case r of Inl e \<Rightarrow> Inl e | Inr a \<Rightarrow> f a)"

lemma and_then_simps [simp]: "and_then (Inl e) f = Inl e" "and_then (Inr a) f = f a"
  by (simp_all add: and_then_def)

lemma and_then_InrD: "and_then r f = Inr b \<Longrightarrow> \<exists>a. r = Inr a \<and> f a = Inr b"
  by (auto simp: and_then_def split: sum.splits)

text \<open>What a caller outside the store sees of an error: its text.\<close>

definition error_of :: "(store_error \<Rightarrow> string) \<Rightarrow> (store_error + 'a) \<Rightarrow> string option" where
  "error_of text r = (case r of Inl e \<Rightarrow> Some (text e) | Inr _ \<Rightarrow> None)"

definition with_text :: "(store_error \<Rightarrow> string) \<Rightarrow> (store_error + 'a) \<Rightarrow> string + 'a" where
  "with_text text r = (case r of Inl e \<Rightarrow> Inl (text e) | Inr a \<Rightarrow> Inr a)"

lemma map_prod_eqD: "map_prod f id x = (r, s) \<Longrightarrow> \<exists>a. x = (a, s) \<and> r = f a"
  by (cases x) auto

definition require_row :: "string \<Rightarrow> 'a option \<Rightarrow> store_error + 'a" where
  "require_row what r = (case r of None \<Rightarrow> Inl (UniqueViolation what) | Some a \<Rightarrow> Inr a)"

lemma require_row_Inr [table_simps]: "require_row what r = Inr a \<longleftrightarrow> r = Some a"
  by (auto simp: require_row_def split: option.splits)

section \<open>Column codec\<close>

text \<open>\<open>boolToInt\<close>, \<open>isNoReplyPayload\<close>, \<open>conversationParticipantID\<close>.\<close>

definition bool_to_int :: "bool \<Rightarrow> int" where
  "bool_to_int v = (if v then 1 else 0)"

definition is_no_reply_payload :: "string \<Rightarrow> bool" where
  "is_no_reply_payload t = (t = ''memory_flush'' \<or> t = ''compaction'' \<or> t = ''cron_fire'')"

definition conversation_participant_id :: "conversation \<Rightarrow> string" where
  "conversation_participant_id conv = (if channel_type conv = ''dm'' then participant_id conv else [])"

definition message_meta_tool_calls_key :: string where
  "message_meta_tool_calls_key = ''__tool_calls''"

text \<open>The JSON shape of a tool call; \<open>args\<close> is \<open>omitempty\<close>.\<close>

definition tool_call_json :: "tool_call \<Rightarrow> json" where
  "tool_call_json tc = JObj ([(''tool_call_id'', JStr (tc_id tc)), (''name'', JStr (tc_name tc))] @
     (if tc_args tc = [] then [] else [(''args'', JObj (tc_args tc))]))"

definition json_string_field :: "string \<Rightarrow> json_object \<Rightarrow> string" where
  "json_string_field k obj = (case map_of obj k of Some (JStr s) \<Rightarrow> s | _ \<Rightarrow> [])"

definition json_object_field :: "string \<Rightarrow> json_object \<Rightarrow> json_object" where
  "json_object_field k obj = (case map_of obj k of Some (JObj v) \<Rightarrow> v | _ \<Rightarrow> [])"

fun json_tool_call :: "json \<Rightarrow> tool_call" where
  "json_tool_call (JObj obj) = \<lparr> tc_id = json_string_field ''tool_call_id'' obj,
     tc_name = json_string_field ''name'' obj, tc_args = json_object_field ''args'' obj \<rparr>"
| "json_tool_call _ = \<lparr> tc_id = [], tc_name = [], tc_args = [] \<rparr>"

fun json_tool_calls :: "json \<Rightarrow> tool_call list" where
  "json_tool_calls (JArr vs) = map json_tool_call vs"
| "json_tool_calls _ = []"

text \<open>\<open>encodeStoredMeta\<close> and \<open>decodeStoredMeta\<close>.\<close>

definition encode_stored_meta :: "json_object \<Rightarrow> tool_call list \<Rightarrow> json_object" where
  "encode_stored_meta meta tool_calls =
     (if tool_calls = [] then meta
      else filter (\<lambda>(k, v). k \<noteq> message_meta_tool_calls_key) meta @
           [(message_meta_tool_calls_key, JArr (map tool_call_json tool_calls))])"

definition decode_stored_meta :: "json_object \<Rightarrow> json_object \<times> tool_call list" where
  "decode_stored_meta meta =
     (filter (\<lambda>(k, v). k \<noteq> message_meta_tool_calls_key) meta,
      case map_of meta message_meta_tool_calls_key of None \<Rightarrow> [] | Some v \<Rightarrow> json_tool_calls v)"

lemma json_tool_call_inverse: "json_tool_call (tool_call_json tc) = tc"
  by (cases tc) (simp add: tool_call_json_def json_string_field_def json_object_field_def)

lemma map_of_filter_key: "map_of (filter (\<lambda>(k', v). k' \<noteq> k) xs) k = None"
  by (induction xs) auto

lemma filter_key_absent: "k \<notin> fst ` set xs \<Longrightarrow> filter (\<lambda>(k', v). k' \<noteq> k) xs = xs"
  by (induction xs) auto

lemma decode_encode_stored_meta:
  assumes "message_meta_tool_calls_key \<notin> fst ` set meta"
  shows "decode_stored_meta (encode_stored_meta meta tcs) = (meta, tcs)"
proof (cases "tcs = []")
  case True
  with assms show ?thesis
    by (simp add: decode_stored_meta_def encode_stored_meta_def filter_key_absent
        map_of_eq_None_iff [THEN iffD2])
next
  case False
  with assms show ?thesis
    by (simp add: decode_stored_meta_def encode_stored_meta_def filter_key_absent map_add_def
        map_of_eq_None_iff [THEN iffD2] json_tool_call_inverse map_idI)
qed

end
