(* ===== verification/Session_Projection.thy ===== *)
theory Session_Projection
  imports Store
begin

text \<open>
  \<open>internal/store/projections/sessions.go\<close>: the row of a session is created by the first
  ingest and caches aggregates of the session's messages and completed runs.
\<close>

definition session_id_for :: "time \<Rightarrow> string" where
  "session_id_for now = ''ses_'' @ show_int (unix_nano now)"

definition new_session_row :: "string \<Rightarrow> conversation \<Rightarrow> string \<Rightarrow> time \<Rightarrow> session_row" where
  "new_session_row key conv dm_scope now =
     \<lparr> se_session_key = key, se_active_session_id = session_id_for now,
       se_conversation_id = conversation_id conv, se_channel_type = channel_type conv,
       se_participant_id = participant_id conv, se_dm_scope = dm_scope,
       se_message_count = 0, se_prompt_tokens_total = 0, se_completion_tokens_total = 0,
       se_total_tokens_total = 0, se_last_model = [], se_last_run_id = [],
       se_last_activity_at = time_text now, se_created_at = time_text now, se_updated_at = time_text now \<rparr>"

definition resolve_session_tx :: "string \<Rightarrow> conversation \<Rightarrow> string \<Rightarrow> time \<Rightarrow> string tx" where
  "resolve_session_tx key conv dm_scope now d =
     (case find_row se_session_key key (db_sessions d) of
        Some s \<Rightarrow> Inr (se_active_session_id s, d)
      | None \<Rightarrow>
          and_then (require_row ''sessions.session_key''
              (insert_row se_session_key (new_session_row key conv dm_scope now) (db_sessions d)))
            (\<lambda>rows. Inr (session_id_for now, d\<lparr>db_sessions := rows\<rparr>)))"

section \<open>Aggregates\<close>

text \<open>\<open>COUNT\<close> of the visible messages of a session that a user, the assistant or a tool wrote.\<close>

definition counted_message :: "string \<Rightarrow> message_row \<Rightarrow> bool" where
  "counted_message key m =
     (ms_session_key m = key \<and> ms_visible m = 1 \<and> ms_role m \<in> {''user'', ''assistant'', ''tool''})"

definition message_count :: "string \<Rightarrow> message_row list \<Rightarrow> int" where
  "message_count key ms = int (length (filter (counted_message key) ms))"

definition completed_runs :: "string \<Rightarrow> run_row list \<Rightarrow> run_row list" where
  "completed_runs key rs = filter (\<lambda>r. rn_session_key r = key \<and> rn_status r = RunStatusCompleted) rs"

text \<open>\<open>ORDER BY finished_at DESC, run_id DESC LIMIT 1\<close>.\<close>

definition last_completed_run :: "string \<Rightarrow> run_row list \<Rightarrow> run_row option" where
  "last_completed_run key rs =
     (case rev (sort_key (\<lambda>r. (rn_finished_at r, rn_run_id r)) (completed_runs key rs)) of
        [] \<Rightarrow> None | r # _ \<Rightarrow> Some r)"

definition token_sum :: "(run_row \<Rightarrow> int) \<Rightarrow> string \<Rightarrow> run_row list \<Rightarrow> int" where
  "token_sum f key rs = sum_list (map f (completed_runs key rs))"

definition aggregate_session :: "message_row list \<Rightarrow> run_row list \<Rightarrow> time \<Rightarrow> session_row \<Rightarrow> session_row" where
  "aggregate_session ms rs now s =
     (let key = se_session_key s; last = last_completed_run key rs in
      s\<lparr> se_message_count := message_count key ms,
         se_prompt_tokens_total := token_sum rn_prompt_tokens key rs,
         se_completion_tokens_total := token_sum rn_completion_tokens key rs,
         se_total_tokens_total := token_sum rn_total_tokens key rs,
         se_last_model := (case last of None \<Rightarrow> [] | Some r \<Rightarrow> rn_model r),
         se_last_run_id := (case last of None \<Rightarrow> [] | Some r \<Rightarrow> rn_run_id r),
         se_last_activity_at := (case last of None \<Rightarrow> time_text now | Some r \<Rightarrow> rn_finished_at r),
         se_updated_at := time_text now \<rparr>)"

definition recompute_session_aggregate :: "string \<Rightarrow> time \<Rightarrow> database \<Rightarrow> database" where
  "recompute_session_aggregate key now d =
     d\<lparr>db_sessions := update_where (\<lambda>s. se_session_key s = key)
         (aggregate_session (db_messages d) (db_runs d) now) (db_sessions d)\<rparr>"

text \<open>What the cached columns of a session promise.\<close>

definition session_cached :: "message_row list \<Rightarrow> run_row list \<Rightarrow> session_row \<Rightarrow> bool" where
  "session_cached ms rs s \<longleftrightarrow>
     se_message_count s = message_count (se_session_key s) ms \<and>
     se_prompt_tokens_total s = token_sum rn_prompt_tokens (se_session_key s) rs \<and>
     se_completion_tokens_total s = token_sum rn_completion_tokens (se_session_key s) rs \<and>
     se_total_tokens_total s = token_sum rn_total_tokens (se_session_key s) rs \<and>
     (case last_completed_run (se_session_key s) rs of
        None \<Rightarrow> se_last_model s = [] \<and> se_last_run_id s = []
      | Some r \<Rightarrow> se_last_model s = rn_model r \<and> se_last_run_id s = rn_run_id r \<and>
                  se_last_activity_at s = rn_finished_at r)"

definition sessions_cached :: "database \<Rightarrow> bool" where
  "sessions_cached d \<longleftrightarrow> (\<forall>s \<in> set (db_sessions d). session_cached (db_messages d) (db_runs d) s)"

text \<open>The cached columns depend on the session's own messages and completed runs only.\<close>

lemma session_cached_cong:
  assumes "filter (counted_message (se_session_key s)) ms = filter (counted_message (se_session_key s)) ms'"
    "completed_runs (se_session_key s) rs = completed_runs (se_session_key s) rs'"
  shows "session_cached ms rs s = session_cached ms' rs' s"
  using assms
  by (simp add: session_cached_def message_count_def token_sum_def last_completed_run_def)

lemma aggregate_session_cached: "session_cached ms rs (aggregate_session ms rs now s)"
  by (simp add: aggregate_session_def session_cached_def Let_def split: option.splits)

lemma aggregate_session_key [simp]: "se_session_key (aggregate_session ms rs now s) = se_session_key s"
  by (simp add: aggregate_session_def Let_def)

lemma last_completed_run_SomeD:
  assumes "last_completed_run key rs = Some r"
  shows "r \<in> set rs" "rn_session_key r = key" "rn_status r = RunStatusCompleted"
    "\<forall>r' \<in> set rs. rn_session_key r' = key \<longrightarrow> rn_status r' = RunStatusCompleted \<longrightarrow>
       (rn_finished_at r', rn_run_id r') \<le> (rn_finished_at r, rn_run_id r)"
proof -
  let ?o = "\<lambda>r. (rn_finished_at r, rn_run_id r)" and ?cs = "completed_runs key rs"
  obtain xs where "rev (sort_key ?o ?cs) = r # xs"
    using assms by (auto simp: last_completed_run_def split: list.splits)
  then have s: "sort_key ?o ?cs = rev xs @ [r]" by (metis rev.simps(2) rev_rev_ident)
  have r: "r \<in> set ?cs" by (metis in_set_conv_decomp s set_sort)
  then show "r \<in> set rs" "rn_session_key r = key" "rn_status r = RunStatusCompleted"
    by (auto simp: completed_runs_def)
  have "sorted (map ?o (rev xs) @ [?o r])" using sorted_sort_key [of ?o ?cs] by (simp add: s)
  then have x: "r' \<in> set xs \<Longrightarrow> ?o r' \<le> ?o r" for r'
    unfolding sorted_append by auto
  have c: "set ?cs = insert r (set xs)"
    using arg_cong [OF s, of set] by simp
  have "r' \<in> set ?cs \<Longrightarrow> ?o r' \<le> ?o r" for r'
    using x [of r'] unfolding c by (elim insertE) auto
  then show "\<forall>r' \<in> set rs. rn_session_key r' = key \<longrightarrow> rn_status r' = RunStatusCompleted \<longrightarrow> ?o r' \<le> ?o r"
    by (simp add: completed_runs_def)
qed

lemma resolve_session_tx_cases:
  assumes "resolve_session_tx key conv dm_scope now d = r"
  obtains (existing) s where "find_row se_session_key key (db_sessions d) = Some s"
      "r = Inr (se_active_session_id s, d)"
  | (new) "key \<notin> se_session_key ` set (db_sessions d)"
      "r = Inr (session_id_for now, d\<lparr>db_sessions := db_sessions d @ [new_session_row key conv dm_scope now]\<rparr>)"
proof (cases "find_row se_session_key key (db_sessions d)")
  case None
  then have n: "key \<notin> se_session_key ` set (db_sessions d)" by (simp add: find_row_None)
  then have "se_session_key (new_session_row key conv dm_scope now) \<notin> set (map se_session_key (db_sessions d))"
    by (simp add: new_session_row_def)
  then have "r = Inr (session_id_for now, d\<lparr>db_sessions := db_sessions d @ [new_session_row key conv dm_scope now]\<rparr>)"
    using assms None by (simp add: resolve_session_tx_def insert_row_def require_row_def)
  with n show ?thesis by (rule new)
next
  case (Some s)
  then show ?thesis using assms by (intro existing) (auto simp: resolve_session_tx_def)
qed

lemma recompute_frame [frame]:
  "db_scopes (recompute_session_aggregate key now d) = db_scopes d"
  "db_messages (recompute_session_aggregate key now d) = db_messages d"
  "db_runs (recompute_session_aggregate key now d) = db_runs d"
  "db_events (recompute_session_aggregate key now d) = db_events d"
  "db_idempotency (recompute_session_aggregate key now d) = db_idempotency d"
  "db_outbox (recompute_session_aggregate key now d) = db_outbox d"
  "db_jobs (recompute_session_aggregate key now d) = db_jobs d"
  "db_heartbeats (recompute_session_aggregate key now d) = db_heartbeats d"
  by (simp_all add: recompute_session_aggregate_def)

lemma recompute_session_keys [frame]:
  "map se_session_key (db_sessions (recompute_session_aggregate key now d)) = map se_session_key (db_sessions d)"
  by (simp add: recompute_session_aggregate_def table_simps)

lemma recompute_cached:
  assumes "\<And>s. s \<in> set (db_sessions d) \<Longrightarrow> se_session_key s \<noteq> key \<Longrightarrow> session_cached (db_messages d) (db_runs d) s"
  shows "sessions_cached (recompute_session_aggregate key now d)"
  using assms
  by (auto simp: sessions_cached_def recompute_session_aggregate_def set_update_where
      aggregate_session_cached)

end
