(* ===== verification/Ingest_Tx.thy ===== *)
theory Ingest_Tx
  imports Session_Projection Bindings
begin

text \<open>
  \<open>internal/store/tx/ingest_event.go\<close> and \<open>conversation_scopes.go\<close>: an ingest is stored
  under its idempotency key in one transaction, with its session and the conversation's scope.
  The request and result records are those of \<open>internal/gateway/contracts.go\<close>.
\<close>

record persist_request =
  pq_source :: string
  pq_conversation :: conversation
  pq_payload :: event_payload
  pq_idempotency_key :: string
  pq_dm_scope :: string

record persist_result =
  pr_event_id :: string
  pr_session_key :: string
  pr_session_id :: string
  pr_received_at :: time
  pr_payload_hash :: string
  pr_duplicate :: bool
  pr_existing_event_id :: string

section \<open>Operations\<close>

definition upsert_conversation_dm_scope_tx :: "string \<Rightarrow> conversation \<Rightarrow> string \<Rightarrow> time \<Rightarrow> database \<Rightarrow> database" where
  "upsert_conversation_dm_scope_tx tenant conv dm_scope now d =
     (let row = \<lparr> sc_tenant_id = tenant, sc_conversation_id = conversation_id conv,
                  sc_channel_type = channel_type conv,
                  sc_participant_id = conversation_participant_id conv,
                  sc_dm_scope = normalize_scope dm_scope, sc_updated_at = time_text now \<rparr>
      in d\<lparr>db_scopes := upsert_row scope_key row
           (\<lambda>r. r\<lparr>sc_dm_scope := sc_dm_scope row, sc_updated_at := sc_updated_at row\<rparr>) (db_scopes d)\<rparr>)"

definition db_get_conversation_dm_scope :: "database \<Rightarrow> string \<Rightarrow> conversation \<Rightarrow> string option" where
  "db_get_conversation_dm_scope d tenant conv =
     map_option (\<lambda>r. normalize_scope (sc_dm_scope r))
       (find_row scope_key (tenant, conversation_id conv, channel_type conv, conversation_participant_id conv)
          (db_scopes d))"

definition event_id_for :: "time \<Rightarrow> string" where
  "event_id_for now = ''evt_'' @ show_int (unix_nano now)"

definition duplicate_result :: "idempotency_row \<Rightarrow> persist_result" where
  "duplicate_result row =
     \<lparr> pr_event_id = ik_event_id row, pr_session_key = ik_session_key row,
       pr_session_id = ik_session_id row, pr_received_at = must_parse_time (ik_created_at row),
       pr_payload_hash = ik_payload_hash row, pr_duplicate = True,
       pr_existing_event_id = ik_event_id row \<rparr>"

definition new_idempotency_row :: "string \<Rightarrow> string \<Rightarrow> persist_request \<Rightarrow> string \<Rightarrow> time \<Rightarrow> idempotency_row" where
  "new_idempotency_row key sid req hash now =
     \<lparr> ik_key = pq_idempotency_key req, ik_event_id = event_id_for now, ik_payload_hash = hash,
       ik_session_key = key, ik_session_id = sid, ik_created_at = time_text now \<rparr>"

definition new_event_row ::
  "string \<Rightarrow> string \<Rightarrow> string \<Rightarrow> persist_request \<Rightarrow> string \<Rightarrow> time \<Rightarrow> event_row" where
  "new_event_row tenant key sid req hash now =
     \<lparr> ev_event_id = event_id_for now, ev_source = pq_source req, ev_tenant_id = tenant,
       ev_conversation_id = conversation_id (pq_conversation req),
       ev_channel_type = channel_type (pq_conversation req),
       ev_participant_id = participant_id (pq_conversation req),
       ev_session_key = key, ev_session_id = sid, ev_idempotency_key = pq_idempotency_key req,
       ev_payload_type = payload_type (pq_payload req), ev_payload_text = payload_text (pq_payload req),
       ev_payload = pq_payload req, ev_payload_hash = hash, ev_status = EventStatusReceived,
       ev_run_id = [], ev_run_mode = RunModeNormal, ev_assistant_reply = [], ev_outbox_id = [],
       ev_outbox_status = OutboxStatusUnset, ev_processing_started_at = [], ev_provider = [],
       ev_model = [], ev_provider_request_id = [], ev_error_code = [], ev_error_message = [],
       ev_created_at = time_text now, ev_updated_at = time_text now \<rparr>"

definition insert_event :: "event_row \<Rightarrow> event_row list \<Rightarrow> event_row list option" where
  "insert_event e rows =
     (if ev_idempotency_key e \<in> set (map ev_idempotency_key rows) then None
      else insert_row ev_event_id e rows)"

definition persist_event_tx ::
  "string \<Rightarrow> string \<Rightarrow> persist_request \<Rightarrow> string \<Rightarrow> time \<Rightarrow> persist_result tx" where
  "persist_event_tx tenant key req hash now d =
     (case find_row ik_key (pq_idempotency_key req) (db_idempotency d) of
        Some row \<Rightarrow>
          if ik_payload_hash row \<noteq> hash then Inl IdempotencyConflict
          else Inr (duplicate_result row, d)
      | None \<Rightarrow>
          (let dm_scope = normalize_scope (pq_dm_scope req);
               d1 = (if pq_dm_scope req \<noteq> []
                     then upsert_conversation_dm_scope_tx tenant (pq_conversation req) dm_scope now d else d)
           in and_then (resolve_session_tx key (pq_conversation req) dm_scope now d1) (\<lambda>(sid, d2).
              and_then (require_row ''idempotency_keys.key''
                  (insert_row ik_key (new_idempotency_row key sid req hash now) (db_idempotency d2))) (\<lambda>idem.
              and_then (require_row ''events''
                  (insert_event (new_event_row tenant key sid req hash now) (db_events d2))) (\<lambda>events.
              Inr (\<lparr> pr_event_id = event_id_for now, pr_session_key = key, pr_session_id = sid,
                     pr_received_at = now, pr_payload_hash = hash, pr_duplicate = False,
                     pr_existing_event_id = [] \<rparr>,
                   d2\<lparr>db_idempotency := idem, db_events := events\<rparr>))))))"

definition persist_event ::
  "tx_fault \<Rightarrow> string \<Rightarrow> string \<Rightarrow> persist_request \<Rightarrow> string \<Rightarrow> time \<Rightarrow> database
   \<Rightarrow> (store_error + persist_result) \<times> database" where
  "persist_event flt tenant key req hash now d =
     with_writer_tx flt (persist_event_tx tenant key req hash now) d"

definition mark_event_queued :: "tx_fault \<Rightarrow> string \<Rightarrow> time \<Rightarrow> database \<Rightarrow> (store_error + unit) \<times> database" where
  "mark_event_queued flt eid now d =
     exec_writer flt (\<lambda>d. d\<lparr>db_events := update_where
         (\<lambda>e. ev_event_id e = eid \<and> ev_status e = EventStatusReceived)
         (\<lambda>e. e\<lparr>ev_status := EventStatusQueued, ev_updated_at := time_text now\<rparr>) (db_events d)\<rparr>) d"

section \<open>Facts\<close>

lemma scope_key_simps [simp]:
  "scope_key (r\<lparr>sc_dm_scope := a, sc_updated_at := b\<rparr>) = scope_key r"
  by (simp add: scope_key_def)

lemma upsert_scope_frame [frame]:
  "db_sessions (upsert_conversation_dm_scope_tx t c s now d) = db_sessions d"
  "db_messages (upsert_conversation_dm_scope_tx t c s now d) = db_messages d"
  "db_runs (upsert_conversation_dm_scope_tx t c s now d) = db_runs d"
  "db_events (upsert_conversation_dm_scope_tx t c s now d) = db_events d"
  "db_idempotency (upsert_conversation_dm_scope_tx t c s now d) = db_idempotency d"
  "db_outbox (upsert_conversation_dm_scope_tx t c s now d) = db_outbox d"
  "db_jobs (upsert_conversation_dm_scope_tx t c s now d) = db_jobs d"
  "db_heartbeats (upsert_conversation_dm_scope_tx t c s now d) = db_heartbeats d"
  by (simp_all add: upsert_conversation_dm_scope_tx_def Let_def)

lemma upsert_scope_distinct:
  "distinct (map scope_key (db_scopes d)) \<Longrightarrow>
   distinct (map scope_key (db_scopes (upsert_conversation_dm_scope_tx t c s now d)))"
  by (simp add: upsert_conversation_dm_scope_tx_def Let_def distinct_upsert_row)

text \<open>Reading back a scope that was upserted, and every other scope is as before.\<close>

lemma get_upsert_scope:
  "db_get_conversation_dm_scope (upsert_conversation_dm_scope_tx t c s now d) t' c' =
     (if (t', conversation_id c', channel_type c', conversation_participant_id c') =
         (t, conversation_id c, channel_type c, conversation_participant_id c)
      then Some (normalize_scope s) else db_get_conversation_dm_scope d t' c')"
  by (auto simp: upsert_conversation_dm_scope_tx_def db_get_conversation_dm_scope_def Let_def
      find_row_upsert_row scope_key_def split: option.splits)

lemma insert_event_Some [table_simps]:
  "insert_event e rows = Some rows' \<longleftrightarrow>
     ev_event_id e \<notin> ev_event_id ` set rows \<and> ev_idempotency_key e \<notin> ev_idempotency_key ` set rows \<and>
     rows' = rows @ [e]"
  by (auto simp: insert_event_def table_simps)

lemma event_id_for_inject [simp]: "event_id_for t = event_id_for t' \<longleftrightarrow> t = t'"
  by (simp add: event_id_for_def unix_nano_def)

text \<open>What the transaction does when the key is new.\<close>

lemma persist_event_tx_newD:
  assumes p: "persist_event_tx tenant key req hash now d = Inr (r, d')"
    and new: "pq_idempotency_key req \<notin> ik_key ` set (db_idempotency d)"
  obtains sid d1 where
    "d1 = (if pq_dm_scope req \<noteq> [] then upsert_conversation_dm_scope_tx tenant (pq_conversation req)
             (normalize_scope (pq_dm_scope req)) now d else d)"
    "(\<exists>s. find_row se_session_key key (db_sessions d) = Some s \<and> sid = se_active_session_id s \<and>
          db_sessions d' = db_sessions d) \<or>
     (key \<notin> se_session_key ` set (db_sessions d) \<and> sid = session_id_for now \<and>
      db_sessions d' = db_sessions d @ [new_session_row key (pq_conversation req) (normalize_scope (pq_dm_scope req)) now])"
    "d' = d1\<lparr>db_sessions := db_sessions d',
             db_idempotency := db_idempotency d @ [new_idempotency_row key sid req hash now],
             db_events := db_events d @ [new_event_row tenant key sid req hash now]\<rparr>"
    "r = \<lparr> pr_event_id = event_id_for now, pr_session_key = key, pr_session_id = sid,
           pr_received_at = now, pr_payload_hash = hash, pr_duplicate = False, pr_existing_event_id = [] \<rparr>"
    "event_id_for now \<notin> ev_event_id ` set (db_events d)"
    "pq_idempotency_key req \<notin> ev_idempotency_key ` set (db_events d)"
proof -
  define d1 where "d1 = (if pq_dm_scope req \<noteq> [] then upsert_conversation_dm_scope_tx tenant
      (pq_conversation req) (normalize_scope (pq_dm_scope req)) now d else d)"
  have f: "db_sessions d1 = db_sessions d" "db_idempotency d1 = db_idempotency d" "db_events d1 = db_events d"
    by (simp_all add: d1_def frame)
  obtain sid d2 where s: "resolve_session_tx key (pq_conversation req) (normalize_scope (pq_dm_scope req)) now d1
      = Inr (sid, d2)"
    by (rule resolve_session_tx_cases [OF refl]) auto
  have nf: "find_row ik_key (pq_idempotency_key req) (db_idempotency d) = None"
    using new by (simp add: find_row_None)
  have f2: "db_idempotency d2 = db_idempotency d" "db_events d2 = db_events d"
    "d2 = d1\<lparr>db_sessions := db_sessions d2\<rparr>"
    "(\<exists>s. find_row se_session_key key (db_sessions d) = Some s \<and> sid = se_active_session_id s \<and>
          db_sessions d2 = db_sessions d) \<or>
     (key \<notin> se_session_key ` set (db_sessions d) \<and> sid = session_id_for now \<and>
      db_sessions d2 = db_sessions d @ [new_session_row key (pq_conversation req) (normalize_scope (pq_dm_scope req)) now])"
    by (rule resolve_session_tx_cases [OF s]; simp add: f)+
  have "r = \<lparr> pr_event_id = event_id_for now, pr_session_key = key, pr_session_id = sid,
           pr_received_at = now, pr_payload_hash = hash, pr_duplicate = False, pr_existing_event_id = [] \<rparr>"
    and d': "d' = d2\<lparr>db_idempotency := db_idempotency d @ [new_idempotency_row key sid req hash now],
             db_events := db_events d @ [new_event_row tenant key sid req hash now]\<rparr>"
    and e: "ev_event_id (new_event_row tenant key sid req hash now) \<notin> ev_event_id ` set (db_events d)"
      "ev_idempotency_key (new_event_row tenant key sid req hash now) \<notin> ev_idempotency_key ` set (db_events d)"
    using p by (auto simp: persist_event_tx_def nf Let_def d1_def [symmetric] s f2(1,2) table_simps
        dest!: and_then_InrD)
  moreover have "d' = d1\<lparr>db_sessions := db_sessions d',
             db_idempotency := db_idempotency d @ [new_idempotency_row key sid req hash now],
             db_events := db_events d @ [new_event_row tenant key sid req hash now]\<rparr>"
    by (subst d', subst f2(3)) (simp add: d')
  ultimately show ?thesis
    using that [OF d1_def, of sid] f2(4) e by (simp add: new_event_row_def)
qed

text \<open>A key that is stored decides every later ingest with it.\<close>

lemma persist_event_again:
  assumes "persist_event flt tenant key req hash now d = (Inr r, d')" "year_ok now"
    "pq_idempotency_key req' = pq_idempotency_key req"
  shows "persist_event TxOk tenant' key' req' hash' now' d' =
    (if hash' = hash then Inr (r\<lparr>pr_duplicate := True, pr_existing_event_id := pr_event_id r\<rparr>)
     else Inl IdempotencyConflict, d')"
proof -
  from assms(1) have t: "persist_event_tx tenant key req hash now d = Inr (r, d')"
    unfolding persist_event_def by (auto dest: with_writer_tx_InrD)
  show ?thesis
  proof (cases "find_row ik_key (pq_idempotency_key req) (db_idempotency d)")
    case None
    then have new: "pq_idempotency_key req \<notin> ik_key ` set (db_idempotency d)" by (simp add: find_row_None)
    from persist_event_tx_newD [OF t new] obtain sid dx where
      "d' = dx\<lparr>db_sessions := db_sessions d', db_idempotency := db_idempotency d @ [new_idempotency_row key sid req hash now],
             db_events := db_events d @ [new_event_row tenant key sid req hash now]\<rparr>"
      and r: "r = \<lparr> pr_event_id = event_id_for now, pr_session_key = key, pr_session_id = sid,
           pr_received_at = now, pr_payload_hash = hash, pr_duplicate = False, pr_existing_event_id = [] \<rparr>" by metis
    then have "db_idempotency d' = db_idempotency d @ [new_idempotency_row key sid req hash now]" by (metis database.select_convs(6) database.update_convs(5) database.surjective database.update_convs(6))
    then have "find_row ik_key (pq_idempotency_key req) (db_idempotency d') = Some (new_idempotency_row key sid req hash now)"
      using None by (simp, simp add: find_row_def new_idempotency_row_def)
    then show ?thesis
      by (simp add: persist_event_def with_writer_tx_def persist_event_tx_def assms(3) r duplicate_result_def
          new_idempotency_row_def must_parse_time_text [OF assms(2)])
  next
    case (Some row)
    with t have "d' = d" "r = duplicate_result row" "ik_payload_hash row = hash"
      by (auto simp: persist_event_tx_def split: if_splits)
    with Some show ?thesis
      by (simp add: persist_event_def with_writer_tx_def persist_event_tx_def assms(3) duplicate_result_def)
  qed
qed

end
