(* ===== verification/Paths.thy ===== *)
theory Paths
  imports Prelude
begin

text \<open>
  \<open>path.Clean\<close>, which the gateway uses on native references and the tools on workspace paths
  (\<open>filepath.Clean\<close> on a system whose separator is the slash), and what a cleaned path looks like.
\<close>

section \<open>Cleaning\<close>

text \<open>
  \<open>path.Clean\<close>: the elements of the path are pushed on a stack (its top first); \<open>..\<close> removes
  an element, or stays when there is none to remove and the path is not rooted.
\<close>

definition clean_step :: "bool \<Rightarrow> string \<Rightarrow> string list \<Rightarrow> string list" where
  "clean_step rooted w stack =
     (if w = [] \<or> w = ''.'' then stack
      else if w = ''..'' then
        (case stack of
           [] \<Rightarrow> if rooted then [] else [''..'']
         | x # xs \<Rightarrow> if x = ''..'' then ''..'' # stack else xs)
      else w # stack)"

definition path_clean :: "string \<Rightarrow> string" where
  "path_clean p =
     (let rooted = prefix ''/'' p;
          elems = rev (fold (clean_step rooted) (split_on (CHR ''/'') p) []);
          out = (if rooted then ''/'' else []) @ join ''/'' elems
      in if out = [] then ''.'' else out)"

section \<open>Cleaned paths\<close>

definition clean_elems :: "bool \<Rightarrow> string list \<Rightarrow> bool" where
  "clean_elems rooted ws \<longleftrightarrow>
     (\<exists>n vs. ws = replicate n ''..'' @ vs \<and> (rooted \<longrightarrow> n = 0) \<and>
        (\<forall>v \<in> set vs. v \<notin> {[], ''.'', ''..''} \<and> CHR ''/'' \<notin> set v))"

lemma clean_elemsI:
  "ws = replicate n ''..'' @ vs \<Longrightarrow> (rooted \<Longrightarrow> n = 0) \<Longrightarrow>
     (\<And>v. v \<in> set vs \<Longrightarrow> v \<notin> {[], ''.'', ''..''} \<and> CHR ''/'' \<notin> set v) \<Longrightarrow> clean_elems rooted ws"
  unfolding clean_elems_def by blast

lemma clean_elems_step:
  assumes "clean_elems r (rev st)" "CHR ''/'' \<notin> set w"
  shows "clean_elems r (rev (clean_step r w st))"
proof -
  obtain n vs where st: "rev st = replicate n ''..'' @ vs" "r \<longrightarrow> n = 0"
      and vs: "\<forall>v \<in> set vs. v \<notin> {[], ''.'', ''..''} \<and> CHR ''/'' \<notin> set v"
    using assms(1) by (auto simp: clean_elems_def)
  consider "w = [] \<or> w = ''.''" | "w = ''..''" | "w \<notin> {[], ''.'', ''..''}" by blast
  then show ?thesis
  proof cases
    case 1
    then show ?thesis using assms(1) by (simp add: clean_step_def)
  next
    case 2
    show ?thesis
    proof (cases vs rule: rev_cases)
      case Nil
      then have eq: "st = replicate n ''..''" using st(1) by (metis append_Nil2 rev_replicate rev_rev_ident)
      show ?thesis
      proof (cases "r")
        case True
        then show ?thesis using 2 eq st(2) by (auto simp: clean_step_def intro: clean_elemsI [of _ 0 "[]"])
      next
        case False
        have "clean_step r w st = replicate (Suc n) ''..''"
          using 2 eq False by (cases n) (auto simp: clean_step_def)
        then show ?thesis by (intro clean_elemsI [of _ "Suc n" "[]"]) (use False in \<open>auto simp: replicate_append_same\<close>)
      qed
    next
      case (snoc us u)
      then have eq: "st = u # rev (replicate n ''..'' @ us)" using st(1) by (metis append.assoc rev_append rev_rev_ident rev_singleton_conv append_Cons append_Nil)
      have "u \<noteq> ''..''" using vs snoc by auto
      then have "clean_step r w st = rev (replicate n ''..'' @ us)" using 2 eq by (simp add: clean_step_def)
      then show ?thesis by (intro clean_elemsI [of _ n us]) (use st(2) vs snoc in auto)
    qed
  next
    case 3
    then have "rev (clean_step r w st) = replicate n ''..'' @ vs @ [w]" using st(1) by (simp add: clean_step_def)
    then show ?thesis by (intro clean_elemsI [of _ n "vs @ [w]"]) (use st(2) vs 3 assms(2) in auto)
  qed
qed

lemma clean_elems_fold:
  "clean_elems r (rev st) \<Longrightarrow> (\<And>w. w \<in> set ws \<Longrightarrow> CHR ''/'' \<notin> set w) \<Longrightarrow>
     clean_elems r (rev (fold (clean_step r) ws st))"
proof (induction ws arbitrary: st)
  case (Cons w ws)
  then show ?case using clean_elems_step by simp
qed simp

lemma clean_fold_id:
  assumes "clean_elems r ws"
  shows "fold (clean_step r) ws [] = rev ws"
proof -
  obtain n vs where ws: "ws = replicate n ''..'' @ vs" "r \<longrightarrow> n = 0"
      and vs: "\<forall>v \<in> set vs. v \<notin> {[], ''.'', ''..''}"
    using assms by (auto simp: clean_elems_def)
  have dots: "fold (clean_step r) (replicate m ''..'') (replicate k ''..'') = replicate (m + k) ''..''" if "\<not> r" for m k
  proof (induction m arbitrary: k)
    case (Suc m)
    have "clean_step r ''..'' (replicate k ''..'') = replicate (Suc k) ''..''"
      using that by (cases k) (auto simp: clean_step_def)
    then show ?case using Suc [of "Suc k"] by simp
  qed simp
  have push: "fold (clean_step r) vs st = rev vs @ st" for st
    using vs by (induction vs arbitrary: st) (auto simp: clean_step_def)
  have "fold (clean_step r) (replicate n ''..'') [] = replicate n ''..''"
    using ws(2) dots [of n 0] by (cases r) auto
  then show ?thesis using ws push by simp
qed

definition path_elems :: "string \<Rightarrow> string list" where
  "path_elems p = rev (fold (clean_step (prefix ''/'' p)) (split_on (CHR ''/'') p) [])"

lemma path_elems_clean: "clean_elems (prefix ''/'' p) (path_elems p)"
  unfolding path_elems_def
proof (rule clean_elems_fold)
  show "clean_elems (prefix ''/'' p) (rev [])" by (rule clean_elemsI [of _ 0 "[]"]) auto
qed (use split_on_no_sep in blast)

lemma clean_elems_no_slash:
  assumes "clean_elems r ws" "w \<in> set ws"
  shows "w \<noteq> [] \<and> CHR ''/'' \<notin> set w"
proof -
  obtain n vs where ws: "ws = replicate n ''..'' @ vs"
      and vs: "\<forall>v \<in> set vs. v \<notin> {[], ''.'', ''..''} \<and> CHR ''/'' \<notin> set v"
    using assms(1) unfolding clean_elems_def by blast
  have "w \<in> set vs \<or> w = ''..''" using assms(2) ws by (cases n) auto
  then show ?thesis using vs by force
qed

lemma path_clean_elems:
  "path_clean p = (if prefix ''/'' p then ''/'' @ join ''/'' (path_elems p)
     else if path_elems p = [] then ''.'' else join ''/'' (path_elems p))"
proof -
  have "join ''/'' (path_elems p) = [] \<longleftrightarrow> path_elems p = []"
  proof (cases "path_elems p")
    case (Cons w ws)
    then have "w \<noteq> []" using clean_elems_no_slash [OF path_elems_clean [of p]] by simp
    then show ?thesis using Cons by (cases ws) auto
  qed simp
  then show ?thesis by (simp add: path_clean_def path_elems_def Let_def)
qed

lemma prefix_slash_join:
  assumes "clean_elems r ws" "ws \<noteq> []"
  shows "\<not> prefix ''/'' (join ''/'' ws)"
proof -
  obtain w us where ws: "ws = w # us" using assms(2) by (cases ws) auto
  have "w \<noteq> []" "CHR ''/'' \<notin> set w" using clean_elems_no_slash [OF assms(1)] ws by auto
  then show ?thesis using ws by (cases w; cases us) auto
qed

lemma path_clean_idem: "path_clean (path_clean p) = path_clean p"
proof (cases "path_elems p = []")
  case True
  have "path_elems ''.'' = []" "path_elems ''/'' = []" by (simp_all add: path_elems_def clean_step_def)
  with True show ?thesis by (simp add: path_clean_elems)
next
  case False
  let ?r = "prefix ''/'' p" and ?ws = "path_elems p"
  have split: "split_on (CHR ''/'') (join ''/'' ?ws) = ?ws"
    by (rule split_on_join) (use False clean_elems_no_slash [OF path_elems_clean] in auto)
  have fold: "fold (clean_step ?r) ?ws [] = rev ?ws" by (rule clean_fold_id [OF path_elems_clean])
  show ?thesis
  proof (cases ?r)
    case True
    then have "path_elems (''/'' @ join ''/'' ?ws) = ?ws" using split fold
      by (simp add: path_elems_def [of "CHR ''/'' # _"] clean_step_def)
    with True show ?thesis by (simp add: path_clean_elems)
  next
    case nr: False
    then have "path_elems (join ''/'' ?ws) = ?ws"
      using split fold prefix_slash_join [OF path_elems_clean False] by (simp add: path_elems_def [of "join _ _"])
    with nr False prefix_slash_join [OF path_elems_clean False] show ?thesis by (simp add: path_clean_elems)
  qed
qed

end
