(* ===== verification/Gateway.thy ===== *)
theory Gateway
  imports Payloads Ingest_Tx Paths
begin

text \<open>
  \<open>internal/gateway/service.go\<close>: the write side of the program.  \<open>Accept\<close> validates an
  ingress, binds and routes it, charges the rate limiters, stores the event under its idempotency
  key and hands it to the queue.  The repository and the queue are records of operations on their
  states; the canonical JSON hash of the payload is an argument.
\<close>

section \<open>Errors\<close>

record api_error =
  ae_status_code :: int
  ae_code :: string
  ae_message :: string
  ae_details :: json_object
  ae_retry_after :: int

definition bad_request :: "string \<Rightarrow> api_error" where
  "bad_request message = \<lparr> ae_status_code = 400, ae_code = ErrorCodeInvalidArgument, ae_message = message,
     ae_details = [], ae_retry_after = 0 \<rparr>"

definition invalid_argument :: "string \<Rightarrow> string \<Rightarrow> api_error" where
  "invalid_argument message field = \<lparr> ae_status_code = 400, ae_code = ErrorCodeInvalidArgument,
     ae_message = message, ae_details = [(''field'', JStr field)], ae_retry_after = 0 \<rparr>"

definition internal_error :: "string \<Rightarrow> api_error" where
  "internal_error message = \<lparr> ae_status_code = 500, ae_code = ErrorCodeInternal, ae_message = message,
     ae_details = [], ae_retry_after = 0 \<rparr>"

section \<open>Native references\<close>

definition normalize_native_ref :: "string \<Rightarrow> string" where
  "normalize_native_ref ref =
     (if trim_space ref = [] then []
      else path_clean (map (\<lambda>c. if c = CHR 0x5C then CHR ''/'' else c) ref))"

section \<open>Validation\<close>

definition max_timestamp_drift :: duration where "max_timestamp_drift = 10 * minute"

text \<open>The regular expressions of the idempotency keys.\<close>

definition all_digits :: "string \<Rightarrow> bool" where
  "all_digits s = (s \<noteq> [] \<and> list_all is_digit s)"

definition tg_key_matches :: "string \<Rightarrow> bool" where
  "tg_key_matches s = (prefix ''telegram:update:'' s \<and> all_digits (drop 16 s))"

definition cli_key_matches :: "string \<Rightarrow> bool" where
  "cli_key_matches s =
     (prefix ''cli:'' s \<and>
      (case split_on (CHR '':'') (drop 4 s) of [a, b] \<Rightarrow> a \<noteq> [] \<and> all_digits b | _ \<Rightarrow> False))"

definition is_ascii_letter :: "char \<Rightarrow> bool" where
  "is_ascii_letter c = (let n = (of_char c :: nat) in (65 \<le> n \<and> n \<le> 90) \<or> (97 \<le> n \<and> n \<le> 122))"

definition windows_volume_path :: "string \<Rightarrow> bool" where
  "windows_volume_path s =
     (case s of a # b # c # _ \<Rightarrow> is_ascii_letter a \<and> b = CHR '':'' \<and> c = CHR ''/'' | _ \<Rightarrow> False)"

definition native_ref_outside :: "string \<Rightarrow> bool" where
  "native_ref_outside ref =
     (let clean = normalize_native_ref ref in
      clean = ''..'' \<or> prefix ''../'' clean \<or> prefix ''/'' clean \<or> windows_volume_path clean \<or>
      \<not> prefix ''runtime/native/'' clean)"

definition validate_ingress :: "normalized_ingress \<Rightarrow> time \<Rightarrow> api_error + time" where
  "validate_ingress i now =
     (if in_source i = [] then Inl (invalid_argument ''field source is required'' ''source'')
      else if conversation_id (in_conversation i) = [] then
        Inl (invalid_argument ''field conversation.conversation_id is required'' ''conversation.conversation_id'')
      else if channel_type (in_conversation i) = [] then
        Inl (invalid_argument ''field conversation.channel_type is required'' ''conversation.channel_type'')
      else if channel_type (in_conversation i) = ''channel'' then
        Inl (invalid_argument (''channel_type '' @ [CHR 0x27] @ ''channel'' @ [CHR 0x27] @ '' is reserved'') ''conversation.channel_type'')
      else if channel_type (in_conversation i) = ''dm'' \<and> participant_id (in_conversation i) = [] then
        Inl (invalid_argument ''field conversation.participant_id is required'' ''conversation.participant_id'')
      else if payload_type (in_payload i) = [] then
        Inl (invalid_argument ''field payload.type is required'' ''payload.type'')
      else if in_idempotency_key i = [] then
        Inl (invalid_argument ''field idempotency_key is required'' ''idempotency_key'')
      else if in_source i = ''telegram'' \<and> \<not> tg_key_matches (in_idempotency_key i) then
        Inl (bad_request ''invalid telegram idempotency_key format'')
      else if in_source i = ''cli'' \<and> \<not> cli_key_matches (in_idempotency_key i) then
        Inl (bad_request ''invalid cli idempotency_key format'')
      else if native_ref (in_payload i) \<noteq> [] \<and> native_ref_outside (native_ref (in_payload i)) then
        Inl (bad_request ''native_ref must stay within runtime/native/**'')
      else if is_zero_time (in_timestamp i) then Inl (invalid_argument ''field timestamp is required'' ''timestamp'')
      else if max_timestamp_drift < now - in_timestamp i \<or> now - in_timestamp i < - max_timestamp_drift then
        Inl (bad_request ''timestamp drift exceeds 10m'')
      else Inr (in_timestamp i))"

section \<open>Rate limiters\<close>

text \<open>
  A token bucket per key.  A \<open>float64\<close> operation is the exact operation on rationals followed
  by the rounding \<open>rnd\<close>; rates and bursts are finite.
\<close>

type_synonym rounding = "rat \<Rightarrow> rat"

record bucket =
  bk_tokens :: rat
  bk_last :: time

record limiter =
  lm_rate :: rat
  lm_burst :: rat
  lm_buckets :: "string \<rightharpoonup> bucket"
  lm_gc_counter :: nat

definition gc_interval :: nat where "gc_interval = 256"
definition bucket_expiry :: duration where "bucket_expiry = 5 * minute"

definition new_limiter :: "rat \<Rightarrow> rat \<Rightarrow> limiter" where
  "new_limiter rate burst = \<lparr> lm_rate = rate, lm_burst = burst, lm_buckets = Map.empty, lm_gc_counter = 0 \<rparr>"

text \<open>\<open>Duration.Seconds\<close>.\<close>

definition duration_seconds :: "rounding \<Rightarrow> duration \<Rightarrow> rat" where
  "duration_seconds rnd d =
     (let secs = int_quot d second
      in rnd (rnd (of_int secs) + rnd (of_int (d - secs * second) / 1000000000)))"

definition limiter_gc :: "time \<Rightarrow> limiter \<Rightarrow> limiter" where
  "limiter_gc now l =
     (if gc_interval \<le> lm_gc_counter l + 1
      then l\<lparr>lm_gc_counter := 0, lm_buckets := (\<lambda>k. case lm_buckets l k of
               None \<Rightarrow> None | Some b \<Rightarrow> if bucket_expiry < now - bk_last b then None else Some b)\<rparr>
      else l\<lparr>lm_gc_counter := lm_gc_counter l + 1\<rparr>)"

definition refill :: "rounding \<Rightarrow> limiter \<Rightarrow> time \<Rightarrow> bucket \<Rightarrow> bucket" where
  "refill rnd l now b =
     (let elapsed = duration_seconds rnd (now - bk_last b)
      in if 0 < elapsed
         then \<lparr> bk_tokens = min (lm_burst l) (rnd (bk_tokens b + rnd (elapsed * lm_rate l))), bk_last = now \<rparr>
         else b)"

definition allow :: "rounding \<Rightarrow> string \<Rightarrow> time \<Rightarrow> limiter \<Rightarrow> bool \<times> limiter" where
  "allow rnd key now l0 =
     (let l = limiter_gc now l0 in
      case lm_buckets l key of
        None \<Rightarrow> (True, l\<lparr>lm_buckets := (lm_buckets l)(key \<mapsto> \<lparr> bk_tokens = rnd (lm_burst l - 1), bk_last = now \<rparr>)\<rparr>)
      | Some b \<Rightarrow>
          (let b1 = refill rnd l now b in
           if bk_tokens b1 < 1 then (False, l\<lparr>lm_buckets := (lm_buckets l)(key \<mapsto> b1)\<rparr>)
           else (True, l\<lparr>lm_buckets := (lm_buckets l)(key \<mapsto> b1\<lparr>bk_tokens := rnd (bk_tokens b1 - 1)\<rparr>)\<rparr>)))"

section \<open>The service\<close>

record 's event_repository =
  er_persist_event :: "string \<Rightarrow> string \<Rightarrow> persist_request \<Rightarrow> string \<Rightarrow> time \<Rightarrow> 's \<Rightarrow> (store_error + persist_result) \<times> 's"
  er_mark_event_queued :: "string \<Rightarrow> time \<Rightarrow> 's \<Rightarrow> string option \<times> 's"

record ('s, 'q) gateway_service =
  gw_tenant_id :: string
  gw_repo :: "'s event_repository option"
  gw_try_enqueue :: "(string \<Rightarrow> 'q \<Rightarrow> bool \<times> 'q) option"
  gw_sha256 :: "string \<Rightarrow> string"
  gw_lookup :: "'s \<Rightarrow> session_lookup option"
  gw_payloads :: "payload_registry option"
  gw_payload_hash :: "normalized_ingress \<Rightarrow> string option"
  gw_error_text :: "store_error \<Rightarrow> string"
  gw_rounding :: rounding

record ('s, 'q) gateway_state =
  gs_store :: 's
  gs_queue :: 'q
  gs_tenant_limiter :: limiter
  gs_session_limiter :: limiter

record gateway_result =
  gr_event_id :: string
  gr_session_key :: string
  gr_session_id :: string
  gr_received_at :: time
  gr_payload_hash :: string
  gr_duplicate :: bool
  gr_enqueued :: bool

record ingest_response =
  ir_event_id :: string
  ir_session_key :: string
  ir_active_session_id :: string
  ir_received_at :: string
  ir_payload_hash :: string
  ir_status :: string
  ir_status_url :: string
  ir_error :: "error_block option"

record accepted_ingest =
  ai_response :: ingest_response
  ai_result :: gateway_result
  ai_status_code :: int

definition session_rate_limit_key :: "(string \<Rightarrow> string) \<Rightarrow> string \<Rightarrow> conversation \<Rightarrow> string + string" where
  "session_rate_limit_key sha256 tenant conv = compute_key sha256 tenant conv default_scope"

definition rate_limited :: api_error where
  "rate_limited = \<lparr> ae_status_code = 429, ae_code = ErrorCodeRateLimited, ae_message = ''rate limited'',
     ae_details = [], ae_retry_after = 1 \<rparr>"

definition persist_api_error :: "(store_error \<Rightarrow> string) \<Rightarrow> store_error \<Rightarrow> api_error" where
  "persist_api_error text e =
     (if e = IdempotencyConflict
      then \<lparr> ae_status_code = 409, ae_code = ErrorCodeConflict,
             ae_message = ''idempotency payload hash mismatch'', ae_details = [], ae_retry_after = 0 \<rparr>
      else internal_error (text e))"

text \<open>The session's limiter is charged only when the tenant's allows.\<close>

definition charge_limiters ::
  "rounding \<Rightarrow> string \<Rightarrow> string \<Rightarrow> time \<Rightarrow> ('s, 'q) gateway_state \<Rightarrow> bool \<times> ('s, 'q) gateway_state" where
  "charge_limiters rnd tenant limit_key now st =
     (let (ok, l) = allow rnd tenant now (gs_tenant_limiter st); st1 = st\<lparr>gs_tenant_limiter := l\<rparr> in
      if \<not> ok then (False, st1)
      else let (ok2, l2) = allow rnd limit_key now (gs_session_limiter st) in (ok2, st1\<lparr>gs_session_limiter := l2\<rparr>))"

definition to_gateway_result :: "persist_result \<Rightarrow> gateway_result" where
  "to_gateway_result r = \<lparr> gr_event_id = pr_event_id r, gr_session_key = pr_session_key r,
     gr_session_id = pr_session_id r, gr_received_at = pr_received_at r,
     gr_payload_hash = pr_payload_hash r, gr_duplicate = pr_duplicate r, gr_enqueued = False \<rparr>"

definition to_accepted :: "gateway_result \<Rightarrow> accepted_ingest" where
  "to_accepted r =
     \<lparr> ai_response = \<lparr> ir_event_id = gr_event_id r, ir_session_key = gr_session_key r,
         ir_active_session_id = gr_session_id r, ir_received_at = time_text (gr_received_at r),
         ir_payload_hash = gr_payload_hash r,
         ir_status = (if gr_duplicate r then ''duplicate_acked'' else ''accepted''),
         ir_status_url = ''/v1/events/'' @ gr_event_id r, ir_error = None \<rparr>,
       ai_result = r, ai_status_code = (if gr_duplicate r then 200 else 202) \<rparr>"

text \<open>The end of \<open>Accept\<close>: a new event is handed to the queue and marked.\<close>

definition enqueue_stored ::
  "('s, 'q) gateway_service \<Rightarrow> 's event_repository \<Rightarrow> persist_result \<Rightarrow> time \<Rightarrow> ('s, 'q) gateway_state
     \<Rightarrow> gateway_result \<times> ('s, 'q) gateway_state" where
  "enqueue_stored gw repo stored now st =
     (case gw_try_enqueue gw of
        None \<Rightarrow> (to_gateway_result stored, st)
      | Some enqueue \<Rightarrow>
          if pr_duplicate stored then (to_gateway_result stored, st)
          else
            (let (ok, q) = enqueue (pr_event_id stored) (gs_queue st); st1 = st\<lparr>gs_queue := q\<rparr> in
             if ok
             then ((to_gateway_result stored)\<lparr>gr_enqueued := True\<rparr>,
                   st1\<lparr>gs_store := snd (er_mark_event_queued repo (pr_event_id stored) now (gs_store st))\<rparr>)
             else (to_gateway_result stored, st1)))"

definition accept_persist ::
  "('s, 'q) gateway_service \<Rightarrow> 's event_repository \<Rightarrow> normalized_ingress \<Rightarrow> binding_context \<Rightarrow> route_decision
     \<Rightarrow> time \<Rightarrow> time \<Rightarrow> ('s, 'q) gateway_state \<Rightarrow> (api_error + accepted_ingest) \<times> ('s, 'q) gateway_state" where
  "accept_persist gw repo i b dec ts now st =
     (let pt = (if rd_payload_type dec \<noteq> [] then rd_payload_type dec else payload_type (in_payload i));
          effective = i\<lparr>in_payload := (in_payload i)\<lparr>payload_type := pt\<rparr>\<rparr>
      in case gw_payload_hash gw effective of
           None \<Rightarrow> (Inl (bad_request ''invalid payload''), st)
         | Some hash \<Rightarrow>
             (let req = \<lparr> pq_source = in_source i, pq_conversation = in_conversation i,
                          pq_payload = in_payload effective, pq_idempotency_key = in_idempotency_key i,
                          pq_dm_scope = bc_scope b \<rparr>
              in case er_persist_event repo (bc_tenant_id b) (bc_session_key b) req hash ts (gs_store st) of
                   (Inl e, s') \<Rightarrow> (Inl (persist_api_error (gw_error_text gw) e), st\<lparr>gs_store := s'\<rparr>)
                 | (Inr stored, s') \<Rightarrow>
                     (let (r, st') = enqueue_stored gw repo stored now (st\<lparr>gs_store := s'\<rparr>) in (Inr (to_accepted r), st'))))"

definition accept ::
  "('s, 'q) gateway_service \<Rightarrow> normalized_ingress \<Rightarrow> time \<Rightarrow> ('s, 'q) gateway_state
     \<Rightarrow> (api_error + accepted_ingest) \<times> ('s, 'q) gateway_state" where
  "accept gw i0 now st =
     (case gw_repo gw of
        None \<Rightarrow> (Inl (internal_error ''gateway repository unavailable''), st)
      | Some repo \<Rightarrow>
          (let i = i0\<lparr>in_payload := (in_payload i0)\<lparr>native_ref := normalize_native_ref (native_ref (in_payload i0))\<rparr>\<rparr> in
           case validate_ingress i now of
             Inl e \<Rightarrow> (Inl e, st)
           | Inr ts \<Rightarrow>
               (case resolve_binding (gw_sha256 gw) (gw_tenant_id gw) (gw_lookup gw (gs_store st)) i of
                  Inl e \<Rightarrow> (Inl (internal_error e), st)
                | Inr b \<Rightarrow>
                    (case route_resolve (gw_payloads gw) i b of
                       Inl e \<Rightarrow> (Inl (internal_error e), st)
                     | Inr dec \<Rightarrow>
                         (case session_rate_limit_key (gw_sha256 gw) (gw_tenant_id gw) (in_conversation i) of
                            Inl e \<Rightarrow> (Inl (bad_request e), st)
                          | Inr limit_key \<Rightarrow>
                              (let (ok, st1) = charge_limiters (gw_rounding gw) (gw_tenant_id gw) limit_key now st in
                               if \<not> ok then (Inl rate_limited, st1)
                               else accept_persist gw repo i b dec ts now st1))))))"

end
