(* ===== verification/Http_Ingest.thy ===== *)
theory Http_Ingest
  imports Gateway
begin

text \<open>
  \<open>internal/http/ingest\<close>: the write side of the HTTP surface.  Decoding the JSON body is an
  argument (None when \<open>Decode\<close> fails); what is written to the client is a response value.
\<close>

record ingest_request =
  iq_source :: string
  iq_conversation :: conversation
  iq_dm_scope :: string
  iq_session_key_hint :: string
  iq_idempotency_key :: string
  iq_timestamp :: string
  iq_payload :: event_payload

definition normalize_api_request :: "ingest_request \<Rightarrow> api_error + normalized_ingress" where
  "normalize_api_request req =
     (if trim_space (iq_timestamp req) = [] then Inl (invalid_argument ''field timestamp is required'' ''timestamp'')
      else if \<not> suffix ''Z'' (iq_timestamp req) then Inl (bad_request ''timestamp must be UTC'')
      else (case parse_rfc3339 (iq_timestamp req) of
              None \<Rightarrow> Inl (bad_request ''invalid timestamp'')
            | Some ts \<Rightarrow>
                Inr \<lparr> in_source = iq_source req, in_conversation = iq_conversation req,
                      in_session_key_hint = iq_session_key_hint req,
                      in_idempotency_key = iq_idempotency_key req, in_timestamp = ts,
                      in_dm_scope = iq_dm_scope req, in_payload = iq_payload req, in_metadata = [] \<rparr>))"

datatype response_body = ErrorBody error_block | IngestBody ingest_response

record 'b http_response =
  hr_status :: int
  hr_headers :: "(string \<times> string) list"
  hr_body :: 'b

definition write_json :: "int \<Rightarrow> 'b \<Rightarrow> 'b http_response" where
  "write_json status v = \<lparr> hr_status = status,
     hr_headers = [(''Content-Type'', ''application/json; charset=utf-8'')], hr_body = v \<rparr>"

definition write_api_error :: "api_error \<Rightarrow> response_body http_response" where
  "write_api_error e =
     (let r = write_json (ae_status_code e)
                (ErrorBody \<lparr> eb_code = ae_code e, eb_message = ae_message e, eb_details = ae_details e \<rparr>)
      in if 0 < ae_retry_after e
         then r\<lparr>hr_headers := (''Retry-After'', show_int (ae_retry_after e)) # hr_headers r\<rparr> else r)"

definition handle_ingest ::
  "('s, 'q) gateway_service \<Rightarrow> ingest_request option \<Rightarrow> time \<Rightarrow> ('s, 'q) gateway_state
     \<Rightarrow> response_body http_response \<times> ('s, 'q) gateway_state" where
  "handle_ingest gw decoded now st =
     (case decoded of
        None \<Rightarrow> (write_api_error (bad_request ''invalid json''), st)
      | Some req \<Rightarrow>
          (case normalize_api_request req of
             Inl e \<Rightarrow> (write_api_error e, st)
           | Inr i \<Rightarrow>
               (case accept gw i now st of
                  (Inl e, st') \<Rightarrow> (write_api_error e, st')
                | (Inr a, st') \<Rightarrow> (write_json (ai_status_code a) (IngestBody (ai_response a)), st'))))"

section \<open>Facts\<close>

lemma validate_ingress_Inl: "validate_ingress i now = Inl e \<Longrightarrow> ae_status_code e = 400 \<and> ae_code e = ErrorCodeInvalidArgument"
  by (auto simp: validate_ingress_def bad_request_def invalid_argument_def split: if_splits)

lemma normalize_api_request_Inl:
  "normalize_api_request r = Inl e \<Longrightarrow> ae_status_code e = 400 \<and> ae_code e = ErrorCodeInvalidArgument"
  by (auto simp: normalize_api_request_def bad_request_def invalid_argument_def split: if_splits option.splits)

text \<open>The error codes and statuses \<open>Accept\<close> answers with.\<close>

definition gateway_errors :: "(int \<times> string) list" where
  "gateway_errors = [(400, ErrorCodeInvalidArgument), (409, ErrorCodeConflict), (429, ErrorCodeRateLimited),
     (500, ErrorCodeInternal)]"

lemma bad_request_codes [simp]: "(ae_status_code (bad_request m), ae_code (bad_request m)) \<in> set gateway_errors"
  by (simp add: bad_request_def gateway_errors_def)

lemma internal_error_codes [simp]: "(ae_status_code (internal_error m), ae_code (internal_error m)) \<in> set gateway_errors"
  by (simp add: internal_error_def gateway_errors_def)

lemma rate_limited_codes [simp]: "(ae_status_code rate_limited, ae_code rate_limited) \<in> set gateway_errors"
  by (simp add: rate_limited_def gateway_errors_def)

lemma persist_api_error_codes [simp]:
  "(ae_status_code (persist_api_error t e), ae_code (persist_api_error t e)) \<in> set gateway_errors"
  by (simp add: persist_api_error_def) (simp add: gateway_errors_def)

lemma accept_persist_errors:
  "accept_persist gw repo i b dec ts now st = (Inl e, st') \<Longrightarrow> (ae_status_code e, ae_code e) \<in> set gateway_errors"
  by (auto simp: accept_persist_def Let_def split: option.splits prod.splits sum.splits)

lemma accept_InlD:
  "accept gw i now st = (Inl e, st') \<Longrightarrow>
     (\<exists>m. e = internal_error m) \<or> (\<exists>m. e = bad_request m) \<or> e = rate_limited \<or>
     (\<exists>i'. validate_ingress i' now = Inl e) \<or>
     (\<exists>repo i' b dec ts st1. accept_persist gw repo i' b dec ts now st1 = (Inl e, st'))"
  unfolding accept_def Let_def by (auto split: option.splits sum.splits prod.splits if_splits)

lemma accept_errors:
  assumes "accept gw i now st = (Inl e, st')"
  shows "(ae_status_code e, ae_code e) \<in> set gateway_errors"
proof -
  have v: "(ae_status_code e, ae_code e) \<in> set gateway_errors" if "validate_ingress i' now = Inl e" for i'
    using validate_ingress_Inl [OF that] by (simp add: gateway_errors_def)
  show ?thesis using accept_InlD [OF assms] v accept_persist_errors by (elim disjE exE) (simp, simp, simp, blast, blast)
qed

text \<open>An error leaves the store as it is, and the queue.\<close>

lemma accept_error_keeps_queue: "accept gw i now st = (Inl e, st') \<Longrightarrow> gs_queue st' = gs_queue st"
  by (auto simp: accept_def accept_persist_def charge_limiters_def Let_def
      split: option.splits sum.splits prod.splits if_splits)

end
