(* ===== verification/Hub.thy ===== *)
theory Hub
  imports Data_Model
begin

text \<open>
  \<open>internal/runtime/events/hub.go\<close> and \<open>observe.go\<close>: runtime events are numbered per event,
  kept for replay and handed to the queues of the observers.  The subscriptions are mutable objects
  shared between the hub's map and their readers, so they are an explicit store: a list, and a
  pointer is an index of it.  Each operation runs under the mutex and is one step; the clock is an
  argument.
\<close>

record queued_event =
  qe_event :: runtime_event
  qe_droppable :: bool

record subscription =
  sb_pending :: "queued_event list"
  sb_closed :: bool
  sb_event_id :: string
  sb_max_queued :: nat

record event_state =
  es_next_sequence :: int
  es_subscribers :: "nat list"
  es_history :: "queued_event list"
  es_terminal :: "runtime_event option"
  es_updated_at :: time

record hub =
  hub_events :: "string \<rightharpoonup> event_state"
  hub_subs :: "subscription list"
  hub_terminal_retention :: duration
  hub_max_queued :: nat
  hub_max_replay :: nat

definition new_hub :: hub where
  "new_hub = \<lparr> hub_events = Map.empty, hub_subs = [], hub_terminal_retention = 10 * minute,
     hub_max_queued = 64, hub_max_replay = 2048 \<rparr>"

section \<open>Subscriptions\<close>

definition sub_enqueue :: "runtime_event \<Rightarrow> bool \<Rightarrow> subscription \<Rightarrow> bool \<times> subscription" where
  "sub_enqueue e droppable s =
     (if sb_closed s then (False, s)
      else if sb_max_queued s \<le> length (sb_pending s) \<and> droppable then (False, s)
      else
        (let kept = (if sb_max_queued s \<le> length (sb_pending s)
                     then filter (\<lambda>q. \<not> qe_droppable q) (sb_pending s) else sb_pending s)
         in (True, s\<lparr>sb_pending := kept @ [\<lparr> qe_event = e, qe_droppable = droppable \<rparr>]\<rparr>)))"

definition sub_close :: "subscription \<Rightarrow> subscription" where
  "sub_close s = s\<lparr>sb_closed := True\<rparr>"

text \<open>\<open>Next\<close> returns an event, or that the stream is over, or it waits for the notification.\<close>

datatype next_result = NextEvent runtime_event | NextDone | NextWaits

definition sub_next :: "subscription \<Rightarrow> next_result \<times> subscription" where
  "sub_next s =
     (case sb_pending s of
        q # qs \<Rightarrow> (NextEvent (qe_event q), s\<lparr>sb_pending := qs\<rparr>)
      | [] \<Rightarrow> (if sb_closed s then NextDone else NextWaits, s))"

section \<open>Event states\<close>

definition policy_for_kind :: "runtime_event_kind \<Rightarrow> bool \<times> bool" where
  "policy_for_kind k =
     (k \<in> {RuntimeEventClaimed, RuntimeEventExecuting, RuntimeEventFinalizeStarted,
            RuntimeEventReasoningDelta, RuntimeEventTextDelta},
      k \<in> {RuntimeEventReasoningDelta, RuntimeEventTextDelta})"

definition new_event_state :: "time \<Rightarrow> event_state" where
  "new_event_state now = \<lparr> es_next_sequence = 2, es_subscribers = [], es_history = [], es_terminal = None,
     es_updated_at = now \<rparr>"

definition populate :: "runtime_event \<Rightarrow> time \<Rightarrow> event_state \<Rightarrow> runtime_event \<times> event_state" where
  "populate e now es =
     (let e1 = (if is_zero_time (re_occurred_at e) then e\<lparr>re_occurred_at := now\<rparr> else e) in
      if re_sequence e1 = 0
      then (e1\<lparr>re_sequence := es_next_sequence es\<rparr>, es\<lparr>es_next_sequence := es_next_sequence es + 1\<rparr>)
      else (e1, es))"

text \<open>The loop of \<open>appendHistory\<close> that filters in place.\<close>

fun keep_history :: "nat \<Rightarrow> queued_event list \<Rightarrow> queued_event list \<Rightarrow> queued_event list" where
  "keep_history limit kept [] = kept"
| "keep_history limit kept (q # qs) =
     keep_history limit (if length kept < limit \<or> \<not> qe_droppable q then kept @ [q] else kept) qs"

definition append_history :: "queued_event \<Rightarrow> nat \<Rightarrow> queued_event list \<Rightarrow> queued_event list" where
  "append_history item limit history =
     (let h = history @ [item] in
      if limit = 0 \<or> length h \<le> limit then h
      else
        (let f = keep_history limit [] h in
         if length f \<le> limit then f else drop (length f - limit) f))"

definition replay :: "event_state \<Rightarrow> runtime_event list" where
  "replay es = map qe_event (es_history es) @ (case es_terminal es of None \<Rightarrow> [] | Some t \<Rightarrow> [t])"

section \<open>The hub\<close>

definition prune :: "time \<Rightarrow> hub \<Rightarrow> hub" where
  "prune now h = h\<lparr>hub_events := (\<lambda>i. case hub_events h i of
       None \<Rightarrow> None
     | Some es \<Rightarrow>
         if es_terminal es = None \<or> es_subscribers es \<noteq> [] then Some es
         else if hub_terminal_retention h < now - es_updated_at es then None else Some es)\<rparr>"

definition ensure_event :: "string \<Rightarrow> time \<Rightarrow> hub \<Rightarrow> event_state" where
  "ensure_event i now h = (case hub_events h i of None \<Rightarrow> new_event_state now | Some es \<Rightarrow> es)"

definition put_state :: "string \<Rightarrow> event_state \<Rightarrow> hub \<Rightarrow> hub" where
  "put_state i es h = h\<lparr>hub_events := (hub_events h)(i \<mapsto> es)\<rparr>"

text \<open>\<open>Reserve\<close> allocates a subscription; the result is the pointer to it.\<close>

definition hub_reserve :: "hub \<Rightarrow> nat \<times> hub" where
  "hub_reserve h = (length (hub_subs h),
     h\<lparr>hub_subs := hub_subs h @ [\<lparr> sb_pending = [], sb_closed = False, sb_event_id = [],
         sb_max_queued = hub_max_queued h \<rparr>]\<rparr>)"

definition detach_sub :: "nat \<Rightarrow> time \<Rightarrow> event_state \<Rightarrow> event_state" where
  "detach_sub p now es = es\<lparr>es_subscribers := removeAll p (es_subscribers es), es_updated_at := now\<rparr>"

definition hub_detach :: "nat \<Rightarrow> string \<Rightarrow> time \<Rightarrow> hub \<Rightarrow> hub" where
  "hub_detach p i now h =
     (if i = [] then h
      else (case hub_events h i of
              None \<Rightarrow> h
            | Some es \<Rightarrow>
                (let es1 = detach_sub p now es; h1 = put_state i es1 h
                 in if es_subscribers es1 = [] \<and> es_terminal es1 \<noteq> None then prune now h1 else h1)))"

definition hub_release :: "nat \<Rightarrow> time \<Rightarrow> hub \<Rightarrow> hub" where
  "hub_release p now h =
     (let h1 = hub_detach p (sb_event_id (hub_subs h ! p)) now h
      in h1\<lparr>hub_subs := (hub_subs h1)[p := sub_close (hub_subs h1 ! p)]\<rparr>)"

definition hub_attach :: "nat \<Rightarrow> string \<Rightarrow> time \<Rightarrow> hub \<Rightarrow> runtime_event list \<times> hub" where
  "hub_attach p i now h =
     (let h1 = prune now h;
          es = ensure_event i now h1;
          es1 = (if es_terminal es = None then es\<lparr>es_subscribers := List.insert p (es_subscribers es)\<rparr> else es)
      in (replay es,
          put_state i (es1\<lparr>es_updated_at := now\<rparr>)
            (h1\<lparr>hub_subs := (hub_subs h1)[p := (hub_subs h1 ! p)\<lparr>sb_event_id := i\<rparr>]\<rparr>)))"

text \<open>\<open>dispatch\<close>; the order in which Go ranges over the set of subscribers does not matter.\<close>

definition deliver :: "runtime_event \<Rightarrow> bool \<Rightarrow> bool \<Rightarrow> subscription \<Rightarrow> subscription" where
  "deliver e terminal droppable s =
     (if terminal then sub_close (snd (sub_enqueue e False s)) else snd (sub_enqueue e droppable s))"

definition dispatch :: "nat list \<Rightarrow> runtime_event \<Rightarrow> bool \<Rightarrow> bool \<Rightarrow> subscription list \<Rightarrow> subscription list" where
  "dispatch ps e terminal droppable subs =
     fold (\<lambda>p ss. ss[p := deliver e terminal droppable (ss ! p)]) ps subs"

definition hub_publish :: "runtime_event \<Rightarrow> bool \<Rightarrow> time \<Rightarrow> hub \<Rightarrow> runtime_event \<times> hub" where
  "hub_publish e terminal now h =
     (let i = re_event_id e in
      if i = [] then (e, h)
      else
        (let h1 = prune now h; es = ensure_event i now h1 in
         case (terminal, es_terminal es) of
           (True, Some cached) \<Rightarrow> (cached, put_state i es h1)
         | _ \<Rightarrow>
             (let (e1, es1) = populate e now es;
                  pol = policy_for_kind (re_kind e1);
                  es2 = es1\<lparr>es_updated_at := now,
                    es_history := (if terminal then es_history es1
                       else append_history \<lparr> qe_event = e1, qe_droppable = snd pol \<rparr> (hub_max_replay h1) (es_history es1))\<rparr>;
                  es3 = (if terminal then es2\<lparr>es_terminal := Some e1, es_subscribers := []\<rparr> else es2)
              in (e1, put_state i es3
                    (h1\<lparr>hub_subs := dispatch (es_subscribers es) e1 terminal (fst pol) (hub_subs h1)\<rparr>)))))"

definition hub_publish_event :: "runtime_event \<Rightarrow> time \<Rightarrow> hub \<Rightarrow> hub" where
  "hub_publish_event e now h = (if re_event_id e = [] then h else snd (hub_publish e (is_terminal e) now h))"

definition hub_next :: "nat \<Rightarrow> hub \<Rightarrow> next_result \<times> hub" where
  "hub_next p h = (let (r, s) = sub_next (hub_subs h ! p) in (r, h\<lparr>hub_subs := (hub_subs h)[p := s]\<rparr>))"

section \<open>Observers\<close>

text \<open>
  \<open>observerSubscription.Attach\<close>: what the hub has, completed by the terminal event of the store
  (\<open>stored\<close>: \<open>TerminalReplaySource\<close>, None when there is no source, an error or no terminal event).
\<close>

definition replay_contains_terminal :: "runtime_event list \<Rightarrow> bool" where
  "replay_contains_terminal es = list_ex is_terminal es"

definition observer_attach ::
  "(string \<Rightarrow> runtime_event option) \<Rightarrow> nat \<Rightarrow> string \<Rightarrow> time \<Rightarrow> hub \<Rightarrow> runtime_event list \<times> hub" where
  "observer_attach stored p i now h =
     (let (rs, h1) = hub_attach p i now h in
      if replay_contains_terminal rs then (rs, h1)
      else (case stored i of
              None \<Rightarrow> (rs, h1)
            | Some t \<Rightarrow> let (e, h2) = hub_publish t True now h1 in (rs @ [e], h2)))"

end
