(* ===== verification/Stream.thy ===== *)
theory Stream
  imports Http_Ingest Hub
begin

text \<open>
  \<open>internal/http/stream/handler.go\<close> and \<open>pkg/api/stream.go\<close>: the chat stream.  The
  handler writes the accepted event, what the observer replays and then what it reads from its
  subscription, as server-sent events; it stops at the first terminal event.  The JSON encoding of
  an event is an argument.
\<close>

section \<open>Events of the API\<close>

datatype chat_stream_event_type =
  ChatStreamEventAccepted | ChatStreamEventStatus | ChatStreamEventReasoningDelta | ChatStreamEventTextDelta
| ChatStreamEventToolStart | ChatStreamEventToolResult | ChatStreamEventDone | ChatStreamEventError

fun stream_type_text :: "chat_stream_event_type \<Rightarrow> string" where
  "stream_type_text ChatStreamEventAccepted = ''accepted''"
| "stream_type_text ChatStreamEventStatus = ''status''"
| "stream_type_text ChatStreamEventReasoningDelta = ''reasoning_delta''"
| "stream_type_text ChatStreamEventTextDelta = ''text_delta''"
| "stream_type_text ChatStreamEventToolStart = ''tool_start''"
| "stream_type_text ChatStreamEventToolResult = ''tool_result''"
| "stream_type_text ChatStreamEventDone = ''done''"
| "stream_type_text ChatStreamEventError = ''error''"

record api_event_record =
  av_event_id :: string
  av_status :: event_status
  av_outbox_status :: outbox_status
  av_session_key :: string
  av_session_id :: string
  av_run_id :: string
  av_run_mode :: run_mode
  av_assistant_reply :: string
  av_outbox_id :: string
  av_processing_lease :: string
  av_received_at :: time
  av_created_at :: time
  av_updated_at :: time
  av_payload_hash :: string
  av_provider :: string
  av_model :: string
  av_provider_request_id :: string
  av_error :: "error_block option"

text \<open>\<open>runtimeEventRecordToAPI\<close>, with \<open>ToAPIEventRecord\<close> of \<open>internal/http/query\<close>.\<close>

definition runtime_event_record_to_api :: "event_record \<Rightarrow> api_event_record" where
  "runtime_event_record_to_api rec = \<lparr> av_event_id = rec_event_id rec, av_status = rec_status rec,
     av_outbox_status = rec_outbox_status rec, av_session_key = rec_session_key rec,
     av_session_id = rec_session_id rec, av_run_id = rec_run_id rec, av_run_mode = rec_run_mode rec,
     av_assistant_reply = rec_assistant_reply rec, av_outbox_id = rec_outbox_id rec,
     av_processing_lease = rec_processing_lease rec, av_received_at = rec_received_at rec,
     av_created_at = rec_created_at rec, av_updated_at = rec_updated_at rec,
     av_payload_hash = rec_payload_hash rec, av_provider = rec_provider rec, av_model = rec_model rec,
     av_provider_request_id = rec_provider_request_id rec, av_error = rec_error rec \<rparr>"

record chat_stream_event =
  ce_type :: chat_stream_event_type
  ce_event_id :: string
  ce_sequence :: int
  ce_at :: time
  ce_stream_protocol_version :: string
  ce_status :: string
  ce_message :: string
  ce_delta :: string
  ce_tool_call_id :: string
  ce_tool_name :: string
  ce_args :: json_object
  ce_result :: json_object
  ce_truncated :: bool
  ce_ingest_response :: "ingest_response option"
  ce_event_record :: "api_event_record option"
  ce_error :: "error_block option"

definition chat_event_is_terminal :: "chat_stream_event \<Rightarrow> bool" where
  "chat_event_is_terminal e = (ce_type e = ChatStreamEventDone \<or> ce_type e = ChatStreamEventError)"

definition chat_stream_protocol_version :: string where
  "chat_stream_protocol_version = ''2026-03-07.sse.v1''"

definition blank_chat_event :: "chat_stream_event_type \<Rightarrow> string \<Rightarrow> int \<Rightarrow> time \<Rightarrow> chat_stream_event" where
  "blank_chat_event ty eid n t = \<lparr> ce_type = ty, ce_event_id = eid, ce_sequence = n, ce_at = t,
     ce_stream_protocol_version = [], ce_status = [], ce_message = [], ce_delta = [], ce_tool_call_id = [],
     ce_tool_name = [], ce_args = [], ce_result = [], ce_truncated = False, ce_ingest_response = None,
     ce_event_record = None, ce_error = None \<rparr>"

definition non_zero_time :: "time \<Rightarrow> time \<Rightarrow> time" where
  "non_zero_time now t = (if is_zero_time t then now else t)"

text \<open>\<open>runtimeEventToAPI\<close>; \<open>now\<close> is the clock at the conversion.\<close>

definition runtime_event_to_api :: "time \<Rightarrow> runtime_event \<Rightarrow> chat_stream_event" where
  "runtime_event_to_api now e =
     (let out = (\<lambda>ty. blank_chat_event ty (re_event_id e) (re_sequence e) (non_zero_time now (re_occurred_at e)));
          rec = map_option runtime_event_record_to_api (re_event_record e)
      in case re_kind e of
           RuntimeEventClaimed \<Rightarrow> (out ChatStreamEventStatus)\<lparr>ce_status := ''processing'', ce_message := re_message e\<rparr>
         | RuntimeEventExecuting \<Rightarrow> (out ChatStreamEventStatus)\<lparr>ce_status := ''processing'', ce_message := re_message e\<rparr>
         | RuntimeEventFinalizeStarted \<Rightarrow> (out ChatStreamEventStatus)\<lparr>ce_status := ''processing'', ce_message := re_message e\<rparr>
         | RuntimeEventReasoningDelta \<Rightarrow> (out ChatStreamEventReasoningDelta)\<lparr>ce_delta := re_delta e\<rparr>
         | RuntimeEventTextDelta \<Rightarrow> (out ChatStreamEventTextDelta)\<lparr>ce_delta := re_delta e\<rparr>
         | RuntimeEventToolStarted \<Rightarrow> (out ChatStreamEventToolStart)\<lparr>ce_tool_call_id := re_tool_call_id e,
             ce_tool_name := re_tool_name e, ce_args := re_args e, ce_truncated := re_truncated e\<rparr>
         | RuntimeEventToolFinished \<Rightarrow> (out ChatStreamEventToolResult)\<lparr>ce_tool_call_id := re_tool_call_id e,
             ce_tool_name := re_tool_name e, ce_result := re_result e, ce_truncated := re_truncated e,
             ce_error := re_error e\<rparr>
         | RuntimeEventFailed \<Rightarrow> (out ChatStreamEventError)\<lparr>ce_event_record := rec,
             ce_error := (case re_error e of Some b \<Rightarrow> Some b | None \<Rightarrow> Option.bind rec av_error)\<rparr>
         | RuntimeEventCompleted \<Rightarrow> (out ChatStreamEventDone)\<lparr>ce_event_record := rec\<rparr>)"

section \<open>Server-sent events\<close>

definition line_feed :: char where "line_feed = CHR 0x0A"
definition carriage_return :: char where "carriage_return = CHR 0x0D"

definition sse_event :: "string \<Rightarrow> string \<Rightarrow> string" where
  "sse_event ty body = ''event: '' @ ty @ [line_feed] @ ''data: '' @ body @ [line_feed, line_feed]"

definition write_sse_comment :: "string \<Rightarrow> string" where
  "write_sse_comment comment = '': '' @ comment @ [line_feed, line_feed]"

text \<open>\<open>writeSSEEvent\<close>; \<open>marshal\<close> is \<open>json.Marshal\<close>, None when it fails.\<close>

definition write_sse_event :: "(chat_stream_event \<Rightarrow> string option) \<Rightarrow> chat_stream_event \<Rightarrow> string option" where
  "write_sse_event marshal e = map_option (sse_event (stream_type_text (ce_type e))) (marshal e)"

text \<open>\<open>ReadString\<close>: the first line with its line feed and the rest; None at the end of the input.\<close>

fun read_line :: "string \<Rightarrow> (string \<times> string) option" where
  "read_line [] = None"
| "read_line (c # cs) =
     (if c = line_feed then Some ([c], cs)
      else (case read_line cs of None \<Rightarrow> None | Some (l, rest) \<Rightarrow> Some (c # l, rest)))"

lemma read_line_length: "read_line s = Some (l, rest) \<Longrightarrow> length rest < length s"
  by (induction s arbitrary: l) (auto split: if_splits option.splits)

definition trim_sse_line :: "string \<Rightarrow> string" where
  "trim_sse_line s = rev (dropWhile (\<lambda>c. c = line_feed \<or> c = carriage_return) (rev s))"

definition has_field :: "string \<Rightarrow> string \<Rightarrow> bool" where
  "has_field name line = (length name < length line \<and> prefix name line)"

text \<open>
  \<open>readSSEEvent\<close>: the type and the data read so far are arguments (\<open>data\<close> is nil before the
  first data line); the result is the event and the unread input, None at the end of the input.
\<close>

function read_sse_event :: "string \<Rightarrow> string option \<Rightarrow> string \<Rightarrow> (string \<times> string option \<times> string) option" where
  "read_sse_event ty data input =
     (case read_line input of
        None \<Rightarrow> None
      | Some (line, rest) \<Rightarrow>
          if line = [line_feed] then
            (if ty = [] \<and> (data = None \<or> data = Some []) then read_sse_event ty data rest
             else Some (ty, data, rest))
          else if prefix '':'' line then read_sse_event ty data rest
          else if has_field ''event: '' line then read_sse_event (trim_sse_line (drop 7 line)) data rest
          else if has_field ''data: '' line then
            read_sse_event ty
              (case data of None \<Rightarrow> Some (trim_sse_line (drop 6 line))
               | Some d \<Rightarrow> Some (d @ [line_feed] @ trim_sse_line (drop 6 line))) rest
          else read_sse_event ty data rest)"
  by pat_completeness auto
termination
  by (relation "measure (\<lambda>(_, _, s). length s)") (auto dest: read_line_length)

declare read_sse_event.simps [simp del]

section \<open>The handler\<close>

text \<open>
  What \<open>Next\<close> returns within one keepalive interval: an event, with the clock at its conversion,
  or nothing because the interval is over, the client is gone, or the stream is closed.
\<close>

datatype wait_result = WaitEvent time runtime_event | WaitKeepalive | WaitClientGone | WaitClosed

datatype stream_frame = FrameEvent chat_stream_event | FrameKeepalive

text \<open>The two loops; the second component of the first says whether the handler goes on.\<close>

fun stream_replay :: "(time \<times> runtime_event) list \<Rightarrow> stream_frame list \<times> bool" where
  "stream_replay [] = ([], True)"
| "stream_replay ((now, e) # es) =
     (let a = runtime_event_to_api now e in
      if chat_event_is_terminal a then ([FrameEvent a], False)
      else let (fs, go) = stream_replay es in (FrameEvent a # fs, go))"

fun stream_live :: "wait_result list \<Rightarrow> stream_frame list" where
  "stream_live [] = []"
| "stream_live (WaitEvent now e # ws) =
     (let a = runtime_event_to_api now e in
      FrameEvent a # (if chat_event_is_terminal a then [] else stream_live ws))"
| "stream_live (WaitKeepalive # ws) = FrameKeepalive # stream_live ws"
| "stream_live (WaitClientGone # ws) = []"
| "stream_live (WaitClosed # ws) = []"

definition accepted_chat_event :: "accepted_ingest \<Rightarrow> time \<Rightarrow> chat_stream_event" where
  "accepted_chat_event a now =
     (blank_chat_event ChatStreamEventAccepted (gr_event_id (ai_result a)) 1 now)
       \<lparr>ce_stream_protocol_version := chat_stream_protocol_version, ce_ingest_response := Some (ai_response a)\<rparr>"

text \<open>
  The frames of a stream: after the accepted event the replay and, unless it was terminal, what is
  read live.  The handler returns at the first write that fails, so that \<open>writes\<close> frames reach
  the client.
\<close>

definition stream_frames ::
  "accepted_ingest \<Rightarrow> time \<Rightarrow> (time \<times> runtime_event) list \<Rightarrow> wait_result list \<Rightarrow> nat \<Rightarrow> stream_frame list" where
  "stream_frames a now replayed waits writes =
     take writes
       (FrameEvent (accepted_chat_event a now) #
        (let (fs, go) = stream_replay replayed in fs @ (if go then stream_live waits else [])))"

definition sse_headers :: "(string \<times> string) list" where
  "sse_headers = [(''Content-Type'', ''text/event-stream''), (''Cache-Control'', ''no-cache''),
     (''Connection'', ''keep-alive''), (''X-Accel-Buffering'', ''no'')]"

datatype stream_result = StreamError "response_body http_response" | Streaming "(string \<times> string) list" "stream_frame list"

text \<open>
  \<open>HandleChatStream\<close>.  The subscription is opened before the ingest is accepted and attached
  to the event after it; the observer's \<open>Attach\<close> is \<open>observer_attach\<close> of the hub, whose
  replay is stamped with the conversion clock.  The hub changes while \<open>Accept\<close> runs and while the
  handler streams, which are the arguments \<open>meanwhile\<close> and \<open>during\<close>; \<open>finish\<close> is the clock
  of the deferred \<open>Close\<close>.
\<close>

definition handle_chat_stream ::
  "('s, 'q) gateway_service \<Rightarrow> (string \<Rightarrow> runtime_event option) \<Rightarrow> (hub \<Rightarrow> hub) \<Rightarrow> (hub \<Rightarrow> hub) \<Rightarrow> bool \<Rightarrow> ingest_request option \<Rightarrow> time \<Rightarrow> time
     \<Rightarrow> wait_result list \<Rightarrow> nat \<Rightarrow> ('s, 'q) gateway_state \<Rightarrow> hub \<Rightarrow> stream_result \<times> ('s, 'q) gateway_state \<times> hub" where
  "handle_chat_stream gw stored meanwhile during flusher decoded now finish waits writes st h =
     (case decoded of
        None \<Rightarrow> (StreamError (write_api_error (bad_request ''invalid json'')), st, h)
      | Some req \<Rightarrow>
          (case normalize_api_request req of
             Inl e \<Rightarrow> (StreamError (write_api_error e), st, h)
           | Inr i \<Rightarrow>
               (let (p, h1) = hub_reserve h in
                case accept gw i now st of
                  (Inl e, st') \<Rightarrow> (StreamError (write_api_error e), st', hub_release p finish (meanwhile h1))
                | (Inr a, st') \<Rightarrow>
                    (let (rs, h2) = observer_attach stored p (gr_event_id (ai_result a)) now (meanwhile h1) in
                     if \<not> flusher
                     then (StreamError (write_api_error (internal_error ''streaming unsupported'')), st', hub_release p finish h2)
                     else (Streaming sse_headers (stream_frames a now (map (Pair now) rs) waits writes), st',
                           hub_release p finish (during h2))))))"

end
