(* ===== verification/Stream_Codec.thy ===== *)
theory Stream_Codec
  imports Stream
begin

text \<open>
  What a client reads back of a stream: the server-sent events that were written, in their order,
  without the keepalive comments; and what the handler writes: the accepted event and then the
  runtime events up to the first terminal one.
\<close>

section \<open>Reading what was written\<close>

text \<open>A field value that fills one line: not empty, no line feed, no carriage return at its end.\<close>

definition sse_safe :: "string \<Rightarrow> bool" where
  "sse_safe s = (s \<noteq> [] \<and> line_feed \<notin> set s \<and> last s \<noteq> carriage_return)"

lemma read_line_append:
  "line_feed \<notin> set l \<Longrightarrow> read_line (l @ line_feed # rest) = Some (l @ [line_feed], rest)"
  by (induction l) auto

lemma trim_sse_line_safe: "sse_safe s \<Longrightarrow> trim_sse_line (s @ [line_feed]) = s"
  by (cases s rule: rev_cases) (auto simp: sse_safe_def trim_sse_line_def)

lemma stream_type_text_safe: "sse_safe (stream_type_text t)"
  by (cases t) (simp_all add: sse_safe_def line_feed_def carriage_return_def)

lemma read_line_field:
  assumes "line_feed \<notin> set f" "line_feed \<notin> set v"
  shows "read_line (f @ v @ line_feed # rest) = Some (f @ v @ [line_feed], rest)"
  using read_line_append [of "f @ v" rest] assms by simp

lemma field_names: "line_feed \<notin> set ''event: ''" "line_feed \<notin> set ''data: ''" "line_feed \<notin> set '': ''"
  by (simp_all add: line_feed_def)

lemma read_event_line:
  assumes "sse_safe v"
  shows "read_sse_event ty data (''event: '' @ v @ line_feed # rest) = read_sse_event v data rest"
proof -
  have "v \<noteq> []" "line_feed \<notin> set v" using assms by (auto simp: sse_safe_def)
  note l = read_line_field [OF field_names(1) this(2), of rest]
  show ?thesis
    unfolding read_sse_event.simps [of ty data "''event: '' @ v @ line_feed # rest"] l option.case prod.case
    using \<open>v \<noteq> []\<close> trim_sse_line_safe [OF assms] by (simp add: has_field_def)
qed

lemma read_data_line:
  assumes "sse_safe v"
  shows "read_sse_event ty None (''data: '' @ v @ line_feed # rest) = read_sse_event ty (Some v) rest"
proof -
  have "v \<noteq> []" "line_feed \<notin> set v" using assms by (auto simp: sse_safe_def)
  note l = read_line_field [OF field_names(2) this(2), of rest]
  show ?thesis
    unfolding read_sse_event.simps [of ty None "''data: '' @ v @ line_feed # rest"] l option.case prod.case
    using \<open>v \<noteq> []\<close> trim_sse_line_safe [OF assms] by (simp add: has_field_def)
qed

lemma read_blank_line:
  "read_sse_event ty data (line_feed # rest) =
     (if ty = [] \<and> (data = None \<or> data = Some []) then read_sse_event ty data rest else Some (ty, data, rest))"
  by (subst read_sse_event.simps) simp

lemma read_sse_comment:
  assumes "line_feed \<notin> set comment"
  shows "read_sse_event [] None (write_sse_comment comment @ rest) = read_sse_event [] None rest"
proof -
  have s: "write_sse_comment comment @ rest = '': '' @ comment @ line_feed # line_feed # rest"
    by (simp add: write_sse_comment_def)
  note l = read_line_field [OF field_names(3) assms, of "line_feed # rest"]
  have "read_sse_event [] None (write_sse_comment comment @ rest) = read_sse_event [] None (line_feed # rest)"
    unfolding s read_sse_event.simps [of "[]" None "'': '' @ comment @ line_feed # line_feed # rest"] l option.case prod.case
    by simp
  then show ?thesis by (simp add: read_blank_line)
qed

lemma read_sse_written:
  assumes "sse_safe ty" "sse_safe body"
  shows "read_sse_event [] None (sse_event ty body @ rest) = Some (ty, Some body, rest)"
proof -
  have s: "sse_event ty body @ rest = ''event: '' @ ty @ line_feed # ''data: '' @ body @ line_feed # line_feed # rest"
    by (simp add: sse_event_def)
  have "ty \<noteq> []" using assms by (auto simp: sse_safe_def)
  then show ?thesis unfolding s read_event_line [OF assms(1)] read_data_line [OF assms(2)] by (simp add: read_blank_line)
qed

lemma read_sse_event_shorter: "read_sse_event ty data s = Some (ty', data', rest) \<Longrightarrow> length rest < length s"
proof (induction ty data s rule: read_sse_event.induct)
  case (1 ty data s)
  show ?case
  proof (cases "read_line s")
    case None
    then show ?thesis using 1 by (subst (asm) read_sse_event.simps) (simp split: if_splits)
  next
    case (Some lr)
    then obtain l r where lr: "read_line s = Some (l, r)" by (cases lr) auto
    have "length r < length s" by (rule read_line_length [OF lr])
    moreover have "length rest \<le> length r"
      using "1.prems" "1.IH" [OF lr refl] lr
      by (subst (asm) read_sse_event.simps) (auto split: if_splits intro: less_imp_le)
    ultimately show ?thesis by simp
  qed
qed

text \<open>All the events of a finished connection.\<close>

function read_all_sse :: "string \<Rightarrow> (string \<times> string) list" where
  "read_all_sse s =
     (case read_sse_event [] None s of
        None \<Rightarrow> []
      | Some (ty, data, rest) \<Rightarrow> (ty, case data of None \<Rightarrow> [] | Some d \<Rightarrow> d) # read_all_sse rest)"
  by pat_completeness auto
termination
  by (relation "measure length") (auto dest: read_sse_event_shorter)

declare read_all_sse.simps [simp del]

fun frame_text :: "(chat_stream_event \<Rightarrow> string option) \<Rightarrow> stream_frame \<Rightarrow> string" where
  "frame_text marshal (FrameEvent e) = (case write_sse_event marshal e of None \<Rightarrow> [] | Some t \<Rightarrow> t)"
| "frame_text marshal FrameKeepalive = write_sse_comment ''keepalive''"

fun frame_events :: "stream_frame list \<Rightarrow> chat_stream_event list" where
  "frame_events [] = []"
| "frame_events (FrameEvent e # fs) = e # frame_events fs"
| "frame_events (FrameKeepalive # fs) = frame_events fs"

text \<open>
  Reading the server-sent events of a stream gives the events that were written, type and
  JSON body, in their order; keepalive comments are skipped.
\<close>

theorem sse_roundtrip:
  assumes "\<forall>e \<in> set (frame_events fs). \<exists>body. marshal e = Some body \<and> sse_safe body"
  shows "read_all_sse (concat (map (frame_text marshal) fs)) =
    map (\<lambda>e. (stream_type_text (ce_type e), the (marshal e))) (frame_events fs)"
  using assms
proof (induction fs rule: frame_events.induct)
  case 1
  show ?case by (simp add: read_all_sse.simps [of "[]"] read_sse_event.simps [of _ _ "[]"])
next
  case (2 e fs)
  then obtain body where body: "marshal e = Some body" "sse_safe body" by auto
  show ?case
    using read_sse_written [OF stream_type_text_safe body(2), of "ce_type e"] 2 body(1)
    by (subst read_all_sse.simps) (simp add: write_sse_event_def)
next
  case (3 fs)
  have "read_all_sse (write_sse_comment ''keepalive'' @ s) = read_all_sse s" for s
    using read_sse_comment [of "''keepalive''" s]
    by (subst (1 2) read_all_sse.simps) (simp add: line_feed_def)
  with 3 show ?case by simp
qed

theorem sse_roundtrip_witness:
  "read_all_sse (concat (map (frame_text (\<lambda>_. Some ''{}'')) [FrameKeepalive, FrameEvent (blank_chat_event ChatStreamEventDone ''e'' 2 0)])) =
     [(''done'', ''{}'')]"
  using sse_roundtrip [of "[FrameKeepalive, FrameEvent (blank_chat_event ChatStreamEventDone ''e'' 2 0)]" "\<lambda>_. Some ''{}''"]
  by (simp add: sse_safe_def line_feed_def carriage_return_def blank_chat_event_def)

section \<open>What the handler writes\<close>

definition upto_first :: "('a \<Rightarrow> bool) \<Rightarrow> 'a list \<Rightarrow> 'a list" where
  "upto_first P xs = takeWhile (\<lambda>x. \<not> P x) xs @ take 1 (dropWhile (\<lambda>x. \<not> P x) xs)"

lemma upto_first_simps [simp]:
  "upto_first P [] = []"
  "upto_first P (x # xs) = x # (if P x then [] else upto_first P xs)"
  by (simp_all add: upto_first_def)

lemma upto_first_append:
  "upto_first P (xs @ ys) = (if \<exists>x \<in> set xs. P x then upto_first P xs else xs @ upto_first P ys)"
  by (induction xs) auto

fun live_events :: "wait_result list \<Rightarrow> (time \<times> runtime_event) list" where
  "live_events [] = []"
| "live_events (WaitEvent now e # ws) = (now, e) # live_events ws"
| "live_events (WaitKeepalive # ws) = live_events ws"
| "live_events (WaitClientGone # ws) = []"
| "live_events (WaitClosed # ws) = []"

definition to_api :: "time \<times> runtime_event \<Rightarrow> chat_stream_event" where
  "to_api p = runtime_event_to_api (fst p) (snd p)"

lemma terminal_to_api [simp]: "chat_event_is_terminal (runtime_event_to_api now e) = is_terminal e"
  by (cases "re_kind e")
    (simp_all add: runtime_event_to_api_def chat_event_is_terminal_def is_terminal_def blank_chat_event_def Let_def)

lemma frame_events_append: "frame_events (fs @ gs) = frame_events fs @ frame_events gs"
  by (induction fs rule: frame_events.induct) auto

lemma stream_replay_spec:
  "stream_replay rs = (map FrameEvent (upto_first chat_event_is_terminal (map to_api rs)), \<not> list_ex (\<lambda>(_, e). is_terminal e) rs)"
  by (induction rs rule: stream_replay.induct) (auto simp: to_api_def Let_def)

lemma stream_live_spec: "frame_events (stream_live ws) = upto_first chat_event_is_terminal (map to_api (live_events ws))"
  by (induction ws rule: stream_live.induct) (auto simp: to_api_def Let_def)

lemma frame_events_map [simp]: "frame_events (map FrameEvent es) = es"
  by (induction es) auto

lemma length_stream_replay: "length (fst (stream_replay rs)) \<le> length rs"
  by (induction rs rule: stream_replay.induct) (auto simp: Let_def split: prod.splits)

lemma length_stream_live: "length (stream_live ws) \<le> length ws"
  by (induction ws rule: stream_live.induct) (auto simp: Let_def)

text \<open>A delta, the completion and an event after it, read live by a client that was accepted.\<close>

definition demo_runtime_event :: "runtime_event_kind \<Rightarrow> int \<Rightarrow> runtime_event" where
  "demo_runtime_event k n =
     \<lparr> re_kind = k, re_work = \<lparr> wi_event_id = ''e'', wi_session_key = ''k'', wi_lane_key = [], wi_source = [],
         wi_channel = [], wi_metadata = [] \<rparr>,
       re_event_id = ''e'', re_sequence = n, re_run_id = [], re_session_key = [], re_session_id = [],
       re_status = [], re_delta = ''hi'', re_tool_call_id = [], re_tool_name = [], re_args = [], re_result = [],
       re_truncated = False, re_message = [], re_occurred_at = 7, re_metadata = [], re_error = None,
       re_event_record = None \<rparr>"

definition demo_accepted_ingest :: accepted_ingest where
  "demo_accepted_ingest =
     \<lparr> ai_response = \<lparr> ir_event_id = ''e'', ir_session_key = ''k'', ir_active_session_id = ''s'', ir_received_at = [],
         ir_payload_hash = [], ir_status = ''received'', ir_status_url = [], ir_error = None \<rparr>,
       ai_result = \<lparr> gr_event_id = ''e'', gr_session_key = ''k'', gr_session_id = ''s'', gr_received_at = 5,
         gr_payload_hash = [], gr_duplicate = False, gr_enqueued = True \<rparr>,
       ai_status_code = 202 \<rparr>"

text \<open>
  When no write fails, the chat stream is the accepted event followed by the replayed and
  then the live runtime events, in their order, up to and including the first terminal one and
  nothing after it.
\<close>

theorem stream_frames_events:
  assumes "Suc (length replayed + length waits) \<le> writes"
  shows "frame_events (stream_frames a now replayed waits writes) =
    accepted_chat_event a now # upto_first chat_event_is_terminal (map to_api (replayed @ live_events waits))"
proof -
  obtain fs go where r: "stream_replay replayed = (fs, go)" by fastforce
  have "length (fs @ (if go then stream_live waits else [])) \<le> length replayed + length waits"
    using length_stream_replay [of replayed] length_stream_live [of waits] r by auto
  then have "stream_frames a now replayed waits writes =
      FrameEvent (accepted_chat_event a now) # fs @ (if go then stream_live waits else [])"
    using assms r by (simp add: stream_frames_def)
  moreover have "go = (\<not> (\<exists>x \<in> set (map to_api replayed). chat_event_is_terminal x))"
    "frame_events fs = upto_first chat_event_is_terminal (map to_api replayed)"
    using r by (auto simp: stream_replay_spec to_api_def list_ex_iff)
  moreover have "upto_first P xs = xs" if "\<not> (\<exists>x \<in> set xs. P x)" for P and xs :: "chat_stream_event list"
    using upto_first_append [of P xs "[]"] that by simp
  ultimately show ?thesis
    by (simp add: frame_events_append stream_live_spec upto_first_append)
qed

theorem stream_frames_events_witness:
  "frame_events (stream_frames demo_accepted_ingest 5 []
       [WaitKeepalive, WaitEvent 6 (demo_runtime_event RuntimeEventTextDelta 2),
        WaitEvent 7 (demo_runtime_event RuntimeEventCompleted 3), WaitEvent 8 (demo_runtime_event RuntimeEventTextDelta 4)] 9) =
     [accepted_chat_event demo_accepted_ingest 5,
      runtime_event_to_api 6 (demo_runtime_event RuntimeEventTextDelta 2),
      runtime_event_to_api 7 (demo_runtime_event RuntimeEventCompleted 3)]"
  using stream_frames_events [of "[]" "[WaitKeepalive, WaitEvent 6 (demo_runtime_event RuntimeEventTextDelta 2),
        WaitEvent 7 (demo_runtime_event RuntimeEventCompleted 3), WaitEvent 8 (demo_runtime_event RuntimeEventTextDelta 4)]"
      9 demo_accepted_ingest 5]
  by (simp add: to_api_def is_terminal_def demo_runtime_event_def)

end
