(* ===== verification/Capability.thy ===== *)
theory Capability
  imports Data_Model
begin

text \<open>
  The error contract of \<open>internal/runtime/kernel/contracts.go\<close>: errors of models, tools and
  the store carry a kind and are turned into the error block a client sees.  A Go \<open>error\<close> is a
  \<open>go_error\<close>: a plain text, one of the two context errors, an error with a \<open>Timeout\<close>
  method that says true, a text that wraps another error (\<open>fmt.Errorf\<close> with \<open>%w\<close>) or a
  \<open>*CapabilityError\<close>; a nil error is \<open>None\<close>.
\<close>

datatype capability_error_kind =
  CapabilityErrorUnset | CapabilityErrorFailed | CapabilityErrorTimeout | CapabilityErrorCanceled
| CapabilityErrorInvalidResponse

fun kind_text :: "capability_error_kind \<Rightarrow> string" where
  "kind_text CapabilityErrorUnset = []"
| "kind_text CapabilityErrorFailed = ''error''"
| "kind_text CapabilityErrorTimeout = ''timeout''"
| "kind_text CapabilityErrorCanceled = ''canceled''"
| "kind_text CapabilityErrorInvalidResponse = ''invalid_response''"

datatype go_error =
  TextError string
| ContextCanceled
| DeadlineExceeded
| TimeoutError string
| WrappedError string go_error
| CapabilityError capability_error

and capability_error =
  CapError (cap_source: string) (cap_capability: string) (cap_operation: string)
    (cap_kind: capability_error_kind) (cap_err: "go_error option")

section \<open>Texts\<close>

definition capability_scope :: "capability_error \<Rightarrow> string list" where
  "capability_scope e =
     (let src = trim_space (cap_source e); cap = trim_space (cap_capability e); op = trim_space (cap_operation e)
      in (if src \<noteq> [] then [src @ (if cap \<noteq> [] then ''.'' @ cap else [])] else if cap \<noteq> [] then [cap] else [])
         @ (if op \<noteq> [] then [op] else []))"

fun capability_suffix :: "capability_error_kind \<Rightarrow> string" where
  "capability_suffix CapabilityErrorTimeout = ''timed out''"
| "capability_suffix CapabilityErrorCanceled = ''canceled''"
| "capability_suffix CapabilityErrorInvalidResponse = ''returned invalid response''"
| "capability_suffix CapabilityErrorFailed = ''failed''"
| "capability_suffix CapabilityErrorUnset = ''failed''"

text \<open>\<open>err.Error()\<close>; the method of \<open>*CapabilityError\<close> is the last equation.\<close>

fun error_text :: "go_error \<Rightarrow> string" where
  "error_text (TextError t) = t"
| "error_text ContextCanceled = ''context canceled''"
| "error_text DeadlineExceeded = ''context deadline exceeded''"
| "error_text (TimeoutError t) = t"
| "error_text (WrappedError t e) = t @ error_text e"
| "error_text (CapabilityError (CapError s c p k e)) =
     (let scope = capability_scope (CapError s c p k e);
          head = (if scope \<noteq> [] then join '' '' scope else ''capability'')
      in head @ '' '' @ capability_suffix k @
         (case e of None \<Rightarrow> [] | Some inner \<Rightarrow> '': '' @ error_text inner))"

section \<open>Kinds\<close>

text \<open>\<open>errors.As\<close> with a \<open>*CapabilityError\<close> target: the first one along \<open>Unwrap\<close>.\<close>

fun as_capability :: "go_error \<Rightarrow> capability_error option" where
  "as_capability (CapabilityError e) = Some e"
| "as_capability (WrappedError t e) = as_capability e"
| "as_capability e = None"

text \<open>\<open>errors.Is\<close> against one of the context errors: any error along \<open>Unwrap\<close>.\<close>

fun is_error :: "go_error \<Rightarrow> go_error \<Rightarrow> bool" where
  "is_error target (WrappedError t e) = (target = WrappedError t e \<or> is_error target e)"
| "is_error target (CapabilityError (CapError s c p k e)) =
     (target = CapabilityError (CapError s c p k e) \<or>
      (case e of None \<Rightarrow> False | Some inner \<Rightarrow> is_error target inner))"
| "is_error target e = (target = e)"

text \<open>\<open>os.IsTimeout\<close> looks at the error itself, not along \<open>Unwrap\<close>.\<close>

fun is_timeout :: "go_error \<Rightarrow> bool" where
  "is_timeout (TimeoutError t) = True"
| "is_timeout DeadlineExceeded = True"
| "is_timeout e = False"

definition plain_error_kind :: "go_error \<Rightarrow> capability_error_kind" where
  "plain_error_kind e =
     (if is_error ContextCanceled e then CapabilityErrorCanceled
      else if is_error DeadlineExceeded e \<or> is_timeout e then CapabilityErrorTimeout
      else CapabilityErrorFailed)"

definition capability_error_kind_of :: "go_error option \<Rightarrow> capability_error_kind" where
  "capability_error_kind_of err =
     (case err of
        None \<Rightarrow> CapabilityErrorUnset
      | Some e \<Rightarrow>
          (case as_capability e of
             Some c \<Rightarrow> if cap_kind c \<noteq> CapabilityErrorUnset then cap_kind c else plain_error_kind e
           | None \<Rightarrow> plain_error_kind e))"

section \<open>Construction\<close>

definition wrap_capability_error :: "string \<Rightarrow> string \<Rightarrow> string \<Rightarrow> go_error option \<Rightarrow> go_error option" where
  "wrap_capability_error src cap op err =
     (case err of
        None \<Rightarrow> None
      | Some e \<Rightarrow>
          (case as_capability e of
             Some c \<Rightarrow> Some (CapabilityError c)
           | None \<Rightarrow> Some (CapabilityError (CapError src cap op (capability_error_kind_of err) err))))"

definition new_capability_error ::
  "string \<Rightarrow> string \<Rightarrow> string \<Rightarrow> capability_error_kind \<Rightarrow> go_error option \<Rightarrow> capability_error" where
  "new_capability_error src cap op kind err =
     CapError src cap op (if kind = CapabilityErrorUnset then capability_error_kind_of err else kind) err"

section \<open>Error blocks\<close>

definition capability_details :: "capability_error \<Rightarrow> json_object" where
  "capability_details c =
     [(''capability_error_kind'', JStr (kind_text (cap_kind c)))]
     @ (if cap_source c \<noteq> [] then [(''capability_source'', JStr (cap_source c))] else [])
     @ (if cap_capability c \<noteq> [] then [(''capability'', JStr (cap_capability c))] else [])
     @ (if cap_operation c \<noteq> [] then [(''capability_operation'', JStr (cap_operation c))] else [])"

definition error_block_from_error :: "go_error option \<Rightarrow> error_block option" where
  "error_block_from_error err =
     (case err of
        None \<Rightarrow> None
      | Some e \<Rightarrow> Some
          \<lparr> eb_code = (if capability_error_kind_of err \<in> {CapabilityErrorTimeout, CapabilityErrorCanceled}
                     then ErrorCodeCanceled else ErrorCodeInternal),
            eb_message = error_text e,
            eb_details = (case as_capability e of None \<Rightarrow> [] | Some c \<Rightarrow> capability_details c) \<rparr>)"

section \<open>Facts\<close>

lemma plain_error_kind_set: "plain_error_kind e \<noteq> CapabilityErrorUnset"
  by (simp add: plain_error_kind_def)

lemma wrap_capability_kind:
  "as_capability e = None \<or> as_capability e = Some c \<and> cap_kind c \<noteq> CapabilityErrorUnset \<Longrightarrow>
   capability_error_kind_of (wrap_capability_error src cap op (Some e)) = capability_error_kind_of (Some e)"
  by (auto simp: wrap_capability_error_def capability_error_kind_of_def plain_error_kind_set split: option.splits)

lemma wrap_capability_idem:
  "wrap_capability_error s' c' o' (wrap_capability_error src cap op e) = wrap_capability_error src cap op e"
  by (auto simp: wrap_capability_error_def split: option.splits)

text \<open>
  The kind of an error survives every wrapping, in whatever order texts and capabilities are put
  around it, and so does the code of its error block.
\<close>

inductive wraps :: "go_error \<Rightarrow> go_error \<Rightarrow> bool" where
  wraps_here: "wraps e e"
| wraps_text: "wraps e e' \<Longrightarrow> wraps e (WrappedError t e')"
| wraps_capability: "wraps e e' \<Longrightarrow> wrap_capability_error src cap op (Some e') = Some e'' \<Longrightarrow> wraps e e''"

definition classified :: "go_error \<Rightarrow> bool" where
  "classified e =
     (case as_capability e of
        Some c \<Rightarrow> cap_kind c \<noteq> CapabilityErrorUnset
      | None \<Rightarrow> (case e of TimeoutError t \<Rightarrow> False | _ \<Rightarrow> True))"

lemma kind_wrapped_text:
  "classified e \<Longrightarrow> classified (WrappedError t e) \<and>
     capability_error_kind_of (Some (WrappedError t e)) = capability_error_kind_of (Some e)"
  by (cases e; cases "as_capability e")
    (auto simp: classified_def capability_error_kind_of_def plain_error_kind_def)

lemma kind_wrapped_capability:
  "classified e \<Longrightarrow> wrap_capability_error src cap op (Some e) = Some e' \<Longrightarrow>
     classified e' \<and> capability_error_kind_of (Some e') = capability_error_kind_of (Some e)"
  by (cases "as_capability e")
    (auto simp: classified_def wrap_capability_error_def capability_error_kind_of_def plain_error_kind_set)

text \<open>
  C40: The kind of an error and the code of its error block survive every wrapping in texts and
  capability errors, unless the error is a bare timeout of another package.
\<close>

theorem error_kind_survives_wrapping:
  assumes "wraps e e'" and "classified e"
  shows "capability_error_kind_of (Some e') = capability_error_kind_of (Some e) \<and>
    map_option eb_code (error_block_from_error (Some e')) = map_option eb_code (error_block_from_error (Some e))"
proof -
  from assms have "classified e' \<and> capability_error_kind_of (Some e') = capability_error_kind_of (Some e)"
    by induction (auto dest: kind_wrapped_text kind_wrapped_capability)
  then show ?thesis by (simp add: error_block_from_error_def)
qed

theorem error_kind_survives_wrapping_witness:
  "map_option eb_code (error_block_from_error
      (Some (CapabilityError (CapError ''tool'' ''web_fetch'' ''invoke'' CapabilityErrorCanceled
         (Some (WrappedError ''fetch: '' ContextCanceled)))))) = Some ErrorCodeCanceled"
proof -
  have w: "wraps ContextCanceled (CapabilityError (CapError ''tool'' ''web_fetch'' ''invoke'' CapabilityErrorCanceled
      (Some (WrappedError ''fetch: '' ContextCanceled))))"
    by (rule wraps_capability [OF wraps_text [OF wraps_here]])
      (simp add: wrap_capability_error_def capability_error_kind_of_def plain_error_kind_def)
  have "classified ContextCanceled" by (simp add: classified_def)
  from error_kind_survives_wrapping [OF w this] show ?thesis
    by (simp add: error_block_from_error_def capability_error_kind_of_def plain_error_kind_def)
qed

end
