(* ===== verification/Utf8.thy ===== *)
theory Utf8
  imports Prelude
begin

text \<open>
  UTF-8 as Go's \<open>unicode/utf8\<close> and conversions between \<open>string\<close> and \<open>[]rune\<close> do it: a
  rune is a code point, a byte that starts no valid encoding decodes to U+FFFD and takes one byte.
  \<open>go_quote\<close> is \<open>strconv.Quote\<close>, which the verb \<open>%q\<close> uses.
\<close>

abbreviation byte :: "char \<Rightarrow> nat" where "byte c \<equiv> of_char c"

definition rune_error :: nat where "rune_error = 0xFFFD"

definition valid_rune :: "nat \<Rightarrow> bool" where
  "valid_rune r = (r < 0xD800 \<or> 0xE000 \<le> r \<and> r \<le> 0x10FFFF)"

definition continuation :: "nat \<Rightarrow> bool" where
  "continuation b = (0x80 \<le> b \<and> b \<le> 0xBF)"

text \<open>The encodings of two, three and four bytes that are valid, and their code points.\<close>

definition seq2 :: "nat \<Rightarrow> nat \<Rightarrow> bool" where
  "seq2 a b = (0xC2 \<le> a \<and> a \<le> 0xDF \<and> continuation b)"

definition seq3 :: "nat \<Rightarrow> nat \<Rightarrow> nat \<Rightarrow> bool" where
  "seq3 a b c = (0xE0 \<le> a \<and> a \<le> 0xEF \<and> continuation b \<and> continuation c \<and>
     (a = 0xE0 \<longrightarrow> 0xA0 \<le> b) \<and> (a = 0xED \<longrightarrow> b \<le> 0x9F))"

definition seq4 :: "nat \<Rightarrow> nat \<Rightarrow> nat \<Rightarrow> nat \<Rightarrow> bool" where
  "seq4 a b c d = (0xF0 \<le> a \<and> a \<le> 0xF4 \<and> continuation b \<and> continuation c \<and> continuation d \<and>
     (a = 0xF0 \<longrightarrow> 0x90 \<le> b) \<and> (a = 0xF4 \<longrightarrow> b \<le> 0x8F))"

definition code2 :: "nat \<Rightarrow> nat \<Rightarrow> nat" where
  "code2 a b = (a - 0xC0) * 64 + (b - 0x80)"

definition code3 :: "nat \<Rightarrow> nat \<Rightarrow> nat \<Rightarrow> nat" where
  "code3 a b c = (a - 0xE0) * 4096 + (b - 0x80) * 64 + (c - 0x80)"

definition code4 :: "nat \<Rightarrow> nat \<Rightarrow> nat \<Rightarrow> nat \<Rightarrow> nat" where
  "code4 a b c d = (a - 0xF0) * 262144 + (b - 0x80) * 4096 + (c - 0x80) * 64 + (d - 0x80)"

text \<open>The rune at the start of a string of bytes and the number of bytes it takes.\<close>

fun decode_bytes :: "nat list \<Rightarrow> nat \<times> nat" where
  "decode_bytes [] = (rune_error, 0)"
| "decode_bytes [a] = (if a < 0x80 then (a, 1) else (rune_error, 1))"
| "decode_bytes [a, b] =
     (if a < 0x80 then (a, 1) else if seq2 a b then (code2 a b, 2) else (rune_error, 1))"
| "decode_bytes [a, b, c] =
     (if a < 0x80 then (a, 1) else if seq2 a b then (code2 a b, 2)
      else if seq3 a b c then (code3 a b c, 3) else (rune_error, 1))"
| "decode_bytes (a # b # c # d # _) =
     (if a < 0x80 then (a, 1) else if seq2 a b then (code2 a b, 2)
      else if seq3 a b c then (code3 a b c, 3)
      else if seq4 a b c d then (code4 a b c d, 4) else (rune_error, 1))"

definition decode_rune :: "string \<Rightarrow> nat \<times> nat" where
  "decode_rune s = decode_bytes (map byte (take 4 s))"

definition encode_bytes :: "nat \<Rightarrow> nat list" where
  "encode_bytes r =
     (if r < 0x80 then [r]
      else if r < 0x800 then [0xC0 + r div 64, 0x80 + r mod 64]
      else if \<not> valid_rune r then [0xEF, 0xBF, 0xBD]
      else if r < 0x10000 then [0xE0 + r div 4096, 0x80 + r div 64 mod 64, 0x80 + r mod 64]
      else [0xF0 + r div 262144, 0x80 + r div 4096 mod 64, 0x80 + r div 64 mod 64, 0x80 + r mod 64])"

definition encode_rune :: "nat \<Rightarrow> string" where
  "encode_rune r = map char_of (encode_bytes r)"

text \<open>\<open>[]rune(s)\<close> and \<open>string(rs)\<close>.\<close>

function runes :: "string \<Rightarrow> nat list" where
  "runes s = (if s = [] then [] else fst (decode_rune s) # runes (drop (max 1 (snd (decode_rune s))) s))"
  by pat_completeness auto
termination
  by (relation "measure length") auto

declare runes.simps [simp del]

definition string_of_runes :: "nat list \<Rightarrow> string" where
  "string_of_runes rs = concat (map encode_rune rs)"

text \<open>
  \<open>strconv.Quote\<close>; \<open>printable\<close> is \<open>strconv.IsPrint\<close> above ASCII, which is a table of
  the Unicode version.
\<close>

fun hex_digits :: "nat \<Rightarrow> nat \<Rightarrow> string" where
  "hex_digits 0 n = []"
| "hex_digits (Suc w) n = hex_digits w (n div 16) @ [''0123456789abcdef'' ! (n mod 16)]"

definition escape_rune :: "(nat \<Rightarrow> bool) \<Rightarrow> nat \<Rightarrow> string" where
  "escape_rune printable r =
     (if r = 34 \<or> r = 92 then [char_of (92 :: nat), char_of r]
      else if (if r < 0x80 then 0x20 \<le> r \<and> r \<le> 0x7E else printable r) then encode_rune r
      else char_of (92 :: nat) #
        (if r = 7 then ''a'' else if r = 8 then ''b'' else if r = 12 then ''f'' else if r = 10 then ''n''
         else if r = 13 then ''r'' else if r = 9 then ''t'' else if r = 11 then ''v''
         else if r < 0x20 \<or> r = 0x7F then ''x'' @ hex_digits 2 r
         else if r < 0x10000 then ''u'' @ hex_digits 4 r else ''U'' @ hex_digits 8 r))"

function quote_body :: "(nat \<Rightarrow> bool) \<Rightarrow> string \<Rightarrow> string" where
  "quote_body printable s =
     (if s = [] then []
      else (let (r, w) = decode_rune s in
        (if w = 1 \<and> r = rune_error then [char_of (92 :: nat), CHR ''x''] @ hex_digits 2 (byte (hd s))
         else escape_rune printable r) @ quote_body printable (drop (max 1 w) s)))"
  by pat_completeness auto
termination
  by (relation "measure (\<lambda>(_, s). length s)") auto

declare quote_body.simps [simp del]

definition go_quote :: "(nat \<Rightarrow> bool) \<Rightarrow> string \<Rightarrow> string" where
  "go_quote printable s = [char_of (34 :: nat)] @ quote_body printable s @ [char_of (34 :: nat)]"

section \<open>Facts\<close>

lemma runes_Nil [simp]: "runes [] = []"
  by (simp add: runes.simps)

lemma string_of_runes_simps [simp]:
  "string_of_runes [] = []"
  "string_of_runes (r # rs) = encode_rune r @ string_of_runes rs"
  "string_of_runes (rs @ rs') = string_of_runes rs @ string_of_runes rs'"
  by (simp_all add: string_of_runes_def)

lemma code_valid:
  "a < 0x80 \<Longrightarrow> valid_rune a"
  "seq2 a b \<Longrightarrow> valid_rune (code2 a b)"
  "seq3 a b c \<Longrightarrow> valid_rune (code3 a b c)"
  "seq4 a b c d \<Longrightarrow> valid_rune (code4 a b c d)"
proof -
  show "valid_rune a" if "a < 0x80" using that by (simp add: valid_rune_def)
  show "valid_rune (code2 a b)" if "seq2 a b"
    using that unfolding seq2_def code2_def continuation_def valid_rune_def by linarith
  show "valid_rune (code3 a b c)" if s: "seq3 a b c"
  proof -
    consider "a \<le> 0xEC" | "a = 0xED" | "0xEE \<le> a" by linarith
    then show ?thesis
      using s unfolding seq3_def code3_def continuation_def valid_rune_def by cases linarith+
  qed
  show "valid_rune (code4 a b c d)" if s: "seq4 a b c d"
  proof -
    have "(a = 0xF0 \<and> 0x90 \<le> b) \<or> (0xF1 \<le> a \<and> a \<le> 0xF3) \<or> (a = 0xF4 \<and> b \<le> 0x8F)"
      using s unfolding seq4_def by linarith
    then show ?thesis
      using s unfolding seq4_def code4_def continuation_def valid_rune_def
      by (elim disjE conjE) linarith+
  qed
qed

lemma decode_bytes_valid: "valid_rune (fst (decode_bytes bs))"
proof -
  have "valid_rune rune_error" by (simp add: valid_rune_def rune_error_def)
  then show ?thesis
    by (cases bs rule: decode_bytes.cases) (auto intro: code_valid)
qed

lemma valid_runes: "r \<in> set (runes s) \<Longrightarrow> valid_rune r"
proof (induction s rule: runes.induct)
  case (1 s)
  then show ?case
    by (cases "s = []") (auto simp: runes.simps [of s] decode_rune_def decode_bytes_valid)
qed

text \<open>Code points by their groups of six bits.\<close>

lemma six_bits:
  fixes b c d :: nat
  assumes "b < 64" "c < 64" "d < 64"
  shows "(a * 64 + b) div 64 = a" "(a * 64 + b) mod 64 = b"
    "(a * 4096 + b * 64 + c) div 64 = a * 64 + b" "(a * 4096 + b * 64 + c) mod 64 = c"
    "(a * 4096 + b * 64 + c) div 4096 = a"
    "(a * 262144 + b * 4096 + c * 64 + d) div 64 = a * 4096 + b * 64 + c"
    "(a * 262144 + b * 4096 + c * 64 + d) mod 64 = d"
    "(a * 262144 + b * 4096 + c * 64 + d) div 4096 = a * 64 + b"
    "(a * 262144 + b * 4096 + c * 64 + d) div 262144 = a"
proof -
  have one: "(x * 64 + y) div 64 = x" "(x * 64 + y) mod 64 = y" if "y < 64" for x y :: nat
    using that by simp_all
  have eq2: "a * 4096 + b * 64 + c = (a * 64 + b) * 64 + c" by simp
  have eq3: "a * 262144 + b * 4096 + c * 64 + d = (a * 4096 + b * 64 + c) * 64 + d" by simp
  have dd: "x div 4096 = x div 64 div 64" "x div 262144 = x div 64 div 64 div 64" for x :: nat
    by (simp_all flip: div_mult2_eq)
  show "(a * 64 + b) div 64 = a" "(a * 64 + b) mod 64 = b" by (rule one, fact)+
  show "(a * 4096 + b * 64 + c) div 64 = a * 64 + b" "(a * 4096 + b * 64 + c) mod 64 = c"
    unfolding eq2 by (rule one, fact)+
  then show "(a * 4096 + b * 64 + c) div 4096 = a" by (simp only: dd one assms)
  show e: "(a * 262144 + b * 4096 + c * 64 + d) div 64 = a * 4096 + b * 64 + c"
    "(a * 262144 + b * 4096 + c * 64 + d) mod 64 = d"
    unfolding eq3 by (rule one, fact)+
  show "(a * 262144 + b * 4096 + c * 64 + d) div 4096 = a * 64 + b"
    by (simp only: dd e) (simp only: eq2 one assms)
  then show "(a * 262144 + b * 4096 + c * 64 + d) div 262144 = a"
    by (simp only: dd one assms)
qed

lemma six_bit_groups:
  obtains a b c d :: nat where "r = a * 262144 + b * 4096 + c * 64 + d" "b < 64" "c < 64" "d < 64"
proof
  show "r = r div 64 div 64 div 64 * 262144 + r div 64 div 64 mod 64 * 4096 + r div 64 mod 64 * 64 + r mod 64"
    using div_mult_mod_eq [of r 64] div_mult_mod_eq [of "r div 64" 64]
      div_mult_mod_eq [of "r div 64 div 64" 64] by linarith
qed simp_all

lemma encode2: "2 \<le> a \<Longrightarrow> a < 32 \<Longrightarrow> b < 64 \<Longrightarrow> encode_bytes (a * 64 + b) = [0xC0 + a, 0x80 + b]"
  by (simp add: encode_bytes_def six_bits)

lemma encode3:
  assumes "b < 64" "c < 64" "0x800 \<le> a * 4096 + b * 64 + c" "a * 4096 + b * 64 + c < 0x10000"
    "valid_rune (a * 4096 + b * 64 + c)"
  shows "encode_bytes (a * 4096 + b * 64 + c) = [0xE0 + a, 0x80 + b, 0x80 + c]"
  using assms by (simp add: encode_bytes_def six_bits)

lemma encode4:
  assumes "b < 64" "c < 64" "d < 64" "0x10000 \<le> a * 262144 + b * 4096 + c * 64 + d"
    "valid_rune (a * 262144 + b * 4096 + c * 64 + d)"
  shows "encode_bytes (a * 262144 + b * 4096 + c * 64 + d) = [0xF0 + a, 0x80 + b, 0x80 + c, 0x80 + d]"
  using assms by (simp add: encode_bytes_def six_bits)

lemma decode2: "2 \<le> a \<Longrightarrow> a < 32 \<Longrightarrow> b < 64 \<Longrightarrow> decode_bytes ((0xC0 + a) # (0x80 + b) # bs) = (a * 64 + b, 2)"
  by (cases bs; cases "tl bs") (auto simp: seq2_def code2_def continuation_def)

lemma decode3:
  assumes "b < 64" "c < 64" "0x800 \<le> a * 4096 + b * 64 + c" "a < 16" "valid_rune (a * 4096 + b * 64 + c)"
  shows "decode_bytes ((0xE0 + a) # (0x80 + b) # (0x80 + c) # bs) = (a * 4096 + b * 64 + c, 3)"
proof -
  have "a = 0 \<longrightarrow> 32 \<le> b" "a = 13 \<longrightarrow> b < 32" using assms unfolding valid_rune_def by linarith+
  then have "seq3 (0xE0 + a) (0x80 + b) (0x80 + c)" using assms by (auto simp: seq3_def continuation_def)
  then show ?thesis by (cases bs) (auto simp: seq2_def code3_def)
qed

lemma decode4:
  assumes "b < 64" "c < 64" "d < 64" "0x10000 \<le> a * 262144 + b * 4096 + c * 64 + d"
    "valid_rune (a * 262144 + b * 4096 + c * 64 + d)"
  shows "decode_bytes ((0xF0 + a) # (0x80 + b) # (0x80 + c) # (0x80 + d) # bs) = (a * 262144 + b * 4096 + c * 64 + d, 4)"
proof -
  have "a \<le> 4" "a = 0 \<longrightarrow> 16 \<le> b" "a = 4 \<longrightarrow> b < 16" using assms unfolding valid_rune_def by linarith+
  then have "seq4 (0xF0 + a) (0x80 + b) (0x80 + c) (0x80 + d)" using assms by (auto simp: seq4_def continuation_def)
  then show ?thesis by (auto simp: seq2_def seq3_def code4_def)
qed

lemma decode_encode_bytes:
  assumes "valid_rune r"
  shows "decode_bytes (encode_bytes r @ bs) = (r, length (encode_bytes r))"
proof -
  obtain a b c d where r: "r = a * 262144 + b * 4096 + c * 64 + d" and lt: "b < 64" "c < 64" "d < 64"
    by (rule six_bit_groups)
  consider "r < 0x80" | "0x80 \<le> r" "r < 0x800" | "0x800 \<le> r" "r < 0x10000" | "0x10000 \<le> r" by linarith
  then show ?thesis
  proof cases
    case 1
    then show ?thesis by (cases bs rule: decode_bytes.cases) (auto simp: encode_bytes_def)
  next
    case 2
    then have z: "a = 0" "b = 0" using r lt by linarith+
    with 2 have "2 \<le> c" "c < 32" using r lt by linarith+
    with z show ?thesis using encode2 [of c d] decode2 [of c d bs] r lt by simp
  next
    case 3
    then have z: "a = 0" using r lt by linarith
    with 3 have "b < 16" using r lt by linarith
    moreover have "r = b * 4096 + c * 64 + d" using r z by simp
    ultimately show ?thesis using encode3 [of c d b] decode3 [of c d b bs] lt 3 assms by simp
  next
    case 4
    then show ?thesis using encode4 [of b c d a] decode4 [of b c d a bs] r lt assms by simp
  qed
qed

lemma decode_bytes_take: "decode_bytes (take 4 bs) = decode_bytes bs"
  by (cases bs rule: decode_bytes.cases) (simp_all add: numeral_eq_Suc)

lemma encode_bytes_range:
  assumes "valid_rune r" and "b \<in> set (encode_bytes r)"
  shows "b < 256"
proof -
  obtain a b' c d where r: "r = a * 262144 + b' * 4096 + c * 64 + d" and lt: "b' < 64" "c < 64" "d < 64"
    by (rule six_bit_groups)
  consider "r < 0x80" | "0x80 \<le> r" "r < 0x800" | "0x800 \<le> r" "r < 0x10000" | "0x10000 \<le> r" by linarith
  then show ?thesis
  proof cases
    case 1
    then show ?thesis using assms by (simp add: encode_bytes_def)
  next
    case 2
    then have z: "a = 0" "b' = 0" using r lt by linarith+
    with 2 have "2 \<le> c" "c < 32" using r lt by linarith+
    with z show ?thesis using encode2 [of c d] r lt assms(2) by auto
  next
    case 3
    then have z: "a = 0" using r lt by linarith
    with 3 have "b' < 16" using r lt by linarith
    moreover have "r = b' * 4096 + c * 64 + d" using r z by simp
    ultimately show ?thesis using encode3 [of c d b'] lt 3 assms by auto
  next
    case 4
    then have "a \<le> 4" using r assms(1) unfolding valid_rune_def by linarith
    then show ?thesis using encode4 [of b' c d a] r lt assms 4 by auto
  qed
qed

lemma encode_rune_not_Nil [simp]: "encode_rune r \<noteq> []"
  by (auto simp: encode_rune_def encode_bytes_def)

lemma decode_encode_rune:
  assumes "valid_rune r"
  shows "decode_rune (encode_rune r @ s) = (r, length (encode_rune r))"
proof -
  have "map byte (encode_rune r) = encode_bytes r"
    using encode_bytes_range [OF assms]
    by (auto simp: encode_rune_def comp_def intro!: map_idI)
  then show ?thesis
    using decode_encode_bytes [OF assms, of "map byte s"]
    by (simp add: decode_rune_def take_map [symmetric] decode_bytes_take encode_rune_def del: take_append)
qed

lemma runes_encode_rune: "valid_rune r \<Longrightarrow> runes (encode_rune r @ s) = r # runes s"
  by (subst runes.simps) (simp add: decode_encode_rune max_def Suc_le_eq)

text \<open>\<open>[]rune(string(rs))\<close> is \<open>rs\<close>.\<close>

lemma runes_string_of_runes_append:
  "\<forall>r \<in> set rs. valid_rune r \<Longrightarrow> runes (string_of_runes rs @ s) = rs @ runes s"
  by (induction rs) (simp_all add: runes_encode_rune)

lemma runes_string_of_runes: "\<forall>r \<in> set rs. valid_rune r \<Longrightarrow> runes (string_of_runes rs) = rs"
  using runes_string_of_runes_append [of rs "[]"] by simp

lemma length_runes: "length (runes s) \<le> length s"
proof (induction s rule: runes.induct)
  case (1 s)
  define m where "m = max 1 (snd (decode_rune s))"
  show ?case
  proof (cases "s = []")
    case False
    with 1 have "length (runes (drop m s)) \<le> length s - m" unfolding m_def by simp
    moreover have "1 \<le> m" "0 < length s" using False by (simp_all add: m_def)
    moreover have "length (runes s) = Suc (length (runes (drop m s)))"
      using False by (simp add: runes.simps [of s] m_def)
    ultimately show ?thesis by linarith
  qed simp
qed

end
