(* ===== verification/Net_Addr.thy ===== *)
theory Net_Addr
  imports Prelude
begin

text \<open>
  IP addresses as \<open>net/netip\<close> has them: the parser of textual addresses and the predicates
  the web tools ask.  An address is its bytes, an IPv6 address may carry a zone.
\<close>

datatype ip_addr = V4 "nat list" | V6 "nat list" string

section \<open>Parsing\<close>

text \<open>
  The loop of \<open>parseIPv4Fields\<close>: \<open>v\<close> and \<open>len\<close> are the value and the
  number of digits of the current field, \<open>fields\<close> the earlier ones.
\<close>

fun ipv4_loop :: "nat \<Rightarrow> nat \<Rightarrow> nat list \<Rightarrow> string \<Rightarrow> nat list option" where
  "ipv4_loop v len fields [] = (if length fields = 3 \<and> 0 < len then Some (fields @ [v]) else None)"
| "ipv4_loop v len fields (c # s) =
     (if is_digit c
      then if len = 1 \<and> v = 0 \<or> 255 < v * 10 + digit_val c then None
           else ipv4_loop (v * 10 + digit_val c) (Suc len) fields s
      else if c = CHR ''.'' \<and> 0 < len \<and> s \<noteq> [] \<and> length fields < 3
      then ipv4_loop 0 0 (fields @ [v]) s
      else None)"

definition parse_ipv4 :: "string \<Rightarrow> nat list option" where
  "parse_ipv4 s = ipv4_loop 0 0 [] s"

definition hex_nibble :: "char \<Rightarrow> nat option" where
  "hex_nibble c =
     (let n = of_char c :: nat in
      if 48 \<le> n \<and> n \<le> 57 then Some (n - 48)
      else if 97 \<le> n \<and> n \<le> 102 then Some (n - 87)
      else if 65 \<le> n \<and> n \<le> 70 then Some (n - 55)
      else None)"

text \<open>The digits of a group: their value and the rest, when there are one to four of them.\<close>

definition hex_group :: "string \<Rightarrow> (nat \<times> string) option" where
  "hex_group s =
     (let ds = takeWhile (\<lambda>c. hex_nibble c \<noteq> None) s in
      if ds = [] \<or> 4 < length ds then None
      else Some (foldl (\<lambda>a c. a * 16 + the (hex_nibble c)) 0 ds, drop (length ds) s))"

text \<open>
  The loop of \<open>parseIPv6\<close>: the bytes read, the position of the ellipsis and the rest of the
  text.  A group followed by a dot is the start of a trailing IPv4 address.
\<close>

function ipv6_loop :: "nat list \<Rightarrow> nat option \<Rightarrow> string \<Rightarrow> (nat list \<times> nat option) option" where
  "ipv6_loop bs el s =
     (if 16 \<le> length bs then (if s = [] then Some (bs, el) else None)
      else case hex_group s of
        None \<Rightarrow> None
      | Some (acc, rest) \<Rightarrow>
          (case rest of
             [] \<Rightarrow> Some (bs @ [acc div 256, acc mod 256], el)
           | c # rest1 \<Rightarrow>
               if c = CHR ''.''
               then if el = None \<and> length bs \<noteq> 12 \<or> 16 < length bs + 4 then None
                    else map_option (\<lambda>f. (bs @ f, el)) (parse_ipv4 s)
               else if c \<noteq> CHR '':'' \<or> rest1 = [] then None
               else if hd rest1 = CHR '':''
               then if el \<noteq> None then None
                    else if tl rest1 = [] then Some (bs @ [acc div 256, acc mod 256], Some (length bs + 2))
                    else ipv6_loop (bs @ [acc div 256, acc mod 256]) (Some (length bs + 2)) (tl rest1)
               else ipv6_loop (bs @ [acc div 256, acc mod 256]) el rest1))"
  by pat_completeness auto
termination by (relation "measure (\<lambda>(bs, el, s). 16 - length bs)") auto

declare ipv6_loop.simps [simp del]

definition ipv6_expand :: "nat list \<times> nat option \<Rightarrow> nat list option" where
  "ipv6_expand p =
     (case p of
        (bs, None) \<Rightarrow> if length bs = 16 then Some bs else None
      | (bs, Some e) \<Rightarrow>
          if length bs < 16 then Some (take e bs @ replicate (16 - length bs) 0 @ drop e bs) else None)"

definition parse_ipv6 :: "string \<Rightarrow> ip_addr option" where
  "parse_ipv6 text =
     (let s = takeWhile (\<lambda>c. c \<noteq> CHR ''%'') text; zoned = length s < length text;
          zone = drop (Suc (length s)) text
      in if zoned \<and> zone = [] then None
         else if s = ''::'' then Some (V6 (replicate 16 0) zone)
         else map_option (\<lambda>bs. V6 bs zone)
           (Option.bind (if take 2 s = ''::'' then ipv6_loop [] (Some 0) (drop 2 s) else ipv6_loop [] None s)
              ipv6_expand))"

text \<open>\<open>netip.ParseAddr\<close>: the first of the characters dot, colon and percent decides.\<close>

definition parse_addr :: "string \<Rightarrow> ip_addr option" where
  "parse_addr s =
     (case find (\<lambda>c. c \<in> {CHR ''.'', CHR '':'', CHR ''%''}) s of
        Some c \<Rightarrow>
          if c = CHR ''.'' then map_option V4 (parse_ipv4 s)
          else if c = CHR '':'' then parse_ipv6 s
          else None
      | None \<Rightarrow> None)"

section \<open>Predicates\<close>

text \<open>An IPv4 address mapped into IPv6 is asked as the IPv4 address.\<close>

definition addr_unmap :: "ip_addr \<Rightarrow> ip_addr" where
  "addr_unmap a =
     (case a of
        V6 bs z \<Rightarrow> if take 12 bs = replicate 10 0 @ [255, 255] then V4 (drop 12 bs) else a
      | V4 bs \<Rightarrow> a)"

definition addr_is_loopback :: "ip_addr \<Rightarrow> bool" where
  "addr_is_loopback a =
     (case addr_unmap a of V4 bs \<Rightarrow> bs ! 0 = 127 | V6 bs z \<Rightarrow> bs = replicate 15 0 @ [1])"

definition addr_is_multicast :: "ip_addr \<Rightarrow> bool" where
  "addr_is_multicast a =
     (case addr_unmap a of V4 bs \<Rightarrow> bs ! 0 div 16 = 14 | V6 bs z \<Rightarrow> bs ! 0 = 255)"

definition addr_is_link_local_unicast :: "ip_addr \<Rightarrow> bool" where
  "addr_is_link_local_unicast a =
     (case addr_unmap a of
        V4 bs \<Rightarrow> bs ! 0 = 169 \<and> bs ! 1 = 254
      | V6 bs z \<Rightarrow> bs ! 0 = 254 \<and> bs ! 1 div 64 = 2)"

definition addr_is_link_local_multicast :: "ip_addr \<Rightarrow> bool" where
  "addr_is_link_local_multicast a =
     (case addr_unmap a of
        V4 bs \<Rightarrow> bs ! 0 = 224 \<and> bs ! 1 = 0 \<and> bs ! 2 = 0
      | V6 bs z \<Rightarrow> bs ! 0 = 255 \<and> bs ! 1 mod 16 = 2)"

definition addr_is_private :: "ip_addr \<Rightarrow> bool" where
  "addr_is_private a =
     (case addr_unmap a of
        V4 bs \<Rightarrow> bs ! 0 = 10 \<or> bs ! 0 = 172 \<and> bs ! 1 div 16 = 1 \<or> bs ! 0 = 192 \<and> bs ! 1 = 168
      | V6 bs z \<Rightarrow> bs ! 0 div 2 = 126)"

text \<open>The unspecified addresses are compared with their zone, and without unmapping.\<close>

definition addr_is_unspecified :: "ip_addr \<Rightarrow> bool" where
  "addr_is_unspecified a \<longleftrightarrow> a = V4 [0, 0, 0, 0] \<or> a = V6 (replicate 16 0) []"

definition addr_is_global_unicast :: "ip_addr \<Rightarrow> bool" where
  "addr_is_global_unicast a =
     (let u = addr_unmap a in
      u \<noteq> V4 [0, 0, 0, 0] \<and> u \<noteq> V4 [255, 255, 255, 255] \<and> u \<noteq> V6 (replicate 16 0) [] \<and>
      \<not> addr_is_loopback u \<and> \<not> addr_is_multicast u \<and> \<not> addr_is_link_local_unicast u)"

section \<open>Shape\<close>

text \<open>A parsed address has four or sixteen bytes.\<close>

definition addr_wf :: "ip_addr \<Rightarrow> bool" where
  "addr_wf a = (case a of V4 bs \<Rightarrow> length bs = 4 \<and> (\<forall>b \<in> set bs. b < 256)
     | V6 bs z \<Rightarrow> length bs = 16 \<and> (\<forall>b \<in> set bs. b < 256))"

lemma ipv4_loop_wf:
  "ipv4_loop v len fields s = Some bs \<Longrightarrow> length fields \<le> 3 \<Longrightarrow> v < 256 \<Longrightarrow> \<forall>b \<in> set fields. b < 256 \<Longrightarrow>
   length bs = 4 \<and> (\<forall>b \<in> set bs. b < 256)"
  by (induction v len fields s rule: ipv4_loop.induct) (fastforce split: if_splits)+

lemma parse_ipv4_wf: "parse_ipv4 s = Some bs \<Longrightarrow> length bs = 4 \<and> (\<forall>b \<in> set bs. b < 256)"
  unfolding parse_ipv4_def by (drule ipv4_loop_wf) simp_all

lemma hex_nibble_bound: "hex_nibble c = Some n \<Longrightarrow> n < 16"
  by (auto simp: hex_nibble_def Let_def split: if_splits)

lemma hex_fold_bound:
  "\<forall>c \<in> set ds. hex_nibble c \<noteq> None \<Longrightarrow> foldl (\<lambda>a c. a * 16 + the (hex_nibble c)) a ds < (a + 1) * 16 ^ length ds"
proof (induction ds arbitrary: a)
  case (Cons c ds)
  then obtain n where n: "hex_nibble c = Some n" by auto
  have "foldl (\<lambda>a c. a * 16 + the (hex_nibble c)) (a * 16 + n) ds < (a * 16 + n + 1) * 16 ^ length ds"
    by (rule Cons.IH) (use Cons.prems in simp)
  also have "\<dots> \<le> (a * 16 + 16) * 16 ^ length ds"
    using hex_nibble_bound [OF n] by (intro mult_right_mono) simp_all
  finally show ?case by (simp add: n algebra_simps)
qed simp

lemma hex_group_bound: "hex_group s = Some (acc, rest) \<Longrightarrow> acc < 65536"
proof -
  assume g: "hex_group s = Some (acc, rest)"
  let ?ds = "takeWhile (\<lambda>c. hex_nibble c \<noteq> None) s"
  have acc: "acc = foldl (\<lambda>a c. a * 16 + the (hex_nibble c)) 0 ?ds" and len: "length ?ds \<le> 4"
    using g by (auto simp: hex_group_def Let_def split: if_splits)
  have "acc < (0 + 1) * 16 ^ length ?ds"
    unfolding acc by (rule hex_fold_bound) (auto dest: set_takeWhileD)
  also have "\<dots> \<le> 16 ^ 4" using power_increasing [OF len, of "16 :: nat"] by simp
  finally show ?thesis by simp
qed

lemma ipv6_loop_wf:
  "ipv6_loop bs el s = Some (out, e) \<Longrightarrow> length bs \<le> 16 \<Longrightarrow> even (length bs) \<Longrightarrow> \<forall>b \<in> set bs. b < 256 \<Longrightarrow>
   case_option True (\<lambda>k. k \<le> length bs) el \<Longrightarrow>
   length out \<le> 16 \<and> (\<forall>b \<in> set out. b < 256) \<and> case_option True (\<lambda>k. k \<le> length out) e"
proof (induction bs el s rule: ipv6_loop.induct)
  case (1 bs el s)
  show ?case
  proof (cases "16 \<le> length bs")
    case True
    with "1.prems" show ?thesis by (subst (asm) ipv6_loop.simps) (auto split: if_splits)
  next
    case False
    then have short: "length bs + 2 \<le> 16" using "1.prems"(3) by presburger
    obtain acc rest where g: "hex_group s = Some (acc, rest)"
      using "1.prems"(1) False by (subst (asm) ipv6_loop.simps) (auto split: option.splits)
    have acc: "acc div 256 < 256" "acc mod 256 < 256" using hex_group_bound [OF g] by simp_all
    let ?bs = "bs @ [acc div 256, acc mod 256]"
    show ?thesis
    proof (cases rest)
      case Nil
      with "1.prems" False g short acc show ?thesis
        by (subst (asm) ipv6_loop.simps) (auto split: option.splits)
    next
      case (Cons c rest1)
      show ?thesis
      proof (cases "c = CHR ''.''")
        case True
        with "1.prems" False g short Cons show ?thesis
          by (subst (asm) ipv6_loop.simps) (auto split: if_splits option.splits dest!: parse_ipv4_wf)
      next
        case c: False
        show ?thesis
        proof (cases "c = CHR '':'' \<and> rest1 \<noteq> [] \<and> hd rest1 \<noteq> CHR '':''")
          case True
          then have l: "ipv6_loop ?bs el rest1 = Some (out, e)"
            using "1.prems"(1) False g Cons by (subst (asm) ipv6_loop.simps) simp
          show ?thesis
            by (rule "1.IH"(2) [OF False g refl Cons c]) (use l True "1.prems"(3-5) short acc in \<open>simp_all split: option.splits\<close>)
        next
          case colon: False
          then have cc: "c = CHR '':''" "rest1 \<noteq> []" "hd rest1 = CHR '':''" "el = None"
            using "1.prems"(1) False g Cons c by (subst (asm) (1) ipv6_loop.simps, simp split: if_splits)+
          show ?thesis
          proof (cases "tl rest1 = []")
            case True
            with "1.prems" False g Cons cc short acc show ?thesis by (subst (asm) ipv6_loop.simps) auto
          next
            case tl: False
            then have l: "ipv6_loop ?bs (Some (length bs + 2)) (tl rest1) = Some (out, e)"
              using "1.prems"(1) False g Cons cc by (subst (asm) ipv6_loop.simps) simp
            show ?thesis
              by (rule "1.IH"(1) [OF False g refl Cons c]) (use l cc tl "1.prems"(3-5) short acc in simp_all)
          qed
        qed
      qed
    qed
  qed
qed

lemma parse_addr_wf:
  assumes "parse_addr s = Some a"
  shows "addr_wf a"
proof (cases a)
  case (V4 bs)
  then have "parse_ipv4 s = Some bs"
    using assms by (auto simp: parse_addr_def parse_ipv6_def Let_def split: option.splits if_splits)
  then show ?thesis using parse_ipv4_wf by (simp add: addr_wf_def V4)
next
  case (V6 bs z)
  then have "parse_ipv6 s = Some (V6 bs z)"
    using assms by (auto simp: parse_addr_def split: option.splits if_splits)
  then have "bs = replicate 16 0 \<or> (\<exists>el s' p. ipv6_loop [] el s' = Some p \<and> el \<in> {None, Some 0} \<and> ipv6_expand p = Some bs)"
    by (auto simp: parse_ipv6_def Let_def bind_eq_Some_conv split: if_splits)
  then show ?thesis
  proof
    assume "\<exists>el s' p. ipv6_loop [] el s' = Some p \<and> el \<in> {None, Some 0} \<and> ipv6_expand p = Some bs"
    then obtain el s' out e where p: "ipv6_loop [] el s' = Some (out, e)" "el \<in> {None, Some 0}" "ipv6_expand (out, e) = Some bs"
      by auto
    have "length out \<le> 16 \<and> (\<forall>b \<in> set out. b < 256) \<and> case_option True (\<lambda>k. k \<le> length out) e"
      by (rule ipv6_loop_wf [OF p(1)]) (use p(2) in auto)
    then show ?thesis
      using p(3) by (auto simp: addr_wf_def V6 ipv6_expand_def split: option.splits if_splits dest!: in_set_takeD in_set_dropD)
  qed (auto simp: addr_wf_def V6)
qed

end
