(* ===== verification/Web_Client.thy ===== *)
theory Web_Client
  imports Capability Utf8 Net_Addr
begin

text \<open>
  What the web tools use of the network: URLs, the query part of a URL, responses, and the HTTP
  client with its redirects.  The network (name servers, connections, servers), the URL parser and
  printer and the tables of the standard library are an environment (\<open>web_env\<close>) over a state of
  the network; the calls that reach the network are logged.
\<close>

section \<open>URLs\<close>

text \<open>\<open>url.URL\<close>.\<close>

record url =
  u_scheme :: string
  u_opaque :: string
  u_user :: "(string \<times> string option) option"
  u_host :: string
  u_path :: string
  u_fragment :: string
  u_raw_query :: string
  u_raw_path :: string
  u_raw_fragment :: string
  u_force_query :: bool
  u_omit_host :: bool

definition valid_optional_port :: "string \<Rightarrow> bool" where
  "valid_optional_port port = (case port of [] \<Rightarrow> True | c # ds \<Rightarrow> c = CHR '':'' \<and> list_all is_digit ds)"

text \<open>The text before the last occurrence of a character, and the text from it on.\<close>

definition cut_last :: "char \<Rightarrow> string \<Rightarrow> (string \<times> string) option" where
  "cut_last c s =
     (if c \<in> set s
      then (let t = rev (takeWhile (\<lambda>x. x \<noteq> c) (rev s)) in Some (take (length s - Suc (length t)) s, c # t))
      else None)"

text \<open>\<open>Hostname()\<close>: the host without its port and its brackets.\<close>

definition url_hostname :: "url \<Rightarrow> string" where
  "url_hostname u =
     (let host = (case cut_last CHR '':'' (u_host u) of
                    Some (h, port) \<Rightarrow> if valid_optional_port port then h else u_host u
                  | None \<Rightarrow> u_host u)
      in if prefix ''['' host \<and> suffix '']'' host \<and> 2 \<le> length host then butlast (tl host) else host)"

text \<open>\<open>http.NewRequest\<close> drops the colon of an empty port.\<close>

definition remove_empty_port :: "string \<Rightarrow> string" where
  "remove_empty_port host = (if suffix '':'' host then butlast host else host)"

section \<open>Queries\<close>

definition query_unreserved :: "char \<Rightarrow> bool" where
  "query_unreserved c =
     (let n = of_char c :: nat in
      48 \<le> n \<and> n \<le> 57 \<or> 65 \<le> n \<and> n \<le> 90 \<or> 97 \<le> n \<and> n \<le> 122 \<or> c \<in> {CHR ''-'', CHR ''_'', CHR ''.'', CHR ''~''})"

definition upper_hex :: "nat \<Rightarrow> char" where
  "upper_hex n = (if n < 10 then char_of (n + 48) else char_of (n + 55))"

definition query_escape_char :: "char \<Rightarrow> string" where
  "query_escape_char c =
     (if query_unreserved c then [c] else if c = CHR '' '' then ''+''
      else [CHR ''%'', upper_hex (of_char c div 16), upper_hex (of_char c mod 16)])"

definition query_escape :: "string \<Rightarrow> string" where
  "query_escape s = concat (map query_escape_char s)"

fun query_unescape :: "string \<Rightarrow> string option" where
  "query_unescape [] = Some []"
| "query_unescape (c # s) =
     (if c = CHR ''%''
      then (case s of
              a # b # r \<Rightarrow>
                (case (hex_nibble a, hex_nibble b) of
                   (Some x, Some y) \<Rightarrow> map_option ((#) (char_of (16 * x + y))) (query_unescape r)
                 | _ \<Rightarrow> None)
            | _ \<Rightarrow> None)
      else map_option ((#) (if c = CHR ''+'' then CHR '' '' else c)) (query_unescape s))"

text \<open>The text before and after the first occurrence of a character.\<close>

definition cut_char :: "char \<Rightarrow> string \<Rightarrow> string \<times> string" where
  "cut_char c s = (let h = takeWhile (\<lambda>x. x \<noteq> c) s in (h, drop (Suc (length h)) s))"

text \<open>\<open>Query()\<close>: the pairs of the query; those that do not parse are left out.\<close>

definition query_pair :: "string \<Rightarrow> (string \<times> string) option" where
  "query_pair p =
     (let (k, v) = cut_char CHR ''='' p in
      if p = [] \<or> CHR '';'' \<in> set p then None
      else (case (query_unescape k, query_unescape v) of (Some k', Some v') \<Rightarrow> Some (k', v') | _ \<Rightarrow> None))"

definition parse_query :: "string \<Rightarrow> (string \<times> string) list" where
  "parse_query q = List.map_filter query_pair (split_on CHR ''&'' q)"

definition query_get :: "(string \<times> string) list \<Rightarrow> string \<Rightarrow> string" where
  "query_get vs k = (case map_of vs k of Some v \<Rightarrow> v | None \<Rightarrow> [])"

definition query_set :: "(string \<times> string) list \<Rightarrow> string \<Rightarrow> string \<Rightarrow> (string \<times> string) list" where
  "query_set vs k v = filter (\<lambda>p. fst p \<noteq> k) vs @ [(k, v)]"

definition query_encode :: "(string \<times> string) list \<Rightarrow> string" where
  "query_encode vs = join ''&'' (map (\<lambda>(k, v). query_escape k @ ''='' @ query_escape v) (sort_key fst vs))"

section \<open>The environment\<close>

record http_response =
  hr_status :: int
  hr_location :: string
  hr_content_type :: string
  hr_body :: string
  hr_body_error :: "go_error option"

text \<open>
  An error of the package, an error of another package, or either in a \<open>*url.Error\<close>, which
  names the operation and the URL.
\<close>

datatype web_error =
  WebFetchError string string
| OtherWebError go_error
| UrlError string web_error

datatype net_call =
  Lookup string "go_error + ip_addr list"
| Dial string
| Exchange url

record 'n web_net =
  wn_log :: "net_call list"
  wn_rest :: 'n

record 'n web_env =
  we_parse_url :: "string \<Rightarrow> string + url"
  we_url_string :: "url \<Rightarrow> string"
  we_reference :: "url \<Rightarrow> string \<Rightarrow> string + url"
  we_dial_host :: "url \<Rightarrow> string"
  we_pooled :: "url \<Rightarrow> 'n \<Rightarrow> bool"
  we_lookup :: "string \<Rightarrow> 'n \<Rightarrow> (go_error + ip_addr list) \<times> 'n"
  we_dial :: "string \<Rightarrow> 'n \<Rightarrow> go_error option \<times> 'n"
  we_exchange :: "url \<Rightarrow> 'n \<Rightarrow> (go_error + http_response) \<times> 'n"
  we_now :: "'n \<Rightarrow> int"
  we_ctx_err :: "'n \<Rightarrow> go_error option"
  we_lower :: "string \<Rightarrow> string"
  we_printable :: "nat \<Rightarrow> bool"
  we_unescape_html :: "string \<Rightarrow> string"
  we_media_type :: "string \<Rightarrow> (string \<times> string) option"
  we_detect_type :: "string \<Rightarrow> string"
  we_charset :: "string \<Rightarrow> (string \<Rightarrow> string option) option"

fun web_error_text :: "(nat \<Rightarrow> bool) \<Rightarrow> web_error \<Rightarrow> string" where
  "web_error_text printable (WebFetchError code m) = m"
| "web_error_text printable (OtherWebError e) = error_text e"
| "web_error_text printable (UrlError u e) = ''Get '' @ go_quote printable u @ '': '' @ web_error_text printable e"

text \<open>The calls to the network, with their log.\<close>

definition net_lookup :: "'n web_env \<Rightarrow> string \<Rightarrow> 'n web_net \<Rightarrow> (go_error + ip_addr list) \<times> 'n web_net" where
  "net_lookup env host w =
     (let (r, n) = we_lookup env host (wn_rest w) in (r, \<lparr> wn_log = wn_log w @ [Lookup host r], wn_rest = n \<rparr>))"

definition net_dial :: "'n web_env \<Rightarrow> string \<Rightarrow> 'n web_net \<Rightarrow> go_error option \<times> 'n web_net" where
  "net_dial env host w =
     (let (r, n) = we_dial env host (wn_rest w) in (r, \<lparr> wn_log = wn_log w @ [Dial host], wn_rest = n \<rparr>))"

definition net_exchange :: "'n web_env \<Rightarrow> url \<Rightarrow> 'n web_net \<Rightarrow> (web_error + http_response) \<times> 'n web_net" where
  "net_exchange env u w =
     (let (r, n) = we_exchange env u (wn_rest w)
      in (case r of Inl e \<Rightarrow> Inl (OtherWebError e) | Inr resp \<Rightarrow> Inr resp,
          \<lparr> wn_log = wn_log w @ [Exchange u], wn_rest = n \<rparr>))"

section \<open>The client\<close>

definition redirects :: "int \<Rightarrow> bool" where
  "redirects status \<longleftrightarrow> status \<in> {301, 302, 303, 307, 308}"

text \<open>
  The redirects of \<open>Client.Do\<close> for a GET request: \<open>trip\<close> makes one exchange, a
  redirect is refused with \<open>refusal\<close> after \<open>limit\<close> requests, and when
  \<open>check\<close> refuses it.
\<close>

function client_do ::
  "'n web_env \<Rightarrow> nat \<Rightarrow> string \<Rightarrow> (url \<Rightarrow> url list \<Rightarrow> 'n web_net \<Rightarrow> web_error option \<times> 'n web_net) \<Rightarrow>
   (url \<Rightarrow> 'n web_net \<Rightarrow> (web_error + http_response) \<times> 'n web_net) \<Rightarrow> url list \<Rightarrow> url \<Rightarrow> 'n web_net \<Rightarrow>
   (web_error + url \<times> http_response) \<times> 'n web_net" where
  "client_do env limit refusal check trip via u w =
     (case trip u w of
        (Inl e, w1) \<Rightarrow> (Inl (UrlError (we_url_string env u) e), w1)
      | (Inr resp, w1) \<Rightarrow>
          if \<not> redirects (hr_status resp) \<or> hr_location resp = [] then (Inr (u, resp), w1)
          else (case we_reference env u (hr_location resp) of
                  Inl m \<Rightarrow> (Inl (UrlError (we_url_string env u) (OtherWebError (TextError
                      (''failed to parse Location header '' @ go_quote (we_printable env) (hr_location resp) @ '': '' @ m)))), w1)
                | Inr next \<Rightarrow>
                    if limit \<le> Suc (length via)
                    then (Inl (UrlError (hr_location resp) (OtherWebError (TextError refusal))), w1)
                    else (case check next (via @ [u]) w1 of
                            (Some e, w2) \<Rightarrow> (Inl (UrlError (hr_location resp) e), w2)
                          | (None, w2) \<Rightarrow> client_do env limit refusal check trip (via @ [u]) next w2)))"
  by pat_completeness auto
termination by (relation "measure (\<lambda>(env, limit, refusal, check, trip, via, u, w). limit - length via)") auto

declare client_do.simps [simp del]

text \<open>One exchange on a connection of its own or of the pool.\<close>

definition plain_trip :: "'n web_env \<Rightarrow> url \<Rightarrow> 'n web_net \<Rightarrow> (web_error + http_response) \<times> 'n web_net" where
  "plain_trip env u w =
     (if we_pooled env u (wn_rest w) then net_exchange env u w
      else (case net_dial env (we_dial_host env u) w of
              (Some e, w1) \<Rightarrow> (Inl (OtherWebError e), w1)
            | (None, w1) \<Rightarrow> net_exchange env u w1))"

text \<open>\<open>http.NewRequestWithContext\<close>: the URL is parsed once more.\<close>

definition new_request :: "'n web_env \<Rightarrow> string \<Rightarrow> web_error + url" where
  "new_request env text =
     (case we_parse_url env text of
        Inl m \<Rightarrow> Inl (OtherWebError (TextError m))
      | Inr u \<Rightarrow> Inr (u\<lparr>u_host := remove_empty_port (u_host u)\<rparr>))"

text \<open>\<open>readLimitedBody\<close>: at most one byte more than the limit is read.\<close>

definition read_limited_body :: "http_response \<Rightarrow> int \<Rightarrow> string + string" where
  "read_limited_body resp limit =
     (if limit < int (length (hr_body resp)) then Inl ''response body exceeds 1 MiB limit''
      else case hr_body_error resp of Some e \<Rightarrow> Inl (error_text e) | None \<Rightarrow> Inr (hr_body resp))"

section \<open>Round trip of queries\<close>

lemma hex_nibble_upper: "n < 16 \<Longrightarrow> hex_nibble (upper_hex n) = Some n"
  by (auto simp: hex_nibble_def upper_hex_def Let_def)

lemma query_unescape_escape_char:
  "query_unescape (query_escape_char c @ s) = map_option ((#) c) (query_unescape s)"
proof -
  have n: "of_char c div 16 < (16 :: nat)" "of_char c mod 16 < (16 :: nat)"
    using nat_of_char_less_256 [of c] by (simp_all add: less_mult_imp_div_less)
  have plain: "c \<noteq> CHR ''%'' \<and> c \<noteq> CHR ''+''" if "query_unreserved c"
    using that by (auto simp: query_unreserved_def)
  have "char_of (16 * (of_char c div 16) + of_char c mod 16 :: nat) = c" by simp
  then show ?thesis
    using plain by (auto simp: query_escape_char_def hex_nibble_upper [OF n(1)] hex_nibble_upper [OF n(2)])
qed

lemma query_unescape_escape [simp]: "query_unescape (query_escape s) = Some s"
  by (induction s) (simp_all add: query_escape_def query_unescape_escape_char)

end
