(* ===== verification/Cli_Client.thy ===== *)
theory Cli_Client
  imports Stream_Codec Web_Client
begin

text \<open>
  \<open>cmd/simiclaw/internal/client/client.go\<close>: the client of the HTTP surface.  The connection,
  the clock and waiting are operations on a state \<open>'w\<close>; encoding a request and decoding the JSON of
  an answer are arguments.
\<close>

section \<open>Requests and responses\<close>

record cli_request =
  cq_method :: string
  cq_url :: string
  cq_headers :: "(string \<times> string) list"
  cq_body :: string

text \<open>A response: what can be read of its body, and the error that ends it, if not its end.\<close>

record cli_response =
  cr_status_code :: int
  cr_content_type :: string
  cr_body :: string
  cr_body_error :: "go_error option"

text \<open>The event of a stream: its type as a text, which need not be a known one, and the rest.\<close>

record wire_event =
  we_type :: string
  we_event :: chat_stream_event

record 'w cli_transport =
  ct_do :: "bool \<Rightarrow> cli_request \<Rightarrow> 'w \<Rightarrow> (go_error + cli_response) \<times> 'w"
  ct_now :: "'w \<Rightarrow> time \<times> 'w"
  ct_sleep :: "duration \<Rightarrow> 'w \<Rightarrow> go_error option \<times> 'w"

record cli_codec =
  cd_encode_request :: "ingest_request \<Rightarrow> go_error + string"
  cd_decode_ingest :: "string \<Rightarrow> go_error + ingest_response"
  cd_decode_record :: "string \<Rightarrow> go_error + api_event_record"
  cd_decode_event :: "string \<Rightarrow> go_error + wire_event"
  cd_decode_error :: "string \<Rightarrow> (string \<times> string) option"
  cd_duration_text :: "duration \<Rightarrow> string"

datatype cli_error =
  ApiFailure int string string | StreamUnsupported | StreamProtocolMismatch | StreamInterrupted string cli_error
| TransportError go_error | PlainError string

text \<open>\<open>Error()\<close> of the two error types; the text of a third-party error is \<open>go_error\<close>'s.\<close>

definition api_failure_text :: "int \<Rightarrow> string \<Rightarrow> string \<Rightarrow> string" where
  "api_failure_text status code message =
     (if code \<noteq> [] \<and> message \<noteq> [] then code @ '': '' @ message
      else if message \<noteq> [] then message else ''http status '' @ show_int status)"

fun cli_error_text :: "(go_error \<Rightarrow> string) \<Rightarrow> cli_error \<Rightarrow> string" where
  "cli_error_text go (ApiFailure status code message) = api_failure_text status code message"
| "cli_error_text go StreamUnsupported = ''streaming unsupported''"
| "cli_error_text go StreamProtocolMismatch = ''stream protocol mismatch''"
| "cli_error_text go (StreamInterrupted eid e) =
     (if eid = [] then cli_error_text go e else ''stream interrupted for '' @ eid @ '': '' @ cli_error_text go e)"
| "cli_error_text go (TransportError e) = go e"
| "cli_error_text go (PlainError t) = t"

text \<open>\<open>errors.Is(err, ErrStreamUnsupported)\<close>, which looks through \<open>Unwrap\<close>.\<close>

fun is_stream_unsupported :: "cli_error \<Rightarrow> bool" where
  "is_stream_unsupported StreamUnsupported = True"
| "is_stream_unsupported (StreamInterrupted i e) = is_stream_unsupported e"
| "is_stream_unsupported e = False"

section \<open>The client\<close>

record cli_client =
  cl_base_url :: string
  cl_api_key :: string
  cl_request_timeout :: duration
  cl_poll_interval :: duration
  cl_poll_timeout :: duration

definition default_poll_interval :: duration where "default_poll_interval = 100 * millisecond"
definition default_poll_timeout :: duration where "default_poll_timeout = 60 * second"

definition new_client :: "string \<Rightarrow> string \<Rightarrow> duration \<Rightarrow> cli_client" where
  "new_client base_url api_key timeout =
     \<lparr> cl_base_url = rev (dropWhile (\<lambda>c. c = CHR ''/'') (rev (trim_space base_url))),
       cl_api_key = trim_space api_key,
       cl_request_timeout = (if timeout \<le> 0 then 10 * second else timeout),
       cl_poll_interval = default_poll_interval, cl_poll_timeout = default_poll_timeout \<rparr>"

definition authorization :: "cli_client \<Rightarrow> (string \<times> string) list" where
  "authorization c = (if cl_api_key c \<noteq> [] then [(''Authorization'', ''Bearer '' @ cl_api_key c)] else [])"

definition decode_api_error :: "cli_codec \<Rightarrow> cli_response \<Rightarrow> cli_error" where
  "decode_api_error cd resp =
     (let status = cr_status_code resp; body = take 4096 (cr_body resp) in
      if length (cr_body resp) < 4096 \<and> cr_body_error resp \<noteq> None
      then ApiFailure status [] (''http status '' @ show_int status)
      else (case (case cd_decode_error cd body of Some (code, message) \<Rightarrow> if code \<noteq> [] then Some (code, message) else None
                  | None \<Rightarrow> None) of
              Some (code, message) \<Rightarrow> ApiFailure status code message
            | None \<Rightarrow>
                (let message = trim_space body in
                 ApiFailure status [] (if message = [] then ''http status '' @ show_int status else message))))"

definition status_ok :: "int \<Rightarrow> bool" where "status_ok status = (200 \<le> status \<and> status < 300)"

definition read_json ::
  "cli_codec \<Rightarrow> (string \<Rightarrow> go_error + 'a) \<Rightarrow> (go_error + cli_response) \<Rightarrow> cli_error + 'a" where
  "read_json cd decode r =
     (case r of
        Inl e \<Rightarrow> Inl (TransportError e)
      | Inr resp \<Rightarrow>
          if \<not> status_ok (cr_status_code resp) then Inl (decode_api_error cd resp)
          else (case decode (cr_body resp) of Inl e \<Rightarrow> Inl (TransportError e) | Inr x \<Rightarrow> Inr x))"

definition get_json ::
  "cli_client \<Rightarrow> 'w cli_transport \<Rightarrow> cli_codec \<Rightarrow> (string \<Rightarrow> go_error + 'a) \<Rightarrow> string \<Rightarrow> (string \<times> string) list \<Rightarrow> 'w
     \<Rightarrow> (cli_error + 'a) \<times> 'w" where
  "get_json c tr cd decode path values w =
     (let full = cl_base_url c @ path @ (if values \<noteq> [] then ''?'' @ query_encode values else []);
          (r, w') = ct_do tr False \<lparr> cq_method = ''GET'', cq_url = full, cq_headers = authorization c, cq_body = [] \<rparr> w
      in (read_json cd decode r, w'))"

definition post_request :: "cli_client \<Rightarrow> string \<Rightarrow> string \<Rightarrow> cli_request" where
  "post_request c path body = \<lparr> cq_method = ''POST'', cq_url = cl_base_url c @ path,
     cq_headers = (''Content-Type'', ''application/json'') # authorization c, cq_body = body \<rparr>"

definition post_json ::
  "cli_client \<Rightarrow> 'w cli_transport \<Rightarrow> cli_codec \<Rightarrow> (string \<Rightarrow> go_error + 'a) \<Rightarrow> string \<Rightarrow> (go_error + string) \<Rightarrow> 'w
     \<Rightarrow> (cli_error + 'a) \<times> 'w" where
  "post_json c tr cd decode path encoded w =
     (case encoded of
        Inl e \<Rightarrow> (Inl (TransportError e), w)
      | Inr body \<Rightarrow> (let (r, w') = ct_do tr False (post_request c path body) w in (read_json cd decode r, w')))"

text \<open>\<open>url.PathEscape\<close>.\<close>

definition path_escape_char :: "char \<Rightarrow> string" where
  "path_escape_char c =
     (if query_unreserved c \<or> c \<in> {CHR ''$'', CHR ''&'', CHR ''+'', CHR '':'', CHR ''='', CHR ''@''} then [c]
      else [CHR ''%'', upper_hex (of_char c div 16), upper_hex (of_char c mod 16)])"

definition path_escape :: "string \<Rightarrow> string" where
  "path_escape s = concat (map path_escape_char s)"

section \<open>Queries\<close>

definition set_nonempty :: "string \<Rightarrow> string \<Rightarrow> (string \<times> string) list \<Rightarrow> (string \<times> string) list" where
  "set_nonempty k v values = (if v \<noteq> [] then query_set values k v else values)"

definition set_limit :: "int \<Rightarrow> (string \<times> string) list \<Rightarrow> (string \<times> string) list" where
  "set_limit limit values = (if 0 < limit then query_set values ''limit'' (show_int limit) else values)"

definition client_health ::
  "cli_client \<Rightarrow> 'w cli_transport \<Rightarrow> cli_codec \<Rightarrow> (string \<Rightarrow> go_error + 'a) \<Rightarrow> 'w \<Rightarrow> (cli_error + 'a \<times> 'a) \<times> 'w" where
  "client_health c tr cd decode w =
     (case get_json c tr cd decode ''/healthz'' [] w of
        (Inl e, w1) \<Rightarrow> (Inl e, w1)
      | (Inr health, w1) \<Rightarrow>
          (case get_json c tr cd decode ''/readyz'' [] w1 of
             (Inl e, w2) \<Rightarrow> (Inl e, w2)
           | (Inr ready, w2) \<Rightarrow> (Inr (health, ready), w2)))"

definition client_ingest :: "cli_client \<Rightarrow> 'w cli_transport \<Rightarrow> cli_codec \<Rightarrow> ingest_request \<Rightarrow> 'w \<Rightarrow> (cli_error + ingest_response) \<times> 'w" where
  "client_ingest c tr cd req w =
     post_json c tr cd (cd_decode_ingest cd) ''/v1/events:ingest'' (cd_encode_request cd req) w"

definition client_get_event :: "cli_client \<Rightarrow> 'w cli_transport \<Rightarrow> cli_codec \<Rightarrow> string \<Rightarrow> 'w \<Rightarrow> (cli_error + api_event_record) \<times> 'w" where
  "client_get_event c tr cd eid w =
     get_json c tr cd (cd_decode_record cd) (''/v1/events/'' @ path_escape eid) [] w"

definition list_sessions ::
  "cli_client \<Rightarrow> 'w cli_transport \<Rightarrow> cli_codec \<Rightarrow> (string \<Rightarrow> go_error + 'a) \<Rightarrow> string \<Rightarrow> string \<Rightarrow> string \<Rightarrow> int \<Rightarrow> 'w
     \<Rightarrow> (cli_error + 'a) \<times> 'w" where
  "list_sessions c tr cd decode skey conv cursor limit w =
     get_json c tr cd decode ''/v1/sessions''
       (set_limit limit (set_nonempty ''cursor'' cursor (set_nonempty ''conversation_id'' conv
         (set_nonempty ''session_key'' skey [])))) w"

definition client_get_session ::
  "cli_client \<Rightarrow> 'w cli_transport \<Rightarrow> cli_codec \<Rightarrow> (string \<Rightarrow> go_error + 'a) \<Rightarrow> string \<Rightarrow> 'w \<Rightarrow> (cli_error + 'a) \<times> 'w" where
  "client_get_session c tr cd decode skey w =
     get_json c tr cd decode (''/v1/sessions/'' @ path_escape skey) [] w"

definition get_session_history ::
  "cli_client \<Rightarrow> 'w cli_transport \<Rightarrow> cli_codec \<Rightarrow> (string \<Rightarrow> go_error + 'a) \<Rightarrow> string \<Rightarrow> string \<Rightarrow> int \<Rightarrow> bool \<Rightarrow> 'w
     \<Rightarrow> (cli_error + 'a) \<times> 'w" where
  "get_session_history c tr cd decode skey cursor limit visible_only w =
     (let values = set_limit limit (set_nonempty ''cursor'' cursor []) in
      get_json c tr cd decode (''/v1/sessions/'' @ path_escape skey @ ''/history'')
        (if \<not> visible_only then query_set values ''visible'' ''false'' else values) w)"

definition client_list_events ::
  "cli_client \<Rightarrow> 'w cli_transport \<Rightarrow> cli_codec \<Rightarrow> (string \<Rightarrow> go_error + 'a) \<Rightarrow> string \<Rightarrow> string \<Rightarrow> string \<Rightarrow> int \<Rightarrow> 'w
     \<Rightarrow> (cli_error + 'a) \<times> 'w" where
  "client_list_events c tr cd decode skey status cursor limit w =
     get_json c tr cd decode ''/v1/events''
       (set_limit limit (set_nonempty ''cursor'' cursor (set_nonempty ''status'' status
         (set_nonempty ''session_key'' skey [])))) w"

definition client_list_runs ::
  "cli_client \<Rightarrow> 'w cli_transport \<Rightarrow> cli_codec \<Rightarrow> (string \<Rightarrow> go_error + 'a) \<Rightarrow> string \<Rightarrow> string \<Rightarrow> int \<Rightarrow> 'w
     \<Rightarrow> (cli_error + 'a) \<times> 'w" where
  "client_list_runs c tr cd decode skey cursor limit w =
     get_json c tr cd decode ''/v1/runs''
       (set_limit limit (set_nonempty ''cursor'' cursor (set_nonempty ''session_key'' skey []))) w"

definition client_get_run_trace ::
  "cli_client \<Rightarrow> 'w cli_transport \<Rightarrow> cli_codec \<Rightarrow> (string \<Rightarrow> go_error + 'a) \<Rightarrow> string \<Rightarrow> 'w \<Rightarrow> (cli_error + 'a) \<times> 'w" where
  "client_get_run_trace c tr cd decode run_id w =
     get_json c tr cd decode (''/v1/runs/'' @ path_escape run_id @ ''/trace'') [] w"

section \<open>Waiting for an event\<close>

definition is_terminal_event :: "api_event_record \<Rightarrow> bool" where
  "is_terminal_event rec =
     (case av_status rec of
        EventStatusSuppressed \<Rightarrow> True
      | EventStatusFailed \<Rightarrow> True
      | EventStatusProcessed \<Rightarrow> av_outbox_status rec \<in> {OutboxStatusUnset, OutboxStatusSent, OutboxStatusDead}
      | _ \<Rightarrow> False)"

text \<open>The polling loop, which need not end: a poll timeout that is not positive sets no deadline.\<close>

partial_function (option) poll_event ::
  "cli_client \<Rightarrow> 'w cli_transport \<Rightarrow> cli_codec \<Rightarrow> time option \<Rightarrow> string \<Rightarrow> 'w \<Rightarrow> ((cli_error + api_event_record) \<times> 'w) option" where
  "poll_event c tr cd deadline eid w =
     (let (late, w1) = (case deadline of None \<Rightarrow> (False, w) | Some d \<Rightarrow> map_prod (\<lambda>t. d \<le> t) id (ct_now tr w)) in
      if late then Some (Inl (PlainError (''poll timeout after '' @ cd_duration_text cd (cl_poll_timeout c))), w1)
      else (case client_get_event c tr cd eid w1 of
              (Inl e, w2) \<Rightarrow> Some (Inl e, w2)
            | (Inr rec, w2) \<Rightarrow>
                if is_terminal_event rec then Some (Inr rec, w2)
                else (case ct_sleep tr (cl_poll_interval c) w2 of
                        (Some e, w3) \<Rightarrow> Some (Inl (TransportError e), w3)
                      | (None, w3) \<Rightarrow> poll_event c tr cd deadline eid w3)))"

definition wait_event ::
  "cli_client \<Rightarrow> 'w cli_transport \<Rightarrow> cli_codec \<Rightarrow> string \<Rightarrow> 'w \<Rightarrow> ((cli_error + api_event_record) \<times> 'w) option" where
  "wait_event c tr cd eid w =
     (if 0 < cl_poll_timeout c
      then (let (t, w1) = ct_now tr w in poll_event c tr cd (Some (t + cl_poll_timeout c)) eid w1)
      else poll_event c tr cd None eid w)"

section \<open>The chat stream\<close>

text \<open>The callback of the caller; None when there is none.\<close>

type_synonym 'w on_event = "(wire_event \<Rightarrow> 'w \<Rightarrow> go_error option \<times> 'w) option"

definition notify :: "'w on_event \<Rightarrow> wire_event \<Rightarrow> 'w \<Rightarrow> go_error option \<times> 'w" where
  "notify on_event e w = (case on_event of None \<Rightarrow> (None, w) | Some f \<Rightarrow> f e w)"

definition event_from_record :: "api_event_record \<Rightarrow> time \<Rightarrow> wire_event" where
  "event_from_record rec now =
     (let ty = (if av_status rec = EventStatusFailed then ChatStreamEventError else ChatStreamEventDone) in
      \<lparr> we_type = stream_type_text ty,
        we_event = (blank_chat_event ty (av_event_id rec) 0 now)\<lparr>ce_event_record := Some rec, ce_error := av_error rec\<rparr> \<rparr>)"

definition is_stream_fallback_status :: "int \<Rightarrow> bool" where
  "is_stream_fallback_status status = (status \<in> {404, 405, 501, 502})"

definition interrupted :: "string \<Rightarrow> cli_error \<Rightarrow> cli_error" where
  "interrupted accepted e = (if accepted = [] then e else StreamInterrupted accepted e)"

text \<open>
  How the loop over the events of a stream ends: with an error, with the record of a terminal
  event, or with an event that is to be waited for.
\<close>

datatype stream_end = StreamFailed cli_error | StreamRecord api_event_record | StreamWait string

definition terminal_end :: "chat_stream_event \<Rightarrow> stream_end" where
  "terminal_end e =
     (case ce_event_record e of
        Some rec \<Rightarrow> if is_terminal_event rec then StreamRecord rec else StreamWait (av_event_id rec)
      | None \<Rightarrow>
          (case ce_error e of
             Some b \<Rightarrow> StreamFailed (ApiFailure 200 (eb_code b) (eb_message b))
           | None \<Rightarrow> StreamFailed (PlainError ''stream terminal event missing event_record'')))"

text \<open>
  The loop of \<open>streamChat\<close>, at the read number \<open>n\<close>: \<open>late n\<close> says that no event came before the
  request timeout, which only counts until one is accepted; \<open>body_err\<close> ends the body.
\<close>

function stream_loop ::
  "cli_codec \<Rightarrow> 'w on_event \<Rightarrow> (nat \<Rightarrow> bool) \<Rightarrow> go_error \<Rightarrow> go_error \<Rightarrow> string \<Rightarrow> nat \<Rightarrow> string \<Rightarrow> 'w \<Rightarrow> stream_end \<times> 'w" where
  "stream_loop cd on_event late late_err body_err accepted n input w =
     (if accepted = [] \<and> late n then (StreamFailed (TransportError late_err), w)
      else (case read_sse_event [] None input of
        None \<Rightarrow> (StreamFailed (interrupted accepted (TransportError body_err)), w)
      | Some (ty, data, rest) \<Rightarrow>
          (case cd_decode_event cd (case data of None \<Rightarrow> [] | Some d \<Rightarrow> d) of
             Inl e \<Rightarrow> (StreamFailed (interrupted accepted (TransportError e)), w)
           | Inr ev \<Rightarrow>
               if ty \<noteq> we_type ev
               then (StreamFailed (interrupted accepted
                       (PlainError (''stream event type mismatch: header='' @ ty @ '' payload='' @ we_type ev))), w)
               else (case notify on_event ev w of
                       (Some e, w1) \<Rightarrow> (StreamFailed (TransportError e), w1)
                     | (None, w1) \<Rightarrow>
                         if we_type ev = stream_type_text ChatStreamEventAccepted then
                           (if ce_stream_protocol_version (we_event ev) \<noteq> chat_stream_protocol_version
                            then (StreamFailed (StreamInterrupted (ce_event_id (we_event ev)) StreamProtocolMismatch), w1)
                            else stream_loop cd on_event late late_err body_err (ce_event_id (we_event ev)) (Suc n) rest w1)
                         else if we_type ev \<in> {stream_type_text ChatStreamEventDone, stream_type_text ChatStreamEventError}
                         then (terminal_end (we_event ev), w1)
                         else stream_loop cd on_event late late_err body_err accepted (Suc n) rest w1))))"
  by pat_completeness auto
termination
  by (relation "measure (\<lambda>(_, _, _, _, _, _, _, s, _). length s)") (auto dest: read_sse_event_shorter)

declare stream_loop.simps [simp del]

definition handshake_timeout_error :: "cli_codec \<Rightarrow> cli_client \<Rightarrow> go_error" where
  "handshake_timeout_error cd c =
     WrappedError (''stream handshake timeout after '' @ cd_duration_text cd (cl_request_timeout c) @ '': '') DeadlineExceeded"

definition end_of_body :: "cli_response \<Rightarrow> go_error" where
  "end_of_body resp = (case cr_body_error resp of Some e \<Rightarrow> e | None \<Rightarrow> TextError ''EOF'')"

definition stream_once ::
  "cli_client \<Rightarrow> 'w cli_transport \<Rightarrow> cli_codec \<Rightarrow> (nat \<Rightarrow> bool) \<Rightarrow> 'w on_event \<Rightarrow> ingest_request \<Rightarrow> 'w \<Rightarrow> stream_end \<times> 'w" where
  "stream_once c tr cd late on_event req w =
     (case cd_encode_request cd req of
        Inl e \<Rightarrow> (StreamFailed (TransportError e), w)
      | Inr body \<Rightarrow>
          (case ct_do tr True (post_request c ''/v1/chat:stream'' body) w of
             (Inl e, w1) \<Rightarrow> (StreamFailed (TransportError e), w1)
           | (Inr resp, w1) \<Rightarrow>
               if \<not> status_ok (cr_status_code resp) then
                 (StreamFailed (if is_stream_fallback_status (cr_status_code resp) then StreamUnsupported
                                else decode_api_error cd resp), w1)
               else if \<not> prefix ''text/event-stream'' (to_lower (cr_content_type resp))
               then (StreamFailed StreamUnsupported, w1)
               else stream_loop cd on_event (\<lambda>n. 0 < cl_request_timeout c \<and> late n) (handshake_timeout_error cd c)
                      (end_of_body resp) [] 0 (cr_body resp) w1))"

definition inner_stream_chat ::
  "cli_client \<Rightarrow> 'w cli_transport \<Rightarrow> cli_codec \<Rightarrow> (nat \<Rightarrow> bool) \<Rightarrow> 'w on_event \<Rightarrow> ingest_request \<Rightarrow> 'w
     \<Rightarrow> ((cli_error + api_event_record) \<times> 'w) option" where
  "inner_stream_chat c tr cd late on_event req w =
     (case stream_once c tr cd late on_event req w of
        (StreamFailed e, w1) \<Rightarrow> Some (Inl e, w1)
      | (StreamRecord rec, w1) \<Rightarrow> Some (Inr rec, w1)
      | (StreamWait eid, w1) \<Rightarrow> wait_event c tr cd eid w1)"

text \<open>Waiting for an event and telling the caller about its record.\<close>

definition wait_and_notify ::
  "cli_client \<Rightarrow> 'w cli_transport \<Rightarrow> cli_codec \<Rightarrow> 'w on_event \<Rightarrow> string \<Rightarrow> 'w \<Rightarrow> ((cli_error + api_event_record) \<times> 'w) option" where
  "wait_and_notify c tr cd on_event eid w =
     (case wait_event c tr cd eid w of
        None \<Rightarrow> None
      | Some (Inl e, w1) \<Rightarrow> Some (Inl e, w1)
      | Some (Inr rec, w1) \<Rightarrow>
          Some (case on_event of
                  None \<Rightarrow> (Inr rec, w1)
                | Some f \<Rightarrow>
                    (let (now, w2) = ct_now tr w1 in
                     case f (event_from_record rec now) w2 of
                       (Some e, w3) \<Rightarrow> (Inl (TransportError e), w3)
                     | (None, w3) \<Rightarrow> (Inr rec, w3))))"

definition ingest_accepted_event :: "ingest_response \<Rightarrow> time \<Rightarrow> wire_event" where
  "ingest_accepted_event resp now =
     \<lparr> we_type = stream_type_text ChatStreamEventAccepted,
       we_event = (blank_chat_event ChatStreamEventAccepted (ir_event_id resp) 0 now)
         \<lparr>ce_stream_protocol_version := chat_stream_protocol_version, ce_ingest_response := Some resp\<rparr> \<rparr>"

definition ingest_and_wait ::
  "cli_client \<Rightarrow> 'w cli_transport \<Rightarrow> cli_codec \<Rightarrow> 'w on_event \<Rightarrow> ingest_request \<Rightarrow> 'w \<Rightarrow> ((cli_error + api_event_record) \<times> 'w) option" where
  "ingest_and_wait c tr cd on_event req w =
     (case client_ingest c tr cd req w of
        (Inl e, w1) \<Rightarrow> Some (Inl e, w1)
      | (Inr resp, w1) \<Rightarrow>
          (case (case on_event of
                   None \<Rightarrow> (None, w1)
                 | Some f \<Rightarrow> (let (now, w2) = ct_now tr w1 in f (ingest_accepted_event resp now) w2)) of
             (Some e, w3) \<Rightarrow> Some (Inl (TransportError e), w3)
           | (None, w3) \<Rightarrow> wait_and_notify c tr cd on_event (ir_event_id resp) w3))"

definition stream_chat ::
  "cli_client \<Rightarrow> 'w cli_transport \<Rightarrow> cli_codec \<Rightarrow> (nat \<Rightarrow> bool) \<Rightarrow> 'w on_event \<Rightarrow> ingest_request \<Rightarrow> 'w
     \<Rightarrow> ((cli_error + api_event_record) \<times> 'w) option" where
  "stream_chat c tr cd late on_event req w =
     (case inner_stream_chat c tr cd late on_event req w of
        None \<Rightarrow> None
      | Some (Inr rec, w1) \<Rightarrow> Some (Inr rec, w1)
      | Some (Inl e, w1) \<Rightarrow>
          if is_stream_unsupported e then ingest_and_wait c tr cd on_event req w1
          else (case e of
                  StreamInterrupted eid e' \<Rightarrow>
                    if eid \<noteq> [] then wait_and_notify c tr cd on_event eid w1 else Some (Inl e, w1)
                | _ \<Rightarrow> Some (Inl e, w1)))"

end
