(* ===== verification/Client_System.thy ===== *)
theory Client_System
  imports Cli_Client
begin

text \<open>
  The client against the server: a record it returns is that of an event that has come to its end,
  waiting ends by the deadline, and reading the stream the server writes tells the caller about
  every event of it, in order; where the stream is cut the client waits for the same event.
\<close>

section \<open>Records\<close>

lemma poll_event_terminal:
  assumes "poll_event c tr cd deadline eid w = Some (r, w')"
  shows "r = Inr rec \<Longrightarrow> is_terminal_event rec"
proof -
  have "\<forall>rec. fst x = Inr rec \<longrightarrow> is_terminal_event rec" if "poll_event c tr cd deadline eid w = Some x" for x
  proof (rule poll_event.raw_induct [where P = "\<lambda>c tr cd deadline eid w x. \<forall>rec. fst x = Inr rec \<longrightarrow> is_terminal_event rec",
        OF _ that])
    fix poll c tr cd deadline eid w x
    assume IH: "\<And>c tr cd deadline eid w x. poll c tr cd deadline eid w = Some x \<Longrightarrow> \<forall>rec. fst x = Inr rec \<longrightarrow> is_terminal_event rec"
      and eq: "(let (late, w1) = case deadline of None \<Rightarrow> (False, w) | Some d \<Rightarrow> map_prod (\<lambda>t. d \<le> t) id (ct_now tr w)
        in if late then Some (Inl (PlainError (''poll timeout after '' @ cd_duration_text cd (cl_poll_timeout c))), w1)
           else case client_get_event c tr cd eid w1 of
                  (Inl e, w2) \<Rightarrow> Some (Inl e, w2)
                | (Inr rec, w2) \<Rightarrow>
                    if is_terminal_event rec then Some (Inr rec, w2)
                    else case ct_sleep tr (cl_poll_interval c) w2 of
                           (None, w3) \<Rightarrow> poll c tr cd deadline eid w3
                         | (Some e, w3) \<Rightarrow> Some (Inl (TransportError e), w3)) = Some x"
    obtain late w1 where l: "(case deadline of None \<Rightarrow> (False, w) | Some d \<Rightarrow> map_prod (\<lambda>t. d \<le> t) id (ct_now tr w)) = (late, w1)"
      by fastforce
    obtain g w2 where g: "client_get_event c tr cd eid w1 = (g, w2)" by fastforce
    obtain s w3 where s: "ct_sleep tr (cl_poll_interval c) w2 = (s, w3)" by fastforce
    show "\<forall>rec. fst x = Inr rec \<longrightarrow> is_terminal_event rec"
      using eq unfolding l Let_def prod.case g
      by (cases late; cases g) (auto simp: s split: if_splits option.splits dest: IH)
  qed
  then show "r = Inr rec \<Longrightarrow> is_terminal_event rec" using assms by fastforce
qed

lemma wait_event_terminal: "wait_event c tr cd eid w = Some (Inr rec, w') \<Longrightarrow> is_terminal_event rec"
  by (auto simp: wait_event_def poll_event_terminal split: if_splits prod.splits)

lemma wait_and_notify_terminal: "wait_and_notify c tr cd f eid w = Some (Inr rec, w') \<Longrightarrow> is_terminal_event rec"
  by (auto simp: wait_and_notify_def wait_event_terminal Let_def
      split: option.splits sum.splits prod.splits)

lemma stream_loop_terminal:
  "fst (stream_loop cd f late le be accepted n input w) = StreamRecord rec \<Longrightarrow> is_terminal_event rec"
proof (induction "length input" arbitrary: accepted n input w rule: less_induct)
  case less
  have t: "terminal_end e = StreamRecord rec \<Longrightarrow> is_terminal_event rec" for e
    by (auto simp: terminal_end_def split: option.splits if_splits)
  have IH: "is_terminal_event rec"
    if "read_sse_event [] None input = Some (ty, data, rest)" "fst (stream_loop cd f late le be a m rest v) = StreamRecord rec"
    for ty data rest a m v
    using less(1) [OF read_sse_event_shorter [OF that(1)] that(2)] .
  show ?case using less(2)
    by (subst (asm) stream_loop.simps) (auto split: if_splits option.splits sum.splits prod.splits dest: t IH)
qed

lemma stream_once_terminal: "fst (stream_once c tr cd late f req w) = StreamRecord rec \<Longrightarrow> is_terminal_event rec"
  by (auto simp: stream_once_def split: sum.splits prod.splits if_splits dest: stream_loop_terminal)

theorem client_record_terminal:
  assumes "stream_chat c tr cd late f req w = Some (Inr rec, w')"
  shows "is_terminal_event rec"
proof -
  have inner: "is_terminal_event r" if "inner_stream_chat c tr cd late f req w = Some (Inr r, w1)" for r w1
    using that stream_once_terminal [of c tr cd late f req w]
    by (auto simp: inner_stream_chat_def wait_event_terminal split: prod.splits stream_end.splits)
  have fallback: "is_terminal_event r" if "ingest_and_wait c tr cd f req w2 = Some (Inr r, w1)" for r w1 w2
    using that by (auto simp: ingest_and_wait_def wait_and_notify_terminal Let_def split: prod.splits sum.splits option.splits)
  show ?thesis
    using assms inner fallback
    by (auto simp: stream_chat_def wait_and_notify_terminal
        split: option.splits prod.splits sum.splits if_splits cli_error.splits)
qed

section \<open>Waiting ends\<close>

text \<open>
  A clock: what \<open>Now\<close> returns, and it does not go back; a wait that is not cut short takes its time.
\<close>

definition clocked :: "'w cli_transport \<Rightarrow> ('w \<Rightarrow> time) \<Rightarrow> bool" where
  "clocked tr clk \<longleftrightarrow>
     (\<forall>w. fst (ct_now tr w) = clk w \<and> clk w \<le> clk (snd (ct_now tr w))) \<and>
     (\<forall>b req w. clk w \<le> clk (snd (ct_do tr b req w))) \<and>
     (\<forall>d w. fst (ct_sleep tr d w) = None \<longrightarrow> clk w + d \<le> clk (snd (ct_sleep tr d w)))"

lemma get_event_clock: "clocked tr clk \<Longrightarrow> clk w \<le> clk (snd (client_get_event c tr cd eid w))"
  by (auto simp: clocked_def client_get_event_def get_json_def Let_def split: prod.splits) (metis snd_conv)

lemma poll_event_returns:
  assumes "clocked tr clk" "0 < cl_poll_interval c"
  shows "poll_event c tr cd (Some d) eid w \<noteq> None"
proof (induction "nat (d - clk w)" arbitrary: w rule: less_induct)
  case less
  obtain w1 where n: "ct_now tr w = (clk w, w1)" "clk w \<le> clk w1"
    using assms(1) unfolding clocked_def by (metis prod.collapse)
  show ?case
  proof (cases "d \<le> clk w")
    case True
    then show ?thesis using n by (simp add: poll_event.simps [of c tr cd "Some d" eid w])
  next
    case False
    obtain r w2 where g: "client_get_event c tr cd eid w1 = (r, w2)" by fastforce
    have c2: "clk w \<le> clk w2" using get_event_clock [OF assms(1), of w1 c cd eid] g n(2) by simp
    obtain s w3 where sl: "ct_sleep tr (cl_poll_interval c) w2 = (s, w3)" by fastforce
    have "poll_event c tr cd (Some d) eid w3 \<noteq> None" if "s = None"
    proof (rule less)
      have "clk w2 + cl_poll_interval c \<le> clk w3" using assms(1) sl that by (auto simp: clocked_def) (metis fst_conv snd_conv)
      then show "nat (d - clk w3) < nat (d - clk w)" using c2 assms(2) False by simp
    qed
    then show ?thesis using n g sl False
      by (subst poll_event.simps) (auto split: sum.splits option.splits)
  qed
qed

lemma wait_event_returns:
  assumes "clocked tr clk" "0 < cl_poll_interval c" "0 < cl_poll_timeout c"
  shows "wait_event c tr cd eid w \<noteq> None"
  using assms poll_event_returns [OF assms(1,2)] by (auto simp: wait_event_def split: prod.splits)


section \<open>Reading the stream of the server\<close>

definition to_wire :: "chat_stream_event \<Rightarrow> wire_event" where
  "to_wire e = \<lparr> we_type = stream_type_text (ce_type e), we_event = e \<rparr>"

text \<open>Decoding undoes the encoding of an event, and its text fits in a line.\<close>

definition codec_for :: "(chat_stream_event \<Rightarrow> string option) \<Rightarrow> cli_codec \<Rightarrow> chat_stream_event \<Rightarrow> bool" where
  "codec_for marshal cd e \<longleftrightarrow> (\<exists>body. marshal e = Some body \<and> sse_safe body \<and> cd_decode_event cd body = Inr (to_wire e))"

lemma stream_type_text_inject: "stream_type_text a = stream_type_text b \<longleftrightarrow> a = b"
  by (cases a; cases b) simp_all

lemma stream_loop_keepalive:
  "stream_loop cd f late le be accepted n (write_sse_comment ''keepalive'' @ input) w =
     stream_loop cd f late le be accepted n input w"
proof -
  have "read_sse_event [] None (write_sse_comment ''keepalive'' @ input) = read_sse_event [] None input"
    by (rule read_sse_comment) (simp add: line_feed_def)
  then show ?thesis by (subst (1 2) stream_loop.simps) simp
qed

lemma stream_loop_event:
  assumes "codec_for marshal cd e" "accepted \<noteq> [] \<or> \<not> late n"
  shows "stream_loop cd (Some (\<lambda>e w. (None, g e w))) late le be accepted n (frame_text marshal (FrameEvent e) @ input) w =
    (if ce_type e = ChatStreamEventAccepted then
       (if ce_stream_protocol_version e \<noteq> chat_stream_protocol_version
        then (StreamFailed (StreamInterrupted (ce_event_id e) StreamProtocolMismatch), g (to_wire e) w)
        else stream_loop cd (Some (\<lambda>e w. (None, g e w))) late le be (ce_event_id e) (Suc n) input (g (to_wire e) w))
     else if chat_event_is_terminal e then (terminal_end e, g (to_wire e) w)
     else stream_loop cd (Some (\<lambda>e w. (None, g e w))) late le be accepted (Suc n) input (g (to_wire e) w))"
proof -
  obtain body where b: "marshal e = Some body" "sse_safe body" "cd_decode_event cd body = Inr (to_wire e)"
    using assms(1) by (auto simp: codec_for_def)
  have r: "read_sse_event [] None (frame_text marshal (FrameEvent e) @ input) = Some (stream_type_text (ce_type e), Some body, input)"
    using read_sse_written [OF stream_type_text_safe b(2)] b(1) by (simp add: write_sse_event_def)
  show ?thesis
    using assms(2) b(3)
    by (subst stream_loop.simps, simp only: r)
      (auto simp: notify_def to_wire_def stream_type_text_inject [of _ ChatStreamEventAccepted, simplified]
        stream_type_text_inject [of _ ChatStreamEventDone, simplified] stream_type_text_inject [of _ ChatStreamEventError, simplified]
        chat_event_is_terminal_def)
qed

text \<open>After the acceptance the loop tells every event up to the terminal one, if it comes.\<close>

lemma stream_loop_frames:
  assumes "\<forall>e \<in> set (frame_events fs). codec_for marshal cd e \<and> ce_type e \<noteq> ChatStreamEventAccepted" "accepted \<noteq> []"
    and "\<forall>e \<in> set (butlast (frame_events fs)). \<not> chat_event_is_terminal e"
  shows "stream_loop cd (Some (\<lambda>e w. (None, g e w))) late le be accepted n (concat (map (frame_text marshal) fs)) w =
    (if \<exists>e \<in> set (frame_events fs). chat_event_is_terminal e then terminal_end (last (frame_events fs))
     else StreamFailed (StreamInterrupted accepted (TransportError be)),
     fold (\<lambda>e. g (to_wire e)) (frame_events fs) w)"
  using assms(1,3)
proof (induction fs arbitrary: n w rule: frame_events.induct)
  case 1
  then show ?case using assms(2)
    by (subst stream_loop.simps) (simp add: read_sse_event.simps [of _ _ "[]"] interrupted_def)
next
  case (2 e fs)
  have c: "codec_for marshal cd e" "ce_type e \<noteq> ChatStreamEventAccepted" using 2 by auto
  note step = stream_loop_event [OF c(1), of accepted late n g le be "concat (map (frame_text marshal) fs)" w]
  show ?case
  proof (cases "chat_event_is_terminal e")
    case True
    then have "frame_events fs = []" using "2.prems"(2) by (cases "frame_events fs") auto
    then show ?thesis using step assms(2) c(2) True by simp
  next
    case False
    have "\<forall>e \<in> set (butlast (frame_events fs)). \<not> chat_event_is_terminal e"
      using "2.prems"(2) by (auto split: if_splits)
    then show ?thesis using step assms(2) c(2) False "2.IH" [of "Suc n" "g (to_wire e) w"] "2.prems"(1) by auto
  qed
next
  case (3 fs)
  then show ?case by (simp add: stream_loop_keepalive)
qed

lemma runtime_event_not_accepted: "ce_type (runtime_event_to_api now e) \<noteq> ChatStreamEventAccepted"
  by (cases "re_kind e") (simp_all add: runtime_event_to_api_def blank_chat_event_def Let_def)

lemma butlast_upto_first: "\<forall>e \<in> set (butlast (upto_first P xs)). \<not> P e"
  by (induction xs) auto

lemma set_upto_first: "set (upto_first P xs) \<subseteq> set xs"
  by (induction xs) auto

lemma frame_events_take: "\<exists>k. frame_events (take n fs) = take k (frame_events fs)"
proof (induction fs arbitrary: n rule: frame_events.induct)
  case (2 e fs)
  show ?case
  proof (cases n)
    case (Suc m)
    from "2.IH" [of m] obtain k where "frame_events (take m fs) = take k (frame_events fs)" by blast
    then show ?thesis using Suc by (intro exI [of _ "Suc k"]) simp
  qed (auto intro: exI [of _ 0])
next
  case (3 fs)
  then show ?case by (cases n) (auto intro: exI [of _ 0])
qed simp

lemma butlast_take_subset: "set (butlast (take k xs)) \<subseteq> set (butlast xs)"
  by (metis butlast_take in_set_takeD nle_le subsetI take_all take_butlast in_set_butlastD order_refl butlast_take linorder_not_less)

lemma stream_rest_events:
  assumes "stream_frames a now replayed waits (Suc writes) = FrameEvent e0 # fs"
  shows "e0 = accepted_chat_event a now \<and> (\<forall>e \<in> set (frame_events fs). ce_type e \<noteq> ChatStreamEventAccepted) \<and>
    (\<forall>e \<in> set (butlast (frame_events fs)). \<not> chat_event_is_terminal e)"
proof -
  obtain gs go where r: "stream_replay replayed = (gs, go)" by fastforce
  let ?all = "gs @ (if go then stream_live waits else [])"
  have fs: "fs = take writes ?all" and e0: "e0 = accepted_chat_event a now"
    using assms r by (auto simp: stream_frames_def)
  have "go = (\<not> (\<exists>x \<in> set (map to_api replayed). chat_event_is_terminal x))"
    "frame_events gs = upto_first chat_event_is_terminal (map to_api replayed)"
    using r by (auto simp: stream_replay_spec to_api_def list_ex_iff)
  moreover have "upto_first P xs = xs" if "\<not> (\<exists>x \<in> set xs. P x)" for P and xs :: "chat_stream_event list"
    using upto_first_append [of P xs "[]"] that by simp
  ultimately have all: "frame_events ?all = upto_first chat_event_is_terminal (map to_api (replayed @ live_events waits))"
    by (simp add: frame_events_append stream_live_spec upto_first_append)
  obtain k where k: "frame_events fs = take k (frame_events ?all)" using frame_events_take fs by blast
  have "set (frame_events fs) \<subseteq> to_api ` set (replayed @ live_events waits)"
    using k all set_upto_first set_take_subset by (metis set_map subset_trans)
  then have "\<forall>e \<in> set (frame_events fs). ce_type e \<noteq> ChatStreamEventAccepted"
    by (auto simp: to_api_def runtime_event_not_accepted)
  moreover have "\<forall>e \<in> set (butlast (frame_events fs)). \<not> chat_event_is_terminal e"
    using k all butlast_take_subset butlast_upto_first by (metis subsetD)
  ultimately show ?thesis using e0 by simp
qed

text \<open>
  C27: The client that reads what the server writes of a chat stream tells its caller every
  event that was written, in order and without the keepalive comments; it ends with the terminal
  event when that was written, and where the connection is cut before, with an interruption that
  names the accepted event, which it then waits for.
\<close>

theorem client_reads_server_stream:
  assumes "frames = stream_frames a now replayed waits (Suc writes)" "gr_event_id (ai_result a) \<noteq> []" "\<not> late 0"
    and "\<forall>e \<in> set (frame_events frames). codec_for marshal cd e"
  shows "stream_loop cd (Some (\<lambda>e w. (None, g e w))) late le be [] 0 (concat (map (frame_text marshal) frames)) w =
    (if \<exists>e \<in> set (frame_events frames). chat_event_is_terminal e then terminal_end (last (frame_events frames))
     else StreamFailed (StreamInterrupted (gr_event_id (ai_result a)) (TransportError be)),
     fold (\<lambda>e. g (to_wire e)) (frame_events frames) w)"
proof -
  obtain fs where fs: "frames = FrameEvent (accepted_chat_event a now) # fs"
    using assms(1) by (auto simp: stream_frames_def split: prod.splits)
  note rest = stream_rest_events [OF assms(1) [unfolded fs, symmetric]]
  let ?e = "accepted_chat_event a now"
  have e: "ce_type ?e = ChatStreamEventAccepted" "ce_stream_protocol_version ?e = chat_stream_protocol_version"
    "ce_event_id ?e = gr_event_id (ai_result a)" "\<not> chat_event_is_terminal ?e"
    by (simp_all add: accepted_chat_event_def blank_chat_event_def chat_event_is_terminal_def)
  have c: "codec_for marshal cd ?e" "\<forall>e \<in> set (frame_events fs). codec_for marshal cd e" using assms(4) fs by auto
  have first: "stream_loop cd (Some (\<lambda>e w. (None, g e w))) late le be [] 0 (concat (map (frame_text marshal) frames)) w =
      stream_loop cd (Some (\<lambda>e w. (None, g e w))) late le be (gr_event_id (ai_result a)) (Suc 0)
        (concat (map (frame_text marshal) fs)) (g (to_wire ?e) w)"
    using stream_loop_event [OF c(1), of "[]" late 0 g le be "concat (map (frame_text marshal) fs)" w] assms(3) e
    by (simp add: fs)
  show ?thesis
    unfolding first
    using stream_loop_frames [of fs marshal cd "gr_event_id (ai_result a)" g late le be "Suc 0" "g (to_wire ?e) w"]
      rest c(2) assms(2) e(4) fs by auto
qed

section \<open>Instances\<close>

text \<open>A server without the chat stream, which has processed the event when it is first asked for.\<close>

definition demo_api_record :: "event_status \<Rightarrow> api_event_record" where
  "demo_api_record status = \<lparr> av_event_id = ''e'', av_status = status, av_outbox_status = OutboxStatusUnset,
     av_session_key = ''k'', av_session_id = ''s'', av_run_id = ''r'', av_run_mode = RunModeNormal,
     av_assistant_reply = ''hi'', av_outbox_id = [], av_processing_lease = [], av_received_at = 0, av_created_at = 0,
     av_updated_at = 0, av_payload_hash = [], av_provider = [], av_model = [], av_provider_request_id = [], av_error = None \<rparr>"

definition demo_cli_codec :: "event_status \<Rightarrow> cli_codec" where
  "demo_cli_codec status = \<lparr> cd_encode_request = (\<lambda>_. Inr ''{}''),
     cd_decode_ingest = (\<lambda>_. Inr (ai_response demo_accepted_ingest)),
     cd_decode_record = (\<lambda>_. Inr (demo_api_record status)),
     cd_decode_event = (\<lambda>body. Inr (to_wire
       (if body = ''accepted'' then accepted_chat_event demo_accepted_ingest 5
        else if body = ''done'' then runtime_event_to_api 7 (demo_runtime_event RuntimeEventCompleted 3)
        else runtime_event_to_api 6 (demo_runtime_event RuntimeEventTextDelta 2)))),
     cd_decode_error = (\<lambda>_. None), cd_duration_text = (\<lambda>_. []) \<rparr>"

definition demo_transport :: "time cli_transport" where
  "demo_transport = \<lparr> ct_do = (\<lambda>stream req w. (Inr \<lparr> cr_status_code = (if stream then 404 else 200), cr_content_type = [],
       cr_body = [], cr_body_error = None \<rparr>, w)),
     ct_now = (\<lambda>w. (w, w)), ct_sleep = (\<lambda>d w. (None, w + d)) \<rparr>"

definition demo_ingest_request :: ingest_request where
  "demo_ingest_request = \<lparr> iq_source = ''cli'', iq_conversation = \<lparr> conversation_id = ''c'', thread_id = [],
     channel_type = ''dm'', participant_id = ''p'' \<rparr>, iq_dm_scope = [], iq_session_key_hint = [], iq_idempotency_key = ''cli:1:1'',
     iq_timestamp = [], iq_payload = \<lparr> payload_type = ''message'', payload_text = ''hi'', mentions = [], attachments = [],
       native = None, native_ref = [], extra = [] \<rparr> \<rparr>"

theorem client_record_terminal_witness:
  "is_terminal_event (demo_api_record EventStatusProcessed)"
proof -
  have "stream_chat (new_client ''http://h'' [] 0) demo_transport (demo_cli_codec EventStatusProcessed) (\<lambda>_. False) None demo_ingest_request 0 =
      Some (Inr (demo_api_record EventStatusProcessed), 0)"
    by (simp add: stream_chat_def inner_stream_chat_def stream_once_def demo_transport_def demo_cli_codec_def status_ok_def
        is_stream_fallback_status_def ingest_and_wait_def client_ingest_def post_json_def read_json_def wait_and_notify_def
        wait_event_def new_client_def default_poll_timeout_def poll_event.simps client_get_event_def get_json_def
        is_terminal_event_def demo_api_record_def Let_def)
  then show ?thesis by (rule client_record_terminal)
qed


text \<open>An accepted message, a delta and the completion, with a keepalive between them.\<close>

theorem client_reads_server_stream_witness:
  "snd (stream_loop (demo_cli_codec EventStatusProcessed) (Some (\<lambda>e seen. (None, seen @ [we_type e]))) (\<lambda>_. False) (TextError [])
     (TextError ''EOF'') [] 0
     (concat (map (frame_text (\<lambda>e. Some (stream_type_text (ce_type e))))
       (stream_frames demo_accepted_ingest 5 []
         [WaitEvent 6 (demo_runtime_event RuntimeEventTextDelta 2), WaitKeepalive,
          WaitEvent 7 (demo_runtime_event RuntimeEventCompleted 3)] 9))) []) =
   [''accepted'', ''text_delta'', ''done'']"
proof -
  let ?waits = "[WaitEvent 6 (demo_runtime_event RuntimeEventTextDelta 2), WaitKeepalive, WaitEvent 7 (demo_runtime_event RuntimeEventCompleted 3)]"
  have kinds: "ce_type (runtime_event_to_api 6 (demo_runtime_event RuntimeEventTextDelta 2)) = ChatStreamEventTextDelta"
    "ce_type (runtime_event_to_api 7 (demo_runtime_event RuntimeEventCompleted 3)) = ChatStreamEventDone"
    "ce_type (accepted_chat_event demo_accepted_ingest 5) = ChatStreamEventAccepted"
    by (simp_all add: runtime_event_to_api_def demo_runtime_event_def accepted_chat_event_def blank_chat_event_def Let_def)
  have frames: "frame_events (stream_frames demo_accepted_ingest 5 [] ?waits (Suc 8)) =
     [accepted_chat_event demo_accepted_ingest 5, runtime_event_to_api 6 (demo_runtime_event RuntimeEventTextDelta 2),
      runtime_event_to_api 7 (demo_runtime_event RuntimeEventCompleted 3)]"
    by (simp add: stream_frames_def chat_event_is_terminal_def kinds)
  have codec: "\<forall>e \<in> set (frame_events (stream_frames demo_accepted_ingest 5 [] ?waits (Suc 8))).
      codec_for (\<lambda>e. Some (stream_type_text (ce_type e))) (demo_cli_codec EventStatusProcessed) e"
    unfolding frames by (simp add: codec_for_def kinds stream_type_text_safe demo_cli_codec_def)
  have id: "gr_event_id (ai_result demo_accepted_ingest) \<noteq> []" by (simp add: demo_accepted_ingest_def)
  have "snd (stream_loop (demo_cli_codec EventStatusProcessed) (Some (\<lambda>e seen. (None, seen @ [we_type e]))) (\<lambda>_. False) (TextError [])
     (TextError ''EOF'') [] 0 (concat (map (frame_text (\<lambda>e. Some (stream_type_text (ce_type e))))
       (stream_frames demo_accepted_ingest 5 [] ?waits (Suc 8)))) []) = [''accepted'', ''text_delta'', ''done'']"
    using client_reads_server_stream [OF refl id _ codec, of "\<lambda>_. False" "\<lambda>e seen. seen @ [we_type e]" "TextError []"
        "TextError ''EOF''" "[]"]
    unfolding frames by (simp add: to_wire_def kinds)
  then show ?thesis by simp
qed

end
