(* ===== verification/Jobs_Tx.thy ===== *)
theory Jobs_Tx
  imports Store
begin

text \<open>
  \<open>internal/store/jobs.go\<close> with its wrappers in \<open>tx/scheduled_jobs.go\<close>: the scheduled jobs
  the cron configuration writes and the workers claim, complete and fail, and the heartbeats.
  The two \<open>ClaimedJob\<close> records of the source have the same fields and are one record here, so
  the conversions between them are the identity.
\<close>

record cron_job_config =
  cron_name :: string
  cron_conversation_id :: string
  cron_channel_type :: string
  cron_participant_id :: string
  cron_payload_type :: string
  cron_payload_text :: string
  cron_interval :: duration

definition cron_job_id :: "string \<Rightarrow> string" where
  "cron_job_id name = ''cron:'' @ name"

definition cron_payload :: "string \<Rightarrow> cron_job_config \<Rightarrow> scheduled_job_payload" where
  "cron_payload tenant j =
     \<lparr> jp_source = ''cron'', jp_tenant_id = tenant,
       jp_conversation = \<lparr> conversation_id = cron_conversation_id j, thread_id = [],
          channel_type = cron_channel_type j, participant_id = cron_participant_id j \<rparr>,
       jp_payload = \<lparr> payload_type = cron_payload_type j, payload_text = cron_payload_text j,
          mentions = [], attachments = [], native = None, native_ref = [], extra = [] \<rparr>,
       jp_interval_seconds = int_quot (cron_interval j) second \<rparr>"

definition cron_job_row :: "string \<Rightarrow> time \<Rightarrow> cron_job_config \<Rightarrow> job_row" where
  "cron_job_row tenant now j =
     \<lparr> jb_job_id = cron_job_id (cron_name j), jb_name = cron_name j, jb_kind = ScheduledJobKindCron,
       jb_status = ScheduledJobStatusActive, jb_payload = cron_payload tenant j,
       jb_next_run_at = time_text (now + cron_interval j), jb_locked_at = [], jb_lock_owner = [],
       jb_attempt_count = 0, jb_last_error = [], jb_created_at = time_text now, jb_updated_at = time_text now \<rparr>"

definition upsert_cron_job :: "string \<Rightarrow> time \<Rightarrow> cron_job_config \<Rightarrow> job_row list \<Rightarrow> job_row list" where
  "upsert_cron_job tenant now j rows =
     (let row = cron_job_row tenant now j in
      upsert_row jb_job_id row
        (\<lambda>r. r\<lparr>jb_name := jb_name row, jb_payload := jb_payload row, jb_updated_at := jb_updated_at row\<rparr>) rows)"

definition upsert_cron_jobs ::
  "tx_fault \<Rightarrow> string \<Rightarrow> cron_job_config list \<Rightarrow> time \<Rightarrow> database \<Rightarrow> (store_error + unit) \<times> database" where
  "upsert_cron_jobs flt tenant jobs now d =
     with_writer_tx flt (\<lambda>d. Inr ((), d\<lparr>db_jobs := fold (upsert_cron_job tenant now) jobs (db_jobs d)\<rparr>)) d"

definition job_due :: "scheduled_job_kind \<Rightarrow> time \<Rightarrow> job_row \<Rightarrow> bool" where
  "job_due kind now r =
     (jb_kind r = kind \<and> jb_status r = ScheduledJobStatusActive \<and> jb_next_run_at r \<le> time_text now)"

definition next_job :: "scheduled_job_kind \<Rightarrow> time \<Rightarrow> job_row list \<Rightarrow> job_row option" where
  "next_job kind now rows =
     first_by (\<lambda>r. (jb_next_run_at r, jb_job_id r)) (filter (job_due kind now) rows)"

definition lock_job_row :: "string \<Rightarrow> time \<Rightarrow> job_row \<Rightarrow> job_row" where
  "lock_job_row owner now r =
     r\<lparr>jb_locked_at := time_text now, jb_lock_owner := owner, jb_updated_at := time_text now,
       jb_attempt_count := jb_attempt_count r + 1\<rparr>"

definition to_claimed_job :: "job_row \<Rightarrow> claimed_job" where
  "to_claimed_job r =
     \<lparr> cj_job_id = jb_job_id r, cj_name = jb_name r, cj_kind = jb_kind r, cj_status = jb_status r,
       cj_payload = jb_payload r, cj_attempt_count = jb_attempt_count r,
       cj_next_run_at = must_parse_time (jb_next_run_at r) \<rparr>"

text \<open>One \<open>UPDATE ... RETURNING\<close> outside a transaction; the row returned is the updated one.\<close>

definition claim_scheduled_job ::
  "tx_fault \<Rightarrow> scheduled_job_kind \<Rightarrow> string \<Rightarrow> time \<Rightarrow> database \<Rightarrow> (store_error + claimed_job option) \<times> database" where
  "claim_scheduled_job flt kind owner now d =
     with_writer_tx flt (\<lambda>d.
       case next_job kind now (db_jobs d) of
         None \<Rightarrow> Inr (None, d)
       | Some r \<Rightarrow>
           Inr (Some (to_claimed_job (lock_job_row owner now r)),
                d\<lparr>db_jobs := update_where (\<lambda>r'. jb_job_id r' = jb_job_id r) (lock_job_row owner now) (db_jobs d)\<rparr>)) d"

text \<open>\<open>time.Duration(seconds) * time.Second\<close> is an \<open>int64\<close> product.\<close>

definition job_interval :: "claimed_job \<Rightarrow> duration" where
  "job_interval j =
     (let i = wrap64 (jp_interval_seconds (cj_payload j) * second) in if i \<le> 0 then 10 * second else i)"

definition complete_job_row :: "claimed_job \<Rightarrow> time \<Rightarrow> job_row \<Rightarrow> job_row" where
  "complete_job_row j now r =
     r\<lparr>jb_status := (case cj_kind j of ScheduledJobKindCron \<Rightarrow> cj_status j | _ \<Rightarrow> ScheduledJobStatusPaused),
       jb_next_run_at := (case cj_kind j of ScheduledJobKindCron \<Rightarrow> time_text (now + job_interval j) | _ \<Rightarrow> []),
       jb_locked_at := [], jb_lock_owner := [], jb_last_error := [], jb_updated_at := time_text now\<rparr>"

definition complete_scheduled_job ::
  "tx_fault \<Rightarrow> claimed_job \<Rightarrow> time \<Rightarrow> database \<Rightarrow> (store_error + unit) \<times> database" where
  "complete_scheduled_job flt j now d =
     exec_writer flt (\<lambda>d. d\<lparr>db_jobs := update_where (\<lambda>r. jb_job_id r = cj_job_id j)
         (complete_job_row j now) (db_jobs d)\<rparr>) d"

definition fail_job_row :: "string \<Rightarrow> time \<Rightarrow> time \<Rightarrow> job_row \<Rightarrow> job_row" where
  "fail_job_row message next_at now r =
     r\<lparr>jb_locked_at := [], jb_lock_owner := [], jb_last_error := message,
       jb_next_run_at := time_text next_at, jb_updated_at := time_text now\<rparr>"

definition fail_scheduled_job ::
  "tx_fault \<Rightarrow> string \<Rightarrow> string \<Rightarrow> time \<Rightarrow> time \<Rightarrow> database \<Rightarrow> (store_error + unit) \<times> database" where
  "fail_scheduled_job flt jid message next_at now d =
     exec_writer flt (\<lambda>d. d\<lparr>db_jobs := update_where (\<lambda>r. jb_job_id r = jid)
         (fail_job_row message next_at now) (db_jobs d)\<rparr>) d"

section \<open>Heartbeats\<close>

definition beat_heartbeat :: "tx_fault \<Rightarrow> string \<Rightarrow> time \<Rightarrow> database \<Rightarrow> (store_error + unit) \<times> database" where
  "beat_heartbeat flt worker now d =
     exec_writer flt (\<lambda>d.
       let row = \<lparr> hb_worker_name = worker, hb_beat_at = time_text now, hb_status = ''alive'', hb_details = [] \<rparr>
       in d\<lparr>db_heartbeats := upsert_row hb_worker_name row
            (\<lambda>r. r\<lparr>hb_beat_at := hb_beat_at row, hb_status := hb_status row, hb_details := hb_details row\<rparr>)
            (db_heartbeats d)\<rparr>) d"

definition heartbeat_at :: "string \<Rightarrow> database \<Rightarrow> time option" where
  "heartbeat_at worker d =
     map_option (\<lambda>r. must_parse_time (hb_beat_at r)) (find_row hb_worker_name worker (db_heartbeats d))"

section \<open>Facts\<close>

lemma job_row_keys [simp]:
  "jb_job_id (lock_job_row w now r) = jb_job_id r"
  "jb_job_id (complete_job_row j now r) = jb_job_id r"
  "jb_job_id (fail_job_row m n now r) = jb_job_id r"
  by (simp_all add: lock_job_row_def complete_job_row_def fail_job_row_def)

lemma upsert_cron_job_distinct:
  "distinct (map jb_job_id rows) \<Longrightarrow> distinct (map jb_job_id (upsert_cron_job tenant now j rows))"
  by (simp add: upsert_cron_job_def Let_def distinct_upsert_row)

lemma find_upsert_cron_job:
  "find_row jb_job_id k (upsert_cron_job tenant now j rows) =
     (if k = cron_job_id (cron_name j)
      then Some (case find_row jb_job_id k rows of
                   None \<Rightarrow> cron_job_row tenant now j
                 | Some r \<Rightarrow> r\<lparr>jb_name := cron_name j, jb_payload := cron_payload tenant j, jb_updated_at := time_text now\<rparr>)
      else find_row jb_job_id k rows)"
  by (simp add: upsert_cron_job_def Let_def find_row_upsert_row cron_job_row_def split: option.split)

lemma upsert_cron_jobs_distinct:
  "distinct (map jb_job_id rows) \<Longrightarrow> distinct (map jb_job_id (fold (upsert_cron_job tenant now) jobs rows))"
  by (induction jobs arbitrary: rows) (simp_all add: upsert_cron_job_distinct)

lemma next_job_SomeD:
  assumes "next_job kind now rows = Some r"
  shows "r \<in> set rows" "job_due kind now r"
    "\<And>r'. r' \<in> set rows \<Longrightarrow> job_due kind now r' \<Longrightarrow>
       (jb_next_run_at r, jb_job_id r) \<le> (jb_next_run_at r', jb_job_id r')"
proof -
  have m: "r \<in> set (filter (job_due kind now) rows)"
    by (rule first_by_SomeD) (rule assms [unfolded next_job_def])
  then show "r \<in> set rows" "job_due kind now r" by auto
  show "(jb_next_run_at r, jb_job_id r) \<le> (jb_next_run_at r', jb_job_id r')"
    if "r' \<in> set rows" "job_due kind now r'" for r'
    by (rule first_by_least [OF assms [unfolded next_job_def]]) (use that in simp)
qed

lemma job_interval_pos: "0 < job_interval j" "job_interval j < 2 ^ 63"
  using wrap64_range(2) [of "jp_interval_seconds (cj_payload j) * second"]
  by (simp_all add: job_interval_def Let_def)

text \<open>What an upsert of the cron configuration must not touch in a job that exists.\<close>

definition schedule_of :: "job_row \<Rightarrow> string \<times> scheduled_job_status \<times> scheduled_job_kind \<times> int \<times> string \<times> string" where
  "schedule_of r = (jb_next_run_at r, jb_status r, jb_kind r, jb_attempt_count r, jb_locked_at r, jb_created_at r)"

lemma schedule_upsert_cron_jobs:
  "find_row jb_job_id k rows \<noteq> None \<Longrightarrow>
     map_option schedule_of (find_row jb_job_id k (fold (upsert_cron_job tenant now) jobs rows)) =
     map_option schedule_of (find_row jb_job_id k rows)"
proof (induction jobs arbitrary: rows)
  case (Cons j jobs)
  from Cons.prems have "find_row jb_job_id k (upsert_cron_job tenant now j rows) \<noteq> None"
    "map_option schedule_of (find_row jb_job_id k (upsert_cron_job tenant now j rows)) =
     map_option schedule_of (find_row jb_job_id k rows)"
    by (auto simp: find_upsert_cron_job schedule_of_def)
  with Cons.IH show ?case by simp
qed simp

end
