(* ===== verification/Config.thy ===== *)
theory Config
  imports Jobs_Tx Bindings Paths Go_Strings
begin

text \<open>
  \<open>internal/config/config.go\<close>: the configuration, its defaults, the overrides from environment
  variables, its validation and the \<open>.env\<close> file.  Decoding the JSON file into the defaults,
  \<open>time.ParseDuration\<close> and reading a file are arguments; a rate is a finite \<open>float64\<close>.
\<close>

section \<open>Data\<close>

record llm_provider_config =
  lp_type :: string
  lp_base_url :: string
  lp_api_key :: string
  lp_timeout :: duration
  lp_fake_response_text :: string
  lp_fake_tool_name :: string
  lp_fake_tool_args_json :: string
  lp_fake_finish_reason :: string
  lp_fake_raw_finish_reason :: string
  lp_fake_prompt_tokens :: int
  lp_fake_completion_tokens :: int
  lp_fake_request_id :: string

text \<open>A map of providers that is nil is None; a decoded file can leave it so.\<close>

record llm_config =
  lc_default_model :: string
  lc_providers :: "(string \<times> llm_provider_config) list option"

record telegram_channel_config =
  tc_enabled :: bool
  tc_token :: string
  tc_allowed_user_ids :: "int list"
  tc_long_poll_timeout :: duration

record web_search_config =
  ws_timeout :: duration
  ws_max_results :: int

record config =
  cf_workspace :: string
  cf_listen_addr :: string
  cf_log_level :: string
  cf_api_key :: string
  cf_tenant_id :: string
  cf_event_queue_capacity :: int
  cf_ingest_enqueue_timeout :: duration
  cf_rate_limit_tenant_rps :: rat
  cf_rate_limit_tenant_burst :: rat
  cf_rate_limit_session_rps :: rat
  cf_rate_limit_session_burst :: rat
  cf_max_tool_rounds :: int
  cf_db_busy_timeout :: duration
  cf_llm :: llm_config
  cf_web_search :: web_search_config
  cf_telegram :: telegram_channel_config
  cf_cron_jobs :: "cron_job_config list"

datatype config_error =
  InvalidLogLevel string | BusyTimeoutTooShort | TelegramTokenMissing
| ModelWithoutProvider string | UnknownModelProvider string string | UnsupportedProviderType string string
| CronNameMissing | CronIntervalNotPositive string | CronFieldMissing string string
| InvalidVariable string string | ReadFailed string | DecodeFailed string | NilMapWritten

section \<open>Defaults\<close>

definition default_provider_timeout :: duration where "default_provider_timeout = 60 * second"
definition default_web_search_max_results :: int where "default_web_search_max_results = 5"
definition min_web_search_max_results :: int where "min_web_search_max_results = 1"
definition max_web_search_max_results :: int where "max_web_search_max_results = 8"

text \<open>The default answer of the fake model, in UTF-8.\<close>

definition received_prefix :: string where
  "received_prefix = [CHR 0xE5, CHR 0xB7, CHR 0xB2, CHR 0xE6, CHR 0x94, CHR 0xB6, CHR 0xE5, CHR 0x88, CHR 0xB0] @ '': ''"

definition default_fake_provider :: llm_provider_config where
  "default_fake_provider = \<lparr> lp_type = ''fake'', lp_base_url = [], lp_api_key = [], lp_timeout = default_provider_timeout,
     lp_fake_response_text = received_prefix @ ''{{last_user_message}}'', lp_fake_tool_name = [],
     lp_fake_tool_args_json = [], lp_fake_finish_reason = ''stop'', lp_fake_raw_finish_reason = ''stop'',
     lp_fake_prompt_tokens = 8, lp_fake_completion_tokens = 8, lp_fake_request_id = ''fake-request-1'' \<rparr>"

definition default_config :: config where
  "default_config = \<lparr> cf_workspace = ''.'', cf_listen_addr = '':8080'', cf_log_level = ''info'', cf_api_key = [],
     cf_tenant_id = ''local'', cf_event_queue_capacity = 1024, cf_ingest_enqueue_timeout = 200 * millisecond,
     cf_rate_limit_tenant_rps = 30, cf_rate_limit_tenant_burst = 60, cf_rate_limit_session_rps = 5,
     cf_rate_limit_session_burst = 10, cf_max_tool_rounds = 4, cf_db_busy_timeout = 5 * second,
     cf_llm = \<lparr> lc_default_model = ''fake/default'', lc_providers = Some [(''fake'', default_fake_provider)] \<rparr>,
     cf_web_search = \<lparr> ws_timeout = 10 * second, ws_max_results = default_web_search_max_results \<rparr>,
     cf_telegram = \<lparr> tc_enabled = False, tc_token = [], tc_allowed_user_ids = [], tc_long_poll_timeout = 30 * second \<rparr>,
     cf_cron_jobs = [] \<rparr>"

definition clamp_web_search_max_results :: "int \<Rightarrow> int" where
  "clamp_web_search_max_results v =
     (if v \<le> 0 then default_web_search_max_results
      else if v < min_web_search_max_results then min_web_search_max_results
      else if max_web_search_max_results < v then max_web_search_max_results else v)"

definition or_text :: "string \<Rightarrow> string \<Rightarrow> string" where
  "or_text dflt s = (if s = [] then dflt else s)"

definition or_positive :: "'a::{zero, linorder} \<Rightarrow> 'a \<Rightarrow> 'a" where
  "or_positive dflt x = (if x \<le> 0 then dflt else x)"

definition apply_provider_defaults :: "llm_provider_config \<Rightarrow> llm_provider_config" where
  "apply_provider_defaults p0 =
     (let p = p0\<lparr>lp_timeout := or_positive default_provider_timeout (lp_timeout p0)\<rparr> in
      if lp_type p \<noteq> ''fake'' then p
      else (let reason = or_text ''stop'' (lp_fake_finish_reason p) in
        p\<lparr>lp_fake_finish_reason := reason,
          lp_fake_raw_finish_reason := or_text reason (lp_fake_raw_finish_reason p),
          lp_fake_request_id := or_text ''fake-request-1'' (lp_fake_request_id p),
          lp_fake_prompt_tokens := or_positive 8 (lp_fake_prompt_tokens p),
          lp_fake_completion_tokens := or_positive 8 (lp_fake_completion_tokens p)\<rparr>))"

definition apply_llm_defaults :: "llm_config \<Rightarrow> llm_config" where
  "apply_llm_defaults l =
     \<lparr> lc_default_model = or_text ''fake/default'' (lc_default_model l),
       lc_providers = Some (map (apsnd apply_provider_defaults) (case lc_providers l of None \<Rightarrow> [] | Some ps \<Rightarrow> ps)) \<rparr>"

definition apply_defaults :: "config \<Rightarrow> config" where
  "apply_defaults c = c\<lparr>
     cf_workspace := path_clean (or_text ''.'' (cf_workspace c)),
     cf_listen_addr := or_text '':8080'' (cf_listen_addr c),
     cf_log_level := or_text ''info'' (cf_log_level c),
     cf_tenant_id := or_text ''local'' (cf_tenant_id c),
     cf_event_queue_capacity := or_positive 1024 (cf_event_queue_capacity c),
     cf_ingest_enqueue_timeout := or_positive (200 * millisecond) (cf_ingest_enqueue_timeout c),
     cf_max_tool_rounds := or_positive 4 (cf_max_tool_rounds c),
     cf_rate_limit_tenant_rps := or_positive 30 (cf_rate_limit_tenant_rps c),
     cf_rate_limit_tenant_burst := or_positive 60 (cf_rate_limit_tenant_burst c),
     cf_rate_limit_session_rps := or_positive 5 (cf_rate_limit_session_rps c),
     cf_rate_limit_session_burst := or_positive 10 (cf_rate_limit_session_burst c),
     cf_db_busy_timeout := or_positive (5 * second) (cf_db_busy_timeout c),
     cf_web_search := \<lparr> ws_timeout = or_positive (10 * second) (ws_timeout (cf_web_search c)),
       ws_max_results = clamp_web_search_max_results (ws_max_results (cf_web_search c)) \<rparr>,
     cf_telegram := (cf_telegram c)\<lparr>tc_long_poll_timeout :=
       or_positive (30 * second) (tc_long_poll_timeout (cf_telegram c))\<rparr>,
     cf_llm := apply_llm_defaults (cf_llm c)\<rparr>"

section \<open>Validation\<close>

definition validate_log_level :: "string \<Rightarrow> bool" where
  "validate_log_level raw = (to_lower (trim_space raw) \<in> {''debug'', ''info'', ''warn'', ''error''})"

definition validate_cron_job :: "cron_job_config \<Rightarrow> config_error option" where
  "validate_cron_job j =
     (if trim_space (cron_name j) = [] then Some CronNameMissing
      else if cron_interval j \<le> 0 then Some (CronIntervalNotPositive (cron_name j))
      else if trim_space (cron_conversation_id j) = [] then Some (CronFieldMissing (cron_name j) ''conversation_id'')
      else if trim_space (cron_channel_type j) = [] then Some (CronFieldMissing (cron_name j) ''channel_type'')
      else if trim_space (cron_payload_type j) = [] then Some (CronFieldMissing (cron_name j) ''payload_type'')
      else None)"

fun validate_cron_jobs :: "cron_job_config list \<Rightarrow> config_error option" where
  "validate_cron_jobs [] = None"
| "validate_cron_jobs (j # js) = (case validate_cron_job j of Some e \<Rightarrow> Some e | None \<Rightarrow> validate_cron_jobs js)"

definition validate_model :: "llm_config \<Rightarrow> config_error option" where
  "validate_model l =
     (case cut_text ''/'' (lc_default_model l) of
        None \<Rightarrow> Some (ModelWithoutProvider (lc_default_model l))
      | Some (name, _) \<Rightarrow>
          if trim_space name = [] then Some (ModelWithoutProvider (lc_default_model l))
          else (case map_of (case lc_providers l of None \<Rightarrow> [] | Some ps \<Rightarrow> ps) name of
                  None \<Rightarrow> Some (UnknownModelProvider (lc_default_model l) name)
                | Some p \<Rightarrow>
                    if lp_type p \<in> {''fake'', ''openai_compatible''} then None
                    else Some (UnsupportedProviderType name (lp_type p))))"

definition validate :: "config \<Rightarrow> config_error + config" where
  "validate c0 =
     (let c = apply_defaults c0 in
      if \<not> validate_log_level (cf_log_level c) then Inl (InvalidLogLevel (cf_log_level c))
      else if cf_db_busy_timeout c < second then Inl BusyTimeoutTooShort
      else if tc_enabled (cf_telegram c) \<and> trim_space (tc_token (cf_telegram c)) = [] then Inl TelegramTokenMissing
      else (case validate_model (cf_llm c) of
              Some e \<Rightarrow> Inl e
            | None \<Rightarrow> (case validate_cron_jobs (cf_cron_jobs c) of Some e \<Rightarrow> Inl e | None \<Rightarrow> Inr c)))"

section \<open>Environment variables\<close>

type_synonym environment = "string \<Rightarrow> string"

fun first_env :: "environment \<Rightarrow> string list \<Rightarrow> string" where
  "first_env env [] = []"
| "first_env env (k # ks) = (if trim_space (env k) \<noteq> [] then trim_space (env k) else first_env env ks)"

fun parse_user_ids :: "string list \<Rightarrow> config_error + int list" where
  "parse_user_ids [] = Inr []"
| "parse_user_ids (p # ps) =
     (let t = trim_space p in
      if t = [] then parse_user_ids ps
      else (case parse_int64 t of
              None \<Rightarrow> Inl (InvalidVariable ''TELEGRAM_ALLOWED_USER_IDS'' t)
            | Some i \<Rightarrow> map_sum id ((#) i) (parse_user_ids ps)))"

definition parse_telegram_allowed_user_ids :: "string \<Rightarrow> config_error + int list" where
  "parse_telegram_allowed_user_ids raw = parse_user_ids (split_on (CHR '','') raw)"

definition zero_provider :: llm_provider_config where
  "zero_provider = \<lparr> lp_type = [], lp_base_url = [], lp_api_key = [], lp_timeout = 0, lp_fake_response_text = [],
     lp_fake_tool_name = [], lp_fake_tool_args_json = [], lp_fake_finish_reason = [], lp_fake_raw_finish_reason = [],
     lp_fake_prompt_tokens = 0, lp_fake_completion_tokens = 0, lp_fake_request_id = [] \<rparr>"

text \<open>The provider \<open>openai\<close> is read, changed and put back; a map that is nil cannot be written.\<close>

definition override_openai :: "(llm_provider_config \<Rightarrow> llm_provider_config) \<Rightarrow> config \<Rightarrow> config_error + config" where
  "override_openai f c =
     (case lc_providers (cf_llm c) of
        None \<Rightarrow> Inl NilMapWritten
      | Some ps \<Rightarrow>
          (let p = f ((case map_of ps ''openai'' of None \<Rightarrow> zero_provider | Some p \<Rightarrow> p)\<lparr>lp_type := ''openai_compatible''\<rparr>) in
           Inr (c\<lparr>cf_llm := (cf_llm c)\<lparr>lc_providers :=
             Some (map_put ''openai'' (p\<lparr>lp_timeout := or_positive default_provider_timeout (lp_timeout p)\<rparr>) ps)\<rparr>\<rparr>)))"

definition when_set :: "string \<Rightarrow> (string \<Rightarrow> config \<Rightarrow> config_error + config) \<Rightarrow> config \<Rightarrow> config_error + config" where
  "when_set v f c = (if v = [] then Inr c else f v c)"

definition then_config :: "(config_error + config) \<Rightarrow> (config \<Rightarrow> config_error + config) \<Rightarrow> config_error + config" where
  "then_config r f = (case r of Inl e \<Rightarrow> Inl e | Inr c \<Rightarrow> f c)"

definition override_duration ::
  "(string \<Rightarrow> duration option) \<Rightarrow> string \<Rightarrow> (duration \<Rightarrow> config \<Rightarrow> config) \<Rightarrow> string \<Rightarrow> config \<Rightarrow> config_error + config" where
  "override_duration parse name set_it v c =
     (case parse v of None \<Rightarrow> Inl (InvalidVariable name v) | Some d \<Rightarrow> Inr (set_it d c))"

definition override_telegram :: "(telegram_channel_config \<Rightarrow> telegram_channel_config) \<Rightarrow> config \<Rightarrow> config" where
  "override_telegram f c = c\<lparr>cf_telegram := f (cf_telegram c)\<rparr>"

definition override_default_model :: "string \<Rightarrow> config \<Rightarrow> config_error + config" where
  "override_default_model v c = Inr (c\<lparr>cf_llm := (cf_llm c)\<lparr>lc_default_model := v\<rparr>\<rparr>)"

definition apply_env_overrides :: "(string \<Rightarrow> duration option) \<Rightarrow> environment \<Rightarrow> config \<Rightarrow> config_error + config" where
  "apply_env_overrides parse_duration env c0 =
     (let get = (\<lambda>k. trim_space (env k)) in
      fold (\<lambda>step r. then_config r step)
        [when_set (get ''SIMICLAW_LLM_DEFAULT_MODEL'') override_default_model,
         when_set (first_env env [''OPENAI_API_KEY'', ''LLM_API_KEY'']) (\<lambda>v. override_openai (\<lambda>p. p\<lparr>lp_api_key := v\<rparr>)),
         when_set (first_env env [''OPENAI_BASE_URL'', ''LLM_BASE_URL'']) (\<lambda>v. override_openai (\<lambda>p. p\<lparr>lp_base_url := v\<rparr>)),
         when_set (get ''LLM_MODEL'') override_default_model,
         when_set (get ''TELEGRAM_ENABLED'') (\<lambda>v c. case parse_bool v of
             None \<Rightarrow> Inl (InvalidVariable ''TELEGRAM_ENABLED'' v)
           | Some b \<Rightarrow> Inr (override_telegram (\<lambda>t. t\<lparr>tc_enabled := b\<rparr>) c)),
         when_set (get ''TELEGRAM_TOKEN'') (\<lambda>v c. Inr (override_telegram (\<lambda>t. t\<lparr>tc_token := v\<rparr>) c)),
         when_set (get ''TELEGRAM_ALLOWED_USER_IDS'') (\<lambda>v c.
           map_sum id (\<lambda>ids. override_telegram (\<lambda>t. t\<lparr>tc_allowed_user_ids := ids\<rparr>) c) (parse_telegram_allowed_user_ids v)),
         when_set (get ''TELEGRAM_LONG_POLL_TIMEOUT'') (override_duration parse_duration ''TELEGRAM_LONG_POLL_TIMEOUT''
           (\<lambda>d. override_telegram (\<lambda>t. t\<lparr>tc_long_poll_timeout := d\<rparr>))),
         when_set (get ''WEB_SEARCH_TIMEOUT'') (override_duration parse_duration ''WEB_SEARCH_TIMEOUT''
           (\<lambda>d c. c\<lparr>cf_web_search := (cf_web_search c)\<lparr>ws_timeout := d\<rparr>\<rparr>)),
         when_set (get ''WEB_SEARCH_MAX_RESULTS'') (\<lambda>v c. case parse_int64 v of
             None \<Rightarrow> Inl (InvalidVariable ''WEB_SEARCH_MAX_RESULTS'' v)
           | Some n \<Rightarrow> Inr (c\<lparr>cf_web_search := (cf_web_search c)\<lparr>ws_max_results := n\<rparr>\<rparr>))]
        (Inr c0))"

section \<open>Loading\<close>

text \<open>\<open>Load\<close>; without a path there is no file, else \<open>file\<close> is what reading it returns.\<close>

definition load_config ::
  "(string \<Rightarrow> duration option) \<Rightarrow> (string \<Rightarrow> config \<Rightarrow> string + config) \<Rightarrow> environment \<Rightarrow> (string + string) option \<Rightarrow>
   config_error + config" where
  "load_config parse_duration decode env file =
     (case file of
        None \<Rightarrow> then_config (apply_env_overrides parse_duration env default_config) validate
      | Some (Inl e) \<Rightarrow> Inl (ReadFailed e)
      | Some (Inr body) \<Rightarrow>
          (case decode body default_config of
             Inl e \<Rightarrow> Inl (DecodeFailed e)
           | Inr c \<Rightarrow> then_config (apply_env_overrides parse_duration env (apply_defaults c)) validate))"

section \<open>The .env file\<close>

text \<open>\<open>os.Setenv\<close> refuses a name that is empty or has \<open>=\<close> or NUL, and a value with NUL; the caller ignores it.\<close>

definition set_env :: "string \<Rightarrow> string \<Rightarrow> environment \<Rightarrow> environment" where
  "set_env k v env =
     (if k = [] \<or> CHR ''='' \<in> set k \<or> CHR 0x00 \<in> set k \<or> CHR 0x00 \<in> set v then env else env(k := v))"

definition unquote :: "string \<Rightarrow> string" where
  "unquote v =
     (if 2 \<le> length v \<and> (hd v = CHR 0x22 \<and> last v = CHR 0x22 \<or> hd v = CHR 0x27 \<and> last v = CHR 0x27)
      then butlast (tl v) else v)"

definition apply_env_line :: "string \<Rightarrow> environment \<Rightarrow> environment" where
  "apply_env_line raw env =
     (let line = trim_space raw in
      if line = [] \<or> prefix ''#'' line then env
      else (case cut_text ''='' line of
              None \<Rightarrow> env
            | Some (k, v) \<Rightarrow>
                (let k = trim_space k; v = unquote (trim_space v) in
                 if k = [] then env else if env k = [] then set_env k v env else env)))"

text \<open>The lines before one that does not fit the buffer of the scanner; True when there is such a line.\<close>

definition max_scan_line :: nat where "max_scan_line = 65535"

fun apply_env_lines :: "string list \<Rightarrow> environment \<Rightarrow> bool \<times> environment" where
  "apply_env_lines [] env = (False, env)"
| "apply_env_lines (l # ls) env =
     (if max_scan_line < length l then (True, env) else apply_env_lines ls (apply_env_line l env))"

datatype open_result = NoFile | OpenFailed string | Opened string

definition load_dot_env :: "open_result \<Rightarrow> environment \<Rightarrow> config_error option \<times> environment" where
  "load_dot_env file env =
     (case file of
        NoFile \<Rightarrow> (None, env)
      | OpenFailed e \<Rightarrow> (Some (ReadFailed e), env)
      | Opened body \<Rightarrow>
          (let (too_long, env') = apply_env_lines (split_on (CHR 0x0A) body) env in
           (if too_long then Some (ReadFailed ''bufio.Scanner: token too long'') else None, env')))"

end
