(* ===== verification/Paging.thy ===== *)
theory Paging
  imports Time_Text "HOL-Library.Multiset"
begin

text \<open>
  Keyset pagination as the queries do it: rows in descending order of a key, at most \<open>n\<close> of them,
  after a cursor that is the key of the last row of the page before.  The service fetches one row
  more than the page holds to learn whether there is a next page
  (\<open>pageFetchLimit\<close>, \<open>buildEventPage\<close>, \<open>buildRunPage\<close>, \<open>buildSessionPage\<close>).
\<close>

definition desc_order :: "('r \<Rightarrow> 'k::linorder) \<Rightarrow> 'r list \<Rightarrow> 'r list" where
  "desc_order key rows = rev (sort_key key rows)"

definition normalize_list_limit :: "int \<Rightarrow> nat" where
  "normalize_list_limit limit = (if limit \<le> 0 then 50 else nat limit)"

definition page_fetch_limit :: "int \<Rightarrow> int" where
  "page_fetch_limit limit = (if limit \<le> 0 then 51 else limit + 1)"

definition page_size :: "int \<Rightarrow> nat" where
  "page_size limit = (if limit \<le> 0 then 50 else nat limit)"

text \<open>The page of the fetched items and the anchor of the next page, made of the last item.\<close>

definition build_page :: "('a \<Rightarrow> 'c) \<Rightarrow> 'a list \<Rightarrow> int \<Rightarrow> 'a list \<times> 'c option" where
  "build_page anchor items limit =
     (if limit \<le> 0 \<or> int (length items) \<le> limit then (items, None)
      else (take (nat limit) items, Some (anchor (last (take (nat limit) items)))))"

lemma page_fetch_limit_minus: "page_fetch_limit limit - 1 = int (page_size limit)"
  by (simp add: page_fetch_limit_def page_size_def)

lemma normalize_fetch_limit: "normalize_list_limit (page_fetch_limit limit) = Suc (page_size limit)"
  by (simp add: normalize_list_limit_def page_fetch_limit_def page_size_def nat_add_distrib)

lemma page_size_pos [simp]: "0 < page_size limit"
  by (simp add: page_size_def)

text \<open>Fetching one more than the page: the page is the first rows, and there is an anchor if more remain.\<close>

lemma build_page_fetch:
  assumes "0 < n"
  shows "build_page anchor (map f (take (Suc n) xs)) (int n) =
     (map f (take n xs), if n < length xs then Some (anchor (f (xs ! (n - 1)))) else None)"
proof (cases "n < length xs")
  case True
  have "take n (map f (take (Suc n) xs)) = map f (take n xs)" by (simp add: take_map min_def)
  moreover have "last (map f (take n xs)) = f (xs ! (n - 1))"
    using True assms by (subst last_conv_nth) auto
  ultimately show ?thesis using True assms by (simp add: build_page_def min_def)
next
  case False
  then show ?thesis using assms by (simp add: build_page_def min_def)
qed

section \<open>Descending order\<close>

lemma set_desc_order [simp]: "set (desc_order key rows) = set rows"
  by (simp add: desc_order_def)

lemma length_desc_order [simp]: "length (desc_order key rows) = length rows"
  by (simp add: desc_order_def)

lemma desc_order_filter: "desc_order key (filter P rows) = filter P (desc_order key rows)"
  by (simp add: desc_order_def flip: filter_sort rev_filter)

lemma desc_order_sorted: "sorted_wrt (\<lambda>x y. key y \<le> key x) (desc_order key rows)"
proof -
  have "sorted_wrt (\<lambda>x y. key x \<le> key y) (sort_key key rows)"
    using sorted_sort_key [of key rows] by (simp add: sorted_map)
  then show ?thesis by (simp add: desc_order_def sorted_wrt_rev)
qed

lemma sorted_wrt_strict:
  "sorted_wrt (\<lambda>x y. key y \<le> key x) xs \<Longrightarrow> distinct (map key xs) \<Longrightarrow>
     sorted_wrt (\<lambda>x y. key y < key x) xs" for key :: "'r \<Rightarrow> 'k::linorder"
  by (induction xs) (auto simp: less_le, metis image_eqI)

lemma desc_order_strict:
  assumes "distinct (map key rows)"
  shows "sorted_wrt (\<lambda>x y. key y < key x) (desc_order key rows)"
proof (rule sorted_wrt_strict [OF desc_order_sorted])
  have "mset (map key (desc_order key rows)) = mset (map key rows)" by (simp add: desc_order_def)
  then show "distinct (map key (desc_order key rows))" using assms by (metis mset_eq_imp_distinct_iff)
qed

text \<open>The rows after the \<open>i\<close>-th, in strictly descending order, are the rows with a smaller key.\<close>

lemma filter_below_nth:
  "sorted_wrt (\<lambda>x y. key y < key x) xs \<Longrightarrow> i < length xs \<Longrightarrow>
     filter (\<lambda>r. key r < key (xs ! i)) xs = drop (Suc i) xs" for key :: "'r \<Rightarrow> 'k::linorder"
proof (induction xs arbitrary: i)
  case (Cons a xs)
  show ?case
  proof (cases i)
    case 0
    with Cons.prems show ?thesis by (simp add: filter_id_conv)
  next
    case (Suc j)
    with Cons.prems have "xs ! j \<in> set xs" by simp
    with Cons.prems(1) have "key (xs ! j) < key a" by simp
    then have "\<not> key a < key (xs ! j)" by simp
    with Suc Cons show ?thesis by simp
  qed
qed simp

section \<open>Cursors\<close>

text \<open>
  \<open>EventCursorAnchor\<close>, \<open>RunCursorAnchor\<close>, \<open>SessionCursorAnchor\<close> and
  \<open>MessageCursorAnchor\<close>: the time and the id of a row.
\<close>

record cursor_anchor =
  ca_time :: time
  ca_id :: string

text \<open>The condition the list queries add for a cursor; an anchor with a zero part adds none.\<close>

definition before_cursor :: "cursor_anchor option \<Rightarrow> string \<times> string \<Rightarrow> bool" where
  "before_cursor c k =
     (case c of None \<Rightarrow> True
      | Some a \<Rightarrow> if \<not> is_zero_time (ca_time a) \<and> trim_space (ca_id a) \<noteq> []
                 then fst k < time_text (ca_time a) \<or> fst k = time_text (ca_time a) \<and> snd k < ca_id a
                 else True)"

text \<open>A row whose key can serve as an anchor: a nonzero time the program wrote, and a nonblank id.\<close>

definition anchorable :: "string \<times> string \<Rightarrow> bool" where
  "anchorable k \<longleftrightarrow> (\<exists>t. fst k = time_text t \<and> year_ok t \<and> \<not> is_zero_time t) \<and> trim_space (snd k) \<noteq> []"

lemma before_cursor_None [simp]: "before_cursor None k"
  by (simp add: before_cursor_def)

lemma before_cursor_anchor:
  assumes "anchorable k"
  shows "before_cursor (Some \<lparr> ca_time = must_parse_time (fst k), ca_id = snd k \<rparr>) k' \<longleftrightarrow> k' < k"
  using assms by (auto simp: before_cursor_def anchorable_def must_parse_time_text less_prod_def less_le)

lemma before_cursor_downward: "before_cursor c k \<Longrightarrow> k' < k \<Longrightarrow> before_cursor c k'"
  by (cases k; cases k') (auto simp: before_cursor_def less_prod_def split: option.splits if_splits)

text \<open>
  A listing of a table: the rows selected by \<open>sel\<close> and the cursor, in descending order of the
  key, the first \<open>limit\<close> of them, converted.  The page functions fetch one more.
\<close>

definition matching ::
  "('r \<Rightarrow> 'k::linorder) \<Rightarrow> (cursor_anchor option \<Rightarrow> 'k \<Rightarrow> bool) \<Rightarrow> ('r \<Rightarrow> bool) \<Rightarrow> cursor_anchor option \<Rightarrow> 'r list \<Rightarrow> 'r list" where
  "matching key before sel c rows = desc_order key (filter (\<lambda>r. sel r \<and> before c (key r)) rows)"

definition list_rows ::
  "('r \<Rightarrow> 'k::linorder) \<Rightarrow> ('r \<Rightarrow> 'a) \<Rightarrow> (cursor_anchor option \<Rightarrow> 'k \<Rightarrow> bool) \<Rightarrow> ('r \<Rightarrow> bool) \<Rightarrow>
     cursor_anchor option \<Rightarrow> int \<Rightarrow> 'r list \<Rightarrow> 'a list" where
  "list_rows key conv before sel c limit rows =
     map conv (take (normalize_list_limit limit) (matching key before sel c rows))"

text \<open>
  The contract of a cursor: the anchor of a row selects exactly the rows after it, and a cursor that
  admits a row admits every later one.
\<close>

locale keyset_listing =
  fixes key :: "'r \<Rightarrow> 'k::linorder" and conv :: "'r \<Rightarrow> 'a" and anchor :: "'a \<Rightarrow> cursor_anchor"
    and before :: "cursor_anchor option \<Rightarrow> 'k \<Rightarrow> bool" and ok :: "'k \<Rightarrow> bool"
  assumes before_anchor: "ok (key r) \<Longrightarrow> before (Some (anchor (conv r))) k \<longleftrightarrow> k < key r"
    and before_later: "before c k \<Longrightarrow> k' < k \<Longrightarrow> before c k'"
begin

lemma matching_next:
  assumes "distinct (map key rows)" "\<forall>r \<in> set rows. ok (key r)" "i < length (matching key before sel c rows)"
  shows "matching key before sel (Some (anchor (conv (matching key before sel c rows ! i)))) rows =
    drop (Suc i) (matching key before sel c rows)"
proof -
  let ?xs = "matching key before sel c rows"
  let ?r = "?xs ! i"
  have "?r \<in> set ?xs" using assms(3) by (rule nth_mem)
  then have r: "?r \<in> set rows" "before c (key ?r)" by (simp_all add: matching_def)
  have "before (Some (anchor (conv ?r))) (key r) \<longleftrightarrow> key r < key ?r" for r
    using before_anchor assms(2) r(1) by simp
  then have "matching key before sel (Some (anchor (conv ?r))) rows =
      desc_order key (filter (\<lambda>r. sel r \<and> key r < key ?r) rows)"
    by (simp add: matching_def)
  also have "\<dots> = desc_order key (filter (\<lambda>r. key r < key ?r) (filter (\<lambda>r. sel r \<and> before c (key r)) rows))"
  proof -
    have "sel r \<and> key r < key ?r \<longleftrightarrow> sel r \<and> before c (key r) \<and> key r < key ?r" for r
      using before_later [OF r(2), of "key r"] by blast
    then show ?thesis by simp
  qed
  also have "\<dots> = filter (\<lambda>r. key r < key ?r) ?xs" by (simp only: desc_order_filter matching_def)
  also have "\<dots> = drop (Suc i) ?xs"
  proof (rule filter_below_nth [OF _ assms(3)])
    show "sorted_wrt (\<lambda>x y. key y < key x) ?xs" unfolding matching_def
      by (rule desc_order_strict) (use assms(1) in \<open>simp add: distinct_map_filter\<close>)
  qed
  finally show ?thesis .
qed

lemma page_eq:
  "build_page anchor (list_rows key conv before sel c (page_fetch_limit limit) rows) (page_fetch_limit limit - 1) =
     (map conv (take (page_size limit) (matching key before sel c rows)),
      if page_size limit < length (matching key before sel c rows)
      then Some (anchor (conv (matching key before sel c rows ! (page_size limit - 1)))) else None)"
  unfolding list_rows_def normalize_fetch_limit page_fetch_limit_minus
  by (rule build_page_fetch) simp

text \<open>The matching rows after the anchor of a page are those the page has left.\<close>

lemma page_continues:
  assumes "distinct (map key rows)" "\<forall>r \<in> set rows. ok (key r)"
    and "build_page anchor (list_rows key conv before sel c (page_fetch_limit limit) rows)
      (page_fetch_limit limit - 1) = (items, Some a)"
  shows "matching key before sel (Some a) rows = drop (page_size limit) (matching key before sel c rows)"
proof -
  let ?n = "page_size limit" and ?xs = "matching key before sel c rows"
  from assms(3) have *: "?n < length ?xs" "a = anchor (conv (?xs ! (?n - 1)))"
    by (auto simp: page_eq split: if_splits)
  show ?thesis using matching_next [OF assms(1,2), of "?n - 1" sel c] * by simp
qed

end

end
