(* ===== verification/Queries.thy ===== *)
theory Queries
  imports Store Paging
begin

text \<open>
  The read side: \<open>internal/store/queries\<close> (conversion of rows, lookups, listings, the history
  a prompt is built from) and the pages of \<open>internal/query\<close>.  A query here always reads the
  tables; a failing driver is the error branch of each Go function and reads nothing.
\<close>

section \<open>Filters and records\<close>

record event_filter =
  ef_session_key :: string
  ef_status :: string
  ef_limit :: int
  ef_cursor :: "cursor_anchor option"

record run_filter =
  rf_session_key :: string
  rf_session_id :: string
  rf_limit :: int
  rf_cursor :: "cursor_anchor option"

record session_filter =
  sf_session_key :: string
  sf_conversation_id :: string
  sf_limit :: int
  sf_cursor :: "cursor_anchor option"

record session_history_filter =
  hf_session_id :: string
  hf_visible_only :: bool
  hf_limit :: int
  hf_cursor :: "cursor_anchor option"

record message_record =
  mr_message_id :: string
  mr_session_key :: string
  mr_session_id :: string
  mr_run_id :: string
  mr_role :: string
  mr_content :: string
  mr_visible :: bool
  mr_tool_call_id :: string
  mr_tool_name :: string
  mr_tool_args :: json_object
  mr_tool_result :: json_object
  mr_meta :: json_object
  mr_created_at :: time

record session_record =
  sr_session_key :: string
  sr_active_session_id :: string
  sr_conversation_id :: string
  sr_channel_type :: string
  sr_participant_id :: string
  sr_dm_scope :: string
  sr_message_count :: int
  sr_prompt_tokens_total :: int
  sr_completion_tokens_total :: int
  sr_total_tokens_total :: int
  sr_last_model :: string
  sr_last_run_id :: string
  sr_last_activity_at :: time
  sr_created_at :: time
  sr_updated_at :: time

record event_lookup =
  le_event_id :: string
  le_payload_hash :: string
  le_received_at :: time
  le_session_key :: string
  le_session_id :: string

text \<open>The fields of \<open>RunTrace\<close> that \<open>scanRun\<close> sets; the others stay nil.\<close>

record run_trace =
  rt_run_id :: string
  rt_event_id :: string
  rt_session_key :: string
  rt_session_id :: string
  rt_run_mode :: run_mode
  rt_status :: run_status
  rt_provider :: string
  rt_model :: string
  rt_prompt_tokens :: int
  rt_completion_tokens :: int
  rt_total_tokens :: int
  rt_latency_ms :: int
  rt_finish_reason :: string
  rt_raw_finish_reason :: string
  rt_provider_request_id :: string
  rt_output_text :: string
  rt_tool_calls :: "tool_call list"
  rt_diagnostics :: string_map
  rt_started_at :: time
  rt_finished_at :: time
  rt_error :: "error_block option"

record history_message =
  hm_role :: string
  hm_content :: string
  hm_tool_calls :: "tool_call list"
  hm_tool_call_id :: string
  hm_tool_name :: string
  hm_meta :: json_object

record rag_hit =
  rh_path :: string
  rh_scope :: string
  rh_preview :: string

section \<open>Conversion of rows\<close>

definition row_error :: "string \<Rightarrow> string \<Rightarrow> error_block option" where
  "row_error code msg =
     (if code \<noteq> [] \<or> msg \<noteq> [] then Some \<lparr> eb_code = code, eb_message = msg, eb_details = [] \<rparr> else None)"

definition scan_event :: "event_row \<Rightarrow> event_record" where
  "scan_event r = \<lparr> rec_event_id = ev_event_id r, rec_status = ev_status r,
     rec_outbox_status = ev_outbox_status r, rec_session_key = ev_session_key r,
     rec_session_id = ev_session_id r, rec_run_id = ev_run_id r, rec_run_mode = ev_run_mode r,
     rec_assistant_reply = ev_assistant_reply r, rec_outbox_id = ev_outbox_id r,
     rec_processing_lease = ev_processing_started_at r,
     rec_received_at = must_parse_time (ev_created_at r), rec_created_at = must_parse_time (ev_created_at r),
     rec_updated_at = must_parse_time (ev_updated_at r), rec_payload_hash = ev_payload_hash r,
     rec_provider = ev_provider r, rec_model = ev_model r,
     rec_provider_request_id = ev_provider_request_id r,
     rec_error = row_error (ev_error_code r) (ev_error_message r) \<rparr>"

definition scan_run :: "run_row \<Rightarrow> run_trace" where
  "scan_run r = \<lparr> rt_run_id = rn_run_id r, rt_event_id = rn_event_id r, rt_session_key = rn_session_key r,
     rt_session_id = rn_session_id r, rt_run_mode = rn_run_mode r, rt_status = rn_status r,
     rt_provider = rn_provider r, rt_model = rn_model r, rt_prompt_tokens = rn_prompt_tokens r,
     rt_completion_tokens = rn_completion_tokens r, rt_total_tokens = rn_total_tokens r,
     rt_latency_ms = rn_latency_ms r, rt_finish_reason = rn_finish_reason r,
     rt_raw_finish_reason = rn_raw_finish_reason r, rt_provider_request_id = rn_provider_request_id r,
     rt_output_text = rn_output_text r, rt_tool_calls = rn_tool_calls r, rt_diagnostics = rn_diagnostics r,
     rt_started_at = must_parse_time (rn_started_at r), rt_finished_at = must_parse_time (rn_finished_at r),
     rt_error = row_error (rn_error_code r) (rn_error_message r) \<rparr>"

definition scan_session :: "session_row \<Rightarrow> session_record" where
  "scan_session r = \<lparr> sr_session_key = se_session_key r, sr_active_session_id = se_active_session_id r,
     sr_conversation_id = se_conversation_id r, sr_channel_type = se_channel_type r,
     sr_participant_id = se_participant_id r, sr_dm_scope = se_dm_scope r,
     sr_message_count = se_message_count r, sr_prompt_tokens_total = se_prompt_tokens_total r,
     sr_completion_tokens_total = se_completion_tokens_total r, sr_total_tokens_total = se_total_tokens_total r,
     sr_last_model = se_last_model r, sr_last_run_id = se_last_run_id r,
     sr_last_activity_at = must_parse_time (se_last_activity_at r),
     sr_created_at = must_parse_time (se_created_at r), sr_updated_at = must_parse_time (se_updated_at r) \<rparr>"

definition scan_message_record :: "message_row \<Rightarrow> message_record" where
  "scan_message_record r = \<lparr> mr_message_id = ms_message_id r, mr_session_key = ms_session_key r,
     mr_session_id = ms_session_id r, mr_run_id = ms_run_id r, mr_role = ms_role r, mr_content = ms_content r,
     mr_visible = (ms_visible r = 1), mr_tool_call_id = ms_tool_call_id r, mr_tool_name = ms_tool_name r,
     mr_tool_args = ms_tool_args r, mr_tool_result = ms_tool_result r,
     mr_meta = fst (decode_stored_meta (ms_meta r)), mr_created_at = must_parse_time (ms_created_at r) \<rparr>"

definition scan_history :: "message_row \<Rightarrow> history_message" where
  "scan_history r = \<lparr> hm_role = ms_role r, hm_content = ms_content r,
     hm_tool_calls = snd (decode_stored_meta (ms_meta r)), hm_tool_call_id = ms_tool_call_id r,
     hm_tool_name = ms_tool_name r, hm_meta = fst (decode_stored_meta (ms_meta r)) \<rparr>"

section \<open>Lookups and listings\<close>

definition get_event_record :: "database \<Rightarrow> string \<Rightarrow> event_record option" where
  "get_event_record d i = map_option scan_event (find_row ev_event_id i (db_events d))"

definition get_run_trace :: "database \<Rightarrow> string \<Rightarrow> run_trace option" where
  "get_run_trace d i = map_option scan_run (find_row rn_run_id i (db_runs d))"

definition get_session_record :: "database \<Rightarrow> string \<Rightarrow> session_record option" where
  "get_session_record d k = map_option scan_session (find_row se_session_key k (db_sessions d))"

definition lookup_event :: "database \<Rightarrow> string \<Rightarrow> event_lookup option" where
  "lookup_event d k = map_option (\<lambda>r. \<lparr> le_event_id = ik_event_id r, le_payload_hash = ik_payload_hash r,
     le_received_at = must_parse_time (ik_created_at r), le_session_key = ik_session_key r,
     le_session_id = ik_session_id r \<rparr>) (find_row ik_key k (db_idempotency d))"

definition text_selects :: "string \<Rightarrow> string \<Rightarrow> bool" where
  "text_selects wanted got \<longleftrightarrow> trim_space wanted \<noteq> [] \<longrightarrow> got = wanted"

definition event_key :: "event_row \<Rightarrow> string \<times> string" where "event_key r = (ev_created_at r, ev_event_id r)"
definition run_key :: "run_row \<Rightarrow> string \<times> string" where "run_key r = (rn_started_at r, rn_run_id r)"
definition session_row_key :: "session_row \<Rightarrow> string \<times> string" where
  "session_row_key r = (se_last_activity_at r, se_session_key r)"
definition message_key :: "message_row \<Rightarrow> string \<times> string" where
  "message_key r = (ms_created_at r, ms_message_id r)"

definition event_selected :: "event_filter \<Rightarrow> event_row \<Rightarrow> bool" where
  "event_selected f r \<longleftrightarrow> text_selects (ef_session_key f) (ev_session_key r) \<and>
     (ef_status f \<noteq> [] \<longrightarrow> event_status_text (ev_status r) = ef_status f)"

definition list_event_records :: "database \<Rightarrow> event_filter \<Rightarrow> event_record list" where
  "list_event_records d f =
     list_rows event_key scan_event before_cursor (event_selected f) (ef_cursor f) (ef_limit f) (db_events d)"

definition run_selected :: "run_filter \<Rightarrow> run_row \<Rightarrow> bool" where
  "run_selected f r \<longleftrightarrow> text_selects (rf_session_key f) (rn_session_key r) \<and>
     text_selects (rf_session_id f) (rn_session_id r)"

definition list_run_traces :: "database \<Rightarrow> run_filter \<Rightarrow> run_trace list" where
  "list_run_traces d f =
     list_rows run_key scan_run before_cursor (run_selected f) (rf_cursor f) (rf_limit f) (db_runs d)"

definition session_selected :: "session_filter \<Rightarrow> session_row \<Rightarrow> bool" where
  "session_selected f r \<longleftrightarrow> text_selects (sf_session_key f) (se_session_key r) \<and>
     text_selects (sf_conversation_id f) (se_conversation_id r)"

definition list_session_records :: "database \<Rightarrow> session_filter \<Rightarrow> session_record list" where
  "list_session_records d f =
     list_rows session_row_key scan_session before_cursor (session_selected f) (sf_cursor f) (sf_limit f) (db_sessions d)"

text \<open>
  \<open>ListMessageRecords\<close>: the cursor counts as soon as one part is set, with the time of
  tomorrow for a zero time, and the rows are returned oldest first.
\<close>

definition message_before :: "time \<Rightarrow> cursor_anchor option \<Rightarrow> string \<times> string \<Rightarrow> bool" where
  "message_before now c k =
     (case c of None \<Rightarrow> True
      | Some a \<Rightarrow>
          if \<not> is_zero_time (ca_time a) \<or> ca_id a \<noteq> []
          then let before = time_text (if is_zero_time (ca_time a) then now + 86400 * second else ca_time a) in
               fst k < before \<or> fst k = before \<and> snd k < ca_id a
          else True)"

definition message_selected :: "session_history_filter \<Rightarrow> message_row \<Rightarrow> bool" where
  "message_selected f r \<longleftrightarrow> ms_session_id r = hf_session_id f \<and> (hf_visible_only f \<longrightarrow> ms_visible r = 1)"

definition list_message_records :: "database \<Rightarrow> time \<Rightarrow> session_history_filter \<Rightarrow> message_record list" where
  "list_message_records d now f =
     rev (list_rows message_key scan_message_record (message_before now) (message_selected f)
       (hf_cursor f) (hf_limit f) (db_messages d))"

section \<open>Pages\<close>

definition event_anchor :: "event_record \<Rightarrow> cursor_anchor" where
  "event_anchor e = \<lparr> ca_time = rec_created_at e, ca_id = rec_event_id e \<rparr>"

definition run_anchor :: "run_trace \<Rightarrow> cursor_anchor" where
  "run_anchor r = \<lparr> ca_time = rt_started_at r, ca_id = rt_run_id r \<rparr>"

definition session_anchor :: "session_record \<Rightarrow> cursor_anchor" where
  "session_anchor s = \<lparr> ca_time = sr_last_activity_at s, ca_id = sr_session_key s \<rparr>"

definition message_anchor :: "message_record \<Rightarrow> cursor_anchor" where
  "message_anchor m = \<lparr> ca_time = mr_created_at m, ca_id = mr_message_id m \<rparr>"

definition list_events :: "database \<Rightarrow> event_filter \<Rightarrow> event_record list \<times> cursor_anchor option" where
  "list_events d f = (let limit = page_fetch_limit (ef_limit f)
     in build_page event_anchor (list_event_records d (f\<lparr>ef_limit := limit\<rparr>)) (limit - 1))"

definition list_runs :: "database \<Rightarrow> run_filter \<Rightarrow> run_trace list \<times> cursor_anchor option" where
  "list_runs d f = (let limit = page_fetch_limit (rf_limit f)
     in build_page run_anchor (list_run_traces d (f\<lparr>rf_limit := limit\<rparr>)) (limit - 1))"

definition list_sessions :: "database \<Rightarrow> session_filter \<Rightarrow> session_record list \<times> cursor_anchor option" where
  "list_sessions d f = (let limit = page_fetch_limit (sf_limit f)
     in build_page session_anchor (list_session_records d (f\<lparr>sf_limit := limit\<rparr>)) (limit - 1))"

definition build_message_page :: "message_record list \<Rightarrow> int \<Rightarrow> message_record list \<times> cursor_anchor option" where
  "build_message_page items limit =
     (if limit \<le> 0 \<or> int (length items) \<le> limit then (items, None)
      else (drop 1 items, Some (message_anchor (items ! 1))))"

definition list_session_history ::
  "database \<Rightarrow> time \<Rightarrow> session_history_filter \<Rightarrow> message_record list \<times> cursor_anchor option" where
  "list_session_history d now f = (let limit = page_fetch_limit (hf_limit f)
     in build_message_page (list_message_records d now (f\<lparr>hf_limit := limit\<rparr>)) (limit - 1))"

section \<open>Prompt history\<close>

definition history_limit :: "int \<Rightarrow> nat" where
  "history_limit limit = (if limit \<le> 0 then 20 else nat limit)"

text \<open>\<open>ORDER BY created_at DESC, fts_rowid DESC\<close>.\<close>

definition session_messages_desc :: "database \<Rightarrow> string \<Rightarrow> message_row list" where
  "session_messages_desc d session_id =
     desc_order (\<lambda>r. (ms_created_at r, ms_rowid r)) (filter (\<lambda>r. ms_session_id r = session_id) (db_messages d))"

definition load_recent_history :: "database \<Rightarrow> string \<Rightarrow> int \<Rightarrow> history_message list" where
  "load_recent_history d session_id limit =
     rev (map scan_history (take (history_limit limit) (session_messages_desc d session_id)))"

definition should_skip_prompt_history_payload_type :: "json option \<Rightarrow> bool" where
  "should_skip_prompt_history_payload_type v = (v \<in> {Some (JStr ''cron_fire''), Some (JStr ''new_session'')})"

text \<open>The loop over the rows: skip, append, stop at the limit.\<close>

fun prompt_history_loop :: "nat \<Rightarrow> message_row list \<Rightarrow> history_message list \<Rightarrow> history_message list" where
  "prompt_history_loop limit [] out = out"
| "prompt_history_loop limit (r # rows) out =
     (let m = scan_history r in
      if should_skip_prompt_history_payload_type (map_of (hm_meta m) ''payload_type'')
      then prompt_history_loop limit rows out
      else let out' = out @ [m] in
           if limit \<le> length out' then out' else prompt_history_loop limit rows out')"

definition load_prompt_history :: "database \<Rightarrow> string \<Rightarrow> int \<Rightarrow> history_message list" where
  "load_prompt_history d session_id limit =
     rev (prompt_history_loop (history_limit limit) (session_messages_desc d session_id) [])"

text \<open>The rows the full-text index returns for a query are a parameter.\<close>

definition search_rag_hits ::
  "(string \<Rightarrow> message_row list \<Rightarrow> message_row list) \<Rightarrow> database \<Rightarrow> string \<Rightarrow> string \<Rightarrow> int \<Rightarrow> rag_hit list" where
  "search_rag_hits fts d session_id query limit =
     (let limit = if limit \<le> 0 then 5 else limit in
      if trim_space query = [] then []
      else map (\<lambda>m. \<lparr> rh_path = session_id, rh_scope = ''session'', rh_preview = ms_content m \<rparr>)
        (take (nat limit) (filter (\<lambda>m. ms_session_id m = session_id) (fts query (db_messages d)))))"

section \<open>Pages continue\<close>

interpretation event_listing: keyset_listing event_key scan_event event_anchor before_cursor anchorable
  by unfold_locales
    (auto simp: event_anchor_def scan_event_def event_key_def before_cursor_anchor [of "event_key _", unfolded event_key_def, simplified]
      dest: before_cursor_downward)

interpretation run_listing: keyset_listing run_key scan_run run_anchor before_cursor anchorable
  by unfold_locales
    (auto simp: run_anchor_def scan_run_def run_key_def before_cursor_anchor [of "run_key _", unfolded run_key_def, simplified]
      dest: before_cursor_downward)

interpretation session_listing: keyset_listing session_row_key scan_session session_anchor before_cursor anchorable
  by unfold_locales
    (auto simp: session_anchor_def scan_session_def session_row_key_def
      before_cursor_anchor [of "session_row_key _", unfolded session_row_key_def, simplified]
      dest: before_cursor_downward)

lemma message_before_anchor:
  "anchorable k \<Longrightarrow> message_before now (Some \<lparr> ca_time = must_parse_time (fst k), ca_id = snd k \<rparr>) k' \<longleftrightarrow> k' < k"
  by (auto simp: message_before_def anchorable_def must_parse_time_text less_prod_def less_le)

lemma message_before_later: "message_before now c k \<Longrightarrow> k' < k \<Longrightarrow> message_before now c k'"
  by (cases k; cases k') (auto simp: message_before_def less_prod_def Let_def split: option.splits if_splits)

interpretation message_listing:
  keyset_listing message_key scan_message_record message_anchor "message_before now" anchorable for now
  by unfold_locales
    (auto simp: message_anchor_def scan_message_record_def message_key_def
      message_before_anchor [of "message_key _", unfolded message_key_def, simplified]
      dest: message_before_later)

definition events_matching :: "database \<Rightarrow> event_filter \<Rightarrow> event_row list" where
  "events_matching d f = matching event_key before_cursor (event_selected f) (ef_cursor f) (db_events d)"

definition messages_matching :: "database \<Rightarrow> time \<Rightarrow> session_history_filter \<Rightarrow> message_row list" where
  "messages_matching d now f =
     matching message_key (message_before now) (message_selected f) (hf_cursor f) (db_messages d)"

lemma event_selected_cursor [simp]: "event_selected (f\<lparr>ef_cursor := c\<rparr>) = event_selected f"
  "event_selected (f\<lparr>ef_limit := l\<rparr>) = event_selected f"
  by (auto simp: event_selected_def fun_eq_iff)

lemma message_selected_cursor [simp]: "message_selected (f\<lparr>hf_cursor := c\<rparr>) = message_selected f"
  "message_selected (f\<lparr>hf_limit := l\<rparr>) = message_selected f"
  by (auto simp: message_selected_def fun_eq_iff)

lemma list_events_eq:
  "list_events d f = (map scan_event (take (page_size (ef_limit f)) (events_matching d f)),
     if page_size (ef_limit f) < length (events_matching d f)
     then Some (event_anchor (scan_event (events_matching d f ! (page_size (ef_limit f) - 1)))) else None)"
  by (simp add: list_events_def list_event_records_def Let_def event_listing.page_eq events_matching_def)

lemma events_matching_next:
  assumes "distinct (map ev_event_id (db_events d))" "\<forall>r \<in> set (db_events d). anchorable (event_key r)"
    and "list_events d f = (items, Some a)"
  shows "events_matching d (f\<lparr>ef_cursor := Some a\<rparr>) = drop (page_size (ef_limit f)) (events_matching d f)"
proof -
  have "distinct (map event_key (db_events d))"
    using assms(1) by (simp add: event_key_def distinct_map inj_on_def)
  from event_listing.page_continues [OF this assms(2), of "event_selected f" "ef_cursor f" "ef_limit f" items a]
  show ?thesis using assms(3)
    by (simp add: list_events_def list_event_records_def Let_def events_matching_def)
qed

lemma list_session_history_eq:
  "list_session_history d now f =
     (rev (map scan_message_record (take (page_size (hf_limit f)) (messages_matching d now f))),
      if page_size (hf_limit f) < length (messages_matching d now f)
      then Some (message_anchor (scan_message_record (messages_matching d now f ! (page_size (hf_limit f) - 1)))) else None)"
proof -
  define n where "n = page_size (hf_limit f)"
  define ys where "ys = map scan_message_record (messages_matching d now f)"
  have n: "0 < n" by (simp add: n_def)
  have l: "list_session_history d now f = build_message_page (rev (take (Suc n) ys)) (int n)"
    by (simp add: list_session_history_def list_message_records_def list_rows_def Let_def
        normalize_fetch_limit page_fetch_limit_minus messages_matching_def n_def ys_def take_map)
  have d: "drop 1 (rev (take (Suc n) ys)) = rev (take n ys)" "rev (take (Suc n) ys) ! 1 = ys ! (n - 1)"
    if "n < length ys"
    using that n by (simp_all add: take_Suc_conv_app_nth rev_nth nth_append)
  show ?thesis
    using d n by (auto simp: l build_message_page_def ys_def n_def [symmetric] take_map min_def)
qed

section \<open>Histories are the newest messages\<close>

definition session_messages_asc :: "database \<Rightarrow> string \<Rightarrow> message_row list" where
  "session_messages_asc d session_id =
     sort_key (\<lambda>r. (ms_created_at r, ms_rowid r)) (filter (\<lambda>r. ms_session_id r = session_id) (db_messages d))"

definition last_n :: "nat \<Rightarrow> 'a list \<Rightarrow> 'a list" where
  "last_n n xs = drop (length xs - n) xs"

lemma rev_take_rev: "rev (take n (rev xs)) = last_n n xs"
  by (simp add: last_n_def take_rev)

lemma session_messages_desc_rev: "session_messages_desc d s = rev (session_messages_asc d s)"
  by (simp add: session_messages_desc_def session_messages_asc_def desc_order_def)

lemma load_recent_history_eq:
  "load_recent_history d s limit = last_n (history_limit limit) (map scan_history (session_messages_asc d s))"
  by (simp add: load_recent_history_def session_messages_desc_rev rev_map rev_take_rev take_map
      flip: rev_take_rev)

definition prompt_worthy :: "history_message \<Rightarrow> bool" where
  "prompt_worthy m = (\<not> should_skip_prompt_history_payload_type (map_of (hm_meta m) ''payload_type''))"

lemma prompt_history_loop_eq:
  "length out < limit \<Longrightarrow>
     prompt_history_loop limit rows out = out @ take (limit - length out) (filter prompt_worthy (map scan_history rows))"
proof (induction limit rows out rule: prompt_history_loop.induct)
  case (2 limit r rows out)
  show ?case
  proof (cases "prompt_worthy (scan_history r) \<and> Suc (length out) < limit")
    case True
    then show ?thesis using 2 by (simp add: prompt_worthy_def Let_def Suc_diff_Suc [symmetric])
  next
    case False
    then have "prompt_worthy (scan_history r) \<Longrightarrow> limit - length out = Suc 0" using 2 by auto
    with False show ?thesis using 2 by (auto simp: prompt_worthy_def Let_def Suc_le_eq)
  qed
qed simp

lemma load_prompt_history_eq:
  "load_prompt_history d s limit =
     last_n (history_limit limit) (filter prompt_worthy (map scan_history (session_messages_asc d s)))"
  by (simp add: load_prompt_history_def prompt_history_loop_eq history_limit_def session_messages_desc_rev
      rev_map [symmetric] rev_filter [symmetric] rev_take_rev)

end
