(* ===== verification/Display.thy ===== *)
theory Display
  imports Utf8 Data_Model
begin

text \<open>
  \<open>internal/runner/display.go\<close>: what of a tool's arguments and results a stream may show.  The
  flag \<open>truncated\<close> the source sets through a pointer is the second component of the result.  A
  Go map is iterated in no fixed order; the list that stands for it is in the order of the
  iteration, so what is proved of every list holds for every order.
\<close>

definition max_display_depth :: nat where "max_display_depth = 4"
definition max_display_items :: nat where "max_display_items = 20"
definition max_display_rune_size :: nat where "max_display_rune_size = 256"

definition truncated_mark :: string where "truncated_mark = ''[truncated]''"
definition redacted_mark :: string where "redacted_mark = ''[redacted]''"
definition truncated_items_key :: string where "truncated_items_key = ''_truncated_items''"

text \<open>\<open>strings.Contains\<close>.\<close>

definition contains_text :: "string \<Rightarrow> string \<Rightarrow> bool" where
  "contains_text s w = list_ex (prefix w) (suffixes s)"

definition sensitive_words :: "string list" where
  "sensitive_words = [''token'', ''secret'', ''password'', ''api_key'', ''apikey'', ''authorization'']"

definition is_sensitive_key :: "string \<Rightarrow> bool" where
  "is_sensitive_key key = list_ex (contains_text (to_lower (trim_space key))) sensitive_words"

definition sanitize_string :: "string \<Rightarrow> string \<Rightarrow> json \<times> bool" where
  "sanitize_string key s =
     (if is_sensitive_key key then (JStr redacted_mark, False)
      else if length (runes s) \<le> max_display_rune_size then (JStr s, False)
      else (JStr (string_of_runes (take max_display_rune_size (runes s)) @ ''...''), True))"

text \<open>An assignment to a key of a map that a later assignment may replace.\<close>

definition cons_field :: "string \<Rightarrow> json \<Rightarrow> json_object \<Rightarrow> json_object" where
  "cons_field k v fs = (if k \<in> fst ` set fs then fs else (k, v) # fs)"

text \<open>
  \<open>sanitizeDisplayValue\<close>: the fields and the items carry the number of those before them; the
  key of an array stays with its elements.
\<close>

fun sanitize_value :: "json \<Rightarrow> nat \<Rightarrow> string \<Rightarrow> json \<times> bool"
  and sanitize_fields :: "(string \<times> json) list \<Rightarrow> nat \<Rightarrow> nat \<Rightarrow> (string \<times> json) list \<times> bool"
  and sanitize_items :: "json list \<Rightarrow> nat \<Rightarrow> nat \<Rightarrow> string \<Rightarrow> json list \<times> bool" where
  "sanitize_value (JObj fs) depth key =
     (if max_display_depth \<le> depth then (JStr truncated_mark, True)
      else (let (out, t) = sanitize_fields fs depth 0 in (JObj out, t)))"
| "sanitize_value (JArr vs) depth key =
     (if max_display_depth \<le> depth then (JStr truncated_mark, True)
      else (let (out, t) = sanitize_items vs depth 0 key in (JArr out, t)))"
| "sanitize_value (JStr s) depth key =
     (if max_display_depth \<le> depth then (JStr truncated_mark, True) else sanitize_string key s)"
| "sanitize_value JNull depth key =
     (if max_display_depth \<le> depth then (JStr truncated_mark, True) else (JNull, False))"
| "sanitize_value (JBool b) depth key =
     (if max_display_depth \<le> depth then (JStr truncated_mark, True) else (JBool b, False))"
| "sanitize_value (JNum q) depth key =
     (if max_display_depth \<le> depth then (JStr truncated_mark, True) else (JNum q, False))"
| "sanitize_fields [] depth count = ([], False)"
| "sanitize_fields ((k, v) # fs) depth count =
     (if max_display_items \<le> count then ([(truncated_items_key, JBool True)], True)
      else
        (let (v', t) = (if is_sensitive_key k then (JStr redacted_mark, False)
                        else sanitize_value v (Suc depth) k);
             (fs', t') = sanitize_fields fs depth (Suc count)
         in (cons_field k v' fs', t \<or> t')))"
| "sanitize_items [] depth count key = ([], False)"
| "sanitize_items (v # vs) depth count key =
     (if max_display_items \<le> count then ([], True)
      else
        (let (v', t) = sanitize_value v (Suc depth) key;
             (vs', t') = sanitize_items vs depth (Suc count) key
         in (v' # vs', t \<or> t')))"

definition sanitize_display_map :: "json_object \<Rightarrow> json_object \<times> bool" where
  "sanitize_display_map input =
     (if input = [] then ([], False) else sanitize_fields input 0 0)"

text \<open>\<open>toolResultString\<close>; \<open>marshal\<close> is \<open>json.Marshal\<close>, None when it fails.\<close>

definition tool_result_string :: "(json_object \<Rightarrow> string option) \<Rightarrow> json_object \<Rightarrow> error_block option \<Rightarrow> string" where
  "tool_result_string marshal output err =
     (case err of
        Some e \<Rightarrow> eb_code e @ '': '' @ eb_message e
      | None \<Rightarrow> if output = [] then ''{}'' else (case marshal output of None \<Rightarrow> ''{}'' | Some b \<Rightarrow> b))"

section \<open>What a stream may show\<close>

text \<open>
  \<open>no_secrets\<close>: below a sensitive key there is nothing but the redaction mark (or, for a key
  whose value is an array the key of which is sensitive, such a mark per element).
\<close>

fun no_secrets :: "json \<Rightarrow> bool" where
  "no_secrets (JObj fs) =
     list_all (\<lambda>(k, v). (is_sensitive_key k \<longrightarrow> v = JStr redacted_mark) \<and> no_secrets v) fs"
| "no_secrets (JArr vs) = list_all no_secrets vs"
| "no_secrets _ = True"

text \<open>The nesting, the number of entries at any level and the runes of any string.\<close>

fun nesting :: "json \<Rightarrow> nat" where
  "nesting (JObj fs) = Suc (foldr (\<lambda>(k, v) n. max (nesting v) n) fs 0)"
| "nesting (JArr vs) = Suc (foldr (\<lambda>v n. max (nesting v) n) vs 0)"
| "nesting _ = 0"

fun entries_within :: "nat \<Rightarrow> json \<Rightarrow> bool" where
  "entries_within n (JObj fs) = (length fs \<le> n \<and> list_all (\<lambda>(k, v). entries_within n v) fs)"
| "entries_within n (JArr vs) = (length vs \<le> n \<and> list_all (entries_within n) vs)"
| "entries_within n _ = True"

fun strings_within :: "nat \<Rightarrow> json \<Rightarrow> bool" where
  "strings_within n (JObj fs) = list_all (\<lambda>(k, v). strings_within n v) fs"
| "strings_within n (JArr vs) = list_all (strings_within n) vs"
| "strings_within n (JStr s) = (length (runes s) \<le> n)"
| "strings_within n _ = True"

definition showable :: "nat \<Rightarrow> json \<Rightarrow> bool" where
  "showable d v = (no_secrets v \<and> nesting v \<le> max_display_depth - d \<and>
     entries_within (Suc max_display_items) v \<and> strings_within (max_display_rune_size + 3) v)"

lemma showable_short: "length s \<le> max_display_rune_size \<Longrightarrow> showable d (JStr s)"
  using length_runes [of s] by (simp add: showable_def)

lemma showable_marks [simp]: "showable d (JStr redacted_mark)" "showable d (JStr truncated_mark)"
  by (rule showable_short, simp add: redacted_mark_def truncated_mark_def max_display_rune_size_def)+

lemma showable_string: "showable d (fst (sanitize_string key s))"
proof -
  let ?rs = "take max_display_rune_size (runes s)"
  have "\<forall>r \<in> set ?rs. valid_rune r" by (auto dest: in_set_takeD valid_runes)
  then have "runes (string_of_runes ?rs @ ''...'') = ?rs @ runes ''...''" by (rule runes_string_of_runes_append)
  then have "showable d (JStr (string_of_runes ?rs @ ''...''))"
    using length_runes [of "''...''"] by (simp add: showable_def)
  moreover have "showable d (JStr s)" if "length (runes s) \<le> max_display_rune_size"
    using that by (simp add: showable_def)
  ultimately show ?thesis by (simp add: sanitize_string_def)
qed

lemma showable_parts:
  "showable d (JObj fs) \<longleftrightarrow> d < max_display_depth \<and> length fs \<le> Suc max_display_items \<and>
     (\<forall>(k, v) \<in> set fs. (is_sensitive_key k \<longrightarrow> v = JStr redacted_mark) \<and> showable (Suc d) v)"
  "showable d (JArr vs) \<longleftrightarrow> d < max_display_depth \<and> length vs \<le> Suc max_display_items \<and> (\<forall>v \<in> set vs. showable (Suc d) v)"
proof -
  have o: "foldr (\<lambda>(k, v) n. max (nesting v) n) fs 0 \<le> n \<longleftrightarrow> (\<forall>(k, v) \<in> set fs. nesting v \<le> n)"
    for fs :: json_object and n by (induction fs) auto
  have a: "foldr (\<lambda>v n. max (nesting v) n) vs 0 \<le> n \<longleftrightarrow> (\<forall>v \<in> set vs. nesting v \<le> n)"
    for vs n by (induction vs) auto
  have s: "Suc m \<le> max_display_depth - d \<longleftrightarrow> d < max_display_depth \<and> m \<le> max_display_depth - Suc d" for m
    by linarith
  show "showable d (JObj fs) \<longleftrightarrow> d < max_display_depth \<and> length fs \<le> Suc max_display_items \<and>
     (\<forall>(k, v) \<in> set fs. (is_sensitive_key k \<longrightarrow> v = JStr redacted_mark) \<and> showable (Suc d) v)"
    by (auto simp: showable_def s o list_all_iff simp del: not_less)
  show "showable d (JArr vs) \<longleftrightarrow> d < max_display_depth \<and> length vs \<le> Suc max_display_items \<and> (\<forall>v \<in> set vs. showable (Suc d) v)"
    by (auto simp: showable_def s a list_all_iff simp del: not_less)
qed

lemma showable_scalars: "showable d JNull" "showable d (JBool b)" "showable d (JNum q)"
  by (simp_all add: showable_def)

lemma set_cons_field: "set (cons_field k v fs) \<subseteq> insert (k, v) (set fs)"
  "length (cons_field k v fs) \<le> Suc (length fs)"
  by (auto simp: cons_field_def)

lemma not_sensitive_truncated_items [simp]: "\<not> is_sensitive_key truncated_items_key"
  by code_simp

lemma showable_sanitized:
  "showable d (fst (sanitize_value v d key))"
  "d < max_display_depth \<Longrightarrow> (\<forall>(k, v) \<in> set (fst (sanitize_fields fs d n)).
      (is_sensitive_key k \<longrightarrow> v = JStr redacted_mark) \<and> showable (Suc d) v) \<and>
      (n \<le> max_display_items \<longrightarrow> length (fst (sanitize_fields fs d n)) \<le> Suc max_display_items - n)"
  "d < max_display_depth \<Longrightarrow> (\<forall>v \<in> set (fst (sanitize_items vs d n key)). showable (Suc d) v) \<and>
      (n \<le> max_display_items \<longrightarrow> length (fst (sanitize_items vs d n key)) \<le> Suc max_display_items - n)"
proof (induction v d key and fs d n and vs d n key rule: sanitize_value_sanitize_fields_sanitize_items.induct)
  case (8 k v fs depth count)
  define v' where "v' = (if is_sensitive_key k then JStr redacted_mark else fst (sanitize_value v (Suc depth) k))"
  define fs' where "fs' = fst (sanitize_fields fs depth (Suc count))"
  show ?case
  proof (cases "max_display_items \<le> count")
    case True
    then show ?thesis using 8(3) by (auto simp: showable_scalars)
  next
    case False
    then have out: "fst (sanitize_fields ((k, v) # fs) depth count) = cons_field k v' fs'"
      by (auto simp: v'_def fs'_def split: prod.splits)
    have "showable (Suc depth) v'" using 8(1) False by (auto simp: v'_def)
    moreover have "(\<forall>(k, v) \<in> set fs'. (is_sensitive_key k \<longrightarrow> v = JStr redacted_mark) \<and> showable (Suc depth) v)"
      "length fs' \<le> Suc max_display_items - Suc count"
      using 8(2) [OF False refl prod.collapse 8(3)] False by (auto simp: fs'_def)
    ultimately show ?thesis
      unfolding out using set_cons_field [of k v' fs'] False by (auto simp: v'_def)
  qed
next
  case (10 v vs depth count key)
  show ?case
  proof (cases "max_display_items \<le> count")
    case False
    then have "fst (sanitize_items (v # vs) depth count key) =
        fst (sanitize_value v (Suc depth) key) # fst (sanitize_items vs depth (Suc count) key)"
      by (auto split: prod.splits)
    then show ?thesis
      using 10(1) [OF False] 10(2) [OF False refl prod.collapse 10(3)] False by (auto simp del: sanitize_items.simps)
  qed simp
qed (auto simp: showable_string showable_parts showable_scalars split: prod.splits)

text \<open>
  What a stream shows of a tool's arguments or results has no value under a sensitive key,
  is nested at most four levels deep, has at most 21 entries at each level and no string above
  259 runes.
\<close>

theorem display_showable:
  "no_secrets (JObj (fst (sanitize_display_map input))) \<and>
   nesting (JObj (fst (sanitize_display_map input))) \<le> max_display_depth \<and>
   entries_within (Suc max_display_items) (JObj (fst (sanitize_display_map input))) \<and>
   strings_within (max_display_rune_size + 3) (JObj (fst (sanitize_display_map input)))"
proof -
  have "showable 0 (JObj (fst (sanitize_display_map input)))"
    using showable_sanitized(2) [of 0 input 0]
    by (auto simp: sanitize_display_map_def showable_parts max_display_depth_def)
  then show ?thesis by (simp add: showable_def)
qed

end
