(* ===== verification/Runner.thy ===== *)
theory Runner
  imports Queries Payloads Capability Display Paths
begin

text \<open>
  The data of \<open>internal/runner\<close> and the pure parts of a run: the requests and results of models
  and tools (\<open>internal/runtime/kernel/contracts.go\<close>), the trace of a run
  (\<open>pkg/api/trace.go\<close>), the tool policy, the conversion of stored history to chat messages and
  the context of a run.  Models, tools and the store are operations on a state \<open>'w\<close>, the world
  outside the run.
\<close>

section \<open>Models and tools\<close>

datatype parameter_schema =
  ParameterSchema (ps_type: string) (ps_description: string) (ps_enum: "string list")
    (ps_minimum: "rat option") (ps_maximum: "rat option")
    (ps_properties: "(string \<times> parameter_schema) list") (ps_required: "string list")
    (ps_items: "parameter_schema option")

record tool_definition =
  td_name :: string
  td_description :: string
  td_parameters :: parameter_schema

record tool_context =
  tx_workspace :: string
  tx_scopes :: "string list"
  tx_conversation :: conversation

record tool_result =
  tr_disabled :: bool
  tr_output :: json_object
  tr_error :: "error_block option"

record usage =
  us_prompt_tokens :: int
  us_completion_tokens :: int
  us_total_tokens :: int

record model_message =
  mm_role :: string
  mm_content :: string
  mm_tool_call_id :: string
  mm_tool_calls :: "tool_call list"

record model_request =
  mq_model :: string
  mq_messages :: "model_message list"
  mq_tools :: "tool_definition list"

record model_result =
  mr_text :: string
  mr_tool_calls :: "tool_call list"
  mr_finish_reason :: string
  mr_raw_finish_reason :: string
  mr_usage :: usage
  mr_provider :: string
  mr_model :: string
  mr_provider_request_id :: string

text \<open>What a model streams while it answers, in its order.\<close>

datatype model_delta = ReasoningDelta string | TextDelta string

type_synonym 'w invoker = "model_request \<Rightarrow> 'w \<Rightarrow> (model_delta list \<times> (go_error + model_result)) \<times> 'w"
type_synonym 'w tool_handler = "tool_context \<Rightarrow> string \<Rightarrow> json_object \<Rightarrow> 'w \<Rightarrow> tool_result \<times> 'w"

definition zero_usage :: usage where
  "zero_usage = \<lparr> us_prompt_tokens = 0, us_completion_tokens = 0, us_total_tokens = 0 \<rparr>"

definition zero_result :: model_result where
  "zero_result = \<lparr> mr_text = [], mr_tool_calls = [], mr_finish_reason = [], mr_raw_finish_reason = [],
     mr_usage = zero_usage, mr_provider = [], mr_model = [], mr_provider_request_id = [] \<rparr>"

section \<open>Traces\<close>

record tool_execution =
  te_tool_call_id :: string
  te_name :: string
  te_args :: json_object
  te_result :: json_object
  te_error :: "error_block option"

record action =
  ac_action_id :: string
  ac_action_index :: nat
  ac_idempotency_key :: string
  ac_type :: string
  ac_risk :: string
  ac_requires_approval :: bool
  ac_payload :: json_object

record context_manifest =
  cm_mode :: string
  cm_tail_limit :: int

text \<open>The trace is that of the stored run with the parts only the runner fills.\<close>

record api_run_trace = run_trace +
  at_context_manifest :: "context_manifest option"
  at_rag_hits :: "rag_hit list"
  at_tool_executions :: "tool_execution list"
  at_actions :: "action list"

section \<open>Output\<close>

record output_message =
  ou_role :: string
  ou_content :: string
  ou_visible :: bool
  ou_tool_calls :: "tool_call list"
  ou_tool_call_id :: string
  ou_tool_name :: string
  ou_tool_args :: json_object
  ou_tool_result :: json_object
  ou_meta :: json_object

record run_output =
  ro_run_mode :: run_mode
  ro_messages :: "output_message list"
  ro_trace :: api_run_trace
  ro_assistant_reply :: string
  ro_suppress_output :: bool

definition text_message :: "string \<Rightarrow> string \<Rightarrow> bool \<Rightarrow> json_object \<Rightarrow> output_message" where
  "text_message role content visible meta =
     \<lparr> ou_role = role, ou_content = content, ou_visible = visible, ou_tool_calls = [], ou_tool_call_id = [],
       ou_tool_name = [], ou_tool_args = [], ou_tool_result = [], ou_meta = meta \<rparr>"

text \<open>The calls of \<open>StreamSink\<close>.\<close>

datatype sink_call =
  OnStatus string string
| OnReasoningDelta string
| OnTextDelta string
| OnToolStart string string json_object bool
| OnToolResult string string json_object bool "error_block option"

fun sink_call_kind :: "sink_call \<Rightarrow> string" where
  "sink_call_kind (OnStatus s m) = ''status''"
| "sink_call_kind (OnReasoningDelta d) = ''reasoning_delta''"
| "sink_call_kind (OnTextDelta d) = ''text_delta''"
| "sink_call_kind (OnToolStart i n a t) = ''tool_start''"
| "sink_call_kind (OnToolResult i n r t e) = ''tool_result''"

section \<open>Policy\<close>

text \<open>The bytes of the fixed replies, which are Chinese texts in UTF-8.\<close>

definition bytes :: "nat list \<Rightarrow> string" where
  "bytes = map char_of"

definition tool_rounds_text :: string where
  "tool_rounds_text = bytes
     [0xE5, 0xB7, 0xA5, 0xE5, 0x85, 0xB7, 0xE8, 0xB0, 0x83, 0xE7, 0x94, 0xA8, 0xE8, 0xBD, 0xAE, 0xE6, 0xAC, 0xA1,
      0xE5, 0xB7, 0xB2, 0xE8, 0xBE, 0xBE, 0xE4, 0xB8, 0x8A, 0xE9, 0x99, 0x90, 0xE3, 0x80, 0x82]"

definition new_session_text :: string where
  "new_session_text = bytes
     [0xE5, 0xB7, 0xB2, 0xE5, 0xBC, 0x80, 0xE5, 0xA7, 0x8B, 0xE6, 0x96, 0xB0, 0xE4, 0xBC, 0x9A, 0xE8, 0xAF, 0x9D,
      0xE3, 0x80, 0x82]"

definition max_tool_rounds_reply :: "model_result \<Rightarrow> string" where
  "max_tool_rounds_reply res =
     (if mr_tool_calls res \<noteq> [] then tool_rounds_text
      else (let reply = trim_space (mr_text res) in if reply = [] then tool_rounds_text else reply))"

definition cron_fire_tool_budgets :: "string \<rightharpoonup> nat" where
  "cron_fire_tool_budgets = [''memory_search'' \<mapsto> 1, ''memory_get'' \<mapsto> 1, ''context_get'' \<mapsto> 1]"

definition cron_fire_injected_root_files :: "string list" where
  "cron_fire_injected_root_files =
     [''SOUL.md'', ''IDENTITY.md'', ''USER.md'', ''AGENTS.md'', ''TOOLS.md'', ''BOOTSTRAP.md'', ''HEARTBEAT.md'']"

text \<open>A type assertion to \<open>string\<close> of a key of a map; the zero value when it fails.\<close>

definition string_arg :: "string \<Rightarrow> json_object \<Rightarrow> string" where
  "string_arg k args = (case map_of args k of Some (JStr s) \<Rightarrow> s | _ \<Rightarrow> [])"

definition forbidden :: "string \<Rightarrow> error_block" where
  "forbidden message = \<lparr> eb_code = ErrorCodeForbidden, eb_message = message, eb_details = [] \<rparr>"

definition cron_fire_tool_policy_error ::
  "(nat \<Rightarrow> bool) \<Rightarrow> tool_call \<Rightarrow> (string \<Rightarrow> nat) \<Rightarrow> error_block option" where
  "cron_fire_tool_policy_error printable call counts =
     (if (case cron_fire_tool_budgets (tc_name call) of
            Some budget \<Rightarrow> budget \<le> counts (tc_name call) | None \<Rightarrow> False)
      then Some (forbidden (''cron_fire tool budget exhausted for '' @ go_quote printable (tc_name call)
             @ ''; summarize with current evidence instead of fetching more context''))
      else if tc_name call \<noteq> ''context_get'' then None
      else
        (let clean = path_clean (trim_space (string_arg ''path'' (tc_args call))) in
         if clean \<in> set cron_fire_injected_root_files
         then Some (forbidden (''context_get '' @ go_quote printable clean @ '' is already injected into the cron_fire''
           @ '' system prompt; summarize with current evidence instead of rereading it''))
         else None))"

text \<open>\<open>toolAllowed\<close>; the plans of the registry are copied, and the copy of an empty set is nil.\<close>

definition tool_allowed :: "string \<Rightarrow> string list \<Rightarrow> bool" where
  "tool_allowed name allowed = (allowed = [] \<or> name \<in> set allowed)"

definition tool_risk :: "string \<Rightarrow> string" where
  "tool_risk name =
     (if name = ''workspace_patch'' then ''medium'' else if name = ''workspace_delete'' then ''high'' else ''low'')"

section \<open>History\<close>

definition chat_message :: "string \<Rightarrow> string \<Rightarrow> string \<Rightarrow> tool_call list \<Rightarrow> model_message" where
  "chat_message role content call_id calls =
     \<lparr> mm_role = role, mm_content = content, mm_tool_call_id = call_id, mm_tool_calls = calls \<rparr>"

text \<open>\<open>historyToChatMessages\<close>; \<open>pending\<close> holds the ids of tool calls that have no answer yet.\<close>

fun history_chat :: "string list \<Rightarrow> history_message list \<Rightarrow> model_message list" where
  "history_chat pending [] = []"
| "history_chat pending (m # ms) =
     (if should_skip_prompt_history_payload_type (map_of (hm_meta m) ''payload_type'')
      then history_chat pending ms
      else if hm_role m = ''assistant'' then
        (if trim_space (hm_content m) = [] \<and> hm_tool_calls m = [] then history_chat pending ms
         else chat_message (hm_role m) (hm_content m) [] (hm_tool_calls m)
              # history_chat (filter (\<lambda>i. trim_space i \<noteq> []) (map tc_id (hm_tool_calls m)) @ pending) ms)
      else if hm_role m = ''tool'' then
        (if trim_space (hm_tool_call_id m) = [] \<or> hm_tool_call_id m \<notin> set pending then history_chat pending ms
         else chat_message (hm_role m) (hm_content m) (hm_tool_call_id m) []
              # history_chat (removeAll (hm_tool_call_id m) pending) ms)
      else chat_message (hm_role m) (hm_content m) (hm_tool_call_id m) [] # history_chat pending ms)"

definition history_to_chat_messages :: "history_message list \<Rightarrow> model_message list" where
  "history_to_chat_messages hs = history_chat [] hs"

section \<open>The context of a run\<close>

text \<open>\<open>HistoryReader\<close> as the run sees it; the errors of the second query are ignored.\<close>

record context_reader =
  cr_load_prompt_history :: "string \<Rightarrow> int \<Rightarrow> go_error + history_message list"
  cr_search_rag_hits :: "string \<Rightarrow> string \<Rightarrow> int \<Rightarrow> go_error + rag_hit list"

record context_bundle =
  cb_history :: "history_message list"
  cb_rag_hits :: "rag_hit list"
  cb_manifest :: "context_manifest option"

definition context_history_limit :: int where "context_history_limit = 20"
definition context_rag_limit :: int where "context_rag_limit = 5"

definition load_context :: "context_reader \<Rightarrow> string \<Rightarrow> string \<Rightarrow> go_error + context_bundle" where
  "load_context r sid query =
     (case cr_load_prompt_history r sid context_history_limit of
        Inl e \<Rightarrow> Inl e
      | Inr history \<Rightarrow> Inr
          \<lparr> cb_history = history,
            cb_rag_hits = (case cr_search_rag_hits r sid (trim_space query) context_rag_limit of
              Inl e \<Rightarrow> [] | Inr hits \<Rightarrow> hits),
            cb_manifest = Some \<lparr> cm_mode = ''tail'', cm_tail_limit = context_history_limit \<rparr> \<rparr>)"

section \<open>Filling the trace\<close>

definition milliseconds :: "duration \<Rightarrow> int" where
  "milliseconds d = int_quot d 1000000"

definition attach_context :: "context_bundle \<Rightarrow> api_run_trace \<Rightarrow> api_run_trace" where
  "attach_context b t = t\<lparr>at_context_manifest := cb_manifest b, at_rag_hits := cb_rag_hits b\<rparr>"

definition trace_fail :: "go_error \<Rightarrow> time \<Rightarrow> time \<Rightarrow> api_run_trace \<Rightarrow> api_run_trace" where
  "trace_fail err started finish t =
     t\<lparr>rt_status := RunStatusFailed, rt_error := error_block_from_error (Some err),
       rt_finished_at := finish, rt_latency_ms := milliseconds (finish - started)\<rparr>"

definition trace_complete ::
  "usage \<Rightarrow> model_result \<Rightarrow> string \<Rightarrow> time \<Rightarrow> time \<Rightarrow> api_run_trace \<Rightarrow> api_run_trace" where
  "trace_complete used res reply started finish t =
     t\<lparr>rt_provider := mr_provider res, rt_model := mr_model res,
       rt_prompt_tokens := us_prompt_tokens used, rt_completion_tokens := us_completion_tokens used,
       rt_total_tokens := us_total_tokens used, rt_finish_reason := mr_finish_reason res,
       rt_raw_finish_reason := mr_raw_finish_reason res,
       rt_provider_request_id := mr_provider_request_id res, rt_output_text := reply,
       rt_tool_calls := mr_tool_calls res, rt_finished_at := finish,
       rt_latency_ms := milliseconds (finish - started)\<rparr>"

definition new_trace :: "internal_event \<Rightarrow> run_mode \<Rightarrow> time \<Rightarrow> api_run_trace" where
  "new_trace event mode start =
     \<lparr> rt_run_id = [], rt_event_id = event_id event, rt_session_key = session_key event,
       rt_session_id = active_session_id event, rt_run_mode = mode, rt_status = RunStatusCompleted,
       rt_provider = [], rt_model = [], rt_prompt_tokens = 0, rt_completion_tokens = 0, rt_total_tokens = 0,
       rt_latency_ms = 0, rt_finish_reason = [], rt_raw_finish_reason = [], rt_provider_request_id = [],
       rt_output_text = [], rt_tool_calls = [], rt_diagnostics = [], rt_started_at = start,
       rt_finished_at = zero_time, rt_error = None, at_context_manifest = None, at_rag_hits = [],
       at_tool_executions = [], at_actions = [] \<rparr>"

end
