(* ===== verification/Json_Text.thy ===== *)
theory Json_Text
  imports Utf8
begin

text \<open>
  The parts of \<open>encoding/base64\<close> and \<open>encoding/json\<close> the page cursors rest on: the
  standard padded alphabet, strings as \<open>json.Marshal\<close> writes them and as \<open>json.Unmarshal\<close>
  reads them, and the values of a JSON text, with the literal of a number kept because decoding
  into an \<open>int\<close> reads the literal.
\<close>

section \<open>Base64\<close>

definition base64_alphabet :: string where
  "base64_alphabet = ''ABCDEFGHIJKLMNOPQRSTUVWXYZabcdefghijklmnopqrstuvwxyz0123456789+/''"

definition base64_char :: "nat \<Rightarrow> char" where
  "base64_char n = base64_alphabet ! n"

definition base64_index :: "char \<Rightarrow> nat option" where
  "base64_index c =
     (let n = length (takeWhile (\<lambda>d. d \<noteq> c) base64_alphabet) in if n < 64 then Some n else None)"

definition pad_char :: char where "pad_char = CHR ''=''"

fun base64_bytes :: "nat list \<Rightarrow> string" where
  "base64_bytes [] = []"
| "base64_bytes [a] = [base64_char (a div 4), base64_char (a mod 4 * 16), pad_char, pad_char]"
| "base64_bytes [a, b] =
     [base64_char (a div 4), base64_char (a mod 4 * 16 + b div 16), base64_char (b mod 16 * 4), pad_char]"
| "base64_bytes (a # b # c # r) =
     base64_char (a div 4) # base64_char (a mod 4 * 16 + b div 16) # base64_char (b mod 16 * 4 + c div 64)
       # base64_char (c mod 64) # base64_bytes r"

text \<open>\<open>StdEncoding.EncodeToString\<close>\<close>

definition base64_encode :: "string \<Rightarrow> string" where
  "base64_encode s = base64_bytes (map byte s)"

text \<open>The four characters of a quantum: the last one may be padded and then ends the text.\<close>

fun base64_quanta :: "string \<Rightarrow> nat list option" where
  "base64_quanta [] = Some []"
| "base64_quanta (p # q # r # s # t) =
     (case (base64_index p, base64_index q) of
        (Some a, Some b) \<Rightarrow>
          if r = pad_char then (if s = pad_char \<and> t = [] then Some [a * 4 + b div 16] else None)
          else (case base64_index r of
                  None \<Rightarrow> None
                | Some c \<Rightarrow>
                    if s = pad_char then (if t = [] then Some [a * 4 + b div 16, b mod 16 * 16 + c div 4] else None)
                    else (case base64_index s of
                            None \<Rightarrow> None
                          | Some d \<Rightarrow> map_option (\<lambda>l. [a * 4 + b div 16, b mod 16 * 16 + c div 4, c mod 4 * 64 + d] @ l)
                              (base64_quanta t)))
      | _ \<Rightarrow> None)"
| "base64_quanta _ = None"

text \<open>\<open>StdEncoding.DecodeString\<close>: line breaks are ignored, unused bits of the last quantum too.\<close>

definition base64_decode :: "string \<Rightarrow> string option" where
  "base64_decode s =
     map_option (map char_of) (base64_quanta (filter (\<lambda>c. byte c \<noteq> 10 \<and> byte c \<noteq> 13) s))"

section \<open>JSON strings\<close>

definition json_quote :: char where "json_quote = CHR 0x22"
definition backslash :: char where "backslash = CHR 0x5C"

definition json_rune :: "nat \<Rightarrow> string" where
  "json_rune r =
     (if r = 0x22 \<or> r = 0x5C then [backslash, char_of r]
      else if r = 8 then [backslash, CHR ''b''] else if r = 12 then [backslash, CHR ''f'']
      else if r = 10 then [backslash, CHR ''n''] else if r = 13 then [backslash, CHR ''r'']
      else if r = 9 then [backslash, CHR ''t'']
      else if r < 0x20 \<or> r = 0x26 \<or> r = 0x3C \<or> r = 0x3E \<or> r = 0x2028 \<or> r = 0x2029
      then [backslash, CHR ''u''] @ hex_digits 4 r
      else encode_rune r)"

function json_escape :: "string \<Rightarrow> string" where
  "json_escape s =
     (if s = [] then []
      else (let (r, w) = decode_rune s in
        (if w = 1 \<and> r = rune_error then [backslash, CHR ''u''] @ hex_digits 4 rune_error else json_rune r)
          @ json_escape (drop (max 1 w) s)))"
  by pat_completeness auto
termination
  by (relation "measure length") auto

declare json_escape.simps [simp del]

definition json_string :: "string \<Rightarrow> string" where
  "json_string s = json_quote # json_escape s @ [json_quote]"

definition hex_val :: "char \<Rightarrow> nat option" where
  "hex_val c =
     (let n = byte c in
      if 48 \<le> n \<and> n \<le> 57 then Some (n - 48) else if 97 \<le> n \<and> n \<le> 102 then Some (n - 87)
      else if 65 \<le> n \<and> n \<le> 70 then Some (n - 55) else None)"

definition hex4 :: "string \<Rightarrow> nat option" where
  "hex4 s =
     (case map hex_val (take 4 s) of
        [Some a, Some b, Some c, Some d] \<Rightarrow> Some (a * 4096 + b * 256 + c * 16 + d)
      | _ \<Rightarrow> None)"

text \<open>The rune of a \<open>u\<close> escape and what is left: a surrogate needs its other half.\<close>

definition unicode_escape :: "nat \<Rightarrow> string \<Rightarrow> nat \<times> string" where
  "unicode_escape r rest =
     (if r < 0xD800 \<or> 0xDFFF < r then (r, rest)
      else if r < 0xDC00 \<and> take 2 rest = [backslash, CHR ''u'']
      then (case hex4 (drop 2 rest) of
              Some l \<Rightarrow> if 0xDC00 \<le> l \<and> l \<le> 0xDFFF then ((r - 0xD800) * 0x400 + (l - 0xDC00) + 0x10000, drop 6 rest)
                        else (rune_error, rest)
            | None \<Rightarrow> (rune_error, rest))
      else (rune_error, rest))"

definition simple_escape :: "char \<Rightarrow> char option" where
  "simple_escape c =
     map_of [(json_quote, json_quote), (backslash, backslash), (CHR ''/'', CHR ''/''), (CHR ''b'', CHR 0x08),
       (CHR ''f'', CHR 0x0C), (CHR ''n'', CHR 0x0A), (CHR ''r'', CHR 0x0D), (CHR ''t'', CHR 0x09)] c"

text \<open>The text after an opening quote: the string and what follows its closing quote.\<close>

function json_unescape :: "string \<Rightarrow> (string \<times> string) option" where
  "json_unescape s =
     (case s of
        [] \<Rightarrow> None
      | c # cs \<Rightarrow>
          if c = json_quote then Some ([], cs)
          else if c = backslash then
            (case cs of
               [] \<Rightarrow> None
             | e # es \<Rightarrow>
                 if e = CHR ''u'' then
                   (case hex4 es of
                      None \<Rightarrow> None
                    | Some r \<Rightarrow> (let (u, rest) = unicode_escape r (drop 4 es) in
                        map_option (apfst ((@) (encode_rune u))) (json_unescape rest)))
                 else (case simple_escape e of
                         None \<Rightarrow> None
                       | Some b \<Rightarrow> map_option (apfst ((@) [b])) (json_unescape es)))
          else if byte c < 0x20 then None
          else (let (r, w) = decode_rune s in
                map_option (apfst ((@) (encode_rune r))) (json_unescape (drop (max 1 w) s))))"
  by pat_completeness auto
termination
  by (relation "measure length") (auto simp: unicode_escape_def split: if_splits option.splits)

declare json_unescape.simps [simp del]

section \<open>JSON values\<close>

datatype json_value =
  VNull | VBool bool | VNumber string | VString string | VArray "json_value list"
| VObject "(string \<times> json_value) list"

definition skip_ws :: "string \<Rightarrow> string" where
  "skip_ws s = dropWhile (\<lambda>c. byte c \<in> {0x20, 0x09, 0x0A, 0x0D}) s"

definition take_digits :: "string \<Rightarrow> string \<times> string" where
  "take_digits s = (takeWhile is_digit s, dropWhile is_digit s)"

definition number_fraction :: "string \<Rightarrow> (string \<times> string) option" where
  "number_fraction s =
     (case s of
        c # cs \<Rightarrow> if c = CHR ''.''
          then (let (ds, rest) = take_digits cs in if ds = [] then None else Some (c # ds, rest)) else Some ([], s)
      | [] \<Rightarrow> Some ([], s))"

definition number_exponent :: "string \<Rightarrow> (string \<times> string) option" where
  "number_exponent s =
     (case s of
        c # cs \<Rightarrow> if c = CHR ''e'' \<or> c = CHR ''E''
          then (let (sign, cs) = (case cs of d # ds \<Rightarrow> if d = CHR ''+'' \<or> d = CHR ''-'' then ([d], ds) else ([], cs)
                                  | [] \<Rightarrow> ([], cs));
                    (ds, rest) = take_digits cs
                in if ds = [] then None else Some (c # sign @ ds, rest))
          else Some ([], s)
      | [] \<Rightarrow> Some ([], s))"

definition number_integer :: "string \<Rightarrow> (string \<times> string) option" where
  "number_integer s =
     (if prefix ''0'' s then Some (''0'', tl s)
      else (let (ds, rest) = take_digits s in if ds = [] then None else Some (ds, rest)))"

definition json_number :: "string \<Rightarrow> (string \<times> string) option" where
  "json_number s =
     (let sign = (if prefix ''-'' s then ''-'' else []) in
      case number_integer (drop (length sign) s) of
        None \<Rightarrow> None
      | Some (i, rest) \<Rightarrow>
          (case number_fraction rest of
             None \<Rightarrow> None
           | Some (f, rest) \<Rightarrow> map_option (\<lambda>(e, rest). (sign @ i @ f @ e, rest)) (number_exponent rest)))"

definition literal :: "string \<Rightarrow> 'a \<Rightarrow> string \<Rightarrow> ('a \<times> string) option" where
  "literal word v s = (if prefix word s then Some (v, drop (length word) s) else None)"


text \<open>
  A value, its elements and its members, with fuel for the calls and \<open>d\<close> the levels of nesting
  that are left (\<open>encoding/json\<close> refuses more than 10000).
\<close>

fun parse_value :: "nat \<Rightarrow> nat \<Rightarrow> string \<Rightarrow> (json_value \<times> string) option"
and parse_elements :: "nat \<Rightarrow> nat \<Rightarrow> string \<Rightarrow> (json_value list \<times> string) option"
and parse_members :: "nat \<Rightarrow> nat \<Rightarrow> string \<Rightarrow> ((string \<times> json_value) list \<times> string) option" where
  "parse_value 0 d s = None"
| "parse_value (Suc k) d s =
     (case skip_ws s of
        [] \<Rightarrow> None
      | c # cs \<Rightarrow>
          if c = json_quote then map_option (apfst VString) (json_unescape cs)
          else if c = CHR ''{'' then
            (if d = 0 then None
             else if prefix ''}'' (skip_ws cs) then Some (VObject [], tl (skip_ws cs))
             else map_option (apfst VObject) (parse_members k (d - 1) cs))
          else if c = CHR ''['' then
            (if d = 0 then None
             else if prefix '']'' (skip_ws cs) then Some (VArray [], tl (skip_ws cs))
             else map_option (apfst VArray) (parse_elements k (d - 1) cs))
          else if c = CHR ''t'' then literal ''true'' (VBool True) (c # cs)
          else if c = CHR ''f'' then literal ''false'' (VBool False) (c # cs)
          else if c = CHR ''n'' then literal ''null'' VNull (c # cs)
          else map_option (apfst VNumber) (json_number (c # cs)))"
| "parse_elements 0 d s = None"
| "parse_elements (Suc k) d s =
     (case parse_value k d s of
        None \<Rightarrow> None
      | Some (v, rest) \<Rightarrow>
          (case skip_ws rest of
             [] \<Rightarrow> None
           | c # cs \<Rightarrow>
               if c = CHR '','' then map_option (apfst ((#) v)) (parse_elements k d cs)
               else if c = CHR '']'' then Some ([v], cs) else None))"
| "parse_members 0 d s = None"
| "parse_members (Suc k) d s =
     (case skip_ws s of
        [] \<Rightarrow> None
      | c # cs \<Rightarrow>
          if c \<noteq> json_quote then None
          else (case json_unescape cs of
                  None \<Rightarrow> None
                | Some (name, rest) \<Rightarrow>
                    if \<not> prefix '':'' (skip_ws rest) then None
                    else (case parse_value k d (tl (skip_ws rest)) of
                            None \<Rightarrow> None
                          | Some (v, rest) \<Rightarrow>
                              (case skip_ws rest of
                                 [] \<Rightarrow> None
                               | c # cs \<Rightarrow>
                                   if c = CHR '','' then map_option (apfst ((#) (name, v))) (parse_members k d cs)
                                   else if c = CHR ''}'' then Some ([(name, v)], cs) else None))))"

definition json_fuel :: "string \<Rightarrow> nat" where
  "json_fuel s = 2 * length s + 2"

definition max_nesting_depth :: nat where "max_nesting_depth = 10000"

definition json_parse :: "string \<Rightarrow> json_value option" where
  "json_parse s =
     (case parse_value (json_fuel s) max_nesting_depth s of
        None \<Rightarrow> None
      | Some (v, rest) \<Rightarrow> if skip_ws rest = [] then Some v else None)"

section \<open>The fuel is enough\<close>

lemma length_skip_ws: "length (skip_ws s) \<le> length s"
  by (simp add: skip_ws_def length_dropWhile_le)

lemma skip_ws_ConsD: "skip_ws s = c # cs \<Longrightarrow> length cs < length s"
  using length_skip_ws [of s] by simp

lemma length_tl_skip_ws: "length (tl (skip_ws s)) \<le> length s"
  using length_skip_ws [of s] by simp

lemma unicode_escape_rest: "unicode_escape r s = (u, rest) \<Longrightarrow> length rest \<le> length s"
  by (auto simp: unicode_escape_def split: if_splits option.splits)

lemma json_unescape_rest: "json_unescape s = Some (v, rest) \<Longrightarrow> length rest < length s"
proof (induction s arbitrary: v rest rule: length_induct)
  case (1 s)
  then have IH: "length rest < length t" if "json_unescape t = Some (v, rest)" "length t < length s" for t v rest
    using that by blast
  from 1(2) show ?case
    by (subst (asm) json_unescape.simps)
      (auto split: list.splits if_splits option.splits prod.splits dest!: IH unicode_escape_rest)
qed

lemma length_take_digits: "take_digits s = (ds, rest) \<Longrightarrow> length rest + length ds = length s"
  using arg_cong [OF takeWhile_dropWhile_id, of length is_digit s] by (auto simp: take_digits_def simp del: takeWhile_dropWhile_id)

lemma number_parts_rest:
  "number_fraction s = Some (v, rest) \<Longrightarrow> length rest \<le> length s"
  "number_exponent s = Some (v, rest) \<Longrightarrow> length rest \<le> length s"
  by (auto simp: number_fraction_def number_exponent_def Let_def
      split: list.splits if_splits prod.splits dest!: length_take_digits)

lemma number_integer_rest: "number_integer s = Some (v, rest) \<Longrightarrow> length rest < length s"
  by (cases s; cases v) (auto simp: number_integer_def split: if_splits prod.splits dest!: length_take_digits)

lemma json_number_rest: "json_number s = Some (v, rest) \<Longrightarrow> length rest < length s"
  by (auto simp: json_number_def Let_def split: option.splits dest!: number_parts_rest number_integer_rest)

lemma literal_rest: "literal w v s = Some (v', rest) \<Longrightarrow> w \<noteq> [] \<Longrightarrow> length rest < length s"
  by (auto simp: literal_def prefix_def split: if_splits)

lemma parse_rest:
  "parse_value k d s = Some (v, rest) \<Longrightarrow> length rest < length s"
  "parse_elements k d s = Some (vs, rest) \<Longrightarrow> length rest < length s"
  "parse_members k d s = Some (ms, rest) \<Longrightarrow> length rest < length s"
proof (induction k arbitrary: d s v rest vs ms)
  case (Suc k)
  {
    case 1
    then obtain c cs where c: "skip_ws s = c # cs" by (auto split: list.splits)
    note l = skip_ws_ConsD [OF c] length_skip_ws [of s] length_tl_skip_ws [of cs]
    from 1 c l show ?case
      by (auto split: if_splits dest!: json_unescape_rest json_number_rest literal_rest Suc.IH)
  next
    case 2
    then obtain w r c cs where v: "parse_value k d s = Some (w, r)" and c: "skip_ws r = c # cs"
      by (auto split: list.splits option.splits)
    from 2 c v skip_ws_ConsD [OF c] Suc.IH(1) [OF v] show ?case
      by (auto split: if_splits dest!: Suc.IH(2))
  next
    case 3
    then obtain c cs name r1 w r2 e es where
      c: "skip_ws s = c # cs" "c = json_quote" and n: "json_unescape cs = Some (name, r1)"
      and p: "prefix '':'' (skip_ws r1)" and v: "parse_value k d (tl (skip_ws r1)) = Some (w, r2)"
      and e: "skip_ws r2 = e # es"
      by (auto split: list.splits option.splits if_splits)
    note l = skip_ws_ConsD [OF c(1)] json_unescape_rest [OF n] length_tl_skip_ws [of r1] skip_ws_ConsD [OF e]
      Suc.IH(1) [OF v]
    from 3 c n p v e l show ?case by (auto split: if_splits dest!: Suc.IH(3))
  }
qed simp_all

text \<open>From twice the length of the text on, more fuel changes nothing.\<close>

lemma parse_fuel:
  "2 * length s < k \<Longrightarrow> 2 * length s < k' \<Longrightarrow> parse_value k d s = parse_value k' d s"
  "2 * length s + 1 < k \<Longrightarrow> 2 * length s + 1 < k' \<Longrightarrow> parse_elements k d s = parse_elements k' d s"
  "2 * length s < k \<Longrightarrow> 2 * length s < k' \<Longrightarrow> parse_members k d s = parse_members k' d s"
proof (induction k arbitrary: k' d s)
  case (Suc k)
  {
    case 1
    then obtain j where j: "k' = Suc j" by (cases k') auto
    show ?case
    proof (cases "skip_ws s")
      case (Cons c cs)
      note skip_ws_ConsD [OF Cons]
      then have "2 * length cs + 1 < k" "2 * length cs + 1 < j" using 1 j by simp_all
      then show ?thesis using Cons Suc.IH(2) [of cs j] Suc.IH(3) [of cs j] by (simp add: j)
    qed (simp add: j)
  next
    case 2
    then obtain j where j: "k' = Suc j" by (cases k') auto
    with 2 have v: "parse_value k d s = parse_value j d s" by (intro Suc.IH(1)) auto
    have e: "parse_elements k d cs = parse_elements j d cs"
      if "parse_value j d s = Some (w, r)" "skip_ws r = c # cs" for w r c cs
      using parse_rest(1) [OF that(1)] skip_ws_ConsD [OF that(2)] 2 j by (intro Suc.IH(2)) auto
    show ?case by (auto simp: j v e split: option.splits list.splits)
  next
    case 3
    then obtain j where j: "k' = Suc j" by (cases k') auto
    have v: "parse_value k d (tl (skip_ws r)) = parse_value j d (tl (skip_ws r))"
      if "skip_ws s = c # cs" "json_unescape cs = Some (n, r)" for c cs n r
      using skip_ws_ConsD [OF that(1)] json_unescape_rest [OF that(2)] length_tl_skip_ws [of r] 3 j
      by (intro Suc.IH(1)) auto
    have m: "parse_members k d es = parse_members j d es"
      if "skip_ws s = c # cs" "json_unescape cs = Some (n, r)" "parse_value j d (tl (skip_ws r)) = Some (w, r2)"
        "skip_ws r2 = e # es" for c cs n r w r2 e es
      using skip_ws_ConsD [OF that(1)] json_unescape_rest [OF that(2)] length_tl_skip_ws [of r]
        parse_rest(1) [OF that(3)] skip_ws_ConsD [OF that(4)] 3 j by (intro Suc.IH(3)) auto
    show ?case by (auto simp: j v m split: option.splits list.splits)
  }
qed simp_all

section \<open>Round trips\<close>

lemma base64_index_char: "n < 64 \<Longrightarrow> base64_index (base64_char n) = Some n"
proof -
  have "list_all (\<lambda>n. base64_index (base64_char n) = Some n) [0..<64]" by code_simp
  then show "n < 64 \<Longrightarrow> ?thesis" by (auto simp: list_all_iff)
qed

lemma base64_char_plain: "n < 64 \<Longrightarrow> base64_char n \<noteq> pad_char \<and> byte (base64_char n) \<noteq> 10 \<and> byte (base64_char n) \<noteq> 13"
proof -
  have "list_all (\<lambda>n. base64_char n \<noteq> pad_char \<and> byte (base64_char n) \<noteq> 10 \<and> byte (base64_char n) \<noteq> 13) [0..<64]"
    by code_simp
  then show "n < 64 \<Longrightarrow> ?thesis" by (auto simp: list_all_iff)
qed

lemma sextets:
  fixes a b c :: nat
  assumes "a < 256" "b < 256" "c < 256"
  shows "a div 4 < 64" "a mod 4 * 16 < 64" "a mod 4 * 16 + b div 16 < 64" "b mod 16 * 4 < 64"
    "b mod 16 * 4 + c div 64 < 64" "c mod 64 < 64"
    "a div 4 * 4 + (a mod 4 * 16 + b div 16) div 16 = a" "a div 4 * 4 + (a mod 4 * 16) div 16 = a"
    "(a mod 4 * 16 + b div 16) mod 16 * 16 + (b mod 16 * 4 + c div 64) div 4 = b"
    "(a mod 4 * 16 + b div 16) mod 16 * 16 + (b mod 16 * 4) div 4 = b"
    "(b mod 16 * 4 + c div 64) mod 4 * 64 + c mod 64 = c"
proof -
  define x y u v p q where "x = a div 4" and "y = a mod 4" and "u = b div 16" and "v = b mod 16"
    and "p = c div 64" and "q = c mod 64"
  have eq: "a = 4 * x + y" "b = 16 * u + v" "c = 64 * p + q"
    by (simp_all add: x_def y_def u_def v_def p_def q_def)
  have lt: "y < 4" "v < 16" "q < 64" "x < 64" "u < 16" "p < 4"
    using assms by (auto simp: x_def y_def u_def v_def p_def q_def)
  have d: "a div 4 = x" "a mod 4 = y" "b div 16 = u" "b mod 16 = v" "c div 64 = p" "c mod 64 = q"
    by (simp_all add: x_def y_def u_def v_def p_def q_def)
  have r: "(y * 16 + u) div 16 = y" "(y * 16 + u) mod 16 = u" "(v * 4 + p) div 4 = v" "(v * 4 + p) mod 4 = p"
    using lt by (simp_all add: div_mult_self3)
  show "a div 4 < 64" "a mod 4 * 16 < 64" "a mod 4 * 16 + b div 16 < 64" "b mod 16 * 4 < 64"
    "b mod 16 * 4 + c div 64 < 64" "c mod 64 < 64"
    "a div 4 * 4 + (a mod 4 * 16 + b div 16) div 16 = a" "a div 4 * 4 + (a mod 4 * 16) div 16 = a"
    "(a mod 4 * 16 + b div 16) mod 16 * 16 + (b mod 16 * 4 + c div 64) div 4 = b"
    "(a mod 4 * 16 + b div 16) mod 16 * 16 + (b mod 16 * 4) div 4 = b"
    "(b mod 16 * 4 + c div 64) mod 4 * 64 + c mod 64 = c"
    unfolding d r using lt eq by linarith+
qed

definition base64_plain :: "char set" where
  "base64_plain = insert pad_char (base64_char ` {..<64})"

lemma base64_plainI: "n < 64 \<Longrightarrow> base64_char n \<in> base64_plain"
  by (simp add: base64_plain_def)

lemma base64_plainD: "c \<in> base64_plain \<Longrightarrow> byte c \<noteq> 10 \<and> byte c \<noteq> 13"
  by (auto simp: base64_plain_def base64_char_plain) (auto simp: pad_char_def)

lemma base64_bytes_plain: "\<forall>n \<in> set l. n < 256 \<Longrightarrow> set (base64_bytes l) \<subseteq> base64_plain"
proof (induction l rule: base64_bytes.induct)
  case (2 a)
  then have "a < 256" by simp
  note s = sextets [OF this this this]
  have "pad_char \<in> base64_plain" by (simp add: base64_plain_def)
  then show ?case
    unfolding base64_bytes.simps list.set insert_subset
    using base64_plainI [OF s(1)] base64_plainI [OF s(2)] by blast
next
  case (3 a b)
  then have "a < 256" "b < 256" by simp_all
  note s = sextets [OF this this(2)]
  have "pad_char \<in> base64_plain" by (simp add: base64_plain_def)
  then show ?case
    unfolding base64_bytes.simps list.set insert_subset
    using base64_plainI [OF s(1)] base64_plainI [OF s(3)] base64_plainI [OF s(4)] by blast
next
  case (4 a b c r)
  then have "a < 256" "b < 256" "c < 256" by simp_all
  note s = sextets [OF this]
  have "set (base64_bytes r) \<subseteq> base64_plain" using 4 by simp
  then show ?case
    unfolding base64_bytes.simps list.set insert_subset
    using base64_plainI [OF s(1)] base64_plainI [OF s(3)] base64_plainI [OF s(5)] base64_plainI [OF s(6)] by blast
qed simp

lemma base64_quanta_bytes: "\<forall>n \<in> set l. n < 256 \<Longrightarrow> base64_quanta (base64_bytes l) = Some l"
proof (induction l rule: base64_bytes.induct)
  case (2 a)
  then have "a < 256" by simp
  note s = sextets [OF this this this]
  show ?case
    unfolding base64_bytes.simps base64_quanta.simps s(1,2) [THEN base64_index_char] option.case prod.case s(8)
    by simp
next
  case (3 a b)
  then have "a < 256" "b < 256" by simp_all
  note s = sextets [OF this this(2)]
  show ?case
    unfolding base64_bytes.simps base64_quanta.simps s(1,3,4) [THEN base64_index_char] option.case prod.case s(7,10)
    using base64_char_plain [OF s(4)] by simp
next
  case (4 a b c r)
  then have "a < 256" "b < 256" "c < 256" by simp_all
  note s = sextets [OF this]
  have "base64_quanta (base64_bytes r) = Some r" using 4 by simp
  then show ?case
    unfolding base64_bytes.simps base64_quanta.simps s(1,3,5,6) [THEN base64_index_char] option.case prod.case s(7,9,11)
    using base64_char_plain [OF s(5)] base64_char_plain [OF s(6)] by simp
qed simp

lemma base64_decode_encode: "base64_decode (base64_encode s) = Some s"
proof -
  have b: "\<forall>n \<in> set (map byte s). n < 256" by simp
  have "filter (\<lambda>c. byte c \<noteq> 10 \<and> byte c \<noteq> 13) (base64_encode s) = base64_encode s"
    unfolding base64_encode_def using base64_bytes_plain [OF b] by (intro filter_True) (auto dest: base64_plainD)
  then show ?thesis
    using base64_quanta_bytes [OF b] by (simp add: base64_decode_def base64_encode_def comp_def)
qed

text \<open>A rune is read back; so reading a string back gives it with its invalid bytes replaced.\<close>

lemma hex_val_digit: "n < 16 \<Longrightarrow> hex_val (''0123456789abcdef'' ! n) = Some n"
proof -
  have "list_all (\<lambda>n. hex_val (''0123456789abcdef'' ! n) = Some n) [0..<16]" by code_simp
  then show "n < 16 \<Longrightarrow> ?thesis" by (auto simp: list_all_iff)
qed

definition hex_char :: "nat \<Rightarrow> char" where
  "hex_char n = ''0123456789abcdef'' ! n"

lemma hex_digits_4:
  "hex_digits 4 r = [hex_char (r div 16 div 16 div 16 mod 16), hex_char (r div 16 div 16 mod 16),
     hex_char (r div 16 mod 16), hex_char (r mod 16)]"
  unfolding hex_char_def numeral_nat by simp

lemma hex_groups:
  fixes r :: nat
  assumes "r < 65536"
  shows "r div 16 div 16 div 16 mod 16 * 4096 + r div 16 div 16 mod 16 * 256 + r div 16 mod 16 * 16 + r mod 16 = r"
proof -
  define q where "q = r div 16"
  define p where "p = q div 16"
  have r: "r = 16 * q + r mod 16" "q = 16 * p + q mod 16" "p = 16 * (p div 16) + p mod 16"
    by (simp_all add: q_def p_def)
  have "p div 16 < 16" using assms by (simp add: p_def q_def)
  then have "p div 16 mod 16 = p div 16" by simp
  then show ?thesis unfolding q_def [symmetric] p_def [symmetric] using r by linarith
qed

lemma hex4_chars:
  "a < 16 \<Longrightarrow> b < 16 \<Longrightarrow> c < 16 \<Longrightarrow> d < 16 \<Longrightarrow>
     hex4 (hex_char a # hex_char b # hex_char c # hex_char d # t) = Some (a * 4096 + b * 256 + c * 16 + d)"
  using hex_val_digit by (simp add: hex4_def hex_char_def [symmetric])

lemma hex4_digits: "r < 65536 \<Longrightarrow> hex4 (hex_digits 4 r @ t) = Some r"
  unfolding hex_digits_4 append_Cons append_Nil by (subst hex4_chars) (simp_all only: mod_less_divisor hex_groups)

lemma length_hex_digits [simp]: "length (hex_digits w r) = w"
  by (induction w arbitrary: r) auto

lemma json_unescape_escape:
  assumes "r < 65536" "r < 0xD800 \<or> 0xDFFF < r"
  shows "json_unescape ([backslash, CHR ''u''] @ hex_digits 4 r @ t) = map_option (apfst ((@) (encode_rune r))) (json_unescape t)"
  using assms by (subst json_unescape.simps)
    (simp add: hex4_digits unicode_escape_def, simp add: backslash_def json_quote_def)

lemma json_unescape_simple:
  "simple_escape e = Some b \<Longrightarrow> e \<noteq> CHR ''u'' \<Longrightarrow>
     json_unescape (backslash # e # t) = map_option (apfst ((@) [b])) (json_unescape t)"
  by (subst json_unescape.simps) (simp, simp add: backslash_def json_quote_def)

lemma encode_rune_ascii: "r < 0x80 \<Longrightarrow> encode_rune r = [char_of r]"
  by (simp add: encode_rune_def encode_bytes_def)

lemma encode_rune_lead: "valid_rune r \<Longrightarrow> 0x80 \<le> r \<Longrightarrow> encode_rune r = c # cs \<Longrightarrow> 0x80 \<le> byte c"
proof -
  assume r: "valid_rune r" "0x80 \<le> r" and c: "encode_rune r = c # cs"
  obtain b bs where b: "encode_bytes r = b # bs" by (cases "encode_bytes r") (auto simp: encode_bytes_def split: if_splits)
  then have "0x80 \<le> b" using r by (auto simp: encode_bytes_def split: if_splits)
  moreover have "b < 256" using encode_bytes_range [OF r(1), of b] b by simp
  ultimately show ?thesis using b c by (auto simp: encode_rune_def)
qed

lemma json_unescape_plain:
  assumes "valid_rune r" "r \<noteq> 0x22" "r \<noteq> 0x5C" "0x20 \<le> r"
  shows "json_unescape (encode_rune r @ t) = map_option (apfst ((@) (encode_rune r))) (json_unescape t)"
proof -
  obtain c cs where c: "encode_rune r = c # cs" by (cases "encode_rune r") auto
  have "byte c \<noteq> 0x22 \<and> byte c \<noteq> 0x5C \<and> 0x20 \<le> byte c"
  proof (cases "r < 0x80")
    case True
    then have "byte c = r" using c by (auto simp: encode_rune_ascii)
    then show ?thesis using assms by simp
  next
    case False
    then have "0x80 \<le> byte c" using encode_rune_lead [OF assms(1) _ c] by simp
    then show ?thesis by simp
  qed
  then have "c \<noteq> json_quote" "c \<noteq> backslash" "\<not> byte c < 0x20" by (auto simp: json_quote_def backslash_def)
  then show ?thesis
    using decode_encode_rune [OF assms(1), of t] c by (subst json_unescape.simps) simp
qed

definition escaped_runes :: "(nat \<times> char) list" where
  "escaped_runes = [(0x22, json_quote), (0x5C, backslash), (8, CHR ''b''), (12, CHR ''f''), (10, CHR ''n''),
     (13, CHR ''r''), (9, CHR ''t'')]"

lemma escaped_runes_all:
  "list_all (\<lambda>(r, e). json_rune r = [backslash, e] \<and> simple_escape e = Some (char_of r) \<and> e \<noteq> CHR ''u'' \<and> r < 0x80)
     escaped_runes"
  by code_simp

lemma json_unescape_rune:
  assumes "valid_rune r"
  shows "json_unescape (json_rune r @ t) = map_option (apfst ((@) (encode_rune r))) (json_unescape t)"
proof (cases "r \<in> {0x22, 0x5C, 8, 12, 10, 13, 9}")
  case True
  then have "r \<in> fst ` set escaped_runes" by (simp add: escaped_runes_def)
  then obtain e where "(r, e) \<in> set escaped_runes" by auto
  from escaped_runes_all [unfolded list_all_iff, THEN bspec, OF this]
  have e: "json_rune r = [backslash, e]" "simple_escape e = Some (char_of r)" "e \<noteq> CHR ''u''" "r < 0x80"
    unfolding prod.case by blast+
  show ?thesis
    unfolding e(1) encode_rune_ascii [OF e(4)] append_Cons append_Nil json_unescape_simple [OF e(2,3)] ..
next
  case False
  show ?thesis
  proof (cases "r < 0x20 \<or> r = 0x26 \<or> r = 0x3C \<or> r = 0x3E \<or> r = 0x2028 \<or> r = 0x2029")
    case True
    then have e: "json_rune r = [backslash, CHR ''u''] @ hex_digits 4 r" "r < 65536" "r < 0xD800 \<or> 0xDFFF < r"
      using False by (auto simp: json_rune_def)
    show ?thesis unfolding e(1) append_assoc by (rule json_unescape_escape [unfolded append_assoc, OF e(2,3)])
  next
    case other: False
    then have "json_rune r = encode_rune r" using False by (simp add: json_rune_def)
    then show ?thesis using json_unescape_plain [OF assms] False other by simp
  qed
qed

lemma json_unescape_json_escape: "json_unescape (json_escape s @ json_quote # t) = Some (string_of_runes (runes s), t)"
proof (induction s rule: json_escape.induct)
  case (1 s)
  show ?case
  proof (cases "s = []")
    case True
    then show ?thesis by (simp add: json_escape.simps [of "[]"] json_unescape.simps [of "json_quote # t"])
  next
    case False
    obtain r w where rw: "decode_rune s = (r, w)" by fastforce
    note IH = "1.IH" [OF False rw [symmetric] refl]
    have r: "valid_rune r" using rw decode_bytes_valid [of "map byte (take 4 s)"] by (simp add: decode_rune_def)
    have e: "valid_rune rune_error" "rune_error < 65536" "rune_error < 0xD800 \<or> 0xDFFF < rune_error" by (simp_all add: rune_error_def valid_rune_def)
    have "runes s = r # runes (drop (max 1 w) s)"
      using False rw by (subst runes.simps) simp
    then show ?thesis
      using False rw IH json_unescape_rune [OF r] json_unescape_escape [OF e(2,3)]
      by (subst json_escape.simps) (auto simp: string_of_runes_simps)
  qed
qed

lemma json_string_roundtrip:
  "string_of_runes (runes s) = s \<Longrightarrow> json_unescape (tl (json_string s) @ t) = Some (s, t)"
  by (simp add: json_string_def json_unescape_json_escape)

text \<open>What the parser makes of values as they are written.\<close>

lemma skip_ws_quote [simp]: "skip_ws (json_quote # s) = json_quote # s"
  by (simp add: skip_ws_def json_quote_def)

lemma skip_ws_punctuation [simp]:
  "skip_ws (CHR '','' # s) = CHR '','' # s" "skip_ws (CHR '':'' # s) = CHR '':'' # s"
  "skip_ws (CHR ''{'' # s) = CHR ''{'' # s" "skip_ws (CHR ''}'' # s) = CHR ''}'' # s"
  by (simp_all add: skip_ws_def)

lemma skip_ws_json_string [simp]: "skip_ws (json_string a @ s) = json_string a @ s"
  by (simp add: json_string_def)

definition valid_text :: "string \<Rightarrow> bool" where
  "valid_text s = (string_of_runes (runes s) = s)"

lemma parse_value_string:
  "valid_text s \<Longrightarrow> parse_value (Suc k) d (json_string s @ t) = Some (VString s, t)"
  by (simp add: json_string_def json_unescape_json_escape valid_text_def)

lemma parse_members_step:
  assumes "valid_text n" "parse_value k d (skip_ws_value @ rest) = Some (v, rest)"
    and "skip_ws (skip_ws_value @ rest) = skip_ws_value @ rest"
  shows "parse_members (Suc k) d (json_string n @ CHR '':'' # skip_ws_value @ rest) =
    (case skip_ws rest of
       [] \<Rightarrow> None
     | c # cs \<Rightarrow> if c = CHR '','' then map_option (apfst ((#) (n, v))) (parse_members k d cs)
                else if c = CHR ''}'' then Some ([(n, v)], cs) else None)"
  using assms by (simp add: json_string_def json_unescape_json_escape valid_text_def)

lemma show_nat_leading: "n \<noteq> 0 \<Longrightarrow> hd (show_nat n) \<noteq> CHR ''0''"
proof (induction n rule: show_nat.induct)
  case (1 n)
  show ?case
  proof (cases "n < 10")
    case True
    then have "n \<in> {1,2,3,4,5,6,7,8,9}" using 1 by auto
    then show ?thesis by (auto simp: show_nat.simps [of n] digit_char_def)
  next
    case False
    with 1 have "hd (show_nat (n div 10)) \<noteq> CHR ''0''" by simp
    then show ?thesis using False by (simp add: show_nat.simps [of n])
  qed
qed

lemma takeWhile_digits_show_nat:
  "\<not> is_digit c \<Longrightarrow> takeWhile is_digit (show_nat n @ c # t) = show_nat n \<and> dropWhile is_digit (show_nat n @ c # t) = c # t"
  by (simp add: takeWhile_append2 dropWhile_append2 set_show_nat)

lemma number_integer_show_nat:
  assumes "\<not> is_digit c"
  shows "number_integer (show_nat n @ c # t) = Some (show_nat n, c # t)"
proof (cases "n = 0")
  case True
  then show ?thesis by (simp add: number_integer_def show_nat.simps [of 0] digit_char_def)
next
  case False
  obtain a as where a: "show_nat n = a # as" by (cases "show_nat n") auto
  then have "a \<noteq> CHR ''0''" using show_nat_leading [OF False] by simp
  then show ?thesis
    using takeWhile_digits_show_nat [OF assms, of n t] a by (simp add: number_integer_def take_digits_def)
qed

lemma json_number_show_int:
  assumes "c = CHR '','' \<or> c = CHR ''}''"
  shows "json_number (show_int i @ c # t) = Some (show_int i, c # t)"
proof -
  have c: "\<not> is_digit c" "number_fraction (c # t) = Some ([], c # t)" "number_exponent (c # t) = Some ([], c # t)"
    using assms by (auto simp: is_digit_def number_fraction_def number_exponent_def)
  have "\<not> prefix ''-'' (show_nat n @ c # t)" for n
    using hd_show_nat [of n] by (cases "show_nat n") auto
  then show ?thesis
    using c number_integer_show_nat [OF c(1), of _ t] by (auto simp: json_number_def show_int_def)
qed

lemma parse_value_number:
  assumes "c = CHR '','' \<or> c = CHR ''}''"
  shows "parse_value (Suc k) d (show_int i @ c # t) = Some (VNumber (show_int i), c # t)"
    and "skip_ws (show_int i @ c # t) = show_int i @ c # t"
proof -
  have "show_nat (nat i) \<noteq> []" by simp
  then have "is_digit (hd (show_nat (nat i)))" by (rule set_show_nat [OF hd_in_set])
  then obtain a as where a: "show_int i = a # as" and d: "a = CHR ''-'' \<or> is_digit a"
    by (cases "i < 0"; cases "show_nat (nat i)") (auto simp: show_int_def)
  show ws: "skip_ws (show_int i @ c # t) = show_int i @ c # t"
    using d by (auto simp: a skip_ws_def is_digit_def)
  have "a \<noteq> json_quote" "a \<noteq> CHR ''{''" "a \<noteq> CHR ''[''" "a \<noteq> CHR ''t''" "a \<noteq> CHR ''f''" "a \<noteq> CHR ''n''"
    using d by (auto simp: is_digit_def json_quote_def)
  then show "parse_value (Suc k) d (show_int i @ c # t) = Some (VNumber (show_int i), c # t)"
    using ws json_number_show_int [OF assms, of i t] by (simp add: a)
qed

end
