(* ===== verification/Provider.thy ===== *)
theory Provider
  imports Config Runner Json_Text Utf8
begin

text \<open>
  \<open>internal/provider\<close>: the model of the tests, the adapter to services with the interface of
  OpenAI, and the factory that resolves the name of a model.  The client of the service is a
  third-party package: the records below hold what the source passes to it and reads from it; its
  calls, and the accumulator that joins the chunks of a stream, are operations of a client.
\<close>

section \<open>Decoding arguments\<close>

text \<open>
  \<open>json.Unmarshal\<close> of a text into a map of values of any type: a number is read by
  \<open>pv_parse_float\<close>, which fails out of range, and of members with the same name the last one
  counts.  The texts of errors and the encoding of a map are the standard library's.
\<close>

record provider_env =
  pv_parse_float :: "string \<Rightarrow> rat option"
  pv_decode_error :: "string \<Rightarrow> go_error"
  pv_encode :: "json_object \<Rightarrow> string"
  pv_printable :: "nat \<Rightarrow> bool"

fun any_value :: "(string \<Rightarrow> rat option) \<Rightarrow> json_value \<Rightarrow> json \<times> bool" where
  "any_value pf VNull = (JNull, True)"
| "any_value pf (VBool b) = (JBool b, True)"
| "any_value pf (VString s) = (JStr s, True)"
| "any_value pf (VNumber n) = (case pf n of None \<Rightarrow> (JNull, False) | Some r \<Rightarrow> (JNum r, True))"
| "any_value pf (VArray vs) = (let rs = map (any_value pf) vs in (JArr (map fst rs), list_all snd rs))"
| "any_value pf (VObject ms) =
     (let rs = map (\<lambda>(k, v). (k, any_value pf v)) ms
      in (JObj (fold (\<lambda>(k, r). map_put k (fst r)) rs []), list_all (\<lambda>(k, r). snd r) rs))"

definition unmarshal_object :: "provider_env \<Rightarrow> string \<Rightarrow> json_object \<Rightarrow> go_error option \<times> json_object" where
  "unmarshal_object env raw args =
     (case json_parse raw of
        Some VNull \<Rightarrow> (None, [])
      | Some (VObject ms) \<Rightarrow>
          (let rs = map (\<lambda>(k, v). (k, any_value (pv_parse_float env) v)) ms
           in (if list_all (\<lambda>(k, r). snd r) rs then None else Some (pv_decode_error env raw),
               fold (\<lambda>(k, r). map_put k (fst r)) rs args))
      | _ \<Rightarrow> (Some (pv_decode_error env raw), args))"

section \<open>The fake model\<close>

definition fake_response_text :: "llm_provider_config \<Rightarrow> string" where
  "fake_response_text cfg =
     (if lp_fake_response_text cfg = [] then received_prefix @ ''{{last_user_message}}'' else lp_fake_response_text cfg)"

definition last_user_message :: "model_message list \<Rightarrow> string" where
  "last_user_message ms =
     (case find (\<lambda>m. mm_role m = ''user'' \<and> mm_content m \<noteq> []) (rev ms) of None \<Rightarrow> [] | Some m \<Rightarrow> mm_content m)"

definition first_system_message :: "model_message list \<Rightarrow> string" where
  "first_system_message ms =
     (case find (\<lambda>m. mm_role m = ''system'' \<and> mm_content m \<noteq> []) ms of None \<Rightarrow> [] | Some m \<Rightarrow> mm_content m)"

definition fake_chat :: "provider_env \<Rightarrow> string \<Rightarrow> llm_provider_config \<Rightarrow> model_request \<Rightarrow> model_result" where
  "fake_chat env name cfg req =
     (let ms = mq_messages req;
          text = replace_text ''{{message_roles}}'' (join '','' (map mm_role ms))
                   (replace_text ''{{first_system_message}}'' (first_system_message ms)
                     (replace_text ''{{last_user_message}}'' (last_user_message ms) (fake_response_text cfg)));
          seen_tool_result = list_ex (\<lambda>m. mm_role m = ''tool'') ms;
          calls = lp_fake_tool_name cfg \<noteq> [] \<and> \<not> seen_tool_result;
          raw = trim_space (lp_fake_tool_args_json cfg)
      in \<lparr> mr_text = (if calls then [] else text),
           mr_tool_calls = (if calls then [\<lparr> tc_id = ''fake-tool-call-1'', tc_name = lp_fake_tool_name cfg,
             tc_args = (if raw = [] then [] else snd (unmarshal_object env raw [])) \<rparr>] else []),
           mr_finish_reason = lp_fake_finish_reason cfg, mr_raw_finish_reason = lp_fake_raw_finish_reason cfg,
           mr_usage = \<lparr> us_prompt_tokens = lp_fake_prompt_tokens cfg, us_completion_tokens = lp_fake_completion_tokens cfg,
             us_total_tokens = wrap64 (lp_fake_prompt_tokens cfg + lp_fake_completion_tokens cfg) \<rparr>,
           mr_provider = name, mr_model = mq_model req, mr_provider_request_id = lp_fake_request_id cfg \<rparr>)"

fun chunk_runes :: "nat \<Rightarrow> nat list \<Rightarrow> string list" where
  "chunk_runes n [] = []"
| "chunk_runes n (r # rs) = string_of_runes (take (Suc n) (r # rs)) # chunk_runes n (drop n rs)"

definition split_runes :: "string \<Rightarrow> int \<Rightarrow> string list" where
  "split_runes text chunk_size = chunk_runes (nat (if chunk_size \<le> 0 then 1 else chunk_size) - 1) (runes text)"

text \<open>The deltas until the context is done: \<open>done n\<close> is its error at the check before delta \<open>n\<close>.\<close>

fun stream_deltas :: "(nat \<Rightarrow> go_error option) \<Rightarrow> nat \<Rightarrow> string list \<Rightarrow> model_delta list \<times> go_error option" where
  "stream_deltas cancelled n [] = ([], None)"
| "stream_deltas cancelled n (d # ds) =
     (case cancelled n of
        Some e \<Rightarrow> ([], Some e)
      | None \<Rightarrow> apfst ((#) (TextDelta d)) (stream_deltas cancelled (Suc n) ds))"

definition fake_stream_chat ::
  "provider_env \<Rightarrow> string \<Rightarrow> llm_provider_config \<Rightarrow> (nat \<Rightarrow> go_error option) \<Rightarrow> bool \<Rightarrow> model_request \<Rightarrow>
   model_delta list \<times> (go_error + model_result)" where
  "fake_stream_chat env name cfg cancelled has_sink req =
     (let r = fake_chat env name cfg req in
      if \<not> has_sink \<or> trim_space (mr_text r) = []
      then ([], case cancelled 0 of Some e \<Rightarrow> Inl e | None \<Rightarrow> Inr r)
      else (let (deltas, err) = stream_deltas cancelled 0 (split_runes (mr_text r) 4)
            in (deltas, case err of Some e \<Rightarrow> Inl e | None \<Rightarrow> Inr r)))"

section \<open>Requests to the service\<close>

record function_call =
  fn_id :: string
  fn_name :: string
  fn_arguments :: string

datatype message_param =
  AssistantParam "string option" "function_call list" | ToolParam string string | SystemParam string | UserParam string

record chat_params =
  cp_model :: string
  cp_messages :: "message_param list"
  cp_tool_choice_auto :: bool
  cp_tools :: "tool_definition list"
  cp_include_usage :: bool

definition message_param_of :: "provider_env \<Rightarrow> model_message \<Rightarrow> message_param" where
  "message_param_of env m =
     (if mm_role m = ''assistant'' then
        AssistantParam (if trim_space (mm_content m) \<noteq> [] then Some (mm_content m) else None)
          (map (\<lambda>c. \<lparr> fn_id = tc_id c, fn_name = tc_name c, fn_arguments = pv_encode env (tc_args c) \<rparr>) (mm_tool_calls m))
      else if mm_role m = ''tool'' then ToolParam (mm_content m) (mm_tool_call_id m)
      else if mm_role m = ''system'' then SystemParam (mm_content m)
      else UserParam (mm_content m))"

definition build_chat_messages :: "provider_env \<Rightarrow> model_message list \<Rightarrow> message_param list" where
  "build_chat_messages env ms = map (message_param_of env) ms"

definition build_chat_completion_params :: "provider_env \<Rightarrow> model_request \<Rightarrow> bool \<Rightarrow> chat_params" where
  "build_chat_completion_params env req include_usage =
     \<lparr> cp_model = mq_model req, cp_messages = build_chat_messages env (mq_messages req),
       cp_tool_choice_auto = (mq_tools req \<noteq> []), cp_tools = mq_tools req, cp_include_usage = include_usage \<rparr>"

section \<open>Answers of the service\<close>

record completion_choice =
  ch_content :: string
  ch_finish_reason :: string
  ch_tool_calls :: "function_call list"

record completion =
  cm_id :: string
  cm_model :: string
  cm_usage :: usage
  cm_choices :: "completion_choice list"

record tool_delta =
  dl_index :: int
  dl_id :: string
  dl_name :: string
  dl_arguments :: string

record chunk_choice =
  kc_index :: int
  kc_content :: string
  kc_tool_calls :: "tool_delta list"

record chunk =
  ck_choices :: "chunk_choice list"

text \<open>The client; \<open>oa_add_chunk\<close> is the third-party accumulator, which may refuse a chunk.\<close>

record ('w, 'a) openai_client =
  oa_complete :: "chat_params \<Rightarrow> 'w \<Rightarrow> (go_error + completion) \<times> 'w"
  oa_stream :: "chat_params \<Rightarrow> 'w \<Rightarrow> (chunk list \<times> go_error option) \<times> 'w"
  oa_empty :: 'a
  oa_add_chunk :: "chunk \<Rightarrow> 'a \<Rightarrow> 'a option"
  oa_completion :: "'a \<Rightarrow> completion"

definition invalid_response :: "string \<Rightarrow> string \<Rightarrow> go_error \<Rightarrow> go_error" where
  "invalid_response name operation err =
     CapabilityError (new_capability_error ''provider'' name operation CapabilityErrorInvalidResponse (Some err))"

definition wrap_provider_error :: "string \<Rightarrow> string \<Rightarrow> go_error \<Rightarrow> go_error" where
  "wrap_provider_error name operation err = the (wrap_capability_error ''provider'' name operation (Some err))"

definition completion_result :: "string \<Rightarrow> completion \<Rightarrow> completion_choice \<Rightarrow> tool_call list \<Rightarrow> model_result" where
  "completion_result name resp choice calls =
     \<lparr> mr_text = ch_content choice, mr_tool_calls = calls, mr_finish_reason = ch_finish_reason choice,
       mr_raw_finish_reason = ch_finish_reason choice, mr_usage = cm_usage resp, mr_provider = name,
       mr_model = cm_model resp, mr_provider_request_id = cm_id resp \<rparr>"

text \<open>An error of decoding the arguments is ignored here, not in a stream.\<close>

definition complete_tool_call :: "provider_env \<Rightarrow> function_call \<Rightarrow> tool_call" where
  "complete_tool_call env f =
     \<lparr> tc_id = fn_id f, tc_name = fn_name f,
       tc_args = (if fn_arguments f = [] then [] else snd (unmarshal_object env (fn_arguments f) [])) \<rparr>"

definition chat_result_from_completion :: "provider_env \<Rightarrow> string \<Rightarrow> completion \<Rightarrow> model_result" where
  "chat_result_from_completion env name resp =
     (let choice = hd (cm_choices resp) in
      completion_result name resp choice (map (complete_tool_call env) (ch_tool_calls choice)))"

definition openai_chat :: "provider_env \<Rightarrow> string \<Rightarrow> ('w, 'a) openai_client \<Rightarrow> model_request \<Rightarrow> 'w \<Rightarrow> (go_error + model_result) \<times> 'w" where
  "openai_chat env name client req w =
     (case oa_complete client (build_chat_completion_params env req False) w of
        (Inl e, w') \<Rightarrow> (Inl (wrap_provider_error name ''chat'' e), w')
      | (Inr resp, w') \<Rightarrow>
          (if cm_choices resp = []
           then Inl (invalid_response name ''chat'' (TextError ''openai-compatible provider returned no choices''))
           else Inr (chat_result_from_completion env name resp), w'))"

section \<open>Joining the tool calls of a stream\<close>

record accumulated_tool_call =
  at_choice_index :: int
  at_tool_index :: int
  at_tool_call_id :: string
  at_name :: string
  at_arguments :: string

definition clamp_tool_index :: "int \<Rightarrow> int" where
  "clamp_tool_index i = (if i < 0 then 0 else i)"

definition accumulator_key :: "accumulated_tool_call \<Rightarrow> int \<times> int" where
  "accumulator_key a = (at_choice_index a, at_tool_index a)"

definition extend_call :: "tool_delta \<Rightarrow> accumulated_tool_call \<Rightarrow> accumulated_tool_call" where
  "extend_call d a =
     a\<lparr>at_tool_call_id := (if dl_id d \<noteq> [] then dl_id d else at_tool_call_id a),
       at_name := at_name a @ dl_name d, at_arguments := at_arguments a @ dl_arguments d\<rparr>"

definition new_call :: "int \<Rightarrow> int \<Rightarrow> accumulated_tool_call" where
  "new_call choice tool = \<lparr> at_choice_index = choice, at_tool_index = tool, at_tool_call_id = [], at_name = [], at_arguments = [] \<rparr>"

fun add_delta :: "int \<Rightarrow> tool_delta \<Rightarrow> accumulated_tool_call list \<Rightarrow> accumulated_tool_call list" where
  "add_delta choice d [] = [extend_call d (new_call choice (clamp_tool_index (dl_index d)))]"
| "add_delta choice d (a # as) =
     (if accumulator_key a = (choice, clamp_tool_index (dl_index d)) then extend_call d a # as
      else a # add_delta choice d as)"

definition add_chunk :: "chunk \<Rightarrow> accumulated_tool_call list \<Rightarrow> accumulated_tool_call list" where
  "add_chunk c as = fold (\<lambda>choice. fold (add_delta (kc_index choice)) (kc_tool_calls choice)) (ck_choices c) as"

definition invalid_tool_arguments_error :: "provider_env \<Rightarrow> string \<Rightarrow> go_error \<Rightarrow> go_error" where
  "invalid_tool_arguments_error env name err =
     WrappedError (''invalid tool arguments for '' @ go_quote (pv_printable env) name @ '': '') err"

definition build_tool_call :: "provider_env \<Rightarrow> accumulated_tool_call \<Rightarrow> go_error + tool_call" where
  "build_tool_call env a =
     (let raw = trim_space (at_arguments a);
          (err, args) = (if raw = [] then (None, []) else unmarshal_object env raw [])
      in case err of
           Some e \<Rightarrow> Inl (invalid_tool_arguments_error env (at_name a) e)
         | None \<Rightarrow> Inr \<lparr> tc_id = (if at_tool_call_id a = [] then ''tool_call_'' @ show_int (at_tool_index a) else at_tool_call_id a),
             tc_name = at_name a, tc_args = args \<rparr>)"

fun collect_calls :: "('a \<Rightarrow> 'e + 'b) \<Rightarrow> 'a list \<Rightarrow> 'e + 'b list" where
  "collect_calls f [] = Inr []"
| "collect_calls f (x # xs) = 
     (case f x of
        Inl e \<Rightarrow> Inl e
      | Inr y \<Rightarrow> (case collect_calls f xs of Inl e \<Rightarrow> Inl e | Inr ys \<Rightarrow> Inr (y # ys)))"

definition build_tool_calls :: "provider_env \<Rightarrow> int \<Rightarrow> accumulated_tool_call list \<Rightarrow> go_error + tool_call list" where
  "build_tool_calls env choice as =
     collect_calls (build_tool_call env) (sort_key at_tool_index (filter (\<lambda>a. at_choice_index a = choice) as))"

definition chat_result_from_accumulator ::
  "provider_env \<Rightarrow> string \<Rightarrow> completion \<Rightarrow> accumulated_tool_call list \<Rightarrow> go_error + model_result" where
  "chat_result_from_accumulator env name resp tools =
     (if cm_choices resp = []
      then Inl (invalid_response name ''stream_chat'' (TextError ''openai-compatible provider returned no streaming choices''))
      else (case build_tool_calls env 0 tools of
              Inl e \<Rightarrow> Inl (invalid_response name ''stream_chat'' e)
            | Inr calls \<Rightarrow> Inr (completion_result name resp (hd (cm_choices resp)) calls)))"

section \<open>Streaming\<close>

definition chunk_deltas :: "bool \<Rightarrow> chunk \<Rightarrow> model_delta list" where
  "chunk_deltas has_sink c =
     (if has_sink
      then map (\<lambda>choice. TextDelta (kc_content choice))
             (filter (\<lambda>choice. kc_index choice = 0 \<and> kc_content choice \<noteq> []) (ck_choices c))
      else [])"

text \<open>The loop over the chunks: the deltas, and None when the accumulator refused a chunk.\<close>

fun stream_chunks ::
  "(chunk \<Rightarrow> 'a \<Rightarrow> 'a option) \<Rightarrow> bool \<Rightarrow> chunk list \<Rightarrow> 'a \<Rightarrow> accumulated_tool_call list \<Rightarrow>
   model_delta list \<times> ('a \<times> accumulated_tool_call list) option" where
  "stream_chunks add has_sink [] acc tools = ([], Some (acc, tools))"
| "stream_chunks add has_sink (c # cs) acc tools =
     (case add c acc of
        None \<Rightarrow> ([], None)
      | Some acc' \<Rightarrow> apfst ((@) (chunk_deltas has_sink c)) (stream_chunks add has_sink cs acc' (add_chunk c tools)))"

definition openai_stream_chat ::
  "provider_env \<Rightarrow> string \<Rightarrow> ('w, 'a) openai_client \<Rightarrow> bool \<Rightarrow> 'w invoker" where
  "openai_stream_chat env name client has_sink req w =
     (let ((chunks, stream_err), w') = oa_stream client (build_chat_completion_params env req True) w;
          (deltas, r) = stream_chunks (oa_add_chunk client) has_sink chunks (oa_empty client) []
      in ((deltas,
           (case r of
              None \<Rightarrow> Inl (invalid_response name ''stream_chat''
                        (TextError ''openai-compatible provider returned inconsistent streaming chunks''))
            | Some (acc, tools) \<Rightarrow>
                (case stream_err of
                   Some e \<Rightarrow> Inl (wrap_provider_error name ''stream_chat'' e)
                 | None \<Rightarrow> chat_result_from_accumulator env name (oa_completion client acc) tools))), w'))"

section \<open>The factory\<close>

datatype provider_error =
  MissingApiKey | UnsupportedProvider string | ModelNeedsProvider string | UnknownProvider string

datatype llm_provider = FakeProvider string llm_provider_config | OpenAICompatible string string string duration

definition new_openai_compatible_provider :: "string \<Rightarrow> llm_provider_config \<Rightarrow> provider_error + llm_provider" where
  "new_openai_compatible_provider name cfg =
     (if lp_api_key cfg = [] then Inl MissingApiKey
      else Inr (OpenAICompatible name (lp_api_key cfg)
        (if trim_space (lp_base_url cfg) \<noteq> [] then lp_base_url cfg else []) (lp_timeout cfg)))"

definition new_provider :: "string \<Rightarrow> llm_provider_config \<Rightarrow> provider_error + llm_provider" where
  "new_provider name cfg =
     (if lp_type cfg = ''fake'' then Inr (FakeProvider name cfg)
      else if lp_type cfg = ''openai_compatible'' then new_openai_compatible_provider name cfg
      else Inl (UnsupportedProvider (lp_type cfg)))"

record llm_factory =
  lf_default_model :: string
  lf_providers :: "(string \<times> llm_provider) list"

definition resolve_model :: "llm_factory \<Rightarrow> string \<Rightarrow> provider_error + llm_provider \<times> string" where
  "resolve_model f model =
     (case cut_text ''/'' (trim_space model) of
        None \<Rightarrow> Inl (ModelNeedsProvider model)
      | Some (name, actual) \<Rightarrow>
          if name = [] \<or> actual = [] then Inl (ModelNeedsProvider model)
          else (case map_of (lf_providers f) name of
                  None \<Rightarrow> Inl (UnknownProvider name)
                | Some p \<Rightarrow> Inr (p, actual)))"

definition named_provider :: "string \<times> llm_provider_config \<Rightarrow> provider_error + string \<times> llm_provider" where
  "named_provider np = (case new_provider (fst np) (snd np) of Inl e \<Rightarrow> Inl e | Inr p \<Rightarrow> Inr (fst np, p))"

text \<open>Go ranges over the providers in any order; the list is the order it takes.\<close>

definition new_factory :: "llm_config \<Rightarrow> provider_error + llm_factory" where
  "new_factory cfg =
     (case collect_calls named_provider (case lc_providers cfg of None \<Rightarrow> [] | Some ps \<Rightarrow> ps) of
        Inl e \<Rightarrow> Inl e
      | Inr ps \<Rightarrow>
          (let f = \<lparr> lf_default_model = lc_default_model cfg, lf_providers = ps \<rparr> in
           case resolve_model f (lc_default_model cfg) of Inl e \<Rightarrow> Inl e | Inr _ \<Rightarrow> Inr f))"

end
