(* ===== verification/Config_System.thy ===== *)
theory Config_System
  imports Provider
begin

text \<open>
  A configuration that loads is ready: its limits are positive and in range, the model it names has
  a provider of a known type, validating it again changes nothing, and the factory of models
  accepts its default model.
\<close>

section \<open>Defaults\<close>

lemma or_text_not_Nil: "dflt \<noteq> [] \<Longrightarrow> or_text dflt s \<noteq> []"
  by (simp add: or_text_def)

lemma or_text_twice [simp]: "or_text d (or_text d s) = or_text d s"
  by (simp add: or_text_def)

lemma or_text_id: "s \<noteq> [] \<Longrightarrow> or_text d s = s"
  by (simp add: or_text_def)

lemma or_positive_pos: "0 < d \<Longrightarrow> 0 < or_positive d x"
  by (auto simp: or_positive_def)

lemma or_positive_id: "0 < x \<Longrightarrow> or_positive d x = x"
  by (auto simp: or_positive_def)

lemma or_positive_twice [simp]: "0 < d \<Longrightarrow> or_positive d (or_positive d x) = or_positive d x"
  by (simp add: or_positive_id or_positive_pos)

lemma clamp_range: "1 \<le> clamp_web_search_max_results v \<and> clamp_web_search_max_results v \<le> 8"
  by (simp add: clamp_web_search_max_results_def default_web_search_max_results_def min_web_search_max_results_def
      max_web_search_max_results_def)

lemma clamp_id: "1 \<le> v \<Longrightarrow> v \<le> 8 \<Longrightarrow> clamp_web_search_max_results v = v"
  by (simp add: clamp_web_search_max_results_def min_web_search_max_results_def max_web_search_max_results_def)

lemma path_clean_not_Nil [simp]: "path_clean p \<noteq> []"
  by (simp add: path_clean_def Let_def)

lemma clean_workspace_twice: "path_clean (or_text ''.'' (path_clean (or_text ''.'' p))) = path_clean (or_text ''.'' p)"
  by (simp add: or_text_id path_clean_idem)

lemma timeout_pos: "0 < or_positive default_provider_timeout t"
  by (rule or_positive_pos) (simp add: default_provider_timeout_def)

lemma provider_defaults_twice: "apply_provider_defaults (apply_provider_defaults p) = apply_provider_defaults p"
  by (simp add: apply_provider_defaults_def Let_def or_positive_id [OF timeout_pos] or_text_id or_text_not_Nil)

lemma provider_defaults_type [simp]: "lp_type (apply_provider_defaults p) = lp_type p"
  by (simp add: apply_provider_defaults_def Let_def)

lemma apply_defaults_twice: "apply_defaults (apply_defaults c) = apply_defaults c"
  by (simp add: apply_defaults_def apply_llm_defaults_def clean_workspace_twice clamp_id clamp_range provider_defaults_twice)

section \<open>What loads\<close>

definition provider_ready :: "llm_provider_config \<Rightarrow> bool" where
  "provider_ready p \<longleftrightarrow> 0 < lp_timeout p \<and>
     (lp_type p = ''fake'' \<longrightarrow> lp_fake_finish_reason p \<noteq> [] \<and> lp_fake_raw_finish_reason p \<noteq> [] \<and> lp_fake_request_id p \<noteq> [] \<and>
        0 < lp_fake_prompt_tokens p \<and> 0 < lp_fake_completion_tokens p)"

definition model_ready :: "llm_config \<Rightarrow> bool" where
  "model_ready l \<longleftrightarrow> (\<exists>ps name model p. lc_providers l = Some ps \<and> lc_default_model l = name @ ''/'' @ model \<and>
     trim_space name \<noteq> [] \<and> map_of ps name = Some p \<and> lp_type p \<in> {''fake'', ''openai_compatible''} \<and>
     (\<forall>(k, q) \<in> set ps. provider_ready q))"

definition cron_job_ready :: "cron_job_config \<Rightarrow> bool" where
  "cron_job_ready j \<longleftrightarrow> 0 < cron_interval j \<and> trim_space (cron_name j) \<noteq> [] \<and> trim_space (cron_conversation_id j) \<noteq> [] \<and>
     trim_space (cron_channel_type j) \<noteq> [] \<and> trim_space (cron_payload_type j) \<noteq> []"

definition config_ready :: "config \<Rightarrow> bool" where
  "config_ready c \<longleftrightarrow>
     cf_workspace c = path_clean (cf_workspace c) \<and> cf_listen_addr c \<noteq> [] \<and> cf_tenant_id c \<noteq> [] \<and>
     validate_log_level (cf_log_level c) \<and> 0 < cf_event_queue_capacity c \<and> 0 < cf_ingest_enqueue_timeout c \<and>
     0 < cf_rate_limit_tenant_rps c \<and> 0 < cf_rate_limit_tenant_burst c \<and>
     0 < cf_rate_limit_session_rps c \<and> 0 < cf_rate_limit_session_burst c \<and> 0 < cf_max_tool_rounds c \<and>
     second \<le> cf_db_busy_timeout c \<and> 0 < ws_timeout (cf_web_search c) \<and>
     1 \<le> ws_max_results (cf_web_search c) \<and> ws_max_results (cf_web_search c) \<le> 8 \<and>
     0 < tc_long_poll_timeout (cf_telegram c) \<and>
     (tc_enabled (cf_telegram c) \<longrightarrow> trim_space (tc_token (cf_telegram c)) \<noteq> []) \<and>
     model_ready (cf_llm c) \<and> list_all cron_job_ready (cf_cron_jobs c)"

lemma provider_defaults_ready: "provider_ready (apply_provider_defaults p)"
  by (simp add: provider_ready_def apply_provider_defaults_def Let_def timeout_pos or_text_not_Nil or_positive_pos)

lemma cron_jobs_ready: "validate_cron_jobs js = None \<Longrightarrow> list_all cron_job_ready js"
  by (induction js) (auto simp: validate_cron_job_def cron_job_ready_def split: option.splits if_splits)

lemma model_validated:
  assumes "validate_model (apply_llm_defaults l) = None"
  shows "model_ready (apply_llm_defaults l)"
proof -
  let ?l = "apply_llm_defaults l"
  obtain ps where ps: "lc_providers ?l = Some ps" "\<forall>(k, q) \<in> set ps. provider_ready q"
    by (auto simp: apply_llm_defaults_def provider_defaults_ready)
  obtain name model p where "cut_text ''/'' (lc_default_model ?l) = Some (name, model)" "trim_space name \<noteq> []"
    "map_of ps name = Some p" "lp_type p \<in> {''fake'', ''openai_compatible''}"
    using assms ps(1) by (auto simp: validate_model_def split: option.splits if_splits)
  then show ?thesis using ps cut_text_split [of "''/''" "lc_default_model ?l" name model] unfolding model_ready_def by blast
qed

lemma validated_ready:
  assumes "validate c0 = Inr c"
  shows "config_ready c \<and> validate c = Inr c"
proof -
  have c: "c = apply_defaults c0" "validate_log_level (cf_log_level c)" "second \<le> cf_db_busy_timeout c"
    "tc_enabled (cf_telegram c) \<Longrightarrow> trim_space (tc_token (cf_telegram c)) \<noteq> []"
    "validate_model (cf_llm c) = None" "validate_cron_jobs (cf_cron_jobs c) = None"
    using assms by (auto simp: validate_def Let_def split: if_splits option.splits)
  have "cf_llm c = apply_llm_defaults (cf_llm c0)" by (simp add: c(1) apply_defaults_def)
  then have "model_ready (cf_llm c)" using c(5) model_validated by simp
  moreover have "list_all cron_job_ready (cf_cron_jobs c)" by (rule cron_jobs_ready [OF c(6)])
  moreover have "cf_workspace c = path_clean (cf_workspace c)" by (simp add: c(1) apply_defaults_def path_clean_idem)
  ultimately have "config_ready c"
    unfolding config_ready_def using c(2-4)
    by (auto simp: c(1) apply_defaults_def or_text_not_Nil or_positive_pos clamp_range)
  moreover have "validate c = Inr c"
    using assms apply_defaults_twice [of c0] unfolding c(1) by (simp add: validate_def)
  ultimately show ?thesis by simp
qed

text \<open>The overrides never write a map that is nil: the defaults have been applied before.\<close>

definition has_providers :: "config_error + config \<Rightarrow> bool" where
  "has_providers r = (case r of Inl e \<Rightarrow> e \<noteq> NilMapWritten | Inr c \<Rightarrow> lc_providers (cf_llm c) \<noteq> None)"

lemma then_config_has_providers:
  "has_providers r \<Longrightarrow> (\<And>c. lc_providers (cf_llm c) \<noteq> None \<Longrightarrow> has_providers (f c)) \<Longrightarrow> has_providers (then_config r f)"
  by (cases r) (auto simp: has_providers_def then_config_def)

lemma parse_user_ids_error: "parse_user_ids ps = Inl e \<Longrightarrow> e \<noteq> NilMapWritten"
  by (induction ps arbitrary: e) (auto simp: Let_def split: if_splits option.splits, case_tac "parse_user_ids ps", auto)

lemma override_openai_has_providers: "lc_providers (cf_llm c) \<noteq> None \<Longrightarrow> has_providers (override_openai f c)"
  by (auto simp: has_providers_def override_openai_def Let_def)

lemma when_set_has_providers:
  "(\<And>c. lc_providers (cf_llm c) \<noteq> None \<Longrightarrow> has_providers (f v c)) \<Longrightarrow>
   lc_providers (cf_llm c) \<noteq> None \<Longrightarrow> has_providers (when_set v f c)"
  by (simp add: when_set_def has_providers_def)

lemma overrides_have_providers:
  assumes "lc_providers (cf_llm c) \<noteq> None"
  shows "has_providers (apply_env_overrides pd env c)"
proof -
  have ids: "has_providers (map_sum id (\<lambda>ids. override_telegram (\<lambda>t. t\<lparr>tc_allowed_user_ids := ids\<rparr>) c) (parse_telegram_allowed_user_ids v))"
    if "lc_providers (cf_llm c) \<noteq> None" for c v
    using that parse_user_ids_error
    by (cases "parse_telegram_allowed_user_ids v") (auto simp: has_providers_def override_telegram_def parse_telegram_allowed_user_ids_def)
  have "has_providers (Inr c)" using assms by (simp add: has_providers_def)
  then show ?thesis
    unfolding apply_env_overrides_def Let_def fold_simps
    by (intro then_config_has_providers when_set_has_providers override_openai_has_providers ids; assumption?)
      (auto simp: has_providers_def override_default_model_def override_duration_def override_telegram_def split: option.splits)
qed

text \<open>
  C3: Whatever the file and the environment, Load never writes a map of providers that is nil,
  and a configuration it returns is ready: limits, timeouts and intervals are positive and in
  range, the log level is known, an enabled Telegram channel has a token, the default model
  names a provider of a known type, and validating it again changes nothing.
\<close>

theorem loaded_config_ready:
  "(case load_config pd decode env src of
      Inl e \<Rightarrow> e \<noteq> NilMapWritten
    | Inr c \<Rightarrow> config_ready c \<and> validate c = Inr c)"
proof -
  have v: "(case validate c of Inl e \<Rightarrow> e \<noteq> NilMapWritten | Inr c' \<Rightarrow> config_ready c' \<and> validate c' = Inr c')" for c
  proof (cases "validate c")
    case (Inl e)
    have "validate_cron_jobs js \<noteq> Some NilMapWritten" for js
      by (induction js) (auto simp: validate_cron_job_def split: option.splits)
    then show ?thesis using Inl
      by (auto simp: validate_def validate_model_def Let_def split: if_splits option.splits)
  next
    case (Inr c')
    then show ?thesis using validated_ready by simp
  qed
  have o: "(case then_config (apply_env_overrides pd env c) validate of
       Inl e \<Rightarrow> e \<noteq> NilMapWritten | Inr c' \<Rightarrow> config_ready c' \<and> validate c' = Inr c')"
    if "lc_providers (cf_llm c) \<noteq> None" for c
    using overrides_have_providers [OF that, of pd env] v
    by (cases "apply_env_overrides pd env c") (simp_all add: then_config_def has_providers_def)
  have d: "lc_providers (cf_llm (apply_defaults c)) \<noteq> None" for c by (simp add: apply_defaults_def apply_llm_defaults_def)
  show ?thesis
  proof (cases src)
    case None
    have "lc_providers (cf_llm default_config) \<noteq> None" by (simp add: default_config_def)
    from o [OF this] show ?thesis using None by (simp add: load_config_def)
  next
    case (Some body)
    show ?thesis
    proof (cases body)
      case (Inr raw)
      show ?thesis
      proof (cases "decode raw default_config")
        case (Inr c)
        from o [OF d] show ?thesis using \<open>src = Some body\<close> \<open>body = Inr raw\<close> Inr by (simp add: load_config_def)
      qed (simp add: load_config_def Some Inr)
    qed (simp add: load_config_def Some)
  qed
qed

section \<open>The factory of models\<close>

lemma collect_providers:
  "collect_calls named_provider ps = Inr qs \<Longrightarrow>
   map_of ps name = Some p \<Longrightarrow> \<exists>q. map_of qs name = Some q \<and> new_provider name p = Inr q"
proof (induction ps arbitrary: qs)
  case (Cons x ps)
  obtain n p' where x: "x = (n, p')" by fastforce
  then obtain q rs where "new_provider n p' = Inr q" "qs = (n, q) # rs"
    "collect_calls named_provider ps = Inr rs"
    using Cons.prems(1)
    by (auto simp: named_provider_def [of "(n, p')"] split: sum.splits)
  then show ?case using Cons.IH [of rs] Cons.prems(2) x by (auto split: if_splits)
qed simp

text \<open>
  The factory needs more than validation asks for: every provider must be constructible, and the
  name of the model, without the white space around the whole, must not be empty.
\<close>

theorem loaded_model_resolves:
  assumes "load_config pd decode env src = Inr c"
    and "collect_calls named_provider (the (lc_providers (cf_llm c))) = Inr qs"
    and "trim_space (lc_default_model (cf_llm c)) = lc_default_model (cf_llm c)"
    and "suffix ''/'' (lc_default_model (cf_llm c)) = False"
  shows "\<exists>f p name model. new_factory (cf_llm c) = Inr f \<and> lc_default_model (cf_llm c) = name @ ''/'' @ model \<and>
    resolve_model f (lc_default_model (cf_llm c)) = Inr (p, model) \<and>
    new_provider name (the (map_of (the (lc_providers (cf_llm c))) name)) = Inr p"
proof -
  let ?l = "cf_llm c"
  have v: "validate c = Inr c" using loaded_config_ready [of pd decode env src] assms(1) by simp
  have "cf_llm c = apply_llm_defaults ?l"
  proof -
    have "c = apply_defaults c" using v by (auto simp: validate_def Let_def split: if_splits option.splits)
    then have "cf_llm c = cf_llm (apply_defaults c)" by simp
    then show ?thesis by (simp add: apply_defaults_def)
  qed
  then obtain ps where ps: "lc_providers ?l = Some ps" by (metis apply_llm_defaults_def llm_config.select_convs(2))
  obtain name model p where m: "cut_text ''/'' (lc_default_model ?l) = Some (name, model)" "trim_space name \<noteq> []" "map_of ps name = Some p"
    using v ps by (auto simp: validate_def validate_model_def Let_def split: if_splits option.splits)
  obtain q where q: "map_of qs name = Some q" "new_provider name p = Inr q"
    using collect_providers [OF _ m(3), of qs] assms(2) ps by auto
  have split: "lc_default_model ?l = name @ ''/'' @ model" using cut_text_split [OF m(1)] by simp
  have "name \<noteq> []" using m(2) by (auto simp: trim_space_def)
  moreover have "model \<noteq> []" using assms(4) split by (auto simp: suffix_def)
  ultimately have r: "resolve_model \<lparr> lf_default_model = lc_default_model ?l, lf_providers = qs \<rparr> (lc_default_model ?l) = Inr (q, model)"
    using m(1) q(1) assms(3) by (simp add: resolve_model_def)
  have "new_factory ?l = Inr \<lparr> lf_default_model = lc_default_model ?l, lf_providers = qs \<rparr>"
    using assms(2) ps r by (simp add: new_factory_def Let_def)
  then show ?thesis using r split q(2) ps m(3) by auto
qed

section \<open>Configurations that load\<close>

lemma trim_blank [simp]: "trim_space [] = []"
  by code_simp

text \<open>Without a file and without variables the defaults load.\<close>

lemma default_config_loads: "load_config pd decode (\<lambda>_. []) None = Inr default_config"
proof -
  have "apply_env_overrides pd (\<lambda>_. []) default_config = Inr default_config"
    by (simp add: apply_env_overrides_def Let_def when_set_def then_config_def)
  moreover have "apply_defaults default_config = default_config" by code_simp
  moreover have "validate_log_level (cf_log_level default_config)" "validate_model (cf_llm default_config) = None" by code_simp+
  ultimately show ?thesis
    by (simp add: load_config_def then_config_def validate_def Let_def) (simp add: default_config_def)
qed

theorem loaded_model_resolves_witness:
  "\<exists>f p. new_factory (cf_llm default_config) = Inr f \<and> resolve_model f ''fake/default'' = Inr (p, ''default'')"
proof -
  have c: "collect_calls named_provider (the (lc_providers (cf_llm default_config))) =
      Inr [(''fake'', FakeProvider ''fake'' default_fake_provider)]"
    by (simp add: default_config_def named_provider_def new_provider_def default_fake_provider_def)
  have m: "lc_default_model (cf_llm default_config) = ''fake/default''" by (simp add: default_config_def)
  have t: "trim_space (lc_default_model (cf_llm default_config)) = lc_default_model (cf_llm default_config)"
    "suffix ''/'' (lc_default_model (cf_llm default_config)) = False" by code_simp+
  obtain f p name model where f: "new_factory (cf_llm default_config) = Inr f" "''fake/default'' = name @ ''/'' @ model"
    "resolve_model f ''fake/default'' = Inr (p, model)"
    using loaded_model_resolves [OF default_config_loads c t] m by auto
  have "resolve_model f ''fake/default'' = Inr (p, model) \<Longrightarrow> model = ''default''"
  proof -
    have "cut_text ''/'' (trim_space ''fake/default'') = Some (''fake'', ''default'')" by code_simp
    then show "resolve_model f ''fake/default'' = Inr (p, model) \<Longrightarrow> model = ''default''"
      by (auto simp: resolve_model_def split: option.splits if_splits)
  qed
  then show ?thesis using f by auto
qed

text \<open>
  With nothing but a base URL in the environment the defaults still load, and the factory refuses
  them: the provider the URL adds has no key.
\<close>

definition only_base_url :: environment where
  "only_base_url k = (if k = ''OPENAI_BASE_URL'' then ''http://h'' else [])"

lemma base_url_alone_refused:
  "\<exists>c. load_config pd decode only_base_url None = Inr c \<and> new_factory (cf_llm c) = Inl MissingApiKey"
proof -
  let ?openai = "zero_provider\<lparr>lp_type := ''openai_compatible'', lp_base_url := ''http://h'', lp_timeout := default_provider_timeout\<rparr>"
  let ?c = "default_config\<lparr>cf_llm := \<lparr> lc_default_model = ''fake/default'', lc_providers =
      Some [(''fake'', default_fake_provider), (''openai'', ?openai)] \<rparr>\<rparr>"
  have t: "trim_space ''http://h'' = ''http://h''" by code_simp
  have "apply_env_overrides pd only_base_url default_config = Inr ?c"
    by (simp add: apply_env_overrides_def Let_def when_set_def then_config_def only_base_url_def t override_openai_def
        default_config_def zero_provider_def or_positive_def default_provider_timeout_def)
  moreover have "validate ?c = Inr ?c" by code_simp
  moreover have "new_factory (cf_llm ?c) = Inl MissingApiKey" by code_simp
  ultimately show ?thesis by (auto simp: load_config_def then_config_def)
qed

text \<open>A model without a name passes validation and is refused by the factory.\<close>

lemma nameless_model_refused:
  "let c = default_config\<lparr>cf_llm := (cf_llm default_config)\<lparr>lc_default_model := ''fake/''\<rparr>\<rparr>
   in validate c = Inr c \<and> new_factory (cf_llm c) = Inl (ModelNeedsProvider ''fake/'')"
  by code_simp

text \<open>A job below a second passes validation and runs every ten.\<close>

lemma short_interval_lost:
  "cron_interval j = 500 * millisecond \<Longrightarrow>
   job_interval (to_claimed_job (cron_job_row tenant now j)) = 10 * second"
  by (simp add: job_interval_def to_claimed_job_def cron_job_row_def cron_payload_def int_quot_def wrap64_def)

section \<open>The .env file\<close>

text \<open>A variable that is set keeps its value.\<close>

lemma env_line_keeps: "env k \<noteq> [] \<Longrightarrow> apply_env_line l env k = env k"
  by (auto simp: apply_env_line_def set_env_def Let_def split: option.splits prod.splits)

lemma dot_env_keeps:
  assumes "env k \<noteq> []"
  shows "snd (load_dot_env src env) k = env k"
proof -
  have "snd (apply_env_lines ls e) k = e k" if "e k \<noteq> []" for ls e
    using that by (induction ls e rule: apply_env_lines.induct) (auto simp: env_line_keeps)
  then show ?thesis using assms by (auto simp: load_dot_env_def split: open_result.splits prod.splits) (metis snd_conv)
qed

end
