(* ===== verification/Http_Query.thy ===== *)
theory Http_Query
  imports Stream Queries Runner Json_Text Go_Strings
begin

text \<open>
  \<open>internal/http/query\<close>: the read side of the HTTP surface.  A request is its path values and
  the first value of each query parameter; the queries are an interface, which \<open>database_query\<close>
  answers from the tables; a response is a status, headers and the value that is encoded as JSON.
\<close>

record http_request =
  hq_path_value :: "string \<Rightarrow> string"
  hq_query_get :: "string \<Rightarrow> string"

section \<open>Pages and cursors\<close>

definition default_page_limit :: int where "default_page_limit = 50"
definition max_page_limit :: int where "max_page_limit = 200"

definition parse_page_limit :: "(nat \<Rightarrow> bool) \<Rightarrow> string \<Rightarrow> api_error + int" where
  "parse_page_limit printable raw =
     (if raw = [] then Inr default_page_limit
      else (case parse_int64 raw of
              None \<Rightarrow> Inl (invalid_argument (''invalid limit: '' @ go_quote printable raw) ''limit'')
            | Some v \<Rightarrow>
                if v \<le> 0 \<or> max_page_limit < v
                then Inl (invalid_argument (''invalid limit: '' @ go_quote printable raw) ''limit'') else Inr v))"

text \<open>
  The cursor structs have a version, a time text and an id; the names of the latter two fields in
  JSON differ.
\<close>

record page_cursor =
  pc_v :: int
  pc_last_time :: string
  pc_last_id :: string

type_synonym cursor_fields = "string \<times> string"

definition event_cursor :: cursor_fields where "event_cursor = (''last_created_at'', ''last_event_id'')"
definition run_cursor :: cursor_fields where "run_cursor = (''last_started_at'', ''last_run_id'')"
definition session_cursor :: cursor_fields where "session_cursor = (''last_activity_at'', ''last_session_key'')"
definition message_cursor :: cursor_fields where "message_cursor = (''last_created_at'', ''last_message_id'')"

definition zero_cursor :: page_cursor where
  "zero_cursor = \<lparr> pc_v = 0, pc_last_time = [], pc_last_id = [] \<rparr>"

text \<open>The name of a member matches a field up to the case of letters, as \<open>encoding/json\<close> folds it.\<close>

definition fold_rune :: "nat \<Rightarrow> nat" where
  "fold_rune r =
     (if 97 \<le> r \<and> r \<le> 122 then r - 32 else if r = 0x17F then 83 else if r = 0x212A then 75 else r)"

definition same_field :: "string \<Rightarrow> string \<Rightarrow> bool" where
  "same_field a b = (map fold_rune (runes a) = map fold_rune (runes b))"

text \<open>One member decoded into the struct: null leaves a field, another type is an error.\<close>

definition set_cursor_field :: "cursor_fields \<Rightarrow> string \<times> json_value \<Rightarrow> page_cursor \<Rightarrow> page_cursor option" where
  "set_cursor_field names m c =
     (if snd m = VNull then Some c
      else if same_field (fst m) ''v'' then
        (case snd m of VNumber l \<Rightarrow> map_option (\<lambda>i. c\<lparr>pc_v := i\<rparr>) (parse_int64 l) | _ \<Rightarrow> None)
      else if same_field (fst m) (fst names) then
        (case snd m of VString s \<Rightarrow> Some (c\<lparr>pc_last_time := s\<rparr>) | _ \<Rightarrow> None)
      else if same_field (fst m) (snd names) then
        (case snd m of VString s \<Rightarrow> Some (c\<lparr>pc_last_id := s\<rparr>) | _ \<Rightarrow> None)
      else Some c)"

fun set_cursor_fields :: "cursor_fields \<Rightarrow> (string \<times> json_value) list \<Rightarrow> page_cursor \<Rightarrow> page_cursor option" where
  "set_cursor_fields names [] c = Some c"
| "set_cursor_fields names (m # ms) c =
     (case set_cursor_field names m c of None \<Rightarrow> None | Some c' \<Rightarrow> set_cursor_fields names ms c')"

definition unmarshal_cursor :: "cursor_fields \<Rightarrow> string \<Rightarrow> page_cursor option" where
  "unmarshal_cursor names body =
     (case json_parse body of
        Some VNull \<Rightarrow> Some zero_cursor
      | Some (VObject ms) \<Rightarrow> set_cursor_fields names ms zero_cursor
      | _ \<Rightarrow> None)"

definition invalid_cursor :: api_error where
  "invalid_cursor = invalid_argument ''invalid cursor'' ''cursor''"

definition decode_cursor :: "cursor_fields \<Rightarrow> string \<Rightarrow> api_error + page_cursor" where
  "decode_cursor names raw =
     (if raw = [] then Inr zero_cursor
      else (case base64_decode raw of
              None \<Rightarrow> Inl invalid_cursor
            | Some body \<Rightarrow>
                (case unmarshal_cursor names body of None \<Rightarrow> Inl invalid_cursor | Some c \<Rightarrow> Inr c)))"

definition marshal_cursor :: "cursor_fields \<Rightarrow> page_cursor \<Rightarrow> string" where
  "marshal_cursor names c =
     ''{'' @ json_string ''v'' @ '':'' @ show_int (pc_v c) @ '','' @
     json_string (fst names) @ '':'' @ json_string (pc_last_time c) @ '','' @
     json_string (snd names) @ '':'' @ json_string (pc_last_id c) @ ''}''"

definition encode_cursor :: "cursor_fields \<Rightarrow> page_cursor \<Rightarrow> string" where
  "encode_cursor names c = base64_encode (marshal_cursor names c)"

definition next_cursor :: "cursor_fields \<Rightarrow> cursor_anchor option \<Rightarrow> string option" where
  "next_cursor names a =
     map_option (\<lambda>a. encode_cursor names \<lparr> pc_v = 1, pc_last_time = time_text (ca_time a), pc_last_id = ca_id a \<rparr>) a"

text \<open>Limit, cursor and the time of the cursor, as the list handlers read them.\<close>

definition cursor_anchor_of :: "page_cursor \<Rightarrow> api_error + cursor_anchor option" where
  "cursor_anchor_of c =
     (if pc_last_time c \<noteq> [] \<or> pc_last_id c \<noteq> []
      then (case parse_rfc3339 (pc_last_time c) of
              None \<Rightarrow> Inl invalid_cursor
            | Some t \<Rightarrow> Inr (Some \<lparr> ca_time = t, ca_id = pc_last_id c \<rparr>))
      else Inr None)"

definition page_request :: "(nat \<Rightarrow> bool) \<Rightarrow> cursor_fields \<Rightarrow> http_request \<Rightarrow> api_error + int \<times> cursor_anchor option" where
  "page_request printable names r =
     (case parse_page_limit printable (hq_query_get r ''limit'') of
        Inl e \<Rightarrow> Inl e
      | Inr limit \<Rightarrow>
          (case decode_cursor names (hq_query_get r ''cursor'') of
             Inl e \<Rightarrow> Inl e
           | Inr c \<Rightarrow> (case cursor_anchor_of c of Inl e \<Rightarrow> Inl e | Inr a \<Rightarrow> Inr (limit, a))))"

section \<open>Records of the API\<close>

definition to_api_event_record :: "event_record \<Rightarrow> api_event_record" where
  "to_api_event_record rec = \<lparr> av_event_id = rec_event_id rec, av_status = rec_status rec,
     av_outbox_status = rec_outbox_status rec, av_session_key = rec_session_key rec,
     av_session_id = rec_session_id rec, av_run_id = rec_run_id rec, av_run_mode = rec_run_mode rec,
     av_assistant_reply = rec_assistant_reply rec, av_outbox_id = rec_outbox_id rec,
     av_processing_lease = rec_processing_lease rec, av_received_at = rec_received_at rec,
     av_created_at = rec_created_at rec, av_updated_at = rec_updated_at rec,
     av_payload_hash = rec_payload_hash rec, av_provider = rec_provider rec, av_model = rec_model rec,
     av_provider_request_id = rec_provider_request_id rec, av_error = rec_error rec \<rparr>"

record api_session_record =
  as_session_key :: string
  as_active_session_id :: string
  as_conversation_id :: string
  as_channel_type :: string
  as_participant_id :: string
  as_dm_scope :: string
  as_message_count :: int
  as_prompt_tokens_total :: int
  as_completion_tokens_total :: int
  as_total_tokens_total :: int
  as_last_model :: string
  as_last_run_id :: string
  as_last_activity_at :: time
  as_created_at :: time
  as_updated_at :: time

definition to_api_session_record :: "session_record \<Rightarrow> api_session_record" where
  "to_api_session_record r = \<lparr> as_session_key = sr_session_key r,
     as_active_session_id = sr_active_session_id r, as_conversation_id = sr_conversation_id r,
     as_channel_type = sr_channel_type r, as_participant_id = sr_participant_id r,
     as_dm_scope = sr_dm_scope r, as_message_count = sr_message_count r,
     as_prompt_tokens_total = sr_prompt_tokens_total r,
     as_completion_tokens_total = sr_completion_tokens_total r,
     as_total_tokens_total = sr_total_tokens_total r, as_last_model = sr_last_model r,
     as_last_run_id = sr_last_run_id r, as_last_activity_at = sr_last_activity_at r,
     as_created_at = sr_created_at r, as_updated_at = sr_updated_at r \<rparr>"

record api_message_record =
  am_message_id :: string
  am_session_key :: string
  am_session_id :: string
  am_run_id :: string
  am_role :: string
  am_content :: string
  am_visible :: bool
  am_tool_call_id :: string
  am_tool_name :: string
  am_tool_args :: json_object
  am_tool_result :: json_object
  am_meta :: json_object
  am_created_at :: time

definition to_api_message_record :: "message_record \<Rightarrow> api_message_record" where
  "to_api_message_record r = \<lparr> am_message_id = mr_message_id r, am_session_key = mr_session_key r,
     am_session_id = mr_session_id r, am_run_id = mr_run_id r, am_role = mr_role r,
     am_content = mr_content r, am_visible = mr_visible r, am_tool_call_id = mr_tool_call_id r,
     am_tool_name = mr_tool_name r, am_tool_args = mr_tool_args r, am_tool_result = mr_tool_result r,
     am_meta = mr_meta r, am_created_at = mr_created_at r \<rparr>"

text \<open>
  The parts of a trace only the runner fills are nil in every trace the queries return
  (\<open>scanRun\<close> does not set them), and nil stays nil.
\<close>

definition to_api_run_trace :: "run_trace \<Rightarrow> api_run_trace" where
  "to_api_run_trace t = run_trace.extend t
     \<lparr> at_context_manifest = None, at_rag_hits = [], at_tool_executions = [], at_actions = [] \<rparr>"

record event_list_item =
  el_event_id :: string
  el_status :: event_status
  el_outbox_status :: outbox_status
  el_session_key :: string
  el_session_id :: string
  el_run_id :: string
  el_updated_at :: time

definition to_event_list_item :: "event_record \<Rightarrow> event_list_item" where
  "to_event_list_item rec = \<lparr> el_event_id = rec_event_id rec, el_status = rec_status rec,
     el_outbox_status = rec_outbox_status rec, el_session_key = rec_session_key rec,
     el_session_id = rec_session_id rec, el_run_id = rec_run_id rec, el_updated_at = rec_updated_at rec \<rparr>"

record run_summary =
  ru_run_id :: string
  ru_event_id :: string
  ru_session_key :: string
  ru_session_id :: string
  ru_run_mode :: run_mode
  ru_status :: run_status
  ru_started_at :: time
  ru_ended_at :: time

definition to_run_summary :: "run_trace \<Rightarrow> run_summary" where
  "to_run_summary t = \<lparr> ru_run_id = rt_run_id t, ru_event_id = rt_event_id t,
     ru_session_key = rt_session_key t, ru_session_id = rt_session_id t, ru_run_mode = rt_run_mode t,
     ru_status = rt_status t, ru_started_at = rt_started_at t, ru_ended_at = rt_finished_at t \<rparr>"

record lookup_body =
  lb_event_id :: string
  lb_payload_hash :: string
  lb_received_at :: time
  lb_status_url :: string

section \<open>Handlers\<close>

type_synonym 'a page = "'a list \<times> cursor_anchor option"

record query_api =
  qa_get_event :: "string \<Rightarrow> string + event_record option"
  qa_lookup_event :: "string \<Rightarrow> string + event_lookup option"
  qa_list_events :: "event_filter \<Rightarrow> string + event_record page"
  qa_list_runs :: "run_filter \<Rightarrow> string + run_trace page"
  qa_get_run :: "string \<Rightarrow> string + run_trace option"
  qa_list_sessions :: "session_filter \<Rightarrow> string + session_record page"
  qa_get_session :: "string \<Rightarrow> string + session_record option"
  qa_list_session_history :: "session_history_filter \<Rightarrow> string + message_record page"

text \<open>The query service on the tables; \<open>now\<close> is the clock of \<open>ListMessageRecords\<close>.\<close>

definition database_query :: "database \<Rightarrow> time \<Rightarrow> query_api" where
  "database_query d now = \<lparr> qa_get_event = (\<lambda>i. Inr (get_event_record d i)),
     qa_lookup_event = (\<lambda>k. Inr (lookup_event d k)), qa_list_events = (\<lambda>f. Inr (list_events d f)),
     qa_list_runs = (\<lambda>f. Inr (list_runs d f)), qa_get_run = (\<lambda>i. Inr (get_run_trace d i)),
     qa_list_sessions = (\<lambda>f. Inr (list_sessions d f)), qa_get_session = (\<lambda>k. Inr (get_session_record d k)),
     qa_list_session_history = (\<lambda>f. Inr (list_session_history d now f)) \<rparr>"

datatype query_body =
  QueryError error_block
| EventBody api_event_record
| EventsBody "event_list_item list" "string option"
| LookupBody lookup_body
| RunsBody "run_summary list" "string option"
| RunSummaryBody run_summary
| RunTraceBody api_run_trace
| SessionsBody "api_session_record list" "string option"
| SessionBody api_session_record
| MessagesBody "api_message_record list" "string option"

definition write_query_error :: "api_error \<Rightarrow> query_body http_response" where
  "write_query_error e =
     (let r = write_json (ae_status_code e)
                (QueryError \<lparr> eb_code = ae_code e, eb_message = ae_message e, eb_details = ae_details e \<rparr>)
      in if 0 < ae_retry_after e
         then r\<lparr>hr_headers := (''Retry-After'', show_int (ae_retry_after e)) # hr_headers r\<rparr> else r)"

definition not_found :: "string \<Rightarrow> api_error" where
  "not_found msg = \<lparr> ae_status_code = 404, ae_code = ErrorCodeNotFound, ae_message = msg, ae_details = [],
     ae_retry_after = 0 \<rparr>"

definition handle_get_event :: "query_api \<Rightarrow> http_request \<Rightarrow> query_body http_response" where
  "handle_get_event q r =
     (case qa_get_event q (hq_path_value r ''event_id'') of
        Inl e \<Rightarrow> write_query_error (internal_error e)
      | Inr None \<Rightarrow> write_query_error (not_found ''event not found'')
      | Inr (Some rec) \<Rightarrow> write_json 200 (EventBody (to_api_event_record rec)))"

definition handle_list_events :: "(nat \<Rightarrow> bool) \<Rightarrow> query_api \<Rightarrow> http_request \<Rightarrow> query_body http_response" where
  "handle_list_events printable q r =
     (case page_request printable event_cursor r of
        Inl e \<Rightarrow> write_query_error e
      | Inr (limit, anchor) \<Rightarrow>
          (case qa_list_events q \<lparr> ef_session_key = hq_query_get r ''session_key'',
                  ef_status = hq_query_get r ''status'', ef_limit = limit, ef_cursor = anchor \<rparr> of
             Inl e \<Rightarrow> write_query_error (internal_error e)
           | Inr (items, nxt) \<Rightarrow>
               write_json 200 (EventsBody (map to_event_list_item items) (next_cursor event_cursor nxt))))"

definition handle_lookup_event :: "query_api \<Rightarrow> http_request \<Rightarrow> query_body http_response" where
  "handle_lookup_event q r =
     (let key = hq_query_get r ''idempotency_key'' in
      if key = [] then write_query_error (invalid_argument ''idempotency_key is required'' ''idempotency_key'')
      else (case qa_lookup_event q key of
              Inl e \<Rightarrow> write_query_error (internal_error e)
            | Inr None \<Rightarrow> write_query_error (not_found ''idempotency key not found'')
            | Inr (Some row) \<Rightarrow> write_json 200 (LookupBody \<lparr> lb_event_id = le_event_id row,
                lb_payload_hash = le_payload_hash row, lb_received_at = le_received_at row,
                lb_status_url = ''/v1/events/'' @ le_event_id row \<rparr>)))"

definition handle_list_runs :: "(nat \<Rightarrow> bool) \<Rightarrow> query_api \<Rightarrow> http_request \<Rightarrow> query_body http_response" where
  "handle_list_runs printable q r =
     (case page_request printable run_cursor r of
        Inl e \<Rightarrow> write_query_error e
      | Inr (limit, anchor) \<Rightarrow>
          (case qa_list_runs q \<lparr> rf_session_key = hq_query_get r ''session_key'',
                  rf_session_id = hq_query_get r ''session_id'', rf_limit = limit, rf_cursor = anchor \<rparr> of
             Inl e \<Rightarrow> write_query_error (internal_error e)
           | Inr (items, nxt) \<Rightarrow>
               write_json 200 (RunsBody (map to_run_summary items) (next_cursor run_cursor nxt))))"

definition handle_get_run :: "query_api \<Rightarrow> http_request \<Rightarrow> query_body http_response" where
  "handle_get_run q r =
     (case qa_get_run q (hq_path_value r ''run_id'') of
        Inl e \<Rightarrow> write_query_error (internal_error e)
      | Inr None \<Rightarrow> write_query_error (not_found ''run not found'')
      | Inr (Some t) \<Rightarrow> write_json 200 (RunSummaryBody (to_run_summary t)))"

definition handle_get_run_trace :: "query_api \<Rightarrow> http_request \<Rightarrow> query_body http_response" where
  "handle_get_run_trace q r =
     (case qa_get_run q (hq_path_value r ''run_id'') of
        Inl e \<Rightarrow> write_query_error (internal_error e)
      | Inr None \<Rightarrow> write_query_error (not_found ''run not found'')
      | Inr (Some t) \<Rightarrow>
          (let view = trim_space (hq_query_get r ''view'');
               view = (if view = [] then ''full'' else view);
               redact = trim_space (hq_query_get r ''redact'')
           in if view = ''summary'' then write_json 200 (RunSummaryBody (to_run_summary t))
              else if redact \<noteq> [] \<and> parse_bool redact = None
              then write_query_error (invalid_argument ''invalid redact'' ''redact'')
              else write_json 200 (RunTraceBody (to_api_run_trace t))))"

definition handle_list_sessions :: "(nat \<Rightarrow> bool) \<Rightarrow> query_api \<Rightarrow> http_request \<Rightarrow> query_body http_response" where
  "handle_list_sessions printable q r =
     (case page_request printable session_cursor r of
        Inl e \<Rightarrow> write_query_error e
      | Inr (limit, anchor) \<Rightarrow>
          (case qa_list_sessions q \<lparr> sf_session_key = hq_query_get r ''session_key'',
                  sf_conversation_id = hq_query_get r ''conversation_id'', sf_limit = limit,
                  sf_cursor = anchor \<rparr> of
             Inl e \<Rightarrow> write_query_error (internal_error e)
           | Inr (items, nxt) \<Rightarrow>
               write_json 200 (SessionsBody (map to_api_session_record items) (next_cursor session_cursor nxt))))"

definition handle_get_session :: "query_api \<Rightarrow> http_request \<Rightarrow> query_body http_response" where
  "handle_get_session q r =
     (case qa_get_session q (hq_path_value r ''session_key'') of
        Inl e \<Rightarrow> write_query_error (internal_error e)
      | Inr None \<Rightarrow> write_query_error (not_found ''session not found'')
      | Inr (Some rec) \<Rightarrow> write_json 200 (SessionBody (to_api_session_record rec)))"

text \<open>
  The history: the session is looked up before the parameters are read; a cursor without a time
  counts as long as it has an id, and only visible messages are listed unless asked otherwise.
\<close>

definition history_anchor :: "page_cursor \<Rightarrow> api_error + cursor_anchor option" where
  "history_anchor c =
     (case (if pc_last_time c = [] then Some zero_time else parse_rfc3339 (pc_last_time c)) of
        None \<Rightarrow> Inl invalid_cursor
      | Some t \<Rightarrow> Inr (if is_zero_time t \<and> pc_last_id c = [] then None
                      else Some \<lparr> ca_time = t, ca_id = pc_last_id c \<rparr>))"

definition parse_visible :: "string \<Rightarrow> api_error + bool" where
  "parse_visible v =
     (let raw = trim_space v in
      if raw = [] then Inr True
      else (case parse_bool raw of None \<Rightarrow> Inl (invalid_argument ''invalid visible'' ''visible'') | Some b \<Rightarrow> Inr b))"

definition handle_get_session_history :: "(nat \<Rightarrow> bool) \<Rightarrow> query_api \<Rightarrow> http_request \<Rightarrow> query_body http_response" where
  "handle_get_session_history printable q r =
     (case qa_get_session q (hq_path_value r ''session_key'') of
        Inl e \<Rightarrow> write_query_error (internal_error e)
      | Inr None \<Rightarrow> write_query_error (not_found ''session not found'')
      | Inr (Some rec) \<Rightarrow>
          (case parse_page_limit printable (hq_query_get r ''limit'') of
             Inl e \<Rightarrow> write_query_error e
           | Inr limit \<Rightarrow>
               (case decode_cursor message_cursor (hq_query_get r ''cursor'') of
                  Inl e \<Rightarrow> write_query_error e
                | Inr c \<Rightarrow>
                    (case history_anchor c of
                       Inl e \<Rightarrow> write_query_error e
                     | Inr anchor \<Rightarrow>
                         (case parse_visible (hq_query_get r ''visible'') of
                            Inl e \<Rightarrow> write_query_error e
                          | Inr visible \<Rightarrow>
                              (case qa_list_session_history q \<lparr> hf_session_id = sr_active_session_id rec,
                                      hf_visible_only = visible, hf_limit = limit, hf_cursor = anchor \<rparr> of
                                 Inl e \<Rightarrow> write_query_error (internal_error e)
                               | Inr (items, nxt) \<Rightarrow>
                                   write_json 200 (MessagesBody (map to_api_message_record items)
                                     (next_cursor message_cursor nxt))))))))"

end
