(* ===== verification/Lanes.thy ===== *)
theory Lanes
  imports Data_Model
begin

text \<open>
  \<open>internal/runtime/lanes\<close>: the lane a work item is serialised on (\<open>key.go\<close>) and the
  scheduler that hands out one lease per lane (\<open>scheduler.go\<close>).  \<open>Acquire\<close> is a state
  machine: \<open>retain\<close> registers the caller, then either it takes the token of the lane or its
  context is cancelled; \<open>Release\<close> puts the token back and drops the registration.
\<close>

section \<open>Lane keys\<close>

definition lane_resolve :: "work_item \<Rightarrow> string" where
  "lane_resolve w =
     (if trim_space (wi_lane_key w) \<noteq> [] then trim_space (wi_lane_key w)
      else if trim_space (wi_session_key w) \<noteq> [] then ''session:'' @ trim_space (wi_session_key w)
      else if trim_space (wi_event_id w) \<noteq> [] then ''event:'' @ trim_space (wi_event_id w)
      else ''work:global'')"

lemma lane_resolve_not_Nil: "lane_resolve w \<noteq> []"
  by (simp add: lane_resolve_def)

section \<open>The scheduler\<close>

text \<open>
  A lane is an object with a one-element token channel and a reference count; the map points to
  it and so do the callers that wait for it or hold it.  The objects are an explicit store, a
  pointer is an index of it.  A call of \<open>Acquire\<close> is a caller of the state: it waits after
  \<open>retain\<close>, holds the lane after it took the token, and is \<open>Releasing\<close> between the two
  statements of the lease's \<open>release\<close>.
\<close>

record lane_state =
  ln_token :: bool
  ln_refs :: nat

datatype caller =
  LaneWaiting (caller_key: string) (caller_ptr: nat)
| is_LaneHolding: LaneHolding (caller_key: string) (caller_ptr: nat)
| LaneReleasing (caller_key: string) (caller_ptr: nat)
| LaneGone

record scheduler =
  sd_lanes :: "string \<rightharpoonup> nat"
  sd_store :: "lane_state list"
  sd_callers :: "caller list"

definition new_scheduler :: scheduler where
  "new_scheduler = \<lparr> sd_lanes = Map.empty, sd_store = [], sd_callers = [] \<rparr>"

definition lane_retain :: "string \<Rightarrow> scheduler \<Rightarrow> nat \<times> scheduler" where
  "lane_retain key s =
     (case sd_lanes s key of
        Some p \<Rightarrow> (p, s\<lparr>sd_store := (sd_store s)[p := (sd_store s ! p)\<lparr>ln_refs := ln_refs (sd_store s ! p) + 1\<rparr>]\<rparr>)
      | None \<Rightarrow> (length (sd_store s),
          s\<lparr>sd_lanes := (sd_lanes s)(key \<mapsto> length (sd_store s)),
            sd_store := sd_store s @ [\<lparr> ln_token = True, ln_refs = 1 \<rparr>]\<rparr>))"

definition lane_drop :: "string \<Rightarrow> nat \<Rightarrow> scheduler \<Rightarrow> scheduler" where
  "lane_drop key p s =
     (if sd_lanes s key \<noteq> Some p then s
      else
        (let l = (sd_store s ! p)\<lparr>ln_refs := ln_refs (sd_store s ! p) - 1\<rparr>;
             s1 = s\<lparr>sd_store := (sd_store s)[p := l]\<rparr>
         in if ln_refs l = 0 \<and> ln_token l then s1\<lparr>sd_lanes := (sd_lanes s1)(key := None)\<rparr> else s1))"

definition set_token :: "bool \<Rightarrow> nat \<Rightarrow> scheduler \<Rightarrow> scheduler" where
  "set_token b p s = s\<lparr>sd_store := (sd_store s)[p := (sd_store s ! p)\<lparr>ln_token := b\<rparr>]\<rparr>"

definition set_caller :: "nat \<Rightarrow> caller \<Rightarrow> scheduler \<Rightarrow> scheduler" where
  "set_caller c x s = s\<lparr>sd_callers := (sd_callers s)[c := x]\<rparr>"

text \<open>The parts of \<open>Acquire\<close> and \<open>Release\<close>.\<close>

definition acquire_start :: "work_item \<Rightarrow> scheduler \<Rightarrow> scheduler" where
  "acquire_start w s = (let (p, s1) = lane_retain (lane_resolve w) s
     in s1\<lparr>sd_callers := sd_callers s1 @ [LaneWaiting (lane_resolve w) p]\<rparr>)"

definition acquire_take :: "nat \<Rightarrow> string \<Rightarrow> nat \<Rightarrow> scheduler \<Rightarrow> scheduler" where
  "acquire_take c key p s = set_caller c (LaneHolding key p) (set_token False p s)"

definition acquire_cancel :: "nat \<Rightarrow> string \<Rightarrow> nat \<Rightarrow> scheduler \<Rightarrow> scheduler" where
  "acquire_cancel c key p s = set_caller c LaneGone (lane_drop key p s)"

definition release_token :: "nat \<Rightarrow> string \<Rightarrow> nat \<Rightarrow> scheduler \<Rightarrow> scheduler" where
  "release_token c key p s = set_caller c (LaneReleasing key p) (set_token True p s)"

definition release_drop :: "nat \<Rightarrow> string \<Rightarrow> nat \<Rightarrow> scheduler \<Rightarrow> scheduler" where
  "release_drop c key p s = set_caller c LaneGone (lane_drop key p s)"

text \<open>
  One step of some caller.  The send in \<open>release\<close> blocks while the channel is full.
\<close>

inductive lane_step :: "scheduler \<Rightarrow> scheduler \<Rightarrow> bool" where
  lane_start: "lane_step s (acquire_start w s)"
| lane_take: "c < length (sd_callers s) \<Longrightarrow> sd_callers s ! c = LaneWaiting key p \<Longrightarrow> ln_token (sd_store s ! p) \<Longrightarrow>
     lane_step s (acquire_take c key p s)"
| lane_cancel: "c < length (sd_callers s) \<Longrightarrow> sd_callers s ! c = LaneWaiting key p \<Longrightarrow>
     lane_step s (acquire_cancel c key p s)"
| lane_release: "c < length (sd_callers s) \<Longrightarrow> sd_callers s ! c = LaneHolding key p \<Longrightarrow> \<not> ln_token (sd_store s ! p) \<Longrightarrow>
     lane_step s (release_token c key p s)"
| lane_dropped: "c < length (sd_callers s) \<Longrightarrow> sd_callers s ! c = LaneReleasing key p \<Longrightarrow>
     lane_step s (release_drop c key p s)"

inductive lane_reachable :: "scheduler \<Rightarrow> bool" where
  lane_init: "lane_reachable new_scheduler"
| lane_more: "lane_reachable s \<Longrightarrow> lane_step s s' \<Longrightarrow> lane_reachable s'"

end
