(* ===== verification/Claim_Tx.thy ===== *)
theory Claim_Tx
  imports Store Lanes
begin

text \<open>
  \<open>internal/store/tx/claim_work.go\<close>: the runnable events in order, and the claim that moves
  one of them to \<open>processing\<close> together with a started run.
\<close>

text \<open>\<open>LIMIT ?\<close> with the default the operation puts for a limit that is not positive.\<close>

definition limit_or :: "nat \<Rightarrow> int \<Rightarrow> nat" where
  "limit_or dflt limit = (if limit \<le> 0 then dflt else nat limit)"

definition list_runnable :: "int \<Rightarrow> database \<Rightarrow> work_item list" where
  "list_runnable limit d =
     map (\<lambda>e. let w = \<lparr> wi_event_id = ev_event_id e, wi_session_key = ev_session_key e, wi_lane_key = [],
                        wi_source = [], wi_channel = [], wi_metadata = [] \<rparr>
              in w\<lparr>wi_lane_key := lane_resolve w\<rparr>)
       (take (limit_or 64 limit)
         (sort_key (\<lambda>e. (ev_updated_at e, ev_event_id e))
           (filter (\<lambda>e. ev_status e \<in> {EventStatusReceived, EventStatusQueued}) (db_events d))))"

definition has_started_run :: "string \<Rightarrow> run_row list \<Rightarrow> bool" where
  "has_started_run eid rs = (\<exists>r \<in> set rs. rn_event_id r = eid \<and> rn_status r = RunStatusStarted)"

definition claimable :: "string \<Rightarrow> run_row list \<Rightarrow> event_row \<Rightarrow> bool" where
  "claimable eid rs e =
     (ev_event_id e = eid \<and> ev_status e \<in> {EventStatusReceived, EventStatusQueued} \<and>
      \<not> has_started_run (ev_event_id e) rs)"

definition claim_run_mode :: "event_payload \<Rightarrow> run_mode" where
  "claim_run_mode p = (if is_no_reply_payload (payload_type p) then RunModeNoReply else RunModeNormal)"

definition new_run_row :: "string \<Rightarrow> event_row \<Rightarrow> run_mode \<Rightarrow> time \<Rightarrow> run_row" where
  "new_run_row run_id e mode now =
     \<lparr> rn_run_id = run_id, rn_event_id = ev_event_id e, rn_session_key = ev_session_key e,
       rn_session_id = ev_session_id e, rn_run_mode = mode, rn_status = RunStatusStarted,
       rn_provider = [], rn_model = [], rn_prompt_tokens = 0, rn_completion_tokens = 0,
       rn_total_tokens = 0, rn_latency_ms = 0, rn_finish_reason = [], rn_raw_finish_reason = [],
       rn_provider_request_id = [], rn_output_text = [], rn_tool_calls = [], rn_diagnostics = [],
       rn_error_code = [], rn_error_message = [], rn_started_at = time_text now, rn_finished_at = [] \<rparr>"

definition claim_event_row :: "string \<Rightarrow> time \<Rightarrow> event_row \<Rightarrow> event_row" where
  "claim_event_row run_id now e =
     e\<lparr> ev_status := EventStatusProcessing, ev_processing_started_at := time_text now,
        ev_updated_at := time_text now, ev_run_id := run_id, ev_run_mode := RunModeNormal \<rparr>"

definition claimed_context :: "event_row \<Rightarrow> string \<Rightarrow> run_mode \<Rightarrow> claim_context" where
  "claimed_context e run_id mode =
     \<lparr> cc_work = \<lparr> wi_event_id = [], wi_session_key = [], wi_lane_key = [], wi_source = [], wi_channel = [], wi_metadata = [] \<rparr>,
       cc_event = \<lparr> event_id = ev_event_id e, source = ev_source e, tenant_id = ev_tenant_id e, scopes = [],
          ie_conversation = \<lparr> conversation_id = ev_conversation_id e, thread_id = [],
             channel_type = ev_channel_type e, participant_id = ev_participant_id e \<rparr>,
          session_key = ev_session_key e, idempotency_key = ev_idempotency_key e,
          timestamp = must_parse_time (ev_created_at e), payload = ev_payload e,
          active_session_id = ev_session_id e \<rparr>,
       cc_run_id = run_id, cc_run_mode = mode, cc_session_key = ev_session_key e,
       cc_session_id = ev_session_id e, cc_source = ev_source e, cc_channel = [], cc_metadata = [] \<rparr>"

text \<open>
  \<open>claimEvent\<close>'s transaction.  \<open>UPDATE ... RETURNING\<close> scans the first updated row;
  \<open>event_id\<close> is the primary key, so it is the only one.
\<close>

definition claim_event_tx :: "string \<Rightarrow> string \<Rightarrow> time \<Rightarrow> claim_context tx" where
  "claim_event_tx eid run_id now d =
     (case find (claimable eid (db_runs d)) (db_events d) of
        None \<Rightarrow> Inl NoMutation
      | Some e \<Rightarrow>
          (let mode = claim_run_mode (ev_payload e);
               events = update_where (claimable eid (db_runs d)) (claim_event_row run_id now) (db_events d)
           in and_then (require_row ''runs.run_id''
                  (insert_row rn_run_id (new_run_row run_id e mode now) (db_runs d))) (\<lambda>runs.
              Inr (claimed_context e run_id mode,
                   d\<lparr>db_runs := runs,
                     db_events := update_where (\<lambda>e. ev_event_id e = eid) (\<lambda>e. e\<lparr>ev_run_mode := mode\<rparr>) events\<rparr>))))"

text \<open>\<open>None\<close> is the \<open>false\<close> of the Go result: there was nothing to claim.\<close>

definition claim_event ::
  "tx_fault \<Rightarrow> string \<Rightarrow> string \<Rightarrow> time \<Rightarrow> database \<Rightarrow> (store_error + claim_context option) \<times> database" where
  "claim_event flt eid run_id now d =
     (case with_writer_tx flt (claim_event_tx eid run_id now) d of
        (Inl NoMutation, d') \<Rightarrow> (Inr None, d')
      | (Inl e, d') \<Rightarrow> (Inl e, d')
      | (Inr c, d') \<Rightarrow> if event_id (cc_event c) = [] then (Inr None, d') else (Inr (Some c), d'))"

definition claim_channel :: "string \<Rightarrow> string" where
  "claim_channel src = (if src = ''telegram'' then ''telegram'' else [])"

definition claim_work ::
  "tx_fault \<Rightarrow> work_item \<Rightarrow> string \<Rightarrow> time \<Rightarrow> database \<Rightarrow> (store_error + claim_context option) \<times> database" where
  "claim_work flt work run_id now d =
     (case claim_event flt (wi_event_id work) run_id now d of
        (Inl e, d') \<Rightarrow> (Inl e, d')
      | (Inr None, d') \<Rightarrow> (Inr None, d')
      | (Inr (Some c), d') \<Rightarrow>
          (let w0 = (if wi_event_id work = [] then work\<lparr>wi_event_id := event_id (cc_event c)\<rparr> else work);
               w1 = w0\<lparr>wi_session_key := cc_session_key c, wi_source := cc_source c,
                       wi_channel := claim_channel (cc_source c)\<rparr>;
               w2 = w1\<lparr>wi_lane_key := lane_resolve w1\<rparr>
           in (Inr (Some (c\<lparr>cc_work := w2, cc_source := wi_source w2, cc_channel := claim_channel (cc_source c)\<rparr>)), d')))"

section \<open>Facts\<close>

lemma claim_event_tx_InrD:
  assumes "claim_event_tx eid run_id now d = Inr (c, d')"
  obtains e where "e \<in> set (db_events d)" "ev_event_id e = eid" "event_runnable (ev_status e)"
    "\<not> has_started_run eid (db_runs d)" "run_id \<notin> rn_run_id ` set (db_runs d)"
    "c = claimed_context e run_id (claim_run_mode (ev_payload e))"
    "d' = d\<lparr>db_runs := db_runs d @ [new_run_row run_id e (claim_run_mode (ev_payload e)) now],
            db_events := update_where (\<lambda>e. ev_event_id e = eid) (\<lambda>e'. e'\<lparr>ev_run_mode := claim_run_mode (ev_payload e)\<rparr>)
              (update_where (claimable eid (db_runs d)) (claim_event_row run_id now) (db_events d))\<rparr>"
proof -
  from assms obtain e where e: "find (claimable eid (db_runs d)) (db_events d) = Some e"
    by (auto simp: claim_event_tx_def split: option.splits)
  then have m: "e \<in> set (db_events d)" "claimable eid (db_runs d) e" by (auto dest: find_SomeD)
  show ?thesis
    by (rule that [of e]; use assms e m in \<open>auto simp: claim_event_tx_def Let_def table_simps claimable_def
        event_runnable_def new_run_row_def dest!: and_then_InrD\<close>)
qed

lemma claim_event_cases:
  assumes "claim_event flt eid run_id now d = (r, d')"
  obtains (error) e where "r = Inl e" "d' = d"
  | (nothing) "r = Inr None" "d' = d"
  | (blank) c where "r = Inr None" "claim_event_tx eid run_id now d = Inr (c, d')" "event_id (cc_event c) = []"
  | (claimed) c where "r = Inr (Some c)" "claim_event_tx eid run_id now d = Inr (c, d')"
      "event_id (cc_event c) \<noteq> []"
proof (cases "with_writer_tx flt (claim_event_tx eid run_id now) d")
  case (Pair r0 d0)
  show ?thesis
  proof (cases r0)
    case (Inl e)
    with Pair have "d0 = d" by (auto dest: with_writer_tx_Inl)
    show ?thesis
    proof (cases "e = NoMutation")
      case True
      show ?thesis by (rule nothing) (use True Inl Pair assms \<open>d0 = d\<close> in \<open>simp_all add: claim_event_def\<close>)
    next
      case False
      show ?thesis
        by (rule error [of e]) (use False Inl Pair assms \<open>d0 = d\<close> in \<open>auto simp: claim_event_def split: store_error.splits\<close>)
    qed
  next
    case (Inr c)
    with Pair have c: "claim_event_tx eid run_id now d = Inr (c, d0)" by (auto dest: with_writer_tx_InrD)
    show ?thesis
    proof (cases "event_id (cc_event c) = []")
      case True
      show ?thesis by (rule blank [of c]) (use True Inr Pair assms c in \<open>simp_all add: claim_event_def\<close>)
    next
      case False
      show ?thesis by (rule claimed [of c]) (use False Inr Pair assms c in \<open>simp_all add: claim_event_def\<close>)
    qed
  qed
qed

text \<open>The claimed row, once the two updates of it are put together.\<close>

lemma claim_updates:
  assumes "distinct (map ev_event_id evs)" "e \<in> set evs" "ev_event_id e = eid" "claimable eid rs e"
  shows "update_where (\<lambda>e. ev_event_id e = eid) (\<lambda>e'. e'\<lparr>ev_run_mode := mode\<rparr>)
      (update_where (claimable eid rs) (claim_event_row run_id now) evs) =
    update_where (\<lambda>e. ev_event_id e = eid) (\<lambda>e'. (claim_event_row run_id now e')\<lparr>ev_run_mode := mode\<rparr>) evs"
proof -
  have "claimable eid rs e'" if "e' \<in> set evs" "ev_event_id e' = eid" for e'
    using that assms by (metis distinct_map inj_onD)
  moreover have "ev_event_id (claim_event_row run_id now e') = ev_event_id e'" for e'
    by (simp add: claim_event_row_def)
  ultimately show ?thesis
    by (auto simp: update_where_def claimable_def)
qed

end
