(* ===== verification/Finalize_Tx.thy ===== *)
theory Finalize_Tx
  imports Session_Projection
begin

text \<open>
  \<open>internal/store/tx/finalize_run.go\<close>: one transaction stores the messages of a run, closes the
  run, enqueues the reply in the outbox, closes the event and refreshes the session.
\<close>

definition new_message_row :: "nat \<Rightarrow> stored_message \<Rightarrow> message_row" where
  "new_message_row rowid m =
     \<lparr> ms_rowid = rowid, ms_message_id = sm_message_id m, ms_session_key = sm_session_key m,
       ms_session_id = sm_session_id m, ms_run_id = sm_run_id m, ms_role = sm_role m,
       ms_content = sm_content m, ms_visible = bool_to_int (sm_visible m),
       ms_tool_call_id = sm_tool_call_id m, ms_tool_name = sm_tool_name m,
       ms_tool_args = sm_tool_args m, ms_tool_result = sm_tool_result m,
       ms_meta = encode_stored_meta (sm_meta m) (sm_tool_calls m),
       ms_created_at = time_text (sm_created_at m) \<rparr>"

text \<open>
  The loop over \<open>cmd.Messages\<close>.  \<open>AUTOINCREMENT\<close> counts the rows: no statement of the
  program deletes a message, and a transaction that fails takes its numbers back.
\<close>

fun insert_messages :: "stored_message list \<Rightarrow> message_row list \<Rightarrow> store_error + message_row list" where
  "insert_messages [] rows = Inr rows"
| "insert_messages (m # ms) rows =
     and_then (require_row ''messages.message_id''
         (insert_row ms_message_id (new_message_row (Suc (length rows)) m) rows))
       (insert_messages ms)"

definition error_columns :: "error_block option \<Rightarrow> string \<times> string" where
  "error_columns err = (case err of None \<Rightarrow> ([], []) | Some b \<Rightarrow> (eb_code b, eb_message b))"

definition finalize_run_row :: "finalize_command \<Rightarrow> run_row \<Rightarrow> run_row" where
  "finalize_run_row cmd r =
     r\<lparr> rn_run_mode := fc_run_mode cmd, rn_status := fc_run_status cmd, rn_provider := fc_provider cmd,
        rn_model := fc_model cmd, rn_prompt_tokens := fc_prompt_tokens cmd,
        rn_completion_tokens := fc_completion_tokens cmd, rn_total_tokens := fc_total_tokens cmd,
        rn_latency_ms := fc_latency_ms cmd, rn_finish_reason := fc_finish_reason cmd,
        rn_raw_finish_reason := fc_raw_finish_reason cmd,
        rn_provider_request_id := fc_provider_request_id cmd, rn_output_text := fc_output_text cmd,
        rn_tool_calls := fc_tool_calls cmd, rn_diagnostics := fc_diagnostics cmd,
        rn_error_code := fst (error_columns (fc_error cmd)),
        rn_error_message := snd (error_columns (fc_error cmd)),
        rn_finished_at := time_text (fc_now cmd) \<rparr>"

definition delivers :: "finalize_command \<Rightarrow> bool" where
  "delivers cmd = (trim_space (fc_outbox_body cmd) \<noteq> [] \<and> fc_event_status cmd = EventStatusProcessed)"

definition outbox_id_for :: "time \<Rightarrow> string" where
  "outbox_id_for now = ''out_'' @ show_int (unix_nano now)"

definition new_outbox_row :: "finalize_command \<Rightarrow> outbox_row" where
  "new_outbox_row cmd =
     \<lparr> ob_outbox_id = outbox_id_for (fc_now cmd), ob_event_id = fc_event_id cmd,
       ob_session_key = fc_session_key cmd, ob_channel = fc_outbox_channel cmd,
       ob_target_id = fc_outbox_target_id cmd, ob_body = fc_outbox_body cmd,
       ob_status = OutboxStatusPending, ob_next_attempt_at = time_text (fc_now cmd),
       ob_locked_at = [], ob_lock_owner = [], ob_attempt_count = 0, ob_last_error = [],
       ob_created_at = time_text (fc_now cmd), ob_updated_at = time_text (fc_now cmd), ob_sent_at = [] \<rparr>"

definition finalize_event_row :: "finalize_command \<Rightarrow> event_row \<Rightarrow> event_row" where
  "finalize_event_row cmd e =
     e\<lparr> ev_status := fc_event_status cmd, ev_run_id := fc_run_id cmd, ev_run_mode := fc_run_mode cmd,
        ev_assistant_reply := fc_assistant_reply cmd,
        ev_outbox_id := (if delivers cmd then outbox_id_for (fc_now cmd) else []),
        ev_outbox_status := (if delivers cmd then OutboxStatusPending else OutboxStatusUnset),
        ev_processing_started_at := [], ev_provider := fc_provider cmd, ev_model := fc_model cmd,
        ev_provider_request_id := fc_provider_request_id cmd,
        ev_error_code := fst (error_columns (fc_error cmd)),
        ev_error_message := snd (error_columns (fc_error cmd)),
        ev_updated_at := time_text (fc_now cmd) \<rparr>"

definition insert_outbox :: "finalize_command \<Rightarrow> outbox_row list \<Rightarrow> store_error + outbox_row list" where
  "insert_outbox cmd rows =
     (if delivers cmd
      then require_row ''outbox.outbox_id'' (insert_row ob_outbox_id (new_outbox_row cmd) rows)
      else Inr rows)"

definition finalize_tx :: "finalize_command \<Rightarrow> unit tx" where
  "finalize_tx cmd d =
     and_then (insert_messages (fc_messages cmd) (db_messages d)) (\<lambda>messages.
       let runs = update_where (\<lambda>r. rn_run_id r = fc_run_id cmd) (finalize_run_row cmd) (db_runs d) in
       and_then (insert_outbox cmd (db_outbox d)) (\<lambda>outbox.
         let events = update_where (\<lambda>e. ev_event_id e = fc_event_id cmd) (finalize_event_row cmd) (db_events d) in
         Inr ((), recompute_session_aggregate (fc_session_key cmd) (fc_now cmd)
                    (d\<lparr>db_messages := messages, db_runs := runs, db_outbox := outbox, db_events := events\<rparr>))))"

definition finalize :: "tx_fault \<Rightarrow> finalize_command \<Rightarrow> database \<Rightarrow> (store_error + unit) \<times> database" where
  "finalize flt cmd d = with_writer_tx flt (finalize_tx cmd) d"

section \<open>Facts\<close>

fun message_rows :: "nat \<Rightarrow> stored_message list \<Rightarrow> message_row list" where
  "message_rows n [] = []"
| "message_rows n (m # ms) = new_message_row (Suc n) m # message_rows (Suc n) ms"

lemma insert_messages_Inr:
  "insert_messages ms rows = Inr rows' \<Longrightarrow>
     rows' = rows @ message_rows (length rows) ms \<and>
     (distinct (map ms_message_id rows) \<longrightarrow> distinct (map ms_message_id rows'))"
proof (induction ms arbitrary: rows)
  case (Cons m ms)
  let ?r = "new_message_row (Suc (length rows)) m"
  from Cons.prems have k: "ms_message_id ?r \<notin> ms_message_id ` set rows"
    and i: "insert_messages ms (rows @ [?r]) = Inr rows'"
    by (auto simp: table_simps dest!: and_then_InrD)
  note IH = Cons.IH [OF i]
  have "distinct (map ms_message_id rows) \<longrightarrow> distinct (map ms_message_id rows')"
    using conjunct2 [OF IH] k by simp
  moreover have "rows' = rows @ message_rows (length rows) (m # ms)"
    using conjunct1 [OF IH] by simp
  ultimately show ?case by blast
qed simp

lemma insert_messages_total:
  assumes "distinct (map sm_message_id ms)" "sm_message_id ` set ms \<inter> ms_message_id ` set rows = {}"
  shows "insert_messages ms rows = Inr (rows @ message_rows (length rows) ms)"
  using assms
proof (induction ms arbitrary: rows)
  case (Cons m ms)
  let ?r = "new_message_row (Suc (length rows)) m"
  have "ms_message_id ?r = sm_message_id m" by (simp add: new_message_row_def)
  moreover from this have "insert_messages ms (rows @ [?r]) = Inr ((rows @ [?r]) @ message_rows (length (rows @ [?r])) ms)"
    using Cons.prems by (intro Cons.IH) auto
  ultimately show ?case using Cons.prems by (simp add: insert_row_def require_row_def)
qed simp

lemma set_message_rows:
  "r \<in> set (message_rows n ms) \<Longrightarrow> \<exists>m \<in> set ms. \<exists>k. r = new_message_row k m"
  by (induction ms arbitrary: n) auto

lemma map_message_rows:
  "map ms_message_id (message_rows n ms) = map sm_message_id ms"
  by (induction ms arbitrary: n) (simp_all add: new_message_row_def)

lemma finalize_run_row_simps [simp]:
  "rn_run_id (finalize_run_row cmd r) = rn_run_id r"
  "rn_event_id (finalize_run_row cmd r) = rn_event_id r"
  "rn_session_key (finalize_run_row cmd r) = rn_session_key r"
  "rn_session_id (finalize_run_row cmd r) = rn_session_id r"
  "rn_status (finalize_run_row cmd r) = fc_run_status cmd"
  by (simp_all add: finalize_run_row_def)

lemma finalize_event_row_simps [simp]:
  "ev_event_id (finalize_event_row cmd e) = ev_event_id e"
  "ev_idempotency_key (finalize_event_row cmd e) = ev_idempotency_key e"
  "ev_session_key (finalize_event_row cmd e) = ev_session_key e"
  "ev_session_id (finalize_event_row cmd e) = ev_session_id e"
  "ev_payload_hash (finalize_event_row cmd e) = ev_payload_hash e"
  "ev_created_at (finalize_event_row cmd e) = ev_created_at e"
  "ev_status (finalize_event_row cmd e) = fc_event_status cmd"
  "ev_run_id (finalize_event_row cmd e) = fc_run_id cmd"
  by (simp_all add: finalize_event_row_def)

lemma finalize_tx_InrD:
  assumes "finalize_tx cmd d = Inr ((), d')"
  obtains outbox where
    "outbox = db_outbox d @ (if delivers cmd then [new_outbox_row cmd] else [])"
    "delivers cmd \<Longrightarrow> outbox_id_for (fc_now cmd) \<notin> ob_outbox_id ` set (db_outbox d)"
    "insert_messages (fc_messages cmd) (db_messages d) =
       Inr (db_messages d @ message_rows (length (db_messages d)) (fc_messages cmd))"
    "d' = recompute_session_aggregate (fc_session_key cmd) (fc_now cmd)
       (d\<lparr>db_messages := db_messages d @ message_rows (length (db_messages d)) (fc_messages cmd),
          db_runs := update_where (\<lambda>r. rn_run_id r = fc_run_id cmd) (finalize_run_row cmd) (db_runs d),
          db_outbox := outbox,
          db_events := update_where (\<lambda>e. ev_event_id e = fc_event_id cmd) (finalize_event_row cmd) (db_events d)\<rparr>)"
proof -
  from assms obtain messages outbox where
    m: "insert_messages (fc_messages cmd) (db_messages d) = Inr messages"
    and o: "insert_outbox cmd (db_outbox d) = Inr outbox"
    and d': "d' = recompute_session_aggregate (fc_session_key cmd) (fc_now cmd)
       (d\<lparr>db_messages := messages,
          db_runs := update_where (\<lambda>r. rn_run_id r = fc_run_id cmd) (finalize_run_row cmd) (db_runs d),
          db_outbox := outbox,
          db_events := update_where (\<lambda>e. ev_event_id e = fc_event_id cmd) (finalize_event_row cmd) (db_events d)\<rparr>)"
    by (auto simp: finalize_tx_def Let_def dest!: and_then_InrD)
  from insert_messages_Inr [OF m]
  have mm: "messages = db_messages d @ message_rows (length (db_messages d)) (fc_messages cmd)" by simp
  have oo: "outbox = db_outbox d @ (if delivers cmd then [new_outbox_row cmd] else [])"
    "delivers cmd \<Longrightarrow> outbox_id_for (fc_now cmd) \<notin> ob_outbox_id ` set (db_outbox d)"
    using o by (auto simp: insert_outbox_def table_simps new_outbox_row_def split: if_splits)
  show ?thesis by (rule that [OF oo]) (use m mm d' in auto)
qed

end
