(* ===== verification/Outbox_Tx.thy ===== *)
theory Outbox_Tx
  imports Store
begin

text \<open>
  \<open>internal/store/tx/outbox.go\<close>: the outbox rows go from \<open>pending\<close> through \<open>sending\<close> to
  \<open>sent\<close>, \<open>retry_wait\<close> or \<open>dead\<close>, and every transition is mirrored in the event's
  \<open>outbox_status\<close>.
\<close>

definition set_event_outbox_status :: "string \<Rightarrow> outbox_status \<Rightarrow> time \<Rightarrow> event_row list \<Rightarrow> event_row list" where
  "set_event_outbox_status eid st now =
     update_where (\<lambda>e. ev_event_id e = eid) (\<lambda>e. e\<lparr>ev_outbox_status := st, ev_updated_at := time_text now\<rparr>)"

section \<open>Recovery of expired leases\<close>

definition sending_expired :: "time \<Rightarrow> outbox_row \<Rightarrow> bool" where
  "sending_expired cutoff r =
     (ob_status r = OutboxStatusSending \<and> ob_locked_at r \<noteq> [] \<and> ob_locked_at r \<le> time_text cutoff)"

definition recover_outbox_item :: "time \<Rightarrow> string \<times> string \<Rightarrow> database \<Rightarrow> database" where
  "recover_outbox_item now item d =
     d\<lparr>db_outbox := update_where (\<lambda>r. ob_outbox_id r = fst item)
         (\<lambda>r. r\<lparr>ob_status := OutboxStatusRetryWait, ob_locked_at := [], ob_lock_owner := [],
                ob_next_attempt_at := time_text now, ob_updated_at := time_text now\<rparr>) (db_outbox d),
       db_events := set_event_outbox_status (snd item) OutboxStatusRetryWait now (db_events d)\<rparr>"

definition recover_expired_sending :: "tx_fault \<Rightarrow> time \<Rightarrow> time \<Rightarrow> database \<Rightarrow> (store_error + unit) \<times> database" where
  "recover_expired_sending flt cutoff now d =
     with_writer_tx flt (\<lambda>d.
       let expired = map (\<lambda>r. (ob_outbox_id r, ob_event_id r)) (filter (sending_expired cutoff) (db_outbox d))
       in Inr ((), fold (recover_outbox_item now) expired d)) d"

section \<open>Claiming\<close>

definition outbox_due :: "time \<Rightarrow> outbox_row \<Rightarrow> bool" where
  "outbox_due now r =
     (ob_status r \<in> {OutboxStatusPending, OutboxStatusRetryWait} \<and> ob_next_attempt_at r \<le> time_text now)"

definition next_outbox :: "time \<Rightarrow> outbox_row list \<Rightarrow> outbox_row option" where
  "next_outbox now rows =
     first_by (\<lambda>r. (ob_next_attempt_at r, ob_outbox_id r)) (filter (outbox_due now) rows)"

definition to_claimed_outbox :: "outbox_row \<Rightarrow> claimed_outbox" where
  "to_claimed_outbox r =
     \<lparr> co_outbox_id = ob_outbox_id r, co_event_id = ob_event_id r, co_session_key = ob_session_key r,
       co_channel = ob_channel r, co_target_id = ob_target_id r, co_body = ob_body r,
       co_attempt_count = ob_attempt_count r, co_created_at = must_parse_time (ob_created_at r) \<rparr>"

definition lock_outbox_row :: "string \<Rightarrow> time \<Rightarrow> outbox_row \<Rightarrow> outbox_row" where
  "lock_outbox_row owner now r =
     r\<lparr>ob_status := OutboxStatusSending, ob_locked_at := time_text now, ob_lock_owner := owner,
       ob_updated_at := time_text now\<rparr>"

definition claim_runtime_outbox_tx :: "string \<Rightarrow> time \<Rightarrow> claimed_outbox option tx" where
  "claim_runtime_outbox_tx owner now d =
     (case next_outbox now (db_outbox d) of
        None \<Rightarrow> Inr (None, d)
      | Some r \<Rightarrow>
          Inr (Some (to_claimed_outbox r),
               d\<lparr>db_outbox := update_where (\<lambda>r'. ob_outbox_id r' = ob_outbox_id r) (lock_outbox_row owner now) (db_outbox d),
                 db_events := set_event_outbox_status (ob_event_id r) OutboxStatusSending now (db_events d)\<rparr>))"

definition claim_runtime_outbox ::
  "tx_fault \<Rightarrow> string \<Rightarrow> time \<Rightarrow> database \<Rightarrow> (store_error + claimed_outbox option) \<times> database" where
  "claim_runtime_outbox flt owner now d = with_writer_tx flt (claim_runtime_outbox_tx owner now) d"

section \<open>Outcome of a send\<close>

definition fail_outbox_row :: "outbox_status \<Rightarrow> string \<Rightarrow> time \<Rightarrow> time \<Rightarrow> outbox_row \<Rightarrow> outbox_row" where
  "fail_outbox_row st message next_at now r =
     r\<lparr>ob_status := st, ob_locked_at := [], ob_lock_owner := [],
       ob_attempt_count := ob_attempt_count r + 1, ob_last_error := message,
       ob_next_attempt_at := time_text next_at, ob_updated_at := time_text now\<rparr>"

definition fail_outbox_send ::
  "tx_fault \<Rightarrow> string \<Rightarrow> string \<Rightarrow> string \<Rightarrow> bool \<Rightarrow> time \<Rightarrow> time \<Rightarrow> database \<Rightarrow> (store_error + unit) \<times> database" where
  "fail_outbox_send flt oid eid message dead next_at now d =
     (let st = (if dead then OutboxStatusDead else OutboxStatusRetryWait) in
      with_writer_tx flt (\<lambda>d. Inr ((),
        d\<lparr>db_outbox := update_where (\<lambda>r. ob_outbox_id r = oid) (fail_outbox_row st message next_at now) (db_outbox d),
          db_events := set_event_outbox_status eid st now (db_events d)\<rparr>)) d)"

definition sent_outbox_row :: "time \<Rightarrow> outbox_row \<Rightarrow> outbox_row" where
  "sent_outbox_row now r =
     r\<lparr>ob_status := OutboxStatusSent, ob_locked_at := [], ob_lock_owner := [],
       ob_sent_at := time_text now, ob_updated_at := time_text now\<rparr>"

definition complete_outbox_send ::
  "tx_fault \<Rightarrow> string \<Rightarrow> string \<Rightarrow> time \<Rightarrow> database \<Rightarrow> (store_error + unit) \<times> database" where
  "complete_outbox_send flt oid eid now d =
     with_writer_tx flt (\<lambda>d. Inr ((),
       d\<lparr>db_outbox := update_where (\<lambda>r. ob_outbox_id r = oid) (sent_outbox_row now) (db_outbox d),
         db_events := set_event_outbox_status eid OutboxStatusSent now (db_events d)\<rparr>)) d"

section \<open>Facts\<close>

lemma outbox_row_keys [simp]:
  "ob_outbox_id (lock_outbox_row w now r) = ob_outbox_id r"
  "ob_event_id (lock_outbox_row w now r) = ob_event_id r"
  "ob_outbox_id (fail_outbox_row st m n now r) = ob_outbox_id r"
  "ob_event_id (fail_outbox_row st m n now r) = ob_event_id r"
  "ob_outbox_id (sent_outbox_row now r) = ob_outbox_id r"
  "ob_event_id (sent_outbox_row now r) = ob_event_id r"
  by (simp_all add: lock_outbox_row_def fail_outbox_row_def sent_outbox_row_def)

lemma next_outbox_SomeD:
  assumes "next_outbox now rows = Some r"
  shows "r \<in> set rows" "outbox_due now r"
    "\<And>r'. r' \<in> set rows \<Longrightarrow> outbox_due now r' \<Longrightarrow>
       (ob_next_attempt_at r, ob_outbox_id r) \<le> (ob_next_attempt_at r', ob_outbox_id r')"
proof -
  have m: "r \<in> set (filter (outbox_due now) rows)"
    by (rule first_by_SomeD) (rule assms [unfolded next_outbox_def])
  then show "r \<in> set rows" "outbox_due now r" by auto
  show "(ob_next_attempt_at r, ob_outbox_id r) \<le> (ob_next_attempt_at r', ob_outbox_id r')"
    if "r' \<in> set rows" "outbox_due now r'" for r'
    by (rule first_by_least [OF assms [unfolded next_outbox_def]]) (use that in simp)
qed

lemma next_outbox_None: "next_outbox now rows = None \<longleftrightarrow> (\<forall>r \<in> set rows. \<not> outbox_due now r)"
  by (simp add: next_outbox_def filter_empty_conv)

lemma set_event_outbox_status_keys [table_simps]:
  assumes "\<And>e s u. f (e\<lparr>ev_outbox_status := s, ev_updated_at := u\<rparr>) = f e"
  shows "map f (set_event_outbox_status eid st now evs) = map f evs"
  using assms by (simp add: set_event_outbox_status_def map_update_where)

text \<open>Recovering the items one by one touches each expired row once.\<close>

lemma recover_outbox_item_frame [frame]:
  "db_sessions (recover_outbox_item now i d) = db_sessions d"
  "db_scopes (recover_outbox_item now i d) = db_scopes d"
  "db_messages (recover_outbox_item now i d) = db_messages d"
  "db_runs (recover_outbox_item now i d) = db_runs d"
  "db_idempotency (recover_outbox_item now i d) = db_idempotency d"
  "db_jobs (recover_outbox_item now i d) = db_jobs d"
  "db_heartbeats (recover_outbox_item now i d) = db_heartbeats d"
  by (simp_all add: recover_outbox_item_def)

lemma fold_invariant_step:
  assumes "\<And>x s. x \<in> set xs \<Longrightarrow> I s \<Longrightarrow> I (f x s)" "I s"
  shows "I (fold f xs s)"
  using assms by (induction xs arbitrary: s) auto

end
