(* ===== verification/Recover_Tx.thy ===== *)
theory Recover_Tx
  imports Store
begin

text \<open>
  \<open>internal/store/tx/recover_processing.go\<close>: events whose processing lease has expired go back
  to \<open>queued\<close> and their started runs fail, one transaction per event.
\<close>

text \<open>\<open>COALESCE(NULLIF(processing_started_at, ''), updated_at)\<close>.\<close>

definition lease_text :: "event_row \<Rightarrow> string" where
  "lease_text e = (if ev_processing_started_at e = [] then ev_updated_at e else ev_processing_started_at e)"

definition processing_expired :: "time \<Rightarrow> event_row \<Rightarrow> bool" where
  "processing_expired cutoff e =
     (ev_status e = EventStatusProcessing \<and> lease_text e \<le> time_text cutoff)"

definition expired_event_ids :: "time \<Rightarrow> database \<Rightarrow> string list" where
  "expired_event_ids cutoff d =
     map ev_event_id (sort_key (\<lambda>e. (ev_updated_at e, ev_event_id e))
       (filter (processing_expired cutoff) (db_events d)))"

definition lease_expired_message :: string where
  "lease_expired_message = ''processing lease expired''"

definition expire_run_row :: "time \<Rightarrow> run_row \<Rightarrow> run_row" where
  "expire_run_row now r =
     r\<lparr>rn_status := RunStatusFailed, rn_error_code := ErrorCodeInternal,
       rn_error_message := lease_expired_message, rn_finished_at := time_text now\<rparr>"

definition requeue_event_row :: "time \<Rightarrow> event_row \<Rightarrow> event_row" where
  "requeue_event_row now e =
     e\<lparr>ev_status := EventStatusQueued, ev_processing_started_at := [], ev_updated_at := time_text now,
       ev_error_code := ErrorCodeInternal, ev_error_message := lease_expired_message\<rparr>"

definition recover_event :: "time \<Rightarrow> string \<Rightarrow> database \<Rightarrow> database" where
  "recover_event now eid d =
     d\<lparr>db_runs := update_where (\<lambda>r. rn_event_id r = eid \<and> rn_status r = RunStatusStarted)
         (expire_run_row now) (db_runs d),
       db_events := update_where (\<lambda>e. ev_event_id e = eid \<and> ev_status e = EventStatusProcessing)
         (requeue_event_row now) (db_events d)\<rparr>"

text \<open>
  The loop stops at the first transaction that fails; what the earlier ones did stays.  The fault
  of the transaction for an event is \<open>flt eid\<close>.
\<close>

fun recover_events ::
  "(string \<Rightarrow> tx_fault) \<Rightarrow> time \<Rightarrow> string list \<Rightarrow> database \<Rightarrow> store_error option \<times> database" where
  "recover_events flt now [] d = (None, d)"
| "recover_events flt now (eid # eids) d =
     (case with_writer_tx (flt eid) (\<lambda>d. Inr ((), recover_event now eid d)) d of
        (Inl e, d') \<Rightarrow> (Some e, d')
      | (Inr _, d') \<Rightarrow> recover_events flt now eids d')"

text \<open>The ids are returned also with an error; \<open>read_fault\<close> is a failing query.\<close>

definition recover_expired_processing ::
  "string option \<Rightarrow> (string \<Rightarrow> tx_fault) \<Rightarrow> time \<Rightarrow> time \<Rightarrow> database
   \<Rightarrow> (string list \<times> store_error option) \<times> database" where
  "recover_expired_processing read_fault flt cutoff now d =
     (case read_fault of
        Some m \<Rightarrow> (([], Some (DriverError m)), d)
      | None \<Rightarrow>
          (let ids = expired_event_ids cutoff d; (err, d') = recover_events flt now ids d
           in ((ids, err), d')))"

section \<open>Facts\<close>

lemma recover_row_simps [simp]:
  "rn_run_id (expire_run_row now r) = rn_run_id r"
  "rn_event_id (expire_run_row now r) = rn_event_id r"
  "rn_session_key (expire_run_row now r) = rn_session_key r"
  "rn_status (expire_run_row now r) = RunStatusFailed"
  "ev_event_id (requeue_event_row now e) = ev_event_id e"
  "ev_idempotency_key (requeue_event_row now e) = ev_idempotency_key e"
  "ev_session_key (requeue_event_row now e) = ev_session_key e"
  "ev_status (requeue_event_row now e) = EventStatusQueued"
  by (simp_all add: expire_run_row_def requeue_event_row_def)

lemma set_expired_event_ids:
  "set (expired_event_ids cutoff d) = ev_event_id ` {e \<in> set (db_events d). processing_expired cutoff e}"
  by (simp add: expired_event_ids_def)

lemma recover_events_invariant:
  assumes "recover_events flt now ids d = (err, d')" "I d"
    "\<And>eid d. eid \<in> set ids \<Longrightarrow> I d \<Longrightarrow> I (recover_event now eid d)"
  shows "I d'"
  using assms
proof (induction ids arbitrary: d)
  case (Cons eid ids)
  obtain r d1 where w: "with_writer_tx (flt eid) (\<lambda>d. Inr ((), recover_event now eid d)) d = (r, d1)"
    by fastforce
  show ?case
  proof (cases r)
    case (Inl e)
    with w Cons.prems show ?thesis by (auto dest: with_writer_tx_Inl)
  next
    case (Inr u)
    with w have "d1 = recover_event now eid d" by (auto dest: with_writer_tx_InrD)
    with Cons.prems(2,3) have "I d1" by simp
    moreover have "recover_events flt now ids d1 = (err, d')" using Cons.prems(1) w Inr by simp
    ultimately show ?thesis using Cons.IH Cons.prems(3) by (meson list.set_intros(2))
  qed
qed simp

lemma recover_events_ok:
  assumes "\<And>eid. eid \<in> set ids \<Longrightarrow> flt eid = TxOk"
  shows "recover_events flt now ids d = (None, fold (recover_event now) ids d)"
  using assms by (induction ids arbitrary: d) (auto simp: with_writer_tx_def)

end
