(* ===== verification/Db_Invariant.thy ===== *)
theory Db_Invariant
  imports Ingest_Tx Claim_Tx Finalize_Tx Outbox_Tx Recover_Tx Jobs_Tx
begin

text \<open>
  What the transactions of \<open>internal/store\<close> keep of the database: the idempotency keys mirror the
  events, every event has its session, every run its event, a processing event has its started run
  and an event never has two, an outbox row is locked exactly while it is being sent, and the
  session rows cache the aggregates of the messages and runs.  Each invariant is preserved by each
  operation, whatever the driver does (\<open>tx_fault\<close>).
\<close>

section \<open>The invariants\<close>

definition idem_core :: "idempotency_row \<Rightarrow> string \<times> string \<times> string \<times> string \<times> string \<times> string" where
  "idem_core i = (ik_key i, ik_event_id i, ik_payload_hash i, ik_session_key i, ik_session_id i, ik_created_at i)"

definition event_core :: "event_row \<Rightarrow> string \<times> string \<times> string \<times> string \<times> string \<times> string" where
  "event_core e = (ev_idempotency_key e, ev_event_id e, ev_payload_hash e, ev_session_key e,
     ev_session_id e, ev_created_at e)"

definition idem_mirrors :: "database \<Rightarrow> bool" where
  "idem_mirrors d \<longleftrightarrow> map idem_core (db_idempotency d) = map event_core (db_events d)"

definition events_have_sessions :: "database \<Rightarrow> bool" where
  "events_have_sessions d \<longleftrightarrow> ev_session_key ` set (db_events d) \<subseteq> se_session_key ` set (db_sessions d)"

definition messages_have_sessions :: "database \<Rightarrow> bool" where
  "messages_have_sessions d \<longleftrightarrow> ms_session_key ` set (db_messages d) \<subseteq> se_session_key ` set (db_sessions d)"

definition run_core :: "run_row \<Rightarrow> string \<times> string" where
  "run_core r = (rn_event_id r, rn_session_key r)"

definition runs_have_events :: "database \<Rightarrow> bool" where
  "runs_have_events d \<longleftrightarrow>
     run_core ` set (db_runs d) \<subseteq> (\<lambda>e. (ev_event_id e, ev_session_key e)) ` set (db_events d)"

text \<open>A processing event is leased and its run is the started one it names.\<close>

definition processing_has_run :: "database \<Rightarrow> bool" where
  "processing_has_run d \<longleftrightarrow>
     (\<forall>e \<in> set (db_events d).
        (ev_processing_started_at e \<noteq> [] \<longleftrightarrow> ev_status e = EventStatusProcessing) \<and>
        (ev_status e = EventStatusProcessing \<longrightarrow>
           (\<exists>r \<in> set (db_runs d). rn_run_id r = ev_run_id e \<and> rn_event_id r = ev_event_id e \<and>
              rn_status r = RunStatusStarted)))"

definition started_unique :: "database \<Rightarrow> bool" where
  "started_unique d \<longleftrightarrow>
     distinct (map rn_event_id (filter (\<lambda>r. rn_status r = RunStatusStarted) (db_runs d)))"

definition outbox_locked :: "database \<Rightarrow> bool" where
  "outbox_locked d \<longleftrightarrow>
     (\<forall>r \<in> set (db_outbox d). (ob_locked_at r \<noteq> [] \<longleftrightarrow> ob_status r = OutboxStatusSending) \<and>
        ob_status r \<noteq> OutboxStatusUnset)"

definition outbox_has_events :: "database \<Rightarrow> bool" where
  "outbox_has_events d \<longleftrightarrow>
     ob_event_id ` set (db_outbox d) \<subseteq> ev_event_id ` set (db_events d)"

definition db_ok :: "database \<Rightarrow> bool" where
  "db_ok d \<longleftrightarrow> keys_unique d \<and> idem_mirrors d \<and> events_have_sessions d \<and> runs_have_events d \<and>
     processing_has_run d \<and> started_unique d \<and> outbox_locked d \<and> outbox_has_events d \<and> sessions_cached d \<and>
     messages_have_sessions d"

lemmas db_ok_defs = idem_mirrors_def events_have_sessions_def runs_have_events_def
  processing_has_run_def started_unique_def outbox_locked_def outbox_has_events_def messages_have_sessions_def

lemma db_okI:
  assumes "keys_unique d" "idem_mirrors d" "events_have_sessions d" "runs_have_events d"
    "processing_has_run d" "started_unique d" "outbox_locked d" "outbox_has_events d" "sessions_cached d"
    "messages_have_sessions d"
  shows "db_ok d"
  using assms by (simp add: db_ok_def)

lemma db_okD:
  assumes "db_ok d"
  shows "keys_unique d" "idem_mirrors d" "events_have_sessions d" "runs_have_events d"
    "processing_has_run d" "started_unique d" "outbox_locked d" "outbox_has_events d" "sessions_cached d"
    "messages_have_sessions d"
  using assms by (simp_all add: db_ok_def)

lemma db_ok_empty [simp]: "db_ok empty_db"
  by (intro db_okI keys_unique_empty) (simp_all add: db_ok_defs empty_db_def sessions_cached_def)

lemma run_event_exists:
  assumes "db_ok d" "r \<in> set (db_runs d)"
  obtains e where "e \<in> set (db_events d)" "ev_event_id e = rn_event_id r" "ev_session_key e = rn_session_key r"
proof -
  have "run_core r \<in> (\<lambda>e. (ev_event_id e, ev_session_key e)) ` set (db_events d)"
    using db_okD(4) [OF assms(1)] assms(2) by (auto simp: runs_have_events_def)
  then show ?thesis using that by (auto simp: run_core_def)
qed

lemma run_session_exists:
  assumes "db_ok d" "r \<in> set (db_runs d)"
  shows "rn_session_key r \<in> se_session_key ` set (db_sessions d)"
proof -
  obtain e where "e \<in> set (db_events d)" "ev_session_key e = rn_session_key r"
    using run_event_exists [OF assms] by metis
  then have "rn_session_key r \<in> ev_session_key ` set (db_events d)" by (metis imageI)
  then show ?thesis using db_okD(3) [OF assms(1)] by (auto simp: events_have_sessions_def)
qed

lemma time_text_not_Nil [simp]: "time_text t \<noteq> []"
  by (simp add: time_text_def)

section \<open>Operations that leave most of an event alone\<close>

text \<open>The columns of an event the invariants read.\<close>

definition event_view :: "event_row \<Rightarrow> (string \<times> string \<times> string \<times> string \<times> string \<times> string) \<times> event_status \<times> string \<times> string" where
  "event_view e = (event_core e, ev_status e, ev_run_id e, ev_processing_started_at e)"

lemma event_view_proj:
  "event_core = fst \<circ> event_view" "ev_event_id = fst \<circ> snd \<circ> fst \<circ> event_view"
  "ev_idempotency_key = fst \<circ> fst \<circ> event_view"
  "ev_session_key = fst \<circ> snd \<circ> snd \<circ> snd \<circ> fst \<circ> event_view"
  by (auto simp: event_view_def event_core_def)

text \<open>
  An update of the outbox with a mirror in the events keeps everything when it keeps the keys of
  both tables and the locking of the outbox rows.
\<close>

lemma db_ok_outbox_update:
  assumes ok: "db_ok d"
    and ev: "map event_view evs = map event_view (db_events d)"
    and ob: "map (\<lambda>r. (ob_outbox_id r, ob_event_id r)) obs = map (\<lambda>r. (ob_outbox_id r, ob_event_id r)) (db_outbox d)"
    and lk: "outbox_locked (d\<lparr>db_outbox := obs\<rparr>)"
  shows "db_ok (d\<lparr>db_outbox := obs, db_events := evs\<rparr>)"
proof (rule db_okI)
  have m: "map (f \<circ> event_view) evs = map (f \<circ> event_view) (db_events d)" for f :: "_ \<Rightarrow> 'b"
    using arg_cong [OF ev, of "map f"] by simp
  have mo: "map (f \<circ> (\<lambda>r. (ob_outbox_id r, ob_event_id r))) obs = map (f \<circ> (\<lambda>r. (ob_outbox_id r, ob_event_id r))) (db_outbox d)"
    for f :: "_ \<Rightarrow> 'c" using arg_cong [OF ob, of "map f"] by simp
  have e: "map event_core evs = map event_core (db_events d)" "map ev_event_id evs = map ev_event_id (db_events d)"
    "map ev_idempotency_key evs = map ev_idempotency_key (db_events d)"
    "map ev_session_key evs = map ev_session_key (db_events d)"
    unfolding event_view_proj by (simp_all only: m)
  have es: "map (\<lambda>e. (ev_event_id e, ev_session_key e)) evs = map (\<lambda>e. (ev_event_id e, ev_session_key e)) (db_events d)"
    using m [of "\<lambda>v. (fst (snd (fst v)), fst (snd (snd (snd (fst v)))))"] by (simp add: comp_def event_view_def event_core_def)
  have o: "map ob_outbox_id obs = map ob_outbox_id (db_outbox d)" "map ob_event_id obs = map ob_event_id (db_outbox d)"
    using mo [of fst] mo [of snd] by (simp_all add: comp_def)
  have se: "f ` set evs = f ` set (db_events d)" if "map f evs = map f (db_events d)" for f :: "_ \<Rightarrow> 'd"
    using arg_cong [OF that, of set] by simp
  have so: "ob_event_id ` set obs = ob_event_id ` set (db_outbox d)"
    using arg_cong [OF o(2), of set] by simp
  note k = db_okD [OF ok]
  show "keys_unique (d\<lparr>db_outbox := obs, db_events := evs\<rparr>)"
    using k(1) by (simp add: keys_unique_def e o)
  show "idem_mirrors (d\<lparr>db_outbox := obs, db_events := evs\<rparr>)" using k(2) e by (simp add: idem_mirrors_def)
  show "events_have_sessions (d\<lparr>db_outbox := obs, db_events := evs\<rparr>)"
    using k(3) se [OF e(4)] by (simp add: events_have_sessions_def)
  show "runs_have_events (d\<lparr>db_outbox := obs, db_events := evs\<rparr>)"
    using k(4) se [OF es] by (simp add: runs_have_events_def)
  show "started_unique (d\<lparr>db_outbox := obs, db_events := evs\<rparr>)" using k(6) by (simp add: started_unique_def)
  show "outbox_locked (d\<lparr>db_outbox := obs, db_events := evs\<rparr>)" using lk by (simp add: outbox_locked_def)
  show "outbox_has_events (d\<lparr>db_outbox := obs, db_events := evs\<rparr>)"
    using k(8) se [OF e(2)] so by (simp add: outbox_has_events_def)
  show "sessions_cached (d\<lparr>db_outbox := obs, db_events := evs\<rparr>)" using k(9) by (simp add: sessions_cached_def)
  show "messages_have_sessions (d\<lparr>db_outbox := obs, db_events := evs\<rparr>)"
    using k(10) by (simp add: messages_have_sessions_def)
  show "processing_has_run (d\<lparr>db_outbox := obs, db_events := evs\<rparr>)"
    unfolding processing_has_run_def
  proof
    fix e assume "e \<in> set (db_events (d\<lparr>db_outbox := obs, db_events := evs\<rparr>))"
    then have "e \<in> set evs" by simp
    then have "event_view e \<in> event_view ` set evs" by (rule imageI)
    then have "event_view e \<in> event_view ` set (db_events d)" by (simp only: se [OF ev])
    then obtain e0 where e0: "e0 \<in> set (db_events d)" "event_view e0 = event_view e" by auto
    then have "ev_status e0 = ev_status e" "ev_run_id e0 = ev_run_id e" "ev_event_id e0 = ev_event_id e"
      "ev_processing_started_at e0 = ev_processing_started_at e"
      by (simp_all add: event_view_def event_core_def)
    then show "(ev_processing_started_at e \<noteq> [] \<longleftrightarrow> ev_status e = EventStatusProcessing) \<and>
        (ev_status e = EventStatusProcessing \<longrightarrow>
           (\<exists>r \<in> set (db_runs (d\<lparr>db_outbox := obs, db_events := evs\<rparr>)). rn_run_id r = ev_run_id e \<and>
              rn_event_id r = ev_event_id e \<and> rn_status r = RunStatusStarted))"
      using k(5) e0(1) unfolding processing_has_run_def by fastforce
  qed
qed

lemma set_event_outbox_status_view [simp]:
  "map event_view (set_event_outbox_status eid st now evs) = map event_view evs"
  by (simp add: table_simps event_view_def event_core_def)

section \<open>The outbox\<close>

lemma outbox_locked_update:
  assumes "outbox_locked d"
    "\<And>r. (ob_locked_at (f r) \<noteq> [] \<longleftrightarrow> ob_status (f r) = OutboxStatusSending) \<and> ob_status (f r) \<noteq> OutboxStatusUnset"
  shows "outbox_locked (d\<lparr>db_outbox := update_where P f (db_outbox d)\<rparr>)"
  using assms by (auto simp: outbox_locked_def set_update_where)

lemma recover_outbox_item_ok: "db_ok d \<Longrightarrow> db_ok (recover_outbox_item now i d)"
  unfolding recover_outbox_item_def
  by (intro db_ok_outbox_update outbox_locked_update db_okD(7)) (simp_all add: table_simps)

lemma recover_expired_sending_ok:
  assumes "recover_expired_sending flt cutoff now d = (r, d')" "db_ok d"
  shows "db_ok d'"
  using assms(1) unfolding recover_expired_sending_def
  by (rule with_writer_tx_invariant [where I = db_ok, OF _ assms(2)])
    (auto simp: Let_def intro!: fold_invariant_step recover_outbox_item_ok assms(2))

lemma claim_runtime_outbox_ok:
  assumes "claim_runtime_outbox flt owner now d = (r, d')" "db_ok d"
  shows "db_ok d'"
  using assms(1) unfolding claim_runtime_outbox_def
proof (rule with_writer_tx_invariant [where I = db_ok, OF _ assms(2)])
  fix a d1 assume c: "claim_runtime_outbox_tx owner now d = Inr (a, d1)"
  show "db_ok d1"
  proof (cases "next_outbox now (db_outbox d)")
    case None
    with c assms(2) show ?thesis by (simp add: claim_runtime_outbox_tx_def)
  next
    case (Some r0)
    with c have d1: "d1 = d\<lparr>db_outbox := update_where (\<lambda>r'. ob_outbox_id r' = ob_outbox_id r0) (lock_outbox_row owner now) (db_outbox d),
        db_events := set_event_outbox_status (ob_event_id r0) OutboxStatusSending now (db_events d)\<rparr>"
      by (simp add: claim_runtime_outbox_tx_def)
    show ?thesis unfolding d1
      by (intro db_ok_outbox_update outbox_locked_update db_okD(7) assms(2))
        (simp_all add: table_simps lock_outbox_row_def)
  qed
qed

lemma fail_outbox_send_ok:
  assumes "fail_outbox_send flt oid eid m dead next_at now d = (r, d')" "db_ok d"
  shows "db_ok d'"
  using assms(1) unfolding fail_outbox_send_def Let_def
proof (rule with_writer_tx_invariant [where I = db_ok, OF _ assms(2)])
  fix a d1
  let ?st = "if dead then OutboxStatusDead else OutboxStatusRetryWait"
  assume "Inr ((), d\<lparr>db_outbox := update_where (\<lambda>r. ob_outbox_id r = oid) (fail_outbox_row ?st m next_at now) (db_outbox d),
      db_events := set_event_outbox_status eid ?st now (db_events d)\<rparr>) = Inr (a, d1)"
  then have "d1 = d\<lparr>db_outbox := update_where (\<lambda>r. ob_outbox_id r = oid) (fail_outbox_row ?st m next_at now) (db_outbox d),
      db_events := set_event_outbox_status eid ?st now (db_events d)\<rparr>" by simp
  then show "db_ok d1"
    by (simp only:) (intro db_ok_outbox_update outbox_locked_update db_okD(7) assms(2),
      simp_all add: table_simps fail_outbox_row_def)
qed

lemma complete_outbox_send_ok:
  assumes "complete_outbox_send flt oid eid now d = (r, d')" "db_ok d"
  shows "db_ok d'"
  using assms(1) unfolding complete_outbox_send_def
proof (rule with_writer_tx_invariant [where I = db_ok, OF _ assms(2)])
  fix a d1
  assume "Inr ((), d\<lparr>db_outbox := update_where (\<lambda>r. ob_outbox_id r = oid) (sent_outbox_row now) (db_outbox d),
      db_events := set_event_outbox_status eid OutboxStatusSent now (db_events d)\<rparr>) = Inr (a, d1)"
  then have "d1 = d\<lparr>db_outbox := update_where (\<lambda>r. ob_outbox_id r = oid) (sent_outbox_row now) (db_outbox d),
      db_events := set_event_outbox_status eid OutboxStatusSent now (db_events d)\<rparr>" by simp
  then show "db_ok d1"
    by (simp only:) (intro db_ok_outbox_update outbox_locked_update db_okD(7) assms(2),
      simp_all add: table_simps sent_outbox_row_def)
qed

section \<open>Jobs and heartbeats\<close>

lemma db_ok_jobs_update:
  assumes "db_ok d" "distinct (map jb_job_id jobs)" "distinct (map hb_worker_name beats)"
  shows "db_ok (d\<lparr>db_jobs := jobs\<rparr>)" "db_ok (d\<lparr>db_heartbeats := beats\<rparr>)"
  using assms by (simp_all add: db_ok_def db_ok_defs keys_unique_def sessions_cached_def)

lemma jobs_distinct: "db_ok d \<Longrightarrow> distinct (map jb_job_id (db_jobs d))"
  "db_ok d \<Longrightarrow> distinct (map hb_worker_name (db_heartbeats d))"
  by (simp_all add: db_ok_def keys_unique_def)

lemma upsert_cron_jobs_ok:
  assumes "upsert_cron_jobs flt tenant jobs now d = (r, d')" "db_ok d"
  shows "db_ok d'"
  using assms(1) unfolding upsert_cron_jobs_def
  by (rule with_writer_tx_invariant [where I = db_ok, OF _ assms(2)])
    (auto intro!: db_ok_jobs_update(1) [OF assms(2) _ jobs_distinct(2) [OF assms(2)]]
      upsert_cron_jobs_distinct jobs_distinct(1) [OF assms(2)])

lemma claim_scheduled_job_ok:
  assumes "claim_scheduled_job flt kind owner now d = (r, d')" "db_ok d"
  shows "db_ok d'"
  using assms(1) unfolding claim_scheduled_job_def
  by (rule with_writer_tx_invariant [where I = db_ok, OF _ assms(2)])
    (auto split: option.splits intro!: db_ok_jobs_update(1) [OF assms(2) _ jobs_distinct(2) [OF assms(2)]] assms(2)
      simp: table_simps jobs_distinct(1) [OF assms(2)])

lemma complete_scheduled_job_ok:
  assumes "complete_scheduled_job flt j now d = (r, d')" "db_ok d"
  shows "db_ok d'"
  using assms(1) unfolding complete_scheduled_job_def
  by (rule exec_writer_cases) (auto intro!: db_ok_jobs_update(1) [OF assms(2) _ jobs_distinct(2) [OF assms(2)]]
      simp: table_simps jobs_distinct(1) [OF assms(2)] assms(2))

lemma fail_scheduled_job_ok:
  assumes "fail_scheduled_job flt jid m next_at now d = (r, d')" "db_ok d"
  shows "db_ok d'"
  using assms(1) unfolding fail_scheduled_job_def
  by (rule exec_writer_cases) (auto intro!: db_ok_jobs_update(1) [OF assms(2) _ jobs_distinct(2) [OF assms(2)]]
      simp: table_simps jobs_distinct(1) [OF assms(2)] assms(2))

lemma beat_heartbeat_ok:
  assumes "beat_heartbeat flt w now d = (r, d')" "db_ok d"
  shows "db_ok d'"
  using assms(1) unfolding beat_heartbeat_def
  by (rule exec_writer_cases) (auto intro!: db_ok_jobs_update(2) [OF assms(2) jobs_distinct(1) [OF assms(2)]]
      distinct_upsert_row simp: Let_def jobs_distinct(2) [OF assms(2)] assms(2))

section \<open>Ingest\<close>

lemma db_ok_persist_new:
  assumes ok: "db_ok d" and p: "persist_event_tx tenant key req hash now d = Inr (r, d')"
    and new: "pq_idempotency_key req \<notin> ik_key ` set (db_idempotency d)"
  shows "db_ok d'"
proof -
  let ?row = "new_session_row key (pq_conversation req) (normalize_scope (pq_dm_scope req)) now"
  obtain sid d1 where
    d1: "d1 = (if pq_dm_scope req \<noteq> [] then upsert_conversation_dm_scope_tx tenant (pq_conversation req)
             (normalize_scope (pq_dm_scope req)) now d else d)"
    and se: "(\<exists>s. find_row se_session_key key (db_sessions d) = Some s \<and> sid = se_active_session_id s \<and>
          db_sessions d' = db_sessions d) \<or>
     (key \<notin> se_session_key ` set (db_sessions d) \<and> sid = session_id_for now \<and> db_sessions d' = db_sessions d @ [?row])"
    and d': "d' = d1\<lparr>db_sessions := db_sessions d',
             db_idempotency := db_idempotency d @ [new_idempotency_row key sid req hash now],
             db_events := db_events d @ [new_event_row tenant key sid req hash now]\<rparr>"
    and fresh: "event_id_for now \<notin> ev_event_id ` set (db_events d)"
      "pq_idempotency_key req \<notin> ev_idempotency_key ` set (db_events d)"
    using persist_event_tx_newD [OF p new] by metis
  have fr: "db_messages d' = db_messages d" "db_runs d' = db_runs d" "db_outbox d' = db_outbox d"
    "db_jobs d' = db_jobs d" "db_heartbeats d' = db_heartbeats d" "db_scopes d' = db_scopes d1"
    "db_idempotency d' = db_idempotency d @ [new_idempotency_row key sid req hash now]"
    "db_events d' = db_events d @ [new_event_row tenant key sid req hash now]"
  proof -
    obtain X where "X = db_sessions d'" by blast
    note dx = d' [folded this]
    show "db_messages d' = db_messages d" "db_runs d' = db_runs d" "db_outbox d' = db_outbox d"
      "db_jobs d' = db_jobs d" "db_heartbeats d' = db_heartbeats d" "db_scopes d' = db_scopes d1"
      "db_idempotency d' = db_idempotency d @ [new_idempotency_row key sid req hash now]"
      "db_events d' = db_events d @ [new_event_row tenant key sid req hash now]"
      by (simp_all add: dx d1 frame)
  qed
  have sc: "distinct (map scope_key (db_scopes d1))"
    using ok by (simp add: d1 upsert_scope_distinct db_ok_def keys_unique_def)
  have sk: "key \<in> se_session_key ` set (db_sessions d')" "se_session_key ` set (db_sessions d) \<subseteq> se_session_key ` set (db_sessions d')"
    "distinct (map se_session_key (db_sessions d'))"
    using se keys_uniqueD(1) [OF db_okD(1) [OF ok]]
    by (auto simp: new_session_row_def dest: find_row_SomeD)
  have ev: "ev_event_id (new_event_row tenant key sid req hash now) = event_id_for now"
    "ev_session_key (new_event_row tenant key sid req hash now) = key"
    "ev_idempotency_key (new_event_row tenant key sid req hash now) = pq_idempotency_key req"
    "ev_status (new_event_row tenant key sid req hash now) = EventStatusReceived"
    "ev_processing_started_at (new_event_row tenant key sid req hash now) = []"
    "ik_key (new_idempotency_row key sid req hash now) = pq_idempotency_key req"
    "idem_core (new_idempotency_row key sid req hash now) = event_core (new_event_row tenant key sid req hash now)"
    by (simp_all add: new_event_row_def new_idempotency_row_def idem_core_def event_core_def)
  show ?thesis
  proof (rule db_okI)
    show "keys_unique d'"
      using db_okD(1) [OF ok] fresh new sc sk(3) by (simp add: keys_unique_def fr ev)
    show "idem_mirrors d'" using db_okD(2) [OF ok] by (simp add: idem_mirrors_def fr ev)
    show "events_have_sessions d'" using db_okD(3) [OF ok] sk by (auto simp: events_have_sessions_def fr ev)
    show "runs_have_events d'" using db_okD(4) [OF ok] by (auto simp: runs_have_events_def fr)
    show "processing_has_run d'" using db_okD(5) [OF ok] by (auto simp: processing_has_run_def fr ev)
    show "started_unique d'" using db_okD(6) [OF ok] by (simp add: started_unique_def fr)
    show "outbox_locked d'" using db_okD(7) [OF ok] by (simp add: outbox_locked_def fr)
    show "outbox_has_events d'" using db_okD(8) [OF ok] by (auto simp: outbox_has_events_def fr)
    have "session_cached (db_messages d) (db_runs d) ?row" if "key \<notin> se_session_key ` set (db_sessions d)"
    proof -
      have "\<forall>x \<in> set (db_runs d). rn_session_key x \<noteq> key"
        using run_session_exists [OF ok] that by auto
      then have "completed_runs key (db_runs d) = []" by (auto simp: completed_runs_def filter_empty_conv)
      moreover have "filter (counted_message key) (db_messages d) = []"
        using db_okD(10) [OF ok] that by (auto simp: messages_have_sessions_def filter_empty_conv counted_message_def)
      ultimately show ?thesis
        by (simp add: session_cached_def new_session_row_def message_count_def token_sum_def last_completed_run_def)
    qed
    then show "sessions_cached d'" using db_okD(9) [OF ok] se by (auto simp: sessions_cached_def fr)
    show "messages_have_sessions d'" using db_okD(10) [OF ok] sk(2) by (auto simp: messages_have_sessions_def fr)
  qed
qed

lemma persist_event_ok:
  assumes p: "persist_event flt tenant key req hash now d = (r, d')" and ok: "db_ok d"
  shows "db_ok d'"
  using p unfolding persist_event_def
proof (rule with_writer_tx_invariant [where I = db_ok, OF _ ok])
  fix a d1 assume t: "persist_event_tx tenant key req hash now d = Inr (a, d1)"
  show "db_ok d1"
  proof (cases "find_row ik_key (pq_idempotency_key req) (db_idempotency d)")
    case None
    then show ?thesis using db_ok_persist_new [OF ok t] by (simp add: find_row_None)
  next
    case (Some row)
    with t ok show ?thesis by (auto simp: persist_event_tx_def split: if_splits)
  qed
qed

text \<open>An update of the events that keeps their core and the leases.\<close>

lemma db_ok_events_runs:
  assumes ok: "db_ok d"
    and ev: "map event_core evs = map event_core (db_events d)"
    and rk: "map (\<lambda>r. (rn_run_id r, run_core r)) rs = map (\<lambda>r. (rn_run_id r, run_core r)) (db_runs d)"
    and pr: "processing_has_run (d\<lparr>db_runs := rs, db_events := evs\<rparr>)"
    and st: "started_unique (d\<lparr>db_runs := rs\<rparr>)"
    and cr: "\<And>key. completed_runs key rs = completed_runs key (db_runs d)"
  shows "db_ok (d\<lparr>db_runs := rs, db_events := evs\<rparr>)"
proof -
  have m: "map (f \<circ> event_core) evs = map (f \<circ> event_core) (db_events d)" for f :: "_ \<Rightarrow> 'b"
    using arg_cong [OF ev, of "map f"] by simp
  have e: "map ev_event_id evs = map ev_event_id (db_events d)"
    "map ev_idempotency_key evs = map ev_idempotency_key (db_events d)"
    "map ev_session_key evs = map ev_session_key (db_events d)"
    "map (\<lambda>e. (ev_event_id e, ev_session_key e)) evs = map (\<lambda>e. (ev_event_id e, ev_session_key e)) (db_events d)"
    using m [of "\<lambda>v. fst (snd v)"] m [of fst] m [of "\<lambda>v. fst (snd (snd (snd v)))"]
      m [of "\<lambda>v. (fst (snd v), fst (snd (snd (snd v))))"]
    by (simp_all add: comp_def event_core_def)
  have r: "map rn_run_id rs = map rn_run_id (db_runs d)" "map run_core rs = map run_core (db_runs d)"
    using arg_cong [OF rk, of "map fst"] arg_cong [OF rk, of "map snd"] by (simp_all add: comp_def)
  have im: "f ` set ys = f ` set xs" if "map f ys = map f xs" for f :: "'c \<Rightarrow> 'd" and xs ys
    using arg_cong [OF that, of set] by simp
  note i = im [OF e(1)] im [OF e(3)] im [OF e(4)] im [OF r(2)]
  note k = db_okD [OF ok]
  have "session_cached (db_messages d) rs s" if "s \<in> set (db_sessions d)" for s
    using k(9) that session_cached_cong [of s "db_messages d" "db_messages d" rs "db_runs d"] cr
    by (simp add: sessions_cached_def)
  then show ?thesis
    using k pr st
    by (simp add: db_ok_def keys_unique_def idem_mirrors_def events_have_sessions_def runs_have_events_def
        started_unique_def outbox_locked_def outbox_has_events_def sessions_cached_def
        messages_have_sessions_def e r i ev)
qed

lemma mark_event_queued_ok:
  assumes "mark_event_queued flt eid now d = (r, d')" "db_ok d"
  shows "db_ok d'"
  using assms(1) unfolding mark_event_queued_def
proof (rule exec_writer_cases)
  let ?P = "\<lambda>e. ev_event_id e = eid \<and> ev_status e = EventStatusReceived"
  let ?f = "\<lambda>e. e\<lparr>ev_status := EventStatusQueued, ev_updated_at := time_text now\<rparr>"
  let ?evs = "update_where ?P ?f (db_events d)"
  assume d': "d' = d\<lparr>db_events := ?evs\<rparr>"
  have "db_ok (d\<lparr>db_runs := db_runs d, db_events := ?evs\<rparr>)"
  proof (rule db_ok_events_runs [OF assms(2)])
    show "map event_core ?evs = map event_core (db_events d)"
      by (simp add: table_simps event_core_def)
    show "processing_has_run (d\<lparr>db_runs := db_runs d, db_events := ?evs\<rparr>)"
      using db_okD(5) [OF assms(2)] by (auto simp: processing_has_run_def set_update_where)
    show "started_unique (d\<lparr>db_runs := db_runs d\<rparr>)" using db_okD(6) [OF assms(2)] by simp
  qed simp_all
  then show "db_ok d'" using d' by simp
qed (use assms(2) in simp)

section \<open>Recovery\<close>

lemma recover_event_ok:
  assumes ok: "db_ok d"
  shows "db_ok (recover_event now eid d)"
proof -
  let ?P = "\<lambda>r. rn_event_id r = eid \<and> rn_status r = RunStatusStarted"
  let ?rs = "update_where ?P (expire_run_row now) (db_runs d)"
  let ?Q = "\<lambda>e. ev_event_id e = eid \<and> ev_status e = EventStatusProcessing"
  let ?evs = "update_where ?Q (requeue_event_row now) (db_events d)"
  have started: "filter (\<lambda>r. rn_status r = RunStatusStarted) ?rs =
      filter (\<lambda>r. \<not> ?P r \<and> rn_status r = RunStatusStarted) (db_runs d)"
    by (rule filter_update_where) simp
  also have "\<dots> = filter (\<lambda>r. rn_event_id r \<noteq> eid) (filter (\<lambda>r. rn_status r = RunStatusStarted) (db_runs d))"
    unfolding filter_filter by (rule filter_cong) auto
  finally have started: "filter (\<lambda>r. rn_status r = RunStatusStarted) ?rs = \<dots>" .
  show ?thesis
    unfolding recover_event_def
  proof (rule db_ok_events_runs [OF ok])
    show "map event_core ?evs = map event_core (db_events d)"
      by (simp add: table_simps event_core_def requeue_event_row_def)
    show "map (\<lambda>r. (rn_run_id r, run_core r)) ?rs = map (\<lambda>r. (rn_run_id r, run_core r)) (db_runs d)"
      by (simp add: table_simps run_core_def)
    show "completed_runs key ?rs = completed_runs key (db_runs d)" for key
    proof -
      have "completed_runs key ?rs =
          filter (\<lambda>r. \<not> ?P r \<and> (rn_session_key r = key \<and> rn_status r = RunStatusCompleted)) (db_runs d)"
        unfolding completed_runs_def by (rule filter_update_where) simp
      also have "\<dots> = completed_runs key (db_runs d)"
        unfolding completed_runs_def by (rule filter_cong) auto
      finally show ?thesis .
    qed
    show "started_unique (d\<lparr>db_runs := ?rs\<rparr>)"
      using db_okD(6) [OF ok] unfolding started_unique_def
      by (simp add: started del: filter_filter) (rule distinct_map_filter)
    show "processing_has_run (d\<lparr>db_runs := ?rs, db_events := ?evs\<rparr>)"
      using db_okD(5) [OF ok] by (fastforce simp: processing_has_run_def set_update_where requeue_event_row_def)
  qed
qed

lemma recover_expired_processing_ok:
  assumes "recover_expired_processing rf flt cutoff now d = (r, d')" "db_ok d"
  shows "db_ok d'"
  using assms
  by (auto simp: recover_expired_processing_def Let_def split: option.splits prod.splits
      elim!: recover_events_invariant [where I = db_ok] intro: recover_event_ok)

section \<open>Claims\<close>

lemma claim_event_tx_ok:
  assumes t: "claim_event_tx eid run_id now d = Inr (c, d')" and ok: "db_ok d"
  shows "db_ok d'"
  using t
proof (rule claim_event_tx_InrD)
  fix e
  assume e: "e \<in> set (db_events d)" "ev_event_id e = eid" "event_runnable (ev_status e)"
    "\<not> has_started_run eid (db_runs d)" "run_id \<notin> rn_run_id ` set (db_runs d)"
    and d': "d' = d\<lparr>db_runs := db_runs d @ [new_run_row run_id e (claim_run_mode (ev_payload e)) now],
            db_events := update_where (\<lambda>e. ev_event_id e = eid) (\<lambda>e'. e'\<lparr>ev_run_mode := claim_run_mode (ev_payload e)\<rparr>)
              (update_where (claimable eid (db_runs d)) (claim_event_row run_id now) (db_events d))\<rparr>"
  let ?run = "new_run_row run_id e (claim_run_mode (ev_payload e)) now"
  let ?f = "\<lambda>e'. (claim_event_row run_id now e')\<lparr>ev_run_mode := claim_run_mode (ev_payload e)\<rparr>"
  let ?evs = "update_where (\<lambda>e. ev_event_id e = eid) ?f (db_events d)"
  have dist: "distinct (map ev_event_id (db_events d))" using keys_uniqueD(5) [OF db_okD(1) [OF ok]] .
  have cl: "claimable eid (db_runs d) e"
    using e by (auto simp: claimable_def event_runnable_def)
  have d'': "d' = d\<lparr>db_runs := db_runs d @ [?run], db_events := ?evs\<rparr>"
    unfolding d' by (simp only: claim_updates [OF dist e(1,2) cl])
  have run: "rn_run_id ?run = run_id" "rn_event_id ?run = eid" "rn_status ?run = RunStatusStarted"
    "rn_session_key ?run = ev_session_key e" "run_core ?run = (eid, ev_session_key e)"
    by (simp_all add: new_run_row_def run_core_def e(2))
  have ns: "rn_event_id r = eid \<Longrightarrow> r \<in> set (db_runs d) \<Longrightarrow> rn_status r \<noteq> RunStatusStarted" for r
    using e(4) by (auto simp: has_started_run_def)
  have fe: "event_core (?f e') = event_core e'" "ev_event_id (?f e') = ev_event_id e'"
    "ev_status (?f e') = EventStatusProcessing" "ev_processing_started_at (?f e') \<noteq> []"
    "ev_run_id (?f e') = run_id" "ev_session_key (?f e') = ev_session_key e'"
    "ev_idempotency_key (?f e') = ev_idempotency_key e'" for e'
    by (simp_all add: claim_event_row_def event_core_def)
  have me: "map ev_event_id ?evs = map ev_event_id (db_events d)"
    "map ev_idempotency_key ?evs = map ev_idempotency_key (db_events d)"
    "map event_core ?evs = map event_core (db_events d)"
    by (simp_all add: map_update_where fe)
  have im: "(\<lambda>e. (ev_event_id e, ev_session_key e)) ` set ?evs = (\<lambda>e. (ev_event_id e, ev_session_key e)) ` set (db_events d)"
    "ev_session_key ` set ?evs = ev_session_key ` set (db_events d)"
    "ev_event_id ` set ?evs = ev_event_id ` set (db_events d)"
    by (rule image_update_where; simp add: fe)+
  note k = db_okD [OF ok]
  show ?thesis
    unfolding d''
  proof (rule db_okI)
    show "keys_unique (d\<lparr>db_runs := db_runs d @ [?run], db_events := ?evs\<rparr>)"
      using k(1) e(5) run by (simp add: keys_unique_def me)
    show "idem_mirrors (d\<lparr>db_runs := db_runs d @ [?run], db_events := ?evs\<rparr>)"
      using k(2) by (simp add: idem_mirrors_def me)
    show "events_have_sessions (d\<lparr>db_runs := db_runs d @ [?run], db_events := ?evs\<rparr>)"
      using k(3) by (simp add: events_have_sessions_def im)
    show "runs_have_events (d\<lparr>db_runs := db_runs d @ [?run], db_events := ?evs\<rparr>)"
      using k(4) e(1,2) by (auto simp: runs_have_events_def im run)
    show "processing_has_run (d\<lparr>db_runs := db_runs d @ [?run], db_events := ?evs\<rparr>)"
      using k(5) by (auto simp: processing_has_run_def set_update_where claim_event_row_def run)
    show "started_unique (d\<lparr>db_runs := db_runs d @ [?run], db_events := ?evs\<rparr>)"
      using k(6) ns by (auto simp: started_unique_def run)
    show "outbox_locked (d\<lparr>db_runs := db_runs d @ [?run], db_events := ?evs\<rparr>)"
      using k(7) by (simp add: outbox_locked_def)
    show "outbox_has_events (d\<lparr>db_runs := db_runs d @ [?run], db_events := ?evs\<rparr>)"
      using k(8) by (simp add: outbox_has_events_def im)
    show "messages_have_sessions (d\<lparr>db_runs := db_runs d @ [?run], db_events := ?evs\<rparr>)"
      using k(10) by (simp add: messages_have_sessions_def)
    have "completed_runs key (db_runs d @ [?run]) = completed_runs key (db_runs d)" for key
      by (simp add: completed_runs_def run)
    then show "sessions_cached (d\<lparr>db_runs := db_runs d @ [?run], db_events := ?evs\<rparr>)"
      using k(9) session_cached_cong [OF refl, where rs = "db_runs d @ [?run]" and rs' = "db_runs d"]
      by (simp add: sessions_cached_def)
  qed
qed

lemma claim_event_ok:
  assumes "claim_event flt eid run_id now d = (r, d')" "db_ok d"
  shows "db_ok d'"
  using assms by (elim claim_event_cases) (auto intro: claim_event_tx_ok)

lemma claim_work_ok:
  assumes "claim_work flt w run_id now d = (r, d')" "db_ok d"
  shows "db_ok d'"
proof -
  obtain r0 where "claim_event flt (wi_event_id w) run_id now d = (r0, d')"
    using assms(1) by (auto simp: claim_work_def Let_def split: prod.splits sum.splits option.splits)
  then show ?thesis using assms(2) by (rule claim_event_ok)
qed

section \<open>Finalize\<close>

text \<open>
  The commands the kernel makes: for a run of the claim's event and session, ending both, with
  messages of that session.
\<close>

definition run_known :: "string \<Rightarrow> string \<Rightarrow> string \<Rightarrow> database \<Rightarrow> bool" where
  "run_known run_id eid key d \<longleftrightarrow>
     (\<exists>r \<in> set (db_runs d). rn_run_id r = run_id \<and> rn_event_id r = eid \<and> rn_session_key r = key)"

definition command_ok :: "finalize_command \<Rightarrow> database \<Rightarrow> bool" where
  "command_ok cmd d \<longleftrightarrow>
     run_known (fc_run_id cmd) (fc_event_id cmd) (fc_session_key cmd) d \<and>
     fc_run_status cmd \<noteq> RunStatusStarted \<and> event_terminal (fc_event_status cmd) \<and>
     (\<forall>m \<in> set (fc_messages cmd). sm_session_key m = fc_session_key cmd)"

lemma run_known_unique:
  assumes "db_ok d" "run_known run_id eid key d" "r \<in> set (db_runs d)" "rn_run_id r = run_id"
  shows "rn_event_id r = eid" "rn_session_key r = key"
proof -
  obtain r0 where r0: "r0 \<in> set (db_runs d)" "rn_run_id r0 = run_id" "rn_event_id r0 = eid" "rn_session_key r0 = key"
    using assms(2) by (auto simp: run_known_def)
  have "r = r0"
    using keys_uniqueD(4) [OF db_okD(1) [OF assms(1)]] r0(1,2) assms(3,4) by (metis distinct_map inj_onD)
  then show "rn_event_id r = eid" "rn_session_key r = key" using r0 by auto
qed

lemma finalize_tx_ok:
  assumes t: "finalize_tx cmd d = Inr ((), d')" and ok: "db_ok d" and cmd: "command_ok cmd d"
  shows "db_ok d'"
  using t
proof (rule finalize_tx_InrD)
  fix outbox
  let ?key = "fc_session_key cmd"
  let ?new = "message_rows (length (db_messages d)) (fc_messages cmd)"
  let ?ms = "db_messages d @ ?new"
  let ?rs = "update_where (\<lambda>r. rn_run_id r = fc_run_id cmd) (finalize_run_row cmd) (db_runs d)"
  let ?evs = "update_where (\<lambda>e. ev_event_id e = fc_event_id cmd) (finalize_event_row cmd) (db_events d)"
  let ?d1 = "d\<lparr>db_messages := ?ms, db_runs := ?rs, db_outbox := outbox, db_events := ?evs\<rparr>"
  assume ob: "outbox = db_outbox d @ (if delivers cmd then [new_outbox_row cmd] else [])"
    and fresh: "delivers cmd \<Longrightarrow> outbox_id_for (fc_now cmd) \<notin> ob_outbox_id ` set (db_outbox d)"
    and im: "insert_messages (fc_messages cmd) (db_messages d) = Inr ?ms"
    and d': "d' = recompute_session_aggregate ?key (fc_now cmd) ?d1"
  note k = db_okD [OF ok]
  have rk: "run_known (fc_run_id cmd) (fc_event_id cmd) ?key d" and ns: "fc_run_status cmd \<noteq> RunStatusStarted"
    and te: "event_terminal (fc_event_status cmd)"
    and mk: "\<forall>m \<in> set (fc_messages cmd). sm_session_key m = ?key"
    using cmd by (auto simp: command_ok_def)
  obtain r0 where r0: "r0 \<in> set (db_runs d)" "rn_run_id r0 = fc_run_id cmd" "rn_event_id r0 = fc_event_id cmd"
    "rn_session_key r0 = ?key" using rk by (auto simp: run_known_def)
  note ru = run_known_unique [OF ok rk]
  have np: "fc_event_status cmd \<noteq> EventStatusProcessing" using te by (auto simp: event_terminal_def)
  have mse: "ms_session_key m = ?key" if "m \<in> set ?new" for m
    using set_message_rows [OF that] mk by (auto simp: new_message_row_def)
  have fl: "filter (counted_message key) ?ms = filter (counted_message key) (db_messages d)" if "key \<noteq> ?key" for key
    using mse that by (auto simp: filter_empty_conv counted_message_def)
  have cr: "completed_runs key ?rs = completed_runs key (db_runs d)" if "key \<noteq> ?key" for key
  proof -
    have "r \<in> set (db_runs d) \<Longrightarrow> rn_run_id r = fc_run_id cmd \<Longrightarrow> rn_session_key r \<noteq> key" for r
      using ru(2) that by auto
    then show ?thesis
      unfolding completed_runs_def by (intro filter_update_where_other) (use that in auto)
  qed
  have me: "map ev_event_id ?evs = map ev_event_id (db_events d)"
    "map ev_idempotency_key ?evs = map ev_idempotency_key (db_events d)"
    "map event_core ?evs = map event_core (db_events d)"
    by (simp_all add: map_update_where event_core_def)
  have ime: "(\<lambda>e. (ev_event_id e, ev_session_key e)) ` set ?evs = (\<lambda>e. (ev_event_id e, ev_session_key e)) ` set (db_events d)"
    "ev_session_key ` set ?evs = ev_session_key ` set (db_events d)"
    "ev_event_id ` set ?evs = ev_event_id ` set (db_events d)"
    "run_core ` set ?rs = run_core ` set (db_runs d)"
    by (rule image_update_where; simp add: run_core_def)+
  have mr: "map rn_run_id ?rs = map rn_run_id (db_runs d)" by (simp add: map_update_where)
  have fr: "db_scopes d' = db_scopes d" "db_messages d' = ?ms" "db_runs d' = ?rs" "db_events d' = ?evs"
    "db_idempotency d' = db_idempotency d" "db_outbox d' = outbox" "db_jobs d' = db_jobs d"
    "db_heartbeats d' = db_heartbeats d" "map se_session_key (db_sessions d') = map se_session_key (db_sessions d)"
    unfolding d' frame by simp_all
  have sek: "se_session_key ` set (db_sessions d') = se_session_key ` set (db_sessions d)"
    using arg_cong [OF fr(9), of set] by simp
  show "db_ok d'"
  proof (rule db_okI)
    have "distinct (map ms_message_id ?ms)"
      using insert_messages_Inr [OF im] keys_uniqueD(3) [OF k(1)] by blast
    moreover have "distinct (map ob_outbox_id outbox)"
      using fresh keys_uniqueD(8) [OF k(1)] by (simp add: ob new_outbox_row_def)
    ultimately show "keys_unique d'" using k(1) unfolding keys_unique_def fr me mr by blast
    show "idem_mirrors d'" using k(2) by (simp add: idem_mirrors_def fr me)
    show "events_have_sessions d'" using k(3) by (simp add: events_have_sessions_def fr ime sek)
    show "runs_have_events d'" using k(4) by (simp add: runs_have_events_def fr ime)
    show "outbox_locked d'" using k(7) by (auto simp: outbox_locked_def fr ob new_outbox_row_def)
    obtain e where "e \<in> set (db_events d)" "ev_event_id e = fc_event_id cmd"
      using run_event_exists [OF ok r0(1)] r0(3) by metis
    then have "fc_event_id cmd \<in> ev_event_id ` set (db_events d)" by (metis imageI)
    then show "outbox_has_events d'"
      using k(8) by (auto simp: outbox_has_events_def fr ime ob new_outbox_row_def)
    have "?key \<in> se_session_key ` set (db_sessions d)" using run_session_exists [OF ok r0(1)] r0(4) by simp
    then show "messages_have_sessions d'"
      using k(10) mse by (auto simp: messages_have_sessions_def fr sek)
    show "sessions_cached d'"
      unfolding d'
    proof (rule recompute_cached)
      fix s assume "s \<in> set (db_sessions ?d1)" "se_session_key s \<noteq> ?key"
      then show "session_cached (db_messages ?d1) (db_runs ?d1) s"
        using k(9) session_cached_cong [OF fl cr] by (simp add: sessions_cached_def)
    qed
    have "filter (\<lambda>r. rn_status r = RunStatusStarted) ?rs =
        filter (\<lambda>r. rn_run_id r \<noteq> fc_run_id cmd \<and> rn_status r = RunStatusStarted) (db_runs d)"
      by (rule filter_update_where) (simp add: ns)
    also have "\<dots> = filter (\<lambda>r. rn_run_id r \<noteq> fc_run_id cmd) (filter (\<lambda>r. rn_status r = RunStatusStarted) (db_runs d))"
      unfolding filter_filter by (rule filter_cong) auto
    finally show "started_unique d'"
      using k(6) by (simp add: started_unique_def fr del: filter_filter) (rule distinct_map_filter)
    show "processing_has_run d'"
      unfolding processing_has_run_def
    proof
      fix e assume "e \<in> set (db_events d')"
      then consider "ev_event_id e = fc_event_id cmd" "ev_status e = fc_event_status cmd" "ev_processing_started_at e = []"
        | "e \<in> set (db_events d)" "ev_event_id e \<noteq> fc_event_id cmd"
        by (auto simp: fr set_update_where finalize_event_row_def)
      then show "(ev_processing_started_at e \<noteq> [] \<longleftrightarrow> ev_status e = EventStatusProcessing) \<and>
        (ev_status e = EventStatusProcessing \<longrightarrow>
           (\<exists>r \<in> set (db_runs d'). rn_run_id r = ev_run_id e \<and> rn_event_id r = ev_event_id e \<and>
              rn_status r = RunStatusStarted))"
      proof cases
        case 1
        then show ?thesis using np by simp
      next
        case 2
        have l: "ev_processing_started_at e \<noteq> [] \<longleftrightarrow> ev_status e = EventStatusProcessing"
          and p: "ev_status e = EventStatusProcessing \<Longrightarrow> \<exists>r \<in> set (db_runs d). rn_run_id r = ev_run_id e \<and>
             rn_event_id r = ev_event_id e \<and> rn_status r = RunStatusStarted"
          using k(5) 2(1) by (auto simp: processing_has_run_def)
        have "\<exists>r \<in> set ?rs. rn_run_id r = ev_run_id e \<and> rn_event_id r = ev_event_id e \<and> rn_status r = RunStatusStarted"
          if pe: "ev_status e = EventStatusProcessing"
        proof -
          obtain r where r: "r \<in> set (db_runs d)" "rn_run_id r = ev_run_id e" "rn_event_id r = ev_event_id e"
            "rn_status r = RunStatusStarted" using p [OF pe] by auto
          then have "rn_run_id r \<noteq> fc_run_id cmd" using ru(1) [OF r(1)] 2(2) by auto
          then have "r \<in> set ?rs" using r(1) by (auto simp: set_update_where)
          with r show ?thesis by blast
        qed
        with l show ?thesis by (simp add: fr)
      qed
    qed
  qed
qed

lemma finalize_ok:
  assumes "finalize flt cmd d = (r, d')" "db_ok d" "command_ok cmd d"
  shows "db_ok d'"
  using assms(1) unfolding finalize_def
  by (rule with_writer_tx_invariant [where I = db_ok, OF _ assms(2)]) (auto intro: finalize_tx_ok assms(2,3))

end
