(* ===== verification/Kernel.thy ===== *)
theory Kernel
  imports Data_Model Claim_Tx Finalize_Tx
begin

text \<open>
  \<open>internal/runtime/kernel\<close>: \<open>Process\<close> claims one work item, executes it and finalizes it,
  publishing the runtime events of the lifecycle.  The store behind \<open>Facts\<close> and
  \<open>EventView\<close> is a record of operations on a state \<open>'s\<close>; the executor is a function of the
  claim that returns its result, its error and the events it publishes, or panics.  The clock is
  read three times at most, the id generator once per id.
\<close>

record 's facts =
  fx_claim_work :: "work_item \<Rightarrow> string \<Rightarrow> time \<Rightarrow> 's \<Rightarrow> (string + claim_context option) \<times> 's"
  fx_finalize :: "finalize_command \<Rightarrow> 's \<Rightarrow> string option \<times> 's"
  fx_event_record :: "string \<Rightarrow> 's \<Rightarrow> event_record option"

datatype executor_outcome =
  ExecReturns execution_result "string option" "runtime_event list"
| ExecPanics string "runtime_event list"

type_synonym executor = "claim_context \<Rightarrow> executor_outcome"

record process_clock =
  clk_claim :: time
  clk_finalize :: time
  clk_failure :: time

section \<open>Ids and messages\<close>

definition run_id_for :: "time \<Rightarrow> nat \<Rightarrow> string" where
  "run_id_for now n = ''run_'' @ show_int (unix_nano now) @ ''_'' @ show_nat n"

definition message_id_for :: "time \<Rightarrow> nat \<Rightarrow> string" where
  "message_id_for now n = ''msg_'' @ show_int (unix_nano now) @ ''_'' @ show_nat n"

text \<open>\<open>storedMessages\<close>: each message takes the next id of the counter.\<close>

fun stored_messages :: "time \<Rightarrow> nat \<Rightarrow> claim_context \<Rightarrow> stored_message list \<Rightarrow> stored_message list" where
  "stored_messages now n claim [] = []"
| "stored_messages now n claim (m # ms) =
     m\<lparr>sm_message_id := message_id_for now (Suc n), sm_session_key := cc_session_key claim,
       sm_session_id := cc_session_id claim, sm_run_id := cc_run_id claim, sm_created_at := now\<rparr>
     # stored_messages now (Suc n) claim ms"

section \<open>Building the finalize command\<close>

definition finalize_base :: "time \<Rightarrow> nat \<Rightarrow> claim_context \<Rightarrow> execution_result \<Rightarrow> finalize_command" where
  "finalize_base now n claim result =
     \<lparr> fc_run_id = cc_run_id claim, fc_event_id = event_id (cc_event claim),
       fc_session_key = cc_session_key claim, fc_session_id = cc_session_id claim,
       fc_run_mode = (if er_run_mode result = RunModeUnset then cc_run_mode claim else er_run_mode result),
       fc_run_status = RunStatusCompleted, fc_event_status = EventStatusProcessed,
       fc_provider = er_provider result, fc_model = er_model result,
       fc_prompt_tokens = er_prompt_tokens result, fc_completion_tokens = er_completion_tokens result,
       fc_total_tokens = er_total_tokens result, fc_latency_ms = er_latency_ms result,
       fc_finish_reason = er_finish_reason result, fc_raw_finish_reason = er_raw_finish_reason result,
       fc_provider_request_id = er_provider_request_id result, fc_output_text = er_output_text result,
       fc_tool_calls = er_tool_calls result, fc_diagnostics = er_diagnostics result, fc_error = None,
       fc_assistant_reply = [], fc_messages = stored_messages now n claim (er_output_messages result),
       fc_outbox_channel = [], fc_outbox_target_id = [], fc_outbox_body = [], fc_now = now \<rparr>"

definition build_finalize ::
  "time \<Rightarrow> nat \<Rightarrow> claim_context \<Rightarrow> execution_result \<Rightarrow> string option \<Rightarrow> finalize_command" where
  "build_finalize now n claim result run_err =
     (let base = finalize_base now n claim result in
      case run_err of
        Some msg \<Rightarrow>
          base\<lparr>fc_run_status := RunStatusFailed, fc_event_status := EventStatusFailed,
               fc_error := Some \<lparr>eb_code = ErrorCodeInternal, eb_message = msg, eb_details = []\<rparr>,
               fc_assistant_reply := []\<rparr>
      | None \<Rightarrow>
          if er_suppress_output result
          then base\<lparr>fc_event_status := EventStatusSuppressed, fc_assistant_reply := []\<rparr>
          else
            (let b = base\<lparr>fc_assistant_reply := er_assistant_reply result\<rparr> in
             case er_delivery result of
               None \<Rightarrow> b
             | Some di \<Rightarrow> b\<lparr>fc_outbox_channel := di_channel di, fc_outbox_target_id := di_target_id di,
                             fc_outbox_body := di_body di\<rparr>))"

section \<open>Executing\<close>

text \<open>A panic is recovered; the named result is then still the zero value.\<close>

definition kernel_execute :: "executor \<Rightarrow> claim_context \<Rightarrow> (execution_result \<times> string option) \<times> runtime_event list" where
  "kernel_execute ex claim =
     (let (result, err, evs) = (case ex claim of
            ExecReturns r e evs \<Rightarrow> (r, e, evs)
          | ExecPanics v evs \<Rightarrow> (empty_execution_result, Some (''runner panic: '' @ v), evs));
          result' = (if er_run_mode result = RunModeUnset then result\<lparr>er_run_mode := cc_run_mode claim\<rparr> else result)
      in ((result', err), evs))"

definition kernel_event :: "runtime_event_kind \<Rightarrow> claim_context \<Rightarrow> string \<Rightarrow> string \<Rightarrow> time \<Rightarrow> runtime_event" where
  "kernel_event kind claim status message occurred =
     \<lparr> re_kind = kind, re_work = cc_work claim, re_event_id = event_id (cc_event claim), re_sequence = 0,
       re_run_id = cc_run_id claim, re_session_key = cc_session_key claim,
       re_session_id = cc_session_id claim, re_status = status, re_delta = [], re_tool_call_id = [],
       re_tool_name = [], re_args = [], re_result = [], re_truncated = False, re_message = message,
       re_occurred_at = occurred, re_metadata = [], re_error = None, re_event_record = None \<rparr>"

text \<open>\<open>claim\<close>: the run id is made before the store is asked.\<close>

definition kernel_claim ::
  "'s facts \<Rightarrow> process_clock \<Rightarrow> nat \<Rightarrow> work_item \<Rightarrow> 's \<Rightarrow> (string + claim_context option) \<times> 's" where
  "kernel_claim fx clk n work s =
     (let run_id = run_id_for (clk_claim clk) (Suc n) in
      case fx_claim_work fx work run_id (clk_claim clk) s of
        (Inl e, s') \<Rightarrow> (Inl e, s')
      | (Inr None, s') \<Rightarrow> (Inr None, s')
      | (Inr (Some c), s') \<Rightarrow> (Inr (Some (if cc_run_id c = [] then c\<lparr>cc_run_id := run_id\<rparr> else c)), s'))"

record process_result =
  pz_error :: "string option"
  pz_events :: "runtime_event list"
  pz_counter :: nat

definition terminal_kind :: "finalize_command \<Rightarrow> runtime_event_kind" where
  "terminal_kind cmd =
     (if fc_event_status cmd = EventStatusFailed then RuntimeEventFailed else RuntimeEventCompleted)"

text \<open>What follows a successful claim.\<close>

definition process_claimed ::
  "'s facts \<Rightarrow> executor \<Rightarrow> process_clock \<Rightarrow> nat \<Rightarrow> claim_context \<Rightarrow> 's \<Rightarrow> process_result \<times> 's" where
  "process_claimed fx ex clk n claim s =
     (let ((result, run_err), exec_events) = kernel_execute ex claim;
          cmd = build_finalize (clk_finalize clk) n claim result run_err;
          n' = n + length (er_output_messages result);
          before = [kernel_event RuntimeEventClaimed claim ''processing'' ''claimed'' (clk_claim clk),
                    kernel_event RuntimeEventExecuting claim ''processing'' ''running'' (clk_claim clk)]
                   @ exec_events @
                   [kernel_event RuntimeEventFinalizeStarted claim ''processing'' ''finalizing'' (fc_now cmd)]
      in case fx_finalize fx cmd s of
           (Some err, s') \<Rightarrow>
             (\<lparr> pz_error = Some err,
                pz_events = before @ [(kernel_event RuntimeEventFailed claim [] ''finalize failed'' (clk_failure clk))
                   \<lparr>re_error := Some \<lparr>eb_code = ErrorCodeInternal, eb_message = err, eb_details = []\<rparr>\<rparr>],
                pz_counter = n' \<rparr>, s')
         | (None, s') \<Rightarrow>
             (\<lparr> pz_error = None,
                pz_events = before @ [(kernel_event (terminal_kind cmd) claim []
                     (event_status_text (fc_event_status cmd)) (fc_now cmd))
                   \<lparr>re_error := fc_error cmd,
                    re_event_record := fx_event_record fx (event_id (cc_event claim)) s'\<rparr>],
                pz_counter = n' \<rparr>, s'))"

text \<open>\<open>Process\<close>; \<open>None\<close> stands for facts or an executor that are not configured.\<close>

definition process ::
  "'s facts option \<Rightarrow> executor option \<Rightarrow> process_clock \<Rightarrow> nat \<Rightarrow> work_item \<Rightarrow> 's \<Rightarrow> process_result \<times> 's" where
  "process facts ex clk n work s =
     (case (facts, ex) of
        (Some fx, Some x) \<Rightarrow>
          (case kernel_claim fx clk n work s of
             (Inl e, s') \<Rightarrow> (\<lparr> pz_error = Some e, pz_events = [], pz_counter = Suc n \<rparr>, s')
           | (Inr None, s') \<Rightarrow> (\<lparr> pz_error = None, pz_events = [], pz_counter = Suc n \<rparr>, s')
           | (Inr (Some claim), s') \<Rightarrow> process_claimed fx x clk (Suc n) claim s')
      | _ \<Rightarrow> (\<lparr> pz_error = None, pz_events = [], pz_counter = n \<rparr>, s))"

section \<open>Facts\<close>

lemma stored_messages_ids:
  "map sm_message_id (stored_messages now n claim ms) = map (message_id_for now) [Suc n ..< Suc n + length ms]"
proof (induction ms arbitrary: n)
  case (Cons m ms)
  have "[Suc n ..< Suc n + length (m # ms)] = Suc n # [Suc (Suc n) ..< Suc (Suc n) + length ms]"
    by (simp add: upt_conv_Cons del: upt_Suc)
  then show ?case by (simp only: stored_messages.simps list.map Cons.IH) simp
qed simp

lemma length_stored_messages [simp]: "length (stored_messages now n claim ms) = length ms"
  by (induction ms arbitrary: n) simp_all

lemma stored_messages_claim:
  "m \<in> set (stored_messages now n claim ms) \<Longrightarrow>
     sm_session_key m = cc_session_key claim \<and> sm_session_id m = cc_session_id claim \<and>
     sm_run_id m = cc_run_id claim \<and> sm_created_at m = now"
  by (induction ms arbitrary: n) auto

lemma message_id_for_inject_counter: "message_id_for now m = message_id_for now n \<longleftrightarrow> m = n"
  by (simp add: message_id_for_def)

lemma stored_messages_distinct: "distinct (map sm_message_id (stored_messages now n claim ms))"
  unfolding stored_messages_ids distinct_map
  by (auto simp: inj_on_def message_id_for_inject_counter)

lemma finalize_base_simps [simp]:
  "fc_run_id (finalize_base now n claim r) = cc_run_id claim"
  "fc_event_id (finalize_base now n claim r) = event_id (cc_event claim)"
  "fc_session_key (finalize_base now n claim r) = cc_session_key claim"
  "fc_session_id (finalize_base now n claim r) = cc_session_id claim"
  "fc_run_status (finalize_base now n claim r) = RunStatusCompleted"
  "fc_event_status (finalize_base now n claim r) = EventStatusProcessed"
  "fc_error (finalize_base now n claim r) = None"
  "fc_assistant_reply (finalize_base now n claim r) = []"
  "fc_messages (finalize_base now n claim r) = stored_messages now n claim (er_output_messages r)"
  "fc_outbox_body (finalize_base now n claim r) = []"
  "fc_outbox_channel (finalize_base now n claim r) = []"
  "fc_outbox_target_id (finalize_base now n claim r) = []"
  "fc_now (finalize_base now n claim r) = now"
  by (simp_all add: finalize_base_def)

text \<open>What a command built for a claim has of the claim.\<close>

lemma build_finalize_claim:
  "fc_run_id (build_finalize now n claim r e) = cc_run_id claim"
  "fc_event_id (build_finalize now n claim r e) = event_id (cc_event claim)"
  "fc_session_key (build_finalize now n claim r e) = cc_session_key claim"
  "fc_session_id (build_finalize now n claim r e) = cc_session_id claim"
  "fc_messages (build_finalize now n claim r e) = stored_messages now n claim (er_output_messages r)"
  "fc_now (build_finalize now n claim r e) = now"
  by (simp_all add: build_finalize_def Let_def split: option.split)

lemma build_finalize_status:
  "fc_event_status (build_finalize now n claim r e) =
     (if e \<noteq> None then EventStatusFailed else if er_suppress_output r then EventStatusSuppressed else EventStatusProcessed)"
  "fc_run_status (build_finalize now n claim r e) = (if e \<noteq> None then RunStatusFailed else RunStatusCompleted)"
  by (auto simp: build_finalize_def Let_def split: option.split)

lemma build_finalize_terminal: "event_terminal (fc_event_status (build_finalize now n claim r e))"
  by (simp add: build_finalize_status event_terminal_def)

lemma build_finalize_not_started: "fc_run_status (build_finalize now n claim r e) \<noteq> RunStatusStarted"
  by (simp add: build_finalize_status)

end
