(* ===== verification/Runtime_System.thy ===== *)
theory Runtime_System
  imports Db_Invariant Kernel
begin

text \<open>
  The runtime as a state machine: the database, the claims that are being executed, the outbox
  rows that are being sent and the id counter.  A step is one transaction of \<open>internal/store/tx\<close> or \<open>jobs.go\<close>, run by the gateway, the
  event loop's kernel, a worker or the delivery, in any order and with any outcome of the driver;
  \<open>Crash\<close> loses the executions in flight.  The executor, which calls a model, is arbitrary: its
  result and error are part of the \<open>Finalize\<close> step.
\<close>

record rt_state =
  rt_db :: database
  rt_claims :: "claim_context list"
  rt_sends :: "claimed_outbox list"
  rt_counter :: nat

definition rt_init :: rt_state where
  "rt_init = \<lparr> rt_db = empty_db, rt_claims = [], rt_sends = [], rt_counter = 0 \<rparr>"

text \<open>The event of the runtime that a step belongs to.\<close>

datatype rt_label =
  Ingest | MarkQueued | Claim | Finalize | RecoverProcessing | RecoverSending | ClaimOutbox
| FailOutbox | CompleteOutbox | CronUpsert | ClaimJob | CompleteJob | FailJob | Heartbeat | Crash

inductive rt_step :: "rt_state \<Rightarrow> rt_label \<Rightarrow> rt_state \<Rightarrow> bool" where
  rt_ingest: "persist_event flt tenant key req hash now (rt_db s) = (r, d) \<Longrightarrow>
     rt_step s Ingest (s\<lparr>rt_db := d\<rparr>)"
| rt_mark_queued: "mark_event_queued flt eid now (rt_db s) = (r, d) \<Longrightarrow>
     rt_step s MarkQueued (s\<lparr>rt_db := d\<rparr>)"
| rt_claim: "claim_work flt w (run_id_for now (Suc (rt_counter s))) now (rt_db s) = (r, d) \<Longrightarrow>
     claims = (case r of Inr (Some c) \<Rightarrow> c # rt_claims s | _ \<Rightarrow> rt_claims s) \<Longrightarrow>
     rt_step s Claim (s\<lparr>rt_db := d, rt_claims := claims, rt_counter := Suc (rt_counter s)\<rparr>)"
| rt_finalize: "c \<in> set (rt_claims s) \<Longrightarrow>
     finalize flt (build_finalize now (rt_counter s) c result err) (rt_db s) = (r, d) \<Longrightarrow>
     rt_step s Finalize (s\<lparr>rt_db := d, rt_claims := remove1 c (rt_claims s),
        rt_counter := rt_counter s + length (er_output_messages result)\<rparr>)"
| rt_recover_processing: "recover_expired_processing rf flts cutoff now (rt_db s) = (rp, d) \<Longrightarrow>
     rt_step s RecoverProcessing (s\<lparr>rt_db := d\<rparr>)"
| rt_recover_sending: "recover_expired_sending flt cutoff now (rt_db s) = (r, d) \<Longrightarrow>
     rt_step s RecoverSending (s\<lparr>rt_db := d\<rparr>)"
| rt_claim_outbox: "claim_runtime_outbox flt owner now (rt_db s) = (ro, d) \<Longrightarrow>
     sends = (case ro of Inr (Some m) \<Rightarrow> m # rt_sends s | _ \<Rightarrow> rt_sends s) \<Longrightarrow>
     rt_step s ClaimOutbox (s\<lparr>rt_db := d, rt_sends := sends\<rparr>)"
| rt_fail_outbox: "m \<in> set (rt_sends s) \<Longrightarrow>
     fail_outbox_send flt (co_outbox_id m) (co_event_id m) err_text dead next_at now (rt_db s) = (r, d) \<Longrightarrow>
     rt_step s FailOutbox (s\<lparr>rt_db := d, rt_sends := remove1 m (rt_sends s)\<rparr>)"
| rt_complete_outbox: "m \<in> set (rt_sends s) \<Longrightarrow>
     complete_outbox_send flt (co_outbox_id m) (co_event_id m) now (rt_db s) = (r, d) \<Longrightarrow>
     rt_step s CompleteOutbox (s\<lparr>rt_db := d, rt_sends := remove1 m (rt_sends s)\<rparr>)"
| rt_cron: "upsert_cron_jobs flt tenant jobs now (rt_db s) = (r, d) \<Longrightarrow>
     rt_step s CronUpsert (s\<lparr>rt_db := d\<rparr>)"
| rt_claim_job: "claim_scheduled_job flt kind owner now (rt_db s) = (rj, d) \<Longrightarrow>
     rt_step s ClaimJob (s\<lparr>rt_db := d\<rparr>)"
| rt_complete_job: "complete_scheduled_job flt j now (rt_db s) = (r, d) \<Longrightarrow>
     rt_step s CompleteJob (s\<lparr>rt_db := d\<rparr>)"
| rt_fail_job: "fail_scheduled_job flt jid m next_at now (rt_db s) = (r, d) \<Longrightarrow>
     rt_step s FailJob (s\<lparr>rt_db := d\<rparr>)"
| rt_beat: "beat_heartbeat flt worker now (rt_db s) = (r, d) \<Longrightarrow>
     rt_step s Heartbeat (s\<lparr>rt_db := d\<rparr>)"
| rt_crash: "rt_step s Crash (s\<lparr>rt_claims := [], rt_sends := []\<rparr>)"

inductive reachable :: "rt_state \<Rightarrow> bool" where
  reachable_init: "reachable rt_init"
| reachable_step: "reachable s \<Longrightarrow> rt_step s l s' \<Longrightarrow> reachable s'"

inductive_cases finalize_stepE: "rt_step s Finalize s'"
inductive_cases claim_stepE: "rt_step s Claim s'"
inductive_simps crash_step_iff: "rt_step s Crash s'"

section \<open>Claims stay known\<close>

text \<open>
  Runs are never deleted, and their id, event and session never change: what a claim names stays
  in the table.
\<close>

definition claim_known :: "claim_context \<Rightarrow> database \<Rightarrow> bool" where
  "claim_known c d \<longleftrightarrow> run_known (cc_run_id c) (event_id (cc_event c)) (cc_session_key c) d"

definition run_keys :: "database \<Rightarrow> (string \<times> string \<times> string) set" where
  "run_keys d = (\<lambda>r. (rn_run_id r, rn_event_id r, rn_session_key r)) ` set (db_runs d)"

lemma run_known_keys: "run_known run_id eid key d \<longleftrightarrow> (run_id, eid, key) \<in> run_keys d"
  by (auto simp: run_known_def run_keys_def)

lemma run_keys_mono_runs:
  "db_runs d' = db_runs d \<Longrightarrow> run_keys d \<subseteq> run_keys d'"
  by (simp add: run_keys_def)

lemma with_writer_tx_run_keys:
  assumes "with_writer_tx flt fn d = (r, d')" "\<And>a d'. fn d = Inr (a, d') \<Longrightarrow> run_keys d \<subseteq> run_keys d'"
  shows "run_keys d \<subseteq> run_keys d'"
  by (rule with_writer_tx_invariant [where I = "\<lambda>d'. run_keys d \<subseteq> run_keys d'", OF assms(1) order_refl])
    (rule assms(2))

lemma persist_event_runs:
  assumes "persist_event flt tenant key req hash now d = (r, d')"
  shows "db_runs d' = db_runs d"
proof (rule with_writer_tx_invariant [where I = "\<lambda>d'. db_runs d' = db_runs d", OF assms [unfolded persist_event_def] refl])
  fix a d1 assume t: "persist_event_tx tenant key req hash now d = Inr (a, d1)"
  show "db_runs d1 = db_runs d"
  proof (cases "find_row ik_key (pq_idempotency_key req) (db_idempotency d)")
    case None
    then have "pq_idempotency_key req \<notin> ik_key ` set (db_idempotency d)" by (simp add: find_row_None)
    from persist_event_tx_newD [OF t this] obtain dx X Y Z where
      "dx = d \<or> (\<exists>sc. dx = upsert_conversation_dm_scope_tx tenant (pq_conversation req) sc now d)"
      "d1 = dx\<lparr>db_sessions := X, db_idempotency := Y, db_events := Z\<rparr>" by metis
    then show ?thesis by (auto simp: frame)
  next
    case (Some row)
    with t show ?thesis by (auto simp: persist_event_tx_def split: if_splits)
  qed
qed

lemma claim_event_run_keys:
  assumes "claim_event flt eid run_id now d = (r, d')"
  shows "run_keys d \<subseteq> run_keys d'"
    "r = Inr (Some c) \<Longrightarrow> claim_known c d'"
proof -
  have tx: "run_keys d \<subseteq> run_keys d' \<and> claim_known c d'"
    if "claim_event_tx eid run_id now d = Inr (c, d')" for c
    using that
    by (rule claim_event_tx_InrD)
      (auto simp: run_keys_def claim_known_def run_known_def claimed_context_def new_run_row_def)
  show "run_keys d \<subseteq> run_keys d'"
    by (rule claim_event_cases [OF assms]) (use tx in auto)
  show "claim_known c d'" if "r = Inr (Some c)"
    by (rule claim_event_cases [OF assms]) (use tx that in auto)
qed

lemma claim_work_run_keys:
  assumes "claim_work flt w run_id now d = (r, d')"
  shows "run_keys d \<subseteq> run_keys d'" "r = Inr (Some c) \<Longrightarrow> claim_known c d'"
proof -
  obtain r0 where r0: "claim_event flt (wi_event_id w) run_id now d = (r0, d')"
    using assms by (auto simp: claim_work_def Let_def split: prod.splits sum.splits option.splits)
  show "run_keys d \<subseteq> run_keys d'" by (rule claim_event_run_keys(1) [OF r0])
  assume "r = Inr (Some c)"
  then obtain c0 where "r0 = Inr (Some c0)" "cc_run_id c = cc_run_id c0" "cc_event c = cc_event c0"
    "cc_session_key c = cc_session_key c0"
    using assms r0 by (auto simp: claim_work_def Let_def split: sum.splits option.splits)
  then show "claim_known c d'" using claim_event_run_keys(2) [OF r0] by (simp add: claim_known_def)
qed

lemma finalize_run_keys:
  assumes "finalize flt cmd d = (r, d')"
  shows "run_keys d \<subseteq> run_keys d'"
  using assms unfolding finalize_def
proof (rule with_writer_tx_run_keys)
  fix a d1 assume "finalize_tx cmd d = Inr (a, d1)"
  then show "run_keys d \<subseteq> run_keys d1"
    by (cases a, simp, elim finalize_tx_InrD) (simp add: run_keys_def frame image_update_where)
qed

lemma recover_event_run_keys: "run_keys (recover_event now eid d) = run_keys d"
  unfolding run_keys_def recover_event_def by (simp add: image_update_where)

lemma recover_processing_run_keys:
  assumes "recover_expired_processing rf flts cutoff now d = (r, d')"
  shows "run_keys d \<subseteq> run_keys d'"
  using assms
  by (auto simp: recover_expired_processing_def Let_def recover_event_run_keys split: option.splits prod.splits
      elim!: recover_events_invariant [where I = "\<lambda>d'. run_keys d \<subseteq> run_keys d'", THEN subsetD])

section \<open>The invariant of every reachable state\<close>

definition rt_inv :: "rt_state \<Rightarrow> bool" where
  "rt_inv s \<longleftrightarrow> db_ok (rt_db s) \<and> (\<forall>c \<in> set (rt_claims s). claim_known c (rt_db s))"

lemma rt_inv_dbI:
  assumes "rt_inv s" "db_ok d" "run_keys (rt_db s) \<subseteq> run_keys d"
  shows "rt_inv (s\<lparr>rt_db := d\<rparr>)"
  using assms by (auto simp: rt_inv_def claim_known_def run_known_keys)

lemma command_ok_build:
  assumes "claim_known c d"
  shows "command_ok (build_finalize now n c result err) d"
  using assms stored_messages_claim
  by (auto simp: command_ok_def build_finalize_claim build_finalize_not_started build_finalize_terminal claim_known_def)

text \<open>The operations on other tables leave the runs alone.\<close>

lemma with_writer_tx_runs:
  assumes "with_writer_tx flt fn d = (r, d')" "\<And>a d'. fn d = Inr (a, d') \<Longrightarrow> db_runs d' = db_runs d"
  shows "db_runs d' = db_runs d"
  by (rule with_writer_tx_invariant [where I = "\<lambda>d'. db_runs d' = db_runs d", OF assms(1) refl]) (rule assms(2))

lemma exec_writer_runs:
  "exec_writer flt f d = (r, d') \<Longrightarrow> db_runs (f d) = db_runs d \<Longrightarrow> db_runs d' = db_runs d"
  by (erule exec_writer_cases) auto

lemma fold_recover_outbox_runs: "db_runs (fold (recover_outbox_item now) xs d) = db_runs d"
  by (rule fold_invariant_step) (simp_all add: frame)

lemma other_ops_runs:
  "mark_event_queued flt eid now d = (r1, d') \<Longrightarrow> db_runs d' = db_runs d"
  "recover_expired_sending flt cutoff now d = (r1, d') \<Longrightarrow> db_runs d' = db_runs d"
  "claim_runtime_outbox flt owner now d = (r2, d') \<Longrightarrow> db_runs d' = db_runs d"
  "fail_outbox_send flt oid eid m dead next_at now d = (r1, d') \<Longrightarrow> db_runs d' = db_runs d"
  "complete_outbox_send flt oid eid now d = (r1, d') \<Longrightarrow> db_runs d' = db_runs d"
  "upsert_cron_jobs flt tenant jobs now d = (r1, d') \<Longrightarrow> db_runs d' = db_runs d"
  "claim_scheduled_job flt kind owner now d = (r3, d') \<Longrightarrow> db_runs d' = db_runs d"
  "complete_scheduled_job flt j now d = (r1, d') \<Longrightarrow> db_runs d' = db_runs d"
  "fail_scheduled_job flt jid m next_at now d = (r1, d') \<Longrightarrow> db_runs d' = db_runs d"
  "beat_heartbeat flt worker now d = (r1, d') \<Longrightarrow> db_runs d' = db_runs d"
proof -
  show "mark_event_queued flt eid now d = (r1, d') \<Longrightarrow> db_runs d' = db_runs d"
    unfolding mark_event_queued_def by (erule exec_writer_runs) simp
  show "recover_expired_sending flt cutoff now d = (r1, d') \<Longrightarrow> db_runs d' = db_runs d"
    unfolding recover_expired_sending_def Let_def
    by (erule with_writer_tx_runs) (auto simp: fold_recover_outbox_runs)
  show "claim_runtime_outbox flt owner now d = (r2, d') \<Longrightarrow> db_runs d' = db_runs d"
    unfolding claim_runtime_outbox_def
    by (erule with_writer_tx_runs) (auto simp: claim_runtime_outbox_tx_def split: option.splits)
  show "fail_outbox_send flt oid eid m dead next_at now d = (r1, d') \<Longrightarrow> db_runs d' = db_runs d"
    unfolding fail_outbox_send_def Let_def by (erule with_writer_tx_runs) auto
  show "complete_outbox_send flt oid eid now d = (r1, d') \<Longrightarrow> db_runs d' = db_runs d"
    unfolding complete_outbox_send_def by (erule with_writer_tx_runs) auto
  show "upsert_cron_jobs flt tenant jobs now d = (r1, d') \<Longrightarrow> db_runs d' = db_runs d"
    unfolding upsert_cron_jobs_def by (erule with_writer_tx_runs) auto
  show "claim_scheduled_job flt kind owner now d = (r3, d') \<Longrightarrow> db_runs d' = db_runs d"
    unfolding claim_scheduled_job_def by (erule with_writer_tx_runs) (auto split: option.splits)
  show "complete_scheduled_job flt j now d = (r1, d') \<Longrightarrow> db_runs d' = db_runs d"
    unfolding complete_scheduled_job_def by (erule exec_writer_runs) simp
  show "fail_scheduled_job flt jid m next_at now d = (r1, d') \<Longrightarrow> db_runs d' = db_runs d"
    unfolding fail_scheduled_job_def by (erule exec_writer_runs) simp
  show "beat_heartbeat flt worker now d = (r1, d') \<Longrightarrow> db_runs d' = db_runs d"
    unfolding beat_heartbeat_def by (erule exec_writer_runs) (simp add: Let_def)
qed

lemmas db_ops_ok = persist_event_ok mark_event_queued_ok claim_work_ok finalize_ok
  recover_expired_processing_ok recover_expired_sending_ok claim_runtime_outbox_ok fail_outbox_send_ok
  complete_outbox_send_ok upsert_cron_jobs_ok claim_scheduled_job_ok complete_scheduled_job_ok
  fail_scheduled_job_ok beat_heartbeat_ok

lemma rt_inv_sends [simp]: "rt_inv (s\<lparr>rt_sends := ss\<rparr>) = rt_inv s"
  by (simp add: rt_inv_def)

lemma rt_step_inv:
  assumes "rt_step s l s'" "rt_inv s"
  shows "rt_inv s'"
  using assms
proof (induction rule: rt_step.induct)
  case (rt_ingest flt tenant key req hash now s r d)
  note st = rt_ingest(1)
  from rt_ingest(2) show ?case
    by (rule rt_inv_dbI)
      (use rt_ingest(2) persist_event_ok [OF st] run_keys_mono_runs [OF persist_event_runs [OF st]] in
        \<open>simp_all add: rt_inv_def\<close>)
next
  case (rt_claim flt w now s r d claims)
  have ok: "db_ok d" using claim_work_ok rt_claim by (auto simp: rt_inv_def)
  have keys: "run_keys (rt_db s) \<subseteq> run_keys d" by (rule claim_work_run_keys(1)) (rule rt_claim(1))
  have new: "r = Inr (Some c) \<Longrightarrow> claim_known c d" for c by (rule claim_work_run_keys(2) [OF rt_claim(1)])
  have "\<forall>c \<in> set (rt_claims s). claim_known c d"
    using rt_claim(3) keys by (auto simp: rt_inv_def claim_known_def run_known_keys)
  then show ?case
    using ok new by (auto simp: rt_inv_def rt_claim(2) split: sum.splits option.splits)
next
  case (rt_finalize c s flt now result err r d)
  then have ok: "db_ok d"
    using finalize_ok [OF rt_finalize(2)] command_ok_build by (auto simp: rt_inv_def)
  have "run_keys (rt_db s) \<subseteq> run_keys d" by (rule finalize_run_keys) (rule rt_finalize(2))
  with rt_finalize(3) have "rt_inv (s\<lparr>rt_db := d\<rparr>)" by (rule rt_inv_dbI [OF _ ok])
  then show ?case by (auto simp: rt_inv_def dest: in_set_takeD notin_set_remove1)
next
  case (rt_recover_processing rf flts cutoff now s rp d)
  note st = rt_recover_processing(1)
  from rt_recover_processing(2) show ?case
    by (rule rt_inv_dbI)
      (use rt_recover_processing(2) recover_expired_processing_ok [OF st] recover_processing_run_keys [OF st] in
        \<open>simp_all add: rt_inv_def\<close>)
next
  case (rt_claim_outbox flt owner now s ro d sends)
  have "rt_inv (s\<lparr>rt_db := d\<rparr>)"
    by (rule rt_inv_dbI [OF rt_claim_outbox(3)])
      (use rt_claim_outbox(3) claim_runtime_outbox_ok [OF rt_claim_outbox(1)] run_keys_mono_runs [OF other_ops_runs(3) [OF rt_claim_outbox(1)]] in
        \<open>simp_all add: rt_inv_def\<close>)
  then show ?case by (simp add: rt_inv_def)
next
  case (rt_fail_outbox m s flt err_text dead next_at now r d)
  have "rt_inv (s\<lparr>rt_db := d\<rparr>)"
    by (rule rt_inv_dbI [OF rt_fail_outbox(3)])
      (use rt_fail_outbox(3) fail_outbox_send_ok [OF rt_fail_outbox(2)] run_keys_mono_runs [OF other_ops_runs(4) [OF rt_fail_outbox(2)]] in
        \<open>simp_all add: rt_inv_def\<close>)
  then show ?case by (simp add: rt_inv_def)
next
  case (rt_complete_outbox m s flt now r d)
  have "rt_inv (s\<lparr>rt_db := d\<rparr>)"
    by (rule rt_inv_dbI [OF rt_complete_outbox(3)])
      (use rt_complete_outbox(3) complete_outbox_send_ok [OF rt_complete_outbox(2)] run_keys_mono_runs [OF other_ops_runs(5) [OF rt_complete_outbox(2)]] in
        \<open>simp_all add: rt_inv_def\<close>)
  then show ?case by (simp add: rt_inv_def)
next
  case (rt_crash s)
  then show ?case by (simp add: rt_inv_def)
qed (rule rt_inv_dbI, assumption, rule db_ops_ok, assumption, simp add: rt_inv_def,
     rule run_keys_mono_runs, rule other_ops_runs, assumption)+

lemma rt_init_inv: "rt_inv rt_init"
  by (simp add: rt_inv_def rt_init_def)

lemma reachable_inv: "reachable s \<Longrightarrow> rt_inv s"
  by (induction rule: reachable.induct) (auto intro: rt_init_inv rt_step_inv)

lemma reachable_ok: "reachable s \<Longrightarrow> db_ok (rt_db s)"
  using reachable_inv by (simp add: rt_inv_def)

end
