(* ===== verification/Fenced_Runtime.thy ===== *)
theory Fenced_Runtime
  imports Runtime_System
begin

text \<open>
  Runs of the runtime in which the processing lease fences the executions: recovery requeues an
  event only when no execution is in flight.  The code aims at this with its constants: an
  execution's context ends two minutes after it was taken from the queue and the lease lasts two
  minutes from the claim.  Then an event delivers at most one reply, and the event's outbox columns
  are those of its outbox row.
\<close>

definition fenced_step :: "rt_state \<Rightarrow> rt_label \<Rightarrow> rt_state \<Rightarrow> bool" where
  "fenced_step s l s' \<longleftrightarrow> rt_step s l s' \<and> (l = RecoverProcessing \<longrightarrow> rt_claims s = [])"

inductive fenced_reachable :: "rt_state \<Rightarrow> bool" where
  fenced_init: "fenced_reachable rt_init"
| fenced_step: "fenced_reachable s \<Longrightarrow> fenced_step s l s' \<Longrightarrow> fenced_reachable s'"

lemma fenced_is_reachable: "fenced_reachable s \<Longrightarrow> reachable s"
  by (induction rule: fenced_reachable.induct) (auto simp: fenced_step_def intro: reachable.intros)

section \<open>The invariant\<close>

text \<open>A claim in flight owns its event; an outbox row is the one its event names, with its status.\<close>

definition claim_owns :: "claim_context \<Rightarrow> database \<Rightarrow> bool" where
  "claim_owns c d \<longleftrightarrow>
     (\<exists>e \<in> set (db_events d). ev_event_id e = event_id (cc_event c) \<and>
        ev_status e = EventStatusProcessing \<and> ev_run_id e = cc_run_id c)"

definition row_mirrored :: "outbox_row \<Rightarrow> database \<Rightarrow> bool" where
  "row_mirrored o' d \<longleftrightarrow>
     (\<exists>e \<in> set (db_events d). ev_event_id e = ob_event_id o' \<and> ev_status e = EventStatusProcessed \<and>
        ev_outbox_id e = ob_outbox_id o' \<and> ev_outbox_status e = ob_status o')"

definition outbox_mirrored :: "database \<Rightarrow> bool" where
  "outbox_mirrored d \<longleftrightarrow> (\<forall>o' \<in> set (db_outbox d). row_mirrored o' d)"

definition outbox_keys :: "database \<Rightarrow> (string \<times> string) set" where
  "outbox_keys d = (\<lambda>r. (ob_outbox_id r, ob_event_id r)) ` set (db_outbox d)"

definition processing_keys :: "database \<Rightarrow> (string \<times> string) set" where
  "processing_keys d =
     {p. \<exists>e \<in> set (db_events d). p = (ev_event_id e, ev_run_id e) \<and> ev_status e = EventStatusProcessing}"

lemma claim_owns_keys: "claim_owns c d \<longleftrightarrow> (event_id (cc_event c), cc_run_id c) \<in> processing_keys d"
  unfolding claim_owns_def processing_keys_def by (simp only: mem_Collect_eq prod.inject) metis

definition fenced_inv :: "rt_state \<Rightarrow> bool" where
  "fenced_inv s \<longleftrightarrow> rt_inv s \<and> (\<forall>c \<in> set (rt_claims s). claim_owns c (rt_db s)) \<and>
     distinct (map (\<lambda>c. event_id (cc_event c)) (rt_claims s)) \<and> outbox_mirrored (rt_db s) \<and>
     (\<forall>m \<in> set (rt_sends s). (co_outbox_id m, co_event_id m) \<in> outbox_keys (rt_db s))"

lemma fenced_init_inv: "fenced_inv rt_init"
  using rt_init_inv by (simp add: fenced_inv_def rt_init_def outbox_mirrored_def empty_db_def)

lemma event_unique:
  assumes "db_ok d" "e \<in> set (db_events d)" "e' \<in> set (db_events d)" "ev_event_id e = ev_event_id e'"
  shows "e = e'"
  using keys_uniqueD(5) [OF db_okD(1) [OF assms(1)]] assms(2-4) by (metis distinct_map inj_onD)

lemma outbox_unique:
  assumes "db_ok d" "r \<in> set (db_outbox d)" "r' \<in> set (db_outbox d)" "ob_outbox_id r = ob_outbox_id r'"
  shows "r = r'"
  using keys_uniqueD(8) [OF db_okD(1) [OF assms(1)]] assms(2-4) by (metis distinct_map inj_onD)

text \<open>Two rows of one event are the same row.\<close>

lemma mirrored_event_once:
  assumes "db_ok d" "outbox_mirrored d" "r \<in> set (db_outbox d)" "r' \<in> set (db_outbox d)"
    "ob_event_id r = ob_event_id r'"
  shows "r = r'"
proof -
  obtain e where e: "e \<in> set (db_events d)" "ev_event_id e = ob_event_id r" "ev_outbox_id e = ob_outbox_id r"
    using assms(2,3) by (auto simp: outbox_mirrored_def row_mirrored_def)
  obtain e' where e': "e' \<in> set (db_events d)" "ev_event_id e' = ob_event_id r'" "ev_outbox_id e' = ob_outbox_id r'"
    using assms(2,4) by (auto simp: outbox_mirrored_def row_mirrored_def)
  have "e = e'" by (rule event_unique [OF assms(1) e(1) e'(1)]) (use e e' assms(5) in simp)
  then show ?thesis using outbox_unique [OF assms(1,3,4)] e e' by simp
qed

section \<open>Transitions of one outbox row\<close>

text \<open>Giving the row of an event a new status, and the event the same.\<close>

lemma outbox_mirrored_set:
  assumes ok: "db_ok d" and om: "outbox_mirrored d" and k: "(oid, eid) \<in> outbox_keys d"
    and f: "\<And>r. ob_outbox_id (f r) = ob_outbox_id r" "\<And>r. ob_event_id (f r) = ob_event_id r" "\<And>r. ob_status (f r) = st"
  shows "outbox_mirrored (d\<lparr>db_outbox := update_where (\<lambda>r. ob_outbox_id r = oid) f (db_outbox d),
                            db_events := set_event_outbox_status eid st now (db_events d)\<rparr>)"
    (is "outbox_mirrored ?d'")
  unfolding outbox_mirrored_def
proof
  fix r' assume "r' \<in> set (db_outbox ?d')"
  then obtain r where r: "r \<in> set (db_outbox d)" "r' = (if ob_outbox_id r = oid then f r else r)"
    by (auto simp: set_update_where)
  obtain k0 where k0: "k0 \<in> set (db_outbox d)" "ob_outbox_id k0 = oid" "ob_event_id k0 = eid"
    using k by (auto simp: outbox_keys_def)
  obtain e where e: "e \<in> set (db_events d)" "ev_event_id e = ob_event_id r" "ev_status e = EventStatusProcessed"
    "ev_outbox_id e = ob_outbox_id r" "ev_outbox_status e = ob_status r"
    using om r(1) by (auto simp: outbox_mirrored_def row_mirrored_def)
  let ?g = "\<lambda>e. e\<lparr>ev_outbox_status := st, ev_updated_at := time_text now\<rparr>"
  have iff: "ob_outbox_id r = oid \<longleftrightarrow> ob_event_id r = eid"
    using outbox_unique [OF ok r(1) k0(1)] mirrored_event_once [OF ok om r(1) k0(1)] k0 by auto
  let ?e' = "if ev_event_id e = eid then ?g e else e"
  have "?e' \<in> set (db_events ?d')"
    using e(1) by (auto simp: set_event_outbox_status_def set_update_where)
  moreover have "ev_event_id ?e' = ob_event_id r'" "ev_status ?e' = EventStatusProcessed"
    "ev_outbox_id ?e' = ob_outbox_id r'" "ev_outbox_status ?e' = ob_status r'"
    using e iff r(2) f by auto
  ultimately show "row_mirrored r' ?d'" unfolding row_mirrored_def by blast
qed

text \<open>
  What the steps that end no execution do to the tables: the processing events and the outbox rows
  stay, and the outbox stays mirrored.
\<close>

definition keeps :: "database \<Rightarrow> database \<Rightarrow> bool" where
  "keeps d d' \<longleftrightarrow> processing_keys d \<subseteq> processing_keys d' \<and> outbox_keys d \<subseteq> outbox_keys d' \<and> outbox_mirrored d'"

lemma fenced_inv_keeps:
  assumes "fenced_inv s" "rt_inv (s\<lparr>rt_db := d\<rparr>)" "keeps (rt_db s) d"
  shows "fenced_inv (s\<lparr>rt_db := d\<rparr>)"
  using assms unfolding fenced_inv_def keeps_def by (simp add: claim_owns_keys) blast

lemma keeps_refl: "outbox_mirrored d \<Longrightarrow> keeps d d"
  by (simp add: keeps_def)

lemma keeps_trans: "keeps d d' \<Longrightarrow> keeps d' d'' \<Longrightarrow> keeps d d''"
  unfolding keeps_def by (meson order_trans)

lemma keeps_mirrored: "keeps d d' \<Longrightarrow> outbox_mirrored d'"
  by (simp add: keeps_def)

lemma processing_keys_update:
  assumes "\<And>e. P e \<Longrightarrow> ev_status (f e) = ev_status e \<and> ev_event_id (f e) = ev_event_id e \<and> ev_run_id (f e) = ev_run_id e"
  shows "processing_keys (d\<lparr>db_events := update_where P f evs\<rparr>) = processing_keys (d\<lparr>db_events := evs\<rparr>)"
proof -
  have "(\<lambda>e. (ev_status e, ev_event_id e, ev_run_id e)) ` set (update_where P f evs) =
      (\<lambda>e. (ev_status e, ev_event_id e, ev_run_id e)) ` set evs"
    by (rule image_update_where) (simp add: assms)
  moreover have "processing_keys x =
      {p. (EventStatusProcessing, p) \<in> (\<lambda>e. (ev_status e, ev_event_id e, ev_run_id e)) ` set (db_events x)}" for x
    unfolding processing_keys_def image_iff by (simp only: prod.inject) metis
  ultimately show ?thesis by simp
qed

lemma keeps_outbox_set:
  assumes "db_ok d" "outbox_mirrored d" "(oid, eid) \<in> outbox_keys d"
    "\<And>r. ob_outbox_id (f r) = ob_outbox_id r" "\<And>r. ob_event_id (f r) = ob_event_id r" "\<And>r. ob_status (f r) = st"
  shows "keeps d (d\<lparr>db_outbox := update_where (\<lambda>r. ob_outbox_id r = oid) f (db_outbox d),
                    db_events := set_event_outbox_status eid st now (db_events d)\<rparr>)"
    (is "keeps d ?d'")
proof -
  have "processing_keys ?d' = processing_keys (?d'\<lparr>db_events := db_events d\<rparr>)"
    using processing_keys_update [where d = ?d' and evs = "db_events d" and P = "\<lambda>e. ev_event_id e = eid"
        and f = "\<lambda>e. e\<lparr>ev_outbox_status := st, ev_updated_at := time_text now\<rparr>"]
    by (simp add: set_event_outbox_status_def)
  moreover have "\<dots> = processing_keys d" by (simp add: processing_keys_def)
  moreover have "outbox_keys ?d' = outbox_keys d"
    by (simp add: outbox_keys_def image_update_where assms(4,5))
  ultimately show ?thesis
    using outbox_mirrored_set [OF assms] by (simp add: keeps_def)
qed

lemma keeps_other_tables:
  assumes "outbox_mirrored d" "db_events d' = db_events d" "db_outbox d' = db_outbox d"
  shows "keeps d d'"
  using assms by (simp add: keeps_def outbox_mirrored_def row_mirrored_def processing_keys_def outbox_keys_def)

section \<open>The steps\<close>

lemma recover_outbox_items_keep:
  "db_ok d \<Longrightarrow> outbox_mirrored d \<Longrightarrow> set items \<subseteq> outbox_keys d \<Longrightarrow>
   keeps d (fold (recover_outbox_item now) items d)"
proof (induction items arbitrary: d)
  case Nil
  then show ?case by (simp add: keeps_refl)
next
  case (Cons i items)
  have 1: "keeps d (recover_outbox_item now i d)"
    unfolding recover_outbox_item_def using Cons.prems
    by (intro keeps_outbox_set) (auto simp: prod.collapse)
  have "keeps (recover_outbox_item now i d) (fold (recover_outbox_item now) items (recover_outbox_item now i d))"
  proof (rule Cons.IH)
    show "db_ok (recover_outbox_item now i d)" by (rule recover_outbox_item_ok) (rule Cons.prems)
    show "outbox_mirrored (recover_outbox_item now i d)" using 1 by (rule keeps_mirrored)
    show "set items \<subseteq> outbox_keys (recover_outbox_item now i d)" using 1 Cons.prems(3) by (auto simp: keeps_def)
  qed
  with 1 show ?case by (simp add: keeps_trans)
qed

lemma with_writer_tx_keeps:
  assumes "with_writer_tx flt fn d = (r, d')" "outbox_mirrored d" "\<And>a d'. fn d = Inr (a, d') \<Longrightarrow> keeps d d'"
  shows "keeps d d'"
  by (rule with_writer_tx_invariant [where I = "keeps d", OF assms(1) keeps_refl [OF assms(2)]]) (rule assms(3))

lemma recover_expired_sending_keeps:
  assumes "recover_expired_sending flt cutoff now d = (r, d')" "db_ok d" "outbox_mirrored d"
  shows "keeps d d'"
  using assms(1) unfolding recover_expired_sending_def Let_def
proof (rule with_writer_tx_keeps [OF _ assms(3)])
  fix a d1
  let ?items = "map (\<lambda>r. (ob_outbox_id r, ob_event_id r)) (filter (sending_expired cutoff) (db_outbox d))"
  assume "Inr ((), fold (recover_outbox_item now) ?items d) = Inr (a, d1)"
  moreover have "set ?items \<subseteq> outbox_keys d" by (auto simp: outbox_keys_def)
  ultimately show "keeps d d1" using recover_outbox_items_keep [OF assms(2,3)] by auto
qed

lemma claim_runtime_outbox_keeps:
  assumes "claim_runtime_outbox flt owner now d = (r, d')" "db_ok d" "outbox_mirrored d"
  shows "keeps d d'" "r = Inr (Some m) \<Longrightarrow> (co_outbox_id m, co_event_id m) \<in> outbox_keys d"
proof -
  have tx: "keeps d d1 \<and> (\<forall>m. a = Some m \<longrightarrow> (co_outbox_id m, co_event_id m) \<in> outbox_keys d)"
    if t: "claim_runtime_outbox_tx owner now d = Inr (a, d1)" for a d1
  proof (cases "next_outbox now (db_outbox d)")
    case None
    with t assms(3) show ?thesis by (simp add: claim_runtime_outbox_tx_def keeps_refl)
  next
    case (Some r0)
    then have k: "(ob_outbox_id r0, ob_event_id r0) \<in> outbox_keys d"
      using next_outbox_SomeD(1) by (auto simp: outbox_keys_def)
    have "keeps d (d\<lparr>db_outbox := update_where (\<lambda>r'. ob_outbox_id r' = ob_outbox_id r0) (lock_outbox_row owner now) (db_outbox d),
        db_events := set_event_outbox_status (ob_event_id r0) OutboxStatusSending now (db_events d)\<rparr>)"
      by (rule keeps_outbox_set [OF assms(2,3) k]) (simp_all add: lock_outbox_row_def)
    with t Some k show ?thesis by (auto simp: claim_runtime_outbox_tx_def to_claimed_outbox_def)
  qed
  show "keeps d d'"
    by (rule with_writer_tx_keeps [OF assms(1) [unfolded claim_runtime_outbox_def] assms(3)]) (use tx in auto)
  show "(co_outbox_id m, co_event_id m) \<in> outbox_keys d" if "r = Inr (Some m)"
    using tx with_writer_tx_InrD [OF assms(1) [unfolded claim_runtime_outbox_def that]] by auto
qed

lemma outcome_keeps:
  assumes "db_ok d" "outbox_mirrored d" "(oid, eid) \<in> outbox_keys d"
  shows "fail_outbox_send flt oid eid m dead next_at now d = (r, d') \<Longrightarrow> keeps d d'"
    "complete_outbox_send flt oid eid now d = (r, d') \<Longrightarrow> keeps d d'"
proof -
  let ?st = "if dead then OutboxStatusDead else OutboxStatusRetryWait"
  have 1: "keeps d (d\<lparr>db_outbox := update_where (\<lambda>r. ob_outbox_id r = oid) (fail_outbox_row ?st m next_at now) (db_outbox d),
      db_events := set_event_outbox_status eid ?st now (db_events d)\<rparr>)"
    by (rule keeps_outbox_set [OF assms]) (simp_all add: fail_outbox_row_def)
  have 2: "keeps d (d\<lparr>db_outbox := update_where (\<lambda>r. ob_outbox_id r = oid) (sent_outbox_row now) (db_outbox d),
      db_events := set_event_outbox_status eid OutboxStatusSent now (db_events d)\<rparr>)"
    by (rule keeps_outbox_set [OF assms]) (simp_all add: sent_outbox_row_def)
  show "keeps d d'" if "fail_outbox_send flt oid eid m dead next_at now d = (r, d')"
    using that unfolding fail_outbox_send_def Let_def
    by (rule with_writer_tx_keeps [OF _ assms(2)]) (use 1 in simp)
  show "keeps d d'" if "complete_outbox_send flt oid eid now d = (r, d')"
    using that unfolding complete_outbox_send_def
    by (rule with_writer_tx_keeps [OF _ assms(2)]) (use 2 in simp)
qed

lemma row_mirrored_mono:
  assumes "row_mirrored r d" "{e \<in> set (db_events d). ev_status e = EventStatusProcessed} \<subseteq> set (db_events d')"
  shows "row_mirrored r d'"
  using assms unfolding row_mirrored_def by blast

lemma outbox_mirrored_mono:
  assumes "outbox_mirrored d" "db_outbox d' = db_outbox d"
    "\<And>e. e \<in> set (db_events d) \<Longrightarrow> ev_status e = EventStatusProcessed \<Longrightarrow> e \<in> set (db_events d')"
  shows "outbox_mirrored d'"
  unfolding outbox_mirrored_def assms(2)
proof
  fix r assume "r \<in> set (db_outbox d)"
  then have "row_mirrored r d" using assms(1) by (simp add: outbox_mirrored_def)
  then show "row_mirrored r d'" by (rule row_mirrored_mono) (use assms(3) in auto)
qed

text \<open>Updates that touch neither the processing nor the processed events.\<close>

lemma keeps_events_update:
  assumes om: "outbox_mirrored d"
    and P: "\<And>e. e \<in> set (db_events d) \<Longrightarrow> P e \<Longrightarrow> ev_status e \<noteq> EventStatusProcessing \<and> ev_status e \<noteq> EventStatusProcessed"
    and ev: "db_events d' = update_where P f (db_events d)" and ob: "db_outbox d' = db_outbox d"
  shows "keeps d d'"
proof -
  have stay: "e \<in> set (db_events d')" if "e \<in> set (db_events d)"
      "ev_status e = EventStatusProcessing \<or> ev_status e = EventStatusProcessed" for e
    using that P [of e] by (auto simp: ev set_update_where)
  have "processing_keys d \<subseteq> processing_keys d'"
    unfolding processing_keys_def using stay by blast
  moreover have "outbox_mirrored d'"
    by (rule outbox_mirrored_mono [OF om ob]) (use stay in blast)
  ultimately show ?thesis by (simp add: keeps_def outbox_keys_def ob)
qed

lemma persist_event_tables:
  assumes "persist_event flt tenant key req hash now d = (r, d')"
  shows "db_outbox d' = db_outbox d" "set (db_events d) \<subseteq> set (db_events d')"
proof -
  have "db_outbox d' = db_outbox d \<and> set (db_events d) \<subseteq> set (db_events d')"
  proof (rule with_writer_tx_invariant [where I = "\<lambda>d'. db_outbox d' = db_outbox d \<and> set (db_events d) \<subseteq> set (db_events d')",
        OF assms [unfolded persist_event_def]])
    fix a d1 assume t: "persist_event_tx tenant key req hash now d = Inr (a, d1)"
    show "db_outbox d1 = db_outbox d \<and> set (db_events d) \<subseteq> set (db_events d1)"
    proof (cases "find_row ik_key (pq_idempotency_key req) (db_idempotency d)")
      case None
      then have "pq_idempotency_key req \<notin> ik_key ` set (db_idempotency d)" by (simp add: find_row_None)
      from persist_event_tx_newD [OF t this] obtain dx X Y z where
        "dx = d \<or> (\<exists>sc. dx = upsert_conversation_dm_scope_tx tenant (pq_conversation req) sc now d)"
        "d1 = dx\<lparr>db_sessions := X, db_idempotency := Y, db_events := db_events d @ [z]\<rparr>" by metis
      then show ?thesis by (auto simp: frame)
    next
      case (Some row)
      with t show ?thesis by (auto simp: persist_event_tx_def split: if_splits)
    qed
  qed simp
  then show "db_outbox d' = db_outbox d" "set (db_events d) \<subseteq> set (db_events d')" by auto
qed

lemma persist_event_keeps:
  assumes "persist_event flt tenant key req hash now d = (r, d')" "outbox_mirrored d"
  shows "keeps d d'"
proof -
  note t = persist_event_tables [OF assms(1)]
  have "processing_keys d \<subseteq> processing_keys d'" unfolding processing_keys_def using t(2) by blast
  moreover have "outbox_mirrored d'"
    by (rule outbox_mirrored_mono [OF assms(2) t(1)]) (use t(2) in blast)
  ultimately show ?thesis by (simp add: keeps_def outbox_keys_def t(1))
qed

lemma mark_event_queued_keeps:
  assumes "mark_event_queued flt eid now d = (r, d')" "outbox_mirrored d"
  shows "keeps d d'"
  using assms(1) unfolding mark_event_queued_def
proof (rule exec_writer_cases)
  assume d': "d' = d\<lparr>db_events := update_where (\<lambda>e. ev_event_id e = eid \<and> ev_status e = EventStatusReceived)
      (\<lambda>e. e\<lparr>ev_status := EventStatusQueued, ev_updated_at := time_text now\<rparr>) (db_events d)\<rparr>"
  show "keeps d d'" by (rule keeps_events_update [OF assms(2)]) (auto simp: d')
qed (use assms(2) keeps_refl in simp)

lemma claim_event_tx_keeps:
  assumes t: "claim_event_tx eid run_id now d = Inr (c, d')" and ok: "db_ok d" and om: "outbox_mirrored d"
  shows "keeps d d' \<and> claim_owns c d' \<and> (\<forall>r. (event_id (cc_event c), r) \<notin> processing_keys d)"
  using t
proof (rule claim_event_tx_InrD)
  fix e
  assume e: "e \<in> set (db_events d)" "ev_event_id e = eid" "event_runnable (ev_status e)"
    "\<not> has_started_run eid (db_runs d)" and c: "c = claimed_context e run_id (claim_run_mode (ev_payload e))"
    and d': "d' = d\<lparr>db_runs := db_runs d @ [new_run_row run_id e (claim_run_mode (ev_payload e)) now],
            db_events := update_where (\<lambda>e. ev_event_id e = eid) (\<lambda>e'. e'\<lparr>ev_run_mode := claim_run_mode (ev_payload e)\<rparr>)
              (update_where (claimable eid (db_runs d)) (claim_event_row run_id now) (db_events d))\<rparr>"
  let ?f = "\<lambda>e'. (claim_event_row run_id now e')\<lparr>ev_run_mode := claim_run_mode (ev_payload e)\<rparr>"
  have cl: "claimable eid (db_runs d) e" using e by (auto simp: claimable_def event_runnable_def)
  have ev: "db_events d' = update_where (\<lambda>e. ev_event_id e = eid) ?f (db_events d)"
    using claim_updates [OF keys_uniqueD(5) [OF db_okD(1) [OF ok]] e(1,2) cl] by (simp add: d')
  have one: "e' = e" if "e' \<in> set (db_events d)" "ev_event_id e' = eid" for e'
    using event_unique [OF ok that(1) e(1)] that(2) e(2) by simp
  have run: "ev_status e \<noteq> EventStatusProcessing \<and> ev_status e \<noteq> EventStatusProcessed"
    using e(3) by (auto simp: event_runnable_def)
  have "keeps d d'" by (rule keeps_events_update [OF om _ ev]) (use one run in \<open>auto simp: d'\<close>)
  moreover have "?f e \<in> set (db_events d')" using e(1,2) by (auto simp: ev set_update_where)
  then have "claim_owns c d'"
    unfolding claim_owns_def c by (rule rev_bexI) (simp add: claimed_context_def claim_event_row_def)
  moreover have "(event_id (cc_event c), r) \<notin> processing_keys d" for r
    using one run e(2) by (auto simp: processing_keys_def c claimed_context_def)
  ultimately show ?thesis by blast
qed

lemma claim_work_keeps:
  assumes "claim_work flt w run_id now d = (r, d')" "db_ok d" "outbox_mirrored d"
  shows "keeps d d'"
    "r = Inr (Some c) \<Longrightarrow> claim_owns c d' \<and> (\<forall>x. (event_id (cc_event c), x) \<notin> processing_keys d)"
proof -
  obtain r0 where r0: "claim_event flt (wi_event_id w) run_id now d = (r0, d')"
    using assms(1) by (auto simp: claim_work_def Let_def split: prod.splits sum.splits option.splits)
  show "keeps d d'"
    by (rule claim_event_cases [OF r0]) (use claim_event_tx_keeps [OF _ assms(2,3)] keeps_refl [OF assms(3)] in auto)
  assume "r = Inr (Some c)"
  then obtain c0 where c0: "r0 = Inr (Some c0)" "cc_run_id c = cc_run_id c0" "cc_event c = cc_event c0"
    using assms(1) r0 by (auto simp: claim_work_def Let_def split: sum.splits option.splits)
  have "claim_owns c0 d' \<and> (\<forall>x. (event_id (cc_event c0), x) \<notin> processing_keys d)"
    by (rule claim_event_cases [OF r0]) (use c0(1) claim_event_tx_keeps [OF _ assms(2,3)] in auto)
  then show "claim_owns c d' \<and> (\<forall>x. (event_id (cc_event c), x) \<notin> processing_keys d)"
    by (simp add: claim_owns_keys c0)
qed

lemma recover_event_mirrored: "outbox_mirrored d \<Longrightarrow> outbox_mirrored (recover_event now eid d)"
  by (erule outbox_mirrored_mono) (auto simp: recover_event_def set_update_where)

lemma recover_processing_mirrored:
  assumes "recover_expired_processing rf flts cutoff now d = (r, d')" "outbox_mirrored d"
  shows "outbox_mirrored d' \<and> outbox_keys d' = outbox_keys d"
proof -
  have "outbox_mirrored x \<and> outbox_keys x = outbox_keys d \<Longrightarrow>
      outbox_mirrored (recover_event now eid x) \<and> outbox_keys (recover_event now eid x) = outbox_keys d" for eid x
    using recover_event_mirrored by (simp add: outbox_keys_def recover_event_def)
  then show ?thesis
    using assms
    by (auto simp: recover_expired_processing_def Let_def split: option.splits prod.splits
      dest: recover_events_invariant [where I = "\<lambda>x. outbox_mirrored x \<and> outbox_keys x = outbox_keys d"])
qed

lemma other_ops_tables:
  "upsert_cron_jobs flt tenant jobs now d = (r1, d') \<Longrightarrow> db_events d' = db_events d \<and> db_outbox d' = db_outbox d"
  "claim_scheduled_job flt kind owner now d = (r3, d') \<Longrightarrow> db_events d' = db_events d \<and> db_outbox d' = db_outbox d"
  "complete_scheduled_job flt j now d = (r1, d') \<Longrightarrow> db_events d' = db_events d \<and> db_outbox d' = db_outbox d"
  "fail_scheduled_job flt jid m next_at now d = (r1, d') \<Longrightarrow> db_events d' = db_events d \<and> db_outbox d' = db_outbox d"
  "beat_heartbeat flt worker now d = (r1, d') \<Longrightarrow> db_events d' = db_events d \<and> db_outbox d' = db_outbox d"
proof -
  let ?I = "\<lambda>x. db_events x = db_events d \<and> db_outbox x = db_outbox d"
  note tx = with_writer_tx_invariant [where I = ?I and d = d]
  show "upsert_cron_jobs flt tenant jobs now d = (r1, d') \<Longrightarrow> ?I d'"
    unfolding upsert_cron_jobs_def by (erule tx) auto
  show "claim_scheduled_job flt kind owner now d = (r3, d') \<Longrightarrow> ?I d'"
    unfolding claim_scheduled_job_def by (erule tx) (auto split: option.splits)
  show "complete_scheduled_job flt j now d = (r1, d') \<Longrightarrow> ?I d'"
    unfolding complete_scheduled_job_def by (erule exec_writer_cases) auto
  show "fail_scheduled_job flt jid m next_at now d = (r1, d') \<Longrightarrow> ?I d'"
    unfolding fail_scheduled_job_def by (erule exec_writer_cases) auto
  show "beat_heartbeat flt worker now d = (r1, d') \<Longrightarrow> ?I d'"
    unfolding beat_heartbeat_def by (erule exec_writer_cases) (auto simp: Let_def)
qed

lemma finalize_tx_mirrored:
  assumes t: "finalize_tx cmd d = Inr ((), d')" and ok: "db_ok d" and om: "outbox_mirrored d"
    and own: "(fc_event_id cmd, run_id) \<in> processing_keys d"
  shows "outbox_mirrored d'" "outbox_keys d \<subseteq> outbox_keys d'"
    "\<And>p. p \<in> processing_keys d \<Longrightarrow> fst p \<noteq> fc_event_id cmd \<Longrightarrow> p \<in> processing_keys d'"
proof -
  let ?evs = "update_where (\<lambda>e. ev_event_id e = fc_event_id cmd) (finalize_event_row cmd) (db_events d)"
  obtain e0 where e0: "e0 \<in> set (db_events d)" "ev_event_id e0 = fc_event_id cmd" "ev_status e0 = EventStatusProcessing"
    using own by (auto simp: processing_keys_def)
  have ob: "db_outbox d' = db_outbox d @ (if delivers cmd then [new_outbox_row cmd] else [])"
    and ev: "db_events d' = ?evs"
    by (rule finalize_tx_InrD [OF t], simp add: frame)+
  have other: "e \<in> set (db_events d')" if "e \<in> set (db_events d)" "ev_event_id e \<noteq> fc_event_id cmd" for e
    using that by (auto simp: ev set_update_where)
  have e0': "finalize_event_row cmd e0 \<in> set (db_events d')"
    using e0 by (auto simp: ev set_update_where)
  show "outbox_mirrored d'"
    unfolding outbox_mirrored_def
  proof
    fix r assume "r \<in> set (db_outbox d')"
    then consider "r \<in> set (db_outbox d)" | "delivers cmd" "r = new_outbox_row cmd"
      by (auto simp: ob split: if_splits)
    then show "row_mirrored r d'"
    proof cases
      case 1
      then obtain e where e: "e \<in> set (db_events d)" "ev_event_id e = ob_event_id r" "ev_status e = EventStatusProcessed"
        "ev_outbox_id e = ob_outbox_id r" "ev_outbox_status e = ob_status r"
        using om by (auto simp: outbox_mirrored_def row_mirrored_def)
      have "ev_event_id e \<noteq> fc_event_id cmd"
        using event_unique [OF ok e(1) e0(1)] e(3) e0(2,3) by auto
      with e other show ?thesis unfolding row_mirrored_def by blast
    next
      case 2
      then show ?thesis
        unfolding row_mirrored_def using e0 e0'
        by (intro bexI [where x = "finalize_event_row cmd e0"])
          (simp_all add: new_outbox_row_def finalize_event_row_def delivers_def)
    qed
  qed
  show "outbox_keys d \<subseteq> outbox_keys d'" by (auto simp: outbox_keys_def ob)
  show "p \<in> processing_keys d'" if "p \<in> processing_keys d" "fst p \<noteq> fc_event_id cmd" for p
    using that other by (auto simp: processing_keys_def)
qed

lemma remove1_distinct_map:
  assumes "distinct (map f xs)"
  shows "distinct (map f (remove1 x xs))"
    "x \<in> set xs \<Longrightarrow> y \<in> set (remove1 x xs) \<Longrightarrow> f y \<noteq> f x"
proof -
  have d: "distinct xs" "inj_on f (set xs)" using assms by (simp_all add: distinct_map)
  show "distinct (map f (remove1 x xs))"
    using d inj_on_subset [OF d(2) set_remove1_subset] by (simp add: distinct_map distinct_remove1)
  show "f y \<noteq> f x" if "x \<in> set xs" "y \<in> set (remove1 x xs)"
    using that d by (auto simp: set_remove1_eq dest: inj_onD)
qed

lemma fenced_finalize:
  assumes inv: "fenced_inv s" and c: "c \<in> set (rt_claims s)"
    and fin: "finalize flt (build_finalize now n c result err) (rt_db s) = (r, d)"
  shows "outbox_mirrored d" "outbox_keys (rt_db s) \<subseteq> outbox_keys d"
    "\<And>c'. c' \<in> set (remove1 c (rt_claims s)) \<Longrightarrow> claim_owns c' d"
proof -
  let ?cmd = "build_finalize now n c result err"
  have ok: "db_ok (rt_db s)" and om: "outbox_mirrored (rt_db s)"
    and ow: "\<And>c. c \<in> set (rt_claims s) \<Longrightarrow> claim_owns c (rt_db s)"
    and di: "distinct (map (\<lambda>c. event_id (cc_event c)) (rt_claims s))"
    using inv by (auto simp: fenced_inv_def rt_inv_def)
  have own: "(fc_event_id ?cmd, cc_run_id c) \<in> processing_keys (rt_db s)"
    using ow [OF c] by (simp add: claim_owns_keys build_finalize_claim)
  have "outbox_mirrored d \<and> outbox_keys (rt_db s) \<subseteq> outbox_keys d \<and>
      (\<forall>p \<in> processing_keys (rt_db s). fst p \<noteq> fc_event_id ?cmd \<longrightarrow> p \<in> processing_keys d)"
  proof (rule with_writer_tx_invariant [where I = "\<lambda>d. outbox_mirrored d \<and> outbox_keys (rt_db s) \<subseteq> outbox_keys d \<and>
      (\<forall>p \<in> processing_keys (rt_db s). fst p \<noteq> fc_event_id ?cmd \<longrightarrow> p \<in> processing_keys d)", OF fin [unfolded finalize_def]])
    fix a :: unit and d1 assume "finalize_tx ?cmd (rt_db s) = Inr (a, d1)"
    then show "outbox_mirrored d1 \<and> outbox_keys (rt_db s) \<subseteq> outbox_keys d1 \<and>
      (\<forall>p \<in> processing_keys (rt_db s). fst p \<noteq> fc_event_id ?cmd \<longrightarrow> p \<in> processing_keys d1)"
      using finalize_tx_mirrored [OF _ ok om own] by (cases a) blast
  qed (use om in simp)
  moreover have "event_id (cc_event c') \<noteq> fc_event_id ?cmd" if "c' \<in> set (remove1 c (rt_claims s))" for c'
    using remove1_distinct_map(2) [OF di c that] by (simp add: build_finalize_claim)
  moreover have "c' \<in> set (rt_claims s)" if "c' \<in> set (remove1 c (rt_claims s))" for c'
    using that set_remove1_subset by fast
  ultimately show "outbox_mirrored d" "outbox_keys (rt_db s) \<subseteq> outbox_keys d"
    "\<And>c'. c' \<in> set (remove1 c (rt_claims s)) \<Longrightarrow> claim_owns c' d"
    using ow by (auto simp: claim_owns_keys)
qed

lemma fenced_step_inv:
  assumes st: "fenced_step s l s'" and inv: "fenced_inv s"
  shows "fenced_inv s'"
proof -
  have rt: "rt_step s l s'" and fence: "l = RecoverProcessing \<Longrightarrow> rt_claims s = []"
    using st by (auto simp: fenced_step_def)
  have ok: "db_ok (rt_db s)" and om: "outbox_mirrored (rt_db s)" using inv by (auto simp: fenced_inv_def rt_inv_def)
  have ri: "rt_inv s'" using rt_step_inv [OF rt] inv by (simp add: fenced_inv_def)
  have kp: "fenced_inv (s\<lparr>rt_db := d\<rparr>)" if "keeps (rt_db s) d" "rt_inv (s\<lparr>rt_db := d\<rparr>)" for d
    using fenced_inv_keeps [OF inv that(2,1)] .
  from rt ri show ?thesis
  proof (cases rule: rt_step.cases)
    case (rt_ingest flt tenant key req hash now r d)
    with ri persist_event_keeps om show ?thesis by (auto intro!: kp)
  next
    case (rt_mark_queued flt eid now r d)
    with ri mark_event_queued_keeps om show ?thesis by (auto intro!: kp)
  next
    case (rt_claim flt w now r d claims)
    have k: "keeps (rt_db s) d" by (rule claim_work_keeps(1) [OF rt_claim(3) ok om])
    have new: "claim_owns c d \<and> (\<forall>x. (event_id (cc_event c), x) \<notin> processing_keys (rt_db s))" if "r = Inr (Some c)" for c
      by (rule claim_work_keeps(2) [OF rt_claim(3) ok om that])
    have "rt_inv (s\<lparr>rt_db := d\<rparr>)" using ri unfolding rt_claim by (auto simp: rt_inv_def split: sum.splits option.splits)
    with kp [OF k] have f: "fenced_inv (s\<lparr>rt_db := d\<rparr>)" by simp
    have fresh: "event_id (cc_event c) \<notin> (\<lambda>c. event_id (cc_event c)) ` set (rt_claims s)" if "r = Inr (Some c)" for c
      using new [OF that] inv by (auto simp: fenced_inv_def claim_owns_keys)
    show ?thesis
      using f ri fresh new unfolding rt_claim
      by (auto simp: fenced_inv_def split: sum.splits option.splits)
  next
    case (rt_finalize c flt now result err r d)
    note f = fenced_finalize [OF inv rt_finalize(3,4)]
    show ?thesis
      using f inv ri remove1_distinct_map(1) unfolding rt_finalize
      by (auto simp: fenced_inv_def)
  next
    case (rt_recover_processing rf flts cutoff now rp d)
    then have "rt_claims s = []" using fence by simp
    then show ?thesis
      using recover_processing_mirrored [OF rt_recover_processing(3) om] inv ri unfolding rt_recover_processing
      by (auto simp: fenced_inv_def)
  next
    case (rt_recover_sending flt cutoff now r d)
    with ri recover_expired_sending_keeps ok om show ?thesis by (auto intro!: kp)
  next
    case (rt_claim_outbox flt owner now ro d sends)
    have k: "keeps (rt_db s) d" by (rule claim_runtime_outbox_keeps(1) [OF rt_claim_outbox(3) ok om])
    have "rt_inv (s\<lparr>rt_db := d\<rparr>)" using ri unfolding rt_claim_outbox by (simp add: rt_inv_def)
    with kp [OF k] have f: "fenced_inv (s\<lparr>rt_db := d\<rparr>)" by simp
    have "(co_outbox_id m, co_event_id m) \<in> outbox_keys d" if "ro = Inr (Some m)" for m
      using claim_runtime_outbox_keeps(2) [OF rt_claim_outbox(3) ok om that] k by (auto simp: keeps_def)
    with f ri show ?thesis unfolding rt_claim_outbox
      by (auto simp: fenced_inv_def split: sum.splits option.splits)
  next
    case (rt_fail_outbox m flt err_text dead next_at now r d)
    have "(co_outbox_id m, co_event_id m) \<in> outbox_keys (rt_db s)" using inv rt_fail_outbox(3) by (auto simp: fenced_inv_def)
    then have k: "keeps (rt_db s) d" by (rule outcome_keeps(1) [OF ok om _ rt_fail_outbox(4)])
    have "rt_inv (s\<lparr>rt_db := d\<rparr>)" using ri unfolding rt_fail_outbox by (simp add: rt_inv_def)
    with kp [OF k] ri show ?thesis unfolding rt_fail_outbox by (auto simp: fenced_inv_def dest: notin_set_remove1)
  next
    case (rt_complete_outbox m flt now r d)
    have "(co_outbox_id m, co_event_id m) \<in> outbox_keys (rt_db s)" using inv rt_complete_outbox(3) by (auto simp: fenced_inv_def)
    then have k: "keeps (rt_db s) d" by (rule outcome_keeps(2) [OF ok om _ rt_complete_outbox(4)])
    have "rt_inv (s\<lparr>rt_db := d\<rparr>)" using ri unfolding rt_complete_outbox by (simp add: rt_inv_def)
    with kp [OF k] ri show ?thesis unfolding rt_complete_outbox by (auto simp: fenced_inv_def dest: notin_set_remove1)
  next
    case rt_crash
    then show ?thesis using inv ri by (auto simp: fenced_inv_def)
  qed (use ri om kp keeps_other_tables in \<open>auto dest: other_ops_tables\<close>)
qed

lemma fenced_reachable_inv: "fenced_reachable s \<Longrightarrow> fenced_inv s"
  by (induction rule: fenced_reachable.induct) (auto intro: fenced_init_inv fenced_step_inv)

end
