(* ===== verification/Scenario.thy ===== *)
theory Scenario
  imports Fenced_Runtime Queries
begin

text \<open>
  One concrete run of the runtime, step by step: an ingest is stored, claimed, executed with a
  reply and finalized, and the reply is claimed for sending.  It shows that the states the
  properties speak of exist.  A second run lets the lease of an execution that is still going on
  expire.
\<close>

definition demo_conv :: conversation where
  "demo_conv = \<lparr> conversation_id = ''c'', thread_id = [], channel_type = ''dm'', participant_id = ''u'' \<rparr>"

definition demo_payload :: event_payload where
  "demo_payload = \<lparr> payload_type = ''message'', payload_text = ''hi'', mentions = [], attachments = [],
     native = None, native_ref = [], extra = [] \<rparr>"

definition demo_request :: persist_request where
  "demo_request = \<lparr> pq_source = ''cli'', pq_conversation = demo_conv, pq_payload = demo_payload,
     pq_idempotency_key = ''cli:a:1'', pq_dm_scope = ''default'' \<rparr>"

definition demo_work :: work_item where
  "demo_work = \<lparr> wi_event_id = event_id_for 0, wi_session_key = [], wi_lane_key = [], wi_source = [],
     wi_channel = [], wi_metadata = [] \<rparr>"

definition demo_result :: execution_result where
  "demo_result = empty_execution_result\<lparr>er_run_mode := RunModeNormal, er_assistant_reply := ''ok'',
     er_delivery := Some \<lparr>di_channel = [], di_target_id = [], di_body = ''ok'', di_metadata = []\<rparr>\<rparr>"

definition demo_event :: event_row where
  "demo_event = new_event_row ''t'' ''k'' (session_id_for 0) demo_request ''h'' 0"

definition demo_ingested :: rt_state where
  "demo_ingested = rt_init\<lparr>rt_db := snd (persist_event TxOk ''t'' ''k'' demo_request ''h'' 0 (rt_db rt_init))\<rparr>"

lemma demo_ingested_tables:
  "db_events (rt_db demo_ingested) = [demo_event]" "db_runs (rt_db demo_ingested) = []"
  "db_outbox (rt_db demo_ingested) = []" "db_messages (rt_db demo_ingested) = []"
  "rt_claims demo_ingested = []" "rt_sends demo_ingested = []" "rt_counter demo_ingested = 0"
  "db_idempotency (rt_db demo_ingested) = [new_idempotency_row ''k'' (session_id_for 0) demo_request ''h'' 0]"
  "db_sessions (rt_db demo_ingested) = [new_session_row ''k'' demo_conv (normalize_scope ''default'') 0]"
  by (simp_all add: demo_ingested_def rt_init_def empty_db_def persist_event_def with_writer_tx_def
      persist_event_tx_def find_row_def upsert_conversation_dm_scope_tx_def resolve_session_tx_def
      require_row_def insert_row_def insert_event_def Let_def demo_event_def demo_request_def
      upsert_row_def)

lemma demo_ingested_reachable: "fenced_reachable demo_ingested"
  by (rule fenced_reachable.fenced_step [OF fenced_init, of Ingest])
    (simp add: fenced_step_def demo_ingested_def, rule rt_ingest, rule prod.collapse [symmetric])

text \<open>The claim.\<close>

definition demo_run_id :: string where
  "demo_run_id = run_id_for 1 (Suc 0)"

definition demo_claim :: claim_context where
  "demo_claim = (case claim_work TxOk demo_work demo_run_id 1 (rt_db demo_ingested) of
     (Inr (Some c), _) \<Rightarrow> c | _ \<Rightarrow> claimed_context demo_event [] RunModeUnset)"

definition demo_claimed :: rt_state where
  "demo_claimed = demo_ingested\<lparr>rt_db := snd (claim_work TxOk demo_work demo_run_id 1 (rt_db demo_ingested)),
     rt_claims := [demo_claim], rt_counter := 1\<rparr>"

definition demo_run :: run_row where
  "demo_run = new_run_row demo_run_id demo_event RunModeNormal 1"

lemma demo_event_simps [simp]:
  "ev_event_id demo_event = event_id_for 0" "ev_status demo_event = EventStatusReceived"
  "ev_session_key demo_event = ''k''" "ev_session_id demo_event = session_id_for 0"
  "ev_payload demo_event = demo_payload" "ev_source demo_event = ''cli''"
  by (simp_all add: demo_event_def new_event_row_def demo_request_def)

lemma event_id_for_not_Nil [simp]: "event_id_for t \<noteq> []"
  by (simp add: event_id_for_def)

lemma demo_claim_tx:
  "claim_event_tx (event_id_for 0) demo_run_id 1 (rt_db demo_ingested) =
     Inr (claimed_context demo_event demo_run_id RunModeNormal,
          (rt_db demo_ingested)\<lparr>db_runs := [demo_run],
             db_events := [(claim_event_row demo_run_id 1 demo_event)\<lparr>ev_run_mode := RunModeNormal\<rparr>]\<rparr>)"
  by (simp add: claim_event_tx_def demo_ingested_tables claimable_def has_started_run_def Let_def
      require_row_def insert_row_def claim_run_mode_def is_no_reply_payload_def demo_payload_def
      demo_run_def claim_event_row_def)

lemma demo_claim_work:
  "claim_work TxOk demo_work demo_run_id 1 (rt_db demo_ingested) =
     (Inr (Some demo_claim), rt_db demo_claimed)"
  "cc_event demo_claim = cc_event (claimed_context demo_event demo_run_id RunModeNormal)"
  "cc_run_id demo_claim = demo_run_id" "cc_session_key demo_claim = ''k''"
  "rt_db demo_claimed = (rt_db demo_ingested)\<lparr>db_runs := [demo_run],
     db_events := [(claim_event_row demo_run_id 1 demo_event)\<lparr>ev_run_mode := RunModeNormal\<rparr>]\<rparr>"
  by (simp_all add: demo_claim_def demo_claimed_def claim_work_def claim_event_def demo_work_def demo_claim_tx
      with_writer_tx_def claimed_context_def Let_def)

lemma demo_claim_step: "fenced_step demo_ingested Claim demo_claimed"
proof -
  have "rt_step demo_ingested Claim (demo_ingested\<lparr>rt_db := rt_db demo_claimed, rt_claims := [demo_claim],
      rt_counter := Suc (rt_counter demo_ingested)\<rparr>)"
    by (rule rt_claim [where flt = TxOk and w = demo_work and now = 1 and r = "Inr (Some demo_claim)"])
      (simp_all add: demo_claim_work demo_ingested_tables flip: demo_run_id_def)
  moreover have "demo_ingested\<lparr>rt_db := rt_db demo_claimed, rt_claims := [demo_claim],
      rt_counter := Suc (rt_counter demo_ingested)\<rparr> = demo_claimed"
    by (simp add: demo_claimed_def demo_ingested_tables)
  ultimately show ?thesis by (simp add: fenced_step_def)
qed

lemma demo_claimed_reachable: "fenced_reachable demo_claimed"
  by (rule fenced_reachable.fenced_step [OF demo_ingested_reachable demo_claim_step])

lemma demo_claimed_run:
  "demo_run \<in> set (db_runs (rt_db demo_claimed))" "rn_status demo_run = RunStatusStarted"
  "rn_event_id demo_run = event_id_for 0" "rn_run_id demo_run = demo_run_id" "rn_session_key demo_run = ''k''"
  by (simp_all add: demo_claim_work demo_run_def new_run_row_def)

text \<open>The end of the execution.\<close>

definition demo_command :: finalize_command where
  "demo_command = build_finalize 2 1 demo_claim demo_result None"

definition demo_done :: rt_state where
  "demo_done = demo_claimed\<lparr>rt_db := snd (finalize TxOk demo_command (rt_db demo_claimed)), rt_claims := []\<rparr>"

lemma trim_ok [simp]: "trim_space ''ok'' = ''ok''"
  by (rule trim_space_id) (auto simp: lead_space_def trail_space_def find_None_iff space_runes_def suffix_def)

lemma demo_command_simps:
  "fc_messages demo_command = []" "delivers demo_command" "fc_now demo_command = 2"
  "fc_event_id demo_command = event_id_for 0" "fc_run_id demo_command = demo_run_id"
  "fc_session_key demo_command = ''k''" "fc_event_status demo_command = EventStatusProcessed"
  by (simp_all add: demo_command_def build_finalize_claim build_finalize_status demo_result_def
      empty_execution_result_def delivers_def build_finalize_def Let_def demo_claim_work claimed_context_def)

lemma demo_done_outbox:
  "db_outbox (rt_db demo_done) = [new_outbox_row demo_command]"
  by (simp add: demo_done_def finalize_def with_writer_tx_def finalize_tx_def demo_command_simps Let_def
      insert_outbox_def require_row_def insert_row_def demo_claim_work demo_ingested_tables frame)

lemma demo_done_reachable: "fenced_reachable demo_done"
proof (rule fenced_reachable.fenced_step [OF demo_claimed_reachable, of Finalize])
  have "rt_step demo_claimed Finalize (demo_claimed\<lparr>rt_db := rt_db demo_done, rt_claims := remove1 demo_claim (rt_claims demo_claimed),
      rt_counter := rt_counter demo_claimed + length (er_output_messages demo_result)\<rparr>)"
    by (rule rt_finalize [where flt = TxOk and now = 2 and err = None
          and r = "fst (finalize TxOk demo_command (rt_db demo_claimed))"])
      (simp_all add: demo_claimed_def demo_done_def demo_command_def)
  moreover have "demo_claimed\<lparr>rt_db := rt_db demo_done, rt_claims := remove1 demo_claim (rt_claims demo_claimed),
      rt_counter := rt_counter demo_claimed + length (er_output_messages demo_result)\<rparr> = demo_done"
    by (simp add: demo_done_def demo_claimed_def demo_result_def empty_execution_result_def)
  ultimately show "fenced_step demo_claimed Finalize demo_done" by (simp add: fenced_step_def)
qed

section \<open>A lease that expires during the execution\<close>

text \<open>
  Recovery requeues the event while its execution is in flight, the event is claimed again, and both
  executions finalize: \<open>Finalize\<close> checks neither the event's status nor its run.
\<close>

definition late_event :: event_row where
  "late_event = requeue_event_row 3 ((claim_event_row demo_run_id 1 demo_event)\<lparr>ev_run_mode := RunModeNormal\<rparr>)"

definition late_recovered :: rt_state where
  "late_recovered = demo_claimed\<lparr>rt_db := (rt_db demo_claimed)\<lparr>db_runs := [expire_run_row 3 demo_run], db_events := [late_event]\<rparr>\<rparr>"

lemma late_recover:
  "recover_expired_processing None (\<lambda>_. TxOk) 1 3 (rt_db demo_claimed) =
     (([event_id_for 0], None), rt_db late_recovered)"
  by (simp add: recover_expired_processing_def expired_event_ids_def demo_claim_work processing_expired_def
      lease_text_def claim_event_row_def with_writer_tx_def recover_event_def late_recovered_def
      late_event_def demo_claimed_run Let_def demo_run_def new_run_row_def)

lemma late_recovered_reachable: "reachable late_recovered"
proof (rule reachable_step [OF fenced_is_reachable [OF demo_claimed_reachable], of RecoverProcessing])
  show "rt_step demo_claimed RecoverProcessing late_recovered"
    using rt_recover_processing [OF late_recover] by (simp add: late_recovered_def)
qed

definition late_run_id :: string where
  "late_run_id = run_id_for 4 2"

definition late_claim :: claim_context where
  "late_claim = (case claim_work TxOk demo_work late_run_id 4 (rt_db late_recovered) of
     (Inr (Some c), _) \<Rightarrow> c | _ \<Rightarrow> claimed_context demo_event [] RunModeUnset)"

definition late_claimed :: rt_state where
  "late_claimed = late_recovered\<lparr>rt_db := snd (claim_work TxOk demo_work late_run_id 4 (rt_db late_recovered)),
     rt_claims := [late_claim, demo_claim], rt_counter := 2\<rparr>"

lemma late_event_simps [simp]:
  "ev_event_id late_event = event_id_for 0" "ev_status late_event = EventStatusQueued"
  "ev_payload late_event = demo_payload" "ev_session_key late_event = ''k''"
  by (simp_all add: late_event_def requeue_event_row_def claim_event_row_def)

lemma run_ids_differ: "late_run_id \<noteq> demo_run_id"
  unfolding late_run_id_def demo_run_id_def run_id_for_def unix_nano_def
  by (simp add: show_int_def show_nat.simps digit_char_def)

lemma late_claim_tx:
  "claim_event_tx (event_id_for 0) late_run_id 4 (rt_db late_recovered) =
     Inr (claimed_context late_event late_run_id RunModeNormal,
          (rt_db late_recovered)\<lparr>db_runs := [expire_run_row 3 demo_run, new_run_row late_run_id late_event RunModeNormal 4],
             db_events := [(claim_event_row late_run_id 4 late_event)\<lparr>ev_run_mode := RunModeNormal\<rparr>]\<rparr>)"
  using run_ids_differ
  by (simp add: claim_event_tx_def late_recovered_def claimable_def has_started_run_def Let_def
      require_row_def insert_row_def claim_run_mode_def is_no_reply_payload_def demo_payload_def
      claim_event_row_def new_run_row_def demo_claimed_run)

lemma late_claim_work:
  "claim_work TxOk demo_work late_run_id 4 (rt_db late_recovered) = (Inr (Some late_claim), rt_db late_claimed)"
  "cc_event late_claim = cc_event (claimed_context late_event late_run_id RunModeNormal)"
  "cc_run_id late_claim = late_run_id" "cc_session_key late_claim = ''k''"
  "rt_db late_claimed = (rt_db late_recovered)\<lparr>db_runs := [expire_run_row 3 demo_run, new_run_row late_run_id late_event RunModeNormal 4],
     db_events := [(claim_event_row late_run_id 4 late_event)\<lparr>ev_run_mode := RunModeNormal\<rparr>]\<rparr>"
  by (simp_all add: late_claim_def late_claimed_def claim_work_def claim_event_def demo_work_def late_claim_tx
      with_writer_tx_def claimed_context_def Let_def)

lemma late_claimed_reachable: "reachable late_claimed"
proof (rule reachable_step [OF late_recovered_reachable, of Claim])
  have "run_id_for 4 (Suc (rt_counter late_recovered)) = late_run_id"
    by (simp add: late_recovered_def demo_claimed_def late_run_id_def numeral_2_eq_2)
  then have "claim_work TxOk demo_work (run_id_for 4 (Suc (rt_counter late_recovered))) 4 (rt_db late_recovered) =
      (Inr (Some late_claim), rt_db late_claimed)"
    by (simp only: late_claim_work(1))
  from rt_claim [OF this refl]
  have "rt_step late_recovered Claim (late_recovered\<lparr>rt_db := rt_db late_claimed, rt_claims := late_claim # rt_claims late_recovered,
      rt_counter := Suc (rt_counter late_recovered)\<rparr>)"
    by simp
  moreover have "late_recovered\<lparr>rt_db := rt_db late_claimed, rt_claims := late_claim # rt_claims late_recovered,
      rt_counter := Suc (rt_counter late_recovered)\<rparr> = late_claimed"
    by (simp add: late_claimed_def late_recovered_def demo_claimed_def)
  ultimately show "rt_step late_recovered Claim late_claimed" by simp
qed

definition late_command :: "time \<Rightarrow> claim_context \<Rightarrow> finalize_command" where
  "late_command now c = build_finalize now 2 c demo_result None"

definition late_first :: rt_state where
  "late_first = late_claimed\<lparr>rt_db := snd (finalize TxOk (late_command 5 demo_claim) (rt_db late_claimed)), rt_claims := [late_claim]\<rparr>"

definition late_both :: rt_state where
  "late_both = late_first\<lparr>rt_db := snd (finalize TxOk (late_command 6 late_claim) (rt_db late_first)), rt_claims := []\<rparr>"

lemma late_command_simps:
  "fc_messages (late_command now c) = []" "delivers (late_command now c)" "fc_now (late_command now c) = now"
  "fc_event_id (late_command now c) = event_id (cc_event c)"
  by (simp_all add: late_command_def build_finalize_claim build_finalize_status demo_result_def
      empty_execution_result_def delivers_def build_finalize_def Let_def)

lemma demo_claims_differ: "demo_claim \<noteq> late_claim"
  using run_ids_differ demo_claim_work(3) late_claim_work(3) by metis

lemma late_first_reachable: "reachable late_first"
proof (rule reachable_step [OF late_claimed_reachable, of Finalize])
  have "rt_step late_claimed Finalize (late_claimed\<lparr>rt_db := rt_db late_first, rt_claims := remove1 demo_claim (rt_claims late_claimed),
      rt_counter := rt_counter late_claimed + length (er_output_messages demo_result)\<rparr>)"
    by (rule rt_finalize [where flt = TxOk and now = 5 and err = None
          and r = "fst (finalize TxOk (late_command 5 demo_claim) (rt_db late_claimed))"])
      (simp_all add: late_claimed_def late_first_def late_command_def)
  moreover have "late_claimed\<lparr>rt_db := rt_db late_first, rt_claims := remove1 demo_claim (rt_claims late_claimed),
      rt_counter := rt_counter late_claimed + length (er_output_messages demo_result)\<rparr> = late_first"
    using demo_claims_differ
    by (simp add: late_first_def late_claimed_def demo_result_def empty_execution_result_def)
  ultimately show "rt_step late_claimed Finalize late_first" by simp
qed

lemma late_both_reachable: "reachable late_both"
proof (rule reachable_step [OF late_first_reachable, of Finalize])
  have "rt_step late_first Finalize (late_first\<lparr>rt_db := rt_db late_both, rt_claims := remove1 late_claim (rt_claims late_first),
      rt_counter := rt_counter late_first + length (er_output_messages demo_result)\<rparr>)"
    by (rule rt_finalize [where flt = TxOk and now = 6 and err = None
          and r = "fst (finalize TxOk (late_command 6 late_claim) (rt_db late_first))"])
      (simp_all add: late_first_def late_both_def late_command_def late_claimed_def)
  moreover have "late_first\<lparr>rt_db := rt_db late_both, rt_claims := remove1 late_claim (rt_claims late_first),
      rt_counter := rt_counter late_first + length (er_output_messages demo_result)\<rparr> = late_both"
    by (simp add: late_both_def late_first_def late_claimed_def demo_result_def empty_execution_result_def)
  ultimately show "rt_step late_first Finalize late_both" by simp
qed

lemma late_both_outbox:
  "db_outbox (rt_db late_both) = [new_outbox_row (late_command 5 demo_claim), new_outbox_row (late_command 6 late_claim)]"
proof -
  have f: "db_outbox (rt_db late_first) = [new_outbox_row (late_command 5 demo_claim)]"
    by (simp add: late_first_def finalize_def with_writer_tx_def finalize_tx_def late_command_simps Let_def
        insert_outbox_def require_row_def insert_row_def late_claim_work late_recovered_def demo_claim_work
        demo_ingested_tables frame)
  have "outbox_id_for 6 \<noteq> outbox_id_for 5" by (simp add: outbox_id_for_def unix_nano_def)
  then show ?thesis
    by (simp add: late_both_def finalize_def with_writer_tx_def finalize_tx_def late_command_simps Let_def
        insert_outbox_def require_row_def insert_row_def f frame new_outbox_row_def)
qed

section \<open>Data of the witnesses\<close>

definition demo_cron :: cron_job_config where
  "demo_cron = \<lparr> cron_name = ''a'', cron_conversation_id = ''c'', cron_channel_type = ''dm'',
     cron_participant_id = ''u'', cron_payload_type = ''cron_fire'', cron_payload_text = [], cron_interval = 60 * second \<rparr>"

definition demo_job :: job_row where
  "demo_job = cron_job_row ''t'' 0 demo_cron"

definition page_event :: "string \<Rightarrow> event_row" where
  "page_event i = demo_event\<lparr>ev_event_id := i\<rparr>"

definition page_db :: database where
  "page_db = empty_db\<lparr>db_events := [page_event ''a'', page_event ''b'']\<rparr>"

definition page_filter :: event_filter where
  "page_filter = \<lparr> ef_session_key = [], ef_status = [], ef_limit = 1, ef_cursor = None \<rparr>"

definition demo_persisted :: "(store_error + persist_result) \<times> database" where
  "demo_persisted = persist_event TxOk ''t'' ''k'' demo_request ''h'' 0 empty_db"

lemma year_ok_0 [simp]: "year_ok 0"
  by (simp add: year_ok_def year_of_secs_def civil_of_days_def year_of_days_def epoch_days_def days_before_year_def Let_def)

end
