(* ===== verification/Http_Pages.thy ===== *)
theory Http_Pages
  imports Http_Query Scenario
begin

text \<open>
  What a client of the read side can rely on: a cursor that was handed out is read back as it was, a
  limit the handlers accept is one of 1 to 200, and following the cursors lists every row that
  matches, once, in order.
\<close>

section \<open>Cursors survive the way to the client and back\<close>

definition field_ok :: "cursor_fields \<Rightarrow> bool" where
  "field_ok names \<longleftrightarrow> valid_text (fst names) \<and> valid_text (snd names) \<and>
     \<not> same_field (fst names) ''v'' \<and> \<not> same_field (snd names) ''v'' \<and> \<not> same_field (snd names) (fst names)"

lemma ascii_runes: "list_all (\<lambda>c. byte c < 0x80) s \<Longrightarrow> runes s = map byte s"
proof (induction s)
  case (Cons c s)
  then have "decode_rune (c # s) = (byte c, 1)"
    by (cases s rule: remdups_adj.cases; cases "tl (tl s)"; cases "tl (tl (tl s))") (auto simp: decode_rune_def)
  with Cons show ?case by (subst runes.simps) simp
qed simp

lemma ascii_valid_text: "list_all (\<lambda>c. byte c < 0x80) s \<Longrightarrow> valid_text s"
proof -
  assume a: "list_all (\<lambda>c. byte c < 0x80) s"
  then have "string_of_runes (map byte s) = s"
    by (induction s) (simp_all add: encode_rune_ascii)
  with ascii_runes [OF a] show ?thesis by (simp add: valid_text_def)
qed

lemma cursor_fields_ascii:
  "list_all (\<lambda>(a, b). list_all (\<lambda>c. byte c < 0x80) a \<and> list_all (\<lambda>c. byte c < 0x80) b \<and>
     map fold_rune (map byte a) \<noteq> [86] \<and> map fold_rune (map byte b) \<noteq> [86] \<and>
     map fold_rune (map byte b) \<noteq> map fold_rune (map byte a)) [event_cursor, run_cursor, session_cursor, message_cursor]"
  by (simp add: event_cursor_def run_cursor_def session_cursor_def message_cursor_def fold_rune_def)

lemma cursor_fields_ok: "names \<in> {event_cursor, run_cursor, session_cursor, message_cursor} \<Longrightarrow> field_ok names"
proof -
  assume "names \<in> {event_cursor, run_cursor, session_cursor, message_cursor}"
  then have "names \<in> set [event_cursor, run_cursor, session_cursor, message_cursor]" by simp
  from cursor_fields_ascii [unfolded list_all_iff [of _ "[event_cursor, run_cursor, session_cursor, message_cursor]"], THEN bspec, OF this]
  have n: "list_all (\<lambda>c. byte c < 0x80) (fst names)" "list_all (\<lambda>c. byte c < 0x80) (snd names)"
    "map fold_rune (map byte (fst names)) \<noteq> [86]" "map fold_rune (map byte (snd names)) \<noteq> [86]"
    "map fold_rune (map byte (snd names)) \<noteq> map fold_rune (map byte (fst names))"
    by (cases names; simp)+
  have "map fold_rune (runes ''v'') = [86]" by (subst ascii_runes) (simp_all add: fold_rune_def)
  then show ?thesis
    using n(3-5) by (simp add: field_ok_def same_field_def ascii_valid_text n(1,2) ascii_runes)
qed

definition cursor_ok :: "page_cursor \<Rightarrow> bool" where
  "cursor_ok c \<longleftrightarrow> - (2 ^ 63) \<le> pc_v c \<and> pc_v c < 2 ^ 63 \<and> valid_text (pc_last_time c) \<and> valid_text (pc_last_id c)"

lemma parse_marshal_cursor:
  assumes "field_ok names" "cursor_ok c"
  shows "json_parse (marshal_cursor names c) = Some (VObject
    [(''v'', VNumber (show_int (pc_v c))), (fst names, VString (pc_last_time c)), (snd names, VString (pc_last_id c))])"
proof -
  note ok = assms [unfolded field_ok_def cursor_ok_def]
  have v: "valid_text ''v''" by (rule ascii_valid_text) simp
  define m3 where "m3 = json_string (snd names) @ CHR '':'' # json_string (pc_last_id c) @ ''}''"
  define m2 where "m2 = json_string (fst names) @ CHR '':'' # json_string (pc_last_time c) @ CHR '','' # m3"
  define m1 where "m1 = json_string ''v'' @ CHR '':'' # show_int (pc_v c) @ CHR '','' # m2"
  have mt: "marshal_cursor names c = CHR ''{'' # m1"
    by (simp add: marshal_cursor_def m1_def m2_def m3_def)
  have p3: "parse_members (Suc (Suc k)) d m3 = Some ([(snd names, VString (pc_last_id c))], [])" for k d
    unfolding m3_def
    by (subst parse_members_step [OF _ parse_value_string]) (use ok in simp_all)
  have p2: "parse_members (Suc (Suc (Suc k))) d m2 =
      Some ([(fst names, VString (pc_last_time c)), (snd names, VString (pc_last_id c))], [])" for k d
    unfolding m2_def
    by (subst parse_members_step [OF _ parse_value_string]) (use ok p3 in simp_all)
  have p1: "parse_members (Suc (Suc (Suc (Suc k)))) d m1 = Some ([(''v'', VNumber (show_int (pc_v c))),
      (fst names, VString (pc_last_time c)), (snd names, VString (pc_last_id c))], [])" for k d
    unfolding m1_def
    by (subst parse_members_step [OF v parse_value_number(1)]) (use p2 in \<open>simp_all add: parse_value_number(2)\<close>)
  obtain r where m1: "m1 = json_quote # r" by (simp add: m1_def json_string_def)
  have "\<not> prefix ''}'' (skip_ws m1)" unfolding m1 skip_ws_quote by (simp add: json_quote_def)
  moreover obtain k where k: "json_fuel (CHR ''{'' # m1) = Suc (Suc (Suc (Suc (Suc k))))"
    unfolding m1 json_fuel_def by (metis add_2_eq_Suc' length_Cons mult_Suc_right add_Suc_right add_Suc mult_2 add_Suc_shift add_2_eq_Suc)
  ultimately show ?thesis
    unfolding json_parse_def mt k
    using p1 by (simp add: json_quote_def max_nesting_depth_def skip_ws_def)
qed

lemma unmarshal_marshal_cursor:
  assumes "field_ok names" "cursor_ok c"
  shows "unmarshal_cursor names (marshal_cursor names c) = Some c"
  using parse_marshal_cursor [OF assms] assms
  by (simp add: unmarshal_cursor_def set_cursor_field_def field_ok_def cursor_ok_def zero_cursor_def
      parse_int64_show_int same_field_def)

lemma decode_encode_cursor:
  assumes "field_ok names" "cursor_ok c"
  shows "decode_cursor names (encode_cursor names c) = Inr c"
proof -
  have "base64_encode (CHR ''{'' # s) \<noteq> []" for s
    by (cases s; cases "tl s") (auto simp: base64_encode_def)
  then have "encode_cursor names c \<noteq> []" by (simp add: encode_cursor_def marshal_cursor_def)
  then show ?thesis
    by (simp add: decode_cursor_def encode_cursor_def base64_decode_encode unmarshal_marshal_cursor [OF assms])
qed

section \<open>Following the cursors\<close>

text \<open>
  A client that asks for page after page: it starts without a cursor, sends back the cursor it was
  given and stops when there is none; None when an answer is no page or the fuel is used up.
\<close>

fun follow_pages :: "nat \<Rightarrow> (string \<Rightarrow> ('i list \<times> string option) option) \<Rightarrow> string \<Rightarrow> 'i list option" where
  "follow_pages 0 serve c = None"
| "follow_pages (Suc n) serve c =
     (case serve c of
        None \<Rightarrow> None
      | Some (items, None) \<Rightarrow> Some items
      | Some (items, Some c') \<Rightarrow> map_option ((@) items) (follow_pages n serve c'))"

lemma follow_pages_all:
  assumes serve: "\<And>i. i \<le> length xs \<Longrightarrow>
      serve (cur i) = Some (map item (take n (drop i xs)), if n < length xs - i then Some (cur (i + n)) else None)"
    and n: "0 < n"
  shows "i \<le> length xs \<Longrightarrow> length xs - i < fuel \<Longrightarrow> follow_pages fuel serve (cur i) = Some (map item (drop i xs))"
proof (induction fuel arbitrary: i)
  case (Suc fuel)
  show ?case
  proof (cases "n < length xs - i")
    case True
    then have "follow_pages fuel serve (cur (i + n)) = Some (map item (drop (i + n) xs))"
      using Suc n by (intro Suc.IH) auto
    moreover have "take n (drop i xs) @ drop (i + n) xs = drop i xs"
      by (metis append_take_drop_id drop_drop add.commute)
    then have "map item (take n (drop i xs)) @ map item (drop (i + n) xs) = map item (drop i xs)"
      by (metis map_append)
    ultimately show ?thesis
      using True serve [OF Suc.prems(1)] by simp
  next
    case False
    then show ?thesis using serve [OF Suc.prems(1)] by simp
  qed
qed simp

definition page_query :: "(string \<Rightarrow> string) \<Rightarrow> string \<Rightarrow> http_request" where
  "page_query get cursor =
     \<lparr> hq_path_value = (\<lambda>_. []), hq_query_get = get(''cursor'' := cursor) \<rparr>"

lemma page_query_simps [simp]:
  "hq_query_get (page_query get cursor) ''cursor'' = cursor"
  "n \<noteq> ''cursor'' \<Longrightarrow> hq_query_get (page_query get cursor) n = get n"
  by (simp_all add: page_query_def)

lemma parse_page_limit_range: "parse_page_limit printable raw = Inr n \<Longrightarrow> 1 \<le> n \<and> n \<le> 200"
  by (auto simp: parse_page_limit_def default_page_limit_def max_page_limit_def split: if_splits option.splits)

lemma pad_digits: "c \<in> set (pad w n) \<Longrightarrow> is_digit c"
  by (auto simp: pad_def set_show_nat) (simp add: is_digit_def)

lemma strip_zeros_subset: "set (strip_zeros s) \<subseteq> set s"
  by (auto simp: strip_zeros_def dest: set_dropWhileD)

lemma time_text_ascii: "list_all (\<lambda>c. byte c < 0x80) (time_text t)"
proof -
  have d: "list_all (\<lambda>c. byte c < 0x80) (pad w n)" for w n
    using pad_digits [of _ w n] by (fastforce simp: list_all_iff is_digit_def)
  then have "list_all (\<lambda>c. byte c < 0x80) (pad_year y)" for y by (simp add: pad_year_def)
  moreover have "list_all (\<lambda>c. byte c < 0x80) (strip_zeros (pad w n))" for w n
    using d [of w n] strip_zeros_subset by (auto simp: list_all_iff)
  ultimately show ?thesis
    using d by (simp add: time_text_def stamp_text_def frac_text_def Let_def split: prod.splits)
qed

definition row_cursor :: "cursor_fields \<Rightarrow> string \<times> string \<Rightarrow> string" where
  "row_cursor names k = encode_cursor names
     \<lparr> pc_v = 1, pc_last_time = time_text (must_parse_time (fst k)), pc_last_id = snd k \<rparr>"

text \<open>The cursor of a row selects what \<open>before_cursor\<close> needs.\<close>

lemma page_request_row_cursor:
  assumes "field_ok names" "anchorable k" "valid_text (snd k)"
    and "parse_page_limit printable (hq_query_get r ''limit'') = Inr limit"
    and "hq_query_get r ''cursor'' = row_cursor names k"
  shows "page_request printable names r = Inr (limit, Some \<lparr> ca_time = must_parse_time (fst k), ca_id = snd k \<rparr>)"
proof -
  obtain t where t: "fst k = time_text t" "year_ok t" using assms(2) by (auto simp: anchorable_def)
  have mp: "must_parse_time (fst k) = t" using t by (simp add: must_parse_time_text)
  define c where "c = \<lparr> pc_v = 1, pc_last_time = time_text t, pc_last_id = snd k \<rparr>"
  have "cursor_ok c"
    using assms(3) by (simp add: c_def cursor_ok_def ascii_valid_text time_text_ascii)
  from decode_encode_cursor [OF assms(1) this]
  have "decode_cursor names (row_cursor names k) = Inr c" by (simp add: row_cursor_def mp c_def)
  moreover have "cursor_anchor_of c = Inr (Some \<lparr> ca_time = t, ca_id = snd k \<rparr>)"
    using time_text_not_blank [OF t(2)] by (auto simp: cursor_anchor_of_def c_def parse_time_text t(2))
  ultimately show ?thesis using assms(4,5) mp by (simp add: page_request_def)
qed

lemma page_request_first:
  assumes "parse_page_limit printable (hq_query_get r ''limit'') = Inr limit" "hq_query_get r ''cursor'' = []"
  shows "page_request printable names r = Inr (limit, None)"
  using assms by (simp add: page_request_def decode_cursor_def cursor_anchor_of_def zero_cursor_def)

definition event_page_of :: "query_body http_response \<Rightarrow> (event_list_item list \<times> string option) option" where
  "event_page_of r =
     (case hr_body r of EventsBody items nxt \<Rightarrow> if hr_status r = 200 then Some (items, nxt) else None | _ \<Rightarrow> None)"

definition event_page_filter :: "(string \<Rightarrow> string) \<Rightarrow> int \<Rightarrow> event_filter" where
  "event_page_filter get limit = \<lparr> ef_session_key = get ''session_key'', ef_status = get ''status'',
     ef_limit = limit, ef_cursor = None \<rparr>"

lemma handle_list_events_page:
  assumes "page_request printable event_cursor (page_query get c) = Inr (limit, a)"
  shows "event_page_of (handle_list_events printable (database_query d now) (page_query get c)) =
    (let (items, nxt) = list_events d ((event_page_filter get limit)\<lparr>ef_cursor := a\<rparr>)
     in Some (map to_event_list_item items, next_cursor event_cursor nxt))"
  using assms by (simp add: handle_list_events_def database_query_def event_page_filter_def event_page_of_def
      write_json_def split: prod.splits)

lemma events_matching_first:
  "events_matching d ((event_page_filter get limit)\<lparr>ef_cursor := None\<rparr>) =
     desc_order event_key (filter (event_selected (event_page_filter get limit)) (db_events d))"
  by (simp add: events_matching_def matching_def event_page_filter_def)

lemma events_matching_after:
  assumes "distinct (map ev_event_id (db_events d))" "\<forall>r \<in> set (db_events d). anchorable (event_key r)"
    and "i < length (events_matching d f)" "ef_cursor f = None"
  shows "events_matching d (f\<lparr>ef_cursor := Some (event_anchor (scan_event (events_matching d f ! i)))\<rparr>) =
    drop (Suc i) (events_matching d f)"
proof -
  have "distinct (map event_key (db_events d))"
    using assms(1) by (simp add: event_key_def distinct_map inj_on_def)
  from event_listing.matching_next [OF this assms(2), of i "event_selected f" None] assms(3,4)
  show ?thesis by (simp add: events_matching_def)
qed


lemma event_pages_step:
  assumes ok: "distinct (map ev_event_id (db_events d))"
      "list_all (\<lambda>r. anchorable (event_key r) \<and> valid_text (ev_event_id r)) (db_events d)"
    and limit: "parse_page_limit printable (get ''limit'') = Inr limit"
  defines "xs \<equiv> desc_order event_key (filter (event_selected (event_page_filter get limit)) (db_events d))"
  defines "cur \<equiv> \<lambda>i. if i = 0 then [] else row_cursor event_cursor (event_key (xs ! (i - 1)))"
  assumes i: "i \<le> length xs"
  shows "event_page_of (handle_list_events printable (database_query d now) (page_query get (cur i))) =
    Some (map (to_event_list_item \<circ> scan_event) (take (nat limit) (drop i xs)),
      if nat limit < length xs - i then Some (cur (i + nat limit)) else None)"
proof -
  have n: "0 < limit" using parse_page_limit_range [OF limit] by simp
  have rows: "\<forall>r \<in> set (db_events d). anchorable (event_key r)" using ok(2) by (auto simp: list_all_iff)
  have row: "anchorable (event_key (xs ! j)) \<and> valid_text (snd (event_key (xs ! j)))" if "j < length xs" for j
    using nth_mem [OF that] ok(2) by (auto simp: xs_def list_all_iff event_key_def)
  define f where "f = event_page_filter get limit"
  have m: "events_matching d f = xs" "ef_cursor f = None"
    using events_matching_first [of d get limit] by (simp_all add: f_def xs_def event_page_filter_def)
  define a where "a = (if i = 0 then None else Some (event_anchor (scan_event (xs ! (i - 1)))))"
  have req: "page_request printable event_cursor (page_query get (cur i)) = Inr (limit, a)"
  proof (cases "i = 0")
    case True
    then show ?thesis by (simp add: a_def cur_def page_request_first limit)
  next
    case False
    then have "i - 1 < length xs" using i by simp
    from row [OF this] False show ?thesis
      by (subst page_request_row_cursor [of _ "event_key (xs ! (i - 1))"])
        (auto simp: cursor_fields_ok limit cur_def a_def event_anchor_def scan_event_def event_key_def)
  qed
  have after: "events_matching d (f\<lparr>ef_cursor := a\<rparr>) = drop i xs"
    using events_matching_after [OF ok(1) rows, of "i - 1" f] m i by (cases i) (auto simp: a_def f_def xs_def events_matching_first)
  have "next_cursor event_cursor (Some (event_anchor (scan_event (drop i xs ! (nat limit - 1))))) = Some (cur (i + nat limit))"
    if "nat limit < length xs - i"
    using that n by (simp add: next_cursor_def cur_def row_cursor_def event_anchor_def scan_event_def event_key_def Suc_diff_1)
  moreover have "page_size (ef_limit (f\<lparr>ef_cursor := a\<rparr>)) = nat limit"
    using n by (simp add: page_size_def f_def event_page_filter_def)
  ultimately show ?thesis
    unfolding handle_list_events_page [OF req] f_def [symmetric] list_events_eq after
    by (simp add: next_cursor_def)
qed


definition demo_page_query :: "string \<Rightarrow> string" where
  "demo_page_query k = (if k = ''limit'' then ''1'' else [])"


end
