(* ===== verification/Kernel_Facts.thy ===== *)
theory Kernel_Facts
  imports Kernel Runtime_System Queries Scenario
begin

text \<open>
  The kernel against the contract of its store: whatever the executor does, a processed work item
  publishes a lifecycle that ends with one terminal event, and that event tells what the store
  holds.  The database is the store.
\<close>

section \<open>The lifecycle of a work item\<close>

text \<open>
  The events of a processed claim: claimed, executing, what the executor publishes, finalizing, and
  the terminal event \<open>t\<close>, which carries the error or the record of the store.
\<close>

definition lifecycle :: "executor \<Rightarrow> process_clock \<Rightarrow> claim_context \<Rightarrow> runtime_event \<Rightarrow> process_result \<Rightarrow> bool" where
  "lifecycle ex clk c t pr \<longleftrightarrow>
    pz_events pr = [kernel_event RuntimeEventClaimed c ''processing'' ''claimed'' (clk_claim clk),
                    kernel_event RuntimeEventExecuting c ''processing'' ''running'' (clk_claim clk)]
      @ snd (kernel_execute ex c)
      @ [kernel_event RuntimeEventFinalizeStarted c ''processing'' ''finalizing'' (clk_finalize clk), t] \<and>
    is_terminal t \<and> re_event_id t = event_id (cc_event c) \<and>
    (pz_error pr \<noteq> None \<longrightarrow> re_kind t = RuntimeEventFailed) \<and>
    (pz_error pr = None \<longrightarrow> (\<forall>rec. re_event_record t = Some rec \<longrightarrow>
       rec_event_id rec = event_id (cc_event c) \<and> rec_run_id rec = cc_run_id c \<and> event_terminal (rec_status rec) \<and>
       re_kind t = (if rec_status rec = EventStatusFailed then RuntimeEventFailed else RuntimeEventCompleted)))"

section \<open>The contract of the facts\<close>

text \<open>
  \<open>owns s c\<close>: the run of the claim exists.  A claim keeps the run id it was given; a finalized
  event reads back with the status and the run of the command.
\<close>

locale facts_contract =
  fixes fx :: "'s facts" and inv :: "'s \<Rightarrow> bool" and owns :: "'s \<Rightarrow> claim_context \<Rightarrow> bool"
  assumes claim_law: "inv s \<Longrightarrow> fx_claim_work fx w rid now s = (r, s') \<Longrightarrow>
      inv s' \<and> (case r of Inr (Some c) \<Rightarrow> cc_run_id c = rid \<and> owns s' c | _ \<Rightarrow> True)"
    and finalize_law: "inv s \<Longrightarrow> owns s c \<Longrightarrow>
      fx_finalize fx (build_finalize now n c result err) s = (fr, s') \<Longrightarrow>
      inv s' \<and> (case fr of
         Some _ \<Rightarrow> s' = s
       | None \<Rightarrow> (\<forall>rec. fx_event_record fx (event_id (cc_event c)) s' = Some rec \<longrightarrow>
           rec_event_id rec = event_id (cc_event c) \<and> rec_run_id rec = cc_run_id c \<and>
           rec_status rec = fc_event_status (build_finalize now n c result err)))"
begin

lemma process_claimed_outcome:
  assumes "inv s" "owns s c" "process_claimed fx ex clk n c s = (pr, s')"
  shows "inv s' \<and> (\<exists>t. lifecycle ex clk c t pr \<and>
    (pz_error pr = None \<longrightarrow> re_event_record t = fx_event_record fx (event_id (cc_event c)) s'))"
proof -
  obtain result run_err evs where ex: "kernel_execute ex c = ((result, run_err), evs)" by (metis prod.collapse)
  define cmd where "cmd = build_finalize (clk_finalize clk) n c result run_err"
  obtain fr s1 where f: "fx_finalize fx cmd s = (fr, s1)" by fastforce
  note law = finalize_law [OF assms(1,2) f [unfolded cmd_def], folded cmd_def]
  have now: "fc_now cmd = clk_finalize clk" "event_terminal (fc_event_status cmd)"
    by (simp_all add: cmd_def build_finalize_claim build_finalize_terminal)
  show ?thesis
  proof (cases fr)
    case (Some e)
    then show ?thesis using assms(3) f law
      by (auto simp: lifecycle_def process_claimed_def ex cmd_def [symmetric] now(1) Let_def is_terminal_def kernel_event_def)
  next
    case None
    then show ?thesis using assms(3) f law now
      by (auto simp: lifecycle_def process_claimed_def ex cmd_def [symmetric] Let_def is_terminal_def kernel_event_def terminal_kind_def)
  qed
qed

lemma process_outcome:
  assumes "inv s" "process (Some fx) (Some ex) clk n w s = (pr, s')"
  shows "inv s' \<and> (pz_events pr = [] \<or>
    (\<exists>c t. cc_run_id c = run_id_for (clk_claim clk) (Suc n) \<and> lifecycle ex clk c t pr \<and>
      (pz_error pr = None \<longrightarrow> re_event_record t = fx_event_record fx (event_id (cc_event c)) s')))"
proof -
  let ?rid = "run_id_for (clk_claim clk) (Suc n)"
  obtain r s1 where c: "fx_claim_work fx w ?rid (clk_claim clk) s = (r, s1)" by fastforce
  note law = claim_law [OF assms(1) c]
  show ?thesis
  proof (cases "\<exists>cl. r = Inr (Some cl)")
    case True
    then obtain cl where cl: "r = Inr (Some cl)" by blast
    have rid: "cc_run_id cl = ?rid" "owns s1 cl" "inv s1" using law cl by auto
    have "?rid \<noteq> []" by (simp add: run_id_for_def)
    then have "process_claimed fx ex clk (Suc n) cl s1 = (pr, s')"
      using assms(2) c cl rid(1) by (simp add: process_def kernel_claim_def Let_def)
    then obtain t where "inv s'" "lifecycle ex clk cl t pr"
      "pz_error pr = None \<Longrightarrow> re_event_record t = fx_event_record fx (event_id (cc_event cl)) s'"
      using process_claimed_outcome [OF rid(3,2)] by blast
    then show ?thesis using rid(1) by (intro conjI disjI2 exI [of _ cl] exI [of _ t] impI) assumption+
  next
    case False
    then show ?thesis using assms(2) c law
      by (auto simp: process_def kernel_claim_def Let_def split: sum.splits option.splits)
  qed
qed

end

section \<open>The database as the store of the kernel\<close>

definition db_facts :: "(string \<Rightarrow> tx_fault) \<Rightarrow> (store_error \<Rightarrow> string) \<Rightarrow> database facts" where
  "db_facts flt etext = \<lparr>
     fx_claim_work = (\<lambda>w rid now d. map_prod (with_text etext) id (claim_work (flt ''claim'') w rid now d)),
     fx_finalize = (\<lambda>cmd d. map_prod (error_of etext) id (finalize (flt ''finalize'') cmd d)),
     fx_event_record = (\<lambda>i d. if flt ''read'' = TxOk then get_event_record d i else None) \<rparr>"

lemma claim_event_run_id:
  "claim_event flt eid run_id now d = (Inr (Some c), d') \<Longrightarrow> cc_run_id c = run_id"
  by (auto simp: claim_event_def claim_event_tx_def Let_def claimed_context_def
      split: sum.splits prod.splits store_error.splits option.splits if_splits
      dest!: with_writer_tx_InrD and_then_InrD)

lemma claim_work_run_id:
  assumes "claim_work flt w run_id now d = (r, d')"
  shows "r = Inr (Some c) \<Longrightarrow> cc_run_id c = run_id"
proof -
  obtain r0 d0 where r0: "claim_event flt (wi_event_id w) run_id now d = (r0, d0)" by fastforce
  show "r = Inr (Some c) \<Longrightarrow> cc_run_id c = run_id"
    using assms r0 claim_event_run_id by (auto simp: claim_work_def Let_def split: sum.splits option.splits)
qed

lemma finalized_record:
  assumes "finalize_tx cmd d = Inr ((), d')" "get_event_record d' (fc_event_id cmd) = Some rec"
  shows "rec_event_id rec = fc_event_id cmd \<and> rec_run_id rec = fc_run_id cmd \<and> rec_status rec = fc_event_status cmd"
proof -
  obtain e where e: "find_row ev_event_id (fc_event_id cmd) (db_events d') = Some e" "rec = scan_event e"
    using assms(2) by (auto simp: get_event_record_def)
  have "db_events d' = update_where (\<lambda>e. ev_event_id e = fc_event_id cmd) (finalize_event_row cmd) (db_events d)"
    by (rule finalize_tx_InrD [OF assms(1)]) (simp add: frame)
  then obtain e0 where "e = finalize_event_row cmd e0" "ev_event_id e = fc_event_id cmd"
    using e(1) find_row_SomeD [OF e(1)] by (auto simp: set_update_where)
  then show ?thesis using e(2) by (auto simp: scan_event_def)
qed

interpretation db_kernel: facts_contract "db_facts flt etext" db_ok "\<lambda>d c. claim_known c d" for flt etext
proof (unfold_locales, goal_cases)
  case (1 s w rid now r s')
  then obtain a where a: "claim_work (flt ''claim'') w rid now s = (a, s')" "r = with_text etext a"
    by (auto simp: db_facts_def dest!: map_prod_eqD)
  show ?case
  proof (cases "\<exists>c. a = Inr (Some c)")
    case True
    then obtain c where c: "a = Inr (Some c)" by blast
    show ?thesis using claim_work_ok [OF a(1) 1(1)] claim_work_run_keys(2) [OF a(1) c] claim_work_run_id [OF a(1) c] a(2) c
      by (simp add: with_text_def)
  next
    case False
    then show ?thesis using claim_work_ok [OF a(1) 1(1)] a(2)
      by (auto simp: with_text_def split: sum.splits option.splits)
  qed
next
  case (2 s c now n result err r s')
  let ?cmd = "build_finalize now n c result err"
  obtain a where a: "finalize (flt ''finalize'') ?cmd s = (a, s')" "r = error_of etext a"
    using 2(3) by (auto simp: db_facts_def dest!: map_prod_eqD)
  note ok = finalize_ok [OF a(1) 2(1) command_ok_build [OF 2(2)]]
  show ?case
  proof (cases a)
    case (Inl e)
    then show ?thesis using ok a with_writer_tx_Inl by (auto simp: error_of_def finalize_def)
  next
    case (Inr u)
    then have "finalize_tx ?cmd s = Inr ((), s')" using a(1) by (auto simp: finalize_def dest: with_writer_tx_InrD)
    then show ?thesis using ok a(2) Inr finalized_record [of ?cmd s s']
      by (auto simp: error_of_def db_facts_def build_finalize_claim split: if_splits)
  qed
qed


definition demo_executor :: executor where
  "demo_executor c = ExecReturns demo_result None []"


end
