(* ===== verification/Event_Loop.thy ===== *)
theory Event_Loop
  imports Kernel_Facts Gateway
begin

text \<open>
  \<open>internal/runtime/eventloop.go\<close>: a bounded queue of work items, filled by the gateway and the
  workers without waiting and refilled from the store by the repump; one goroutine takes an item at
  a time, prepares it for its lane and has it processed.
\<close>

section \<open>The queue\<close>

record event_loop =
  el_queue :: "work_item list"
  el_capacity :: nat

definition new_event_loop :: "int \<Rightarrow> event_loop" where
  "new_event_loop queue_cap = \<lparr> el_queue = [], el_capacity = (if queue_cap \<le> 0 then 1024 else nat queue_cap) \<rparr>"

definition try_enqueue_work :: "work_item \<Rightarrow> event_loop \<Rightarrow> bool \<times> event_loop" where
  "try_enqueue_work w l =
     (if length (el_queue l) < el_capacity l then (True, l\<lparr>el_queue := el_queue l @ [w]\<rparr>) else (False, l))"

definition event_work :: "string \<Rightarrow> work_item" where
  "event_work eid = \<lparr> wi_event_id = eid, wi_session_key = [], wi_lane_key = [], wi_source = [], wi_channel = [],
     wi_metadata = [] \<rparr>"

definition try_enqueue :: "string \<Rightarrow> event_loop \<Rightarrow> bool \<times> event_loop" where
  "try_enqueue eid = try_enqueue_work (event_work eid)"

definition inbound_depth :: "event_loop \<Rightarrow> nat" where
  "inbound_depth l = length (el_queue l)"

section \<open>The repump\<close>

text \<open>The loop over the runnable items, which stops at the first that does not fit.\<close>

fun repump_items :: "work_item list \<Rightarrow> nat \<Rightarrow> event_loop \<Rightarrow> nat \<times> event_loop" where
  "repump_items [] enqueued l = (enqueued, l)"
| "repump_items (w # ws) enqueued l =
     (case try_enqueue_work w l of
        (False, l') \<Rightarrow> (enqueued, l')
      | (True, l') \<Rightarrow> repump_items ws (enqueued + 1) l')"

text \<open>One tick; \<open>list\<close> is \<open>ListRunnable\<close>, absent when the loop has no facts.\<close>

definition repump_tick :: "(int \<Rightarrow> string + work_item list) option \<Rightarrow> event_loop \<Rightarrow> event_loop" where
  "repump_tick list_work l =
     (case list_work of
        None \<Rightarrow> l
      | Some ls \<Rightarrow>
          (case ls (int (el_capacity l)) of
             Inl e \<Rightarrow> l
           | Inr items \<Rightarrow> if items = [] then l else snd (repump_items items 0 l)))"

section \<open>Processing\<close>

text \<open>\<open>view\<close> is \<open>GetEventRecord\<close>: None when there is no view, an error or no such event.\<close>

definition prepare_work :: "(string \<Rightarrow> event_record option) \<Rightarrow> work_item \<Rightarrow> work_item" where
  "prepare_work view w =
     (let w1 = (if wi_session_key w = [] \<and> wi_event_id w \<noteq> []
                then (case view (wi_event_id w) of None \<Rightarrow> w | Some rec \<Rightarrow> w\<lparr>wi_session_key := rec_session_key rec\<rparr>)
                else w)
      in if wi_lane_key w1 = [] then w1\<lparr>wi_lane_key := lane_resolve w1\<rparr> else w1)"

text \<open>\<open>processWork\<close>; \<open>leased\<close> says whether the lane was acquired before the timeout.\<close>

definition process_work ::
  "'s facts option \<Rightarrow> executor option \<Rightarrow> (work_item \<Rightarrow> bool) \<Rightarrow> process_clock \<Rightarrow> nat \<Rightarrow> work_item \<Rightarrow> 's \<Rightarrow>
     process_result option \<times> 's" where
  "process_work facts ex leased clk n w s =
     (let w1 = prepare_work (\<lambda>i. case facts of None \<Rightarrow> None | Some fx \<Rightarrow> fx_event_record fx i s) w in
      if leased w1 then (let (r, s') = process facts ex clk n w1 s in (Some r, s')) else (None, s))"

definition consume_step ::
  "'s facts option \<Rightarrow> executor option \<Rightarrow> (work_item \<Rightarrow> bool) \<Rightarrow> process_clock \<Rightarrow> nat \<Rightarrow> event_loop \<times> 's \<Rightarrow>
     event_loop \<times> 's" where
  "consume_step facts ex leased clk n ls =
     (case el_queue (fst ls) of
        [] \<Rightarrow> ls
      | w # ws \<Rightarrow> ((fst ls)\<lparr>el_queue := ws\<rparr>, snd (process_work facts ex leased clk n w (snd ls))))"

section \<open>Facts\<close>

lemma repump_items_spec:
  "repump_items ws n l =
     (n + length (take (el_capacity l - length (el_queue l)) ws),
      l\<lparr>el_queue := el_queue l @ take (el_capacity l - length (el_queue l)) ws\<rparr>)"
proof (induction ws arbitrary: n l)
  case (Cons w ws)
  show ?case
  proof (cases "length (el_queue l) < el_capacity l")
    case True
    then obtain k where k: "el_capacity l - length (el_queue l) = Suc k" by (metis Suc_diff_Suc)
    then have "el_capacity l - length (el_queue l @ [w]) = k" by simp
    then show ?thesis using True k Cons by (simp add: try_enqueue_work_def)
  next
    case False
    then show ?thesis by (simp add: try_enqueue_work_def)
  qed
qed simp

lemma try_enqueue_bounded:
  "try_enqueue_work w l = (ok, l') \<Longrightarrow> length (el_queue l) \<le> el_capacity l \<Longrightarrow>
     length (el_queue l') \<le> el_capacity l' \<and> el_capacity l' = el_capacity l"
  by (auto simp: try_enqueue_work_def split: if_splits)

lemma prepare_work_keeps: "wi_event_id (prepare_work view w) = wi_event_id w"
  by (simp add: prepare_work_def Let_def split: option.split)

text \<open>A prefix whose last character is in no space rune adds no space at the end.\<close>

lemma trail_space_append:
  assumes "\<forall>w \<in> set space_runes. c \<notin> set w" "trail_space t = None" "t \<noteq> []"
  shows "trail_space (p @ c # t) = None"
proof -
  have "\<not> suffix w (p @ c # t)" if w: "w \<in> set space_runes" for w
  proof
    assume "suffix w (p @ c # t)"
    then obtain u where "p @ c # t = u @ w" by (auto simp: suffix_def)
    then consider v where "t = v @ w" | "c \<in> set w" by (auto simp: append_eq_append_conv2 Cons_eq_append_conv)
    then show False
      using assms(1,2) w by cases (auto simp: trail_space_def find_None_iff suffix_def)
  qed
  then show ?thesis by (simp add: trail_space_def find_None_iff)
qed

lemma lane_resolve_session:
  assumes "trim_space key \<noteq> []" "wi_lane_key w = ''session:'' @ trim_space key"
  shows "lane_resolve w = ''session:'' @ trim_space key"
proof -
  have "trim_space (''session:'' @ trim_space key) = ''session:'' @ trim_space key"
  proof (rule trim_space_id)
    show "lead_space (''session:'' @ trim_space key) = None"
      by (auto simp: lead_space_def find_None_iff space_runes_def)
    show "trail_space (''session:'' @ trim_space key) = None"
      using trail_space_append [of "CHR '':''" "trim_space key" "''session''"] assms(1) by (auto simp: space_runes_def)
  qed
  then show ?thesis using assms(2) by (simp add: lane_resolve_def)
qed

text \<open>Items of one session are serialised on one lane, whoever enqueued them.\<close>

lemma prepare_work_lane:
  assumes "wi_session_key w = []" "wi_event_id w \<noteq> []" "wi_lane_key w = []"
    "view (wi_event_id w) = Some rec" "trim_space (rec_session_key rec) \<noteq> []"
  shows "lane_resolve (prepare_work view w) = ''session:'' @ trim_space (rec_session_key rec)"
proof -
  let ?k = "''session:'' @ trim_space (rec_session_key rec)"
  have "wi_lane_key (prepare_work view w) = ?k"
    using assms by (simp add: prepare_work_def lane_resolve_def)
  then show ?thesis by (rule lane_resolve_session [OF assms(5)])
qed

section \<open>No runnable event is forgotten\<close>

lemma repump_tick_queue:
  "el_queue (repump_tick (Some (\<lambda>lim. Inr (list_runnable lim d))) l) =
     el_queue l @ take (el_capacity l - length (el_queue l)) (list_runnable (int (el_capacity l)) d)"
  by (simp add: repump_tick_def repump_items_spec)

lemma list_runnable_all:
  assumes "e \<in> set (db_events d)" "event_runnable (ev_status e)" "0 < limit"
    "length (filter (\<lambda>e. event_runnable (ev_status e)) (db_events d)) \<le> nat limit"
  shows "ev_event_id e \<in> wi_event_id ` set (list_runnable limit d)"
    "length (list_runnable limit d) = length (filter (\<lambda>e. event_runnable (ev_status e)) (db_events d))"
  using assms by (auto simp: list_runnable_def limit_or_def event_runnable_def Let_def image_image)

text \<open>
  C24: When the queue has room for all runnable events, one repump puts a work item of each of
  them in the queue, which stays within its capacity: an event that was stored but could not be
  enqueued is not forgotten.
\<close>

theorem runnable_event_repumped:
  assumes "e \<in> set (db_events d)" "event_runnable (ev_status e)"
    and "length (el_queue l) + length (filter (\<lambda>e. event_runnable (ev_status e)) (db_events d)) \<le> el_capacity l"
  shows "ev_event_id e \<in> wi_event_id ` set (el_queue (repump_tick (Some (\<lambda>lim. Inr (list_runnable lim d))) l)) \<and>
    length (el_queue (repump_tick (Some (\<lambda>lim. Inr (list_runnable lim d))) l)) \<le> el_capacity l"
proof -
  have "e \<in> set (filter (\<lambda>e. event_runnable (ev_status e)) (db_events d))" using assms(1,2) by simp
  then have "0 < length (filter (\<lambda>e. event_runnable (ev_status e)) (db_events d))" by (rule length_pos_if_in_set)
  then have "(0::int) < int (el_capacity l)" using assms(3) by linarith
  from list_runnable_all [OF assms(1,2) this] assms(3) show ?thesis
    by (simp add: repump_tick_queue image_Un)
qed

theorem runnable_event_repumped_witness:
  "event_id_for 0 \<in> wi_event_id ` set (el_queue (repump_tick (Some (\<lambda>lim. Inr (list_runnable lim (rt_db demo_ingested)))) (new_event_loop 0)))"
  using runnable_event_repumped [of demo_event "rt_db demo_ingested" "new_event_loop 0"]
  by (simp add: demo_ingested_tables event_runnable_def new_event_loop_def)

section \<open>One lane per session\<close>

text \<open>
  The item the gateway enqueues for an event and the item the repump lists for its session
  are prepared for the same lane, that of the session, so that the executions of a session are
  serialised.
\<close>

theorem session_lane_unique:
  assumes "db_ok d" "e \<in> set (db_events d)" "ev_event_id e \<noteq> []" "trim_space (ev_session_key e) \<noteq> []"
    and "w \<in> set (list_runnable limit d)" "wi_session_key w = ev_session_key e"
  shows "lane_resolve (prepare_work (get_event_record d) (event_work (ev_event_id e))) = ''session:'' @ trim_space (ev_session_key e) \<and>
    lane_resolve (prepare_work (get_event_record d) w) = ''session:'' @ trim_space (ev_session_key e)"
proof
  have "find_row ev_event_id (ev_event_id e) (db_events d) = Some e"
    using keys_uniqueD(5) [OF db_okD(1) [OF assms(1)]] assms(2) by (simp add: find_row_Some_iff)
  then have "get_event_record d (ev_event_id e) = Some (scan_event e)" by (simp add: get_event_record_def)
  then show "lane_resolve (prepare_work (get_event_record d) (event_work (ev_event_id e))) = ''session:'' @ trim_space (ev_session_key e)"
    using prepare_work_lane [of "event_work (ev_event_id e)" "get_event_record d" "scan_event e"] assms(3,4)
    by (simp add: event_work_def scan_event_def)
  have lane: "wi_lane_key w = ''session:'' @ trim_space (ev_session_key e)"
    using assms(4-6) by (auto simp: list_runnable_def Let_def lane_resolve_def dest!: in_set_takeD)
  then have "wi_lane_key (prepare_work (get_event_record d) w) = ''session:'' @ trim_space (ev_session_key e)"
    by (simp add: prepare_work_def Let_def split: option.split)
  then show "lane_resolve (prepare_work (get_event_record d) w) = ''session:'' @ trim_space (ev_session_key e)"
    by (rule lane_resolve_session [OF assms(4)])
qed

theorem session_lane_unique_witness:
  "lane_resolve (prepare_work (get_event_record (rt_db demo_ingested)) (event_work (event_id_for 0))) = ''session:k''"
proof -
  have ok: "db_ok (rt_db demo_ingested)"
    using fenced_reachable_inv [OF demo_ingested_reachable] by (simp add: fenced_inv_def rt_inv_def)
  have trim: "trim_space ''k'' = ''k''"
    by (rule trim_space_id) (auto simp: lead_space_def trail_space_def find_None_iff space_runes_def suffix_def)
  have "\<exists>w \<in> set (list_runnable 1 (rt_db demo_ingested)). wi_session_key w = ''k''"
    by (simp add: list_runnable_def demo_ingested_tables limit_or_def Let_def)
  then obtain w where "w \<in> set (list_runnable 1 (rt_db demo_ingested))" "wi_session_key w = ''k''" by blast
  then show ?thesis
    using session_lane_unique [OF ok, of demo_event w 1] trim by (simp add: demo_ingested_tables)
qed

end
