(* ===== verification/Delivery.thy ===== *)
theory Delivery
  imports Outbox_Tx Db_Invariant
begin

text \<open>
  \<open>internal/outbound\<close>: the retry policy, the sender router and the delivery worker, which takes
  one due row of the outbox per tick, sends it and records the outcome.  The repository behind the
  worker is a record of operations on a state \<open>'s\<close>; what is sent is part of a tick's result.
\<close>

section \<open>Retry policy\<close>

record retry_decision =
  rd_next_attempt_at :: time
  rd_dead :: bool

record exponential_policy =
  ep_base_delay :: duration
  ep_max_delay :: duration
  ep_max_attempts :: int

definition default_base_delay :: duration where "default_base_delay = 5 * second"
definition default_max_delay :: duration where "default_max_delay = 5 * minute"
definition default_attempts :: int where "default_attempts = 5"

definition default_policy :: exponential_policy where
  "default_policy = \<lparr> ep_base_delay = default_base_delay, ep_max_delay = default_max_delay,
     ep_max_attempts = default_attempts \<rparr>"

text \<open>The doubling loop; a duration is an \<open>int64\<close> and the product wraps.\<close>

fun retry_delay :: "duration \<Rightarrow> nat \<Rightarrow> duration \<Rightarrow> duration" where
  "retry_delay limit 0 delay = delay"
| "retry_delay limit (Suc n) delay =
     (if limit \<le> delay then limit
      else (let d = wrap64 (delay * 2) in if limit < d then limit else retry_delay limit n d))"

definition policy_next :: "exponential_policy \<Rightarrow> int \<Rightarrow> time \<Rightarrow> retry_decision" where
  "policy_next p attempt_count now =
     (let base = (if ep_base_delay p \<le> 0 then default_base_delay else ep_base_delay p);
          limit = (if ep_max_delay p \<le> 0 then default_max_delay else ep_max_delay p);
          attempts = (if ep_max_attempts p \<le> 0 then default_attempts else ep_max_attempts p)
      in if attempts \<le> attempt_count then \<lparr> rd_next_attempt_at = now, rd_dead = True \<rparr>
         else \<lparr> rd_next_attempt_at = now + retry_delay limit (nat attempt_count) base, rd_dead = False \<rparr>)"

section \<open>Senders\<close>

record outbox_message =
  om_outbox_id :: string
  om_event_id :: string
  om_session_key :: string
  om_channel :: string
  om_target_id :: string
  om_body :: string
  om_created_at :: time
  om_attempts :: int
  om_last_error :: string

datatype send_error =
  UnsupportedChannel string | TelegramNotConfigured | InvalidTelegramTarget string
| SimulatedFailure | SenderFailure string

text \<open>What a sender makes of a message: None when it was delivered.\<close>

type_synonym sender = "outbox_message \<Rightarrow> send_error option"

definition contains :: "string \<Rightarrow> string \<Rightarrow> bool" where
  "contains s w = sublist w s"

definition stdout_send :: sender where
  "stdout_send m = (if contains (om_body m) ''[fail_outbound]'' then Some SimulatedFailure else None)"

text \<open>\<open>telegramSender\<close>; the bot's \<open>SendTextMessage\<close> is a parameter, absent if not configured.\<close>

definition telegram_send :: "(int \<Rightarrow> string \<Rightarrow> string option) option \<Rightarrow> sender" where
  "telegram_send client m =
     (case client of
        None \<Rightarrow> Some TelegramNotConfigured
      | Some send \<Rightarrow>
          (case parse_int64 (trim_space (om_target_id m)) of
             None \<Rightarrow> Some (InvalidTelegramTarget (om_target_id m))
           | Some chat_id \<Rightarrow> map_option SenderFailure (send chat_id (om_body m))))"

type_synonym router = "string \<rightharpoonup> sender"

text \<open>
  \<open>NewRegistry\<close>: the given senders under their trimmed channels, in the order Go ranges over the
  map, then the default sender for \<open>stdout\<close> and the empty channel.
\<close>

definition new_registry :: "sender option \<Rightarrow> (string \<times> sender option) list \<Rightarrow> router" where
  "new_registry dflt senders =
     (let normalized = fold (\<lambda>(channel, s) m. case s of None \<Rightarrow> m | Some s \<Rightarrow> m(trim_space channel \<mapsto> s)) senders Map.empty
      in case dflt of None \<Rightarrow> normalized | Some s \<Rightarrow> normalized(''stdout'' \<mapsto> s, [] \<mapsto> s))"

definition new_router :: "sender option \<Rightarrow> (int \<Rightarrow> string \<Rightarrow> string option) option \<Rightarrow> router" where
  "new_router dflt telegram =
     new_registry dflt (case telegram of None \<Rightarrow> [] | Some t \<Rightarrow> [(''telegram'', Some (telegram_send (Some t)))])"

definition router_resolve :: "router \<Rightarrow> string \<Rightarrow> send_error + sender" where
  "router_resolve r channel =
     (case r (trim_space channel) of None \<Rightarrow> Inl (UnsupportedChannel channel) | Some s \<Rightarrow> Inr s)"

definition router_send :: "router \<Rightarrow> sender" where
  "router_send r m =
     (case router_resolve r (trim_space (om_channel m)) of Inl e \<Rightarrow> Some e | Inr s \<Rightarrow> s m)"

section \<open>The worker\<close>

record 's delivery_repo =
  dr_beat_heartbeat :: "string \<Rightarrow> time \<Rightarrow> 's \<Rightarrow> string option \<times> 's"
  dr_recover_expired_sending :: "time \<Rightarrow> time \<Rightarrow> 's \<Rightarrow> string option \<times> 's"
  dr_claim_outbox :: "string \<Rightarrow> time \<Rightarrow> 's \<Rightarrow> (string + claimed_outbox option) \<times> 's"
  dr_fail_send :: "string \<Rightarrow> string \<Rightarrow> send_error \<Rightarrow> bool \<Rightarrow> time \<Rightarrow> time \<Rightarrow> 's \<Rightarrow> string option \<times> 's"
  dr_complete_send :: "string \<Rightarrow> string \<Rightarrow> time \<Rightarrow> 's \<Rightarrow> string option \<times> 's"

definition sending_lease :: duration where "sending_lease = 30 * second"

definition to_outbox_message :: "claimed_outbox \<Rightarrow> outbox_message" where
  "to_outbox_message m = \<lparr> om_outbox_id = co_outbox_id m, om_event_id = co_event_id m,
     om_session_key = co_session_key m, om_channel = co_channel m, om_target_id = co_target_id m,
     om_body = co_body m, om_created_at = co_created_at m, om_attempts = co_attempt_count m,
     om_last_error = [] \<rparr>"

datatype tick_outcome = TickIdle | TickClaimFailed string | TickSent | TickSentUnrecorded string
  | TickFailed retry_decision | TickFailedUnrecorded string

text \<open>\<open>recordFailure\<close> and \<open>markCompleted\<close> of one claimed message.\<close>

definition deliver_message ::
  "'s delivery_repo \<Rightarrow> exponential_policy \<Rightarrow> sender \<Rightarrow> claimed_outbox \<Rightarrow> time \<Rightarrow> 's \<Rightarrow> tick_outcome \<times> 's" where
  "deliver_message repo policy send m now s =
     (case send (to_outbox_message m) of
        Some err \<Rightarrow>
          (let dec = policy_next policy (co_attempt_count m) now in
           case dr_fail_send repo (co_outbox_id m) (co_event_id m) err (rd_dead dec) (rd_next_attempt_at dec) now s of
             (Some e, s') \<Rightarrow> (TickFailedUnrecorded e, s') | (None, s') \<Rightarrow> (TickFailed dec, s'))
      | None \<Rightarrow>
          (case dr_complete_send repo (co_outbox_id m) (co_event_id m) now s of
             (Some e, s') \<Rightarrow> (TickSentUnrecorded e, s') | (None, s') \<Rightarrow> (TickSent, s')))"

text \<open>
  \<open>tick\<close>; the results are the outcome, the message handed to the sender and the state.  Errors of
  the heartbeat and of the recovery are only logged, like the missing sender.
\<close>

definition delivery_tick ::
  "'s delivery_repo \<Rightarrow> exponential_policy \<Rightarrow> sender option \<Rightarrow> time \<Rightarrow> 's \<Rightarrow>
     (tick_outcome \<times> claimed_outbox option) \<times> 's" where
  "delivery_tick repo policy sender now s =
     (let s1 = snd (dr_beat_heartbeat repo ''outbox_retry'' now s);
          s2 = snd (dr_recover_expired_sending repo (now - sending_lease) now s1)
      in case sender of
           None \<Rightarrow> ((TickIdle, None), s2)
         | Some send \<Rightarrow>
             (case dr_claim_outbox repo ''outbox-worker'' now s2 of
                (Inl e, s3) \<Rightarrow> ((TickClaimFailed e, None), s3)
              | (Inr None, s3) \<Rightarrow> ((TickIdle, None), s3)
              | (Inr (Some m), s3) \<Rightarrow>
                  (let (out, s4) = deliver_message repo policy send m now s3 in ((out, Some m), s4))))"

section \<open>The repository's contract\<close>

text \<open>
  \<open>status\<close> reads the status of a row.  A claim takes a pending or waiting row; the recovery
  touches sending rows only; the outcome of a send is written to the row that was claimed.
\<close>

locale delivery_contract =
  fixes repo :: "'s delivery_repo" and status :: "'s \<Rightarrow> string \<Rightarrow> outbox_status option" and inv :: "'s \<Rightarrow> bool"
  assumes beat_law: "inv s \<Longrightarrow> dr_beat_heartbeat repo w now s = (r, s') \<Longrightarrow> inv s' \<and> status s' = status s"
    and recover_law: "inv s \<Longrightarrow> dr_recover_expired_sending repo cutoff now s = (r, s') \<Longrightarrow>
      inv s' \<and> (\<forall>i. status s' i = status s i \<or>
        status s i = Some OutboxStatusSending \<and> status s' i = Some OutboxStatusRetryWait)"
    and claim_law: "inv s \<Longrightarrow> dr_claim_outbox repo owner now s = (ro, s') \<Longrightarrow>
      inv s' \<and> (case ro of
         Inr (Some m) \<Rightarrow> status s (co_outbox_id m) \<in> {Some OutboxStatusPending, Some OutboxStatusRetryWait} \<and>
           status s' = (status s)(co_outbox_id m := Some OutboxStatusSending)
       | _ \<Rightarrow> status s' = status s)"
    and fail_law: "inv s \<Longrightarrow> status s i \<noteq> None \<Longrightarrow> dr_fail_send repo i e err dead next_at now s = (r, s') \<Longrightarrow>
      inv s' \<and> status s' = (if r = None then (status s)(i := Some (if dead then OutboxStatusDead else OutboxStatusRetryWait)) else status s)"
    and complete_law: "inv s \<Longrightarrow> status s i \<noteq> None \<Longrightarrow> dr_complete_send repo i e now s = (r, s') \<Longrightarrow>
      inv s' \<and> status s' = (if r = None then (status s)(i := Some OutboxStatusSent) else status s)"
begin

definition settled :: "'s \<Rightarrow> string \<Rightarrow> bool" where
  "settled s i \<longleftrightarrow> status s i \<in> {Some OutboxStatusSent, Some OutboxStatusDead}"

lemma deliver_message_status:
  assumes "inv s" "status s (co_outbox_id m) \<noteq> None" "deliver_message repo policy send m now s = (out, s')"
  shows "inv s' \<and> status s' = (case out of
      TickSent \<Rightarrow> (status s)(co_outbox_id m := Some OutboxStatusSent)
    | TickFailed dec \<Rightarrow> (status s)(co_outbox_id m := Some (if rd_dead dec then OutboxStatusDead else OutboxStatusRetryWait))
    | _ \<Rightarrow> status s)"
proof (cases "send (to_outbox_message m)")
  case None
  obtain r s1 where r: "dr_complete_send repo (co_outbox_id m) (co_event_id m) now s = (r, s1)" by fastforce
  show ?thesis using complete_law [OF assms(1,2) r] None r assms(3)
    by (cases r) (auto simp: deliver_message_def)
next
  case (Some err)
  let ?dec = "policy_next policy (co_attempt_count m) now"
  obtain r s1 where r: "dr_fail_send repo (co_outbox_id m) (co_event_id m) err (rd_dead ?dec) (rd_next_attempt_at ?dec) now s = (r, s1)"
    by fastforce
  show ?thesis using fail_law [OF assms(1,2) r] Some r assms(3)
    by (cases r) (auto simp: deliver_message_def)
qed

text \<open>A tick sends a row only if it is not settled, and leaves the settled rows as they are.\<close>

lemma tick_cases:
  assumes "inv s" "delivery_tick repo policy sender now s = ((out, sent), s')"
  obtains (idle) s2 where "inv s2" "inv s'" "\<forall>i. settled s i \<longrightarrow> status s2 i = status s i" "sent = None" "status s' = status s2"
  | (sent) s2 m s3 send where "inv s2" "\<forall>i. settled s i \<longrightarrow> status s2 i = status s i" "sent = Some m"
      "status s2 (co_outbox_id m) \<in> {Some OutboxStatusPending, Some OutboxStatusRetryWait}" "inv s3"
      "status s3 = (status s2)(co_outbox_id m := Some OutboxStatusSending)"
      "deliver_message repo policy send m now s3 = (out, s')"
proof -
  obtain r1 s1 where b: "dr_beat_heartbeat repo ''outbox_retry'' now s = (r1, s1)" by fastforce
  obtain r2 s2 where rc: "dr_recover_expired_sending repo (now - sending_lease) now s1 = (r2, s2)" by fastforce
  note bl = beat_law [OF assms(1) b]
  note rl = recover_law [OF conjunct1 [OF bl] rc]
  have keep: "inv s2" "\<forall>i. settled s i \<longrightarrow> status s2 i = status s i"
  proof -
    show "inv s2" using rl by blast
    show "\<forall>i. settled s i \<longrightarrow> status s2 i = status s i"
    proof (intro allI impI)
      fix i assume "settled s i"
      then have "status s1 i \<noteq> Some OutboxStatusSending" using bl by (auto simp: settled_def)
      then have "status s2 i = status s1 i" using rl by blast
      then show "status s2 i = status s i" using bl by simp
    qed
  qed
  show ?thesis
  proof (cases sender)
    case None
    show ?thesis by (rule idle [OF keep(1) _ keep(2)]) (use assms(2) None b rc keep(1) in \<open>auto simp: delivery_tick_def\<close>)
  next
    case (Some send)
    obtain ro s3 where c: "dr_claim_outbox repo ''outbox-worker'' now s2 = (ro, s3)" by fastforce
    note cl = claim_law [OF keep(1) c]
    show ?thesis
    proof (cases "\<exists>m. ro = Inr (Some m)")
      case True
      then obtain m where m: "ro = Inr (Some m)" by blast
      obtain out' s4 where d: "deliver_message repo policy send m now s3 = (out', s4)" by fastforce
      show ?thesis
        by (rule sent [OF keep, of m s3 send])
          (use assms(2) Some b rc c m d cl in \<open>auto simp: delivery_tick_def\<close>)
    next
      case False
      show ?thesis by (rule idle [OF keep(1) _ keep(2)])
        (use assms(2) Some b rc c cl False in \<open>auto simp: delivery_tick_def split: sum.splits option.splits\<close>)
    qed
  qed
qed

lemma settled_never_resent:
  assumes "inv s" "delivery_tick repo policy sender now s = ((out, sent), s')" "settled s i"
  shows "status s' i = status s i \<and> (\<forall>m. sent = Some m \<longrightarrow> co_outbox_id m \<noteq> i)"
proof (rule tick_cases [OF assms(1,2)])
  fix s2 assume "\<forall>i. settled s i \<longrightarrow> status s2 i = status s i" "sent = None" "status s' = status s2"
  with assms(3) show ?thesis by simp
next
  fix s2 m s3 send
  assume k: "\<forall>i. settled s i \<longrightarrow> status s2 i = status s i" and m: "sent = Some m" "inv s3"
    "status s2 (co_outbox_id m) \<in> {Some OutboxStatusPending, Some OutboxStatusRetryWait}"
    "status s3 = (status s2)(co_outbox_id m := Some OutboxStatusSending)"
    and d: "deliver_message repo policy send m now s3 = (out, s')"
  have ne: "co_outbox_id m \<noteq> i" using k m(3) assms(3) by (auto simp: settled_def)
  have "status s' i = status s3 i"
    using deliver_message_status [OF m(2) _ d] m(4) ne by (auto split: tick_outcome.splits)
  then show ?thesis using m k assms(3) ne by simp
qed

lemma sent_is_settled:
  assumes "inv s" "delivery_tick repo policy sender now s = ((out, Some m), s')"
  shows "inv s' \<and> (out = TickSent \<longrightarrow> status s' (co_outbox_id m) = Some OutboxStatusSent) \<and>
    (\<forall>dec. out = TickFailed dec \<longrightarrow> status s' (co_outbox_id m) = Some (if rd_dead dec then OutboxStatusDead else OutboxStatusRetryWait))"
proof (rule tick_cases [OF assms])
  fix s3 m' send and s2 :: 's
  assume m: "Some m = Some m'" "inv s3" "status s3 = (status s2)(co_outbox_id m' := Some OutboxStatusSending)"
    and d: "deliver_message repo policy send m' now s3 = (out, s')"
  from m have "status s3 (co_outbox_id m') \<noteq> None" by simp
  from deliver_message_status [OF m(2) this d] m(1) show ?thesis by (cases out) simp_all
qed simp

end

end
