(* ===== verification/Workers.thy ===== *)
theory Workers
  imports Event_Loop Hub Delivery
begin

text \<open>
  \<open>internal/runtime/workers\<close>, the host that runs them (\<open>host_control.go\<close>), the readiness probe
  and the adapters of \<open>internal/bootstrap\<close> between runtime, gateway and queries.  A tick is a
  function of the clock and the state; the tickers and goroutines are not modelled.
\<close>

section \<open>Roles and registry\<close>

record worker_role =
  wr_name :: string
  wr_heartbeat_name :: string
  wr_poll_cadence :: duration

definition heartbeat_role :: worker_role where
  "heartbeat_role = \<lparr> wr_name = ''heartbeat'', wr_heartbeat_name = ''heartbeat'', wr_poll_cadence = 10 * second \<rparr>"

definition recovery_role :: worker_role where
  "recovery_role = \<lparr> wr_name = ''processing_recovery'', wr_heartbeat_name = ''processing_sweeper'',
     wr_poll_cadence = 10 * second \<rparr>"

definition delayed_jobs_role :: worker_role where
  "delayed_jobs_role = \<lparr> wr_name = ''scheduled_jobs_delayed'', wr_heartbeat_name = ''delayed_jobs'',
     wr_poll_cadence = second \<rparr>"

definition cron_role :: worker_role where
  "cron_role = \<lparr> wr_name = ''scheduled_jobs_cron'', wr_heartbeat_name = ''cron'', wr_poll_cadence = second \<rparr>"

definition delivery_role :: worker_role where
  "delivery_role = \<lparr> wr_name = ''delivery_poll'', wr_heartbeat_name = ''outbox_retry'',
     wr_poll_cadence = 500 * millisecond \<rparr>"

text \<open>\<open>Register\<close>: a worker of a known role replaces the earlier one at its place.\<close>

fun register_worker :: "worker_role \<Rightarrow> worker_role list \<Rightarrow> worker_role list" where
  "register_worker w [] = [w]"
| "register_worker w (v # vs) = (if wr_name v = wr_name w then w # vs else v # register_worker w vs)"

definition builtin_workers :: "worker_role list" where
  "builtin_workers = fold register_worker [heartbeat_role, recovery_role, delayed_jobs_role, cron_role] []"

definition background_workers :: "worker_role list" where
  "background_workers = register_worker delivery_role builtin_workers"

definition worker_heartbeat_names :: "worker_role list \<Rightarrow> string list" where
  "worker_heartbeat_names ws =
     map (\<lambda>w. if wr_heartbeat_name w = [] then wr_name w else wr_heartbeat_name w) ws"

section \<open>Processing recovery\<close>

definition processing_lease :: duration where "processing_lease = 2 * minute"

record 's recovery_repo =
  pr_beat_heartbeat :: "string \<Rightarrow> time \<Rightarrow> 's \<Rightarrow> string option \<times> 's"
  pr_recover_expired :: "time \<Rightarrow> time \<Rightarrow> 's \<Rightarrow> (string list \<times> string option) \<times> 's"

definition enqueue_all :: "(string \<Rightarrow> 's \<Rightarrow> bool \<times> 's) option \<Rightarrow> string list \<Rightarrow> 's \<Rightarrow> 's" where
  "enqueue_all queue ids s =
     (case queue of None \<Rightarrow> s | Some enq \<Rightarrow> fold (\<lambda>i s. snd (enq i s)) ids s)"

definition recovery_tick ::
  "'s recovery_repo option \<Rightarrow> (string \<Rightarrow> 's \<Rightarrow> bool \<times> 's) option \<Rightarrow> time \<Rightarrow> 's \<Rightarrow> 's" where
  "recovery_tick repo queue now s =
     (case repo of
        None \<Rightarrow> s
      | Some r \<Rightarrow>
          (let s1 = snd (pr_beat_heartbeat r ''processing_sweeper'' now s) in
           case pr_recover_expired r (now - processing_lease) now s1 of
             ((ids, Some e), s2) \<Rightarrow> s2
           | ((ids, None), s2) \<Rightarrow> enqueue_all queue ids s2))"

definition heartbeat_tick :: "(string \<Rightarrow> time \<Rightarrow> 's \<Rightarrow> string option \<times> 's) option \<Rightarrow> time \<Rightarrow> 's \<Rightarrow> 's" where
  "heartbeat_tick beat now s = (case beat of None \<Rightarrow> s | Some b \<Rightarrow> snd (b ''heartbeat'' now s))"

section \<open>Scheduled jobs\<close>

record job_ingest_request =
  jq_source :: string
  jq_conversation :: conversation
  jq_idempotency_key :: string
  jq_timestamp :: time
  jq_payload :: event_payload

record job_ingest_result =
  jr_event_id :: string
  jr_duplicate :: bool
  jr_enqueued :: bool

record 's job_repo =
  sj_beat_heartbeat :: "string \<Rightarrow> time \<Rightarrow> 's \<Rightarrow> string option \<times> 's"
  sj_claim :: "scheduled_job_kind \<Rightarrow> string \<Rightarrow> time \<Rightarrow> 's \<Rightarrow> (string + claimed_job option) \<times> 's"
  sj_fail :: "string \<Rightarrow> string \<Rightarrow> time \<Rightarrow> time \<Rightarrow> 's \<Rightarrow> string option \<times> 's"
  sj_complete :: "claimed_job \<Rightarrow> time \<Rightarrow> 's \<Rightarrow> string option \<times> 's"
  sj_mark_event_queued :: "string \<Rightarrow> time \<Rightarrow> 's \<Rightarrow> string option \<times> 's"

type_synonym 's event_ingestor = "job_ingest_request \<Rightarrow> 's \<Rightarrow> (string + job_ingest_result) \<times> 's"

definition job_request :: "claimed_job \<Rightarrow> time \<Rightarrow> job_ingest_request" where
  "job_request j now = \<lparr> jq_source = jp_source (cj_payload j), jq_conversation = jp_conversation (cj_payload j),
     jq_idempotency_key = cj_job_id j @ '':'' @ show_int (unix_secs now), jq_timestamp = now,
     jq_payload = jp_payload (cj_payload j) \<rparr>"

definition job_cooldown :: duration where "job_cooldown = 30 * second"

datatype job_outcome = JobIdle | JobClaimFailed string | JobFailed claimed_job string
  | JobIngested claimed_job job_ingest_result "string option"

text \<open>What follows an accepted job: it is completed, and an event that was not queued is marked and enqueued.\<close>

definition finish_job ::
  "'s job_repo \<Rightarrow> (string \<Rightarrow> 's \<Rightarrow> bool \<times> 's) option \<Rightarrow> scheduled_job_kind \<Rightarrow> claimed_job \<Rightarrow> job_ingest_result \<Rightarrow> time \<Rightarrow> 's
     \<Rightarrow> job_outcome \<times> 's" where
  "finish_job repo queue kind j a now s =
     (let (cerr, s1) = sj_complete repo j now s;
          s2 = (case queue of
                  None \<Rightarrow> s1
                | Some enq \<Rightarrow>
                    if \<not> jr_duplicate a \<and> \<not> jr_enqueued a then
                      (case sj_mark_event_queued repo (jr_event_id a) now s1 of
                         (None, s') \<Rightarrow> snd (enq (jr_event_id a) s')
                       | (Some e, s') \<Rightarrow> s')
                    else s1)
      in (JobIngested j a cerr, snd (sj_beat_heartbeat repo (job_kind_text kind) now s2)))"

definition run_scheduled_kind ::
  "'s job_repo option \<Rightarrow> 's event_ingestor option \<Rightarrow> (string \<Rightarrow> 's \<Rightarrow> bool \<times> 's) option \<Rightarrow> scheduled_job_kind \<Rightarrow> time \<Rightarrow> 's
     \<Rightarrow> job_outcome \<times> 's" where
  "run_scheduled_kind repo ingest queue kind now s =
     (case repo of
        None \<Rightarrow> (JobIdle, s)
      | Some r \<Rightarrow>
          (case sj_claim r kind (job_kind_text kind @ ''-worker'') now s of
             (Inl e, s1) \<Rightarrow> (JobClaimFailed e, s1)
           | (Inr None, s1) \<Rightarrow> (JobIdle, s1)
           | (Inr (Some j), s1) \<Rightarrow>
               (case ingest of
                  None \<Rightarrow> (JobFailed j ''ingest service unavailable'',
                           snd (sj_fail r (cj_job_id j) ''ingest service unavailable'' (now + job_cooldown) now s1))
                | Some ing \<Rightarrow>
                    (case ing (job_request j now) s1 of
                       (Inl e, s2) \<Rightarrow> (JobFailed j e, snd (sj_fail r (cj_job_id j) e (now + job_cooldown) now s2))
                     | (Inr a, s2) \<Rightarrow> finish_job r queue kind j a now s2))))"

text \<open>A tick of a jobs worker: its heartbeat and then each of its kinds.\<close>

definition jobs_tick ::
  "'s job_repo option \<Rightarrow> 's event_ingestor option \<Rightarrow> (string \<Rightarrow> 's \<Rightarrow> bool \<times> 's) option \<Rightarrow> worker_role \<Rightarrow>
     scheduled_job_kind list \<Rightarrow> time \<Rightarrow> 's \<Rightarrow> 's" where
  "jobs_tick repo ingest queue role kinds now s =
     fold (\<lambda>kind s. snd (run_scheduled_kind repo ingest queue kind now s)) kinds
       (case repo of None \<Rightarrow> s | Some r \<Rightarrow> snd (sj_beat_heartbeat r (wr_heartbeat_name role) now s))"

definition delayed_job_kinds :: "scheduled_job_kind list" where
  "delayed_job_kinds = [ScheduledJobKindDelayed, ScheduledJobKindRetry]"

section \<open>The adapters\<close>

text \<open>\<open>runtimeEventIngestor\<close>: a job enters through the gateway.\<close>

definition runtime_ingest :: "('s, 'q) gateway_service \<Rightarrow> time \<Rightarrow> ('s, 'q) gateway_state event_ingestor" where
  "runtime_ingest gw now req st =
     (case accept gw \<lparr> in_source = jq_source req, in_conversation = jq_conversation req, in_session_key_hint = [],
                       in_idempotency_key = jq_idempotency_key req, in_timestamp = jq_timestamp req,
                       in_dm_scope = [], in_payload = jq_payload req, in_metadata = [] \<rparr> now st of
        (Inl e, st') \<Rightarrow> (Inl (ae_message e), st')
      | (Inr a, st') \<Rightarrow> (Inr \<lparr> jr_event_id = gr_event_id (ai_result a), jr_duplicate = gr_duplicate (ai_result a),
                                jr_enqueued = gr_enqueued (ai_result a) \<rparr>, st'))"

text \<open>\<open>gatewaySessionLookup\<close> on the database.\<close>

definition db_session_lookup :: "database \<Rightarrow> session_lookup" where
  "db_session_lookup d = \<lparr>
     get_conversation_dm_scope = (\<lambda>tenant conv. Inr (db_get_conversation_dm_scope d tenant conv)),
     get_scope_session = (\<lambda>key. Inr (map_option (\<lambda>r. \<lparr> ss_conversation_id = sr_conversation_id r,
        ss_channel_type = sr_channel_type r, ss_participant_id = sr_participant_id r,
        ss_dm_scope = sr_dm_scope r, ss_session_id = sr_active_session_id r \<rparr>) (get_session_record d key))) \<rparr>"

definition terminal_runtime_event :: "event_record \<Rightarrow> runtime_event option" where
  "terminal_runtime_event rec =
     (let base = (\<lambda>kind err. \<lparr> re_kind = kind, re_work = event_work [], re_event_id = rec_event_id rec, re_sequence = 0,
            re_run_id = rec_run_id rec, re_session_key = rec_session_key rec, re_session_id = rec_session_id rec,
            re_status = [], re_delta = [], re_tool_call_id = [], re_tool_name = [], re_args = [], re_result = [],
            re_truncated = False, re_message = [], re_occurred_at = rec_updated_at rec, re_metadata = [],
            re_error = err, re_event_record = Some rec \<rparr>)
      in case rec_status rec of
           EventStatusFailed \<Rightarrow> Some (base RuntimeEventFailed (rec_error rec))
         | EventStatusProcessed \<Rightarrow> Some (base RuntimeEventCompleted None)
         | EventStatusSuppressed \<Rightarrow> Some (base RuntimeEventCompleted None)
         | _ \<Rightarrow> None)"

text \<open>\<open>GetTerminalEvent\<close> of the replay source, with the query it makes.\<close>

definition stored_terminal :: "database \<Rightarrow> string \<Rightarrow> runtime_event option" where
  "stored_terminal d i = Option.bind (get_event_record d i) terminal_runtime_event"

section \<open>Readiness\<close>

record 's readiness_repo =
  rp_check_read_write :: "'s \<Rightarrow> string option"
  rp_heartbeat_at :: "string \<Rightarrow> 's \<Rightarrow> string + time option"

record readiness_host =
  rh_alive :: bool
  rh_inbound_depth :: nat
  rh_worker_heartbeat_names :: "string list"

definition heartbeat_freshness :: duration where "heartbeat_freshness = 30 * second"

definition worker_state :: "string + time option \<Rightarrow> time \<Rightarrow> string" where
  "worker_state beat now =
     (case beat of
        Inl e \<Rightarrow> ''error''
      | Inr None \<Rightarrow> ''missing''
      | Inr (Some t) \<Rightarrow> if heartbeat_freshness < now - t then ''stale'' else ''alive'')"

text \<open>\<open>ReadyState\<close>: the state is a map, the error None when the program is ready.\<close>

definition ready_state ::
  "'s readiness_repo option \<Rightarrow> readiness_host option \<Rightarrow> string list \<Rightarrow> time \<Rightarrow> 's \<Rightarrow> (string \<times> json) list \<times> string option" where
  "ready_state repo host extra_names now s =
     (let depth = (case host of None \<Rightarrow> 0 | Some h \<Rightarrow> rh_inbound_depth h);
          st = [(''status'', JStr ''ready''), (''queue_depth'', JNum (of_nat depth)), (''time'', JStr (time_text now))];
          down = (\<lambda>key why. map_put key (JStr why) (map_put ''status'' (JStr ''not_ready'') st))
      in case repo of
           None \<Rightarrow> (down ''db_error'' ''readiness repository unavailable'', Some ''readiness repository unavailable'')
         | Some r \<Rightarrow>
             (case rp_check_read_write r s of
                Some e \<Rightarrow> (down ''db_error'' e, Some e)
              | None \<Rightarrow>
                  (case host of
                     None \<Rightarrow> (down ''event_loop'' ''down'', Some ''event loop down'')
                   | Some h \<Rightarrow>
                       if \<not> rh_alive h then (down ''event_loop'' ''down'', Some ''event loop down'')
                       else
                         (fold (\<lambda>w st. map_put w (JStr (worker_state (rp_heartbeat_at r w s) now)) st)
                            (rh_worker_heartbeat_names h @ extra_names) st, None))))"

end
