(* ===== verification/Http_Server.thy ===== *)
theory Http_Server
  imports Http_Query Workers
begin

text \<open>
  \<open>internal/http/server.go\<close> and \<open>internal/http/middleware/api_key.go\<close>: the routes, the
  readiness answer and the API key in front of every route but the two health routes.  A request
  reaches the mux as a method and the elements of its path; the gateway, the stream and the reading
  handlers are arguments of the server, which holds no state of its own.
\<close>

section \<open>The API key\<close>

definition bearer_prefix :: string where "bearer_prefix = ''Bearer ''"

text \<open>\<open>strings.TrimPrefix\<close>\<close>

definition trim_prefix :: "string \<Rightarrow> string \<Rightarrow> string" where
  "trim_prefix p s = (if prefix p s then drop (length p) s else s)"

definition api_key_rejects :: "string \<Rightarrow> string \<Rightarrow> bool" where
  "api_key_rejects key auth =
     (\<not> prefix bearer_prefix auth \<or> trim_space (trim_prefix bearer_prefix auth) \<noteq> key)"

text \<open>The answers of the server, by the handler that writes them.\<close>

datatype 'x reply =
  StateReply "json_object http_response"
| CommandReply "response_body http_response"
| StreamReply 'x
| QueryReply "query_body http_response"
| AuthReply "error_block http_response"
| MuxReply int

definition auth_reply :: "'x reply" where
  "auth_reply = AuthReply (write_json 401
     \<lparr> eb_code = ErrorCodeUnauthorized, eb_message = ''missing or invalid api key'', eb_details = [] \<rparr>)"

definition with_api_key :: "string \<Rightarrow> string \<Rightarrow> ('s \<Rightarrow> 'x reply \<times> 's) \<Rightarrow> 's \<Rightarrow> 'x reply \<times> 's" where
  "with_api_key key auth next s =
     (if key = [] then next s else if api_key_rejects key auth then (auth_reply, s) else next s)"

section \<open>Routes\<close>

datatype route =
  Healthz | Readyz | ChatStream | EventsIngest
| GetEvent | ListEvents | LookupEvent | ListRuns | GetRun | GetRunTrace
| ListSessions | GetSession | GetSessionHistory

text \<open>The pattern of a route: its method and the elements of its path, a name for a wildcard.\<close>

datatype path_element = Exactly string | Wildcard string

fun route_pattern :: "route \<Rightarrow> string \<times> path_element list" where
  "route_pattern Healthz = (''GET'', [Exactly ''healthz''])"
| "route_pattern Readyz = (''GET'', [Exactly ''readyz''])"
| "route_pattern ChatStream = (''POST'', [Exactly ''v1'', Exactly ''chat:stream''])"
| "route_pattern EventsIngest = (''POST'', [Exactly ''v1'', Exactly ''events:ingest''])"
| "route_pattern GetEvent = (''GET'', [Exactly ''v1'', Exactly ''events'', Wildcard ''event_id''])"
| "route_pattern ListEvents = (''GET'', [Exactly ''v1'', Exactly ''events''])"
| "route_pattern LookupEvent = (''GET'', [Exactly ''v1'', Exactly ''events:lookup''])"
| "route_pattern ListRuns = (''GET'', [Exactly ''v1'', Exactly ''runs''])"
| "route_pattern GetRun = (''GET'', [Exactly ''v1'', Exactly ''runs'', Wildcard ''run_id''])"
| "route_pattern GetRunTrace = (''GET'', [Exactly ''v1'', Exactly ''runs'', Wildcard ''run_id'', Exactly ''trace''])"
| "route_pattern ListSessions = (''GET'', [Exactly ''v1'', Exactly ''sessions''])"
| "route_pattern GetSession = (''GET'', [Exactly ''v1'', Exactly ''sessions'', Wildcard ''session_key''])"
| "route_pattern GetSessionHistory =
     (''GET'', [Exactly ''v1'', Exactly ''sessions'', Wildcard ''session_key'', Exactly ''history''])"

definition health_routes :: "route list" where "health_routes = [Healthz, Readyz]"
definition command_routes :: "route list" where "command_routes = [ChatStream, EventsIngest]"
definition query_routes :: "route list" where
  "query_routes = [GetEvent, ListEvents, LookupEvent, ListRuns, GetRun, GetRunTrace, ListSessions, GetSession,
     GetSessionHistory]"

fun match_path :: "path_element list \<Rightarrow> string list \<Rightarrow> (string \<times> string) list option" where
  "match_path [] [] = Some []"
| "match_path (Exactly e # ps) (x # xs) = (if x = e then match_path ps xs else None)"
| "match_path (Wildcard n # ps) (x # xs) = (if x = [] then None else map_option ((#) (n, x)) (match_path ps xs))"
| "match_path _ _ = None"

text \<open>A pattern with GET also answers HEAD.\<close>

definition method_matches :: "string \<Rightarrow> string \<Rightarrow> bool" where
  "method_matches m wanted = (m = wanted \<or> m = ''HEAD'' \<and> wanted = ''GET'')"

definition match_route :: "string \<Rightarrow> string list \<Rightarrow> route \<Rightarrow> (route \<times> (string \<times> string) list) option" where
  "match_route m path r =
     (if method_matches m (fst (route_pattern r))
      then map_option (Pair r) (match_path (snd (route_pattern r)) path) else None)"

definition all_routes :: "route list" where
  "all_routes = health_routes @ command_routes @ query_routes"

definition find_route :: "string \<Rightarrow> string list \<Rightarrow> (route \<times> (string \<times> string) list) option" where
  "find_route m path =
     (case List.find (\<lambda>r. match_route m path r \<noteq> None) all_routes of
        None \<Rightarrow> None | Some r \<Rightarrow> match_route m path r)"

section \<open>Requests\<close>

record 'b server_request =
  sq_method :: string
  sq_path :: "string list"
  sq_authorization :: string
  sq_query_get :: "string \<Rightarrow> string"
  sq_body :: 'b

text \<open>The handlers the server was built with.\<close>

record ('s, 'x, 'b) server_routes =
  sv_api_key :: string
  sv_readiness :: "'s \<Rightarrow> json_object \<times> string option"
  sv_write :: "'b \<Rightarrow> 's \<Rightarrow> response_body http_response \<times> 's"
  sv_stream :: "'b \<Rightarrow> 's \<Rightarrow> 'x \<times> 's"
  sv_query :: "'s \<Rightarrow> query_api"

definition handle_healthz :: "json_object http_response" where
  "handle_healthz = write_json 200 [(''status'', JStr ''ok'')]"

definition handle_readyz :: "json_object \<times> string option \<Rightarrow> json_object http_response" where
  "handle_readyz r = write_json (if snd r = None then 200 else 503) (fst r)"

definition handle_query :: "(nat \<Rightarrow> bool) \<Rightarrow> route \<Rightarrow> query_api \<Rightarrow> http_request \<Rightarrow> query_body http_response" where
  "handle_query printable rt q r =
     (case rt of
        GetEvent \<Rightarrow> handle_get_event q r
      | ListEvents \<Rightarrow> handle_list_events printable q r
      | LookupEvent \<Rightarrow> handle_lookup_event q r
      | ListRuns \<Rightarrow> handle_list_runs printable q r
      | GetRun \<Rightarrow> handle_get_run q r
      | GetRunTrace \<Rightarrow> handle_get_run_trace q r
      | ListSessions \<Rightarrow> handle_list_sessions printable q r
      | GetSession \<Rightarrow> handle_get_session q r
      | _ \<Rightarrow> handle_get_session_history printable q r)"

definition route_handler ::
  "('s, 'x, 'b) server_routes \<Rightarrow> (nat \<Rightarrow> bool) \<Rightarrow> 'b server_request \<Rightarrow> route \<Rightarrow> (string \<times> string) list \<Rightarrow> 's \<Rightarrow> 'x reply \<times> 's" where
  "route_handler sv printable req rt params s =
     (case rt of
        Healthz \<Rightarrow> (StateReply handle_healthz, s)
      | Readyz \<Rightarrow> (StateReply (handle_readyz (sv_readiness sv s)), s)
      | ChatStream \<Rightarrow> apfst StreamReply (sv_stream sv (sq_body req) s)
      | EventsIngest \<Rightarrow> apfst CommandReply (sv_write sv (sq_body req) s)
      | _ \<Rightarrow> (QueryReply (handle_query printable rt (sv_query sv s)
          \<lparr> hq_path_value = map_get params, hq_query_get = sq_query_get req \<rparr>), s))"

definition protected :: "('s, 'x, 'b) server_routes \<Rightarrow> 'b server_request \<Rightarrow> ('s \<Rightarrow> 'x reply \<times> 's) \<Rightarrow> 's \<Rightarrow> 'x reply \<times> 's" where
  "protected sv req handler = with_api_key (sv_api_key sv) (sq_authorization req) handler"

text \<open>A path that some route has but not for the method is answered 405, any other one 404.\<close>

definition serve :: "('s, 'x, 'b) server_routes \<Rightarrow> (nat \<Rightarrow> bool) \<Rightarrow> 'b server_request \<Rightarrow> 's \<Rightarrow> 'x reply \<times> 's" where
  "serve sv printable req s =
     (case find_route (sq_method req) (sq_path req) of
        None \<Rightarrow>
          (MuxReply (if \<exists>r \<in> set all_routes. match_path (snd (route_pattern r)) (sq_path req) \<noteq> None then 405 else 404), s)
      | Some (rt, params) \<Rightarrow>
          (if rt \<in> set health_routes then route_handler sv printable req rt params s
           else protected sv req (route_handler sv printable req rt params) s))"

end
