(* ===== verification/Gateway_System.thy ===== *)
theory Gateway_System
  imports Gateway
begin

text \<open>
  What the gateway promises: the native reference it stores stays inside its directory, a limiter
  lets a burst through and no more, and of the requests with one idempotency key one is stored and
  queued, whatever else it accepts in between.  The last is proved against the contract of the
  repository and holds of the database.
\<close>

section \<open>Native references\<close>

lemma split_on_set: "w \<in> set (split_on sep s) \<Longrightarrow> set w \<subseteq> set s"
  by (induction s arbitrary: w) (fastforce split: if_splits list.splits)+

lemma fold_clean_set:
  "v \<in> set (fold (clean_step r) ws st) \<Longrightarrow> v \<in> set ws \<union> set st \<union> {''..''}"
proof (induction ws arbitrary: st)
  case (Cons w ws)
  have "set (clean_step r w st) \<subseteq> insert w (set st) \<union> {''..''}"
    by (cases st) (auto simp: clean_step_def)
  with Cons show ?case by fastforce
qed simp

lemma set_join: "set (join sep ws) \<subseteq> set sep \<union> \<Union> (set ` set ws)"
  by (induction sep ws rule: join.induct) auto

lemma set_path_clean: "set (path_clean p) \<subseteq> set p \<union> set ''./''"
proof -
  have "set v \<subseteq> set p \<union> set ''..''" if "v \<in> set (path_elems p)" for v
    using fold_clean_set [of v _ _ "[]"] that split_on_set unfolding path_elems_def by fastforce
  then have "set (join ''/'' (path_elems p)) \<subseteq> set p \<union> set ''./''"
    using set_join [of "''/''" "path_elems p"] by fastforce
  then show ?thesis by (auto simp: path_clean_elems)
qed

text \<open>A reference that is normalised once and accepted is its own normal form.\<close>

lemma normalize_native_ref_twice:
  assumes "r = normalize_native_ref ref" "trim_space r \<noteq> []"
  shows "normalize_native_ref r = r"
proof -
  let ?q = "map (\<lambda>c. if c = CHR 0x5C then CHR ''/'' else c) ref"
  have r: "r = path_clean ?q" using assms by (auto simp: normalize_native_ref_def split: if_splits)
  have "CHR 0x5C \<notin> set r" using set_path_clean [of ?q] r by auto
  then have "map (\<lambda>c. if c = CHR 0x5C then CHR ''/'' else c) r = r" by (intro map_idI) auto
  then show ?thesis using assms(2) path_clean_idem [of ?q] r by (simp add: normalize_native_ref_def)
qed

lemma validated_native_ref:
  assumes "validate_ingress i now = Inr ts" "native_ref (in_payload i) = normalize_native_ref ref"
    "native_ref (in_payload i) \<noteq> []"
  shows "\<exists>ws. ws \<noteq> [] \<and> split_on (CHR ''/'') (native_ref (in_payload i)) = ''runtime'' # ''native'' # ws \<and>
    (\<forall>w \<in> set ws. w \<notin> {[], ''.'', ''..''})"
proof -
  let ?r = "native_ref (in_payload i)"
  have inside: "\<not> native_ref_outside ?r" using assms(1,3) by (auto simp: validate_ingress_def split: if_splits)
  have "trim_space ?r \<noteq> []"
  proof
    assume "trim_space ?r = []"
    then show False using inside by (simp add: native_ref_outside_def normalize_native_ref_def)
  qed
  note nf = normalize_native_ref_twice [OF assms(2) this]
  have pre: "prefix ''runtime/native/'' ?r" using inside by (simp add: native_ref_outside_def nf Let_def)
  have "trim_space ref \<noteq> []" using assms(2,3) by (auto simp: normalize_native_ref_def)
  then obtain q where q: "?r = path_clean q" using assms(2) by (auto simp: normalize_native_ref_def)
  let ?ws = "path_elems q"
  have nr: "\<not> prefix ''/'' q" and ne: "?ws \<noteq> []"
    using pre q by (auto simp: path_clean_elems split: if_splits)
  have "split_on (CHR ''/'') (join ''/'' ?ws) = ?ws"
    by (rule split_on_join) (use ne clean_elems_no_slash [OF path_elems_clean] in auto)
  then have split: "split_on (CHR ''/'') ?r = ?ws" using q nr ne by (simp add: path_clean_elems)
  obtain tail where tail: "?r = ''runtime/native/'' @ tail" using pre by (auto simp: prefix_def)
  have "split_on (CHR ''/'') ?r = ''runtime'' # ''native'' # split_on (CHR ''/'') tail"
    by (simp add: tail)
  then have ws: "?ws = ''runtime'' # ''native'' # split_on (CHR ''/'') tail" using split by simp
  obtain n vs where nvs: "?ws = replicate n ''..'' @ vs" and vs: "\<forall>v \<in> set vs. v \<notin> {[], ''.'', ''..''}"
    using path_elems_clean [of q] unfolding clean_elems_def by blast
  have "n = 0" using nvs ws by (cases n) auto
  then have "vs = ''runtime'' # ''native'' # split_on (CHR ''/'') tail" using nvs ws by simp
  with vs have "\<forall>w \<in> set (split_on (CHR ''/'') tail). w \<notin> {[], ''.'', ''..''}" by simp
  then show ?thesis using ws split by auto
qed

section \<open>Bursts\<close>

fun allow_count :: "rounding \<Rightarrow> string \<Rightarrow> time \<Rightarrow> nat \<Rightarrow> limiter \<Rightarrow> nat" where
  "allow_count rnd key now 0 l = 0"
| "allow_count rnd key now (Suc n) l =
     (let (ok, l') = allow rnd key now l in (if ok then 1 else 0) + allow_count rnd key now n l')"

lemma limiter_gc_keeps:
  "lm_buckets l k = Some b \<Longrightarrow> bk_last b = now \<Longrightarrow> lm_buckets (limiter_gc now l) k = Some b"
  by (simp add: limiter_gc_def bucket_expiry_def)

lemma limiter_gc_new: "lm_buckets l k = None \<Longrightarrow> lm_buckets (limiter_gc now l) k = None"
  by (simp add: limiter_gc_def)

lemma allow_count_spent:
  assumes "\<And>i::int. - 1 \<le> i \<Longrightarrow> i \<le> N \<Longrightarrow> rnd (of_int i) = of_int i" "0 \<le> N"
  shows "lm_buckets l key = Some \<lparr> bk_tokens = of_int t, bk_last = now \<rparr> \<Longrightarrow> t \<le> N \<Longrightarrow>
    allow_count rnd key now n l = min n (nat t)"
proof (induction n arbitrary: l t)
  case (Suc n)
  have z: "duration_seconds rnd 0 = 0" using assms(1) [of 0] assms(2) by (simp add: duration_seconds_def int_quot_def)
  note gc = limiter_gc_keeps [OF Suc.prems(1), of now, simplified]
  show ?case
  proof (cases "t < 1")
    case True
    then have "allow rnd key now l = (False, (limiter_gc now l)\<lparr>lm_buckets := (lm_buckets (limiter_gc now l))(key \<mapsto> \<lparr> bk_tokens = of_int t, bk_last = now \<rparr>)\<rparr>)"
      by (simp add: allow_def gc refill_def z Let_def)
    then show ?thesis using True Suc.IH [of _ t] Suc.prems(2) by simp
  next
    case False
    then have "rnd (of_int t - 1) = of_int (t - 1)" using assms(1) [of "t - 1"] Suc.prems(2) by simp
    with False have "allow rnd key now l = (True, (limiter_gc now l)\<lparr>lm_buckets := (lm_buckets (limiter_gc now l))(key \<mapsto> \<lparr> bk_tokens = of_int (t - 1), bk_last = now \<rparr>)\<rparr>)"
      by (simp add: allow_def gc refill_def z Let_def)
    then show ?thesis using False Suc.IH [of _ "t - 1"] Suc.prems(2) by (auto simp: min_def)
  qed
qed simp

text \<open>
  A rate limiter whose burst is the integer N, exactly representable like the numbers below
  it, lets exactly the first max(1, N) of the simultaneous requests of a new key through.
\<close>

theorem limiter_burst:
  assumes "\<And>i::int. - 1 \<le> i \<Longrightarrow> i \<le> N \<Longrightarrow> rnd (of_int i) = of_int i" "0 \<le> N"
    and "lm_burst l = of_int N" "lm_buckets l key = None"
  shows "allow_count rnd key now n l = min n (nat (max 1 N))"
proof (cases n)
  case (Suc m)
  have "rnd (of_int N - 1) = of_int (N - 1)" using assms(1) [of "N - 1"] assms(2) by simp
  moreover have "lm_burst (limiter_gc now l) = of_int N" using assms(3) by (simp add: limiter_gc_def)
  ultimately have "allow rnd key now l = (True, (limiter_gc now l)\<lparr>lm_buckets :=
      (lm_buckets (limiter_gc now l))(key \<mapsto> \<lparr> bk_tokens = of_int (N - 1), bk_last = now \<rparr>)\<rparr>)"
    by (simp add: allow_def limiter_gc_new [OF assms(4)] Let_def)
  then show ?thesis using Suc allow_count_spent [OF assms(1,2), of _ key "N - 1" now m] by (auto simp: min_def)
qed simp

theorem limiter_burst_witness:
  "allow_count id ''u'' 7 5 (new_limiter 1 3) = 3"
  using limiter_burst [of 3 id "new_limiter 1 3" "''u''" 7 5] by (simp add: new_limiter_def)

section \<open>The repository's contract\<close>

text \<open>
  \<open>stored\<close> reads, for an idempotency key, the payload hash stored under it and the result a
  duplicate gets.
\<close>

locale ingest_contract =
  fixes repo :: "'s event_repository" and stored :: "'s \<Rightarrow> string \<Rightarrow> (string \<times> persist_result) option"
  assumes persist_known: "stored s (pq_idempotency_key req) = Some (h, r) \<Longrightarrow>
      er_persist_event repo tenant key req hash now s = (res, s') \<Longrightarrow>
      s' = s \<and> pr_duplicate r \<and> (res = (if hash = h then Inr r else Inl IdempotencyConflict) \<or> (\<exists>m. res = Inl (DriverError m)))"
    and persist_new: "stored s (pq_idempotency_key req) = None \<Longrightarrow>
      er_persist_event repo tenant key req hash now s = (Inr r, s') \<Longrightarrow>
      \<not> pr_duplicate r \<and> (\<exists>r'. stored s' = (stored s)(pq_idempotency_key req \<mapsto> (hash, r')) \<and> pr_event_id r' = pr_event_id r)"
    and persist_fails: "er_persist_event repo tenant key req hash now s = (Inl e, s') \<Longrightarrow> s' = s"
    and mark_law: "stored (snd (er_mark_event_queued repo eid now s)) = stored s"
begin

lemma enqueue_stored_keeps:
  "enqueue_stored gw repo r now st = (g, st') \<Longrightarrow>
     stored (gs_store st') = stored (gs_store st) \<and> gr_event_id g = pr_event_id r \<and> gr_duplicate g = pr_duplicate r \<and>
     (pr_duplicate r \<longrightarrow> \<not> gr_enqueued g \<and> gs_queue st' = gs_queue st)"
  by (auto simp: enqueue_stored_def to_gateway_result_def Let_def mark_law split: option.splits if_splits prod.splits)

lemma accept_persist_cases:
  assumes "accept_persist gw repo i b dec ts now st = (res, st')"
  shows "(\<forall>k v. stored (gs_store st) k = Some v \<longrightarrow> stored (gs_store st') k = Some v) \<and>
    (\<forall>a. res = Inr a \<longrightarrow>
       (\<exists>h r. stored (gs_store st') (in_idempotency_key i) = Some (h, r) \<and> pr_event_id r = gr_event_id (ai_result a)) \<and>
       ai_status_code a = (if gr_duplicate (ai_result a) then 200 else 202) \<and>
       gr_duplicate (ai_result a) = (stored (gs_store st) (in_idempotency_key i) \<noteq> None) \<and>
       (gr_duplicate (ai_result a) \<longrightarrow> \<not> gr_enqueued (ai_result a) \<and> gs_queue st' = gs_queue st))"
proof -
  let ?pt = "if rd_payload_type dec \<noteq> [] then rd_payload_type dec else payload_type (in_payload i)"
  let ?eff = "i\<lparr>in_payload := (in_payload i)\<lparr>payload_type := ?pt\<rparr>\<rparr>"
  show ?thesis
  proof (cases "gw_payload_hash gw ?eff")
    case None
    then show ?thesis using assms by (auto simp: accept_persist_def Let_def)
  next
    case (Some hash)
    define req where "req = \<lparr> pq_source = in_source i, pq_conversation = in_conversation i, pq_payload = in_payload ?eff,
        pq_idempotency_key = in_idempotency_key i, pq_dm_scope = bc_scope b \<rparr>"
    have key: "pq_idempotency_key req = in_idempotency_key i" by (simp add: req_def)
    obtain p s' where p: "er_persist_event repo (bc_tenant_id b) (bc_session_key b) req hash ts (gs_store st) = (p, s')"
      by fastforce
    have def: "accept_persist gw repo i b dec ts now st =
        (case p of Inl e \<Rightarrow> (Inl (persist_api_error (gw_error_text gw) e), st\<lparr>gs_store := s'\<rparr>)
         | Inr r \<Rightarrow> (let (g, st') = enqueue_stored gw repo r now (st\<lparr>gs_store := s'\<rparr>) in (Inr (to_accepted g), st')))"
      using p by (cases p) (simp_all add: accept_persist_def Some Let_def req_def)
    show ?thesis
    proof (cases p)
      case (Inl e)
      with p persist_fails have "s' = gs_store st" by blast
      then show ?thesis using assms Inl by (auto simp: def)
    next
      case (Inr r)
      obtain g st1 where e: "enqueue_stored gw repo r now (st\<lparr>gs_store := s'\<rparr>) = (g, st1)" by fastforce
      have res: "res = Inr (to_accepted g)" "st' = st1"
        using assms Inr e by (auto simp: def)
      note k = enqueue_stored_keeps [OF e]
      show ?thesis
      proof (cases "stored (gs_store st) (in_idempotency_key i)")
        case None
        have "\<not> pr_duplicate r \<and> (\<exists>r'. stored s' = (stored (gs_store st))(in_idempotency_key i \<mapsto> (hash, r')) \<and>
            pr_event_id r' = pr_event_id r)"
          using persist_new [of "gs_store st" req] None p Inr by (simp add: key)
        then show ?thesis using k res None by (auto simp: to_accepted_def)
      next
        case known: (Some v)
        obtain h0 r0 where v: "v = (h0, r0)" by fastforce
        have "s' = gs_store st" "pr_duplicate r0" "r = r0"
          using persist_known [of "gs_store st" req h0 r0, OF _ p] known Inr v by (auto simp: key split: if_splits)
        then show ?thesis using k res known v by (auto simp: to_accepted_def)
      qed
    qed
  qed
qed

lemma accept_cases:
  assumes "gw_repo gw = Some repo" "accept gw i now st = (res, st')"
  shows "(\<forall>k v. stored (gs_store st) k = Some v \<longrightarrow> stored (gs_store st') k = Some v) \<and>
    (\<forall>a. res = Inr a \<longrightarrow>
       (\<exists>h r. stored (gs_store st') (in_idempotency_key i) = Some (h, r) \<and> pr_event_id r = gr_event_id (ai_result a)) \<and>
       ai_status_code a = (if gr_duplicate (ai_result a) then 200 else 202) \<and>
       gr_duplicate (ai_result a) = (stored (gs_store st) (in_idempotency_key i) \<noteq> None) \<and>
       (gr_duplicate (ai_result a) \<longrightarrow> \<not> gr_enqueued (ai_result a) \<and> gs_queue st' = gs_queue st))"
proof -
  let ?i = "i\<lparr>in_payload := (in_payload i)\<lparr>native_ref := normalize_native_ref (native_ref (in_payload i))\<rparr>\<rparr>"
  consider (err) e where "res = Inl e" "gs_store st' = gs_store st"
    | (go) b dec ts st1 where "accept_persist gw repo ?i b dec ts now st1 = (res, st')"
        "gs_store st1 = gs_store st" "gs_queue st1 = gs_queue st"
    using assms by (auto simp: accept_def Let_def charge_limiters_def split: sum.splits prod.splits if_splits)
  then show ?thesis
  proof cases
    case err
    then show ?thesis by simp
  next
    case go
    from accept_persist_cases [OF go(1)] go(2,3) show ?thesis by simp
  qed
qed

end

section \<open>Sequences of requests\<close>

fun accept_all ::
  "('s, 'q) gateway_service \<Rightarrow> (normalized_ingress \<times> time) list \<Rightarrow> ('s, 'q) gateway_state \<Rightarrow>
     (api_error + accepted_ingest) list" where
  "accept_all gw [] st = []"
| "accept_all gw ((i, now) # qs) st = (let (r, st') = accept gw i now st in r # accept_all gw qs st')"

lemma length_accept_all [simp]: "length (accept_all gw qs st) = length qs"
  by (induction gw qs st rule: accept_all.induct) (auto split: prod.splits)

context ingest_contract
begin

lemma accept_all_known:
  assumes "gw_repo gw = Some repo"
  shows "stored (gs_store st) k = Some (h, r) \<Longrightarrow> n < length qs \<Longrightarrow> in_idempotency_key (fst (qs ! n)) = k \<Longrightarrow>
    accept_all gw qs st ! n = Inr a \<Longrightarrow>
    gr_duplicate (ai_result a) \<and> \<not> gr_enqueued (ai_result a) \<and> ai_status_code a = 200 \<and>
    gr_event_id (ai_result a) = pr_event_id r"
proof (induction qs arbitrary: st n)
  case (Cons q qs)
  obtain i now where q: "q = (i, now)" by fastforce
  obtain res st' where ac: "accept gw i now st = (res, st')" by fastforce
  note c = accept_cases [OF assms ac]
  have kept: "stored (gs_store st') k = Some (h, r)" using c Cons.prems(1) by blast
  show ?case
  proof (cases n)
    case 0
    then show ?thesis using c kept Cons.prems q ac by auto
  next
    case (Suc m)
    then show ?thesis using Cons.IH [OF kept, of m] Cons.prems q ac by simp
  qed
qed simp

lemma accept_all_once:
  assumes "gw_repo gw = Some repo"
  shows "m < n \<Longrightarrow> n < length qs \<Longrightarrow> in_idempotency_key (fst (qs ! m)) = in_idempotency_key (fst (qs ! n)) \<Longrightarrow>
    accept_all gw qs st ! m = Inr a \<Longrightarrow> accept_all gw qs st ! n = Inr b \<Longrightarrow>
    gr_duplicate (ai_result b) \<and> \<not> gr_enqueued (ai_result b) \<and> ai_status_code b = 200 \<and>
    gr_event_id (ai_result b) = gr_event_id (ai_result a)"
proof (induction qs arbitrary: st m n)
  case (Cons q qs)
  obtain i now where q: "q = (i, now)" by fastforce
  obtain res st' where ac: "accept gw i now st = (res, st')" by fastforce
  obtain n' where n: "n = Suc n'" using Cons.prems(1) by (cases n) auto
  show ?case
  proof (cases m)
    case 0
    obtain h r where "stored (gs_store st') (in_idempotency_key i) = Some (h, r)" "pr_event_id r = gr_event_id (ai_result a)"
      using accept_cases [OF assms ac] Cons.prems(4) 0 q ac by auto
    then show ?thesis
      using accept_all_known [OF assms, of st' "in_idempotency_key i" h r n' qs b] Cons.prems 0 n q ac by simp
  next
    case (Suc m')
    then show ?thesis using Cons.IH [of m' n' st'] Cons.prems n q ac by simp
  qed
qed simp

end

section \<open>The database as the repository\<close>

definition db_ingest :: "(string \<Rightarrow> tx_fault) \<Rightarrow> (store_error \<Rightarrow> string) \<Rightarrow> database event_repository" where
  "db_ingest flt text = \<lparr>
     er_persist_event = (\<lambda>tenant key req hash now. persist_event (flt ''persist'') tenant key req hash now),
     er_mark_event_queued = (\<lambda>eid now d. map_prod (error_of text) id (mark_event_queued (flt ''mark'') eid now d)) \<rparr>"

definition db_stored :: "database \<Rightarrow> string \<Rightarrow> (string \<times> persist_result) option" where
  "db_stored d k = map_option (\<lambda>row. (ik_payload_hash row, duplicate_result row)) (find_row ik_key k (db_idempotency d))"

lemma db_persist_new:
  assumes "persist_event flt tenant key req hash now d = (Inr r, d')" "db_stored d (pq_idempotency_key req) = None"
  shows "\<not> pr_duplicate r \<and> (\<exists>r'. db_stored d' = (db_stored d)(pq_idempotency_key req \<mapsto> (hash, r')) \<and> pr_event_id r' = pr_event_id r)"
proof -
  have t: "persist_event_tx tenant key req hash now d = Inr (r, d')"
    using assms(1) unfolding persist_event_def by (auto dest: with_writer_tx_InrD)
  have none: "find_row ik_key (pq_idempotency_key req) (db_idempotency d) = None"
    using assms(2) by (simp add: db_stored_def)
  then have new: "pq_idempotency_key req \<notin> ik_key ` set (db_idempotency d)" by (simp add: find_row_None)
  from persist_event_tx_newD [OF t new] obtain sid dx where
    "d' = dx\<lparr>db_sessions := db_sessions d', db_idempotency := db_idempotency d @ [new_idempotency_row key sid req hash now],
           db_events := db_events d @ [new_event_row tenant key sid req hash now]\<rparr>"
    and r: "r = \<lparr> pr_event_id = event_id_for now, pr_session_key = key, pr_session_id = sid,
         pr_received_at = now, pr_payload_hash = hash, pr_duplicate = False, pr_existing_event_id = [] \<rparr>" by metis
  then have idem: "db_idempotency d' = db_idempotency d @ [new_idempotency_row key sid req hash now]"
    by (metis database.select_convs(6) database.update_convs(5) database.surjective database.update_convs(6))
  have "db_stored d' = (db_stored d)(pq_idempotency_key req \<mapsto> (hash, duplicate_result (new_idempotency_row key sid req hash now)))"
  proof
    fix k
    show "db_stored d' k = ((db_stored d)(pq_idempotency_key req \<mapsto> (hash, duplicate_result (new_idempotency_row key sid req hash now)))) k"
      using none by (cases "find_row ik_key k (db_idempotency d)")
        (auto simp: db_stored_def idem, auto simp: find_row_def new_idempotency_row_def)
  qed
  moreover have "pr_event_id (duplicate_result (new_idempotency_row key sid req hash now)) = pr_event_id r"
    using r by (simp add: duplicate_result_def new_idempotency_row_def)
  ultimately show ?thesis using r by auto
qed

lemma db_persist_known:
  assumes "db_stored d (pq_idempotency_key req) = Some (h, r)" "persist_event flt tenant key req hash now d = (res, d')"
  shows "d' = d \<and> pr_duplicate r \<and> (res = (if hash = h then Inr r else Inl IdempotencyConflict) \<or> (\<exists>m. res = Inl (DriverError m)))"
proof -
  obtain row where row: "find_row ik_key (pq_idempotency_key req) (db_idempotency d) = Some row"
    "h = ik_payload_hash row" "r = duplicate_result row" using assms(1) by (auto simp: db_stored_def)
  show ?thesis using assms(2) row
    by (cases flt) (auto simp: persist_event_def with_writer_tx_def persist_event_tx_def duplicate_result_def split: if_splits)
qed

lemma db_mark_stored: "db_stored (snd (mark_event_queued flt eid now d)) = db_stored d"
  by (cases flt) (auto simp: mark_event_queued_def exec_writer_def with_writer_tx_def db_stored_def fun_eq_iff)

interpretation db_ingests: ingest_contract "db_ingest flt etext" db_stored for flt etext
proof (unfold_locales, goal_cases)
  case (1 s req h r tenant key hash now res s')
  then show ?case using db_persist_known by (auto simp: db_ingest_def)
next
  case (2 s req tenant key hash now r s')
  then show ?case using db_persist_new by (auto simp: db_ingest_def)
next
  case (3 tenant key req hash now s e s')
  then show ?case by (auto simp: db_ingest_def persist_event_def dest: with_writer_tx_Inl)
next
  case (4 eid now s)
  then show ?case by (simp add: db_ingest_def db_mark_stored)
qed

text \<open>
  C25: In a sequence of requests to the gateway on the database, of two accepted requests with
  the same idempotency key the later one is a duplicate: status 200, the event id of the earlier
  one, and nothing is enqueued.
\<close>

theorem idempotency_key_accepted_once:
  assumes "gw_repo gw = Some (db_ingest flt etext)" "m < n" "n < length qs"
    and "in_idempotency_key (fst (qs ! m)) = in_idempotency_key (fst (qs ! n))"
    and "accept_all gw qs st ! m = Inr a" "accept_all gw qs st ! n = Inr b"
  shows "gr_duplicate (ai_result b) \<and> \<not> gr_enqueued (ai_result b) \<and> ai_status_code b = 200 \<and>
    gr_event_id (ai_result b) = gr_event_id (ai_result a)"
  using db_ingests.accept_all_once [OF assms] by simp

text \<open>A service on the empty database, and one request sent twice.\<close>

definition demo_ingress :: normalized_ingress where
  "demo_ingress = \<lparr> in_source = ''api'', in_conversation = \<lparr> conversation_id = ''c'', thread_id = [],
     channel_type = ''group'', participant_id = [] \<rparr>, in_session_key_hint = [], in_idempotency_key = ''k'',
     in_timestamp = 0, in_dm_scope = [], in_payload = \<lparr> payload_type = ''note'', payload_text = ''hi'',
       mentions = [], attachments = [], native = None, native_ref = [], extra = [] \<rparr>,
     in_metadata = [] \<rparr>"

definition demo_gateway :: "(database, unit) gateway_service" where
  "demo_gateway = \<lparr> gw_tenant_id = ''t'', gw_repo = Some (db_ingest (\<lambda>_. TxOk) (\<lambda>_. [])), gw_try_enqueue = None,
     gw_sha256 = id, gw_lookup = (\<lambda>_. None), gw_payloads = Some builtin_registry, gw_payload_hash = (\<lambda>_. Some ''h''),
     gw_error_text = (\<lambda>_. []), gw_rounding = id \<rparr>"

definition demo_gateway_state :: "(database, unit) gateway_state" where
  "demo_gateway_state = \<lparr> gs_store = empty_db, gs_queue = (), gs_tenant_limiter = new_limiter 1 5,
     gs_session_limiter = new_limiter 1 5 \<rparr>"

lemma demo_norm:
  "demo_ingress\<lparr>in_payload := (in_payload demo_ingress)\<lparr>native_ref := normalize_native_ref (native_ref (in_payload demo_ingress))\<rparr>\<rparr>
     = demo_ingress"
  by (simp add: demo_ingress_def normalize_native_ref_def)

lemma demo_valid: "now \<in> {0, 1} \<Longrightarrow> validate_ingress demo_ingress now = Inr 0"
  by (auto simp: validate_ingress_def demo_ingress_def is_zero_time_def zero_time_def max_timestamp_drift_def)

lemma demo_bound: "\<exists>k. resolve_binding id ''t'' None demo_ingress = Inr \<lparr> bc_tenant_id = ''t'', bc_session_key = k,
    bc_session_id = [], bc_scope = default_scope, bc_conversation = in_conversation demo_ingress,
    bc_metadata = with_hint [] HintScopeSource ScopeSourceDefault \<rparr>"
  by (simp add: resolve_binding_def resolve_scope_def scope_from_session_hint_def compute_key_def demo_ingress_def)

lemma demo_key: "\<exists>k. session_rate_limit_key id ''t'' (in_conversation demo_ingress) = Inr k"
  by (simp add: session_rate_limit_key_def compute_key_def demo_ingress_def)

lemma demo_persist_new: "\<exists>r d. persist_event TxOk tenant key req h 0 empty_db = (Inr r, d)"
  by (simp add: empty_db_def persist_event_def with_writer_tx_def persist_event_tx_def find_row_def
      upsert_conversation_dm_scope_tx_def resolve_session_tx_def require_row_def insert_row_def insert_event_def
      Let_def upsert_row_def)

lemma demo_persist_known:
  "db_stored d (pq_idempotency_key req) = Some (h, r) \<Longrightarrow> persist_event TxOk tenant key req h now d = (Inr r, d)"
  by (auto simp: db_stored_def persist_event_def with_writer_tx_def persist_event_tx_def)

lemma demo_accept_persist:
  assumes "gs_store st = empty_db \<or> db_stored (gs_store st) ''k'' = Some (''h'', r)"
  shows "\<exists>a d. accept_persist demo_gateway (db_ingest (\<lambda>_. TxOk) (\<lambda>_. [])) demo_ingress b dec 0 now st = (Inr a, st\<lparr>gs_store := d\<rparr>) \<and>
    (\<exists>r. db_stored d ''k'' = Some (''h'', r))"
proof -
  define pt where "pt = (if rd_payload_type dec \<noteq> [] then rd_payload_type dec else payload_type (in_payload demo_ingress))"
  define req where "req = \<lparr> pq_source = in_source demo_ingress, pq_conversation = in_conversation demo_ingress,
    pq_payload = (in_payload demo_ingress)\<lparr>payload_type := pt\<rparr>, pq_idempotency_key = ''k'', pq_dm_scope = bc_scope b \<rparr>"
  have key: "in_idempotency_key demo_ingress = ''k''" "pq_idempotency_key req = ''k''"
    by (simp_all add: demo_ingress_def req_def)
  have exp: "accept_persist demo_gateway (db_ingest (\<lambda>_. TxOk) (\<lambda>_. [])) demo_ingress b dec 0 now st =
    (case persist_event TxOk (bc_tenant_id b) (bc_session_key b) req ''h'' 0 (gs_store st) of
       (Inl e, d) \<Rightarrow> (Inl (persist_api_error (\<lambda>_. []) e), st\<lparr>gs_store := d\<rparr>)
     | (Inr stored, d) \<Rightarrow> (Inr (to_accepted (to_gateway_result stored)), st\<lparr>gs_store := d\<rparr>))"
    by (simp add: accept_persist_def demo_gateway_def db_ingest_def key Let_def req_def pt_def enqueue_stored_def
        split: sum.split prod.split)
  show ?thesis
  proof (cases "db_stored (gs_store st) ''k'' = Some (''h'', r)")
    case True
    have "persist_event TxOk (bc_tenant_id b) (bc_session_key b) req ''h'' 0 (gs_store st) = (Inr r, gs_store st)"
      by (rule demo_persist_known) (simp add: key True)
    then show ?thesis using exp True by (auto intro!: exI [of _ "gs_store st"])
  next
    case False
    then have e: "gs_store st = empty_db" using assms by blast
    obtain r' d where p: "persist_event TxOk (bc_tenant_id b) (bc_session_key b) req ''h'' 0 empty_db = (Inr r', d)"
      using demo_persist_new by blast
    have "db_stored empty_db (pq_idempotency_key req) = None" by (simp add: db_stored_def empty_db_def find_row_def)
    then have "\<exists>r. db_stored d ''k'' = Some (''h'', r)" using db_persist_new [OF p] key by auto
    then show ?thesis using exp p e by auto
  qed
qed

lemma demo_accept:
  assumes "gs_store st = empty_db \<or> db_stored (gs_store st) ''k'' = Some (''h'', r)"
    "charge_limiters id ''t'' lk 0 st = (True, st1)" "gs_store st1 = gs_store st"
    "session_rate_limit_key id ''t'' (in_conversation demo_ingress) = Inr lk"
  shows "\<exists>a d. accept demo_gateway demo_ingress 0 st = (Inr a, st1\<lparr>gs_store := d\<rparr>) \<and>
    (\<exists>r. db_stored d ''k'' = Some (''h'', r))"
proof -
  obtain b where b: "resolve_binding id ''t'' None demo_ingress = Inr b" using demo_bound by blast
  obtain dec where dec: "route_resolve (Some builtin_registry) demo_ingress b = Inr dec"
    by (simp add: route_resolve_def Let_def)
  have "accept demo_gateway demo_ingress 0 st =
      accept_persist demo_gateway (db_ingest (\<lambda>_. TxOk) (\<lambda>_. [])) demo_ingress b dec 0 0 st1"
    using assms(2,4) b dec demo_valid [of 0] demo_norm by (simp add: accept_def Let_def demo_gateway_def)
  then show ?thesis using demo_accept_persist [of st1 r b dec 0] assms(1,3) by simp
qed

lemma demo_requests:
  "\<exists>a b. accept_all demo_gateway [(demo_ingress, 0), (demo_ingress, 0)] demo_gateway_state = [Inr a, Inr b]"
proof -
  obtain lk where lk: "session_rate_limit_key id ''t'' (in_conversation demo_ingress) = Inr lk" using demo_key by blast
  define l1 where "l1 k = (new_limiter 1 5)\<lparr>lm_gc_counter := 1, lm_buckets := [k \<mapsto> \<lparr> bk_tokens = 4, bk_last = 0 \<rparr>]\<rparr>" for k :: string
  have one: "allow id k 0 (new_limiter 1 5) = (True, l1 k)" for k
    by (simp add: l1_def allow_def new_limiter_def limiter_gc_def gc_interval_def)
  have two: "\<exists>l. allow id k 0 (l1 k) = (True, l)" for k
    by (simp add: l1_def allow_def new_limiter_def limiter_gc_def gc_interval_def refill_def duration_seconds_def int_quot_def Let_def)
  define st1 where "st1 = demo_gateway_state\<lparr>gs_tenant_limiter := l1 ''t'', gs_session_limiter := l1 lk\<rparr>"
  have c1: "charge_limiters id ''t'' lk 0 demo_gateway_state = (True, st1)"
    by (simp add: charge_limiters_def one st1_def demo_gateway_state_def)
  have "gs_store demo_gateway_state = empty_db" by (simp add: demo_gateway_state_def)
  then obtain a d r where a: "accept demo_gateway demo_ingress 0 demo_gateway_state = (Inr a, st1\<lparr>gs_store := d\<rparr>)"
      "db_stored d ''k'' = Some (''h'', r)"
    using demo_accept [OF _ c1 _ lk] by (auto simp: st1_def)
  obtain la lb where "allow id ''t'' 0 (l1 ''t'') = (True, la)" "allow id lk 0 (l1 lk) = (True, lb)" using two by meson
  then have c2: "charge_limiters id ''t'' lk 0 (st1\<lparr>gs_store := d\<rparr>) =
      (True, st1\<lparr>gs_store := d, gs_tenant_limiter := la, gs_session_limiter := lb\<rparr>)"
    by (simp add: charge_limiters_def st1_def)
  obtain b st2 where "accept demo_gateway demo_ingress 0 (st1\<lparr>gs_store := d\<rparr>) = (Inr b, st2)"
    using demo_accept [OF _ c2 _ lk, of r] a(2) by auto
  then show ?thesis using a(1) by simp
qed

theorem idempotency_key_accepted_once_witness:
  "\<exists>a b. accept_all demo_gateway [(demo_ingress, 0), (demo_ingress, 0)] demo_gateway_state = [Inr a, Inr b] \<and>
     gr_duplicate (ai_result b) \<and> \<not> gr_enqueued (ai_result b) \<and> gr_event_id (ai_result b) = gr_event_id (ai_result a)"
proof -
  obtain a b where ab: "accept_all demo_gateway [(demo_ingress, 0), (demo_ingress, 0)] demo_gateway_state = [Inr a, Inr b]"
    using demo_requests by blast
  show ?thesis
    using idempotency_key_accepted_once [of demo_gateway "\<lambda>_. TxOk" "\<lambda>_. []" 0 1
        "[(demo_ingress, 0), (demo_ingress, 0)]" demo_gateway_state a b] ab
    by (simp add: demo_gateway_def)
qed

section \<open>Native references the gateway accepts\<close>

text \<open>
  A native reference that passed normalisation and validation names a path below
  runtime/native: its elements are runtime, native and at least one more, none of which is
  empty, a dot or two dots.
\<close>

theorem accepted_native_ref_confined:
  assumes "validate_ingress i now = Inr ts" "native_ref (in_payload i) = normalize_native_ref ref" "native_ref (in_payload i) \<noteq> []"
  shows "\<exists>ws. ws \<noteq> [] \<and> split_on (CHR ''/'') (native_ref (in_payload i)) = ''runtime'' # ''native'' # ws \<and>
    (\<forall>w \<in> set ws. w \<notin> {[], ''.'', ''..''})"
  by (rule validated_native_ref [OF assms])

theorem accepted_native_ref_confined_witness:
  "\<exists>ws. ws \<noteq> [] \<and> split_on (CHR ''/'') ''runtime/native/a.json'' = ''runtime'' # ''native'' # ws \<and>
    ''..'' \<notin> set ws"
proof -
  have n: "normalize_native_ref ''runtime/native/./x/../a.json'' = ''runtime/native/a.json''"
    "normalize_native_ref ''runtime/native/a.json'' = ''runtime/native/a.json''"
    by code_simp+
  let ?i = "demo_ingress\<lparr>in_payload := (in_payload demo_ingress)\<lparr>native_ref := ''runtime/native/a.json''\<rparr>\<rparr>"
  have "validate_ingress ?i 0 = Inr 0"
    by (simp add: validate_ingress_def demo_ingress_def native_ref_outside_def n windows_volume_path_def
        is_zero_time_def zero_time_def max_timestamp_drift_def)
  from accepted_native_ref_confined [OF this, of "''runtime/native/./x/../a.json''"] n show ?thesis by force
qed

end
