(* ===== verification/Http_System.thy ===== *)
theory Http_System
  imports Http_Server Gateway_System Db_Invariant
begin

text \<open>
  The HTTP surface as a whole: what an accepted ingest answers can be read back through the routes,
  and without the key nothing but the health routes is answered.
\<close>

section \<open>An accepted event is in the table\<close>

definition stored_event :: "database \<Rightarrow> string \<Rightarrow> string \<Rightarrow> string \<Rightarrow> string \<Rightarrow> bool" where
  "stored_event d i hash key sid =
     (\<exists>e. find_row ev_event_id i (db_events d) = Some e \<and> ev_payload_hash e = hash \<and> ev_session_key e = key \<and>
        ev_session_id e = sid)"

lemma persist_event_stored:
  assumes "db_ok d" "persist_event flt tenant key req hash now d = (Inr r, d')"
  shows "stored_event d' (pr_event_id r) (pr_payload_hash r) (pr_session_key r) (pr_session_id r) \<and>
    (pr_event_id r = event_id_for now \<or> pr_event_id r \<in> ev_event_id ` set (db_events d))"
proof -
  have t: "persist_event_tx tenant key req hash now d = Inr (r, d')"
    using assms(2) unfolding persist_event_def by (auto dest: with_writer_tx_InrD)
  show ?thesis
  proof (cases "find_row ik_key (pq_idempotency_key req) (db_idempotency d)")
    case None
    then have new: "pq_idempotency_key req \<notin> ik_key ` set (db_idempotency d)" by (simp add: find_row_None)
    from persist_event_tx_newD [OF t new] obtain sid where
      ev: "db_events d' = db_events d @ [new_event_row tenant key sid req hash now]"
      and r: "r = \<lparr> pr_event_id = event_id_for now, pr_session_key = key, pr_session_id = sid,
           pr_received_at = now, pr_payload_hash = hash, pr_duplicate = False, pr_existing_event_id = [] \<rparr>"
      and fresh: "event_id_for now \<notin> ev_event_id ` set (db_events d)"
      by (metis database.select_convs(5) database.update_convs(5) database.surjective)
    have "find_row ev_event_id (event_id_for now) (db_events d) = None" using fresh by (simp add: find_row_None)
    then show ?thesis by (simp add: stored_event_def ev r) (simp add: new_event_row_def)
  next
    case (Some row)
    then have r: "r = duplicate_result row" "d' = d"
      using t by (auto simp: persist_event_tx_def split: if_splits)
    have "row \<in> set (db_idempotency d)" using Some by (auto dest: find_row_SomeD)
    then have "idem_core row \<in> event_core ` set (db_events d)"
      using db_okD(2) [OF assms(1)] unfolding idem_mirrors_def by (metis image_eqI list.set_map)
    then obtain e where e: "e \<in> set (db_events d)" "idem_core row = event_core e" by auto
    have "find_row ev_event_id (ev_event_id e) (db_events d) = Some e"
      using e(1) db_okD(1) [OF assms(1)] by (subst find_row_Some_iff) (auto simp: keys_unique_def)
    then show ?thesis
      using e by (auto simp: stored_event_def r duplicate_result_def idem_core_def event_core_def)
  qed
qed

lemma mark_event_stored:
  "stored_event (snd (mark_event_queued flt eid now d)) i h k s = stored_event d i h k s"
proof -
  have "find_row ev_event_id i (db_events (snd (mark_event_queued flt eid now d))) = map_option
      (\<lambda>e. if flt = TxOk \<and> ev_event_id e = eid \<and> ev_status e = EventStatusReceived
           then e\<lparr>ev_status := EventStatusQueued, ev_updated_at := time_text now\<rparr> else e)
      (find_row ev_event_id i (db_events d))"
    by (cases flt) (simp_all add: mark_event_queued_def exec_writer_def with_writer_tx_def find_row_update_where option.map_ident)
  then show ?thesis
    by (cases "find_row ev_event_id i (db_events d)") (simp_all add: stored_event_def)
qed

lemma event_id_for_nonempty [simp]: "event_id_for t \<noteq> []"
  by (simp add: event_id_for_def)

definition accepted_stored :: "database \<Rightarrow> ingest_response \<Rightarrow> bool" where
  "accepted_stored d r = stored_event d (ir_event_id r) (ir_payload_hash r) (ir_session_key r) (ir_active_session_id r)"

lemma accept_stored:
  assumes "gw_repo gw = Some (db_ingest flt etext)" "db_ok (gs_store st)" "accept gw i now st = (Inr a, st')"
  shows "accepted_stored (gs_store st') (ai_response a) \<and>
    ([] \<notin> ev_event_id ` set (db_events (gs_store st)) \<longrightarrow> ir_event_id (ai_response a) \<noteq> [])"
proof -
  obtain i' b dec ts st1 where p: "accept_persist gw (db_ingest flt etext) i' b dec ts now st1 = (Inr a, st')"
    and s1: "gs_store st1 = gs_store st"
    using assms(1,3) by (auto simp: accept_def Let_def charge_limiters_def split: sum.splits prod.splits if_splits)
  from p obtain key req hash r d' g where
    e: "persist_event (flt ''persist'') (bc_tenant_id b) key req hash ts (gs_store st1) = (Inr r, d')"
    and q: "enqueue_stored gw (db_ingest flt etext) r now (st1\<lparr>gs_store := d'\<rparr>) = (g, st')"
    and a: "a = to_accepted g"
    by (auto simp: accept_persist_def Let_def db_ingest_def split: option.splits sum.splits prod.splits)
  have d: "stored_event d' (pr_event_id r) (pr_payload_hash r) (pr_session_key r) (pr_session_id r) \<and>
      (pr_event_id r = event_id_for ts \<or> pr_event_id r \<in> ev_event_id ` set (db_events (gs_store st)))"
    using persist_event_stored [OF _ e] assms(2) s1 by simp
  have g: "gr_event_id g = pr_event_id r \<and> gr_payload_hash g = pr_payload_hash r \<and>
      gr_session_key g = pr_session_key r \<and> gr_session_id g = pr_session_id r \<and>
      (gs_store st' = d' \<or> gs_store st' = snd (mark_event_queued (flt ''mark'') (pr_event_id r) now d'))"
    using q by (auto simp: enqueue_stored_def to_gateway_result_def Let_def db_ingest_def
        split: option.splits if_splits prod.splits)
  then have "stored_event (gs_store st') i h k s = stored_event d' i h k s" for i h k s
    by (auto simp: mark_event_stored)
  moreover have "pr_event_id r \<noteq> []" if "[] \<notin> ev_event_id ` set (db_events (gs_store st))"
    using d that by (metis event_id_for_nonempty)
  ultimately show ?thesis using d g by (simp add: a accepted_stored_def to_accepted_def)
qed

section \<open>Reading it back\<close>

text \<open>The server on a gateway and its database; \<open>clock\<close> is what the gateway and the queries read.\<close>

definition database_routes ::
  "string \<Rightarrow> (database, 'q) gateway_service \<Rightarrow> time \<Rightarrow> ((database, 'q) gateway_state \<Rightarrow> json_object \<times> string option)
     \<Rightarrow> (ingest_request option \<Rightarrow> (database, 'q) gateway_state \<Rightarrow> 'x \<times> (database, 'q) gateway_state)
     \<Rightarrow> ((database, 'q) gateway_state, 'x, ingest_request option) server_routes" where
  "database_routes key gw clock ready stream = \<lparr> sv_api_key = key, sv_readiness = ready,
     sv_write = (\<lambda>body st. handle_ingest gw body clock st), sv_stream = stream,
     sv_query = (\<lambda>st. database_query (gs_store st) clock) \<rparr>"

definition get_request :: "'b server_request \<Rightarrow> string list \<Rightarrow> 'b server_request" where
  "get_request req path = req\<lparr>sq_method := ''GET'', sq_path := path\<rparr>"

definition shows_accepted :: "'x reply \<Rightarrow> ingest_response \<Rightarrow> bool" where
  "shows_accepted reply r =
     (case reply of
        QueryReply h \<Rightarrow> hr_status h = 200 \<and>
          (case hr_body h of EventBody rec \<Rightarrow> av_event_id rec = ir_event_id r \<and> av_payload_hash rec = ir_payload_hash r \<and>
              av_session_key rec = ir_session_key r \<and> av_session_id rec = ir_active_session_id r
           | _ \<Rightarrow> False)
      | _ \<Rightarrow> False)"

lemma find_event_route:
  "i \<noteq> [] \<Longrightarrow> find_route ''GET'' [''v1'', ''events'', i] = Some (GetEvent, [(''event_id'', i)])"
  by (simp add: find_route_def all_routes_def health_routes_def command_routes_def query_routes_def match_route_def
      method_matches_def)

lemma find_ingest_route: "find_route ''POST'' [''v1'', ''events:ingest''] = Some (EventsIngest, [])"
  by (simp add: find_route_def all_routes_def health_routes_def command_routes_def query_routes_def match_route_def
      method_matches_def)

lemma handle_get_event_accepted:
  assumes "accepted_stored d r"
  shows "shows_accepted (QueryReply (handle_get_event (database_query d t)
    \<lparr> hq_path_value = map_get [(''event_id'', ir_event_id r)], hq_query_get = get \<rparr>)) r"
  using assms by (auto simp: accepted_stored_def stored_event_def handle_get_event_def database_query_def
      map_get_def get_event_record_def shows_accepted_def write_json_def to_api_event_record_def scan_event_def
      dest: find_row_SomeD)

lemma handle_ingest_accepted:
  assumes "gw_repo gw = Some (db_ingest flt etext)" "db_ok (gs_store st)"
    and "handle_ingest gw body now st = (h, st')" "hr_body h = IngestBody r"
  shows "accepted_stored (gs_store st') r \<and> ([] \<notin> ev_event_id ` set (db_events (gs_store st)) \<longrightarrow> ir_event_id r \<noteq> [])"
proof -
  obtain i a where "accept gw i now st = (Inr a, st')" "r = ai_response a"
    using assms(3,4)
    by (auto simp: handle_ingest_def write_api_error_def write_json_def Let_def split: option.splits sum.splits prod.splits if_splits)
  then show ?thesis using accept_stored [OF assms(1,2)] by blast
qed

lemma serve_ingest:
  assumes "sq_method req = ''POST''" "sq_path req = [''v1'', ''events:ingest'']"
    and "serve (database_routes key gw clock ready stream) printable req st = (CommandReply h, st')"
  shows "handle_ingest gw (sq_body req) clock st = (h, st') \<and> (key = [] \<or> \<not> api_key_rejects key (sq_authorization req))"
  using assms(3) by (auto simp: serve_def assms(1,2) find_ingest_route health_routes_def protected_def with_api_key_def
      route_handler_def database_routes_def auth_reply_def apfst_def map_prod_def split: if_splits prod.splits)

text \<open>
  C12: What POST /v1/events:ingest answers for an accepted request, new or duplicate, can be
  read at once with GET /v1/events/{id} under the same key: status 200 and a record with the id,
  payload hash, session key and session id of the answer.
\<close>

theorem accepted_event_readable:
  assumes "gw_repo gw = Some (db_ingest flt etext)" "db_ok (gs_store st)" "[] \<notin> ev_event_id ` set (db_events (gs_store st))"
    and "sq_method req = ''POST''" "sq_path req = [''v1'', ''events:ingest'']"
    and "serve (database_routes key gw clock ready stream) printable req st = (CommandReply h, st')"
    and "hr_body h = IngestBody r"
  shows "shows_accepted (fst (serve (database_routes key gw clock ready stream) printable
    (get_request req [''v1'', ''events'', ir_event_id r]) st')) r"
proof -
  note ingest = serve_ingest [OF assms(4,5,6)]
  have r: "accepted_stored (gs_store st') r" "ir_event_id r \<noteq> []"
    using handle_ingest_accepted [OF assms(1,2) _ assms(7)] ingest assms(3) by blast+
  from handle_get_event_accepted [OF r(1)] show ?thesis
    using ingest by (auto simp: serve_def get_request_def find_event_route [OF r(2)] health_routes_def protected_def
        with_api_key_def route_handler_def database_routes_def handle_query_def)
qed

lemma find_route_SomeD: "find_route m path = Some (rt, ps) \<Longrightarrow> match_path (snd (route_pattern rt)) path = Some ps"
  by (auto simp: find_route_def match_route_def find_Some_iff split: option.splits if_splits)

lemma match_single: "match_path [Exactly e] path = Some ps \<Longrightarrow> path = [e]"
  by (cases path; cases "tl path") (auto split: if_splits)

text \<open>Without the key: the health routes and the answers of the mux are all there is.\<close>

text \<open>
  C13: With an API key configured, a request without it changes nothing and is answered 401 on
  every route but the two health routes, whatever its method and path.
\<close>

theorem api_key_guards:
  assumes "sv_api_key sv \<noteq> []" "api_key_rejects (sv_api_key sv) (sq_authorization req)"
  shows "snd (serve sv printable req s) = s \<and>
    (if find_route (sq_method req) (sq_path req) = None then \<exists>c. fst (serve sv printable req s) = MuxReply c
     else if sq_path req \<in> {[''healthz''], [''readyz'']} then \<exists>h. fst (serve sv printable req s) = StateReply h
     else fst (serve sv printable req s) = auth_reply)"
proof (cases "find_route (sq_method req) (sq_path req)")
  case None
  then show ?thesis by (simp add: serve_def)
next
  case (Some p)
  obtain rt ps where p: "p = (rt, ps)" by fastforce
  from find_route_SomeD [OF Some [unfolded p]] have m: "match_path (snd (route_pattern rt)) (sq_path req) = Some ps" .
  show ?thesis
  proof (cases "rt \<in> set health_routes")
    case True
    then have "rt = Healthz \<or> rt = Readyz" by (auto simp: health_routes_def)
    then have "sq_path req \<in> {[''healthz''], [''readyz'']}" "\<exists>h. serve sv printable req s = (StateReply h, s)"
      using m match_single by (auto simp: serve_def Some p health_routes_def route_handler_def)
    then show ?thesis by (auto simp: Some)
  next
    case False
    then have "sq_path req \<notin> {[''healthz''], [''readyz'']}"
      using m by (cases rt) (auto simp: health_routes_def)
    then show ?thesis using False assms by (simp add: serve_def Some p protected_def with_api_key_def)
  qed
qed

definition demo_routes :: "(nat, unit, unit) server_routes" where
  "demo_routes = \<lparr> sv_api_key = ''key'', sv_readiness = (\<lambda>_. ([], None)),
     sv_write = (\<lambda>_ s. (write_json 202 (ErrorBody \<lparr> eb_code = [], eb_message = [], eb_details = [] \<rparr>), Suc s)),
     sv_stream = (\<lambda>_ s. ((), Suc s)), sv_query = (\<lambda>_. database_query empty_db 0) \<rparr>"

definition demo_ingest_call :: "unit server_request" where
  "demo_ingest_call = \<lparr> sq_method = ''POST'', sq_path = [''v1'', ''events:ingest''],
     sq_authorization = ''Bearer other'', sq_query_get = (\<lambda>_. []), sq_body = () \<rparr>"

theorem api_key_guards_witness:
  "serve demo_routes (\<lambda>_. True) demo_ingest_call 0 = (auth_reply, 0)"
proof -
  have t: "trim_space ''other'' = ''other''"
    by (rule trim_space_id; auto simp: lead_space_def trail_space_def find_None_iff space_runes_def suffix_def)
  have k: "sv_api_key demo_routes \<noteq> []" by (simp add: demo_routes_def)
  have "api_key_rejects (sv_api_key demo_routes) (sq_authorization demo_ingest_call)"
    by (simp add: api_key_rejects_def demo_routes_def demo_ingest_call_def bearer_prefix_def trim_prefix_def t)
  from api_key_guards [OF k this, of "\<lambda>_. True" 0] show ?thesis
    by (simp add: demo_ingest_call_def find_ingest_route prod_eq_iff)
qed

text \<open>An ingest on the empty database, read back.\<close>

definition demo_ingest_body :: ingest_request where
  "demo_ingest_body = \<lparr> iq_source = in_source demo_ingress, iq_conversation = in_conversation demo_ingress,
     iq_dm_scope = [], iq_session_key_hint = [], iq_idempotency_key = ''k'', iq_timestamp = time_text 0,
     iq_payload = in_payload demo_ingress \<rparr>"

definition demo_post :: "ingest_request option server_request" where
  "demo_post = \<lparr> sq_method = ''POST'', sq_path = [''v1'', ''events:ingest''], sq_authorization = [],
     sq_query_get = (\<lambda>_. []), sq_body = Some demo_ingest_body \<rparr>"

lemma demo_body_normal: "normalize_api_request demo_ingest_body = Inr demo_ingress"
proof -
  have "year_ok 0" by simp
  moreover have "suffix ''Z'' (time_text 0)" by (simp add: time_text_def suffix_def)
  ultimately show ?thesis
    by (simp add: normalize_api_request_def demo_ingest_body_def time_text_not_blank parse_time_text)
      (simp add: demo_ingress_def)
qed

theorem accepted_event_readable_witness:
  "\<exists>h r st'. serve (database_routes [] demo_gateway 0 (\<lambda>_. ([], None)) (\<lambda>_ st. ((), st))) (\<lambda>_. True) demo_post demo_gateway_state =
      (CommandReply h, st') \<and> hr_body h = IngestBody r \<and>
    shows_accepted (fst (serve (database_routes [] demo_gateway 0 (\<lambda>_. ([], None)) (\<lambda>_ st. ((), st))) (\<lambda>_. True)
      (get_request demo_post [''v1'', ''events'', ir_event_id r]) st')) r"
proof -
  let ?sv = "database_routes [] demo_gateway 0 (\<lambda>_. ([], None)) (\<lambda>_ st. ((), st))"
  obtain a st' where a: "accept demo_gateway demo_ingress 0 demo_gateway_state = (Inr a, st')"
    using demo_requests by (auto simp: split: prod.splits)
  have s: "serve ?sv (\<lambda>_. True) demo_post demo_gateway_state =
      (CommandReply (write_json (ai_status_code a) (IngestBody (ai_response a))), st')"
    by (simp add: serve_def demo_post_def find_ingest_route health_routes_def protected_def with_api_key_def
        route_handler_def database_routes_def handle_ingest_def demo_body_normal a)
  have "gs_store demo_gateway_state = empty_db" "db_events empty_db = []"
    by (simp_all add: demo_gateway_state_def empty_db_def)
  then have "shows_accepted (fst (serve ?sv (\<lambda>_. True)
      (get_request demo_post [''v1'', ''events'', ir_event_id (ai_response a)]) st')) (ai_response a)"
    by (intro accepted_event_readable [OF _ _ _ _ _ s]) (simp_all add: demo_gateway_def demo_post_def write_json_def)
  with s show ?thesis by (auto simp: write_json_def)
qed

end
