(* ===== verification/Lane_System.thy ===== *)
theory Lane_System
  imports Lanes
begin

text \<open>
  Mutual exclusion of the lane scheduler: at most one caller holds a lane, a waiting caller can
  always take it when nobody holds it, and lanes nobody uses are dropped from the map.
\<close>

section \<open>Counting callers\<close>

definition refers :: "nat \<Rightarrow> caller \<Rightarrow> bool" where
  "refers p x \<longleftrightarrow> x \<noteq> LaneGone \<and> caller_ptr x = p"

definition holds :: "nat \<Rightarrow> caller \<Rightarrow> bool" where
  "holds p x \<longleftrightarrow> (\<exists>key. x = LaneHolding key p)"

definition callers_at :: "(nat \<Rightarrow> caller \<Rightarrow> bool) \<Rightarrow> nat \<Rightarrow> caller list \<Rightarrow> nat" where
  "callers_at P p cs = length (filter (P p) cs)"

lemma refers_simps [simp]:
  "refers p (LaneWaiting k q) \<longleftrightarrow> q = p" "refers p (LaneHolding k q) \<longleftrightarrow> q = p"
  "refers p (LaneReleasing k q) \<longleftrightarrow> q = p" "\<not> refers p LaneGone"
  by (auto simp: refers_def)

lemma holds_simps [simp]:
  "\<not> holds p (LaneWaiting k q)" "holds p (LaneHolding k q) \<longleftrightarrow> q = p"
  "\<not> holds p (LaneReleasing k q)" "\<not> holds p LaneGone"
  by (auto simp: holds_def)

lemma callers_at_append [simp]: "callers_at P p (cs @ ds) = callers_at P p cs + callers_at P p ds"
  by (simp add: callers_at_def)

lemma callers_at_single [simp]: "callers_at P p [x] = (if P p x then 1 else 0)"
  by (simp add: callers_at_def)

lemma callers_at_update:
  "c < length cs \<Longrightarrow>
     callers_at P p (cs[c := x]) + (if P p (cs ! c) then 1 else 0) = callers_at P p cs + (if P p x then 1 else 0)"
proof (induction cs arbitrary: c)
  case (Cons y cs)
  show ?case
  proof (cases c)
    case (Suc n)
    then show ?thesis using Cons.IH [of n] Cons.prems by (simp add: callers_at_def)
  qed (simp add: callers_at_def)
qed simp

lemma callers_at_pos: "c < length cs \<Longrightarrow> P p (cs ! c) \<Longrightarrow> 0 < callers_at P p cs"
  by (auto simp: callers_at_def filter_empty_conv)

lemma callers_at_two:
  assumes "c < length cs" "d < length cs" "c \<noteq> d" "P p (cs ! c)" "P p (cs ! d)"
  shows "2 \<le> callers_at P p cs"
proof -
  have "{c, d} \<subseteq> {i. i < length cs \<and> P p (cs ! i)}" using assms by auto
  then have "card {c, d} \<le> card {i. i < length cs \<and> P p (cs ! i)}" by (intro card_mono) simp_all
  then show ?thesis using assms(3) by (simp add: callers_at_def length_filter_conv_card)
qed

section \<open>The invariant\<close>

definition mapped :: "scheduler \<Rightarrow> nat \<Rightarrow> bool" where
  "mapped s p \<longleftrightarrow> (\<exists>key. sd_lanes s key = Some p)"

definition lane_ok :: "scheduler \<Rightarrow> nat \<Rightarrow> bool" where
  "lane_ok s p \<longleftrightarrow>
     callers_at holds p (sd_callers s) + (if ln_token (sd_store s ! p) then 1 else 0) = 1 \<and>
     (mapped s p \<longrightarrow> ln_refs (sd_store s ! p) = callers_at refers p (sd_callers s)) \<and>
     (mapped s p \<longleftrightarrow> 0 < callers_at refers p (sd_callers s))"

lemma mappedI: "sd_lanes s key = Some p \<Longrightarrow> mapped s p"
  by (auto simp: mapped_def)

definition sched_ok :: "scheduler \<Rightarrow> bool" where
  "sched_ok s \<longleftrightarrow>
     (\<forall>p < length (sd_store s). lane_ok s p) \<and>
     (\<forall>key p. sd_lanes s key = Some p \<longrightarrow> p < length (sd_store s)) \<and>
     (\<forall>x \<in> set (sd_callers s). x \<noteq> LaneGone \<longrightarrow> sd_lanes s (caller_key x) = Some (caller_ptr x)) \<and>
     (\<forall>k k' p. sd_lanes s k = Some p \<longrightarrow> sd_lanes s k' = Some p \<longrightarrow> k = k')"

lemma new_scheduler_ok: "sched_ok new_scheduler"
  by (simp add: sched_ok_def new_scheduler_def)

lemma sched_okD:
  assumes "sched_ok s"
  shows "p < length (sd_store s) \<Longrightarrow> lane_ok s p"
    "sd_lanes s key = Some p \<Longrightarrow> p < length (sd_store s)"
    "x \<in> set (sd_callers s) \<Longrightarrow> x \<noteq> LaneGone \<Longrightarrow> sd_lanes s (caller_key x) = Some (caller_ptr x)"
    "sd_lanes s k = Some p \<Longrightarrow> sd_lanes s k' = Some p \<Longrightarrow> k = k'"
  using assms by (auto simp: sched_ok_def)

lemma caller_lane:
  assumes "sched_ok s" "c < length (sd_callers s)" "sd_callers s ! c = x" "x \<noteq> LaneGone"
  shows "sd_lanes s (caller_key x) = Some (caller_ptr x)" "caller_ptr x < length (sd_store s)"
    "lane_ok s (caller_ptr x)"
  using sched_okD [OF assms(1)] assms(2-4) nth_mem by metis+

section \<open>Preservation\<close>

text \<open>Changing the token of a lane together with the caller that takes it or puts it back.\<close>

lemma token_step_ok:
  assumes ok: "sched_ok s" and c: "c < length (sd_callers s)" "refers p (sd_callers s ! c)"
    and x: "refers p x" "caller_key x = caller_key (sd_callers s ! c)" "x \<noteq> LaneGone" "sd_callers s ! c \<noteq> LaneGone"
    and bal: "(if holds p (sd_callers s ! c) then 1 else 0) + (if ln_token (sd_store s ! p) then 1 else 0) =
      (if holds p x then 1 else 0) + (if b then 1 else (0::nat))"
  shows "sched_ok (set_caller c x (set_token b p s))" (is "sched_ok ?s")
proof -
  have pp: "caller_ptr x = p" "caller_ptr (sd_callers s ! c) = p" using x c by (auto simp: refers_def)
  have pl: "p < length (sd_store s)" using caller_lane(2) [OF ok c(1) refl x(4)] pp by simp
  have lane: "lane_ok ?s q" if q: "q < length (sd_store s)" for q
  proof -
    have o: "lane_ok s q" by (rule sched_okD(1) [OF ok q])
    have r: "callers_at refers q (sd_callers ?s) = callers_at refers q (sd_callers s)"
      using callers_at_update [OF c(1), of refers q x] x pp
      by (auto simp: set_caller_def set_token_def refers_def split: if_splits)
    have h: "callers_at holds q (sd_callers ?s) + (if holds q (sd_callers s ! c) then 1 else 0) =
        callers_at holds q (sd_callers s) + (if holds q x then 1 else 0)"
      using callers_at_update [OF c(1), of holds q x] by (simp add: set_caller_def set_token_def)
    have m: "mapped ?s q \<longleftrightarrow> mapped s q" by (simp add: mapped_def set_caller_def set_token_def)
    have st: "ln_token (sd_store ?s ! q) = (if q = p then b else ln_token (sd_store s ! q))"
      "ln_refs (sd_store ?s ! q) = ln_refs (sd_store s ! q)"
      using pl by (simp_all add: set_caller_def set_token_def nth_list_update)
    have "callers_at holds q (sd_callers ?s) + (if ln_token (sd_store ?s ! q) then 1 else 0) = 1"
    proof (cases "q = p")
      case True
      have "callers_at holds p (sd_callers s) + (if ln_token (sd_store s ! p) then 1 else 0) = 1"
        using o True by (simp add: lane_ok_def)
      then show ?thesis using h [unfolded True] bal
        unfolding True by (simp only: st(1) [unfolded True] simp_thms if_True)
    next
      case False
      then have "\<not> holds q x" "\<not> holds q (sd_callers s ! c)" using pp by (auto simp: holds_def)
      then show ?thesis using o h st False by (simp add: lane_ok_def)
    qed
    with o r m st show ?thesis by (simp add: lane_ok_def)
  qed
  have callers: "sd_lanes s (caller_key y) = Some (caller_ptr y)" if "y \<in> set (sd_callers ?s)" "y \<noteq> LaneGone" for y
  proof -
    from that(1) have "y = x \<or> y \<in> set (sd_callers s)"
      using set_update_subset_insert by (fastforce simp: set_caller_def set_token_def)
    then show ?thesis
      using caller_lane(1) [OF ok c(1) refl x(4)] sched_okD(3) [OF ok] that(2) x(2) pp by metis
  qed
  show ?thesis
    unfolding sched_ok_def using lane callers sched_okD(2,4) [OF ok]
    by (auto simp: set_caller_def set_token_def)
qed

lemma lane_ptr_pos:
  assumes "sched_ok s" "c < length (sd_callers s)" "refers p (sd_callers s ! c)"
  shows "0 < callers_at refers p (sd_callers s)"
  using callers_at_pos [of c "sd_callers s" refers p] assms by simp

text \<open>A caller that leaves its lane.\<close>

lemma leave_ok:
  assumes ok: "sched_ok s" and c: "c < length (sd_callers s)" "sd_callers s ! c = x" "x \<noteq> LaneGone"
    and key: "caller_key x = key" "caller_ptr x = p" and nh: "\<not> holds p x"
  shows "sched_ok (set_caller c LaneGone (lane_drop key p s))" (is "sched_ok ?s")
proof -
  note lane = caller_lane [OF ok c, unfolded key]
  have rx: "refers p x" "\<And>q. q \<noteq> p \<Longrightarrow> \<not> refers q x" "\<And>q. \<not> holds q x"
    using c(3) key(2) nh by (auto simp: refers_def holds_def)
  define cs where "cs = (sd_callers s)[c := LaneGone]"
  have r: "callers_at refers q cs + (if q = p then 1 else 0) = callers_at refers q (sd_callers s)" for q
    using callers_at_update [OF c(1), of refers q LaneGone] rx(1,2) c(2) by (cases "q = p") (simp_all add: cs_def)
  have h: "callers_at holds q cs = callers_at holds q (sd_callers s)" for q
    using callers_at_update [OF c(1), of holds q LaneGone] rx(3) c(2) by (simp add: cs_def)
  have refs: "ln_refs (sd_store s ! p) = Suc (callers_at refers p cs)" using lane r [of p] by (auto simp: lane_ok_def)
  have uniq: "k = key" if "sd_lanes s k = Some p" for k using sched_okD(4) [OF ok that lane(1)] .
  have zero: "callers_at holds p cs = 0" if "callers_at refers p cs = 0"
    using that by (fastforce simp: callers_at_def filter_empty_conv holds_def)
  define gone where "gone \<longleftrightarrow> callers_at refers p cs = 0"
  have tok: "ln_token (sd_store s ! p)" if gone
    using zero that h [of p] lane(3) by (auto simp: gone_def lane_ok_def split: if_splits)
  define st where "st = (sd_store s)[p := (sd_store s ! p)\<lparr>ln_refs := callers_at refers p cs\<rparr>]"
  have drop: "lane_drop key p s =
      (if gone then s\<lparr>sd_store := st, sd_lanes := (sd_lanes s)(key := None)\<rparr> else s\<lparr>sd_store := st\<rparr>)"
    unfolding lane_drop_def Let_def st_def using tok lane(1) refs by (cases gone) (simp_all add: gone_def)
  have s: "sd_callers ?s = cs" "sd_lanes ?s = (if gone then (sd_lanes s)(key := None) else sd_lanes s)" "sd_store ?s = st"
    by (simp_all add: drop set_caller_def cs_def)
  have pl: "p < length (sd_store s)" by (rule lane(2))
  have st: "length st = length (sd_store s)" unfolding st_def by (rule length_list_update)
  have st_q: "st ! q = sd_store s ! q" if "q \<noteq> p" for q unfolding st_def using that by simp
  have st_p: "st ! p = (sd_store s ! p)\<lparr>ln_refs := callers_at refers p cs\<rparr>"
    unfolding st_def by (rule nth_list_update_eq [OF pl])
  have map_p: "mapped ?s p \<longleftrightarrow> \<not> gone"
  proof (cases gone)
    case True
    then have "sd_lanes ?s k \<noteq> Some p" for k using s(2) uniq [of k] by (cases "k = key") auto
    with True show ?thesis by (simp add: mapped_def)
  next
    case False
    then have "sd_lanes ?s key = Some p" using s(2) lane(1) by simp
    with False show ?thesis by (simp add: mappedI)
  qed
  have map_q: "mapped ?s q \<longleftrightarrow> mapped s q" if "q \<noteq> p" for q
  proof -
    have "sd_lanes ?s k = Some q \<longleftrightarrow> sd_lanes s k = Some q" for k
      using s(2) lane(1) that by (cases "k = key") auto
    then show ?thesis by (simp add: mapped_def)
  qed
  have lane': "lane_ok ?s q" if q: "q < length (sd_store s)" for q
  proof (cases "q = p")
    case True
    then show ?thesis using lane(3) s st_p map_p h [of p] by (simp add: lane_ok_def gone_def)
  next
    case False
    then show ?thesis using sched_okD(1) [OF ok q] s st_q map_q [OF False] h [of q] r [of q] by (simp add: lane_ok_def)
  qed
  have callers: "sd_lanes ?s (caller_key y) = Some (caller_ptr y)" if y: "y \<in> set cs" "y \<noteq> LaneGone" for y
  proof -
    have "y \<in> set (sd_callers s)" using y set_update_subset_insert by (fastforce simp: cs_def)
    then have l: "sd_lanes s (caller_key y) = Some (caller_ptr y)" using sched_okD(3) [OF ok] y(2) by blast
    have "caller_ptr y \<noteq> p" if gone
      using y that by (auto simp: gone_def callers_at_def filter_empty_conv refers_def)
    with l lane(1) show ?thesis by (auto simp: s)
  qed
  show ?thesis
    unfolding sched_ok_def using lane' callers sched_okD(2,4) [OF ok]
    by (auto simp: s st split: if_splits)
qed

lemma start_ok:
  assumes ok: "sched_ok s"
  shows "sched_ok (acquire_start w s)"
proof (cases "sd_lanes s (lane_resolve w)")
  case None
  let ?p = "length (sd_store s)"
  have np: "callers_at P ?p (sd_callers s) = 0" if "\<And>x. P ?p x \<Longrightarrow> x \<noteq> LaneGone \<and> caller_ptr x = ?p" for P
    using that sched_okD(2,3) [OF ok] by (fastforce simp: callers_at_def filter_empty_conv)
  have z: "callers_at refers ?p (sd_callers s) = 0" "callers_at holds ?p (sd_callers s) = 0"
    by (rule np; auto simp: refers_def holds_def)+
  have nl: "sd_lanes s k \<noteq> Some ?p" for k using sched_okD(2) [OF ok] by blast
  have m: "mapped (acquire_start w s) q \<longleftrightarrow> mapped s q \<or> q = ?p" for q
    using None by (auto simp: mapped_def acquire_start_def lane_retain_def) (metis option.distinct(1))
  have old: "lane_ok (acquire_start w s) q" if q: "q < ?p" for q
    using sched_okD(1) [OF ok q] q None m [of q]
    by (auto simp: lane_ok_def acquire_start_def lane_retain_def nth_append)
  have new: "lane_ok (acquire_start w s) ?p"
    using z None m [of ?p] by (auto simp: lane_ok_def acquire_start_def lane_retain_def)
  show ?thesis
    unfolding sched_ok_def using old new None sched_okD(2,3,4) [OF ok] nl
    by (fastforce simp: acquire_start_def lane_retain_def less_Suc_eq split: if_splits)
next
  case (Some p)
  have pl: "p < length (sd_store s)" by (rule sched_okD(2) [OF ok Some])
  have m: "mapped (acquire_start w s) q \<longleftrightarrow> mapped s q" for q
    using Some by (simp add: mapped_def acquire_start_def lane_retain_def)
  have "lane_ok (acquire_start w s) q" if "q < length (sd_store s)" for q
    using sched_okD(1) [OF ok that] Some pl m [of q] mappedI [OF Some]
    by (cases "q = p") (auto simp: lane_ok_def acquire_start_def lane_retain_def)
  then show ?thesis
    unfolding sched_ok_def using Some sched_okD(2,3,4) [OF ok]
    by (auto simp: acquire_start_def lane_retain_def)
qed

lemma lane_step_ok: "lane_step s s' \<Longrightarrow> sched_ok s \<Longrightarrow> sched_ok s'"
proof (induction rule: lane_step.induct)
  case (lane_take c s key p)
  then show ?case unfolding acquire_take_def by (intro token_step_ok) simp_all
next
  case (lane_release c s key p)
  then show ?case unfolding release_token_def by (intro token_step_ok) simp_all
next
  case (lane_cancel c s key p)
  then show ?case unfolding acquire_cancel_def by (intro leave_ok [where x = "LaneWaiting key p"]) simp_all
next
  case (lane_dropped c s key p)
  then show ?case unfolding release_drop_def by (intro leave_ok [where x = "LaneReleasing key p"]) simp_all
qed (rule start_ok)

lemma lane_reachable_ok: "lane_reachable s \<Longrightarrow> sched_ok s"
  by (induction rule: lane_reachable.induct) (auto intro: new_scheduler_ok lane_step_ok)

section \<open>Properties\<close>

lemma callers_at_le_one:
  assumes "sched_ok s" "p < length (sd_store s)"
  shows "callers_at holds p (sd_callers s) \<le> 1"
  using sched_okD(1) [OF assms] by (simp add: lane_ok_def)

text \<open>
  C15: In every reachable state of the lane scheduler at most one caller holds a lease of a
  given lane, whatever the interleaving of acquires, cancellations and the two halves of the
  releases.
\<close>

theorem lane_mutual_exclusion:
  assumes "lane_reachable s"
  shows "length (filter (\<lambda>x. \<exists>p. x = LaneHolding key p) (sd_callers s)) \<le> 1"
proof (cases "\<exists>x \<in> set (sd_callers s). \<exists>p. x = LaneHolding key p")
  case False
  then show ?thesis by (simp add: filter_empty_conv)
next
  case True
  then obtain p where m: "LaneHolding key p \<in> set (sd_callers s)" by blast
  have ok: "sched_ok s" by (rule lane_reachable_ok [OF assms])
  have l: "sd_lanes s key = Some p" using sched_okD(3) [OF ok m] by simp
  have "(\<exists>q. x = LaneHolding key q) = holds p x" if x: "x \<in> set (sd_callers s)" for x
  proof (cases x)
    case (LaneHolding k q)
    then have k: "sd_lanes s k = Some q" using sched_okD(3) [OF ok x] by simp
    have "k = key \<longleftrightarrow> q = p"
    proof
      show "k = key \<Longrightarrow> q = p" using k l by simp
      show "q = p \<Longrightarrow> k = key" using sched_okD(4) [OF ok _ l] k by blast
    qed
    then show ?thesis using LaneHolding by simp
  qed simp_all
  then have "filter (\<lambda>x. \<exists>q. x = LaneHolding key q) (sd_callers s) = filter (holds p) (sd_callers s)"
    by (rule filter_cong [OF refl])
  then show ?thesis
    using callers_at_le_one [OF ok sched_okD(2) [OF ok l]] by (simp add: callers_at_def)
qed

text \<open>
  C16: A waiting caller is never stuck: in every reachable state in which no caller holds its
  lane, the step in which it gets the lease is enabled.
\<close>

theorem lane_progress:
  assumes "lane_reachable s" "c < length (sd_callers s)" "sd_callers s ! c = LaneWaiting key p"
    "\<not> list_ex (\<lambda>x. caller_key x = key \<and> is_LaneHolding x) (sd_callers s)"
  shows "\<exists>s'. lane_step s s' \<and> sd_callers s' = (sd_callers s)[c := LaneHolding key p]"
proof -
  have ok: "sched_ok s" by (rule lane_reachable_ok [OF assms(1)])
  note l = caller_lane [OF ok assms(2,3), simplified]
  have "\<not> holds p x" if "x \<in> set (sd_callers s)" for x
    using that sched_okD(3) [OF ok that] sched_okD(4) [OF ok l(1)] assms(4)
    by (auto simp: holds_def list_ex_iff)
  then have "callers_at holds p (sd_callers s) = 0" by (simp add: callers_at_def filter_empty_conv)
  then have "ln_token (sd_store s ! p)" using l(3) by (auto simp: lane_ok_def split: if_splits)
  with assms(2,3) have "lane_step s (acquire_take c key p s)" by (rule lane_take)
  then show ?thesis by (intro exI [of _ "acquire_take c key p s"]) (simp add: acquire_take_def set_caller_def set_token_def)
qed

text \<open>
  In every reachable state whose callers have all gone the scheduler's map is empty: no
  lane leaks.
\<close>

theorem idle_lanes_dropped:
  assumes "lane_reachable s" "sd_callers s = replicate n LaneGone"
  shows "sd_lanes s = Map.empty"
proof (rule ext)
  fix key
  have ok: "sched_ok s" by (rule lane_reachable_ok [OF assms(1)])
  show "sd_lanes s key = None"
  proof (cases "sd_lanes s key")
    case (Some p)
    then have "0 < callers_at refers p (sd_callers s)"
      using sched_okD(1) [OF ok sched_okD(2) [OF ok Some]] mappedI [OF Some] by (simp add: lane_ok_def)
    then show ?thesis by (simp add: assms(2) callers_at_def filter_replicate split: if_splits)
  qed
qed

text \<open>One caller that waits, takes the lane while a second waits, or gives up.\<close>

definition lane_demo_work :: work_item where
  "lane_demo_work = \<lparr> wi_event_id = ''e'', wi_session_key = ''k'', wi_lane_key = [], wi_source = [], wi_channel = [], wi_metadata = [] \<rparr>"

definition lane_demo_one :: scheduler where
  "lane_demo_one = acquire_start lane_demo_work new_scheduler"

definition lane_demo_held :: scheduler where
  "lane_demo_held = acquire_take 0 (lane_resolve lane_demo_work) 0 (acquire_start lane_demo_work lane_demo_one)"

lemma lane_demo_states:
  "sd_callers lane_demo_one = [LaneWaiting (lane_resolve lane_demo_work) 0]"
  "sd_store lane_demo_one = [\<lparr> ln_token = True, ln_refs = 1 \<rparr>]"
  "sd_lanes lane_demo_one = [lane_resolve lane_demo_work \<mapsto> 0]"
  "sd_callers lane_demo_held = [LaneHolding (lane_resolve lane_demo_work) 0, LaneWaiting (lane_resolve lane_demo_work) 0]"
  by (simp_all add: lane_demo_one_def lane_demo_held_def acquire_start_def acquire_take_def lane_retain_def
      new_scheduler_def set_caller_def set_token_def)

lemma lane_demo_one_reachable: "lane_reachable lane_demo_one"
  unfolding lane_demo_one_def by (rule lane_more [OF lane_init lane_start])

lemma lane_demo_held_reachable: "lane_reachable lane_demo_held"
proof -
  have "lane_reachable (acquire_start lane_demo_work lane_demo_one)"
    by (rule lane_more [OF lane_demo_one_reachable lane_start])
  then show ?thesis unfolding lane_demo_held_def
    by (rule lane_more) (rule lane_take; simp add: acquire_start_def lane_retain_def lane_demo_states)
qed

theorem lane_mutual_exclusion_witness:
  "length (filter (\<lambda>x. \<exists>p. x = LaneHolding (lane_resolve lane_demo_work) p) (sd_callers lane_demo_held)) = 1"
proof -
  have "filter (\<lambda>x. \<exists>p. x = LaneHolding (lane_resolve lane_demo_work) p) (sd_callers lane_demo_held) \<noteq> []"
    by (simp add: lane_demo_states)
  then show ?thesis
    using lane_mutual_exclusion [OF lane_demo_held_reachable, of "lane_resolve lane_demo_work"]
    by (simp add: le_Suc_eq)
qed

theorem lane_progress_witness:
  "\<exists>s'. lane_step lane_demo_one s' \<and> sd_callers s' = [LaneHolding (lane_resolve lane_demo_work) 0]"
  using lane_progress [OF lane_demo_one_reachable, of 0 "lane_resolve lane_demo_work" 0] by (simp add: lane_demo_states)

theorem idle_lanes_dropped_witness:
  "sd_lanes (acquire_cancel 0 (lane_resolve lane_demo_work) 0 lane_demo_one) = Map.empty"
proof (rule idle_lanes_dropped [where n = 1])
  show "lane_reachable (acquire_cancel 0 (lane_resolve lane_demo_work) 0 lane_demo_one)"
    by (rule lane_more [OF lane_demo_one_reachable], rule lane_cancel) (simp_all add: lane_demo_states)
  show "sd_callers (acquire_cancel 0 (lane_resolve lane_demo_work) 0 lane_demo_one) = replicate 1 LaneGone"
    by (simp add: acquire_cancel_def set_caller_def lane_drop_def Let_def lane_demo_states)
qed

end
