(* ===== verification/Event_Lifecycle.thy ===== *)
theory Event_Lifecycle
  imports Fenced_Runtime
begin

text \<open>
  The life of an event as a specification, and the runtime that implements it: an event arrives,
  waits, runs under the id of a run, and then has ended or, when its lease expired, waits again.
  Every transaction of the fenced runtime is a sequence of steps of this specification on the
  abstraction of the database; most are the empty sequence.
\<close>

section \<open>The specification\<close>

datatype life = Waiting | Running string | Ended

datatype life_action = Arrive | Start | Finish | Requeue

inductive life_step :: "life_action \<Rightarrow> (string \<Rightarrow> life option) \<Rightarrow> (string \<Rightarrow> life option) \<Rightarrow> bool" where
  arrive: "L e = None \<Longrightarrow> life_step Arrive L (L(e \<mapsto> Waiting))"
| start: "L e = Some Waiting \<Longrightarrow> life_step Start L (L(e \<mapsto> Running r))"
| finish: "L e = Some (Running r) \<Longrightarrow> life_step Finish L (L(e \<mapsto> Ended))"
| requeue: "L e = Some (Running r) \<Longrightarrow> life_step Requeue L (L(e \<mapsto> Waiting))"

inductive_cases life_stepE: "life_step a L L'"

text \<open>What a label of the runtime may do to the lives: one action, several requeues, or nothing.\<close>

fun label_lives :: "rt_label \<Rightarrow> (string \<Rightarrow> life option) \<Rightarrow> (string \<Rightarrow> life option) \<Rightarrow> bool" where
  "label_lives Ingest = (life_step Arrive)\<^sup>=\<^sup>="
| "label_lives Claim = (life_step Start)\<^sup>=\<^sup>="
| "label_lives Finalize = (life_step Finish)\<^sup>=\<^sup>="
| "label_lives RecoverProcessing = (life_step Requeue)\<^sup>*\<^sup>*"
| "label_lives _ = (=)"

text \<open>An event that has ended never runs again.\<close>

lemma life_step_ended: "life_step a L L' \<Longrightarrow> L e = Some Ended \<Longrightarrow> L' e = Some Ended"
  by (auto elim!: life_stepE)

lemma label_lives_ended: "label_lives l L L' \<Longrightarrow> L e = Some Ended \<Longrightarrow> L' e = Some Ended"
proof (cases l)
  case RecoverProcessing
  assume "label_lives l L L'" "L e = Some Ended"
  then have "(life_step Requeue)\<^sup>*\<^sup>* L L'" using RecoverProcessing by simp
  then show ?thesis by induction (use \<open>L e = Some Ended\<close> in \<open>auto dest: life_step_ended\<close>)
qed (auto dest: life_step_ended)

definition life_of :: "event_row \<Rightarrow> life" where
  "life_of e =
     (case ev_status e of
        EventStatusReceived \<Rightarrow> Waiting
      | EventStatusQueued \<Rightarrow> Waiting
      | EventStatusProcessing \<Rightarrow> Running (ev_run_id e)
      | _ \<Rightarrow> Ended)"

lemma life_of_cong: "ev_status e = ev_status e' \<Longrightarrow> ev_run_id e = ev_run_id e' \<Longrightarrow> life_of e = life_of e'"
  by (cases "ev_status e'") (simp_all add: life_of_def)

definition lives :: "database \<Rightarrow> string \<Rightarrow> life option" where
  "lives d k = map_option life_of (find_row ev_event_id k (db_events d))"

section \<open>Steps of the database\<close>

lemma lives_same: "db_events d' = db_events d \<Longrightarrow> lives d' = lives d"
  by (simp add: lives_def fun_eq_iff)

lemma lives_update:
  assumes "\<And>e. P e \<Longrightarrow> ev_event_id (f e) = ev_event_id e"
  shows "lives (d\<lparr>db_events := update_where P f evs\<rparr>) k =
    map_option (\<lambda>e. life_of (if P e then f e else e)) (find_row ev_event_id k evs)"
  using assms by (simp add: lives_def find_row_update_where option.map_comp comp_def)

lemma lives_update_same:
  assumes "\<And>e. P e \<Longrightarrow> ev_event_id (f e) = ev_event_id e" "\<And>e. P e \<Longrightarrow> life_of (f e) = life_of e"
    and "db_events d' = update_where P f (db_events d)"
  shows "lives d' = lives d"
proof
  fix k
  have "lives d' k = map_option (\<lambda>e. life_of (if P e then f e else e)) (find_row ev_event_id k (db_events d))"
    using assms(1) by (simp add: lives_def assms(3) find_row_update_where option.map_comp comp_def)
  also have "\<dots> = lives d k"
    unfolding lives_def by (rule option.map_cong0) (simp add: assms(2))
  finally show "lives d' k = lives d k" .
qed

lemma lives_row: "keys_unique d \<Longrightarrow> e \<in> set (db_events d) \<Longrightarrow> lives d (ev_event_id e) = Some (life_of e)"
  using find_row_Some_iff [OF keys_uniqueD(5), of d "ev_event_id e" e] by (simp add: lives_def)

lemma lives_set_outbox_status [simp]:
  "lives (d\<lparr>db_outbox := obs, db_events := set_event_outbox_status eid st now (db_events d)\<rparr>) = lives d"
  by (rule lives_update_same [where P = "\<lambda>e. ev_event_id e = eid" and f = "\<lambda>e. e\<lparr>ev_outbox_status := st, ev_updated_at := time_text now\<rparr>"])
    (auto simp: set_event_outbox_status_def intro: life_of_cong)

lemma with_writer_tx_lives:
  assumes "with_writer_tx flt fn d = (r, d')" "R (lives d) (lives d)" "\<And>a d'. fn d = Inr (a, d') \<Longrightarrow> R (lives d) (lives d')"
  shows "R (lives d) (lives d')"
  by (rule with_writer_tx_invariant [where I = "\<lambda>x. R (lives d) (lives x)", OF assms(1)]) (use assms(2,3) in auto)

lemma persist_event_lives:
  assumes "persist_event flt tenant key req hash now d = (r, d')"
  shows "(life_step Arrive)\<^sup>=\<^sup>= (lives d) (lives d')"
  using assms unfolding persist_event_def
proof (rule with_writer_tx_lives)
  fix a d1
  assume t: "persist_event_tx tenant key req hash now d = Inr (a, d1)"
  show "(life_step Arrive)\<^sup>=\<^sup>= (lives d) (lives d1)"
  proof (cases "find_row ik_key (pq_idempotency_key req) (db_idempotency d)")
    case (Some row)
    with t have "d1 = d" by (auto simp: persist_event_tx_def split: if_splits)
    then show ?thesis by simp
  next
    case None
    then have "pq_idempotency_key req \<notin> ik_key ` set (db_idempotency d)" by (simp add: find_row_None)
    from persist_event_tx_newD [OF t this] obtain sid dx where
      d1: "d1 = dx\<lparr>db_sessions := db_sessions d1, db_idempotency := db_idempotency d @ [new_idempotency_row key sid req hash now],
             db_events := db_events d @ [new_event_row tenant key sid req hash now]\<rparr>"
      and new: "event_id_for now \<notin> ev_event_id ` set (db_events d)" by metis
    have ev: "db_events d1 = db_events d @ [new_event_row tenant key sid req hash now]"
      by (subst d1) simp
    have none: "lives d (event_id_for now) = None" using new by (simp add: lives_def find_row_None)
    have "lives d1 = (lives d)(event_id_for now \<mapsto> Waiting)"
      using none by (auto simp: fun_eq_iff lives_def ev new_event_row_def life_of_def split: option.splits)
    then show ?thesis using life_step.arrive [of "lives d" "event_id_for now", OF none] by simp
  qed
qed simp

lemma mark_event_queued_lives:
  assumes "mark_event_queued flt eid now d = (r, d')"
  shows "lives d' = lives d"
  using assms unfolding mark_event_queued_def
proof (cases rule: exec_writer_cases [consumes 1, case_names ok err])
  case ok
  then show ?thesis
    by (intro lives_update_same [where P = "\<lambda>e. ev_event_id e = eid \<and> ev_status e = EventStatusReceived"
        and f = "\<lambda>e. e\<lparr>ev_status := EventStatusQueued, ev_updated_at := time_text now\<rparr>"]) (auto simp: life_of_def)
qed simp

lemma claim_event_tx_lives:
  assumes t: "claim_event_tx eid run_id now d = Inr (c, d')" and ok: "db_ok d"
  shows "(life_step Start)\<^sup>=\<^sup>= (lives d) (lives d')"
  using t
proof (rule claim_event_tx_InrD)
  fix e
  assume e: "e \<in> set (db_events d)" "ev_event_id e = eid" "event_runnable (ev_status e)" "\<not> has_started_run eid (db_runs d)"
  let ?m = "claim_run_mode (ev_payload e)"
  assume d': "d' = d\<lparr>db_runs := db_runs d @ [new_run_row run_id e ?m now],
            db_events := update_where (\<lambda>e. ev_event_id e = eid) (\<lambda>e'. e'\<lparr>ev_run_mode := ?m\<rparr>)
              (update_where (claimable eid (db_runs d)) (claim_event_row run_id now) (db_events d))\<rparr>"
  have w: "lives d eid = Some Waiting"
    using lives_row [OF db_okD(1) [OF ok] e(1)] e(2,3)
    by (auto simp: life_of_def event_runnable_def split: event_status.splits)
  have "lives d' = (lives d)(eid \<mapsto> Running run_id)"
  proof
    fix k
    let ?d1 = "d\<lparr>db_events := update_where (claimable eid (db_runs d)) (claim_event_row run_id now) (db_events d)\<rparr>"
    have "lives d' = lives ?d1"
      by (rule lives_update_same [where P = "\<lambda>e. ev_event_id e = eid" and f = "\<lambda>e'. e'\<lparr>ev_run_mode := ?m\<rparr>"])
        (auto simp: d' intro: life_of_cong)
    moreover have "lives ?d1 k = ((lives d)(eid \<mapsto> Running run_id)) k"
    proof (cases "find_row ev_event_id k (db_events d)")
      case None
      then have "k \<noteq> eid" using e(1,2) by (auto simp: find_row_None)
      with None show ?thesis by (subst lives_update) (simp_all add: claim_event_row_def lives_def)
    next
      case (Some x)
      then have x: "x \<in> set (db_events d)" "ev_event_id x = k" by (auto dest: find_row_SomeD)
      have "claimable eid (db_runs d) x \<longleftrightarrow> k = eid"
        using x e event_unique [OF ok x(1) e(1)] by (auto simp: claimable_def event_runnable_def)
      then show ?thesis using Some
        by (subst lives_update) (auto simp: claim_event_row_def lives_def life_of_def)
    qed
    ultimately show "lives d' k = ((lives d)(eid \<mapsto> Running run_id)) k" by simp
  qed
  then show "(life_step Start)\<^sup>=\<^sup>= (lives d) (lives d')" using life_step.start [of "lives d" eid run_id, OF w] by simp
qed

lemma claim_work_lives:
  assumes "claim_work flt w run_id now d = (r, d')" "db_ok d"
  shows "(life_step Start)\<^sup>=\<^sup>= (lives d) (lives d')"
proof -
  obtain r0 where r0: "claim_event flt (wi_event_id w) run_id now d = (r0, d')"
    using assms(1) by (auto simp: claim_work_def Let_def split: prod.splits sum.splits option.splits)
  show ?thesis by (rule claim_event_cases [OF r0]) (use claim_event_tx_lives [OF _ assms(2)] in auto)
qed

lemma build_finalize_ends:
  "life_of (finalize_event_row (build_finalize now n c result err) e) = Ended"
  by (auto simp: life_of_def finalize_event_row_def build_finalize_def finalize_base_def Let_def split: option.splits)

lemma finalize_lives:
  assumes fin: "finalize flt (build_finalize now n c result err) d = (r, d')" and ok: "db_ok d" and own: "claim_owns c d"
  shows "(life_step Finish)\<^sup>=\<^sup>= (lives d) (lives d')"
  using fin unfolding finalize_def
proof (rule with_writer_tx_lives)
  let ?cmd = "build_finalize now n c result err"
  fix a d1
  assume t: "finalize_tx ?cmd d = Inr (a, d1)"
  obtain e where e: "e \<in> set (db_events d)" "ev_event_id e = fc_event_id ?cmd" "ev_status e = EventStatusProcessing"
    using own by (auto simp: claim_owns_def build_finalize_claim)
  have w: "lives d (fc_event_id ?cmd) = Some (Running (ev_run_id e))"
    using lives_row [OF db_okD(1) [OF ok] e(1)] e(2,3) by (simp add: life_of_def)
  have "lives d1 = (lives d)(fc_event_id ?cmd \<mapsto> Ended)"
  proof
    fix k
    obtain ev where "db_events d1 = update_where (\<lambda>e. ev_event_id e = fc_event_id ?cmd) (finalize_event_row ?cmd) (db_events d)"
      using t by (cases a, simp, elim finalize_tx_InrD) (simp add: frame)
    then have "lives d1 = lives (d\<lparr>db_events := update_where (\<lambda>e. ev_event_id e = fc_event_id ?cmd) (finalize_event_row ?cmd) (db_events d)\<rparr>)"
      by (intro lives_same) simp
    moreover have "ev_event_id (finalize_event_row ?cmd x) = ev_event_id x" for x by (simp add: finalize_event_row_def)
    ultimately show "lives d1 k = ((lives d)(fc_event_id ?cmd \<mapsto> Ended)) k"
      using w by (cases "find_row ev_event_id k (db_events d)")
        (auto simp: lives_update build_finalize_ends, auto simp: lives_def dest: find_row_SomeD)
  qed
  then show "(life_step Finish)\<^sup>=\<^sup>= (lives d) (lives d1)" using life_step.finish [of "lives d" "fc_event_id ?cmd" "ev_run_id e", OF w] by simp
qed simp

lemma recover_event_lives: "(life_step Requeue)\<^sup>*\<^sup>* (lives d) (lives (recover_event now eid d))"
proof -
  have up: "lives (recover_event now eid d) = lives (d\<lparr>db_events := update_where
      (\<lambda>e. ev_event_id e = eid \<and> ev_status e = EventStatusProcessing) (requeue_event_row now) (db_events d)\<rparr>)"
    by (rule lives_same) (simp add: recover_event_def)
  have requeue: "ev_event_id (requeue_event_row now e) = ev_event_id e" for e by (simp add: requeue_event_row_def)
  show ?thesis
proof (cases "\<exists>r. lives d eid = Some (Running r)")
  case True
  then obtain r where r: "lives d eid = Some (Running r)" by blast
  have "lives (recover_event now eid d) k = ((lives d)(eid \<mapsto> Waiting)) k" for k
    using r unfolding up
    by (cases "find_row ev_event_id k (db_events d)")
      (auto simp: lives_update requeue, auto simp: lives_def life_of_def requeue_event_row_def dest: find_row_SomeD split: event_status.splits)
  then have "lives (recover_event now eid d) = (lives d)(eid \<mapsto> Waiting)" by (rule ext)
  then show ?thesis using life_step.requeue [of "lives d" eid r, OF r] by simp
next
  case False
  have "lives (recover_event now eid d) k = lives d k" for k
  proof (cases "find_row ev_event_id k (db_events d)")
    case None
    then show ?thesis unfolding up by (simp add: lives_update requeue) (simp add: lives_def)
  next
    case (Some e)
    have "\<not> (ev_event_id e = eid \<and> ev_status e = EventStatusProcessing)"
      using False Some find_row_SomeD [OF Some] by (auto simp: lives_def life_of_def)
    then have "\<not> (ev_event_id e = eid \<and> ev_status e = EventStatusProcessing) \<longleftrightarrow> True" by simp
    with Some show ?thesis unfolding up by (simp add: lives_update requeue del: de_Morgan_conj) (simp add: lives_def)
  qed
  then have "lives (recover_event now eid d) = lives d" by (rule ext)
  then show ?thesis by simp
qed
qed

lemma recover_processing_lives:
  assumes "recover_expired_processing rf flts cutoff now d = (r, d')"
  shows "(life_step Requeue)\<^sup>*\<^sup>* (lives d) (lives d')"
proof -
  have "(life_step Requeue)\<^sup>*\<^sup>* (lives d) (lives (recover_event now eid x))" if "(life_step Requeue)\<^sup>*\<^sup>* (lives d) (lives x)" for eid x
    using that recover_event_lives by (rule rtranclp_trans)
  then show ?thesis
    using assms
    by (auto simp: recover_expired_processing_def Let_def split: option.splits prod.splits
      dest: recover_events_invariant [where I = "\<lambda>x. (life_step Requeue)\<^sup>*\<^sup>* (lives d) (lives x)"])
qed

lemma recover_outbox_items_lives: "lives (fold (recover_outbox_item now) items d) = lives d"
  by (induction items arbitrary: d) (simp_all add: recover_outbox_item_def)

lemma recover_expired_sending_lives:
  assumes "recover_expired_sending flt cutoff now d = (r, d')"
  shows "lives d = lives d'"
  using assms unfolding recover_expired_sending_def Let_def
  by (rule with_writer_tx_lives) (auto simp: recover_outbox_items_lives)

lemma claim_runtime_outbox_lives:
  assumes "claim_runtime_outbox flt owner now d = (r, d')"
  shows "lives d = lives d'"
  using assms unfolding claim_runtime_outbox_def
  by (rule with_writer_tx_lives) (auto simp: claim_runtime_outbox_tx_def split: option.splits)

lemma outbox_outcome_lives:
  "fail_outbox_send flt oid eid m dead next_at now d = (r, d') \<Longrightarrow> lives d = lives d'"
  "complete_outbox_send flt oid eid now d = (r, d') \<Longrightarrow> lives d = lives d'"
  unfolding fail_outbox_send_def complete_outbox_send_def Let_def
  by (erule with_writer_tx_lives, auto)+

section \<open>The runtime refines the specification\<close>

lemma events_same_lives: "db_events d' = db_events d \<and> db_outbox d' = db_outbox d \<Longrightarrow> lives d = lives d'"
  by (rule lives_same [symmetric], erule conjunct1)

lemma fenced_step_lives:
  assumes st: "fenced_step s l s'" and inv: "fenced_inv s"
  shows "label_lives l (lives (rt_db s)) (lives (rt_db s'))"
proof -
  have rt: "rt_step s l s'" using st by (simp add: fenced_step_def)
  have ok: "db_ok (rt_db s)" and own: "\<And>c. c \<in> set (rt_claims s) \<Longrightarrow> claim_owns c (rt_db s)"
    using inv by (auto simp: fenced_inv_def rt_inv_def)
  from rt show ?thesis
  proof (cases rule: rt_step.cases)
    case (rt_finalize c)
    then show ?thesis using finalize_lives [OF rt_finalize(4) ok own] by simp
  next
    case rt_crash
    then show ?thesis by simp
  next
    case rt_ingest
    then show ?thesis by (auto dest: persist_event_lives)
  next
    case rt_mark_queued
    then show ?thesis by (auto dest: mark_event_queued_lives [symmetric])
  next
    case rt_claim
    then show ?thesis by (auto dest: claim_work_lives [OF _ ok])
  next
    case rt_recover_processing
    then show ?thesis by (auto dest: recover_processing_lives)
  next
    case rt_recover_sending
    then show ?thesis by (auto dest: recover_expired_sending_lives)
  next
    case rt_claim_outbox
    then show ?thesis by (auto dest: claim_runtime_outbox_lives)
  next
    case rt_fail_outbox
    then show ?thesis by (auto dest: outbox_outcome_lives(1))
  next
    case rt_complete_outbox
    then show ?thesis by (auto dest: outbox_outcome_lives(2))
  next
    case rt_cron
    then show ?thesis by (auto dest: other_ops_tables(1) [THEN events_same_lives])
  next
    case rt_claim_job
    then show ?thesis by (auto dest: other_ops_tables(2) [THEN events_same_lives])
  next
    case rt_complete_job
    then show ?thesis by (auto dest: other_ops_tables(3) [THEN events_same_lives])
  next
    case rt_fail_job
    then show ?thesis by (auto dest: other_ops_tables(4) [THEN events_same_lives])
  next
    case rt_beat
    then show ?thesis by (auto dest: other_ops_tables(5) [THEN events_same_lives])
  qed
qed

end
