(* ===== verification/Lifecycle_System.thy ===== *)
theory Lifecycle_System
  imports Event_Lifecycle Scenario
begin

text \<open>
  Two properties of the runtime as a whole: it implements the life of an event, and its tables
  satisfy the keys and the references of the schema.
\<close>

text \<open>
  C4: The runtime with fenced executions implements the life of an event: an ingest lets at most
  one new event arrive, a claim starts at most one waiting event, a finalize ends at most one
  running event, a recovery only requeues running events, every other transaction leaves the
  lives as they are, and an event that has ended stays so.
\<close>

theorem runtime_refines_lifecycle:
  assumes "fenced_reachable s" "fenced_step s l s'"
  shows "label_lives l (lives (rt_db s)) (lives (rt_db s')) \<and>
    {e. lives (rt_db s) e = Some Ended} \<subseteq> {e. lives (rt_db s') e = Some Ended}"
proof -
  have "label_lives l (lives (rt_db s)) (lives (rt_db s'))"
    by (rule fenced_step_lives [OF assms(2) fenced_reachable_inv [OF assms(1)]])
  then show ?thesis using label_lives_ended by blast
qed

theorem runtime_refines_lifecycle_witness:
  "(life_step Start)\<^sup>=\<^sup>= (lives (rt_db demo_ingested)) (lives (rt_db demo_claimed)) \<and>
   lives (rt_db demo_ingested) (event_id_for 0) = Some Waiting \<and>
   lives (rt_db demo_claimed) (event_id_for 0) = Some (Running demo_run_id)"
  using runtime_refines_lifecycle [OF demo_ingested_reachable demo_claim_step]
  by (simp add: lives_def demo_ingested_tables demo_claim_work find_row_def life_of_def claim_event_row_def)

text \<open>
  C5: In every reachable state the tables are well formed: the primary and unique keys of the
  schema are unique, the session of an event, run or message and the event of a run or outbox
  row exist, and a run belongs to its event's session.
\<close>

theorem tables_well_formed:
  assumes "reachable s"
  shows "keys_unique (rt_db s) \<and>
    ev_session_key ` set (db_events (rt_db s)) \<union> rn_session_key ` set (db_runs (rt_db s)) \<union>
      ms_session_key ` set (db_messages (rt_db s)) \<subseteq> se_session_key ` set (db_sessions (rt_db s)) \<and>
    (\<lambda>r. (rn_event_id r, rn_session_key r)) ` set (db_runs (rt_db s)) \<subseteq>
      (\<lambda>e. (ev_event_id e, ev_session_key e)) ` set (db_events (rt_db s)) \<and>
    ob_event_id ` set (db_outbox (rt_db s)) \<subseteq> ev_event_id ` set (db_events (rt_db s)) \<and>
    OutboxStatusUnset \<notin> ob_status ` set (db_outbox (rt_db s))"
proof -
  note ok = db_okD [OF reachable_ok [OF assms]]
  have "rn_session_key ` set (db_runs (rt_db s)) \<subseteq> se_session_key ` set (db_sessions (rt_db s))"
    using run_session_exists [OF reachable_ok [OF assms]] by blast
  then show ?thesis
    using ok(1,3,4,7,8,10)
    by (auto simp: events_have_sessions_def messages_have_sessions_def runs_have_events_def run_core_def
        outbox_locked_def outbox_has_events_def)
qed

theorem tables_well_formed_witness:
  "''k'' \<in> se_session_key ` set (db_sessions (rt_db demo_claimed)) \<and> keys_unique (rt_db demo_claimed)"
  using tables_well_formed [OF fenced_is_reachable [OF demo_claimed_reachable]] demo_claimed_run
  by (metis (no_types, lifting) Un_iff image_eqI subsetD)

end
