(* ===== verification/Fs.thy ===== *)
theory Fs
  imports Paths
begin

text \<open>
  The file system as the program sees it through \<open>os\<close> and \<open>path/filepath\<close> on Linux: a tree
  of directories, regular files and symbolic links; paths are resolved element by element, and a
  link restarts the resolution with its target.  A canonical path is the list of names from the
  root.  Permissions, special files, hard links and concurrent changes are not modelled.
\<close>

datatype fs_node =
  Dir "(string \<times> fs_node) list"
| File string nat
| Link string

datatype errno = ENOENT | ENOTDIR | ELOOP | EISDIR | EEXIST | ENOTEMPTY | EIO

text \<open>
  The file system, the directory the process runs in, which is reached through no link, and the
  text of an error of a call on a path.
\<close>

record file_system =
  fy_root :: fs_node
  fy_cwd :: string
  fy_text :: "string \<Rightarrow> string list \<Rightarrow> errno \<Rightarrow> string"

section \<open>Reading the tree\<close>

fun node_at :: "fs_node \<Rightarrow> string list \<Rightarrow> fs_node option" where
  "node_at n [] = Some n"
| "node_at (Dir es) (c # cs) = (case map_of es c of None \<Rightarrow> None | Some n \<Rightarrow> node_at n cs)"
| "node_at (File _ _) (c # cs) = None"
| "node_at (Link _) (c # cs) = None"

text \<open>What resolving a path looks at.\<close>

datatype path_kind = IsDir | IsFile | IsLink string

definition kind_of :: "fs_node \<Rightarrow> path_kind" where
  "kind_of n = (case n of Dir _ \<Rightarrow> IsDir | File _ _ \<Rightarrow> IsFile | Link l \<Rightarrow> IsLink l)"

definition kind_at :: "fs_node \<Rightarrow> string list \<Rightarrow> path_kind option" where
  "kind_at t p = map_option kind_of (node_at t p)"

text \<open>
  The resolution of the elements \<open>cs\<close> from the directory at \<open>cur\<close>, with \<open>n\<close> links still
  allowed.  \<open>NoFollow\<close> stops at a link in the last place, \<open>MayCreate\<close> accepts a last element
  that does not exist in its directory.
\<close>

datatype last_element = Follow | NoFollow | MayCreate

function resolve :: "(string list \<Rightarrow> path_kind option) \<Rightarrow> last_element \<Rightarrow> nat \<Rightarrow> string list \<Rightarrow> string list \<Rightarrow> errno + string list" where
  "resolve k follow n cur [] = Inr cur"
| "resolve k follow n cur (c # cs) =
     (if k cur \<noteq> Some IsDir then Inl ENOTDIR
      else if c = [] \<or> c = ''.'' then resolve k follow n cur cs
      else if c = ''..'' then resolve k follow n (butlast cur) cs
      else (case k (cur @ [c]) of
              None \<Rightarrow> if cs = [] \<and> follow = MayCreate then Inr (cur @ [c]) else Inl ENOENT
            | Some (IsLink target) \<Rightarrow>
                if cs = [] \<and> follow = NoFollow then Inr (cur @ [c])
                else (case n of
                        0 \<Rightarrow> Inl ELOOP
                      | Suc m \<Rightarrow> resolve k follow m (if prefix ''/'' target then [] else cur)
                          (split_on (CHR ''/'') target @ cs))
            | Some _ \<Rightarrow> resolve k follow n (cur @ [c]) cs))"
  by pat_completeness auto
termination
  by (relation "measures [\<lambda>(k, f, n, cur, cs). n, \<lambda>(k, f, n, cur, cs). length cs]") auto

text \<open>The limits of \<open>filepath.EvalSymlinks\<close> and of the kernel.\<close>

definition eval_links :: nat where "eval_links = 255"
definition kernel_links :: nat where "kernel_links = 40"

text \<open>The elements of an absolute path, and the path of elements.\<close>

definition abs_elems :: "string \<Rightarrow> string \<Rightarrow> string list" where
  "abs_elems cwd p = path_elems (if prefix ''/'' p then p else cwd @ ''/'' @ p)"

definition render :: "string list \<Rightarrow> string" where
  "render cs = ''/'' @ join ''/'' cs"

text \<open>\<open>filepath.Join\<close> of two elements\<close>

definition path_join :: "string \<Rightarrow> string \<Rightarrow> string" where
  "path_join a b =
     (if a = [] then (if b = [] then [] else path_clean b)
      else if b = [] then path_clean a else path_clean (a @ ''/'' @ b))"

text \<open>\<open>filepath.Rel\<close> on absolute clean paths, as elements and as text.\<close>

fun rel_elems :: "string list \<Rightarrow> string list \<Rightarrow> string list" where
  "rel_elems (b # bs) (c # cs) = (if b = c then rel_elems bs cs else replicate (Suc (length bs)) ''..'' @ c # cs)"
| "rel_elems bs cs = replicate (length bs) ''..'' @ cs"

definition elems_text :: "string list \<Rightarrow> string" where
  "elems_text cs = (if cs = [] then ''.'' else join ''/'' cs)"

definition rel_text :: "string list \<Rightarrow> string list \<Rightarrow> string" where
  "rel_text base p = elems_text (rel_elems base p)"

definition eval_symlinks :: "file_system \<Rightarrow> string list \<Rightarrow> errno + string list" where
  "eval_symlinks fs p = resolve (kind_at (fy_root fs)) Follow eval_links [] p"

definition lstat :: "file_system \<Rightarrow> string list \<Rightarrow> errno + fs_node" where
  "lstat fs p =
     (case resolve (kind_at (fy_root fs)) NoFollow kernel_links [] p of
        Inl e \<Rightarrow> Inl e
      | Inr q \<Rightarrow> (case node_at (fy_root fs) q of None \<Rightarrow> Inl ENOENT | Some n \<Rightarrow> Inr n))"

definition stat :: "file_system \<Rightarrow> string list \<Rightarrow> errno + fs_node" where
  "stat fs p =
     (case resolve (kind_at (fy_root fs)) Follow kernel_links [] p of
        Inl e \<Rightarrow> Inl e
      | Inr q \<Rightarrow> (case node_at (fy_root fs) q of None \<Rightarrow> Inl ENOENT | Some n \<Rightarrow> Inr n))"

definition read_file :: "file_system \<Rightarrow> string list \<Rightarrow> errno + string" where
  "read_file fs p =
     (case stat fs p of
        Inl e \<Rightarrow> Inl e
      | Inr (File s m) \<Rightarrow> Inr s
      | Inr _ \<Rightarrow> Inl EISDIR)"

section \<open>Changing the tree\<close>

text \<open>The entry at a canonical path replaced, added or, with None, removed; its directory must exist.\<close>

fun put_entry :: "string \<Rightarrow> fs_node option \<Rightarrow> (string \<times> fs_node) list \<Rightarrow> (string \<times> fs_node) list" where
  "put_entry c None es = filter (\<lambda>e. fst e \<noteq> c) es"
| "put_entry c (Some n) [] = [(c, n)]"
| "put_entry c (Some n) (e # es) = (if fst e = c then (c, n) # es else e # put_entry c (Some n) es)"

fun put_node :: "fs_node \<Rightarrow> string list \<Rightarrow> fs_node option \<Rightarrow> fs_node" where
  "put_node (Dir es) [c] v = Dir (put_entry c v es)"
| "put_node (Dir es) (c # cs) v =
     (case map_of es c of None \<Rightarrow> Dir es | Some n \<Rightarrow> Dir (put_entry c (Some (put_node n cs v)) es))"
| "put_node n cs v = n"

definition put_file :: "file_system \<Rightarrow> string list \<Rightarrow> fs_node option \<Rightarrow> file_system" where
  "put_file fs p v = fs\<lparr>fy_root := put_node (fy_root fs) p v\<rparr>"

text \<open>
  The entry a call that creates, renames or removes acts on: its directory is resolved, its last
  element is not.  The paths are clean, so the last element is a name.
\<close>

definition entry_path :: "file_system \<Rightarrow> string list \<Rightarrow> errno + string list" where
  "entry_path fs p =
     (if p = [] then Inl EEXIST
      else case resolve (kind_at (fy_root fs)) Follow kernel_links [] (butlast p) of
             Inl e \<Rightarrow> Inl e
           | Inr d \<Rightarrow> if kind_at (fy_root fs) d = Some IsDir then Inr (d @ [last p]) else Inl ENOTDIR)"

text \<open>\<open>mkdir\<close>, \<open>O_CREATE | O_EXCL\<close>, \<open>rename\<close> of a regular file, and \<open>os.Remove\<close>\<close>

definition mkdir :: "file_system \<Rightarrow> string list \<Rightarrow> errno + file_system" where
  "mkdir fs p =
     (case entry_path fs p of
        Inl e \<Rightarrow> Inl e
      | Inr q \<Rightarrow> if node_at (fy_root fs) q = None then Inr (put_file fs q (Some (Dir []))) else Inl EEXIST)"

definition create_excl :: "file_system \<Rightarrow> string list \<Rightarrow> nat \<Rightarrow> errno + string list \<times> file_system" where
  "create_excl fs p perm =
     (case entry_path fs p of
        Inl e \<Rightarrow> Inl e
      | Inr q \<Rightarrow> if node_at (fy_root fs) q = None then Inr (q, put_file fs q (Some (File [] perm))) else Inl EEXIST)"

definition rename_file :: "file_system \<Rightarrow> string list \<Rightarrow> string list \<Rightarrow> errno + file_system" where
  "rename_file fs old new =
     (case (entry_path fs old, entry_path fs new) of
        (Inr a, Inr b) \<Rightarrow>
          (case (node_at (fy_root fs) a, node_at (fy_root fs) b) of
             (Some (File s m), Some (Dir _)) \<Rightarrow> Inl EISDIR
           | (Some (File s m), _) \<Rightarrow>
               if a = b then Inr fs else Inr (put_file (put_file fs b (Some (File s m))) a None)
           | _ \<Rightarrow> Inl ENOENT)
      | (Inl e, _) \<Rightarrow> Inl e
      | (_, Inl e) \<Rightarrow> Inl e)"

definition remove_entry :: "file_system \<Rightarrow> string list \<Rightarrow> errno + file_system" where
  "remove_entry fs p =
     (case entry_path fs p of
        Inl e \<Rightarrow> Inl e
      | Inr q \<Rightarrow>
          (case node_at (fy_root fs) q of
             None \<Rightarrow> Inl ENOENT
           | Some (Dir (_ # _)) \<Rightarrow> Inl ENOTEMPTY
           | Some _ \<Rightarrow> Inr (put_file fs q None)))"

text \<open>\<open>os.MkdirAll\<close>; the directories it made stay when a later one fails.\<close>

function mkdir_all :: "file_system \<Rightarrow> string list \<Rightarrow> errno option \<times> file_system" where
  "mkdir_all fs p =
     (case stat fs p of
        Inr (Dir _) \<Rightarrow> (None, fs)
      | Inr _ \<Rightarrow> (Some ENOTDIR, fs)
      | Inl _ \<Rightarrow>
          if p = [] then (None, fs)
          else (case mkdir_all fs (butlast p) of
                  (Some e, fs1) \<Rightarrow> (Some e, fs1)
                | (None, fs1) \<Rightarrow>
                    (case mkdir fs1 p of
                       Inr fs2 \<Rightarrow> (None, fs2)
                     | Inl e \<Rightarrow> (case lstat fs1 p of Inr (Dir _) \<Rightarrow> (None, fs1) | _ \<Rightarrow> (Some e, fs1)))))"
  by pat_completeness auto
termination by (relation "measure (\<lambda>(fs, p). length p)") auto

declare mkdir_all.simps [simp del]

section \<open>Facts\<close>

text \<open>What is at a path, without what is below it.\<close>

definition shallow :: "fs_node \<Rightarrow> fs_node" where
  "shallow n = (case n of Dir es \<Rightarrow> Dir [] | _ \<Rightarrow> n)"

definition leaf_at :: "fs_node \<Rightarrow> string list \<Rightarrow> fs_node option" where
  "leaf_at t p = map_option shallow (node_at t p)"

lemma shallow_simps [simp]:
  "shallow (Dir es) = Dir []" "shallow (File s m) = File s m" "shallow (Link l) = Link l"
  by (simp_all add: shallow_def)

lemma node_at_append: "node_at t (p @ q) = (case node_at t p of None \<Rightarrow> None | Some n \<Rightarrow> node_at n q)"
  by (induction t p rule: node_at.induct) (auto split: option.splits)

lemma kind_of_simps [simp]:
  "kind_of (Dir es) = IsDir" "kind_of (File s m) = IsFile" "kind_of (Link l) = IsLink l"
  by (simp_all add: kind_of_def)

lemma kind_of_dir [simp]: "kind_of n = IsDir \<longleftrightarrow> (\<exists>es. n = Dir es)"
  by (cases n) auto

lemma kind_at_leaf: "kind_at t p = map_option kind_of (leaf_at t p)"
  by (cases "node_at t p"; cases "the (node_at t p)") (auto simp: kind_at_def leaf_at_def)

lemma leaf_at_Nil: "leaf_at t [] = Some (shallow t)"
  by (simp add: leaf_at_def)

lemma leaf_at_Cons:
  "leaf_at t (c # cs) = (case t of Dir es \<Rightarrow> (case map_of es c of None \<Rightarrow> None | Some n \<Rightarrow> leaf_at n cs) | _ \<Rightarrow> None)"
  by (cases t) (auto simp: leaf_at_def split: option.splits)

lemma map_of_put_entry: "map_of (put_entry c v es) d = (if d = c then v else map_of es d)"
proof (induction c v es rule: put_entry.induct)
  case (1 c es)
  then show ?case by (induction es) auto
qed auto

declare put_entry.simps [simp del]

lemma node_at_leaf_dir [simp]: "node_at (File s m) p \<noteq> Some (Dir es)" "node_at (Link l) p \<noteq> Some (Dir es)"
  by (cases p; simp)+

text \<open>A change at a path changes the path and what is below it.\<close>

lemma leaf_at_put_node:
  "p \<noteq> [] \<Longrightarrow> kind_at t (butlast p) = Some IsDir \<Longrightarrow>
     leaf_at (put_node t p v) q =
       (if prefix p q then (case v of None \<Rightarrow> None | Some n \<Rightarrow> leaf_at n (drop (length p) q)) else leaf_at t q)"
proof (induction t p v arbitrary: q rule: put_node.induct)
  case (1 es c v)
  show ?case
  proof (cases q)
    case (Cons d ds)
    then show ?thesis by (cases v) (auto simp: leaf_at_Cons map_of_put_entry leaf_at_def split: option.splits)
  qed (simp add: leaf_at_Nil)
next
  case (2 es c c' cs v)
  then obtain n where n: "map_of es c = Some n" "kind_at n (butlast (c' # cs)) = Some IsDir"
    by (auto simp: kind_at_def split: option.splits if_splits)
  note IH = "2.IH" [OF n(1) _ n(2)]
  show ?case
  proof (cases q)
    case (Cons d ds)
    then show ?thesis using IH n by (auto simp: leaf_at_Cons map_of_put_entry split: option.splits)
  qed (simp add: leaf_at_Nil n)
qed (auto simp: kind_at_def)

definition file_at :: "fs_node \<Rightarrow> string list \<Rightarrow> (string \<times> nat) option" where
  "file_at t p = (case node_at t p of Some (File s m) \<Rightarrow> Some (s, m) | _ \<Rightarrow> None)"

lemma file_at_leaf: "file_at t p = (case leaf_at t p of Some (File s m) \<Rightarrow> Some (s, m) | _ \<Rightarrow> None)"
  by (auto simp: file_at_def leaf_at_def shallow_def split: option.splits fs_node.splits)

section \<open>Resolution\<close>

text \<open>The steps of a resolution that goes on.\<close>

lemma resolve_InrE:
  assumes "resolve k f n cur (c # cs) = Inr q"
  obtains (skip) "k cur = Some IsDir" "c = [] \<or> c = ''.''" "resolve k f n cur cs = Inr q"
    | (up) "k cur = Some IsDir" "c = ''..''" "resolve k f n (butlast cur) cs = Inr q"
    | (down) "k cur = Some IsDir" "c \<notin> {[], ''.'', ''..''}" "k (cur @ [c]) = Some IsDir \<or> k (cur @ [c]) = Some IsFile"
        "resolve k f n (cur @ [c]) cs = Inr q"
    | (stop) l where "k cur = Some IsDir" "c \<notin> {[], ''.'', ''..''}" "k (cur @ [c]) = Some (IsLink l)" "cs = []" "f = NoFollow" "q = cur @ [c]"
    | (new) "k cur = Some IsDir" "c \<notin> {[], ''.'', ''..''}" "k (cur @ [c]) = None" "cs = []" "f = MayCreate" "q = cur @ [c]"
    | (link) l m where "k cur = Some IsDir" "c \<notin> {[], ''.'', ''..''}" "k (cur @ [c]) = Some (IsLink l)" "cs \<noteq> [] \<or> f \<noteq> NoFollow" "n = Suc m"
        "resolve k f m (if prefix ''/'' l then [] else cur) (split_on (CHR ''/'') l @ cs) = Inr q"
  using assms that
  by (simp only: resolve.simps) (cases "k (cur @ [c])"; cases n; simp split: if_splits path_kind.splits; blast)

lemma resolve_more_links: "resolve k f n cur cs = Inr q \<Longrightarrow> n \<le> m \<Longrightarrow> resolve k f m cur cs = Inr q"
proof (induction k f n cur cs arbitrary: m rule: resolve.induct)
  case (2 k f n cur c cs)
  from "2.prems"(1) show ?case
  proof (cases rule: resolve_InrE)
    case skip
    then show ?thesis using "2.IH"(1) "2.prems"(2) by (simp only: resolve.simps) simp
  next
    case up
    then show ?thesis using "2.IH"(2) "2.prems"(2) by (simp only: resolve.simps) simp
  next
    case down
    then show ?thesis using "2.IH"(3,4) "2.prems"(2) by (simp only: resolve.simps) auto
  next
    case stop
    then show ?thesis by (simp only: resolve.simps) simp
  next
    case new
    then show ?thesis by (simp only: resolve.simps) simp
  next
    case (link l n')
    then obtain m' where m: "m = Suc m'" "n' \<le> m'" using "2.prems"(2) by (cases m) auto
    show ?thesis using "2.IH"(5) link m by (simp only: resolve.simps) auto
  qed
qed simp

text \<open>A path that was resolved resolves to itself.\<close>

definition canonical :: "(string list \<Rightarrow> path_kind option) \<Rightarrow> string list \<Rightarrow> bool" where
  "canonical k p \<longleftrightarrow> (\<forall>i < length p. k (take i p) = Some IsDir \<and> p ! i \<notin> {[], ''.'', ''..''})"

lemma canonical_Nil [simp]: "canonical k []"
  by (simp add: canonical_def)

lemma canonical_snoc [simp]:
  "canonical k (p @ [c]) \<longleftrightarrow> canonical k p \<and> k p = Some IsDir \<and> c \<notin> {[], ''.'', ''..''}"
  by (auto simp: canonical_def nth_append less_Suc_eq)

lemma canonical_butlast: "canonical k p \<Longrightarrow> canonical k (butlast p)"
  by (cases p rule: rev_cases) auto

lemma resolve_canonical: "resolve k f n cur cs = Inr q \<Longrightarrow> canonical k cur \<Longrightarrow> canonical k q"
proof (induction k f n cur cs rule: resolve.induct)
  case (2 k f n cur c cs)
  from "2.prems"(1) show ?case
  proof (cases rule: resolve_InrE)
    case skip
    then show ?thesis using "2.IH"(1) "2.prems"(2) by simp
  next
    case up
    then show ?thesis using "2.IH"(2) "2.prems"(2) canonical_butlast by simp
  next
    case down
    then show ?thesis using "2.IH"(3,4) "2.prems"(2) by auto
  next
    case stop
    then show ?thesis using "2.prems"(2) by simp
  next
    case new
    then show ?thesis using "2.prems"(2) by simp
  next
    case (link l n')
    then show ?thesis using "2.IH"(5) "2.prems"(2) by auto
  qed
qed simp

text \<open>With following, the outcome exists and is no link.\<close>

lemma resolve_exists:
  "resolve k Follow n cur cs = Inr q \<Longrightarrow> canonical k cur \<Longrightarrow> k cur \<in> {Some IsDir, Some IsFile} \<Longrightarrow> k [] = Some IsDir \<Longrightarrow>
     k q \<in> {Some IsDir, Some IsFile}"
proof (induction k Follow n cur cs rule: resolve.induct)
  case (2 k n cur c cs)
  from "2.prems"(1) show ?case
  proof (cases rule: resolve_InrE)
    case skip
    then show ?thesis using "2.hyps"(1) "2.prems" by simp
  next
    case up
    have "k (butlast cur) = Some IsDir"
      using "2.prems"(2,4) by (cases cur rule: rev_cases) auto
    then show ?thesis using "2.hyps"(2) "2.prems" up canonical_butlast by simp
  next
    case down
    then show ?thesis using "2.hyps"(3,4) "2.prems" by auto
  next
    case (link l n')
    then show ?thesis using "2.hyps"(5) "2.prems" by auto
  qed simp_all
qed simp

lemma resolve_self:
  "canonical k (p @ q) \<Longrightarrow> k (p @ q) \<in> {Some IsDir, Some IsFile} \<Longrightarrow> resolve k f n p q = Inr (p @ q)"
proof (induction q arbitrary: p)
  case (Cons c q)
  have c: "k p = Some IsDir" "c \<notin> {[], ''.'', ''..''}"
    using Cons.prems(1) by (auto simp: canonical_def nth_append dest: spec [of _ "length p"])
  have "k (p @ [c]) = Some IsDir \<or> k (p @ [c]) = Some IsFile"
  proof (cases q)
    case Nil
    then show ?thesis using Cons.prems(2) by auto
  next
    case (Cons d q')
    then show ?thesis using Cons.prems(1)
      by (auto simp: canonical_def dest!: spec [of _ "Suc (length p)"])
  qed
  then show ?case using c Cons.IH [of "p @ [c]"] Cons.prems by (simp only: resolve.simps) auto
qed simp

section \<open>Changes and files\<close>

lemma file_at_put_node:
  assumes "p \<noteq> []" "kind_at t (butlast p) = Some IsDir"
  shows "file_at (put_node t p v) q =
    (if prefix p q then (case v of None \<Rightarrow> None | Some n \<Rightarrow> file_at n (drop (length p) q)) else file_at t q)"
  using leaf_at_put_node [OF assms, of v q] by (cases v) (simp_all add: file_at_leaf)

lemma kind_at_put_node:
  assumes "p \<noteq> []" "kind_at t (butlast p) = Some IsDir"
  shows "kind_at (put_node t p v) q =
    (if prefix p q then (case v of None \<Rightarrow> None | Some n \<Rightarrow> kind_at n (drop (length p) q)) else kind_at t q)"
  using leaf_at_put_node [OF assms, of v q] by (cases v) (simp_all add: kind_at_leaf)

lemma file_at_below: "kind_at t p \<noteq> Some IsDir \<Longrightarrow> strict_prefix p q \<Longrightarrow> file_at t q = None"
proof -
  assume k: "kind_at t p \<noteq> Some IsDir" and "strict_prefix p q"
  then obtain c cs where q: "q = p @ c # cs" by (metis strict_prefixE')
  show ?thesis
  proof (cases "node_at t p")
    case (Some n)
    then show ?thesis using k by (cases n) (auto simp: q file_at_def kind_at_def node_at_append)
  qed (simp add: q file_at_def node_at_append)
qed

text \<open>Writing or removing a file changes no other file.\<close>

lemma file_at_put_file:
  assumes "p \<noteq> []" "kind_at t (butlast p) = Some IsDir" "kind_at t p \<noteq> Some IsDir"
    and "v = None \<or> (\<exists>s m. v = Some (File s m))" "q \<noteq> p"
  shows "file_at (put_node t p v) q = file_at t q"
proof (cases "prefix p q")
  case True
  then have "strict_prefix p q" using assms(5) by (auto simp: strict_prefix_def)
  then have "file_at t q = None" "drop (length p) q \<noteq> []" using file_at_below [OF assms(3)] by (auto elim: strict_prefixE')
  moreover have "file_at (File s m) (drop (length p) q) = None" if "drop (length p) q \<noteq> []" for s m
    using that by (cases "drop (length p) q") (auto simp: file_at_def)
  ultimately show ?thesis using True assms(4) by (auto simp: file_at_put_node [OF assms(1,2)])
qed (simp add: file_at_put_node [OF assms(1,2)])

section \<open>Calls that change\<close>

text \<open>An entry is in a directory, at a canonical path.\<close>

lemma entry_path_InrE:
  assumes "entry_path fs p = Inr q"
  obtains d where "p \<noteq> []" "q = d @ [last p]" "canonical (kind_at (fy_root fs)) d" "kind_at (fy_root fs) d = Some IsDir"
    "resolve (kind_at (fy_root fs)) Follow kernel_links [] (butlast p) = Inr d"
  using assms resolve_canonical that
  by (auto simp: entry_path_def split: if_splits sum.splits)

lemma entry_path_dir: "entry_path fs p = Inr q \<Longrightarrow> q \<noteq> [] \<and> kind_at (fy_root fs) (butlast q) = Some IsDir"
  by (auto elim: entry_path_InrE)

lemma entry_path_canonical:
  "canonical (kind_at (fy_root fs)) p \<Longrightarrow> p \<noteq> [] \<Longrightarrow> entry_path fs p = Inr p"
proof -
  assume p: "canonical (kind_at (fy_root fs)) p" "p \<noteq> []"
  then obtain d c where d: "p = d @ [c]" by (cases p rule: rev_cases) auto
  then have k: "canonical (kind_at (fy_root fs)) d" "kind_at (fy_root fs) d = Some IsDir" using p by auto
  have "resolve (kind_at (fy_root fs)) Follow kernel_links [] ([] @ d) = Inr ([] @ d)"
    using resolve_self [of "kind_at (fy_root fs)" "[]" d] k by (cases d) (auto simp: resolve_self)
  then show ?thesis using d k by (simp add: entry_path_def)
qed

text \<open>A change that puts a file or an empty directory, or removes one, is an update at its path.\<close>

lemma leaf_at_below: "kind_at t p \<noteq> Some IsDir \<Longrightarrow> strict_prefix p q \<Longrightarrow> leaf_at t q = None"
proof -
  assume k: "kind_at t p \<noteq> Some IsDir" and "strict_prefix p q"
  then obtain c cs where q: "q = p @ c # cs" by (metis strict_prefixE')
  show ?thesis
  proof (cases "node_at t p")
    case (Some n)
    then show ?thesis using k by (cases n) (auto simp: q leaf_at_def kind_at_def node_at_append)
  qed (simp add: q leaf_at_def node_at_append)
qed

lemma leaf_at_put_leaf:
  assumes "p \<noteq> []" "kind_at t (butlast p) = Some IsDir" "kind_at t p \<noteq> Some IsDir"
    and "v = None \<or> (\<exists>n. v = Some n \<and> shallow n = n)"
  shows "leaf_at (put_node t p v) = (leaf_at t)(p := v)"
proof
  fix q
  show "leaf_at (put_node t p v) q = ((leaf_at t)(p := v)) q"
  proof (cases "strict_prefix p q")
    case True
    then obtain c cs where q: "q = p @ c # cs" by (metis strict_prefixE')
    have "leaf_at n (c # cs) = None" if "shallow n = n" for n using that by (cases n) (auto simp: leaf_at_Cons)
    then show ?thesis using assms(4) leaf_at_below [OF assms(3) True]
      by (auto simp: leaf_at_put_node [OF assms(1,2)] q)
  next
    case False
    then show ?thesis using assms(4)
      by (auto simp: leaf_at_put_node [OF assms(1,2)] strict_prefix_def leaf_at_Nil)
  qed
qed

lemma node_at_None_leaf: "node_at t p = None \<longleftrightarrow> leaf_at t p = None"
  by (simp add: leaf_at_def)

lemma node_at_File_leaf: "node_at t p = Some (File s m) \<longleftrightarrow> leaf_at t p = Some (File s m)"
  by (cases "node_at t p"; cases "the (node_at t p)") (auto simp: leaf_at_def)

lemma node_at_Link_leaf: "node_at t p = Some (Link l) \<longleftrightarrow> leaf_at t p = Some (Link l)"
  by (cases "node_at t p"; cases "the (node_at t p)") (auto simp: leaf_at_def)

text \<open>Making directories changes no file and nothing that is there.\<close>

lemma node_None_below: "node_at t p = None \<Longrightarrow> prefix p q \<Longrightarrow> node_at t q = None"
  by (auto simp: prefix_def node_at_append)

lemma file_at_Dir_Nil [simp]: "file_at (Dir []) q = None"
  by (cases q) (auto simp: file_at_def)

lemma kind_at_Dir_Nil [simp]: "kind_at (Dir []) q = (if q = [] then Some IsDir else None)"
  by (cases q) (auto simp: kind_at_def)

definition only_adds_dirs :: "file_system \<Rightarrow> file_system \<Rightarrow> bool" where
  "only_adds_dirs fs fs' \<longleftrightarrow> fy_cwd fs' = fy_cwd fs \<and> fy_text fs' = fy_text fs \<and>
     file_at (fy_root fs') = file_at (fy_root fs) \<and>
     (\<forall>q. kind_at (fy_root fs) q \<noteq> None \<longrightarrow> kind_at (fy_root fs') q = kind_at (fy_root fs) q) \<and>
     (\<forall>q. kind_at (fy_root fs') q \<noteq> kind_at (fy_root fs) q \<longrightarrow> kind_at (fy_root fs') q = Some IsDir)"

lemma only_adds_dirs_refl [simp]: "only_adds_dirs fs fs"
  by (simp add: only_adds_dirs_def)

lemma only_adds_dirs_trans: "only_adds_dirs fs fs' \<Longrightarrow> only_adds_dirs fs' fs'' \<Longrightarrow> only_adds_dirs fs fs''"
  unfolding only_adds_dirs_def by metis

lemma mkdir_only_adds_dirs:
  assumes "mkdir fs p = Inr fs'"
  shows "only_adds_dirs fs fs'"
proof -
  obtain q where q: "entry_path fs p = Inr q" "node_at (fy_root fs) q = None" "fs' = put_file fs q (Some (Dir []))"
    using assms by (auto simp: mkdir_def split: sum.splits if_splits)
  note d = entry_path_dir [OF q(1)]
  have "file_at (fy_root fs') r = file_at (fy_root fs) r" for r
    using d q(2) by (auto simp: q(3) put_file_def file_at_put_node node_None_below file_at_def [of "fy_root fs"])
  moreover have "kind_at (fy_root fs') r =
      (if r = q then Some IsDir else kind_at (fy_root fs) r)" for r
    using d q(2) by (auto simp: q(3) put_file_def kind_at_put_node node_None_below kind_at_def [of "fy_root fs"] prefix_def)
  moreover have "kind_at (fy_root fs) q = None" using q(2) by (simp add: kind_at_def)
  ultimately show ?thesis by (auto simp: only_adds_dirs_def q(3) put_file_def)
qed

lemma mkdir_all_only_adds_dirs: "mkdir_all fs p = (r, fs') \<Longrightarrow> only_adds_dirs fs fs'"
proof (induction fs p arbitrary: r fs' rule: mkdir_all.induct)
  case (1 fs p)
  show ?case
  proof (cases "stat fs p")
    case (Inr n)
    then show ?thesis using "1.prems" by (cases n) (auto simp: mkdir_all.simps [of fs p])
  next
    case (Inl e)
    show ?thesis
    proof (cases "p = []")
      case True
      then show ?thesis using "1.prems" Inl by (auto simp: mkdir_all.simps [of fs "[]"])
    next
      case False
      obtain r1 fs1 where m: "mkdir_all fs (butlast p) = (r1, fs1)" by fastforce
      have "only_adds_dirs fs fs1" by (rule "1.IH" [OF Inl False m])
      moreover have "only_adds_dirs fs1 fs'"
        using "1.prems" Inl False m mkdir_only_adds_dirs
        by (auto simp: mkdir_all.simps [of fs p] split: option.splits sum.splits fs_node.splits)
      ultimately show ?thesis by (rule only_adds_dirs_trans)
    qed
  qed
qed

lemma canonical_only_adds_dirs:
  "only_adds_dirs fs fs' \<Longrightarrow> canonical (kind_at (fy_root fs)) p \<Longrightarrow> canonical (kind_at (fy_root fs')) p"
  unfolding canonical_def only_adds_dirs_def by (metis option.distinct(1))

text \<open>What was resolved can be replaced by its outcome, unless there are too many links.\<close>

lemma resolve_append:
  "resolve k Follow m cur cs = Inr q \<Longrightarrow> ds \<noteq> [] \<Longrightarrow>
     resolve k f n cur (cs @ ds) = Inl ELOOP \<or> (\<exists>n'. resolve k f n cur (cs @ ds) = resolve k f n' q ds)"
proof (induction k Follow m cur cs arbitrary: n rule: resolve.induct)
  case (2 k m cur c cs)
  from "2.prems"(1) show ?case
  proof (cases rule: resolve_InrE)
    case skip
    then show ?thesis using "2.hyps"(1) "2.prems"(2) by simp
  next
    case up
    then show ?thesis using "2.hyps"(2) "2.prems"(2) by simp
  next
    case down
    then have "resolve k f n (cur @ [c]) (cs @ ds) = Inl ELOOP \<or>
        (\<exists>n'. resolve k f n (cur @ [c]) (cs @ ds) = resolve k f n' q ds)"
      using "2.hyps"(3,4) "2.prems"(2) by blast
    then show ?thesis using down "2.prems"(2) by auto
  next
    case (link l m')
    show ?thesis
    proof (cases n)
      case 0
      then show ?thesis using link "2.prems"(2) by simp
    next
      case (Suc n')
      have "resolve k f n cur ((c # cs) @ ds) =
          resolve k f n' (if prefix ''/'' l then [] else cur) ((split_on (CHR ''/'') l @ cs) @ ds)"
        using link Suc "2.prems"(2) by simp
      moreover have "resolve k f n' (if prefix ''/'' l then [] else cur) ((split_on (CHR ''/'') l @ cs) @ ds) = Inl ELOOP \<or>
          (\<exists>n''. resolve k f n' (if prefix ''/'' l then [] else cur) ((split_on (CHR ''/'') l @ cs) @ ds) = resolve k f n'' q ds)"
        by (rule "2.hyps"(5) [OF _ _ _ link(3) refl _ link(5,6) "2.prems"(2)]) (use link(1,2) in auto)
      ultimately show ?thesis by presburger
    qed
  qed simp_all
qed auto

text \<open>Directories that are there are walked through.\<close>

lemma resolve_through:
  "canonical k (p @ q) \<Longrightarrow> k (p @ q) = Some IsDir \<Longrightarrow> resolve k f n p (q @ ds) = resolve k f n (p @ q) ds"
proof (induction q arbitrary: p)
  case (Cons c q)
  have c: "k p = Some IsDir" "c \<notin> {[], ''.'', ''..''}"
    using Cons.prems(1) by (auto simp: canonical_def nth_append dest: spec [of _ "length p"])
  have "k (p @ [c]) = Some IsDir"
  proof (cases q)
    case Nil
    then show ?thesis using Cons.prems(2) by simp
  next
    case (Cons d q')
    then show ?thesis using Cons.prems(1) by (auto simp: canonical_def dest!: spec [of _ "Suc (length p)"])
  qed
  then show ?case using c Cons.IH [of "p @ [c]"] Cons.prems by simp
qed simp

lemma resolve_missing:
  "canonical k q \<Longrightarrow> k q = Some IsDir \<Longrightarrow> k (q @ [c]) = None \<Longrightarrow> c \<notin> {[], ''.'', ''..''} \<Longrightarrow> f \<noteq> MayCreate \<Longrightarrow>
     resolve k f n [] (q @ c # cs) = Inl ENOENT"
  using resolve_through [of k "[]" q f n "c # cs"] by simp

text \<open>The names of an outcome hold no separator.\<close>

lemma resolve_names:
  "resolve k f n cur cs = Inr q \<Longrightarrow> (\<forall>c \<in> set cur \<union> set cs. CHR ''/'' \<notin> set c) \<Longrightarrow> (\<forall>c \<in> set q. CHR ''/'' \<notin> set c)"
proof (induction k f n cur cs rule: resolve.induct)
  case (2 k f n cur c cs)
  from "2.prems"(1) show ?case
  proof (cases rule: resolve_InrE)
    case skip
    then show ?thesis using "2.IH"(1) "2.prems"(2) by simp
  next
    case up
    have "\<forall>c \<in> set (butlast cur) \<union> set cs. CHR ''/'' \<notin> set c" using "2.prems"(2) by (auto dest: in_set_butlastD)
    then show ?thesis using "2.IH"(2) up by simp
  next
    case down
    then show ?thesis using "2.IH"(3,4) "2.prems"(2) by auto
  next
    case stop
    then show ?thesis using "2.prems"(2) by simp
  next
    case new
    then show ?thesis using "2.prems"(2) by simp
  next
    case (link l n')
    have "\<forall>c \<in> set (if prefix ''/'' l then [] else cur) \<union> set (split_on (CHR ''/'') l @ cs). CHR ''/'' \<notin> set c"
      using "2.prems"(2) by (cases "prefix ''/'' l") (auto dest: split_on_no_sep)
    moreover have "\<not> (cs = [] \<and> f = NoFollow)" using link(4) by simp
    ultimately show ?thesis using "2.IH"(5) [OF _ _ _ link(3) refl _ link(5,6)] link(1,2) by simp
  qed
qed auto

section \<open>Paths inside a directory\<close>

definition name_list :: "string list \<Rightarrow> bool" where
  "name_list cs \<longleftrightarrow> (\<forall>c \<in> set cs. c \<notin> {[], ''.'', ''..''} \<and> CHR ''/'' \<notin> set c)"

lemma name_list_simps [simp]:
  "name_list []" "name_list (c # cs) \<longleftrightarrow> c \<notin> {[], ''.'', ''..''} \<and> CHR ''/'' \<notin> set c \<and> name_list cs"
  "name_list (cs @ ds) \<longleftrightarrow> name_list cs \<and> name_list ds"
  by (auto simp: name_list_def)

lemma name_list_abs_elems: "prefix ''/'' cwd \<Longrightarrow> name_list (abs_elems cwd p)"
proof -
  assume "prefix ''/'' cwd"
  then have "prefix ''/'' (if prefix ''/'' p then p else cwd @ ''/'' @ p)" by (cases cwd) auto
  then have "clean_elems True (abs_elems cwd p)"
    using path_elems_clean [of "if prefix ''/'' p then p else cwd @ ''/'' @ p"] by (simp only: abs_elems_def)
  then show ?thesis by (force simp: clean_elems_def name_list_def)
qed

lemma canonical_names:
  "canonical k q \<Longrightarrow> (\<forall>c \<in> set q. CHR ''/'' \<notin> set c) \<Longrightarrow> name_list q"
  by (auto simp: canonical_def name_list_def in_set_conv_nth)

lemma resolve_name_list: "resolve k f n [] cs = Inr q \<Longrightarrow> name_list cs \<Longrightarrow> name_list q"
  using resolve_canonical [of k f n "[]" cs q] resolve_names [of k f n "[]" cs q]
  by (intro canonical_names) (auto simp: name_list_def)

lemma rel_elems_prefix [simp]: "rel_elems base (base @ r) = r"
  by (induction base) (cases r; simp)+

lemma rel_elems_outside: "\<not> prefix base p \<Longrightarrow> \<exists>ds. rel_elems base p = ''..'' # ds"
  by (induction base p rule: rel_elems.induct) (auto simp: neq_Nil_conv)

lemma rel_text_inside:
  assumes "\<not> (rel_text base p = ''..'' \<or> prefix ''../'' (rel_text base p))"
  obtains r where "p = base @ r" "rel_text base p = elems_text r"
proof -
  have "prefix base p"
  proof (rule ccontr)
    assume "\<not> prefix base p"
    then obtain ds where "rel_elems base p = ''..'' # ds" using rel_elems_outside by blast
    then show False using assms by (cases ds) (auto simp: rel_text_def elems_text_def)
  qed
  then show thesis using that by (auto simp: prefix_def rel_text_def)
qed

lemma elems_text_Cons: "elems_text (c # cs) = c @ (if cs = [] then [] else ''/'' @ join ''/'' cs)"
  by (cases cs) (simp_all add: elems_text_def)

lemma path_elems_elems_text: "name_list r \<Longrightarrow> path_elems (elems_text r) = r"
proof (cases r)
  case Nil
  then show ?thesis by (simp add: elems_text_def path_elems_def clean_step_def)
next
  case (Cons c cs)
  assume n: "name_list r"
  have ce: "clean_elems b r" for b by (rule clean_elemsI [of _ 0 r]) (use n in \<open>auto simp: name_list_def\<close>)
  have "split_on (CHR ''/'') (elems_text r) = r"
    using Cons n split_on_join [of r "CHR ''/''"] by (simp add: elems_text_def name_list_def)
  then show ?thesis using clean_fold_id [OF ce] by (simp add: path_elems_def)
qed

lemma path_clean_elems_text: "name_list r \<Longrightarrow> path_clean (elems_text r) = elems_text r"
proof (cases r)
  case Nil
  then show ?thesis by (simp add: elems_text_def path_clean_elems path_elems_def clean_step_def)
next
  case (Cons c cs)
  assume n: "name_list r"
  then have "\<not> prefix ''/'' (elems_text r)" by (cases c) (auto simp: Cons elems_text_Cons)
  with n have "path_clean (elems_text r) = join ''/'' r" by (simp add: path_clean_elems path_elems_elems_text Cons)
  then show ?thesis by (simp add: elems_text_def Cons)
qed

section \<open>Trees that differ in contents only\<close>

text \<open>The contents of the files outside \<open>keep\<close> blanked.\<close>

fun scrub :: "(string list \<Rightarrow> bool) \<Rightarrow> string list \<Rightarrow> fs_node \<Rightarrow> fs_node" where
  "scrub keep p (File s m) = (if keep p then File s m else File [] m)"
| "scrub keep p (Link l) = Link l"
| "scrub keep p (Dir es) = Dir (map (\<lambda>e. (fst e, scrub keep (p @ [fst e]) (snd e))) es)"

lemma node_at_scrub: "node_at (scrub keep p t) q = map_option (scrub keep (p @ q)) (node_at t q)"
proof (induction t q arbitrary: p rule: node_at.induct)
  case (2 es c cs)
  have "map_of (map (\<lambda>e. (fst e, scrub keep (p @ [fst e]) (snd e))) es) c = map_option (scrub keep (p @ [c])) (map_of es c)"
    by (induction es) auto
  with 2 show ?case by (cases "map_of es c") auto
qed auto

lemma kind_of_scrub [simp]: "kind_of (scrub keep p t) = kind_of t"
  by (cases t) auto

lemma kind_at_scrub: "kind_at (scrub keep [] t) = kind_at t"
  by (rule ext) (simp add: kind_at_def node_at_scrub option.map_comp comp_def)

lemma file_at_scrub: "keep p \<Longrightarrow> file_at (scrub keep [] t) p = file_at t p"
  by (auto simp: file_at_def node_at_scrub split: option.splits fs_node.splits)

text \<open>A file system with the contents outside \<open>keep\<close> blanked.\<close>

definition blanked :: "(string list \<Rightarrow> bool) \<Rightarrow> file_system \<Rightarrow> file_system" where
  "blanked keep fs = fs\<lparr>fy_root := scrub keep [] (fy_root fs)\<rparr>"

lemma blanked_simps [simp]:
  "fy_cwd (blanked keep fs) = fy_cwd fs" "fy_text (blanked keep fs) = fy_text fs"
  "kind_at (fy_root (blanked keep fs)) = kind_at (fy_root fs)"
  "eval_symlinks (blanked keep fs) p = eval_symlinks fs p"
  by (simp_all add: blanked_def kind_at_scrub eval_symlinks_def)

lemma stat_blanked:
  "stat (blanked keep fs) p =
     (case resolve (kind_at (fy_root fs)) Follow kernel_links [] p of
        Inl e \<Rightarrow> Inl e
      | Inr q \<Rightarrow> (case node_at (fy_root fs) q of None \<Rightarrow> Inl ENOENT | Some n \<Rightarrow> Inr (scrub keep q n)))"
  by (auto simp: stat_def node_at_scrub [of keep "[]", simplified] blanked_def kind_at_scrub split: sum.splits option.splits)

lemma lstat_blanked:
  "lstat (blanked keep fs) p =
     (case resolve (kind_at (fy_root fs)) NoFollow kernel_links [] p of
        Inl e \<Rightarrow> Inl e
      | Inr q \<Rightarrow> (case node_at (fy_root fs) q of None \<Rightarrow> Inl ENOENT | Some n \<Rightarrow> Inr (scrub keep q n)))"
  by (auto simp: lstat_def node_at_scrub [of keep "[]", simplified] blanked_def kind_at_scrub split: sum.splits option.splits)

text \<open>Reading a path that resolves into \<open>keep\<close>, or to no path, is not affected.\<close>

lemma read_file_blanked:
  assumes "\<And>q. resolve (kind_at (fy_root fs)) Follow kernel_links [] p = Inr q \<Longrightarrow> keep q"
  shows "read_file (blanked keep fs) p = read_file fs p"
proof (cases "resolve (kind_at (fy_root fs)) Follow kernel_links [] p")
  case (Inl e)
  then show ?thesis by (simp add: read_file_def stat_blanked stat_def)
next
  case (Inr q)
  then show ?thesis using assms [OF Inr]
    by (cases "node_at (fy_root fs) q"; cases "the (node_at (fy_root fs) q)") (simp_all add: read_file_def stat_blanked stat_def [of fs])
qed

end
