(* ===== verification/Memory.thy ===== *)
theory Memory
  imports Fs Display Go_Time
begin

text \<open>
  \<open>internal/memory\<close>: which paths of the workspace are memory files and who may see them
  (\<open>guard.go\<close>), reading (\<open>get.go\<close>), searching (\<open>search.go\<close>) and appending
  (\<open>writer.go\<close>).  The lower case of a text, a table of the Unicode version, is an argument of the
  search.
\<close>

section \<open>Guard\<close>

definition default_max_get_chars :: nat where "default_max_get_chars = 8000"

definition VisibilityPublic :: string where "VisibilityPublic = ''public''"
definition VisibilityPrivate :: string where "VisibilityPrivate = ''private''"

datatype memory_error =
  ErrPathDenied string
| ErrInvalidRange string
| MemoryOsError string "string list" errno
| MemoryError string

definition memory_error_text :: "file_system \<Rightarrow> memory_error \<Rightarrow> string" where
  "memory_error_text fs e =
     (case e of
        ErrPathDenied m \<Rightarrow> ''path denied: '' @ m
      | ErrInvalidRange m \<Rightarrow> ''invalid range: '' @ m
      | MemoryOsError op p n \<Rightarrow> fy_text fs op p n
      | MemoryError m \<Rightarrow> m)"

record path_info =
  pi_visibility :: string
  pi_kind :: string

definition allowed_visibilities_for_channel :: "string \<Rightarrow> string list" where
  "allowed_visibilities_for_channel channel =
     (if to_lower (trim_space channel) = ''dm'' then [VisibilityPrivate, VisibilityPublic] else [VisibilityPublic])"

definition can_access_visibility :: "string \<Rightarrow> string \<Rightarrow> bool" where
  "can_access_visibility channel visibility =
     (to_lower (trim_space visibility) \<in> set (allowed_visibilities_for_channel channel))"

definition can_access_scope :: "string \<Rightarrow> string \<Rightarrow> bool" where
  "can_access_scope channel sc = can_access_visibility channel sc"

definition describe_memory_path :: "string \<Rightarrow> path_info option" where
  "describe_memory_path rel =
     (let info = (\<lambda>v k. Some \<lparr> pi_visibility = v, pi_kind = k \<rparr>); md = suffix ''.md'' rel in
      if rel = ''MEMORY.md'' then info VisibilityPublic ''curated''
      else if rel = ''memory/public/MEMORY.md'' then info VisibilityPublic ''curated''
      else if rel = ''memory/private/MEMORY.md'' then info VisibilityPrivate ''curated''
      else if prefix ''memory/public/daily/'' rel \<and> md then info VisibilityPublic ''daily''
      else if prefix ''memory/private/daily/'' rel \<and> md then info VisibilityPrivate ''daily''
      else if prefix ''memory/public/'' rel \<and> md then info VisibilityPublic ''daily''
      else if prefix ''memory/private/'' rel \<and> md then info VisibilityPrivate ''daily''
      else if prefix ''memory/'' rel \<and> md then info VisibilityPrivate ''daily''
      else None)"

definition outside_path :: "string \<Rightarrow> bool" where
  "outside_path clean = (prefix ''/'' clean \<or> clean = ''..'' \<or> prefix ''../'' clean)"

definition is_within_workspace :: "string list \<Rightarrow> string list \<Rightarrow> bool" where
  "is_within_workspace base p = (\<not> (rel_text base p = ''..'' \<or> prefix ''../'' (rel_text base p)))"

definition workspace_abs :: "file_system \<Rightarrow> string \<Rightarrow> string list" where
  "workspace_abs fs workspace = abs_elems (fy_cwd fs) workspace"

definition workspace_real :: "file_system \<Rightarrow> string \<Rightarrow> string list" where
  "workspace_real fs workspace =
     (case eval_symlinks fs (workspace_abs fs workspace) of Inr q \<Rightarrow> q | Inl _ \<Rightarrow> workspace_abs fs workspace)"

text \<open>The relative path, the absolute path with its links resolved, and what the path is.\<close>

definition resolve_path_info :: "file_system \<Rightarrow> string \<Rightarrow> string \<Rightarrow> memory_error + string \<times> string list \<times> path_info" where
  "resolve_path_info fs workspace raw =
     (let p = trim_space raw; clean = path_clean p in
      if p = [] then Inl (ErrPathDenied ''empty path'')
      else if outside_path clean then Inl (ErrPathDenied ''outside workspace'')
      else (case describe_memory_path clean of
              None \<Rightarrow> Inl (ErrPathDenied ''path not in whitelist'')
            | Some info \<Rightarrow>
                (let absolute = abs_elems (fy_cwd fs) (path_join workspace clean) in
                 if \<not> is_within_workspace (workspace_abs fs workspace) absolute
                 then Inl (ErrPathDenied ''outside workspace'')
                 else (case eval_symlinks fs absolute of
                         Inr q \<Rightarrow>
                           if \<not> is_within_workspace (workspace_real fs workspace) q
                           then Inl (ErrPathDenied ''symlink escapes workspace'')
                           else (case describe_memory_path (path_clean (rel_text (workspace_real fs workspace) q)) of
                                   None \<Rightarrow> Inl (ErrPathDenied ''symlink target not in whitelist'')
                                 | Some resolved \<Rightarrow> Inr (clean, q, resolved))
                       | Inl e \<Rightarrow> if e = ENOENT then Inr (clean, absolute, info)
                                  else Inl (MemoryOsError ''EvalSymlinks'' absolute e)))))"

definition memory_resolve_path :: "file_system \<Rightarrow> string \<Rightarrow> string \<Rightarrow> memory_error + string \<times> string list \<times> string" where
  "memory_resolve_path fs workspace raw =
     map_sum id (\<lambda>(rel, p, info). (rel, p, pi_visibility info)) (resolve_path_info fs workspace raw)"

record memory_file =
  mf_path :: string
  mf_visibility :: string
  mf_kind :: string

text \<open>
  The files below a directory, as \<open>filepath.WalkDir\<close> meets them without following links; the
  order of a directory's entries does not matter, because the listing is sorted.
\<close>

fun walk_files :: "string list \<Rightarrow> fs_node \<Rightarrow> string list list" where
  "walk_files p (Dir es) = concat (map (\<lambda>e. walk_files (p @ [fst e]) (snd e)) es)"
| "walk_files p n = [p]"

definition memory_file_of :: "file_system \<Rightarrow> string \<Rightarrow> string \<Rightarrow> memory_file list" where
  "memory_file_of fs workspace raw =
     (case resolve_path_info fs workspace raw of
        Inl e \<Rightarrow> []
      | Inr (rel, _, info) \<Rightarrow> [\<lparr> mf_path = rel, mf_visibility = pi_visibility info, mf_kind = pi_kind info \<rparr>])"

definition list_memory_files :: "file_system \<Rightarrow> string \<Rightarrow> memory_file list" where
  "list_memory_files fs workspace =
     (let root = abs_elems (fy_cwd fs) (path_join workspace ''memory'');
          walked = (case stat fs root of
              Inr (Dir _) \<Rightarrow> (case lstat fs root of Inr n \<Rightarrow> walk_files [''memory''] n | Inl _ \<Rightarrow> [])
            | _ \<Rightarrow> []);
          found = concat (map (\<lambda>p. memory_file_of fs workspace (join ''/'' p))
            (filter (\<lambda>p. suffix ''.md'' (to_lower (last p))) walked));
          curated = (case stat fs (abs_elems (fy_cwd fs) (path_join workspace ''MEMORY.md'')) of
              Inr (Dir _) \<Rightarrow> [] | Inr _ \<Rightarrow> memory_file_of fs workspace ''MEMORY.md'' | Inl _ \<Rightarrow> [])
      in sort_key mf_path (found @ curated))"

section \<open>Reading\<close>

definition normalize_visibility :: "string \<Rightarrow> string" where
  "normalize_visibility v = (if equal_fold (trim_space v) VisibilityPrivate then VisibilityPrivate else VisibilityPublic)"

record text_file =
  tf_path :: string
  tf_resolved_path :: "string list"
  tf_visibility :: string
  tf_kind :: string
  tf_content :: string

definition read_text :: "file_system \<Rightarrow> string \<Rightarrow> string \<Rightarrow> string list \<Rightarrow> memory_error + text_file option" where
  "read_text fs workspace raw allowed =
     (case resolve_path_info fs workspace raw of
        Inl e \<Rightarrow> Inl e
      | Inr (rel, p, info) \<Rightarrow>
          if allowed \<noteq> [] \<and> normalize_visibility (pi_visibility info) \<notin> set allowed then Inr None
          else (case read_file fs p of
                  Inl e \<Rightarrow> if e = ENOENT then Inr None else Inl (MemoryOsError ''open'' p e)
                | Inr b \<Rightarrow>
                    (let content = trim_space b in
                     if content = [] then Inr None
                     else Inr (Some \<lparr> tf_path = rel, tf_resolved_path = p, tf_visibility = pi_visibility info,
                       tf_kind = pi_kind info, tf_content = content \<rparr>))))"

text \<open>\<open>strings.ReplaceAll(s, "\r\n", "\n")\<close>\<close>

fun replace_crlf :: "string \<Rightarrow> string" where
  "replace_crlf (a # b # s) = (if a = CHR 0x0D \<and> b = CHR 0x0A then b # replace_crlf s else a # replace_crlf (b # s))"
| "replace_crlf s = s"

definition text_lines :: "string \<Rightarrow> string list" where
  "text_lines s = (let ls = split_on (CHR 0x0A) (replace_crlf s) in if last ls = [] then butlast ls else ls)"

definition normalize_range :: "int list \<Rightarrow> nat \<Rightarrow> memory_error + nat \<times> nat" where
  "normalize_range raw count =
     (if count = 0 then Inl (ErrInvalidRange ''empty file'')
      else (case raw of
              [] \<Rightarrow> Inr (1, count)
            | [start, stop] \<Rightarrow>
                if start \<le> 0 \<or> stop < start then Inl (ErrInvalidRange ''invalid lines'')
                else if int count < start then Inl (ErrInvalidRange ''start out of range'')
                else Inr (nat start, if int count < stop then count else nat stop)
            | _ \<Rightarrow> Inl (ErrInvalidRange ''lines must be [start,end]'')))"

definition truncated_rest :: string where "truncated_rest = ''...<truncated>''"

text \<open>The loop that numbers the lines; \<open>out\<close> is what the builder holds.\<close>

fun number_lines :: "nat \<Rightarrow> string \<Rightarrow> nat \<Rightarrow> string list \<Rightarrow> string" where
  "number_lines max_chars out i [] = out"
| "number_lines max_chars out i (l # ls) =
     (let chunk = show_nat i @ '': '' @ l @ [CHR 0x0A] in
      if max_chars < length out + length chunk
      then (if length out + length truncated_rest \<le> max_chars then out @ truncated_rest else out)
      else number_lines max_chars (out @ chunk) (Suc i) ls)"

definition memory_get :: "file_system \<Rightarrow> string \<Rightarrow> string \<Rightarrow> int list \<Rightarrow> int \<Rightarrow> memory_error + string \<times> string" where
  "memory_get fs workspace path lines max_chars =
     (let max_chars = (if max_chars \<le> 0 then default_max_get_chars else nat max_chars) in
      case memory_resolve_path fs workspace path of
        Inl e \<Rightarrow> Inl e
      | Inr (rel, p, _) \<Rightarrow>
          (case read_file fs p of
             Inl e \<Rightarrow> Inl (MemoryOsError ''open'' p e)
           | Inr b \<Rightarrow>
               (let ls = text_lines b in
                case normalize_range lines (length ls) of
                  Inl e \<Rightarrow> Inl e
                | Inr (start, stop) \<Rightarrow>
                    Inr (rel, number_lines max_chars [] start (take (Suc stop - start) (drop (start - 1) ls))))))"

section \<open>Searching\<close>

record search_args =
  sa_query :: string
  sa_visibility :: string
  sa_kind :: string
  sa_top_k :: int
  sa_channel_type :: string

record search_hit =
  sh_path :: string
  sh_visibility :: string
  sh_kind :: string
  sh_line :: nat
  sh_score :: nat
  sh_preview :: string

definition resolve_visibilities :: "string \<Rightarrow> string \<Rightarrow> memory_error + string list" where
  "resolve_visibilities visibility channel =
     (let allowed = allowed_visibilities_for_channel channel in
      if visibility = [] \<or> visibility = ''auto'' then Inr allowed
      else if visibility = VisibilityPublic \<or> visibility = VisibilityPrivate
      then Inr (if visibility \<in> set allowed then [visibility] else [])
      else Inl (MemoryError ''invalid visibility''))"

definition resolve_kinds :: "string \<Rightarrow> memory_error + string list" where
  "resolve_kinds kind =
     (if kind = [] \<or> kind = ''any'' then Inr [''curated'', ''daily'']
      else if kind = ''curated'' then Inr [''curated''] else if kind = ''daily'' then Inr [''daily'']
      else Inl (MemoryError ''invalid kind''))"

definition tokenize :: "(string \<Rightarrow> string) \<Rightarrow> string \<Rightarrow> string list" where
  "tokenize lower query =
     (let parts = string_fields (lower query) in if parts = [] then [lower query] else parts)"

definition score_line :: "string \<Rightarrow> string \<Rightarrow> string list \<Rightarrow> nat" where
  "score_line line full tokens =
     (if contains_text line full then 3 else 0) + length (filter (\<lambda>tok. tok \<noteq> [] \<and> contains_text line tok) tokens)"

definition truncate_preview :: "string \<Rightarrow> int \<Rightarrow> string" where
  "truncate_preview line max_runes =
     (if max_runes \<le> 0 then []
      else if int (length (runes line)) \<le> max_runes then line
      else string_of_runes (take (nat max_runes) (runes line)) @ ''...'')"

text \<open>The lines \<open>bufio.Scanner\<close> yields: the last one if not empty, and none from a line on that fills the buffer.\<close>

definition drop_cr :: "string \<Rightarrow> string" where
  "drop_cr l = (if l \<noteq> [] \<and> last l = CHR 0x0D then butlast l else l)"

definition scan_lines :: "nat \<Rightarrow> string \<Rightarrow> string list" where
  "scan_lines buffer s =
     (let ls = split_on (CHR 0x0A) s; ls = (if last ls = [] then butlast ls else ls)
      in map drop_cr (takeWhile (\<lambda>l. length l < buffer) ls))"

definition scanner_buffer :: nat where "scanner_buffer = 1024 * 1024"

definition line_hits :: "(string \<Rightarrow> string) \<Rightarrow> string \<Rightarrow> string list \<Rightarrow> memory_file \<Rightarrow> string list \<Rightarrow> search_hit list" where
  "line_hits lower needle tokens f ls =
     concat (map (\<lambda>(i, line).
         (let score = score_line (lower line) needle tokens in
          if score \<le> 0 then []
          else [\<lparr> sh_path = mf_path f, sh_visibility = mf_visibility f, sh_kind = mf_kind f, sh_line = i,
                  sh_score = score, sh_preview = truncate_preview line 120 \<rparr>]))
       (zip [1..<Suc (length ls)] ls))"

definition file_hits :: "(string \<Rightarrow> string) \<Rightarrow> file_system \<Rightarrow> string \<Rightarrow> string \<Rightarrow> string list \<Rightarrow> memory_file \<Rightarrow> search_hit list" where
  "file_hits lower fs workspace needle tokens f =
     (case read_file fs (abs_elems (fy_cwd fs) (path_join workspace (mf_path f))) of
        Inl _ \<Rightarrow> []
      | Inr b \<Rightarrow> line_hits lower needle tokens f (scan_lines scanner_buffer b))"

definition hit_order :: "search_hit \<Rightarrow> int \<times> string \<times> nat" where
  "hit_order h = (- int (sh_score h), sh_path h, sh_line h)"

definition search_top_k :: "int \<Rightarrow> nat" where
  "search_top_k k = (let k = (if k \<le> 0 then 6 else k) in nat (if 20 < k then 20 else k))"

text \<open>None is the nil slice of hits.\<close>

definition memory_search :: "(string \<Rightarrow> string) \<Rightarrow> file_system \<Rightarrow> string \<Rightarrow> search_args \<Rightarrow> memory_error + search_hit list option" where
  "memory_search lower fs workspace args =
     (let query = trim_space (sa_query args) in
      if query = [] then Inl (MemoryError ''query is required'')
      else (case resolve_visibilities (trim_space (sa_visibility args)) (trim_space (sa_channel_type args)) of
              Inl e \<Rightarrow> Inl e
            | Inr visibilities \<Rightarrow>
                (case resolve_kinds (trim_space (sa_kind args)) of
                   Inl e \<Rightarrow> Inl e
                 | Inr kinds \<Rightarrow>
                     if list_memory_files fs workspace = [] then Inr None
                     else Inr (Some (take (search_top_k (sa_top_k args)) (sort_key hit_order
                       (concat (map (file_hits lower fs workspace (lower query) (tokenize lower query))
                         (filter (\<lambda>f. mf_visibility f \<in> set visibilities \<and> mf_kind f \<in> set kinds)
                           (list_memory_files fs workspace))))))))))"

section \<open>Writing\<close>

definition sanitize_line :: "string \<Rightarrow> string" where
  "sanitize_line s = (let s = trim_space (replace_char (CHR 0x0A) '' '' s) in if s = [] then ''-'' else s)"

definition visibility_for_channel :: "string \<Rightarrow> string" where
  "visibility_for_channel channel = (if equal_fold (trim_space channel) ''dm'' then VisibilityPrivate else VisibilityPublic)"

definition daily_path :: "string \<Rightarrow> time \<Rightarrow> string" where
  "daily_path visibility now = path_clean (join ''/'' [''memory'', normalize_visibility visibility, ''daily'', date_text now @ ''.md''])"

definition curated_path :: "string \<Rightarrow> string" where
  "curated_path visibility = path_clean (join ''/'' [''memory'', normalize_visibility visibility, ''MEMORY.md''])"

definition default_perm :: nat where "default_perm = 420"

text \<open>
  An append that creates the file when \<open>create\<close> is set, on the path the kernel resolves.  The
  writes and syncs of an open file are taken to succeed.
\<close>

definition append_file :: "bool \<Rightarrow> file_system \<Rightarrow> string list \<Rightarrow> string \<Rightarrow> errno + file_system" where
  "append_file create fs p s =
     (case resolve (kind_at (fy_root fs)) (if create then MayCreate else Follow) kernel_links [] p of
        Inl e \<Rightarrow> Inl e
      | Inr q \<Rightarrow>
          (case node_at (fy_root fs) q of
             Some (File b m) \<Rightarrow> Inr (put_file fs q (Some (File (b @ s) m)))
           | None \<Rightarrow> Inr (put_file fs q (Some (File s default_perm)))
           | _ \<Rightarrow> Inl EISDIR))"

definition write_daily :: "file_system \<Rightarrow> string \<Rightarrow> string \<Rightarrow> string \<Rightarrow> time \<Rightarrow> time \<Rightarrow> string \<Rightarrow> (errno + string) \<times> file_system" where
  "write_daily fs workspace src body clock now0 visibility =
     (let now = (if is_zero_time now0 then clock else now0); rel = daily_path visibility now;
          p = abs_elems (fy_cwd fs) (path_join workspace rel);
          line = ''- ['' @ rfc3339_text now @ ''] ('' @ sanitize_line src @ '') '' @ sanitize_line body @ [CHR 0x0A]
      in case mkdir_all fs (butlast p) of
           (Some e, fs1) \<Rightarrow> (Inl e, fs1)
         | (None, fs1) \<Rightarrow>
             (case append_file True fs1 p line of Inl e \<Rightarrow> (Inl e, fs1) | Inr fs2 \<Rightarrow> (Inr rel, fs2)))"

definition curated_header :: string where
  "curated_header = ''# Curated Memory'' @ [CHR 0x0A, CHR 0x0A]"

definition write_curated :: "file_system \<Rightarrow> string \<Rightarrow> string \<Rightarrow> time \<Rightarrow> time \<Rightarrow> string \<Rightarrow> (errno + string) \<times> file_system" where
  "write_curated fs workspace body clock now0 visibility =
     (let now = (if is_zero_time now0 then clock else now0); rel = curated_path visibility;
          p = abs_elems (fy_cwd fs) (path_join workspace rel);
          line = ''- '' @ date_text now @ '' '' @ sanitize_line body @ [CHR 0x0A]
      in case mkdir_all fs (butlast p) of
           (Some e, fs1) \<Rightarrow> (Inl e, fs1)
         | (None, fs1) \<Rightarrow>
             (case (if stat fs1 p = Inl ENOENT then append_file True fs1 p curated_header else Inr fs1) of
                Inl e \<Rightarrow> (Inl e, fs1)
              | Inr fs2 \<Rightarrow>
                  (case append_file False fs2 p line of Inl e \<Rightarrow> (Inl e, fs2) | Inr fs3 \<Rightarrow> (Inr rel, fs3))))"

section \<open>What a channel sees\<close>

text \<open>The files a public channel may see: those whose path in the workspace is public.\<close>

definition public_memory :: "file_system \<Rightarrow> string \<Rightarrow> string list \<Rightarrow> bool" where
  "public_memory fs workspace q =
     (case describe_memory_path (path_clean (rel_text (workspace_real fs workspace) q)) of
        None \<Rightarrow> False | Some info \<Rightarrow> pi_visibility info = VisibilityPublic)"

definition public_view :: "file_system \<Rightarrow> string \<Rightarrow> file_system" where
  "public_view fs workspace = blanked (public_memory fs workspace) fs"

lemma workspace_abs_blanked [simp]: "workspace_abs (blanked keep fs) w = workspace_abs fs w"
  by (simp add: workspace_abs_def)

lemma workspace_real_blanked [simp]: "workspace_real (blanked keep fs) w = workspace_real fs w"
  by (simp add: workspace_real_def cong: sum.case_cong)

lemma resolve_path_info_blanked [simp]: "resolve_path_info (blanked keep fs) w p = resolve_path_info fs w p"
  by (simp add: resolve_path_info_def Let_def cong: if_cong option.case_cong sum.case_cong)

lemma memory_file_of_blanked [simp]: "memory_file_of (blanked keep fs) w p = memory_file_of fs w p"
  by (simp add: memory_file_of_def)

lemma walk_files_scrub: "walk_files p (scrub keep q n) = walk_files p n"
  by (induction keep q n arbitrary: p rule: scrub.induct) (auto simp: comp_def intro!: arg_cong [where f = concat])

lemma list_memory_files_blanked [simp]: "list_memory_files (blanked keep fs) w = list_memory_files fs w"
proof -
  have walked: "(case stat (blanked keep fs) r of Inr (Dir _) \<Rightarrow> (case lstat (blanked keep fs) r of Inr n \<Rightarrow> walk_files m n | Inl _ \<Rightarrow> [])
            | _ \<Rightarrow> []) = (case stat fs r of Inr (Dir _) \<Rightarrow> (case lstat fs r of Inr n \<Rightarrow> walk_files m n | Inl _ \<Rightarrow> []) | _ \<Rightarrow> [])" for r m
    by (auto simp: stat_blanked lstat_blanked walk_files_scrub stat_def [of fs] lstat_def [of fs] split: sum.splits option.splits fs_node.splits)
  have curated: "(case stat (blanked keep fs) r of Inr (Dir _) \<Rightarrow> [] | Inr _ \<Rightarrow> v | Inl _ \<Rightarrow> []) =
      (case stat fs r of Inr (Dir _) \<Rightarrow> [] | Inr _ \<Rightarrow> v | Inl _ \<Rightarrow> [])" for r and v :: "memory_file list"
    by (auto simp: stat_blanked stat_def [of fs] split: sum.splits option.splits fs_node.splits)
  show ?thesis by (simp add: list_memory_files_def walked curated Let_def cong: sum.case_cong fs_node.case_cong)
qed

text \<open>A memory path that is public, once its links are resolved, is read the same in the public view.\<close>

lemma eval_of_kernel:
  "resolve (kind_at (fy_root fs)) Follow kernel_links [] p = Inr q \<Longrightarrow> eval_symlinks fs p = Inr q"
  unfolding eval_symlinks_def
  by (rule resolve_more_links [where n = kernel_links]) (assumption, simp add: kernel_links_def eval_links_def)

lemma read_public:
  assumes "resolve_path_info fs w raw = Inr (rel, p, info)" "pi_visibility info = VisibilityPublic"
  shows "read_file (public_view fs w) (abs_elems (fy_cwd fs) (path_join w rel)) = read_file fs (abs_elems (fy_cwd fs) (path_join w rel))"
  unfolding public_view_def
proof (rule read_file_blanked)
  fix q
  assume "resolve (kind_at (fy_root fs)) Follow kernel_links [] (abs_elems (fy_cwd fs) (path_join w rel)) = Inr q"
  then have "eval_symlinks fs (abs_elems (fy_cwd fs) (path_join w rel)) = Inr q" by (rule eval_of_kernel)
  then show "public_memory fs w q" using assms
    by (auto simp: resolve_path_info_def public_memory_def Let_def split: if_splits option.splits sum.splits)
qed

lemma resolve_path_info_cases:
  assumes "resolve_path_info fs w raw = Inr (rel, p, info)"
  shows "eval_symlinks fs (abs_elems (fy_cwd fs) (path_join w rel)) = Inr p \<or>
    eval_symlinks fs (abs_elems (fy_cwd fs) (path_join w rel)) = Inl ENOENT \<and> p = abs_elems (fy_cwd fs) (path_join w rel)"
  using assms by (auto simp: resolve_path_info_def Let_def split: if_splits option.splits sum.splits)

lemma list_memory_files_resolved:
  assumes "f \<in> set (list_memory_files fs w)"
  obtains raw p info where "resolve_path_info fs w raw = Inr (mf_path f, p, info)" "mf_visibility f = pi_visibility info"
proof -
  obtain raw where "f \<in> set (memory_file_of fs w raw)"
    using assms by (auto simp: list_memory_files_def Let_def split: sum.splits fs_node.splits) (metis fs_node.exhaust)
  then obtain rel p info where "resolve_path_info fs w raw = Inr (rel, p, info)"
      "f = \<lparr> mf_path = rel, mf_visibility = pi_visibility info, mf_kind = pi_kind info \<rparr>"
    by (cases "resolve_path_info fs w raw") (auto simp: memory_file_of_def)
  then show thesis using that by simp
qed

definition public_channel :: "string \<Rightarrow> bool" where
  "public_channel channel \<longleftrightarrow> to_lower (trim_space channel) \<noteq> ''dm''"

lemma resolve_visibilities_public:
  "public_channel c \<Longrightarrow> resolve_visibilities v c = Inr vs \<Longrightarrow> set vs \<subseteq> {VisibilityPublic}"
  by (auto simp: resolve_visibilities_def allowed_visibilities_for_channel_def public_channel_def Let_def split: if_splits)

lemma memory_search_public_view:
  assumes "public_channel (trim_space (sa_channel_type args))"
  shows "memory_search lower (public_view fs w) w args = memory_search lower fs w args"
proof -
  have "map (file_hits lower (public_view fs w) w n ts) (filter (\<lambda>f. mf_visibility f \<in> set vs \<and> P f) (list_memory_files fs w)) =
        map (file_hits lower fs w n ts) (filter (\<lambda>f. mf_visibility f \<in> set vs \<and> P f) (list_memory_files fs w))"
    if vs: "set vs \<subseteq> {VisibilityPublic}" for n ts vs P
  proof (rule map_cong [OF refl])
    fix f
    assume "f \<in> set (filter (\<lambda>f. mf_visibility f \<in> set vs \<and> P f) (list_memory_files fs w))"
    then have f: "f \<in> set (list_memory_files fs w)" "mf_visibility f = VisibilityPublic" using vs by auto
    obtain raw p info where "resolve_path_info fs w raw = Inr (mf_path f, p, info)" "pi_visibility info = VisibilityPublic"
      using list_memory_files_resolved [OF f(1)] f(2) by metis
    note read_public [OF this]
    then show "file_hits lower (public_view fs w) w n ts f = file_hits lower fs w n ts f"
      by (simp add: file_hits_def) (simp add: public_view_def)
  qed
  note eq = this [OF resolve_visibilities_public [OF assms]]
  have files: "list_memory_files (public_view fs w) w = list_memory_files fs w" by (simp add: public_view_def)
  show ?thesis
    by (auto simp: memory_search_def Let_def files eq split: sum.splits)
qed

lemma read_resolved_public:
  assumes "resolve_path_info fs w raw = Inr (rel, p, info)" "pi_visibility info = VisibilityPublic"
  shows "read_file (public_view fs w) p = read_file fs p"
proof (cases "eval_symlinks fs (abs_elems (fy_cwd fs) (path_join w rel)) = Inr p")
  case False
  then have "p = abs_elems (fy_cwd fs) (path_join w rel)" using resolve_path_info_cases [OF assms(1)] by blast
  then show ?thesis using read_public [OF assms] by simp
next
  case True
  have pub: "public_memory fs w p" using True assms
    by (auto simp: resolve_path_info_def public_memory_def Let_def split: if_splits option.splits sum.splits)
  show ?thesis
    unfolding public_view_def
  proof (rule read_file_blanked)
    fix q
    assume q: "resolve (kind_at (fy_root fs)) Follow kernel_links [] p = Inr q"
    have can: "canonical (kind_at (fy_root fs)) p" using True resolve_canonical by (auto simp: eval_symlinks_def)
    have "q = p"
    proof (cases "p = []")
      case True
      then show ?thesis using q by simp
    next
      case False
      then have "kind_at (fy_root fs) [] = Some IsDir" using can by (auto simp: canonical_def dest: spec [of _ 0])
      then have "kind_at (fy_root fs) p \<in> {Some IsDir, Some IsFile}"
        using True resolve_exists by (auto simp: eval_symlinks_def)
      then show ?thesis using q resolve_self [of _ "[]" p] can by simp
    qed
    then show "public_memory fs w q" using pub by simp
  qed
qed

end
