(* ===== verification/Workspace_File.thy ===== *)
theory Workspace_File
  imports Memory
begin

text \<open>
  \<open>internal/workspacefile\<close>: the paths the tools may change, patching and deleting a text file,
  the atomic write, and reading the context files.  SHA-256, the random names of temporary files
  and the failures of the calls of the atomic write are arguments; calls that only read do not
  fail on a file that is there.
\<close>

section \<open>Errors and results\<close>

definition max_bytes :: int where "max_bytes = 256 * 1024"
definition default_file_mode :: nat where "default_file_mode = 420"

definition CodeInvalidArgument :: string where "CodeInvalidArgument = ''invalid_argument''"
definition CodeNotFound :: string where "CodeNotFound = ''not_found''"
definition CodeConflict :: string where "CodeConflict = ''conflict''"
definition CodeForbidden :: string where "CodeForbidden = ''forbidden''"

datatype file_error =
  FileError (fe_code: string) (fe_message: string) (fe_details: json_object)
| FileOsError string "string list" errno
| FileOtherError string

definition plain_file_error :: "string \<Rightarrow> string \<Rightarrow> file_error" where
  "plain_file_error code message = FileError code message []"

definition file_error_text :: "file_system \<Rightarrow> file_error \<Rightarrow> string" where
  "file_error_text fs e =
     (case e of FileError c m d \<Rightarrow> m | FileOsError op p n \<Rightarrow> fy_text fs op p n | FileOtherError m \<Rightarrow> m)"

record file_path_info =
  fp_request_path :: string
  fp_effective_path :: string
  fp_abs_path :: "string list"
  fp_exists :: bool
  fp_channel_type :: string

record path_candidate =
  ca_request_path :: string
  ca_workspace_real :: "string list"
  ca_abs :: "string list"

record patch_args =
  pa_path :: string
  pa_old_text :: string
  pa_new_text :: string
  pa_create :: bool

record patch_result =
  pr_path :: string
  pr_operation :: string
  pr_bytes_written :: nat
  pr_sha256 :: string

record delete_result =
  dr_path :: string
  dr_operation :: string

section \<open>Paths\<close>

definition normalize_request_path :: "string \<Rightarrow> file_error + string" where
  "normalize_request_path raw =
     (let p = trim_space raw; clean = path_clean p in
      if p = [] then Inl (plain_file_error CodeInvalidArgument ''path is required'')
      else if prefix ''/'' clean \<or> clean = ''..'' \<or> prefix ''../'' clean
      then Inl (plain_file_error CodeForbidden ''path denied: outside workspace'')
      else Inr clean)"

definition inside_workspace :: "string list \<Rightarrow> string list \<Rightarrow> bool" where
  "inside_workspace base p =
     (let rel = rel_text base p in if rel = ''..'' \<or> prefix ''../'' rel then False else True)"

definition resolve_workspace_root :: "file_system \<Rightarrow> string \<Rightarrow> string list \<times> string list" where
  "resolve_workspace_root fs workspace =
     (let base = abs_elems (fy_cwd fs) workspace
      in (base, case eval_symlinks fs base of Inr q \<Rightarrow> q | Inl _ \<Rightarrow> base))"

definition resolve_candidate_path :: "file_system \<Rightarrow> string list \<Rightarrow> string \<Rightarrow> file_error + string list" where
  "resolve_candidate_path fs base clean =
     (let candidate = abs_elems (fy_cwd fs) (path_join (render base) clean) in
      if inside_workspace base candidate then Inr candidate
      else Inl (plain_file_error CodeForbidden ''path denied: outside workspace''))"

definition resolve_workspace_candidate :: "file_system \<Rightarrow> string \<Rightarrow> string \<Rightarrow> file_error + path_candidate" where
  "resolve_workspace_candidate fs workspace raw =
     (case normalize_request_path raw of
        Inl e \<Rightarrow> Inl e
      | Inr clean \<Rightarrow>
          (let (base, real_base) = resolve_workspace_root fs workspace in
           case resolve_candidate_path fs base clean of
             Inl e \<Rightarrow> Inl e
           | Inr candidate \<Rightarrow> Inr \<lparr> ca_request_path = clean, ca_workspace_real = real_base, ca_abs = candidate \<rparr>))"

text \<open>The path with its links resolved and the path in the workspace; None when it does not exist.\<close>

definition resolve_existing_path ::
  "file_system \<Rightarrow> string list \<Rightarrow> string list \<Rightarrow> file_error + (string list \<times> string) option" where
  "resolve_existing_path fs real_base candidate =
     (case eval_symlinks fs candidate of
        Inl e \<Rightarrow> if e = ENOENT then Inr None else Inl (FileOsError ''EvalSymlinks'' candidate e)
      | Inr q \<Rightarrow>
          if inside_workspace real_base q then Inr (Some (q, path_clean (rel_text real_base q)))
          else Inl (plain_file_error CodeForbidden ''path denied: symlink escapes workspace''))"

function find_existing_ancestor ::
  "file_system \<Rightarrow> string list \<Rightarrow> string list \<Rightarrow> file_error + string list \<times> string list" where
  "find_existing_ancestor fs current tail =
     (case lstat fs current of
        Inr _ \<Rightarrow> Inr (current, tail)
      | Inl e \<Rightarrow>
          if e \<noteq> ENOENT then Inl (FileOsError ''lstat'' current e)
          else if current = [] then Inl (FileOtherError ''no existing ancestor'')
          else find_existing_ancestor fs (butlast current) (last current # tail))"
  by pat_completeness auto
termination by (relation "measure (\<lambda>(fs, p, tail). length p)") auto

declare find_existing_ancestor.simps [simp del]

definition resolve_effective_path ::
  "file_system \<Rightarrow> string list \<Rightarrow> string list \<Rightarrow> bool \<Rightarrow> file_error + string list \<times> string" where
  "resolve_effective_path fs real_base candidate exists =
     (if exists then
        (case resolve_existing_path fs real_base candidate of
           Inl e \<Rightarrow> Inl e
         | Inr None \<Rightarrow> Inl (plain_file_error CodeInvalidArgument ''path points to a broken symlink'')
         | Inr (Some r) \<Rightarrow> Inr r)
      else
        (case find_existing_ancestor fs candidate [] of
           Inl e \<Rightarrow> Inl e
         | Inr (ancestor, tail) \<Rightarrow>
             (case eval_symlinks fs ancestor of
                Inl e \<Rightarrow> Inl (FileOsError ''EvalSymlinks'' ancestor e)
              | Inr resolved \<Rightarrow>
                  if \<not> inside_workspace real_base resolved \<or> \<not> inside_workspace real_base (resolved @ tail)
                  then Inl (plain_file_error CodeForbidden ''path denied: symlink escapes workspace'')
                  else Inr (resolved @ tail, path_clean (rel_text real_base (resolved @ tail))))))"

definition is_runtime_path :: "string \<Rightarrow> bool" where
  "is_runtime_path rel0 = (let rel = path_clean rel0 in rel = ''runtime'' \<or> prefix ''runtime/'' rel)"

definition is_private_memory_path :: "string \<Rightarrow> bool" where
  "is_private_memory_path rel0 =
     (let rel = path_clean rel0 in rel = ''memory/private/MEMORY.md'' \<or> prefix ''memory/private/'' rel)"

definition resolve_path ::
  "(nat \<Rightarrow> bool) \<Rightarrow> file_system \<Rightarrow> string \<Rightarrow> string \<Rightarrow> string \<Rightarrow> file_error + file_path_info" where
  "resolve_path printable fs workspace raw channel =
     (case resolve_workspace_candidate fs workspace raw of
        Inl e \<Rightarrow> Inl e
      | Inr c \<Rightarrow>
          (let st = lstat fs (ca_abs c); exists = (case st of Inr _ \<Rightarrow> True | Inl _ \<Rightarrow> False) in
           if (case st of Inl e \<Rightarrow> e \<noteq> ENOENT | Inr _ \<Rightarrow> False)
           then Inl (FileOsError ''lstat'' (ca_abs c) (projl st))
           else (case resolve_effective_path fs (ca_workspace_real c) (ca_abs c) exists of
                   Inl e \<Rightarrow> Inl e
                 | Inr (absolute, rel) \<Rightarrow>
                     if is_runtime_path rel
                     then Inl (plain_file_error CodeForbidden
                       (''path denied: '' @ go_quote printable (ca_request_path c) @ '' is under runtime/''))
                     else if is_private_memory_path rel \<and> \<not> equal_fold (trim_space channel) ''dm''
                     then Inl (plain_file_error CodeForbidden ''path denied: private memory requires dm channel'')
                     else if exists \<and> kind_of (projr st) = IsDir
                     then Inl (plain_file_error CodeInvalidArgument ''path points to a directory'')
                     else Inr \<lparr> fp_request_path = ca_request_path c, fp_effective_path = rel, fp_abs_path = absolute,
                            fp_exists = exists, fp_channel_type = channel \<rparr>)))"

section \<open>Texts\<close>

function valid_utf8 :: "string \<Rightarrow> bool" where
  "valid_utf8 s =
     (if s = [] then True
      else (let (r, w) = decode_rune s in \<not> (w = 1 \<and> r = rune_error) \<and> valid_utf8 (drop (max 1 w) s)))"
  by pat_completeness auto
termination by (relation "measure length") auto

declare valid_utf8.simps [simp del]

definition validate_text_content :: "string \<Rightarrow> file_error option" where
  "validate_text_content content =
     (if max_bytes < int (length content)
      then Some (plain_file_error CodeForbidden (''file content exceeds '' @ show_int max_bytes @ '' bytes''))
      else if CHR 0x00 \<in> set content then Some (plain_file_error CodeForbidden ''file content contains NUL bytes'')
      else if \<not> valid_utf8 content then Some (plain_file_error CodeForbidden ''file content is not valid UTF-8 text'')
      else None)"

definition normalize_text :: "string \<Rightarrow> string" where
  "normalize_text s = replace_char (CHR 0x0D) [CHR 0x0A] (replace_crlf s)"

text \<open>\<open>strings.Count(s, sub)\<close> and \<open>strings.Replace(s, old, new, 1)\<close>.\<close>

function count_text :: "string \<Rightarrow> string \<Rightarrow> nat" where
  "count_text s sub =
     (if sub = [] then Suc (length (runes s))
      else if s = [] then 0
      else if prefix sub s then Suc (count_text (drop (length sub) s) sub)
      else count_text (tl s) sub)"
  by pat_completeness auto
termination by (relation "measure (\<lambda>(s, sub). length s)") auto

declare count_text.simps [simp del]

fun replace_first :: "string \<Rightarrow> string \<Rightarrow> string \<Rightarrow> string" where
  "replace_first [] old new = (if old = [] then new else [])"
| "replace_first (c # s) old new =
     (if prefix old (c # s) then new @ drop (length old) (c # s) else c # replace_first s old new)"

section \<open>The atomic write\<close>

text \<open>The calls that fail; a write that fails has written a part of the data.\<close>

record write_faults =
  wl_create :: "errno option"
  wl_write :: "(errno \<times> string) option"
  wl_sync :: "errno option"
  wl_chmod :: "errno option"
  wl_close :: "errno option"
  wl_rename :: "errno option"
  wl_remove :: "errno option"

definition no_faults :: write_faults where
  "no_faults = \<lparr> wl_create = None, wl_write = None, wl_sync = None, wl_chmod = None, wl_close = None,
     wl_rename = None, wl_remove = None \<rparr>"

text \<open>\<open>os.CreateTemp\<close>; \<open>random\<close> holds the names it draws, until it gives up.\<close>

definition temp_mode :: nat where "temp_mode = 384"

fun create_temp :: "file_system \<Rightarrow> string list \<Rightarrow> string \<Rightarrow> string list \<Rightarrow> errno + string list \<times> file_system" where
  "create_temp fs dir base [] = Inl EEXIST"
| "create_temp fs dir base (r # rs) =
     (case create_excl fs (dir @ [''.'' @ base @ ''.tmp-'' @ r]) temp_mode of
        Inl e \<Rightarrow> if e = EEXIST then create_temp fs dir base rs else Inl e
      | Inr created \<Rightarrow> Inr created)"

text \<open>The deferred \<open>os.Remove\<close>, whose error is ignored.\<close>

definition cleanup_temp :: "write_faults \<Rightarrow> string list \<Rightarrow> file_system \<Rightarrow> file_system" where
  "cleanup_temp fl tmp fs =
     (if wl_remove fl \<noteq> None then fs else case remove_entry fs tmp of Inl _ \<Rightarrow> fs | Inr fs' \<Rightarrow> fs')"

text \<open>
  The outcome and the file systems after each call that changes it, the first is the one before;
  a process that stops leaves one of them.
\<close>

definition atomic_write_file ::
  "write_faults \<Rightarrow> string list \<Rightarrow> file_system \<Rightarrow> string list \<Rightarrow> string \<Rightarrow> nat \<Rightarrow> errno option \<times> file_system list" where
  "atomic_write_file fl random fs path data mode =
     (case (case wl_create fl of Some e \<Rightarrow> Inl e | None \<Rightarrow> create_temp fs (butlast path) (last path) random) of
        Inl e \<Rightarrow> (Some e, [fs])
      | Inr (tmp, created) \<Rightarrow>
          (let part = (case wl_write fl of Some (e, s) \<Rightarrow> s | None \<Rightarrow> data);
               wrote = put_file created tmp (Some (File part temp_mode));
               moded = put_file created tmp (Some (File data mode))
           in case (case wl_write fl of Some (e, s) \<Rightarrow> Some e | None \<Rightarrow>
                    (case wl_sync fl of Some e \<Rightarrow> Some e | None \<Rightarrow> wl_chmod fl)) of
                Some e \<Rightarrow> (Some e, [fs, created, wrote, cleanup_temp fl tmp wrote])
              | None \<Rightarrow>
                  (case (case wl_close fl of Some e \<Rightarrow> Inl e | None \<Rightarrow>
                     (case wl_rename fl of Some e \<Rightarrow> Inl e | None \<Rightarrow> rename_file moded tmp path)) of
                     Inl e \<Rightarrow> (Some e, [fs, created, wrote, moded, cleanup_temp fl tmp moded])
                   | Inr renamed \<Rightarrow> (None, [fs, created, wrote, moded, renamed, cleanup_temp fl tmp renamed]))))"

section \<open>Patching and deleting\<close>

definition build_patch_result :: "(string \<Rightarrow> string) \<Rightarrow> string \<Rightarrow> string \<Rightarrow> string \<Rightarrow> patch_result" where
  "build_patch_result sha path operation content =
     \<lparr> pr_path = path, pr_operation = operation, pr_bytes_written = length content, pr_sha256 = sha content \<rparr>"

text \<open>What the calls of the package take from outside.\<close>

record file_env =
  fv_printable :: "nat \<Rightarrow> bool"
  fv_sha256 :: "string \<Rightarrow> string"
  fv_random :: "string list"
  fv_faults :: write_faults

definition not_found_error :: "string \<Rightarrow> file_error" where
  "not_found_error path = plain_file_error CodeNotFound (''file not found: '' @ path)"

definition write_outcome :: "string \<Rightarrow> string list \<Rightarrow> 'r \<Rightarrow> errno option \<times> file_system list \<Rightarrow> (file_error + 'r) \<times> file_system" where
  "write_outcome op path r w =
     ((case fst w of Some e \<Rightarrow> Inl (FileOsError op path e) | None \<Rightarrow> Inr r), last (snd w))"

definition patch_file :: "file_env \<Rightarrow> string \<Rightarrow> string \<Rightarrow> patch_args \<Rightarrow> file_system \<Rightarrow> (file_error + patch_result) \<times> file_system" where
  "patch_file env workspace channel args fs =
     (case resolve_path (fv_printable env) fs workspace (pa_path args) channel of
        Inl e \<Rightarrow> (Inl e, fs)
      | Inr info \<Rightarrow>
          (let normalized = normalize_text (pa_new_text args); p = fp_abs_path info; req = fp_request_path info in
           case validate_text_content normalized of
             Some e \<Rightarrow> (Inl e, fs)
           | None \<Rightarrow>
               if \<not> fp_exists info then
                 (if \<not> pa_create args then (Inl (not_found_error req), fs)
                  else (case mkdir_all fs (butlast p) of
                          (Some e, fs1) \<Rightarrow> (Inl (FileOsError ''mkdir'' (butlast p) e), fs1)
                        | (None, fs1) \<Rightarrow>
                            write_outcome ''write'' p (build_patch_result (fv_sha256 env) req ''created'' normalized)
                              (atomic_write_file (fv_faults env) (fv_random env) fs1 p normalized default_file_mode)))
               else if pa_create args
               then (Inl (plain_file_error CodeConflict (''create requested but file already exists: '' @ req)), fs)
               else if pa_old_text args = []
               then (Inl (plain_file_error CodeInvalidArgument ''old_text is required when patching an existing file''), fs)
               else (case stat fs p of
                       Inl e \<Rightarrow> (Inl (if e = ENOENT then not_found_error req else FileOsError ''stat'' p e), fs)
                     | Inr (File _ mode) \<Rightarrow>
                         (case read_file fs p of
                            Inl e \<Rightarrow> (Inl (if e = ENOENT then not_found_error req else FileOsError ''open'' p e), fs)
                          | Inr data \<Rightarrow>
                              (case validate_text_content data of
                                 Some e \<Rightarrow> (Inl e, fs)
                               | None \<Rightarrow>
                                   (let old = normalize_text (pa_old_text args); current = normalize_text data;
                                        matches = count_text current old;
                                        updated = replace_first current old normalized
                                    in if matches \<noteq> 1
                                       then (Inl (FileError CodeConflict (''old_text must match exactly once in '' @ req)
                                              [(''match_count'', JNum (of_nat matches))]), fs)
                                       else (case validate_text_content updated of
                                               Some e \<Rightarrow> (Inl e, fs)
                                             | None \<Rightarrow>
                                                 write_outcome ''write'' p
                                                   (build_patch_result (fv_sha256 env) req ''patched'' updated)
                                                   (atomic_write_file (fv_faults env) (fv_random env) fs p updated mode)))))
                     | Inr _ \<Rightarrow> (Inl (plain_file_error CodeInvalidArgument ''path does not point to a regular file''), fs))))"

definition delete_file :: "file_env \<Rightarrow> string \<Rightarrow> string \<Rightarrow> string \<Rightarrow> file_system \<Rightarrow> (file_error + delete_result) \<times> file_system" where
  "delete_file env workspace channel path fs =
     (case resolve_path (fv_printable env) fs workspace path channel of
        Inl e \<Rightarrow> (Inl e, fs)
      | Inr info \<Rightarrow>
          (let p = fp_abs_path info; req = fp_request_path info;
               requested = abs_elems (fy_cwd fs) (path_join workspace req);
               os_error = (\<lambda>op q e. Inl (if e = ENOENT then not_found_error req else FileOsError op q e))
           in if \<not> fp_exists info then (Inl (not_found_error req), fs)
              else (case lstat fs requested of
                      Inl e \<Rightarrow> (os_error ''lstat'' requested e, fs)
                    | Inr (Link _) \<Rightarrow>
                        (Inl (plain_file_error CodeInvalidArgument ''path points to a symlink, not a regular file''), fs)
                    | Inr _ \<Rightarrow>
                        (case stat fs p of
                           Inl e \<Rightarrow> (os_error ''stat'' p e, fs)
                         | Inr (File _ _) \<Rightarrow>
                             (case read_file fs p of
                                Inl e \<Rightarrow> (os_error ''open'' p e, fs)
                              | Inr data \<Rightarrow>
                                  (case validate_text_content data of
                                     Some e \<Rightarrow> (Inl e, fs)
                                   | None \<Rightarrow>
                                       (case remove_entry fs p of
                                          Inl e \<Rightarrow> (os_error ''remove'' p e, fs)
                                        | Inr fs' \<Rightarrow> (Inr \<lparr> dr_path = req, dr_operation = ''deleted'' \<rparr>, fs'))))
                         | Inr _ \<Rightarrow>
                             (Inl (plain_file_error CodeInvalidArgument ''path does not point to a regular file''), fs)))))"

section \<open>Context files\<close>

definition default_max_context_chars :: nat where "default_max_context_chars = 8000"

definition allowed_context_root_files :: "string list" where
  "allowed_context_root_files =
     [''AGENTS.md'', ''SOUL.md'', ''IDENTITY.md'', ''USER.md'', ''TOOLS.md'', ''BOOTSTRAP.md'', ''HEARTBEAT.md'']"

definition is_allowed_context_path :: "string \<Rightarrow> bool" where
  "is_allowed_context_path rel =
     (if rel \<in> set allowed_context_root_files then True
      else if prefix ''skills/'' rel \<and> suffix ''/SKILL.md'' rel
      then (let parts = split_on (CHR ''/'') rel in length parts = 3 \<and> parts ! 1 \<noteq> [])
      else False)"

definition resolve_context_path :: "file_system \<Rightarrow> string \<Rightarrow> string \<Rightarrow> file_error + string \<times> string list" where
  "resolve_context_path fs workspace raw =
     (case resolve_workspace_candidate fs workspace raw of
        Inl e \<Rightarrow> Inl e
      | Inr c \<Rightarrow>
          if \<not> is_allowed_context_path (ca_request_path c)
          then Inl (plain_file_error CodeForbidden ''path denied: path not in whitelist'')
          else (case resolve_existing_path fs (ca_workspace_real c) (ca_abs c) of
                  Inl e \<Rightarrow> Inl e
                | Inr None \<Rightarrow> Inr (ca_request_path c, ca_abs c)
                | Inr (Some (p, rel)) \<Rightarrow>
                    if \<not> is_allowed_context_path rel
                    then Inl (plain_file_error CodeForbidden ''path denied: symlink target not in whitelist'')
                    else Inr (ca_request_path c, p)))"

definition normalize_context_range :: "int list \<Rightarrow> nat \<Rightarrow> string + nat \<times> nat" where
  "normalize_context_range raw count =
     (if count = 0 then Inl ''invalid range: empty file''
      else (case raw of
              [] \<Rightarrow> Inr (1, count)
            | [start, stop] \<Rightarrow>
                if start \<le> 0 \<or> stop < start then Inl ''invalid range: invalid lines''
                else if int count < start then Inl ''invalid range: start out of range''
                else Inr (nat start, if int count < stop then count else nat stop)
            | _ \<Rightarrow> Inl ''invalid range: lines must be [start,end]''))"

definition get_context :: "file_system \<Rightarrow> string \<Rightarrow> string \<Rightarrow> int list \<Rightarrow> int \<Rightarrow> file_error + string \<times> string" where
  "get_context fs workspace path lines max_chars0 =
     (let max_chars = (if max_chars0 \<le> 0 then default_max_context_chars else nat max_chars0) in
      case resolve_context_path fs workspace path of
        Inl e \<Rightarrow> Inl e
      | Inr (rel, p) \<Rightarrow>
          (case read_file fs p of
             Inl e \<Rightarrow> Inl (if e = ENOENT then not_found_error rel else FileOsError ''open'' p e)
           | Inr b \<Rightarrow>
               (let ls = text_lines b in
                case normalize_context_range lines (length ls) of
                  Inl e \<Rightarrow> Inl (plain_file_error CodeInvalidArgument e)
                | Inr (start, stop) \<Rightarrow>
                    Inr (rel, number_lines max_chars [] start (take (Suc stop - start) (drop (start - 1) ls))))))"

record context_text =
  cx_path :: string
  cx_resolved_path :: "string list"
  cx_content :: string

definition read_context_text :: "file_system \<Rightarrow> string \<Rightarrow> string \<Rightarrow> file_error + context_text option" where
  "read_context_text fs workspace raw =
     (case resolve_context_path fs workspace raw of
        Inl e \<Rightarrow> Inl e
      | Inr (rel, p) \<Rightarrow>
          (case read_file fs p of
             Inl e \<Rightarrow> if e = ENOENT then Inr None else Inl (FileOsError ''open'' p e)
           | Inr data \<Rightarrow>
               (let content = trim_space data in
                if content = [] then Inr None
                else Inr (Some \<lparr> cx_path = rel, cx_resolved_path = p, cx_content = content \<rparr>))))"

end
