(* ===== verification/Workspace_Safety.thy ===== *)
theory Workspace_Safety
  imports Workspace_File
begin

text \<open>
  What the calls of \<open>internal/workspacefile\<close> change.  A file system is described by what is at
  each canonical path, \<open>leaf_at\<close>; every change is an update of it.
\<close>

abbreviation leaves :: "file_system \<Rightarrow> string list \<Rightarrow> fs_node option" where
  "leaves fs \<equiv> leaf_at (fy_root fs)"

lemma leaves_put_file:
  assumes "p \<noteq> []" "kind_at (fy_root fs) (butlast p) = Some IsDir" "kind_at (fy_root fs) p \<noteq> Some IsDir"
    and "v = None \<or> (\<exists>n. v = Some n \<and> shallow n = n)"
  shows "leaves (put_file fs p v) = (leaves fs)(p := v)"
  using leaf_at_put_leaf [OF assms] by (simp add: put_file_def)

lemma canonical_agree:
  "canonical k p \<Longrightarrow> (\<And>q. strict_prefix q p \<Longrightarrow> k' q = k q) \<Longrightarrow> canonical k' p"
  unfolding canonical_def by (metis order_less_irrefl prefix_order.less_le take_is_prefix length_take min.absorb4)

lemma canonical_put_sibling:
  assumes "canonical (kind_at (fy_root fs)) (d @ [b])" "leaves fs' = (leaves fs)(d @ [x] := v)"
  shows "canonical (kind_at (fy_root fs')) (d @ [b])"
proof (rule canonical_agree [OF assms(1)])
  fix q
  assume "strict_prefix q (d @ [b])"
  then have "q \<noteq> d @ [x]" by (auto simp: strict_prefix_def prefix_def)
  then show "kind_at (fy_root fs') q = kind_at (fy_root fs) q" by (simp add: kind_at_leaf assms(2))
qed

section \<open>The atomic write\<close>

lemma entry_path_in:
  "canonical (kind_at (fy_root fs)) d \<Longrightarrow> kind_at (fy_root fs) d = Some IsDir \<Longrightarrow> entry_path fs (d @ [x]) = Inr (d @ [x])"
  using resolve_self [of "kind_at (fy_root fs)" "[]" d] by (simp add: entry_path_def)

lemma create_temp_leaves:
  assumes "canonical (kind_at (fy_root fs)) d" "kind_at (fy_root fs) d = Some IsDir"
    and "create_temp fs d b random = Inr (tmp, created)"
  shows "\<exists>r \<in> set random. tmp = d @ [''.'' @ b @ ''.tmp-'' @ r] \<and> leaves fs tmp = None \<and>
    leaves created = (leaves fs)(tmp := Some (File [] temp_mode))"
  using assms(3)
proof (induction random)
  case (Cons r rs)
  let ?p = "d @ [''.'' @ b @ ''.tmp-'' @ r]"
  have e: "entry_path fs ?p = Inr ?p" using entry_path_in [OF assms(1,2)] by simp
  show ?case
  proof (cases "leaves fs ?p")
    case None
    then have "created = put_file fs ?p (Some (File [] temp_mode))" "tmp = ?p"
      using Cons.prems e by (auto simp: create_excl_def node_at_None_leaf)
    moreover have "kind_at (fy_root fs) ?p \<noteq> Some IsDir" using None by (simp add: kind_at_leaf)
    ultimately show ?thesis using assms(2) None leaves_put_file [of ?p fs] by auto
  next
    case (Some n)
    then show ?thesis using Cons e by (auto simp: create_excl_def node_at_None_leaf)
  qed
qed simp

text \<open>The directory of the target stays, whatever is put beside it.\<close>

lemma beside:
  assumes "leaves fs' = (leaves fs)(d @ [x] := v)"
  shows "canonical (kind_at (fy_root fs)) d \<Longrightarrow> canonical (kind_at (fy_root fs')) d"
    "kind_at (fy_root fs) d = Some IsDir \<Longrightarrow> kind_at (fy_root fs') d = Some IsDir"
proof -
  have k: "kind_at (fy_root fs') q = kind_at (fy_root fs) q" if "q \<noteq> d @ [x]" for q
    using that by (simp add: kind_at_leaf assms)
  show "canonical (kind_at (fy_root fs)) d \<Longrightarrow> canonical (kind_at (fy_root fs')) d"
    by (erule canonical_agree) (auto intro!: k simp: strict_prefix_def prefix_def)
  show "kind_at (fy_root fs) d = Some IsDir \<Longrightarrow> kind_at (fy_root fs') d = Some IsDir"
    using k [of d] by simp
qed

lemma leaves_put_beside:
  assumes "kind_at (fy_root fs) d = Some IsDir" "leaves fs (d @ [x]) = Some (File s m)" "v = None \<or> (\<exists>s m. v = Some (File s m))"
  shows "leaves (put_file fs (d @ [x]) v) = (leaves fs)(d @ [x] := v)"
  by (rule leaves_put_file) (use assms in \<open>auto simp: kind_at_leaf\<close>)

lemma cleanup_temp_leaves:
  assumes "canonical (kind_at (fy_root fs)) d" "kind_at (fy_root fs) d = Some IsDir"
    and "leaves fs (d @ [x]) = None \<or> (\<exists>s m. leaves fs (d @ [x]) = Some (File s m))"
  shows "leaves (cleanup_temp fl (d @ [x]) fs) = (if wl_remove fl = None then (leaves fs)(d @ [x] := None) else leaves fs)"
proof (cases "leaves fs (d @ [x])")
  case None
  then show ?thesis using entry_path_in [OF assms(1,2)]
    by (auto simp: cleanup_temp_def remove_entry_def node_at_None_leaf [symmetric])
next
  case (Some n)
  then obtain s m where F: "leaves fs (d @ [x]) = Some (File s m)" using assms(3) by auto
  then show ?thesis using entry_path_in [OF assms(1,2)] leaves_put_beside [OF assms(2) F, of None]
    by (simp add: cleanup_temp_def remove_entry_def node_at_File_leaf [symmetric])
qed

lemma rename_file_leaves:
  assumes "canonical (kind_at (fy_root fs)) d" "kind_at (fy_root fs) d = Some IsDir"
    and "leaves fs (d @ [x]) = Some (File s m)" "x \<noteq> b" "kind_at (fy_root fs) (d @ [b]) \<noteq> Some IsDir"
  obtains fs' where "rename_file fs (d @ [x]) (d @ [b]) = Inr fs'"
    "leaves fs' = (leaves fs)(d @ [b] := Some (File s m), d @ [x] := None)"
proof -
  let ?f1 = "put_file fs (d @ [b]) (Some (File s m))"
  have L1: "leaves ?f1 = (leaves fs)(d @ [b] := Some (File s m))"
    by (rule leaves_put_file) (use assms in auto)
  then have "leaves ?f1 (d @ [x]) = Some (File s m)" "kind_at (fy_root ?f1) d = Some IsDir"
    using assms beside [OF L1] by auto
  then have "leaves (put_file ?f1 (d @ [x]) None) = (leaves fs)(d @ [b] := Some (File s m), d @ [x] := None)"
    by (simp add: leaves_put_beside L1)
  moreover have "rename_file fs (d @ [x]) (d @ [b]) = Inr (put_file ?f1 (d @ [x]) None)"
    using assms(3-5) entry_path_in [OF assms(1,2)]
    by (auto simp: rename_file_def node_at_File_leaf [symmetric] kind_at_def split: option.splits fs_node.splits)
  ultimately show thesis by (rule that [rotated])
qed

definition temp_names :: "string list \<Rightarrow> string list set" where
  "temp_names p = {q. \<exists>r. q = butlast p @ [''.'' @ last p @ ''.tmp-'' @ r]}"

definition write_kept :: "file_system \<Rightarrow> string list \<Rightarrow> fs_node \<Rightarrow> file_system \<Rightarrow> bool" where
  "write_kept fs p new s \<longleftrightarrow> fy_cwd s = fy_cwd fs \<and> leaves s p \<in> {leaves fs p, Some new} \<and>
     (\<forall>q. q \<noteq> p \<longrightarrow> leaves s q = leaves fs q \<or>
        q \<in> temp_names p \<and> leaves fs q = None \<and> (\<exists>s' m. leaves s q = Some (File s' m)))"

lemma fy_cwd_put_file [simp]: "fy_cwd (put_file fs p v) = fy_cwd fs"
  by (simp add: put_file_def)

lemma create_temp_cwd: "create_temp fs d b random = Inr (tmp, created) \<Longrightarrow> fy_cwd created = fy_cwd fs"
  by (induction random) (auto simp: create_excl_def split: sum.splits if_splits)

lemma rename_file_cwd: "rename_file fs a b = Inr fs' \<Longrightarrow> fy_cwd fs' = fy_cwd fs"
  by (auto simp: rename_file_def split: sum.splits option.splits fs_node.splits if_splits)

lemma cleanup_temp_cwd [simp]: "fy_cwd (cleanup_temp fl tmp fs) = fy_cwd fs"
  by (auto simp: cleanup_temp_def remove_entry_def split: sum.splits option.splits fs_node.splits list.splits)

lemma atomic_write_file_leaves:
  assumes p: "canonical (kind_at (fy_root fs)) p" "p \<noteq> []" "kind_at (fy_root fs) p \<noteq> Some IsDir"
    and w: "atomic_write_file fl random fs p data mode = (r, states)"
  shows "states \<noteq> []" "\<forall>s \<in> set states. write_kept fs p (File data mode) s"
    "r = None \<Longrightarrow> leaves (last states) = (leaves fs)(p := Some (File data mode))"
    "r \<noteq> None \<Longrightarrow> leaves (last states) p = leaves fs p"
    "r \<noteq> None \<Longrightarrow> wl_remove fl = None \<Longrightarrow> leaves (last states) = leaves fs"
proof -
  obtain d b where pd: "p = d @ [b]" using p(2) by (cases p rule: rev_cases) auto
  have d: "canonical (kind_at (fy_root fs)) d" "kind_at (fy_root fs) d = Some IsDir" using p(1) pd by auto
  have "states \<noteq> [] \<and> (\<forall>s \<in> set states. write_kept fs p (File data mode) s) \<and>
      (r = None \<longrightarrow> leaves (last states) = (leaves fs)(p := Some (File data mode))) \<and>
      (r \<noteq> None \<longrightarrow> leaves (last states) p = leaves fs p \<and> (wl_remove fl = None \<longrightarrow> leaves (last states) = leaves fs))"
  proof (cases "case wl_create fl of Some e \<Rightarrow> Inl e | None \<Rightarrow> create_temp fs (butlast p) (last p) random")
    case (Inl e)
    then show ?thesis using w by (auto simp: atomic_write_file_def write_kept_def)
  next
    case (Inr tc)
    obtain tmp created where tc: "tc = (tmp, created)" by fastforce
    then obtain t where t: "tmp = d @ [''.'' @ b @ ''.tmp-'' @ t]" "leaves fs tmp = None"
        "leaves created = (leaves fs)(tmp := Some (File [] temp_mode))"
      using Inr create_temp_leaves [OF d, of b random tmp created] by (auto simp: pd split: option.splits)
    define x where "x = ''.'' @ b @ ''.tmp-'' @ t"
    have tmp: "tmp = d @ [x]" "tmp \<in> temp_names p" "tmp \<noteq> p" "x \<noteq> b"
      using t(1) arg_cong [of "''.'' @ b @ ''.tmp-'' @ t" b length] by (auto simp: pd temp_names_def x_def)
    have put: "leaves (put_file created tmp (Some (File s m))) = (leaves fs)(tmp := Some (File s m))" for s m
      using leaves_put_beside [of created d x "[]" temp_mode "Some (File s m)"] t(3) beside(2) [of created fs d x] d(2)
      by (simp add: tmp)
    define part where "part = (case wl_write fl of Some (e, s) \<Rightarrow> s | None \<Rightarrow> data)"
    define wrote where "wrote = put_file created tmp (Some (File part temp_mode))"
    define moded where "moded = put_file created tmp (Some (File data mode))"
    note L = put [of part temp_mode, folded wrote_def] put [of data mode, folded moded_def]
    have dirs: "canonical (kind_at (fy_root fs')) d" "kind_at (fy_root fs') d = Some IsDir"
      if "leaves fs' = (leaves fs)(tmp := v)" for fs' v using beside [of fs' fs d x v] that d by (simp_all add: tmp)
    have clean: "leaves (cleanup_temp fl tmp fs') = (leaves fs)(tmp := if wl_remove fl = None then None else Some (File s m))"
      if "leaves fs' = (leaves fs)(tmp := Some (File s m))" for fs' s m
      using cleanup_temp_leaves [of fs' d x fl] dirs [OF that] that by (simp add: tmp)
    have none: "(leaves fs)(tmp := None) = leaves fs" using t(2) by auto
    have cwd: "fy_cwd created = fy_cwd fs" using create_temp_cwd Inr tc by (auto split: option.splits)
    have kept: "write_kept fs p (File data mode) s"
      if "leaves s = (leaves fs)(tmp := v)" "fy_cwd s = fy_cwd fs" "v = None \<or> (\<exists>s m. v = Some (File s m))" for s v
      using that tmp t(2) by (auto simp: write_kept_def)
    obtain renamed where ren: "rename_file moded tmp p = Inr renamed"
        "leaves renamed = (leaves moded)(p := Some (File data mode), tmp := None)"
      using rename_file_leaves [of moded d x data mode b] dirs [OF L(2)] L(2) p(3) tmp
      by (auto simp: kind_at_leaf pd)
    then have R: "leaves renamed = (leaves fs)(p := Some (File data mode), tmp := None)" using L(2) by auto
    then have R': "leaves renamed = (leaves fs)(p := Some (File data mode))" using t(2) tmp(3) by auto
    have Rd: "canonical (kind_at (fy_root renamed)) d" "kind_at (fy_root renamed) d = Some IsDir"
      using beside [of renamed fs d b] R' d by (simp_all add: pd)
    have C: "leaves (cleanup_temp fl tmp renamed) = (leaves fs)(p := Some (File data mode))"
      using cleanup_temp_leaves [of renamed d x fl] Rd R R' by (auto simp: tmp(1)[symmetric])
    have cwds: "fy_cwd wrote = fy_cwd fs" "fy_cwd moded = fy_cwd fs" "fy_cwd renamed = fy_cwd fs"
      using cwd rename_file_cwd [OF ren(1)] by (simp_all add: wrote_def moded_def)
    have Rk: "write_kept fs p (File data mode) s"
      if "leaves s = (leaves fs)(p := Some (File data mode))" "fy_cwd s = fy_cwd fs" for s
      using that by (auto simp: write_kept_def)
    have fs_kept: "write_kept fs p (File data mode) fs" by (simp add: write_kept_def)
    have w': "(r, states) = atomic_write_file fl random fs p data mode" using w by simp
    show ?thesis
      using w' Inr ren(1) tmp(3) t(2)
      by (simp add: atomic_write_file_def tc Let_def part_def [symmetric] wrote_def [symmetric] moded_def [symmetric] split: option.splits)
        (auto simp: cwd cwds fs_kept kept [OF t(3)] kept [OF L(1)] kept [OF L(2)] kept [OF clean [OF L(1)]] kept [OF clean [OF L(2)]]
          Rk [OF R'] Rk [OF C] C clean [OF L(1)] clean [OF L(2)] none)
  qed
  then show "states \<noteq> []" "\<forall>s \<in> set states. write_kept fs p (File data mode) s"
    "r = None \<Longrightarrow> leaves (last states) = (leaves fs)(p := Some (File data mode))"
    "r \<noteq> None \<Longrightarrow> leaves (last states) p = leaves fs p"
    "r \<noteq> None \<Longrightarrow> wl_remove fl = None \<Longrightarrow> leaves (last states) = leaves fs"
    by blast+
qed

section \<open>Resolved paths\<close>

lemma inside_workspaceE:
  assumes "inside_workspace base p"
  obtains r where "p = base @ r" "rel_text base p = elems_text r"
  using assms rel_text_inside [of base p] by (auto simp: inside_workspace_def Let_def split: if_splits)

text \<open>A name that does not exist in a directory that was resolved does not exist there.\<close>

lemma lstat_missing:
  assumes "resolve (kind_at (fy_root fs)) Follow m [] cs = Inr q" "lstat fs (cs @ [c]) = Inl ENOENT" "c \<notin> {[], ''.'', ''..''}"
  shows "kind_at (fy_root fs) q = Some IsDir \<and> kind_at (fy_root fs) (q @ [c]) = None"
proof -
  let ?k = "kind_at (fy_root fs)"
  have "resolve ?k NoFollow kernel_links [] (cs @ [c]) \<noteq> Inl ELOOP" using assms(2) by (auto simp: lstat_def)
  then obtain n' where n': "resolve ?k NoFollow kernel_links [] (cs @ [c]) = resolve ?k NoFollow n' q [c]"
    using resolve_append [OF assms(1), of "[c]" NoFollow kernel_links] by auto
  then show ?thesis using assms(2,3)
    by (auto simp: lstat_def kind_at_def split: if_splits option.splits path_kind.splits)
qed

lemma find_existing_ancestor_Inr:
  "find_existing_ancestor fs p t0 = Inr (anc, t) \<Longrightarrow>
     \<exists>m n. p = anc @ m \<and> t = m @ t0 \<and> lstat fs anc = Inr n \<and> (m \<noteq> [] \<longrightarrow> lstat fs (anc @ [hd m]) = Inl ENOENT)"
proof (induction fs p t0 rule: find_existing_ancestor.induct)
  case (1 fs current tail)
  show ?case
  proof (cases "lstat fs current")
    case (Inr n)
    then show ?thesis using "1.prems" by (auto simp: find_existing_ancestor.simps [of fs current])
  next
    case (Inl e)
    then have e: "e = ENOENT" "current \<noteq> []" "find_existing_ancestor fs (butlast current) (last current # tail) = Inr (anc, t)"
      using "1.prems" by (auto simp: find_existing_ancestor.simps [of fs current] split: if_splits)
    then obtain m n where m: "butlast current = anc @ m" "t = m @ last current # tail" "lstat fs anc = Inr n"
        "m \<noteq> [] \<longrightarrow> lstat fs (anc @ [hd m]) = Inl ENOENT"
      using "1.IH" [OF Inl] by auto
    have c: "current = anc @ m @ [last current]" using e(2) m(1) by (metis append_assoc append_butlast_last_id)
    have "lstat fs (anc @ [hd (m @ [last current])]) = Inl ENOENT"
      using m(4) c Inl e(1) by (cases m) auto
    then show ?thesis using c m by (intro exI [of _ "m @ [last current]"]) auto
  qed
qed

text \<open>
  Where the calls write: below the workspace, at a path that is not reached through a link, in a
  directory that exists or, below the first missing one, is made.
\<close>

definition guarded_path :: "string \<Rightarrow> string list \<Rightarrow> bool" where
  "guarded_path channel rel \<longleftrightarrow> rel \<noteq> [] \<and> hd rel \<noteq> ''runtime'' \<and>
     (strict_prefix [''memory'', ''private''] rel \<longrightarrow> equal_fold (trim_space channel) ''dm'')"

definition missing_path :: "file_system \<Rightarrow> string list \<Rightarrow> string list \<Rightarrow> bool" where
  "missing_path fs q tail \<longleftrightarrow> tail \<noteq> [] \<and> canonical (kind_at (fy_root fs)) q \<and> kind_at (fy_root fs) q = Some IsDir \<and>
     kind_at (fy_root fs) (q @ [hd tail]) = None"

definition base_of :: "file_system \<Rightarrow> string \<Rightarrow> string list" where
  "base_of fs workspace = snd (resolve_workspace_root fs workspace)"

lemma is_runtime_elems: "name_list rel \<Longrightarrow> rel \<noteq> [] \<Longrightarrow> hd rel = ''runtime'' \<Longrightarrow> is_runtime_path (elems_text rel)"
  unfolding is_runtime_path_def path_clean_elems_text by (cases rel) (auto simp: Let_def elems_text_Cons)

lemma is_private_elems:
  assumes "name_list rel" "strict_prefix [''memory'', ''private''] rel"
  shows "is_private_memory_path (elems_text rel)"
proof -
  obtain c cs where "rel = ''memory'' # ''private'' # c # cs" using assms(2) by (auto elim!: strict_prefixE')
  then show ?thesis unfolding is_private_memory_path_def path_clean_elems_text [OF assms(1)]
    by (cases cs) (auto simp: Let_def elems_text_def)
qed

lemma name_list_base: "prefix ''/'' (fy_cwd fs) \<Longrightarrow> name_list (base_of fs w)"
  using name_list_abs_elems resolve_name_list
  by (auto simp: base_of_def resolve_workspace_root_def Let_def eval_symlinks_def split: sum.splits)

lemma resolve_path_InrE:
  assumes cwd: "prefix ''/'' (fy_cwd fs)"
    and r: "resolve_path pr fs w raw ch = Inr info"
  obtains (old) rel where "fp_exists info" "fp_abs_path info = base_of fs w @ rel" "rel = [] \<or> guarded_path ch rel" "name_list rel"
      "canonical (kind_at (fy_root fs)) (fp_abs_path info)"
      "resolve (kind_at (fy_root fs)) Follow eval_links [] (fp_abs_path info) = Inr (fp_abs_path info)"
    | (new) q r1 tail where "\<not> fp_exists info" "fp_abs_path info = q @ tail" "q = base_of fs w @ r1"
      "guarded_path ch (r1 @ tail)" "name_list (r1 @ tail)" "missing_path fs q tail"
proof -
  let ?k = "kind_at (fy_root fs)" and ?base = "base_of fs w"
  obtain c where c: "resolve_workspace_candidate fs w raw = Inr c" using r by (auto simp: resolve_path_def split: sum.splits)
  have real: "ca_workspace_real c = ?base"
    using c by (auto simp: resolve_workspace_candidate_def base_of_def Let_def split: sum.splits prod.splits)
  have cand: "name_list (ca_abs c)"
    using c name_list_abs_elems [OF cwd]
    by (auto simp: resolve_workspace_candidate_def resolve_candidate_path_def Let_def split: sum.splits prod.splits if_splits)
  define exists where "exists = (case lstat fs (ca_abs c) of Inr _ \<Rightarrow> True | Inl _ \<Rightarrow> False)"
  obtain a rel where e: "resolve_effective_path fs ?base (ca_abs c) exists = Inr (a, rel)"
      and ok: "\<not> is_runtime_path rel" "is_private_memory_path rel \<longrightarrow> equal_fold (trim_space ch) ''dm''"
      and info: "fp_abs_path info = a" "fp_exists info = exists"
    using r c real unfolding exists_def
    by (cases "lstat fs (ca_abs c)") (auto simp: resolve_path_def Let_def split: sum.splits if_splits)
  have guarded: "r1 = [] \<or> guarded_path ch r1" if "rel = path_clean (elems_text r1)" "name_list r1" for r1
    using that ok is_runtime_elems [of r1] is_private_elems [of r1] by (auto simp: guarded_path_def path_clean_elems_text)
  show thesis
  proof (cases exists)
    case True
    then have ev: "eval_symlinks fs (ca_abs c) = Inr a" "inside_workspace ?base a" "rel = path_clean (rel_text ?base a)"
      using e by (auto simp: resolve_effective_path_def resolve_existing_path_def split: sum.splits if_splits option.splits)
    obtain r1 where r1: "a = ?base @ r1" "rel_text ?base a = elems_text r1" using inside_workspaceE [OF ev(2)] .
    have "name_list a" using ev(1) cand resolve_name_list by (auto simp: eval_symlinks_def)
    then have n: "name_list r1" using r1(1) by simp
    have can: "canonical ?k a" using ev(1) resolve_canonical by (auto simp: eval_symlinks_def)
    have "resolve ?k Follow eval_links [] a = Inr a"
    proof (cases "a = []")
      case False
      then have "?k [] = Some IsDir" using can by (auto simp: canonical_def dest: spec [of _ 0])
      then have "?k a \<in> {Some IsDir, Some IsFile}" using ev(1) resolve_exists by (auto simp: eval_symlinks_def)
      then show ?thesis using resolve_self [of ?k "[]" a] can by simp
    qed simp
    then show thesis using old [of r1] True info r1 n can guarded ev(3) by auto
  next
    case False
    obtain anc tail where f: "find_existing_ancestor fs (ca_abs c) [] = Inr (anc, tail)"
        and q: "\<exists>q. eval_symlinks fs anc = Inr q \<and> inside_workspace ?base q \<and> a = q @ tail \<and>
           rel = path_clean (rel_text ?base (q @ tail))"
      using e False by (auto simp: resolve_effective_path_def split: sum.splits if_splits)
    then obtain q where q: "eval_symlinks fs anc = Inr q" "inside_workspace ?base q" "a = q @ tail"
        "rel = path_clean (rel_text ?base (q @ tail))" by blast
    obtain n where anc: "ca_abs c = anc @ tail" "lstat fs anc = Inr n" "tail \<noteq> [] \<longrightarrow> lstat fs (anc @ [hd tail]) = Inl ENOENT"
      using find_existing_ancestor_Inr [OF f] by auto
    have t: "tail \<noteq> []" using anc(1,2) False by (auto simp: exists_def)
    then have hd: "hd tail \<notin> {[], ''.'', ''..''}" using cand anc(1) by (cases tail) auto
    obtain r1 where r1: "q = ?base @ r1" using inside_workspaceE [OF q(2)] by blast
    have "name_list q" using q(1) cand anc(1) resolve_name_list [of ?k Follow eval_links anc q] by (auto simp: eval_symlinks_def)
    then have nl: "name_list (r1 @ tail)" using r1 cand anc(1) by simp
    have "canonical ?k q" using q(1) resolve_canonical by (auto simp: eval_symlinks_def)
    moreover have "?k q = Some IsDir \<and> ?k (q @ [hd tail]) = None"
      using lstat_missing [of fs eval_links anc q "hd tail"] q(1) anc(3) t hd by (simp add: eval_symlinks_def)
    moreover have "rel = path_clean (elems_text (r1 @ tail))" using q(4) r1 by (simp add: rel_text_def)
    ultimately show thesis using new [of q tail r1] False info q(3) r1 t nl guarded [of "r1 @ tail"] by (auto simp: missing_path_def)
  qed
qed

section \<open>Missing directories\<close>

definition with_dirs :: "string list \<Rightarrow> string list \<Rightarrow> (string list \<Rightarrow> fs_node option) \<Rightarrow> string list \<Rightarrow> fs_node option" where
  "with_dirs q t L r = (if strict_prefix q r \<and> prefix r (q @ t) then Some (Dir []) else L r)"

lemma with_dirs_Nil [simp]: "with_dirs q [] L = L"
  by (rule ext) (auto simp: with_dirs_def strict_prefix_def)

lemma with_dirs_snoc: "with_dirs q (t @ [c]) L = (with_dirs q t L)(q @ t @ [c] := Some (Dir []))"
proof
  fix r
  have "prefix r (q @ t @ [c]) \<longleftrightarrow> r = q @ t @ [c] \<or> prefix r (q @ t)" using prefix_snoc [of r "q @ t" c] by simp
  then show "with_dirs q (t @ [c]) L r = ((with_dirs q t L)(q @ t @ [c] := Some (Dir []))) r"
    by (auto simp: with_dirs_def strict_prefix_def)
qed

lemma mkdir_all_missing:
  assumes q: "canonical (kind_at (fy_root fs)) q" "kind_at (fy_root fs) q = Some IsDir"
    and "name_list t" "t = [] \<or> kind_at (fy_root fs) (q @ [hd t]) = None"
  shows "\<exists>fs'. mkdir_all fs (q @ t) = (None, fs') \<and> leaves fs' = with_dirs q t (leaves fs) \<and>
    canonical (kind_at (fy_root fs')) (q @ t) \<and> kind_at (fy_root fs') (q @ t) = Some IsDir"
  using assms(3,4)
proof (induction t rule: rev_induct)
  case Nil
  have "resolve (kind_at (fy_root fs)) Follow kernel_links [] q = Inr q"
    using resolve_through [of "kind_at (fy_root fs)" "[]" q Follow kernel_links "[]"] q by simp
  moreover obtain es where "node_at (fy_root fs) q = Some (Dir es)" using q(2) by (auto simp: kind_at_def)
  ultimately have "mkdir_all fs q = (None, fs)" by (simp add: mkdir_all.simps [of fs q] stat_def)
  then show ?case using q by simp
next
  case (snoc c t)
  let ?h = "hd (t @ [c])"
  have h: "?h \<notin> {[], ''.'', ''..''}" "kind_at (fy_root fs) (q @ [?h]) = None"
    using snoc.prems by (cases t; simp)+
  obtain rest where rest: "t @ [c] = ?h # rest" by (cases t) auto
  have "resolve (kind_at (fy_root fs)) Follow kernel_links [] (q @ ?h # rest) = Inl ENOENT"
    by (rule resolve_missing [OF q h(2,1)]) simp
  then have "resolve (kind_at (fy_root fs)) Follow kernel_links [] (q @ t @ [c]) = Inl ENOENT"
    unfolding rest [symmetric] .
  then have st: "stat fs (q @ t @ [c]) = Inl ENOENT" by (simp add: stat_def)
  have "t = [] \<or> kind_at (fy_root fs) (q @ [hd t]) = None" using snoc.prems by (cases t) auto
  then obtain fs1 where fs1: "mkdir_all fs (q @ t) = (None, fs1)" "leaves fs1 = with_dirs q t (leaves fs)"
      "canonical (kind_at (fy_root fs1)) (q @ t)" "kind_at (fy_root fs1) (q @ t) = Some IsDir"
    using snoc.IH snoc.prems by auto
  have "node_at (fy_root fs) (q @ [?h]) = None" using h(2) by (simp add: kind_at_def)
  moreover have "prefix (q @ [?h]) (q @ ?h # rest)" by (simp add: prefix_def)
  then have "prefix (q @ [?h]) (q @ t @ [c])" unfolding rest [symmetric] .
  ultimately have "node_at (fy_root fs) (q @ t @ [c]) = None" by (rule node_None_below)
  then have "leaves fs (q @ t @ [c]) = None" by (simp add: node_at_None_leaf)
  then have none: "leaves fs1 (q @ t @ [c]) = None" by (simp add: fs1(2) with_dirs_def)
  let ?fs2 = "put_file fs1 (q @ t @ [c]) (Some (Dir []))"
  have mk: "mkdir fs1 (q @ t @ [c]) = Inr ?fs2"
    using entry_path_in [OF fs1(3,4), of c] none by (simp add: mkdir_def node_at_None_leaf)
  have L: "leaves ?fs2 = (leaves fs1)(q @ t @ [c] := Some (Dir []))"
    by (rule leaves_put_file) (use fs1(4) none in \<open>auto simp: kind_at_leaf butlast_append\<close>)
  have "mkdir_all fs (q @ t @ [c]) = (None, ?fs2)"
    using st fs1(1) mk by (simp add: mkdir_all.simps [of fs "q @ t @ [c]"] butlast_append)
  moreover have "kind_at (fy_root ?fs2) (q @ t @ [c]) = Some IsDir" by (simp add: kind_at_leaf L)
  moreover have "canonical (kind_at (fy_root ?fs2)) (q @ t @ [c])"
    using beside [of ?fs2 fs1 "q @ t" c] L fs1(3,4) snoc.prems(1) canonical_snoc [of _ "q @ t" c] by simp
  ultimately show ?case using L fs1(2) by (intro exI [of _ ?fs2]) (simp add: with_dirs_snoc)
qed

section \<open>Patching\<close>

lemma stat_resolved:
  assumes "resolve (kind_at (fy_root fs)) Follow eval_links [] p = Inr p" "stat fs p = Inr n"
  shows "node_at (fy_root fs) p = Some n"
proof -
  obtain q where q: "resolve (kind_at (fy_root fs)) Follow kernel_links [] p = Inr q" "node_at (fy_root fs) q = Some n"
    using assms(2) by (auto simp: stat_def split: sum.splits option.splits)
  then have "q = p" using eval_of_kernel [OF q(1)] assms(1) by (simp add: eval_symlinks_def)
  then show ?thesis using q(2) by simp
qed

lemma read_resolved:
  assumes "resolve (kind_at (fy_root fs)) Follow eval_links [] p = Inr p" "read_file fs p = Inr s"
  shows "\<exists>m. node_at (fy_root fs) p = Some (File s m)"
  using assms stat_resolved [OF assms(1)] by (auto simp: read_file_def split: sum.splits fs_node.splits)

text \<open>The texts of a patch, and the texts of a file it accepts.\<close>

definition patched_text :: "patch_args \<Rightarrow> string \<Rightarrow> string option" where
  "patched_text args data =
     (let current = normalize_text data; old = normalize_text (pa_old_text args); new = normalize_text (pa_new_text args) in
      if validate_text_content data = None \<and> count_text current old = 1 \<and>
         validate_text_content (replace_first current old new) = None
      then Some (replace_first current old new) else None)"

text \<open>A patch does nothing, writes a file in a directory it makes, or writes a file that is there.\<close>

lemma patch_file_cases:
  assumes cwd: "prefix ''/'' (fy_cwd fs)" and base: "kind_at (fy_root fs) (base_of fs w) = Some IsDir"
    and patch: "patch_file env w ch args fs = (r, fs')"
  obtains (refused) e where "r = Inl e" "fs' = fs"
    | (created) q r1 tail fs1 e st where "q = base_of fs w @ r1" "guarded_path ch (r1 @ tail)" "name_list (r1 @ tail)"
        "missing_path fs q tail" "pa_create args" "leaves fs1 = with_dirs q (butlast tail) (leaves fs)"
        "canonical (kind_at (fy_root fs1)) (q @ tail)" "leaves fs1 (q @ tail) = None"
        "validate_text_content (normalize_text (pa_new_text args)) = None"
        "atomic_write_file (fv_faults env) (fv_random env) fs1 (q @ tail) (normalize_text (pa_new_text args)) default_file_mode = (e, st)"
        "fs' = last st" "isl r \<longleftrightarrow> e \<noteq> None" "only_adds_dirs fs fs1"
    | (patched) rel data mode new e st where "guarded_path ch rel" "name_list rel" "\<not> pa_create args \<and> pa_old_text args \<noteq> []"
        "canonical (kind_at (fy_root fs)) (base_of fs w @ rel)"
        "leaves fs (base_of fs w @ rel) = Some (File data mode)" "patched_text args data = Some new"
        "atomic_write_file (fv_faults env) (fv_random env) fs (base_of fs w @ rel) new mode = (e, st)"
        "fs' = last st" "isl r \<longleftrightarrow> e \<noteq> None"
        "\<forall>x. r = Inr x \<longrightarrow> pr_operation x = ''patched'' \<and> pr_bytes_written x = length new"
proof (cases "resolve_path (fv_printable env) fs w (pa_path args) ch")
  case (Inl e)
  then show thesis using refused [of e] patch by (auto simp: patch_file_def)
next
  case (Inr info)
  let ?new = "normalize_text (pa_new_text args)" and ?p = "fp_abs_path info"
  show thesis
  proof (cases "validate_text_content ?new")
    case (Some e)
    then show thesis using refused [of e] patch Inr by (auto simp: patch_file_def Let_def)
  next
    case None
    note run = patch Inr None
    show thesis
    proof (cases rule: resolve_path_InrE [OF cwd Inr, case_names old new])
      case (new q r1 tail)
      note new' = new
      show thesis
      proof (cases "pa_create args")
        case False
        then have "fs' = fs \<and> (\<exists>e. r = Inl e)" using run new(1) by (auto simp: patch_file_def Let_def)
        then show thesis using refused by auto
      next
        case True
        have t: "tail \<noteq> []" "kind_at (fy_root fs) (q @ [hd tail]) = None"
          and q: "canonical (kind_at (fy_root fs)) q" "kind_at (fy_root fs) q = Some IsDir"
          using new(6) by (auto simp: missing_path_def)
        have bl: "butlast (q @ tail) = q @ butlast tail" using t by (simp add: butlast_append)
        have "name_list (butlast tail @ [last tail])" using new(5) t(1) by simp
        then have nl: "name_list (butlast tail)" "name_list [last tail]" by simp_all
        have "butlast tail = [] \<or> kind_at (fy_root fs) (q @ [hd (butlast tail)]) = None"
          using t(2) by (cases tail; cases "tl tail") auto
        then obtain fs1 where fs1: "mkdir_all fs (q @ butlast tail) = (None, fs1)"
            "leaves fs1 = with_dirs q (butlast tail) (leaves fs)"
            "canonical (kind_at (fy_root fs1)) (q @ butlast tail)" "kind_at (fy_root fs1) (q @ butlast tail) = Some IsDir"
          using mkdir_all_missing [OF q nl(1)] by auto
        have eq: "q @ tail = (q @ butlast tail) @ [last tail]" using t(1) by simp
        have can: "canonical (kind_at (fy_root fs1)) (q @ tail)"
          unfolding eq canonical_snoc using fs1(3,4) nl(2) by simp
        have "node_at (fy_root fs) (q @ [hd tail]) = None" using t(2) by (simp add: kind_at_def)
        then have "node_at (fy_root fs) (q @ tail) = None"
          by (rule node_None_below) (use t(1) in \<open>cases tail; auto simp: prefix_def\<close>)
        moreover have "\<not> prefix (q @ tail) (q @ butlast tail)"
          using t(1) by (metis eq prefix_order.dual_order.antisym prefixI append_self_conv not_Cons_self2)
        ultimately have none: "leaves fs1 (q @ tail) = None" by (simp add: fs1(2) with_dirs_def node_at_None_leaf)
        obtain e st where w: "atomic_write_file (fv_faults env) (fv_random env) fs1 (q @ tail) ?new default_file_mode = (e, st)"
          by fastforce
        have "fs' = last st" "isl r \<longleftrightarrow> e \<noteq> None"
          using run new(1,2) True fs1(1) w by (auto simp: patch_file_def Let_def bl write_outcome_def split: option.splits)
        then show thesis
          using created [OF new(3,4,5,6) True fs1(2) can none None w _ _ mkdir_all_only_adds_dirs [OF fs1(1)]] by simp
      qed
    next
      case (old rel)
      show thesis
      proof (cases "pa_create args \<or> pa_old_text args = [] \<or> (\<forall>data mode. stat fs ?p \<noteq> Inr (File data mode))")
        case True
        then have "fs' = fs \<and> (\<exists>e. r = Inl e)"
          using run old(1) by (cases "stat fs ?p"; cases "projr (stat fs ?p)") (auto simp: patch_file_def Let_def split: if_splits)
        then show thesis using refused by auto
      next
        case False
        then obtain data mode where st: "stat fs ?p = Inr (File data mode)" by auto
        have node: "leaves fs ?p = Some (File data mode)"
          using stat_resolved [OF old(6) st] by (simp add: node_at_File_leaf)
        have rel: "rel \<noteq> []" using node base old(2) by (auto simp: kind_at_leaf)
        show thesis
        proof (cases "patched_text args data")
          case n: None
          then have "fs' = fs \<and> (\<exists>e. r = Inl e)"
            using run old(1) False st by (auto simp: patch_file_def Let_def read_file_def patched_text_def split: if_splits option.splits)
          then show thesis using refused by auto
        next
          case (Some new)
          obtain e st' where w: "atomic_write_file (fv_faults env) (fv_random env) fs ?p new mode = (e, st')" by fastforce
          have "fs' = last st'" "isl r \<longleftrightarrow> e \<noteq> None"
              "\<forall>x. r = Inr x \<longrightarrow> pr_operation x = ''patched'' \<and> pr_bytes_written x = length new"
            using run old(1) False st Some w
            by (auto simp: patch_file_def Let_def read_file_def patched_text_def write_outcome_def build_patch_result_def
                split: if_splits option.splits)
          then show thesis using patched [of rel data mode new e st'] old False Some w node rel by auto
        qed
      qed
    qed
  qed
qed

lemma delete_file_cases:
  assumes cwd: "prefix ''/'' (fy_cwd fs)" and base: "kind_at (fy_root fs) (base_of fs w) = Some IsDir"
    and delete: "delete_file env w ch path fs = (r, fs')"
  obtains (refused) e where "r = Inl e" "fs' = fs"
    | (deleted) rel data mode where "guarded_path ch rel" "isl r \<longleftrightarrow> False"
        "leaves fs (base_of fs w @ rel) = Some (File data mode)" "validate_text_content data = None"
        "leaves fs' = (leaves fs)(base_of fs w @ rel := None)"
proof (cases "(\<exists>e. r = Inl e) \<and> fs' = fs")
  case True
  then show thesis using refused by blast
next
  case no: False
  obtain info where info: "resolve_path (fv_printable env) fs w path ch = Inr info"
    using delete no by (cases "resolve_path (fv_printable env) fs w path ch") (auto simp: delete_file_def)
  let ?p = "fp_abs_path info"
  obtain data mode where d: "fp_exists info" "stat fs ?p = Inr (File data mode)"
    using delete no info
    by (cases "stat fs ?p"; cases "projr (stat fs ?p)"; cases "lstat fs (abs_elems (fy_cwd fs) (path_join w (fp_request_path info)))";
        cases "projr (lstat fs (abs_elems (fy_cwd fs) (path_join w (fp_request_path info))))")
      (auto simp: delete_file_def Let_def split: if_splits)
  show thesis
  proof (cases rule: resolve_path_InrE [OF cwd info, case_names old new])
    case (old rel)
    have node: "node_at (fy_root fs) ?p = Some (File data mode)" by (rule stat_resolved [OF old(6) d(2)])
    then have L: "leaves fs ?p = Some (File data mode)" by (simp add: node_at_File_leaf)
    then have rel: "rel \<noteq> []" using base old(2) by (auto simp: kind_at_leaf)
    then have e: "entry_path fs ?p = Inr ?p" using old(2,5) entry_path_canonical [of fs ?p] by simp
    then have rm: "remove_entry fs ?p = Inr (put_file fs ?p None)" using node by (simp add: remove_entry_def)
    have "leaves (put_file fs ?p None) = (leaves fs)(?p := None)"
      by (rule leaves_put_file) (use entry_path_dir [OF e] L in \<open>auto simp: kind_at_leaf\<close>)
    moreover have "fs' = put_file fs ?p None \<and> validate_text_content data = None \<and> (\<exists>x. r = Inr x)"
      using delete no info d rm
      by (auto simp: delete_file_def Let_def read_file_def split: sum.splits fs_node.splits option.splits)
    ultimately show thesis using deleted [of rel data mode] old L rel by auto
  next
    case (new q r1 tail)
    then show thesis using d(1) by simp
  qed
qed

section \<open>Confinement\<close>

lemma strict_prefix2: "strict_prefix [a, b] rel \<longleftrightarrow> 2 < length rel \<and> take 2 rel = [a, b]"
  by (cases rel; cases "tl rel"; cases "tl (tl rel)") (auto simp: strict_prefix_def)

lemma guarded_temp:
  assumes "guarded_path ch rel"
  shows "guarded_path ch (butlast rel @ [''.'' @ x])"
proof -
  have "strict_prefix [''memory'', ''private''] rel" if "strict_prefix [''memory'', ''private''] (butlast rel @ [''.'' @ x])"
    using that by (cases rel rule: rev_cases) (auto simp: strict_prefix2)
  moreover have "hd (butlast rel @ [''.'' @ x]) \<noteq> ''runtime''"
    using assms by (cases rel; cases "tl rel") (auto simp: guarded_path_def)
  ultimately show ?thesis using assms by (auto simp: guarded_path_def)
qed

lemma guarded_prefix: "guarded_path ch rel \<Longrightarrow> prefix r rel \<Longrightarrow> r \<noteq> [] \<Longrightarrow> guarded_path ch r"
  using prefix_order.less_le_trans by (auto simp: guarded_path_def prefix_def)

definition confined :: "string \<Rightarrow> string \<Rightarrow> file_system \<Rightarrow> file_system \<Rightarrow> bool" where
  "confined w ch fs fs' \<longleftrightarrow>
     (\<forall>q. leaves fs' q \<noteq> leaves fs q \<longrightarrow> (\<exists>rel. q = base_of fs w @ rel \<and> guarded_path ch rel))"

lemma confined_refl [simp]: "confined w ch fs fs"
  by (simp add: confined_def)

lemma write_kept_confined:
  assumes "write_kept fs1 (base_of fs w @ rel) new fs'" "guarded_path ch rel" "leaves fs1 = leaves fs"
  shows "confined w ch fs fs'"
  unfolding confined_def
proof (intro allI impI)
  fix q
  assume "leaves fs' q \<noteq> leaves fs q"
  then have "q = base_of fs w @ rel \<or> q \<in> temp_names (base_of fs w @ rel)" using assms by (auto simp: write_kept_def)
  moreover have "rel \<noteq> []" using assms(2) by (simp add: guarded_path_def)
  ultimately show "\<exists>rel. q = base_of fs w @ rel \<and> guarded_path ch rel"
    using assms(2) guarded_temp [OF assms(2)] by (auto simp: temp_names_def butlast_append)
qed

lemma patch_file_confined:
  assumes "prefix ''/'' (fy_cwd fs)" "kind_at (fy_root fs) (base_of fs w) = Some IsDir"
    and "patch_file env w ch args fs = (r, fs')"
  shows "confined w ch fs fs'"
proof (cases rule: patch_file_cases [OF assms, case_names refused created patched])
  case (refused e)
  then show ?thesis by simp
next
  case (created q r1 tail fs1 e st)
  have q: "q @ tail = base_of fs w @ r1 @ tail" using created(1) by simp
  have "write_kept fs1 (q @ tail) (File (normalize_text (pa_new_text args)) default_file_mode) fs'"
    using atomic_write_file_leaves [OF created(7) _ _ created(10)] created(4,8,11)
    by (auto simp: missing_path_def kind_at_leaf)
  then have k: "leaves fs' x = leaves fs1 x" if "x \<noteq> q @ tail" "x \<notin> temp_names (q @ tail)" for x
    using that by (auto simp: write_kept_def)
  show ?thesis unfolding confined_def
  proof (intro allI impI)
    fix x
    assume x: "leaves fs' x \<noteq> leaves fs x"
    have t: "tail \<noteq> []" using created(4) by (simp add: missing_path_def)
    consider "x = q @ tail" | "x \<in> temp_names (q @ tail)" | "strict_prefix q x" "prefix x (q @ butlast tail)"
      using k [of x] x created(6) unfolding with_dirs_def by metis
    then show "\<exists>rel. x = base_of fs w @ rel \<and> guarded_path ch rel"
    proof cases
      case 1
      then show ?thesis using q created(2) by auto
    next
      case 2
      then show ?thesis using guarded_temp [OF created(2)] t by (auto simp: temp_names_def q butlast_append)
    next
      case 3
      then obtain y where x': "x = q @ y" by (auto simp: strict_prefix_def prefix_def)
      with 3 have y: "x = q @ y" "y \<noteq> []" "prefix y (butlast tail)" by auto
      have "prefix (r1 @ y) (r1 @ tail)" using y(3) prefixeq_butlast [of tail] prefix_order.trans by auto
      then have "guarded_path ch (r1 @ y)" using guarded_prefix [OF created(2)] y(2) by simp
      then show ?thesis using y(1) created(1) by auto
    qed
  qed
next
  case (patched rel data mode new e st)
  have "write_kept fs (base_of fs w @ rel) (File new mode) fs'"
    using atomic_write_file_leaves [OF patched(4) _ _ patched(7)] patched(1,5,8)
    by (auto simp: guarded_path_def kind_at_leaf)
  then show ?thesis using write_kept_confined patched(1) by blast
qed

lemma delete_file_confined:
  assumes "prefix ''/'' (fy_cwd fs)" "kind_at (fy_root fs) (base_of fs w) = Some IsDir"
    and "delete_file env w ch path fs = (r, fs')"
  shows "confined w ch fs fs'"
proof (cases rule: delete_file_cases [OF assms, case_names refused deleted])
  case (deleted rel data mode)
  then show ?thesis by (auto simp: confined_def split: if_splits)
qed simp

section \<open>Directories and links\<close>

text \<open>Directories and links stay, so the workspace is where it was.\<close>

definition entries_kept :: "file_system \<Rightarrow> file_system \<Rightarrow> bool" where
  "entries_kept fs fs' \<longleftrightarrow> fy_cwd fs' = fy_cwd fs \<and>
     (\<forall>q. kind_at (fy_root fs) q \<noteq> None \<and> kind_at (fy_root fs) q \<noteq> Some IsFile \<longrightarrow>
        kind_at (fy_root fs') q = kind_at (fy_root fs) q)"

lemma entries_kept_refl [simp]: "entries_kept fs fs"
  by (simp add: entries_kept_def)

lemma entries_kept_trans: "entries_kept fs fs' \<Longrightarrow> entries_kept fs' fs'' \<Longrightarrow> entries_kept fs fs''"
  unfolding entries_kept_def by metis

lemma only_adds_dirs_entries: "only_adds_dirs fs fs' \<Longrightarrow> entries_kept fs fs'"
  by (auto simp: only_adds_dirs_def entries_kept_def)

lemma write_kept_entries:
  assumes "write_kept fs p (File s m) fs'" "kind_at (fy_root fs) p \<in> {None, Some IsFile}"
  shows "entries_kept fs fs'"
proof -
  have "kind_at (fy_root fs') q = kind_at (fy_root fs) q"
    if "kind_at (fy_root fs) q \<noteq> None" "kind_at (fy_root fs) q \<noteq> Some IsFile" for q
    using assms that by (cases "q = p") (auto simp: write_kept_def kind_at_leaf)
  then show ?thesis using assms(1) by (simp add: entries_kept_def write_kept_def)
qed

lemma patch_file_entries:
  assumes "prefix ''/'' (fy_cwd fs)" "kind_at (fy_root fs) (base_of fs w) = Some IsDir"
    and "patch_file env w ch args fs = (r, fs')"
  shows "entries_kept fs fs'"
proof (cases rule: patch_file_cases [OF assms, case_names refused created patched])
  case (refused e)
  then show ?thesis by simp
next
  case (created q r1 tail fs1 e st)
  have "write_kept fs1 (q @ tail) (File (normalize_text (pa_new_text args)) default_file_mode) fs'"
    using atomic_write_file_leaves [OF created(7) _ _ created(10)] created(4,8,11)
    by (auto simp: missing_path_def kind_at_leaf)
  then have "entries_kept fs1 fs'" by (rule write_kept_entries) (simp add: kind_at_leaf created(8))
  then show ?thesis using entries_kept_trans [OF only_adds_dirs_entries [OF created(13)]] by simp
next
  case (patched rel data mode new e st)
  have "write_kept fs (base_of fs w @ rel) (File new mode) fs'"
    using atomic_write_file_leaves [OF patched(4) _ _ patched(7)] patched(1,5,8)
    by (auto simp: guarded_path_def kind_at_leaf)
  then show ?thesis by (rule write_kept_entries) (simp add: kind_at_leaf patched(5))
qed

lemma remove_entry_cwd: "remove_entry fs p = Inr fs' \<Longrightarrow> fy_cwd fs' = fy_cwd fs"
  by (auto simp: remove_entry_def split: sum.splits option.splits fs_node.splits list.splits)

lemma delete_file_cwd: "delete_file env w ch path fs = (r, fs') \<Longrightarrow> fy_cwd fs' = fy_cwd fs"
  using remove_entry_cwd
  by (auto simp: delete_file_def Let_def split: sum.splits if_splits fs_node.splits option.splits)

lemma delete_file_entries:
  assumes "prefix ''/'' (fy_cwd fs)" "kind_at (fy_root fs) (base_of fs w) = Some IsDir"
    and "delete_file env w ch path fs = (r, fs')"
  shows "entries_kept fs fs'"
proof (cases rule: delete_file_cases [OF assms, case_names refused deleted])
  case (deleted rel data mode)
  then have "kind_at (fy_root fs') q = kind_at (fy_root fs) q"
    if "kind_at (fy_root fs) q \<noteq> Some IsFile" for q
    using that by (cases "q = base_of fs w @ rel") (auto simp: kind_at_leaf)
  then show ?thesis using delete_file_cwd [OF assms(3)] by (auto simp: entries_kept_def)
qed simp

lemma resolve_kept:
  "resolve k Follow n cur cs = Inr q \<Longrightarrow> k q = Some IsDir \<Longrightarrow>
     (\<forall>q. k q \<noteq> None \<and> k q \<noteq> Some IsFile \<longrightarrow> k' q = k q) \<Longrightarrow> resolve k' Follow n cur cs = Inr q"
proof (induction k Follow n cur cs rule: resolve.induct)
  case (2 k n cur c cs)
  have kept: "k' p = Some d" if "k p = Some d" "d \<noteq> IsFile" for p d using that "2.prems"(3) by auto
  from "2.prems"(1) show ?case
  proof (cases rule: resolve_InrE)
    case skip
    then show ?thesis using "2.hyps"(1) "2.prems"(2,3) kept by simp
  next
    case up
    then show ?thesis using "2.hyps"(2) "2.prems"(2,3) kept by simp
  next
    case down
    have "k (cur @ [c]) \<noteq> Some IsFile"
    proof
      assume f: "k (cur @ [c]) = Some IsFile"
      then have "q = cur @ [c]" using down(4) by (cases cs) (auto split: if_splits)
      then show False using f "2.prems"(2) by simp
    qed
    then have d: "k (cur @ [c]) = Some IsDir" using down(3) by simp
    then have "resolve k' Follow n (cur @ [c]) cs = Inr q" using "2.hyps"(3,4) down "2.prems"(2,3) by blast
    then show ?thesis using down(1,2) d kept by simp
  next
    case (link l m)
    then have "resolve k' Follow m (if prefix ''/'' l then [] else cur) (split_on (CHR ''/'') l @ cs) = Inr q"
      using "2.hyps"(5) [OF _ _ _ link(3) refl _ link(5,6) "2.prems"(2,3)] by simp
    then show ?thesis using link kept by simp
  qed simp_all
qed simp

lemma canonical_node:
  assumes "node_at t p \<noteq> None" "name_list p"
  shows "canonical (kind_at t) p"
  unfolding canonical_def
proof (intro allI impI conjI)
  fix i
  assume i: "i < length p"
  then have p: "p = take i p @ p ! i # drop (Suc i) p" by (rule id_take_nth_drop)
  then have "node_at t (take i p @ p ! i # drop (Suc i) p) \<noteq> None" using assms(1) by simp
  then show "kind_at t (take i p) = Some IsDir"
    by (cases "node_at t (take i p)"; cases "the (node_at t (take i p))") (auto simp: node_at_append kind_at_def)
  show "p ! i \<notin> {[], ''.'', ''..''}" using assms(2) i by (auto simp: name_list_def)
qed

lemma base_of_kept:
  assumes cwd0: "prefix ''/'' (fy_cwd fs)"
    and dir: "kind_at (fy_root fs) (base_of fs w) = Some IsDir" "entries_kept fs fs'"
  shows "base_of fs' w = base_of fs w" "kind_at (fy_root fs') (base_of fs w) = Some IsDir"
proof -
  let ?a = "abs_elems (fy_cwd fs) w" and ?k = "kind_at (fy_root fs)"
  have cwd: "fy_cwd fs' = fy_cwd fs" using dir(2) by (simp add: entries_kept_def)
  have "eval_symlinks fs ?a = Inr (base_of fs w)"
  proof (cases "eval_symlinks fs ?a")
    case (Inl e)
    then have b: "base_of fs w = ?a" by (simp add: base_of_def resolve_workspace_root_def Let_def)
    then have "canonical ?k ?a" using dir(1) name_list_abs_elems [OF cwd0]
      by (intro canonical_node) (auto simp: kind_at_def)
    then show ?thesis
      using resolve_through [of ?k "[]" ?a Follow eval_links "[]"] dir(1) b by (simp add: eval_symlinks_def)
  next
    case (Inr q)
    then show ?thesis by (simp add: base_of_def resolve_workspace_root_def Let_def)
  qed
  then have "eval_symlinks fs' ?a = Inr (base_of fs w)"
    using resolve_kept [of ?k eval_links "[]" ?a "base_of fs w" "kind_at (fy_root fs')"] dir
    by (simp add: eval_symlinks_def entries_kept_def)
  then show "base_of fs' w = base_of fs w" by (simp add: base_of_def resolve_workspace_root_def Let_def cwd)
  show "kind_at (fy_root fs') (base_of fs w) = Some IsDir" using dir by (simp add: entries_kept_def)
qed

section \<open>Texts\<close>

text \<open>ASCII texts are valid.\<close>

lemma valid_utf8_ascii: "list_all (\<lambda>c. byte c < 0x80) s \<Longrightarrow> valid_utf8 s"
proof (induction s)
  case (Cons c cs)
  have "decode_bytes (byte c # r) = (byte c, 1)" for r
    using Cons.prems by (cases "byte c # r" rule: decode_bytes.cases) auto
  then have "decode_rune (c # cs) = (byte c, 1)" by (simp add: decode_rune_def)
  then show ?case using Cons by (simp add: valid_utf8.simps [of "c # cs"] rune_error_def)
qed (simp add: valid_utf8.simps)

lemma validate_ascii:
  "length s \<le> 100 \<Longrightarrow> list_all (\<lambda>c. 0 < byte c \<and> byte c < 0x80) s \<Longrightarrow> validate_text_content s = None"
  using valid_utf8_ascii [of s] by (auto simp: validate_text_content_def max_bytes_def list_all_iff)

text \<open>What a text that counts an occurrence is replaced with.\<close>

lemma replace_first_split:
  "count_text s old \<noteq> 0 \<Longrightarrow> old \<noteq> [] \<Longrightarrow>
     \<exists>pre post. s = pre @ old @ post \<and> replace_first s old new = pre @ new @ post \<and>
       count_text s old = Suc (count_text post old)"
proof (induction s)
  case Nil
  then show ?case by (simp add: count_text.simps)
next
  case (Cons c s)
  show ?case
  proof (cases "prefix old (c # s)")
    case True
    then obtain post where post: "c # s = old @ post" by (auto simp: prefix_def)
    then have "drop (length old) (c # s) = post" by simp
    then have "replace_first (c # s) old new = new @ post" using True by (simp only: replace_first.simps if_True)
    moreover have "count_text (c # s) old = Suc (count_text post old)"
      using True Cons.prems(2) \<open>drop (length old) (c # s) = post\<close> by (simp add: count_text.simps [of "c # s"])
    ultimately have "c # s = [] @ old @ post \<and> replace_first (c # s) old new = [] @ new @ post \<and>
        count_text (c # s) old = Suc (count_text post old)" using post by simp
    then show ?thesis by blast
  next
    case False
    then have "count_text (c # s) old = count_text s old" using Cons.prems(2) by (simp add: count_text.simps [of "c # s"])
    moreover then obtain pre post where "s = pre @ old @ post" "replace_first s old new = pre @ new @ post"
        "count_text s old = Suc (count_text post old)"
      using Cons by metis
    ultimately have "c # s = (c # pre) @ old @ post \<and> replace_first (c # s) old new = (c # pre) @ new @ post \<and>
        count_text (c # s) old = Suc (count_text post old)" using False by simp
    then show ?thesis by blast
  qed
qed

lemma count_text_0: "count_text s old = 0 \<Longrightarrow> old \<noteq> [] \<Longrightarrow> s \<noteq> pre @ old @ post"
proof (induction s arbitrary: pre)
  case (Cons c s)
  then have "\<not> prefix old (c # s)" "count_text s old = 0"
    by (auto simp: count_text.simps [of "c # s"] split: if_splits)
  then show ?case using Cons by (cases pre) auto
qed auto

lemma normalize_text_Nil: "normalize_text s = [] \<longleftrightarrow> s = []"
proof -
  have "replace_crlf s = [] \<longleftrightarrow> s = []" by (induction s rule: replace_crlf.induct) auto
  moreover have "replace_char c [x] t = [] \<longleftrightarrow> t = []" for c x t by (cases t) (auto simp: replace_char_def)
  ultimately show ?thesis by (simp add: normalize_text_def)
qed

end
