(* ===== verification/Prompt.thy ===== *)
theory Prompt
  imports Workspace_Safety Bindings Go_Time Utf8 Go_Strings
begin

text \<open>
  \<open>internal/prompt\<close>: the system prompt from the files of the workspace, and its cache.  The
  embedded texts, the hash, the printable characters, the lower case of a text and the text of a
  file mode are an environment.
\<close>

record prompt_env =
  pe_identity_runtime :: string
  pe_tool_contract :: string
  pe_memory_policy :: string
  pe_heartbeat_policy :: string
  pe_sha256_hex :: "string \<Rightarrow> string"
  pe_printable :: "nat \<Rightarrow> bool"
  pe_lower :: "string \<Rightarrow> string"
  pe_file_mode :: "nat \<Rightarrow> string"
  pe_dir_mode :: string
  pe_link_mode :: string

section \<open>Data\<close>

definition workspace_context_files :: "string list" where
  "workspace_context_files = [''SOUL.md'', ''IDENTITY.md'', ''USER.md'', ''AGENTS.md'', ''TOOLS.md'']"

definition bootstrap_context_file :: string where "bootstrap_context_file = ''BOOTSTRAP.md''"
definition heartbeat_context_file :: string where "heartbeat_context_file = ''HEARTBEAT.md''"

definition mode_public_private :: string where "mode_public_private = ''public_private''"
definition mode_public_only :: string where "mode_public_only = ''public_only''"

record static_variant =
  sv_memory_mode :: string
  sv_include_heartbeat :: bool

definition variant_key :: "static_variant \<Rightarrow> string" where
  "variant_key v = (if sv_include_heartbeat v then sv_memory_mode v @ ''|heartbeat'' else sv_memory_mode v @ ''|normal'')"

record run_context =
  rc_now :: time
  rc_conversation :: conversation
  rc_session_key :: string
  rc_session_id :: string
  rc_payload_type :: string

record skill_summary =
  sk_name :: string
  sk_description :: string
  sk_path :: string

record text_entry =
  te_display_path :: string
  te_resolved_path :: "string list"
  te_content :: string

record static_bundle =
  sb_workspace_path :: string
  sb_memory_blocks :: "text_entry list"
  sb_workspace_context :: "text_entry list"
  sb_skills :: "skill_summary list"
  sb_heartbeat :: "text_entry option"
  sb_include_heartbeat :: bool

definition build_memory_mode :: "string \<Rightarrow> string" where
  "build_memory_mode channel = (if equal_fold (trim_space channel) ''dm'' then mode_public_private else mode_public_only)"

definition build_static_variant :: "run_context \<Rightarrow> static_variant" where
  "build_static_variant ctx =
     \<lparr> sv_memory_mode = build_memory_mode (channel_type (rc_conversation ctx)),
       sv_include_heartbeat = equal_fold (trim_space (rc_payload_type ctx)) ''cron_fire'' \<rparr>"

section \<open>Texts\<close>

text \<open>A front matter: its pairs, or None when a line has no key.\<close>

fun frontmatter_lines :: "string list \<Rightarrow> (string \<times> string) list \<Rightarrow> (string \<times> string) list option" where
  "frontmatter_lines [] meta = Some meta"
| "frontmatter_lines (l # ls) meta =
     (let line = trim_space l in
      if line = [] \<or> prefix ''#'' line then frontmatter_lines ls meta
      else (case cut_text '':'' line of
              None \<Rightarrow> None
            | Some (k, v) \<Rightarrow>
                if trim_space k = [] then None
                else frontmatter_lines ls ((trim_space k, trim_chars [CHR 0x22, CHR 0x27] (trim_space v)) # meta)))"

definition parse_frontmatter :: "string \<Rightarrow> (string \<times> string) list option" where
  "parse_frontmatter raw = frontmatter_lines (split_on (CHR 0x0A) raw) []"

fun summarize_lines :: "string list \<Rightarrow> string" where
  "summarize_lines [] = []"
| "summarize_lines (l # ls) =
     (let line = trim_space (dropWhile (\<lambda>c. c \<in> set ''#-* '') (trim_space l)) in
      if line = [] then summarize_lines ls
      else if 120 < length (runes line) then string_of_runes (take 120 (runes line)) @ ''...'' else line)"

definition summarize_markdown :: "string \<Rightarrow> string" where
  "summarize_markdown body = summarize_lines (split_on (CHR 0x0A) body)"

definition newline :: string where "newline = [CHR 0x0A]"

definition front_mark :: string where "front_mark = ''---'' @ newline"

text \<open>
  The summary of a skill file at its path in the workspace; the name is that of its directory
  unless the front matter gives one.
\<close>

definition parse_skill_summary :: "string \<Rightarrow> string \<Rightarrow> skill_summary option" where
  "parse_skill_summary rel raw =
     (let dir_name = last (butlast (path_elems rel)); body = trim_space raw;
          summary = (\<lambda>name description text.
             (let d1 = (if description = [] then summarize_markdown text else description) in
              Some \<lparr> sk_name = name, sk_description = (if d1 = [] then ''No description'' else d1), sk_path = rel \<rparr>))
      in if body = [] then None
         else if prefix front_mark body
         then (case cut_text (newline @ front_mark) (drop (length front_mark) body) of
                 None \<Rightarrow> None
               | Some (front, rest) \<Rightarrow>
                   (case parse_frontmatter front of
                      None \<Rightarrow> None
                    | Some meta \<Rightarrow>
                        (let value = (\<lambda>k. case map_of meta k of Some v \<Rightarrow> v | None \<Rightarrow> []) in
                         summary (if value ''name'' \<noteq> [] then value ''name'' else dir_name) (value ''description'')
                           (trim_space rest))))
         else summary dir_name [] body)"

section \<open>Loading\<close>

definition load_context_text :: "file_system \<Rightarrow> string \<Rightarrow> string \<Rightarrow> text_entry option" where
  "load_context_text fs workspace rel =
     (case read_context_text fs workspace rel of
        Inr (Some c) \<Rightarrow> Some \<lparr> te_display_path = cx_path c, te_resolved_path = cx_resolved_path c, te_content = cx_content c \<rparr>
      | _ \<Rightarrow> None)"

definition load_memory_text :: "file_system \<Rightarrow> string \<Rightarrow> string \<Rightarrow> string \<Rightarrow> text_entry option" where
  "load_memory_text fs workspace rel memory_mode =
     (let allowed = (if memory_mode = mode_public_private then [VisibilityPublic, VisibilityPrivate] else [VisibilityPublic]) in
      case read_text fs workspace rel allowed of
        Inr (Some f) \<Rightarrow> Some \<lparr> te_display_path = tf_path f, te_resolved_path = tf_resolved_path f, te_content = tf_content f \<rparr>
      | _ \<Rightarrow> None)"

definition load_workspace_context_entries :: "file_system \<Rightarrow> string \<Rightarrow> text_entry list" where
  "load_workspace_context_entries fs workspace =
     List.map_filter (load_context_text fs workspace) (workspace_context_files @ [bootstrap_context_file])"

definition public_memory_path :: string where "public_memory_path = ''memory/public/MEMORY.md''"
definition private_memory_path :: string where "private_memory_path = ''memory/private/MEMORY.md''"

definition add_block :: "text_entry option \<Rightarrow> text_entry list \<Rightarrow> text_entry list" where
  "add_block e blocks =
     (case e of
        None \<Rightarrow> blocks
      | Some b \<Rightarrow> if te_resolved_path b \<in> te_resolved_path ` set blocks then blocks else blocks @ [b])"

definition load_curated_memory_blocks :: "file_system \<Rightarrow> string \<Rightarrow> string \<Rightarrow> text_entry list" where
  "load_curated_memory_blocks fs workspace memory_mode =
     (let blocks = fold (\<lambda>rel. add_block (load_memory_text fs workspace rel memory_mode)) [public_memory_path, ''MEMORY.md''] []
      in if memory_mode = mode_public_private
         then add_block (load_memory_text fs workspace private_memory_path memory_mode) blocks else blocks)"

text \<open>The skill files below \<open>skills\<close>, as \<open>filepath.WalkDir\<close> meets them.\<close>

definition skill_files :: "file_system \<Rightarrow> string \<Rightarrow> string list" where
  "skill_files fs workspace =
     (case lstat fs (abs_elems (fy_cwd fs) (path_join workspace ''skills'')) of
        Inl e \<Rightarrow> []
      | Inr n \<Rightarrow> map (join ''/'') (filter (\<lambda>p. last p = ''SKILL.md'') (walk_files [''skills''] n)))"

definition load_skill :: "file_system \<Rightarrow> string \<Rightarrow> string \<Rightarrow> skill_summary option" where
  "load_skill fs workspace rel =
     (case load_context_text fs workspace rel of
        None \<Rightarrow> None
      | Some e \<Rightarrow> parse_skill_summary (te_display_path e) (te_content e))"

definition load_skill_summaries :: "prompt_env \<Rightarrow> file_system \<Rightarrow> string \<Rightarrow> skill_summary list" where
  "load_skill_summaries env fs workspace =
     sort_key (\<lambda>s. (pe_lower env (sk_name s), sk_path s)) (List.map_filter (load_skill fs workspace) (skill_files fs workspace))"

definition load_static_bundle :: "prompt_env \<Rightarrow> file_system \<Rightarrow> string \<Rightarrow> static_variant \<Rightarrow> static_bundle" where
  "load_static_bundle env fs workspace v =
     \<lparr> sb_workspace_path = render (abs_elems (fy_cwd fs) workspace),
       sb_memory_blocks = load_curated_memory_blocks fs workspace (sv_memory_mode v),
       sb_workspace_context = load_workspace_context_entries fs workspace,
       sb_skills = load_skill_summaries env fs workspace,
       sb_heartbeat = (if sv_include_heartbeat v then load_context_text fs workspace heartbeat_context_file else None),
       sb_include_heartbeat = sv_include_heartbeat v \<rparr>"

section \<open>Rendering\<close>

definition paragraphs :: "string list \<Rightarrow> string" where
  "paragraphs parts = join (newline @ newline) parts"

definition section_break :: string where
  "section_break = newline @ newline @ ''---'' @ newline @ newline"

definition render_system_template :: "string \<Rightarrow> (string \<times> string) list \<Rightarrow> string" where
  "render_system_template raw replacements =
     trim_space (fold (\<lambda>(k, v) s. replace_text (''{{'' @ k @ ''}}'') v s) replacements raw)"

definition render_identity_section :: "prompt_env \<Rightarrow> string \<Rightarrow> string" where
  "render_identity_section env path = render_system_template (trim_space (pe_identity_runtime env)) [(''workspace_path'', path)]"

definition entry_section :: "string \<Rightarrow> text_entry \<Rightarrow> string" where
  "entry_section marks e = marks @ '' '' @ te_display_path e @ newline @ newline @ te_content e"

definition render_memory_policy_section :: "prompt_env \<Rightarrow> text_entry list \<Rightarrow> string" where
  "render_memory_policy_section env blocks =
     paragraphs (trim_space (pe_memory_policy env) #
       (if blocks = []
        then [''### Injected Curated Memory'' @ newline @ newline @ ''No curated memory is injected for this run.'']
        else ''### Injected Curated Memory'' # map (entry_section ''####'') blocks))"

definition render_workspace_context_section :: "text_entry list \<Rightarrow> string" where
  "render_workspace_context_section entries =
     paragraphs (''## Workspace Instructions & Context'' #
       (if entries = [] then [''No extra workspace context files are injected for this run.'']
        else map (entry_section ''###'') entries))"

definition em_dash :: string where "em_dash = [CHR 0xE2, CHR 0x80, CHR 0x94]"

definition render_available_skills_section :: "skill_summary list \<Rightarrow> string" where
  "render_available_skills_section skills =
     paragraphs (''## Available Skills'' #
       (if skills = [] then [''No skills were found in the current workspace.'']
        else (''To read a skill body, use context_get on `skills/<name>/SKILL.md` first.'') #
          map (\<lambda>s. ''- '' @ sk_name s @ '' '' @ em_dash @ '' '' @ sk_description s @ '' ('' @ sk_path s @ '')'') skills))"

definition render_heartbeat_policy_section :: "prompt_env \<Rightarrow> text_entry option \<Rightarrow> string" where
  "render_heartbeat_policy_section env e =
     paragraphs [trim_space (pe_heartbeat_policy env),
       (case e of
          None \<Rightarrow> ''### HEARTBEAT.md'' @ newline @ newline @
            ''The current workspace does not provide HEARTBEAT.md. Follow the conservative default policy.''
        | Some entry \<Rightarrow> entry_section ''###'' entry)]"

definition render_static :: "prompt_env \<Rightarrow> static_bundle \<Rightarrow> string" where
  "render_static env b =
     join section_break
       ([render_identity_section env (sb_workspace_path b), trim_space (pe_tool_contract env),
         render_memory_policy_section env (sb_memory_blocks b),
         render_workspace_context_section (sb_workspace_context b),
         render_available_skills_section (sb_skills b)]
        @ (if sb_include_heartbeat b then [render_heartbeat_policy_section env (sb_heartbeat b)] else []))"

definition prompt_literal :: "prompt_env \<Rightarrow> string \<Rightarrow> string" where
  "prompt_literal env value =
     (let v = trim_space value in if v = [] then ''-'' else go_quote (pe_printable env) v)"

definition render_current_run_context :: "prompt_env \<Rightarrow> run_context \<Rightarrow> time \<Rightarrow> string" where
  "render_current_run_context env ctx now =
     (let line = (\<lambda>k v. newline @ ''- '' @ k @ '': '' @ prompt_literal env v); c = rc_conversation ctx in
      trim_space (''## Current Run Context'' @ newline @ newline @ ''- current_time_utc: '' @ rfc3339_text now
        @ line ''conversation_id'' (conversation_id c) @ line ''thread_id'' (thread_id c)
        @ line ''channel_type'' (channel_type c) @ line ''participant_id'' (participant_id c)
        @ line ''session_key'' (rc_session_key ctx) @ line ''session_id'' (rc_session_id ctx)
        @ line ''payload_type'' (rc_payload_type ctx)))"

section \<open>Fingerprints\<close>

definition resolved_path_text :: "file_system \<Rightarrow> string list \<Rightarrow> string" where
  "resolved_path_text fs p = render (case eval_symlinks fs p of Inr q \<Rightarrow> q | Inl e \<Rightarrow> p)"

definition file_marker :: "prompt_env \<Rightarrow> fs_node \<Rightarrow> string" where
  "file_marker env n =
     (case n of
        File s mode \<Rightarrow> pe_file_mode env mode
      | Dir es \<Rightarrow> pe_dir_mode env
      | Link target \<Rightarrow> pe_link_mode env @ '':'' @ target)"

definition content_fingerprint :: "prompt_env \<Rightarrow> file_system \<Rightarrow> string \<Rightarrow> string list \<Rightarrow> string" where
  "content_fingerprint env fs rel p =
     (case read_file fs p of
        Inl e \<Rightarrow> ''read_error''
      | Inr data \<Rightarrow>
          (let content = trim_space data in
           if content = [] then ''empty:'' @ rel @ '':'' @ resolved_path_text fs p
           else ''ok:'' @ rel @ '':'' @ resolved_path_text fs p @ '':'' @ pe_sha256_hex env content))"

definition snapshot_context_file_fingerprint :: "prompt_env \<Rightarrow> file_system \<Rightarrow> string \<Rightarrow> string \<Rightarrow> string" where
  "snapshot_context_file_fingerprint env fs workspace rel =
     (case lstat fs (abs_elems (fy_cwd fs) (path_join workspace rel)) of
        Inl e \<Rightarrow> if e = ENOENT then ''missing'' else ''stat_error''
      | Inr n \<Rightarrow>
          (case resolve_context_path fs workspace rel of
             Inl e \<Rightarrow> ''denied:'' @ file_marker env n
           | Inr (normalized, p) \<Rightarrow> content_fingerprint env fs normalized p))"

definition can_access_memory_visibility :: "string \<Rightarrow> string \<Rightarrow> bool" where
  "can_access_memory_visibility memory_mode visibility =
     (if equal_fold (trim_space visibility) VisibilityPublic then True
      else memory_mode = mode_public_private \<and> equal_fold (trim_space visibility) VisibilityPrivate)"

definition snapshot_memory_file_fingerprint :: "prompt_env \<Rightarrow> file_system \<Rightarrow> string \<Rightarrow> string \<Rightarrow> string \<Rightarrow> string" where
  "snapshot_memory_file_fingerprint env fs workspace rel memory_mode =
     (case lstat fs (abs_elems (fy_cwd fs) (path_join workspace rel)) of
        Inl e \<Rightarrow> if e = ENOENT then ''missing'' else ''stat_error''
      | Inr n \<Rightarrow>
          (case memory_resolve_path fs workspace rel of
             Inl e \<Rightarrow> ''denied:'' @ file_marker env n
           | Inr (normalized, p, visibility) \<Rightarrow>
               if \<not> can_access_memory_visibility memory_mode visibility then ''denied_visibility:'' @ visibility
               else content_fingerprint env fs normalized p))"

definition snapshot_skill_state :: "prompt_env \<Rightarrow> file_system \<Rightarrow> string \<Rightarrow> (string \<times> string) list" where
  "snapshot_skill_state env fs workspace =
     map (\<lambda>rel. (rel, snapshot_context_file_fingerprint env fs workspace rel)) (skill_files fs workspace)"

definition snapshot_curated_state :: "prompt_env \<Rightarrow> file_system \<Rightarrow> string \<Rightarrow> string \<Rightarrow> (string \<times> string) list" where
  "snapshot_curated_state env fs workspace memory_mode =
     map (\<lambda>rel. (rel, snapshot_memory_file_fingerprint env fs workspace rel memory_mode))
       ([public_memory_path, ''MEMORY.md''] @ (if memory_mode = mode_public_private then [private_memory_path] else []))"

definition snapshot_static_state :: "prompt_env \<Rightarrow> file_system \<Rightarrow> string \<Rightarrow> static_variant \<Rightarrow> (string \<times> string) list" where
  "snapshot_static_state env fs workspace v =
     map (\<lambda>name. (''ctx:'' @ name, snapshot_context_file_fingerprint env fs workspace name))
       (workspace_context_files @ [bootstrap_context_file] @ (if sv_include_heartbeat v then [heartbeat_context_file] else []))
     @ map (\<lambda>(rel, fp). (''skill:'' @ rel, fp)) (snapshot_skill_state env fs workspace)
     @ map (\<lambda>(rel, fp). (''memory:'' @ rel, fp)) (snapshot_curated_state env fs workspace (sv_memory_mode v))"

definition equal_string_map :: "(string \<times> string) list \<Rightarrow> (string \<times> string) list \<Rightarrow> bool" where
  "equal_string_map left right =
     (length left = length right \<and> list_all (\<lambda>(k, v). map_of right k = Some v) left)"

section \<open>The cache\<close>

definition static_build :: "prompt_env \<Rightarrow> string \<Rightarrow> static_variant \<Rightarrow> file_system \<Rightarrow> string" where
  "static_build env workspace v fs = render_static env (load_static_bundle env fs workspace v)"

text \<open>
  A build takes three looks at the files, each of them at its own time: \<open>fss t\<close> is what the
  look number \<open>t\<close> finds.
\<close>

fun stable_static_build ::
  "prompt_env \<Rightarrow> string \<Rightarrow> static_variant \<Rightarrow> (nat \<Rightarrow> file_system) \<Rightarrow> nat \<Rightarrow> nat \<Rightarrow>
   string \<times> (string \<times> string) list \<times> bool \<times> nat" where
  "stable_static_build env workspace v fss 0 t =
     (static_build env workspace v (fss t), snapshot_static_state env (fss (t + 1)) workspace v, False, t + 2)"
| "stable_static_build env workspace v fss (Suc n) t =
     (let before = snapshot_static_state env (fss t) workspace v;
          content = static_build env workspace v (fss (t + 1));
          after = snapshot_static_state env (fss (t + 2)) workspace v
      in if equal_string_map before after then (content, after, True, t + 3)
         else stable_static_build env workspace v fss n (t + 3))"

type_synonym static_cache = "(string \<times> string \<times> (string \<times> string) list) list"

definition cache_hit :: "static_cache \<Rightarrow> string \<Rightarrow> (string \<times> string) list \<Rightarrow> string option" where
  "cache_hit cache key fingerprints =
     (case map_of cache key of
        Some (content, fps) \<Rightarrow> if equal_string_map fps fingerprints then Some content else None
      | None \<Rightarrow> None)"

text \<open>
  The cache is read once at the beginning and once, after a build, under the lock; between the two
  other builds may have changed it.
\<close>

definition render_static_prefix ::
  "prompt_env \<Rightarrow> string \<Rightarrow> static_variant \<Rightarrow> (nat \<Rightarrow> file_system) \<Rightarrow> static_cache \<Rightarrow> static_cache \<Rightarrow> string \<times> static_cache" where
  "render_static_prefix env workspace v fss at_start at_lock =
     (let key = variant_key v in
      case cache_hit at_start key (snapshot_static_state env (fss 0) workspace v) of
        Some cached \<Rightarrow> (cached, at_lock)
      | None \<Rightarrow>
          (let (content, snapshot, cacheable, t) = stable_static_build env workspace v fss 3 1;
               latest = snapshot_static_state env (fss t) workspace v
           in case cache_hit at_lock key latest of
                Some cached \<Rightarrow> (cached, at_lock)
              | None \<Rightarrow>
                  (content, if cacheable \<and> equal_string_map snapshot latest
                            then map_put key (content, snapshot) at_lock else at_lock)))"

definition build_prompt ::
  "prompt_env \<Rightarrow> string \<Rightarrow> run_context \<Rightarrow> time \<Rightarrow> (nat \<Rightarrow> file_system) \<Rightarrow> static_cache \<Rightarrow> static_cache \<Rightarrow> string \<times> static_cache" where
  "build_prompt env workspace ctx clock fss at_start at_lock =
     (let now = (if rc_now ctx = zero_time then clock else rc_now ctx);
          (static, cache) = render_static_prefix env workspace (build_static_variant ctx) fss at_start at_lock
      in (join section_break [static, render_current_run_context env ctx now], cache))"

end
