(* ===== verification/Prompt_System.thy ===== *)
theory Prompt_System
  imports Prompt
begin

text \<open>
  Two properties of the prompt: on a public channel it does not depend on private memory, and the
  cache serves a prompt only while the files look as they did when it was built.
\<close>

section \<open>Reading through a blanked file system\<close>

text \<open>
  A path that a resolution returned, or the candidate itself when it does not exist, is read the
  same when what it resolved to is kept.
\<close>

lemma eval_resolved:
  assumes "eval_symlinks fs c = Inr p" "resolve (kind_at (fy_root fs)) Follow kernel_links [] p = Inr q"
  shows "q = p"
proof (cases "p = []")
  case False
  have can: "canonical (kind_at (fy_root fs)) p" using assms(1) resolve_canonical by (auto simp: eval_symlinks_def)
  then have "kind_at (fy_root fs) [] = Some IsDir" using False by (auto simp: canonical_def dest: spec [of _ 0])
  then have "kind_at (fy_root fs) p \<in> {Some IsDir, Some IsFile}"
    using assms(1) resolve_exists by (auto simp: eval_symlinks_def)
  then show ?thesis using assms(2) resolve_self [of _ "[]" p] can by simp
qed (use assms in simp)

lemma read_kept:
  assumes "eval_symlinks fs c = Inr p \<and> keep p \<or> eval_symlinks fs c = Inl ENOENT \<and> p = c"
  shows "read_file (blanked keep fs) p = read_file fs p"
proof (rule read_file_blanked)
  fix q
  assume q: "resolve (kind_at (fy_root fs)) Follow kernel_links [] p = Inr q"
  show "keep q"
    using assms
  proof
    assume c: "eval_symlinks fs c = Inr p \<and> keep p"
    then have "q = p" using eval_resolved q by blast
    then show "keep q" using c by simp
  next
    assume "eval_symlinks fs c = Inl ENOENT \<and> p = c"
    then show "keep q" using eval_of_kernel [OF q] by simp
  qed
qed

section \<open>What a public channel is told\<close>

text \<open>The files a prompt of a public channel may quote: the context files and public memory.\<close>

definition context_file :: "file_system \<Rightarrow> string \<Rightarrow> string list \<Rightarrow> bool" where
  "context_file fs w q \<longleftrightarrow> is_allowed_context_path (path_clean (rel_text (snd (resolve_workspace_root fs w)) q))"

definition prompt_view :: "file_system \<Rightarrow> string \<Rightarrow> file_system" where
  "prompt_view fs w = blanked (\<lambda>q. public_memory fs w q \<or> context_file fs w q) fs"

lemma resolve_workspace_candidate_blanked [simp]:
  "resolve_workspace_candidate (blanked keep fs) w raw = resolve_workspace_candidate fs w raw"
  by (simp add: resolve_workspace_candidate_def resolve_workspace_root_def resolve_candidate_path_def Let_def
      cong: sum.case_cong if_cong)

lemma resolve_context_path_blanked [simp]: "resolve_context_path (blanked keep fs) w raw = resolve_context_path fs w raw"
  by (simp add: resolve_context_path_def resolve_existing_path_def cong: sum.case_cong option.case_cong if_cong)

lemma resolve_context_path_kept:
  assumes "resolve_context_path fs w raw = Inr (rel, p)"
  obtains c where "eval_symlinks fs c = Inr p \<and> context_file fs w p \<or> eval_symlinks fs c = Inl ENOENT \<and> p = c"
proof -
  obtain c where c: "resolve_workspace_candidate fs w raw = Inr c"
    using assms by (auto simp: resolve_context_path_def split: sum.splits)
  have real: "ca_workspace_real c = snd (resolve_workspace_root fs w)"
    using c by (auto simp: resolve_workspace_candidate_def split: sum.splits prod.splits)
  show thesis
    using assms c real that [of "ca_abs c"]
    by (auto simp: resolve_context_path_def resolve_existing_path_def context_file_def
        split: sum.splits option.splits if_splits)
qed

lemma read_context_view:
  "resolve_context_path fs w raw = Inr (rel, p) \<Longrightarrow> read_file (prompt_view fs w) p = read_file fs p"
  unfolding prompt_view_def by (erule resolve_context_path_kept) (rule read_kept, blast)

lemma load_context_text_view [simp]: "load_context_text (prompt_view fs w) w rel = load_context_text fs w rel"
proof -
  have "resolve_context_path (prompt_view fs w) w rel = resolve_context_path fs w rel" by (simp add: prompt_view_def)
  then show ?thesis
    by (auto simp: load_context_text_def read_context_text_def read_context_view split: sum.splits)
qed

lemma memory_path_kept:
  assumes "resolve_path_info fs w raw = Inr (rel, p, info)" "pi_visibility info = VisibilityPublic"
  shows "read_file (prompt_view fs w) p = read_file fs p"
  unfolding prompt_view_def
proof (rule read_kept)
  let ?c = "abs_elems (fy_cwd fs) (path_join w rel)"
  have "eval_symlinks fs ?c = Inr p \<Longrightarrow> public_memory fs w p"
    using assms by (auto simp: resolve_path_info_def public_memory_def Let_def split: if_splits option.splits sum.splits)
  then show "eval_symlinks fs ?c = Inr p \<and> (public_memory fs w p \<or> context_file fs w p) \<or>
      eval_symlinks fs ?c = Inl ENOENT \<and> p = ?c"
    using resolve_path_info_cases [OF assms(1)] by blast
qed

lemma memory_visibility:
  "resolve_path_info fs w raw = Inr (rel, p, info) \<Longrightarrow> pi_visibility info \<in> {VisibilityPublic, VisibilityPrivate}"
  by (auto simp: resolve_path_info_def describe_memory_path_def Let_def split: if_splits option.splits sum.splits)

lemma private_not_public:
  "normalize_visibility VisibilityPrivate = VisibilityPrivate" "VisibilityPrivate \<noteq> VisibilityPublic"
  "\<not> can_access_memory_visibility mode_public_only VisibilityPrivate"
  by code_simp+

lemma resolve_path_info_view [simp]: "resolve_path_info (prompt_view fs w) w raw = resolve_path_info fs w raw"
  by (simp add: prompt_view_def)

lemma modes_differ [simp]: "mode_public_only \<noteq> mode_public_private"
  by (simp add: mode_public_only_def mode_public_private_def)

lemma load_memory_text_view:
  "load_memory_text (prompt_view fs w) w rel mode_public_only = load_memory_text fs w rel mode_public_only"
proof (cases "resolve_path_info fs w rel")
  case (Inr r)
  obtain n p info where r: "r = (n, p, info)" by (metis prod_cases3)
  note m = modes_differ
  show ?thesis
  proof (cases "pi_visibility info = VisibilityPublic")
    case True
    then show ?thesis using Inr r memory_path_kept [of fs w rel n p info] by (simp add: load_memory_text_def read_text_def)
  next
    case False
    then have "pi_visibility info = VisibilityPrivate" using memory_visibility Inr r by blast
    then show ?thesis using Inr r m private_not_public by (simp add: load_memory_text_def read_text_def Let_def)
  qed
qed (simp add: load_memory_text_def read_text_def)

lemma skill_files_view [simp]: "skill_files (prompt_view fs w) w = skill_files fs w"
  by (auto simp: skill_files_def prompt_view_def lstat_blanked lstat_def [of fs] walk_files_scrub split: sum.splits option.splits)

lemma load_static_bundle_view:
  assumes "sv_memory_mode v = mode_public_only"
  shows "load_static_bundle env (prompt_view fs w) w v = load_static_bundle env fs w v"
proof -
  have cwd: "fy_cwd (prompt_view fs w) = fy_cwd fs" by (simp add: prompt_view_def)
  have "load_context_text (prompt_view fs w) w = load_context_text fs w" "load_skill (prompt_view fs w) w = load_skill fs w"
    by (simp_all add: fun_eq_iff load_skill_def)
  then show ?thesis
    by (simp add: load_static_bundle_def assms cwd load_curated_memory_blocks_def load_memory_text_view
        load_workspace_context_entries_def load_skill_summaries_def)
qed

lemma lstat_view: "lstat (prompt_view fs w) p = map_sum id (scrub (\<lambda>q. public_memory fs w q \<or> context_file fs w q)
    (case resolve (kind_at (fy_root fs)) NoFollow kernel_links [] p of Inr q \<Rightarrow> q | Inl e \<Rightarrow> [])) (lstat fs p)"
  by (auto simp: prompt_view_def lstat_blanked lstat_def [of fs] split: sum.splits option.splits)

lemma file_marker_scrub [simp]: "file_marker env (scrub keep p n) = file_marker env n"
  by (cases n) (simp_all add: file_marker_def)

lemma resolved_path_text_view [simp]: "resolved_path_text (prompt_view fs w) p = resolved_path_text fs p"
  by (simp add: resolved_path_text_def prompt_view_def cong: sum.case_cong)

lemma content_fingerprint_view:
  "read_file (prompt_view fs w) p = read_file fs p \<Longrightarrow> content_fingerprint env (prompt_view fs w) rel p = content_fingerprint env fs rel p"
  by (cases "read_file fs p") (auto simp: content_fingerprint_def Let_def)

lemma context_fingerprint_view [simp]:
  "snapshot_context_file_fingerprint env (prompt_view fs w) w rel = snapshot_context_file_fingerprint env fs w rel"
proof -
  have r: "resolve_context_path (prompt_view fs w) w rel = resolve_context_path fs w rel"
    and c: "fy_cwd (prompt_view fs w) = fy_cwd fs" by (simp_all add: prompt_view_def)
  show ?thesis
    by (auto simp: snapshot_context_file_fingerprint_def r c lstat_view read_context_view content_fingerprint_view split: sum.splits)
qed

lemma memory_fingerprint_view:
  "snapshot_memory_file_fingerprint env (prompt_view fs w) w rel mode_public_only =
     snapshot_memory_file_fingerprint env fs w rel mode_public_only"
proof -
  have c: "fy_cwd (prompt_view fs w) = fy_cwd fs" by (simp add: prompt_view_def)
  have "content_fingerprint env (prompt_view fs w) n p = content_fingerprint env fs n p"
    if "resolve_path_info fs w rel = Inr (n, p, info)" "can_access_memory_visibility mode_public_only (pi_visibility info)" for n p info
    using that memory_visibility [OF that(1)] private_not_public memory_path_kept [OF that(1)] content_fingerprint_view by auto
  then show ?thesis
    by (cases "resolve_path_info fs w rel")
      (auto simp: snapshot_memory_file_fingerprint_def c lstat_view memory_resolve_path_def split: sum.splits)
qed

lemma snapshot_view:
  "sv_memory_mode v = mode_public_only \<Longrightarrow> snapshot_static_state env (prompt_view fs w) w v = snapshot_static_state env fs w v"
  by (simp add: snapshot_static_state_def snapshot_skill_state_def snapshot_curated_state_def memory_fingerprint_view)

lemma static_build_view:
  "sv_memory_mode v = mode_public_only \<Longrightarrow> static_build env w v (prompt_view fs w) = static_build env w v fs"
  by (simp add: static_build_def load_static_bundle_view)

lemma stable_static_build_view:
  "sv_memory_mode v = mode_public_only \<Longrightarrow>
   stable_static_build env w v (\<lambda>t. prompt_view (fss t) w) n t = stable_static_build env w v fss n t"
  by (induction n arbitrary: t) (simp_all add: static_build_view snapshot_view Let_def)

lemma render_static_prefix_view:
  "sv_memory_mode v = mode_public_only \<Longrightarrow>
   render_static_prefix env w v (\<lambda>t. prompt_view (fss t) w) c c' = render_static_prefix env w v fss c c'"
  by (simp add: render_static_prefix_def Let_def case_prod_beta stable_static_build_view snapshot_view cong: option.case_cong if_cong)

section \<open>The cache\<close>

lemma variant_key_inj: "variant_key v = variant_key v' \<Longrightarrow> v = v'"
proof -
  assume k: "variant_key v = variant_key v'"
  have "last (variant_key v) = (if sv_include_heartbeat v then CHR ''t'' else CHR ''l'')" for v
    by (simp add: variant_key_def)
  from this [of v] this [of v'] k have "sv_include_heartbeat v = sv_include_heartbeat v'" by (simp split: if_splits)
  with k show ?thesis by (simp add: variant_key_def split: if_splits)
qed

text \<open>
  A content of the cache was built from files between two looks that found the fingerprints it is
  kept under.
\<close>

definition built_between :: "prompt_env \<Rightarrow> string \<Rightarrow> static_variant \<Rightarrow> string \<Rightarrow> (string \<times> string) list \<Rightarrow> bool" where
  "built_between env w v content fps \<longleftrightarrow>
     (\<exists>before fs after. content = static_build env w v fs \<and> fps = snapshot_static_state env after w v \<and>
        equal_string_map (snapshot_static_state env before w v) fps)"

definition cache_valid :: "prompt_env \<Rightarrow> string \<Rightarrow> static_cache \<Rightarrow> bool" where
  "cache_valid env w c \<longleftrightarrow>
     (\<forall>v content fps. map_of c (variant_key v) = Some (content, fps) \<longrightarrow> built_between env w v content fps)"

lemma stable_static_build_built:
  assumes "stable_static_build env w v fss n t = (content, fps, cacheable, t')"
  shows "(\<exists>i < t'. content = static_build env w v (fss i)) \<and> t' \<le> t + 3 * n + 2 \<and>
    (cacheable \<longrightarrow> built_between env w v content fps)"
  using assms
proof (induction n arbitrary: t)
  case (Suc n)
  show ?case
  proof (cases "equal_string_map (snapshot_static_state env (fss t) w v) (snapshot_static_state env (fss (t + 2)) w v)")
    case True
    then have r: "content = static_build env w v (fss (t + 1))" "fps = snapshot_static_state env (fss (t + 2)) w v" "t' = t + 3"
      using Suc.prems by (auto simp: Let_def)
    have "\<exists>i < t'. content = static_build env w v (fss i)" using r(1,3) by (intro exI [of _ "t + 1"]) simp
    moreover have "built_between env w v content fps" unfolding built_between_def using True r(1,2) by metis
    ultimately show ?thesis using r(3) by simp
  next
    case False
    then have "stable_static_build env w v fss n (t + 3) = (content, fps, cacheable, t')" using Suc.prems by (simp add: Let_def)
    from Suc.IH [OF this] show ?thesis by auto
  qed
next
  case 0
  then have c: "content = static_build env w v (fss t)" "t < t'" "t' = t + 2" "\<not> cacheable" by auto
  from c(1,2) have "\<exists>i < t'. content = static_build env w v (fss i)" by blast
  with c(3,4) show ?case by simp
qed

lemma render_static_prefix_cases:
  assumes "render_static_prefix env w v fss c0 c1 = (content, c2)" "cache_valid env w c0" "cache_valid env w c1"
  shows "cache_valid env w c2 \<and>
    ((\<exists>t \<le> 12. content = static_build env w v (fss t)) \<or>
     (\<exists>t \<le> 12. \<exists>fps. built_between env w v content fps \<and> equal_string_map fps (snapshot_static_state env (fss t) w v)))"
proof -
  let ?look = "\<lambda>t. snapshot_static_state env (fss t) w v"
  obtain b fps cacheable t where b: "stable_static_build env w v fss 3 1 = (b, fps, cacheable, t)" by (metis prod_cases4)
  note built = stable_static_build_built [OF b]
  have hit: "\<exists>fps. built_between env w v x fps \<and> equal_string_map fps f"
    if "cache_hit c (variant_key v) f = Some x" "cache_valid env w c" for c x f
    using that by (auto simp: cache_hit_def cache_valid_def split: option.splits if_splits) blast
  show ?thesis
  proof (cases "cache_hit c0 (variant_key v) (?look 0)")
    case (Some x)
    then have "content = x" "c2 = c1" using assms(1) by (simp_all add: render_static_prefix_def Let_def)
    then show ?thesis using hit [OF Some assms(2)] assms(3) by auto
  next
    case None
    show ?thesis
    proof (cases "cache_hit c1 (variant_key v) (?look t)")
      case (Some x)
      then have "content = x" "c2 = c1" using assms(1) None b by (simp_all add: render_static_prefix_def Let_def)
      then show ?thesis using hit [OF Some assms(3)] assms(3) built by auto
    next
      case none: None
      then have c: "content = b" "c2 = (if cacheable \<and> equal_string_map fps (?look t) then map_put (variant_key v) (b, fps) c1 else c1)"
        using assms(1) None b by (simp_all add: render_static_prefix_def Let_def)
      have "cache_valid env w c2"
        using assms(3) built unfolding c cache_valid_def by (auto simp: fun_upd_apply split: if_splits dest: variant_key_inj)
      moreover have "\<exists>i \<le> 12. content = static_build env w v (fss i)"
      proof -
        obtain i where "i < t" "b = static_build env w v (fss i)" "t \<le> 12" using built by auto
        then show ?thesis unfolding c(1) by (intro exI [of _ i]) simp
      qed
      ultimately show ?thesis by blast
    qed
  qed
qed

section \<open>Properties\<close>

text \<open>
  C26: The prompt of a run outside a direct message does not depend on private memory, whatever
  changes while it is built and whatever earlier builds left in the cache: two histories of the
  file system that differ only in files that are neither context files nor public memory give
  the same prompt and the same cache.
\<close>

theorem prompt_blind:
  assumes "\<not> equal_fold (trim_space (channel_type (rc_conversation ctx))) ''dm''"
    and "\<And>t. prompt_view (fss t) w = prompt_view (fss' t) w"
  shows "build_prompt env w ctx clock fss c0 c1 = build_prompt env w ctx clock fss' c0 c1"
proof -
  have m: "sv_memory_mode (build_static_variant ctx) = mode_public_only"
    using assms(1) by (simp add: build_static_variant_def build_memory_mode_def)
  have "render_static_prefix env w (build_static_variant ctx) fss c0 c1 = render_static_prefix env w (build_static_variant ctx) fss' c0 c1"
    using render_static_prefix_view [OF m, of env w fss c0 c1] render_static_prefix_view [OF m, of env w fss' c0 c1] assms(2)
    by simp
  then show ?thesis by (simp add: build_prompt_def)
qed

text \<open>
  C28: The static part of a prompt is a rendering of the files as they were at one of the at
  most 13 looks of the call, or it was kept by an earlier call: built between two looks that
  found the fingerprints that a look of this call finds; the cache keeps that property.
\<close>

theorem prompt_current:
  assumes "cache_valid env w c0" "cache_valid env w c1"
  shows "cache_valid env w (snd (render_static_prefix env w v fss c0 c1)) \<and>
    (fst (render_static_prefix env w v fss c0 c1) \<in> {static_build env w v (fss t) | t. t \<le> 12} \<or>
     (\<exists>t fps. t \<le> 12 \<and> built_between env w v (fst (render_static_prefix env w v fss c0 c1)) fps \<and>
        equal_string_map fps (snapshot_static_state env (fss t) w v)))"
  using render_static_prefix_cases [of env w v fss c0 c1, OF prod.collapse [symmetric] assms] by blast

definition prompt_files :: "string \<Rightarrow> file_system" where
  "prompt_files secret = \<lparr> fy_root = Dir [(''w'', Dir [(''SOUL.md'', File ''soul'' 420),
     (''memory'', Dir [(''private'', Dir [(''MEMORY.md'', File secret 420)])])])],
     fy_cwd = ''/'', fy_text = (\<lambda>_ _ _. []) \<rparr>"

definition plain_prompt_env :: prompt_env where
  "plain_prompt_env = \<lparr> pe_identity_runtime = ''in {{workspace_path}}'', pe_tool_contract = ''tools'',
     pe_memory_policy = ''memory'', pe_heartbeat_policy = ''heartbeat'', pe_sha256_hex = id, pe_printable = (\<lambda>_. True),
     pe_lower = id, pe_file_mode = (\<lambda>m. ''-''), pe_dir_mode = ''d'', pe_link_mode = ''L'' \<rparr>"

definition group_run :: run_context where
  "group_run = \<lparr> rc_now = 0,
     rc_conversation = \<lparr> conversation_id = ''c'', thread_id = [], channel_type = ''group'', participant_id = [] \<rparr>,
     rc_session_key = ''k'', rc_session_id = ''s'', rc_payload_type = ''message'' \<rparr>"

lemma prompt_files_view: "prompt_view (prompt_files ''x'') ''/w'' = prompt_view (prompt_files ''yz'') ''/w''"
  by (simp add: prompt_view_def prompt_files_def blanked_def public_memory_def context_file_def) code_simp

theorem prompt_blind_witness:
  "build_prompt plain_prompt_env ''/w'' group_run 0 (\<lambda>t. prompt_files ''x'') [] [] =
   build_prompt plain_prompt_env ''/w'' group_run 0 (\<lambda>t. prompt_files ''yz'') [] []"
proof (rule prompt_blind)
  show "\<not> equal_fold (trim_space (channel_type (rc_conversation group_run))) ''dm''"
    unfolding group_run_def by code_simp
qed (rule prompt_files_view)

theorem prompt_current_witness:
  "cache_valid plain_prompt_env ''/w'' (snd (render_static_prefix plain_prompt_env ''/w''
     (build_static_variant group_run) (\<lambda>t. prompt_files ''x'') [] []))"
proof -
  have "cache_valid plain_prompt_env ''/w'' []" by (simp add: cache_valid_def)
  from prompt_current [OF this this] show ?thesis by blast
qed

end
