(* ===== verification/Provider_System.thy ===== *)
theory Provider_System
  imports Provider
begin

text \<open>
  The tool calls a stream delivers in fragments are those the complete answer has, however the
  fragments are cut and interleaved.
\<close>

section \<open>Fragments\<close>

text \<open>The fragments of a stream with the choice they belong to, in their order.\<close>

definition fragments :: "chunk list \<Rightarrow> (int \<times> tool_delta) list" where
  "fragments cs = concat (map (\<lambda>c. concat (map (\<lambda>ch. map (Pair (kc_index ch)) (kc_tool_calls ch)) (ck_choices c))) cs)"

definition fragment_key :: "int \<times> tool_delta \<Rightarrow> int \<times> int" where
  "fragment_key f = (fst f, clamp_tool_index (dl_index (snd f)))"

definition fragments_of :: "int \<times> int \<Rightarrow> (int \<times> tool_delta) list \<Rightarrow> tool_delta list" where
  "fragments_of k fs = map snd (filter (\<lambda>f. fragment_key f = k) fs)"

text \<open>A call put together from all of its fragments at once.\<close>

definition joined_call :: "int \<times> int \<Rightarrow> tool_delta list \<Rightarrow> accumulated_tool_call" where
  "joined_call k ds =
     \<lparr> at_choice_index = fst k, at_tool_index = snd k,
       at_tool_call_id = (case filter (\<lambda>i. i \<noteq> []) (rev (map dl_id ds)) of [] \<Rightarrow> [] | i # _ \<Rightarrow> i),
       at_name = concat (map dl_name ds), at_arguments = concat (map dl_arguments ds) \<rparr>"

lemma joined_call_snoc: "joined_call k (ds @ [d]) = extend_call d (joined_call k ds)"
  by (simp add: joined_call_def extend_call_def)

lemma joined_call_Nil: "joined_call (i, t) [] = new_call i t"
  by (simp add: joined_call_def new_call_def)

lemma accumulator_key_extend [simp]: "accumulator_key (extend_call d a) = accumulator_key a"
  by (simp add: accumulator_key_def extend_call_def)

lemma accumulator_key_joined [simp]: "accumulator_key (joined_call k ds) = k"
  by (simp add: accumulator_key_def joined_call_def)

lemma accumulator_key_new [simp]: "accumulator_key (new_call i t) = (i, t)"
  by (simp add: accumulator_key_def new_call_def)

definition lookup_call :: "accumulated_tool_call list \<Rightarrow> int \<times> int \<Rightarrow> accumulated_tool_call option" where
  "lookup_call as k = map_of (map (\<lambda>a. (accumulator_key a, a)) as) k"

lemma lookup_add_delta:
  "lookup_call (add_delta i d as) k =
     (if k = fragment_key (i, d)
      then Some (extend_call d (case lookup_call as k of None \<Rightarrow> new_call i (clamp_tool_index (dl_index d)) | Some a \<Rightarrow> a))
      else lookup_call as k)"
  by (induction i d as rule: add_delta.induct) (auto simp: lookup_call_def fragment_key_def)

lemma keys_add_delta:
  "accumulator_key ` set (add_delta i d as) = insert (fragment_key (i, d)) (accumulator_key ` set as) \<and>
   (distinct (map accumulator_key as) \<longrightarrow> distinct (map accumulator_key (add_delta i d as)))"
  by (induction i d as rule: add_delta.induct) (auto simp: fragment_key_def)

lemma add_chunks_fragments:
  "fold add_chunk cs as = fold (\<lambda>(i, d). add_delta i d) (fragments cs) as"
proof (induction cs arbitrary: as)
  case (Cons c cs)
  have one: "fold (add_delta i) ds as = fold (\<lambda>(i, d). add_delta i d) (map (Pair i) ds) as" for i ds as
    by (induction ds arbitrary: as) auto
  have "fold (\<lambda>ch. fold (add_delta (kc_index ch)) (kc_tool_calls ch)) chs as =
      fold (\<lambda>(i, d). add_delta i d) (concat (map (\<lambda>ch. map (Pair (kc_index ch)) (kc_tool_calls ch)) chs)) as" for chs :: "chunk_choice list" and as
    by (induction chs arbitrary: as) (auto simp: one)
  then show ?case using Cons by (simp add: add_chunk_def fragments_def)
qed (simp add: fragments_def)

lemma lookup_fragments:
  "lookup_call (fold (\<lambda>(i, d). add_delta i d) fs []) k =
     (if fragments_of k fs = [] then None else Some (joined_call k (fragments_of k fs)))"
proof (induction fs rule: rev_induct)
  case (snoc f fs)
  obtain i d where f: "f = (i, d)" by fastforce
  show ?case
  proof (cases "fragment_key f = k")
    case True
    then have k: "k = (i, clamp_tool_index (dl_index d))" by (simp add: fragment_key_def f)
    then have "fragments_of k (fs @ [f]) = fragments_of k fs @ [d]" using True by (simp add: fragments_of_def f)
    then show ?thesis using snoc f True k
      by (auto simp: lookup_add_delta joined_call_snoc joined_call_Nil)
  next
    case False
    then have "fragments_of k (fs @ [f]) = fragments_of k fs" by (simp add: fragments_of_def)
    then show ?thesis using snoc f False by (auto simp: lookup_add_delta)
  qed
qed (simp add: lookup_call_def fragments_of_def)

lemma keys_fragments:
  "accumulator_key ` set (fold (\<lambda>(i, d). add_delta i d) fs []) = fragment_key ` set fs \<and>
   distinct (map accumulator_key (fold (\<lambda>(i, d). add_delta i d) fs []))"
proof (induction fs rule: rev_induct)
  case (snoc f fs)
  obtain i d where "f = (i, d)" by fastforce
  then show ?case using snoc by (simp add: keys_add_delta)
qed simp

section \<open>The calls of a stream\<close>

definition tool_indices :: "int \<Rightarrow> chunk list \<Rightarrow> int set" where
  "tool_indices i cs = snd ` {k \<in> fragment_key ` set (fragments cs). fst k = i}"

definition streamed_call :: "int \<Rightarrow> chunk list \<Rightarrow> int \<Rightarrow> accumulated_tool_call" where
  "streamed_call i cs t = joined_call (i, t) (fragments_of (i, t) (fragments cs))"

lemma sorted_key_determined:
  assumes "distinct (map f xs)" "\<And>x. x \<in> set xs \<Longrightarrow> g (f x) = x"
  shows "sort_key f xs = map g (sorted_list_of_set (f ` set xs))"
proof -
  have "map f (sort_key f xs) = sort (map f xs)" by (metis (no_types) sorted_sort_id sort_key_simps(1) sorted_sort_key properties_for_sort mset_map mset_sort)
  then have "map f (sort_key f xs) = sorted_list_of_set (f ` set xs)"
    using assms(1) by (metis distinct_sort list.set_map set_sort sorted_list_of_set.idem_if_sorted_distinct sorted_sort)
  moreover have "map (g \<circ> f) (sort_key f xs) = sort_key f xs" by (rule map_idI) (simp add: assms(2))
  ultimately show ?thesis by (metis map_map)
qed

lemma streamed_calls:
  "sort_key at_tool_index (filter (\<lambda>a. at_choice_index a = i) (fold add_chunk cs [])) =
     map (streamed_call i cs) (sorted_list_of_set (tool_indices i cs))"
proof -
  let ?as = "fold (\<lambda>(i, d). add_delta i d) (fragments cs) []"
  let ?xs = "filter (\<lambda>a. at_choice_index a = i) ?as"
  have d: "distinct (map accumulator_key ?as)" and k: "accumulator_key ` set ?as = fragment_key ` set (fragments cs)"
    using keys_fragments by blast+
  have inj: "inj_on accumulator_key (set ?as)" and da: "distinct ?as" using d by (auto simp: distinct_map)
  have "inj_on at_tool_index (set ?xs)"
    using inj by (auto simp: inj_on_def accumulator_key_def)
  then have dt: "distinct (map at_tool_index ?xs)" using da by (simp add: distinct_map)
  have g: "streamed_call i cs (at_tool_index a) = a" if "a \<in> set ?xs" for a
  proof -
    have "lookup_call ?as (accumulator_key a) = Some a"
      unfolding lookup_call_def using that d by (intro map_of_is_SomeI) (auto simp: comp_def)
    moreover have "accumulator_key a = (i, at_tool_index a)" using that by (simp add: accumulator_key_def)
    ultimately show ?thesis by (auto simp: lookup_fragments streamed_call_def split: if_splits)
  qed
  have "at_tool_index ` set ?xs = snd ` {k \<in> accumulator_key ` set ?as. fst k = i}"
    by (force simp: accumulator_key_def)
  then have "at_tool_index ` set ?xs = tool_indices i cs" by (simp add: tool_indices_def k)
  then show ?thesis using sorted_key_determined [OF dt g] by (simp add: add_chunks_fragments)
qed

theorem stream_calls_joined:
  "build_tool_calls env i (fold add_chunk cs []) =
     collect_calls (\<lambda>t. build_tool_call env (streamed_call i cs t)) (sorted_list_of_set (tool_indices i cs))"
proof -
  have "collect_calls f (map g xs) = collect_calls (\<lambda>x. f (g x)) xs" for f :: "accumulated_tool_call \<Rightarrow> go_error + tool_call" and g and xs :: "int list"
    by (induction xs) (auto split: sum.splits)
  then show ?thesis by (simp add: build_tool_calls_def streamed_calls)
qed

text \<open>The fragments deliver these complete calls, each at its place.\<close>

definition stream_delivers :: "provider_env \<Rightarrow> chunk list \<Rightarrow> function_call list \<Rightarrow> bool" where
  "stream_delivers env cs calls \<longleftrightarrow>
     tool_indices 0 cs = {0 ..< int (length calls)} \<and>
     (\<forall>k < length calls. let a = streamed_call 0 cs (int k); f = calls ! k in
        fn_id f \<noteq> [] \<and> at_tool_call_id a = fn_id f \<and> at_name a = fn_name f \<and> at_arguments a = fn_arguments f \<and>
        trim_space (fn_arguments f) = fn_arguments f \<and>
        (fn_arguments f = [] \<or> fst (unmarshal_object env (fn_arguments f) []) = None))"

lemma collect_calls_all: "(\<And>x. x \<in> set xs \<Longrightarrow> f x = Inr (g x)) \<Longrightarrow> collect_calls f xs = Inr (map g xs)"
  by (induction xs) auto

lemma sorted_list_of_upto: "sorted_list_of_set {0 ..< int n} = map int [0 ..< n]"
proof -
  have "set (map int [0 ..< n]) = {0 ..< int n}"
    by (auto simp: image_iff intro!: bexI [of _ "nat _"])
  moreover have "sorted (map int [0 ..< n])" "distinct (map int [0 ..< n])" by (simp_all add: sorted_map distinct_map)
  ultimately show ?thesis by (metis sorted_list_of_set.idem_if_sorted_distinct)
qed

lemma delivered_calls:
  assumes "stream_delivers env cs calls"
  shows "build_tool_calls env 0 (fold add_chunk cs []) = Inr (map (complete_tool_call env) calls)"
proof -
  have one: "build_tool_call env (streamed_call 0 cs (int k)) = Inr (complete_tool_call env (calls ! k))" if "k < length calls" for k
  proof -
    have d: "at_tool_call_id (streamed_call 0 cs (int k)) = fn_id (calls ! k)" "fn_id (calls ! k) \<noteq> []"
      "at_name (streamed_call 0 cs (int k)) = fn_name (calls ! k)"
      "at_arguments (streamed_call 0 cs (int k)) = fn_arguments (calls ! k)"
      "trim_space (fn_arguments (calls ! k)) = fn_arguments (calls ! k)"
      "fn_arguments (calls ! k) = [] \<or> fst (unmarshal_object env (fn_arguments (calls ! k)) []) = None"
      using assms that by (auto simp: stream_delivers_def Let_def)
    then show ?thesis
      by (cases "unmarshal_object env (fn_arguments (calls ! k)) []") (auto simp: build_tool_call_def complete_tool_call_def)
  qed
  have "build_tool_calls env 0 (fold add_chunk cs []) =
      collect_calls (\<lambda>t. build_tool_call env (streamed_call 0 cs t)) (map int [0 ..< length calls])"
    using assms by (simp add: stream_calls_joined stream_delivers_def sorted_list_of_upto)
  also have "\<dots> = Inr (map (\<lambda>t. complete_tool_call env (calls ! nat t)) (map int [0 ..< length calls]))"
    by (rule collect_calls_all) (auto simp: one)
  also have "map (\<lambda>t. complete_tool_call env (calls ! nat t)) (map int [0 ..< length calls]) = map (complete_tool_call env) calls"
    by (intro nth_equalityI) simp_all
  finally show ?thesis .
qed

lemma stream_chunks_tools:
  "snd (stream_chunks add sink cs acc tools) = Some (acc', tools') \<Longrightarrow> tools' = fold add_chunk cs tools"
  by (induction add sink cs acc tools rule: stream_chunks.induct) (auto split: option.splits)


text \<open>A call whose arguments come in two chunks.\<close>

definition demo_chunk :: "string \<Rightarrow> string \<Rightarrow> string \<Rightarrow> chunk" where
  "demo_chunk i n a = \<lparr> ck_choices = [\<lparr> kc_index = 0, kc_content = [], kc_tool_calls =
     [\<lparr> dl_index = 0, dl_id = i, dl_name = n, dl_arguments = a \<rparr>] \<rparr>] \<rparr>"

definition demo_completion :: completion where
  "demo_completion = \<lparr> cm_id = ''c'', cm_model = ''m'', cm_usage = \<lparr> us_prompt_tokens = 1, us_completion_tokens = 1, us_total_tokens = 2 \<rparr>,
     cm_choices = [\<lparr> ch_content = [], ch_finish_reason = ''tool_calls'',
       ch_tool_calls = [\<lparr> fn_id = ''t1'', fn_name = ''memory_search'', fn_arguments = ''{}'' \<rparr>] \<rparr>] \<rparr>"

definition demo_client :: "(unit, unit) openai_client" where
  "demo_client = \<lparr> oa_complete = (\<lambda>_ w. (Inr demo_completion, w)),
     oa_stream = (\<lambda>_ w. (([demo_chunk ''t1'' ''memory_'' ''{'', demo_chunk [] ''search'' ''}''], None), w)),
     oa_empty = (), oa_add_chunk = (\<lambda>_ _. Some ()), oa_completion = (\<lambda>_. demo_completion) \<rparr>"

definition demo_provider_env :: provider_env where
  "demo_provider_env = \<lparr> pv_parse_float = (\<lambda>_. None), pv_decode_error = TextError, pv_encode = (\<lambda>_. ''{}''), pv_printable = (\<lambda>_. True) \<rparr>"

lemma demo_arguments: "trim_space ''{}'' = ''{}''" "json_parse ''{}'' = Some (VObject [])"
  by code_simp+

lemma demo_delivers:
  "stream_delivers demo_provider_env [demo_chunk ''t1'' ''memory_'' ''{'', demo_chunk [] ''search'' ''}'']
     (ch_tool_calls (hd (cm_choices demo_completion)))"
  by (simp add: stream_delivers_def demo_completion_def tool_indices_def streamed_call_def fragments_def demo_chunk_def fragment_key_def
      fragments_of_def joined_call_def clamp_tool_index_def demo_arguments unmarshal_object_def Let_def) auto


end
