(* ===== verification/Telegram.thy ===== *)
theory Telegram
  imports Gateway Jobs_Tx
begin

text \<open>
  \<open>internal/channels/telegram\<close>: which updates of a bot reach the gateway, what they become there,
  and the life of the runtime that owns the bot.  The bot is a third-party package: the records
  below hold what the source reads of its updates; creating a bot, removing its web hook, sending
  and encoding an update are arguments.
\<close>

record tele_chat =
  tl_chat_id :: int
  tl_chat_type :: string

record tele_user =
  tl_user_id :: int
  tl_is_bot :: bool

record tele_message =
  tl_message_id :: int
  tl_chat :: "tele_chat option"
  tl_sender :: "tele_user option"
  tl_text :: string

record tele_update =
  tl_update_id :: int
  tl_message :: "tele_message option"

text \<open>The context a handler is called with: the update and what its \<open>Message\<close> method returns.\<close>

record tele_context =
  tl_update :: tele_update
  tl_context_message :: "tele_message option"

definition chat_private :: string where "chat_private = ''private''"

section \<open>The filter\<close>

text \<open>None when the message passes, else the reason it is ignored for.\<close>

definition is_allowed_private_text_message :: "int \<Rightarrow> int set \<Rightarrow> tele_message option \<Rightarrow> string option" where
  "is_allowed_private_text_message bot_user_id allowed msg =
     (case msg of
        None \<Rightarrow> Some ''missing_message''
      | Some m \<Rightarrow>
          (case tl_chat m of
             None \<Rightarrow> Some ''missing_chat''
           | Some chat \<Rightarrow>
               if tl_chat_type chat \<noteq> chat_private then Some ''non_private_chat''
               else (case tl_sender m of
                       None \<Rightarrow> Some ''missing_sender''
                     | Some sender \<Rightarrow>
                         if tl_is_bot sender then Some ''bot_sender''
                         else if bot_user_id \<noteq> 0 \<and> tl_user_id sender = bot_user_id then Some ''self_sender''
                         else if trim_space (tl_text m) = [] then Some ''empty_text''
                         else if allowed = {} then Some ''user_not_allowed''
                         else if tl_user_id sender \<notin> allowed then Some ''user_not_allowed''
                         else None)))"

definition new_allowed_users :: "int list \<Rightarrow> int set" where
  "new_allowed_users ids = fold insert ids {}"

section \<open>Normalisation\<close>

definition normalize_text_update ::
  "(tele_update \<Rightarrow> string + json) \<Rightarrow> tele_update \<Rightarrow> time \<Rightarrow> string + normalized_ingress" where
  "normalize_text_update marshal update received_at =
     (if tl_update_id update = 0 then Inl ''update_id is required''
      else (case tl_message update of
        None \<Rightarrow> Inl ''telegram text update requires message''
      | Some msg \<Rightarrow>
          (case tl_chat msg of
             None \<Rightarrow> Inl ''telegram message chat is required''
           | Some chat \<Rightarrow>
               (case tl_sender msg of
                  None \<Rightarrow> Inl ''telegram message sender is required''
                | Some sender \<Rightarrow>
                    if trim_space (tl_text msg) = [] then Inl ''telegram message text is required''
                    else (case marshal update of
                      Inl e \<Rightarrow> Inl e
                    | Inr raw \<Rightarrow> Inr
                       \<lparr> in_source = ''telegram'',
                         in_conversation = \<lparr> conversation_id = ''tg_chat_'' @ show_int (tl_chat_id chat), thread_id = [],
                           channel_type = ''dm'', participant_id = show_int (tl_user_id sender) \<rparr>,
                         in_session_key_hint = [],
                         in_idempotency_key = ''telegram:update:'' @ show_int (tl_update_id update),
                         in_timestamp = received_at, in_dm_scope = [],
                         in_payload = \<lparr> payload_type = ''message'', payload_text = trim_space (tl_text msg),
                           mentions = [], attachments = [], native = Some raw, native_ref = [],
                           extra = [(''telegram_chat_id'', show_int (tl_chat_id chat)),
                             (''telegram_message_id'', show_int (tl_message_id msg)),
                             (''telegram_update_id'', show_int (tl_update_id update)),
                             (''telegram_participant_id'', show_int (tl_user_id sender))] \<rparr>,
                         in_metadata = [] \<rparr>)))))"

section \<open>The runtime\<close>

text \<open>A bot that runs: the id of its own user, when the service told it.\<close>

record tele_bot =
  tl_me :: "int option"

record telegram_runtime =
  tg_token :: string
  tg_long_poll_timeout :: duration
  tg_allowed_users :: "int set"
  tg_bot :: "tele_bot option"
  tg_started :: bool

definition new_runtime :: "string \<Rightarrow> duration \<Rightarrow> int list \<Rightarrow> telegram_runtime" where
  "new_runtime token timeout ids = \<lparr> tg_token = token, tg_long_poll_timeout = timeout,
     tg_allowed_users = new_allowed_users ids, tg_bot = None, tg_started = False \<rparr>"

text \<open>\<open>Start\<close>, with what creating the bot and removing its web hook return.\<close>

definition start_runtime ::
  "(telegram_runtime \<Rightarrow> string + tele_bot) \<Rightarrow> (tele_bot \<Rightarrow> string option) \<Rightarrow> telegram_runtime \<Rightarrow> string option \<times> telegram_runtime" where
  "start_runtime new_bot remove_webhook r =
     (if tg_started r then (None, r)
      else (case new_bot r of
        Inl e \<Rightarrow> (Some e, r)
      | Inr tb \<Rightarrow>
          (case remove_webhook tb of
             Some e \<Rightarrow> (Some e, r)
           | None \<Rightarrow> (None, r\<lparr>tg_bot := Some tb, tg_started := True\<rparr>))))"

definition stop_runtime :: "telegram_runtime \<Rightarrow> telegram_runtime" where
  "stop_runtime r = (if \<not> tg_started r then r else r\<lparr>tg_started := False, tg_bot := None\<rparr>)"

definition bot_user_id :: "telegram_runtime \<Rightarrow> int" where
  "bot_user_id r = (case tg_bot r of None \<Rightarrow> 0 | Some tb \<Rightarrow> (case tl_me tb of None \<Rightarrow> 0 | Some me \<Rightarrow> me))"

text \<open>\<open>SendTextMessage\<close>; the error of the context is given when it is done.\<close>

definition send_text_message ::
  "(tele_bot \<Rightarrow> int \<Rightarrow> string \<Rightarrow> string option) \<Rightarrow> string option \<Rightarrow> telegram_runtime \<Rightarrow> int \<Rightarrow> string \<Rightarrow> string option" where
  "send_text_message send ctx_err r chat_id text =
     (case tg_bot r of
        None \<Rightarrow> Some ''telegram runtime is not started''
      | Some tb \<Rightarrow> (case ctx_err of Some e \<Rightarrow> Some e | None \<Rightarrow> send tb chat_id text))"

text \<open>A duration of nanoseconds; the sum is an \<open>int64\<close>.\<close>

definition http_client_timeout :: "telegram_runtime \<Rightarrow> duration" where
  "http_client_timeout r =
     (let timeout = wrap64 (tg_long_poll_timeout r + 10 * second) in if timeout \<le> 0 then 40 * second else timeout)"

text \<open>What \<open>handleText\<close> made of an update: it returns nil in every case and logs one of these.\<close>

datatype text_outcome =
  UpdateIgnored string | NormalizeFailed string | IngestRejected api_error
| IngestDuplicate gateway_result | IngestAccepted gateway_result | AcceptedNotEnqueued gateway_result

definition handle_text ::
  "(tele_update \<Rightarrow> string + json) \<Rightarrow> telegram_runtime \<Rightarrow> ('s, 'q) gateway_service \<Rightarrow> tele_context \<Rightarrow> time \<Rightarrow> time \<Rightarrow>
   ('s, 'q) gateway_state \<Rightarrow> text_outcome \<times> ('s, 'q) gateway_state" where
  "handle_text marshal r gw c received_at now st =
     (case is_allowed_private_text_message (bot_user_id r) (tg_allowed_users r) (tl_context_message c) of
        Some reason \<Rightarrow> (UpdateIgnored reason, st)
      | None \<Rightarrow>
          (case normalize_text_update marshal (tl_update c) received_at of
             Inl e \<Rightarrow> (NormalizeFailed e, st)
           | Inr req \<Rightarrow>
               (case accept gw req now st of
                  (Inl e, st') \<Rightarrow> (IngestRejected e, st')
                | (Inr a, st') \<Rightarrow>
                    (if gr_duplicate (ai_result a) then (IngestDuplicate (ai_result a), st')
                     else if gr_enqueued (ai_result a) then (IngestAccepted (ai_result a), st')
                     else (AcceptedNotEnqueued (ai_result a), st')))))"

section \<open>Heartbeats\<close>

definition runtime_heartbeat_interval :: duration where "runtime_heartbeat_interval = 10 * second"

definition heartbeat_interval :: "duration \<Rightarrow> duration" where
  "heartbeat_interval d = (if d \<le> 0 then runtime_heartbeat_interval else d)"

text \<open>One beat at the start and one at each tick of the ticker; a failing beat is logged.\<close>

definition run_heartbeat :: "(string \<Rightarrow> time \<Rightarrow> 's \<Rightarrow> string option \<times> 's) option \<Rightarrow> time \<Rightarrow> time list \<Rightarrow> 's \<Rightarrow> 's" where
  "run_heartbeat recorder start ticks s =
     (case recorder of
        None \<Rightarrow> s
      | Some beat \<Rightarrow> fold (\<lambda>t s. snd (beat ''telegram_polling'' t s)) (start # ticks) s)"

end
