(* ===== verification/Agent.thy ===== *)
theory Agent
  imports Runner
begin

text \<open>
  \<open>internal/runner\<close>: one run of the agent.  \<open>llm_execute\<close> is the loop of
  \<open>agent_executor.go\<close>: it asks the model, executes the tool calls of the answer and asks
  again, at most \<open>maxToolRounds\<close> times with tools.  The loop's local variables are the fields of
  \<open>loop_state\<close>; the calls of the stream sink are collected in their order, and a sink that panics
  is recovered and noted in the trace (\<open>stream_sink.go\<close>).  Logging is left out.
\<close>

section \<open>What a run is given\<close>

record 'w agent =
  ag_workspace :: string
  ag_printable :: "nat \<Rightarrow> bool"
  ag_marshal :: "json_object \<Rightarrow> string option"
  ag_tool_definitions :: "tool_definition list"
  ag_invoke :: "'w tool_handler"
  ag_default_model :: string
  ag_resolve :: "string \<Rightarrow> go_error + ('w invoker \<times> string)"
  ag_reader :: "'w \<Rightarrow> context_reader"
  ag_system_prompt :: "internal_event \<Rightarrow> time \<Rightarrow> 'w \<Rightarrow> string \<times> 'w"
  ag_write_daily :: "string \<Rightarrow> string \<Rightarrow> time \<Rightarrow> string \<Rightarrow> 'w \<Rightarrow> 'w"
  ag_write_curated :: "string \<Rightarrow> time \<Rightarrow> string \<Rightarrow> 'w \<Rightarrow> 'w"
  ag_payloads :: "payload_registry option"

record llm_run_options =
  lo_run_mode :: run_mode
  lo_suppress_output :: bool
  lo_user_visible :: bool
  lo_tool_visible :: bool
  lo_final_assistant_visible :: bool
  lo_message_meta :: json_object
  lo_allowed_tools :: "string list"

record 'w loop_state =
  ls_world :: 'w
  ls_messages :: "output_message list"
  ls_chat :: "model_message list"
  ls_trace :: api_run_trace
  ls_counts :: "string \<Rightarrow> nat"
  ls_sink :: "sink_call list"
  ls_seq :: nat
  ls_usage :: usage

text \<open>A sink that may be nil; a call of it returns, or panics with a value that prints as a text.\<close>

type_synonym stream_sink = "(sink_call \<Rightarrow> string option) option"

definition sink_emit :: "stream_sink \<Rightarrow> sink_call \<Rightarrow> 'w loop_state \<Rightarrow> 'w loop_state" where
  "sink_emit sink c st =
     (case sink of
        None \<Rightarrow> st
      | Some panics \<Rightarrow>
          (let st' = st\<lparr>ls_sink := ls_sink st @ [c]\<rparr> in
           case panics c of
             None \<Rightarrow> st'
           | Some v \<Rightarrow> st'\<lparr>ls_trace := (ls_trace st')\<lparr>rt_diagnostics :=
               map_put (''stream_sink.'' @ sink_call_kind c) (''panic: '' @ v) (rt_diagnostics (ls_trace st'))\<rparr>\<rparr>))"

fun delta_call :: "model_delta \<Rightarrow> sink_call" where
  "delta_call (ReasoningDelta d) = OnReasoningDelta d"
| "delta_call (TextDelta d) = OnTextDelta d"

section \<open>Tools\<close>

definition denied :: "error_block \<Rightarrow> tool_result" where
  "denied b = \<lparr> tr_disabled = False, tr_output = [], tr_error = Some b \<rparr>"

text \<open>\<open>llmToolExecutor.call\<close>: the policy, then the tool; a run of type cron_fire counts its calls.\<close>

definition run_tool ::
  "'w agent \<Rightarrow> internal_event \<Rightarrow> string list \<Rightarrow> tool_call \<Rightarrow> (string \<Rightarrow> nat) \<Rightarrow> 'w \<Rightarrow> tool_result \<times> (string \<Rightarrow> nat) \<times> 'w" where
  "run_tool ag event allowed call counts w =
     (let tx = \<lparr> tx_workspace = ag_workspace ag, tx_scopes = [], tx_conversation = ie_conversation event \<rparr> in
      if \<not> tool_allowed (tc_name call) allowed
      then (denied (forbidden (''tool '' @ go_quote (ag_printable ag) (tc_name call)
              @ '' is not allowed for payload_type='' @ payload_type (payload event))), counts, w)
      else if equal_fold (trim_space (payload_type (payload event))) ''cron_fire'' then
        (case cron_fire_tool_policy_error (ag_printable ag) call counts of
           Some b \<Rightarrow> (denied b, counts, w)
         | None \<Rightarrow>
             (let (r, w') = ag_invoke ag tx (tc_name call) (tc_args call) w
              in (r, counts(tc_name call := Suc (counts (tc_name call))), w')))
      else (let (r, w') = ag_invoke ag tx (tc_name call) (tc_args call) w in (r, counts, w')))"

definition pad4 :: "nat \<Rightarrow> string" where
  "pad4 n = (let d = show_nat n in replicate (4 - length d) (CHR ''0'') @ d)"

text \<open>\<open>nextID\<close>; the counter is the process-wide sequence.\<close>

definition next_id :: "string \<Rightarrow> time \<Rightarrow> nat \<Rightarrow> string" where
  "next_id pre now n = pre @ ''_'' @ show_int (unix_nano now) @ ''_'' @ pad4 n"

definition tool_action :: "internal_event \<Rightarrow> tool_call \<Rightarrow> nat \<Rightarrow> time \<Rightarrow> nat \<Rightarrow> action" where
  "tool_action event call index now n =
     \<lparr> ac_action_id = next_id ''act'' now n, ac_action_index = index,
       ac_idempotency_key = event_id event @ '':'' @ show_nat index, ac_type = ''InvokeTool'',
       ac_risk = tool_risk (tc_name call), ac_requires_approval = False,
       ac_payload = [(''tool_name'', JStr (tc_name call))] \<rparr>"

text \<open>\<open>llmToolExecutor.Execute\<close> and what the loop does with the step it returns.\<close>

definition tool_step ::
  "'w agent \<Rightarrow> internal_event \<Rightarrow> llm_run_options \<Rightarrow> stream_sink \<Rightarrow> time \<Rightarrow> tool_call \<Rightarrow> 'w loop_state \<Rightarrow> 'w loop_state" where
  "tool_step ag event opts sink now call st =
     (let (args, args_cut) = sanitize_display_map (tc_args call);
          st1 = sink_emit sink (OnToolStart (tc_id call) (tc_name call) args args_cut) st;
          (res, counts, w) = run_tool ag event (lo_allowed_tools opts) call (ls_counts st1) (ls_world st1);
          act = tool_action event call (length (at_actions (ls_trace st1))) now (Suc (ls_seq st1));
          (shown, cut) = sanitize_display_map (tr_output res);
          st2 = sink_emit sink (OnToolResult (tc_id call) (tc_name call) shown cut (tr_error res))
                  (st1\<lparr>ls_world := w, ls_counts := counts, ls_seq := Suc (ls_seq st1)\<rparr>);
          content = tool_result_string (ag_marshal ag) (tr_output res) (tr_error res);
          exec = \<lparr> te_tool_call_id = tc_id call, te_name = tc_name call, te_args = tc_args call,
                   te_result = tr_output res, te_error = tr_error res \<rparr>;
          trace = ls_trace st2
      in st2\<lparr>ls_trace := trace\<lparr>at_tool_executions := at_tool_executions trace @ [exec],
                              at_actions := at_actions trace @ [act]\<rparr>,
             ls_messages := ls_messages st2 @
               [\<lparr> ou_role = ''tool'', ou_content = content, ou_visible = lo_tool_visible opts, ou_tool_calls = [],
                  ou_tool_call_id = tc_id call, ou_tool_name = tc_name call, ou_tool_args = tc_args call,
                  ou_tool_result = tr_output res, ou_meta = lo_message_meta opts \<rparr>],
             ls_chat := ls_chat st2 @ [chat_message ''tool'' content (tc_id call) []]\<rparr>)"

section \<open>The loop\<close>

definition add_usage :: "usage \<Rightarrow> usage \<Rightarrow> usage" where
  "add_usage a b = \<lparr> us_prompt_tokens = us_prompt_tokens a + us_prompt_tokens b,
     us_completion_tokens = us_completion_tokens a + us_completion_tokens b,
     us_total_tokens = us_total_tokens a + us_total_tokens b \<rparr>"

text \<open>One call of the model: its deltas reach the sink, then its result is looked at.\<close>

definition ask_model ::
  "'w agent \<Rightarrow> 'w invoker \<Rightarrow> string \<Rightarrow> tool_definition list \<Rightarrow> stream_sink \<Rightarrow> 'w loop_state
     \<Rightarrow> (go_error + model_result) \<times> 'w loop_state" where
  "ask_model ag model name defs sink st =
     (let ((deltas, r), w) = model \<lparr> mq_model = name, mq_messages = ls_chat st, mq_tools = defs \<rparr> (ls_world st)
      in (r, fold (sink_emit sink \<circ> delta_call) deltas (st\<lparr>ls_world := w\<rparr>)))"

text \<open>The assistant's message that calls the tools, in the transcript and in the chat.\<close>

definition push_calls :: "llm_run_options \<Rightarrow> model_result \<Rightarrow> 'w loop_state \<Rightarrow> 'w loop_state" where
  "push_calls opts res st =
     st\<lparr>ls_messages := ls_messages st @
          [(text_message ''assistant'' (trim_space (mr_text res)) False (lo_message_meta opts))
             \<lparr>ou_tool_calls := mr_tool_calls res\<rparr>],
        ls_chat := ls_chat st @ [chat_message ''assistant'' (trim_space (mr_text res)) [] (mr_tool_calls res)]\<rparr>"

text \<open>
  The loop from a round on which \<open>left\<close> rounds with tools may follow; it returns the reply and
  the last result, or the error of the model.
\<close>

fun llm_rounds ::
  "'w agent \<Rightarrow> 'w invoker \<Rightarrow> string \<Rightarrow> tool_definition list \<Rightarrow> internal_event \<Rightarrow> llm_run_options \<Rightarrow> stream_sink
     \<Rightarrow> time \<Rightarrow> nat \<Rightarrow> 'w loop_state \<Rightarrow> (go_error + (string \<times> model_result)) \<times> 'w loop_state" where
  "llm_rounds ag model name defs event opts sink now left st =
     (case ask_model ag model name defs sink st of
        (Inl e, st1) \<Rightarrow> (Inl e, st1)
      | (Inr res, st1) \<Rightarrow>
          (let st2 = st1\<lparr>ls_usage := add_usage (ls_usage st1) (mr_usage res)\<rparr> in
           if mr_tool_calls res = [] then (Inr (trim_space (mr_text res), res), st2)
           else (case left of
                   0 \<Rightarrow> (Inr (max_tool_rounds_reply res, res), st2)
                 | Suc k \<Rightarrow> llm_rounds ag model name defs event opts sink now k
                     (fold (tool_step ag event opts sink now) (mr_tool_calls res) (push_calls opts res st2)))))"

declare llm_rounds.simps [simp del]

section \<open>Running a plan\<close>

text \<open>\<open>llmPromptAssembler.Assemble\<close>.\<close>

definition assemble_chat :: "string \<Rightarrow> internal_event \<Rightarrow> history_message list \<Rightarrow> model_message list" where
  "assemble_chat system event history =
     chat_message ''system'' system [] [] # history_to_chat_messages history
       @ [chat_message ''user'' (trim_space (payload_text (payload event))) [] []]"

definition assemble_tools :: "'w agent \<Rightarrow> string list \<Rightarrow> tool_definition list" where
  "assemble_tools ag allowed = filter (\<lambda>d. tool_allowed (td_name d) allowed) (ag_tool_definitions ag)"

record 'w run_result =
  rr_output :: run_output
  rr_error :: "go_error option"
  rr_sink :: "sink_call list"
  rr_seq :: nat
  rr_world :: 'w

definition run_failed ::
  "llm_run_options \<Rightarrow> output_message list \<Rightarrow> api_run_trace \<Rightarrow> go_error \<Rightarrow> sink_call list \<Rightarrow> nat \<Rightarrow> 'w \<Rightarrow> 'w run_result" where
  "run_failed opts messages trace err calls n w =
     \<lparr> rr_output = \<lparr> ro_run_mode = lo_run_mode opts, ro_messages = messages, ro_trace = trace,
                    ro_assistant_reply = [], ro_suppress_output = False \<rparr>,
       rr_error = Some err, rr_sink = calls, rr_seq = n, rr_world = w \<rparr>"

text \<open>What follows the loop: the final assistant message, the trace and the reply.\<close>

definition run_finished ::
  "llm_run_options \<Rightarrow> time \<Rightarrow> time \<Rightarrow> string \<Rightarrow> model_result \<Rightarrow> 'w loop_state \<Rightarrow> 'w run_result" where
  "run_finished opts now finish reply0 res st =
     (let reply = (if reply0 = [] then trim_space (mr_text res) else reply0);
          messages = ls_messages st @
            (if reply \<noteq> [] then [text_message ''assistant'' reply (lo_final_assistant_visible opts) (lo_message_meta opts)]
             else []);
          trace = trace_complete (ls_usage st) res reply now finish (ls_trace st)
      in \<lparr> rr_output = \<lparr> ro_run_mode = lo_run_mode opts, ro_messages = messages, ro_trace = trace,
                        ro_assistant_reply = (if lo_suppress_output opts then [] else reply),
                        ro_suppress_output = lo_suppress_output opts \<rparr>,
           rr_error = None, rr_sink = ls_sink st, rr_seq = ls_seq st, rr_world = ls_world st \<rparr>)"

text \<open>The state before the first round.\<close>

definition llm_start ::
  "'w agent \<Rightarrow> internal_event \<Rightarrow> time \<Rightarrow> api_run_trace \<Rightarrow> llm_run_options \<Rightarrow> context_bundle \<Rightarrow> nat \<Rightarrow> 'w \<Rightarrow> 'w loop_state" where
  "llm_start ag event now trace opts bundle n w =
     (let (system, w1) = ag_system_prompt ag event now w in
      \<lparr> ls_world = w1,
        ls_messages = [text_message ''user'' (trim_space (payload_text (payload event)))
          (lo_user_visible opts) (lo_message_meta opts)],
        ls_chat = assemble_chat system event (cb_history bundle),
        ls_trace = attach_context bundle trace, ls_counts = (\<lambda>_. 0), ls_sink = [], ls_seq = n,
        ls_usage = zero_usage \<rparr>)"

text \<open>
  \<open>llmAgentExecutor.Execute\<close>; \<open>finish\<close> is the clock when the trace is closed.  With a negative
  number of rounds the loop body does not run.
\<close>

definition llm_execute ::
  "'w agent \<Rightarrow> internal_event \<Rightarrow> int \<Rightarrow> time \<Rightarrow> time \<Rightarrow> api_run_trace \<Rightarrow> stream_sink \<Rightarrow> llm_run_options
     \<Rightarrow> nat \<Rightarrow> 'w \<Rightarrow> 'w run_result" where
  "llm_execute ag event max_rounds now finish trace sink opts n w =
     (case ag_resolve ag (ag_default_model ag) of
        Inl err \<Rightarrow> run_failed opts [] (trace_fail err now finish trace) err [] n w
      | Inr (model, name) \<Rightarrow>
          (case load_context (ag_reader ag w) (active_session_id event) (payload_text (payload event)) of
             Inl err \<Rightarrow> run_failed opts [] (trace_fail err now finish trace) err [] n w
           | Inr bundle \<Rightarrow>
               (let st = llm_start ag event now trace opts bundle n w;
                    defs = assemble_tools ag (lo_allowed_tools opts)
                in if max_rounds < 0 then run_finished opts now finish [] zero_result st
                   else (case llm_rounds ag model name defs event opts sink now (nat max_rounds) st of
                           (Inl err, st') \<Rightarrow>
                             run_failed opts (ls_messages st') (trace_fail err now finish (ls_trace st')) err
                               (ls_sink st') (ls_seq st') (ls_world st')
                         | (Inr (reply, res), st') \<Rightarrow> run_finished opts now finish reply res st'))))"

text \<open>\<open>memoryRunExecutor.Execute\<close>; the errors of the writer are ignored.\<close>

definition memory_execute ::
  "'w agent \<Rightarrow> internal_event \<Rightarrow> time \<Rightarrow> time \<Rightarrow> api_run_trace \<Rightarrow> plan \<Rightarrow> nat \<Rightarrow> 'w \<Rightarrow> 'w run_result" where
  "memory_execute ag event now finish trace p n w =
     (let text = trim_space (payload_text (payload event));
          note = (if text = [] then payload_type (payload event) else text);
          chan = channel_type (ie_conversation event);
          w' = (case pl_memory_write_target p of
                  MemoryWriteTargetDaily \<Rightarrow> ag_write_daily ag (''system:'' @ payload_type (payload event)) note now chan w
                | MemoryWriteTargetCurated \<Rightarrow> ag_write_curated ag note now chan w
                | MemoryWriteTargetNone \<Rightarrow> w)
      in \<lparr> rr_output = \<lparr> ro_run_mode = pl_run_mode p,
                        ro_messages = [text_message ''system'' note False (pl_message_meta p)],
                        ro_trace = trace\<lparr>rt_output_text := note, rt_finished_at := finish,
                                         rt_latency_ms := milliseconds (finish - now)\<rparr>,
                        ro_assistant_reply = [], ro_suppress_output = pl_suppress_output p \<rparr>,
           rr_error = None, rr_sink = [], rr_seq = n, rr_world = w' \<rparr>)"

definition run_new_session :: "internal_event \<Rightarrow> time \<Rightarrow> time \<Rightarrow> api_run_trace \<Rightarrow> nat \<Rightarrow> 'w \<Rightarrow> 'w run_result" where
  "run_new_session event now finish trace n w =
     (let meta = [(''payload_type'', JStr (payload_type (payload event)))] in
      \<lparr> rr_output = \<lparr> ro_run_mode = RunModeNormal,
                     ro_messages = [text_message ''user'' (trim_space (payload_text (payload event))) True meta,
                                    text_message ''assistant'' new_session_text True meta],
                     ro_trace = trace\<lparr>rt_output_text := new_session_text, rt_finished_at := finish,
                                      rt_latency_ms := milliseconds (finish - now)\<rparr>,
                     ro_assistant_reply = new_session_text, ro_suppress_output = False \<rparr>,
        rr_error = None, rr_sink = [], rr_seq = n, rr_world = w \<rparr>)"

definition plan_options :: "plan \<Rightarrow> llm_run_options" where
  "plan_options p = \<lparr> lo_run_mode = pl_run_mode p, lo_suppress_output = pl_suppress_output p,
     lo_user_visible = pl_user_visible p, lo_tool_visible = pl_tool_visible p,
     lo_final_assistant_visible = pl_final_assistant_visible p, lo_message_meta = pl_message_meta p,
     lo_allowed_tools = pl_allowed_tools p \<rparr>"

definition run_with_plan ::
  "'w agent \<Rightarrow> internal_event \<Rightarrow> int \<Rightarrow> time \<Rightarrow> time \<Rightarrow> api_run_trace \<Rightarrow> stream_sink \<Rightarrow> plan \<Rightarrow> nat \<Rightarrow> 'w \<Rightarrow> 'w run_result" where
  "run_with_plan ag event max_rounds now finish trace sink p n w =
     (if pl_kind p = ExecutionKindMemoryWrite then memory_execute ag event now finish trace p n w
      else llm_execute ag event max_rounds now finish trace (if pl_suppress_stream p then None else sink)
             (plan_options p) n w)"

text \<open>The zero values of \<open>RunOutput\<close> and its trace, whose status, the empty text, nothing reads.\<close>

definition zero_trace :: api_run_trace where
  "zero_trace = \<lparr> rt_run_id = [], rt_event_id = [], rt_session_key = [], rt_session_id = [],
     rt_run_mode = RunModeUnset, rt_status = RunStatusStarted, rt_provider = [], rt_model = [],
     rt_prompt_tokens = 0, rt_completion_tokens = 0, rt_total_tokens = 0, rt_latency_ms = 0,
     rt_finish_reason = [], rt_raw_finish_reason = [], rt_provider_request_id = [], rt_output_text = [],
     rt_tool_calls = [], rt_diagnostics = [], rt_started_at = zero_time, rt_finished_at = zero_time,
     rt_error = None, at_context_manifest = None, at_rag_hits = [], at_tool_executions = [], at_actions = [] \<rparr>"

text \<open>\<open>ProviderRunner.Run\<close>.\<close>

definition run_agent ::
  "'w agent \<Rightarrow> internal_event \<Rightarrow> int \<Rightarrow> time \<Rightarrow> time \<Rightarrow> stream_sink \<Rightarrow> nat \<Rightarrow> 'w \<Rightarrow> 'w run_result" where
  "run_agent ag event max_rounds start finish sink n w =
     (if payload_type (payload event) = ''new_session''
      then run_new_session event start finish (new_trace event RunModeNormal start) n w
      else
        (case ag_payloads ag of
           None \<Rightarrow> \<lparr> rr_output = \<lparr> ro_run_mode = RunModeUnset, ro_messages = [], ro_trace = zero_trace,
                                 ro_assistant_reply = [], ro_suppress_output = False \<rparr>,
                    rr_error = Some (TextError ''payload registry unavailable''), rr_sink = [], rr_seq = n,
                    rr_world = w \<rparr>
         | Some reg \<Rightarrow>
             (let p = resolve_plan (Some reg) (payload_type (payload event)) in
              run_with_plan ag event max_rounds start finish (new_trace event (pl_run_mode p) start) sink p n w)))"

end
