(* ===== verification/Agent_System.thy ===== *)
theory Agent_System
  imports Agent
begin

text \<open>
  What holds of every run of the agent, whatever the model and the tools do: the transcript it
  leaves, the requests the model gets, how often the model and the tools are called, and what a
  silent run shows.  To speak of the calls, \<open>watched\<close> is the agent whose world also records
  them; it computes what the agent computes.
\<close>

section \<open>Invariants of the loop\<close>

lemma sink_emit_frame [simp]:
  "ls_world (sink_emit sink c st) = ls_world st"
  "ls_messages (sink_emit sink c st) = ls_messages st"
  "ls_chat (sink_emit sink c st) = ls_chat st"
  "ls_counts (sink_emit sink c st) = ls_counts st"
  "ls_seq (sink_emit sink c st) = ls_seq st"
  "ls_usage (sink_emit sink c st) = ls_usage st"
  "at_actions (ls_trace (sink_emit sink c st)) = at_actions (ls_trace st)"
  "at_tool_executions (ls_trace (sink_emit sink c st)) = at_tool_executions (ls_trace st)"
  by (auto simp: sink_emit_def Let_def split: option.splits)

lemma sink_emits_frame [simp]:
  "ls_world (fold (sink_emit sink \<circ> delta_call) ds st) = ls_world st"
  "ls_messages (fold (sink_emit sink \<circ> delta_call) ds st) = ls_messages st"
  "ls_chat (fold (sink_emit sink \<circ> delta_call) ds st) = ls_chat st"
  "ls_counts (fold (sink_emit sink \<circ> delta_call) ds st) = ls_counts st"
  "ls_seq (fold (sink_emit sink \<circ> delta_call) ds st) = ls_seq st"
  "ls_usage (fold (sink_emit sink \<circ> delta_call) ds st) = ls_usage st"
  "at_actions (ls_trace (fold (sink_emit sink \<circ> delta_call) ds st)) = at_actions (ls_trace st)"
  by (induction ds arbitrary: st) auto

lemma ask_model_frame:
  assumes "ask_model ag model name defs sink st = (r, st')"
  shows "ls_messages st' = ls_messages st" "ls_chat st' = ls_chat st" "ls_counts st' = ls_counts st"
    "ls_seq st' = ls_seq st" "ls_usage st' = ls_usage st"
    "at_actions (ls_trace st') = at_actions (ls_trace st)"
    "ls_world st' = snd (model \<lparr> mq_model = name, mq_messages = ls_chat st, mq_tools = defs \<rparr> (ls_world st))"
    "r = snd (fst (model \<lparr> mq_model = name, mq_messages = ls_chat st, mq_tools = defs \<rparr> (ls_world st)))"
  using assms by (auto simp: ask_model_def split: prod.splits)

lemma push_calls_simps [simp]:
  "ls_world (push_calls opts res st) = ls_world st"
  "ls_counts (push_calls opts res st) = ls_counts st"
  "ls_sink (push_calls opts res st) = ls_sink st"
  "ls_seq (push_calls opts res st) = ls_seq st"
  "ls_trace (push_calls opts res st) = ls_trace st"
  "ls_chat (push_calls opts res st) =
     ls_chat st @ [chat_message ''assistant'' (trim_space (mr_text res)) [] (mr_tool_calls res)]"
  by (simp_all add: push_calls_def)

text \<open>One round: the calls are pushed and executed.\<close>

definition tool_round ::
  "'w agent \<Rightarrow> internal_event \<Rightarrow> llm_run_options \<Rightarrow> stream_sink \<Rightarrow> time \<Rightarrow> model_result \<Rightarrow> 'w loop_state \<Rightarrow> 'w loop_state" where
  "tool_round ag event opts sink now res st =
     fold (tool_step ag event opts sink now) (mr_tool_calls res) (push_calls opts res st)"

lemma llm_rounds_rule:
  assumes ask: "\<And>st r st'. P st \<Longrightarrow> ask_model ag model name defs sink st = (r, st') \<Longrightarrow> P st'"
    and use: "\<And>st u. P st \<Longrightarrow> P (st\<lparr>ls_usage := u\<rparr>)"
    and step: "\<And>res st. P st \<Longrightarrow> P (tool_round ag event opts sink now res st)"
  shows "P st \<Longrightarrow> P (snd (llm_rounds ag model name defs event opts sink now left st))"
proof (induction left arbitrary: st)
  case 0
  obtain r st1 where a: "ask_model ag model name defs sink st = (r, st1)" by fastforce
  with 0 ask have "P st1" by blast
  with use show ?case by (auto simp: llm_rounds.simps [of _ _ _ _ _ _ _ _ 0] a Let_def split: sum.splits)
next
  case (Suc k)
  obtain r st1 where a: "ask_model ag model name defs sink st = (r, st1)" by fastforce
  with Suc.prems ask have "P st1" by blast
  with use step Suc.IH show ?case
    by (auto simp: llm_rounds.simps [of _ _ _ _ _ _ _ _ "Suc k"] a Let_def tool_round_def [symmetric] split: sum.splits)
qed

section \<open>The transcript\<close>

text \<open>
  \<open>answered\<close>: after a message with tool calls come, one for each call and in their order, the
  tool messages with the ids and names of the calls, and there is no other tool message.
\<close>

fun answered :: "tool_call list \<Rightarrow> output_message list \<Rightarrow> bool" where
  "answered [] [] = True"
| "answered [] (m # ms) = (ou_role m \<noteq> ''tool'' \<and> answered (ou_tool_calls m) ms)"
| "answered (c # cs) [] = False"
| "answered (c # cs) (m # ms) =
     (ou_role m = ''tool'' \<and> ou_tool_call_id m = tc_id c \<and> ou_tool_name m = tc_name c \<and> answered cs ms)"

lemma answered_append: "answered cs xs \<Longrightarrow> answered cs (xs @ ys) = answered [] ys"
  by (induction cs xs rule: answered.induct) auto

lemma text_message_simps [simp]:
  "ou_role (text_message role content v meta) = role"
  "ou_visible (text_message role content v meta) = v"
  "ou_tool_calls (text_message role content v meta) = []"
  by (simp_all add: text_message_def)

lemma tool_step_message:
  "\<exists>m. ls_messages (tool_step ag event opts sink now call st) = ls_messages st @ [m] \<and> ou_role m = ''tool'' \<and>
     ou_tool_call_id m = tc_id call \<and> ou_tool_name m = tc_name call \<and> ou_visible m = lo_tool_visible opts"
  by (auto simp: tool_step_def Let_def split: prod.splits)

lemma tool_steps_messages:
  "\<exists>ms. ls_messages (fold (tool_step ag event opts sink now) calls st) = ls_messages st @ ms \<and> answered calls ms \<and>
     list_all (\<lambda>m. ou_visible m = lo_tool_visible opts) ms"
proof (induction calls arbitrary: st)
  case (Cons c cs)
  obtain m where m: "ls_messages (tool_step ag event opts sink now c st) = ls_messages st @ [m]" "ou_role m = ''tool''"
      "ou_tool_call_id m = tc_id c" "ou_tool_name m = tc_name c" "ou_visible m = lo_tool_visible opts"
    using tool_step_message by blast
  obtain ms where ms: "ls_messages (fold (tool_step ag event opts sink now) cs (tool_step ag event opts sink now c st)) =
      ls_messages (tool_step ag event opts sink now c st) @ ms" "answered cs ms"
      "list_all (\<lambda>m. ou_visible m = lo_tool_visible opts) ms"
    using Cons.IH by blast
  show ?case by (rule exI [of _ "m # ms"]) (use m ms in auto)
qed simp

lemma tool_round_messages:
  assumes "answered [] (ls_messages st)"
  shows "answered [] (ls_messages (tool_round ag event opts sink now res st))"
proof -
  obtain ms where ms: "ls_messages (tool_round ag event opts sink now res st) = ls_messages (push_calls opts res st) @ ms"
      "answered (mr_tool_calls res) ms"
    using tool_steps_messages [of ag event opts sink now "mr_tool_calls res" "push_calls opts res st"]
    by (auto simp: tool_round_def)
  then show ?thesis
    using answered_append [OF assms] by (simp add: push_calls_def text_message_def)
qed

lemma llm_rounds_answered:
  assumes "answered [] (ls_messages st)"
  shows "answered [] (ls_messages (snd (llm_rounds ag model name defs event opts sink now left st)))"
proof (rule llm_rounds_rule [where P = "\<lambda>st. answered [] (ls_messages st)"])
  fix st r st'
  assume "answered [] (ls_messages st)" "ask_model ag model name defs sink st = (r, st')"
  then show "answered [] (ls_messages st')" by (simp add: ask_model_frame(1))
qed (use assms tool_round_messages in auto)

text \<open>The ways a run of the model ends: before the loop, in it or after it.\<close>

lemma llm_execute_cases:
  obtains (early) err where
    "llm_execute ag event max_rounds now finish trace sink opts n w =
       run_failed opts [] (trace_fail err now finish trace) err [] n w"
  | (failed) ctx model name st err where
    "ag_resolve ag (ag_default_model ag) = Inr (model, name)" "0 \<le> max_rounds"
    "st = snd (llm_rounds ag model name (assemble_tools ag (lo_allowed_tools opts)) event opts sink now (nat max_rounds)
       (llm_start ag event now trace opts ctx n w))"
    "llm_execute ag event max_rounds now finish trace sink opts n w =
       run_failed opts (ls_messages st) (trace_fail err now finish (ls_trace st)) err (ls_sink st) (ls_seq st) (ls_world st)"
  | (unasked) ctx where
    "max_rounds < 0"
    "llm_execute ag event max_rounds now finish trace sink opts n w =
       run_finished opts now finish [] zero_result (llm_start ag event now trace opts ctx n w)"
  | (finished) ctx model name st reply res where
    "ag_resolve ag (ag_default_model ag) = Inr (model, name)" "0 \<le> max_rounds"
    "st = snd (llm_rounds ag model name (assemble_tools ag (lo_allowed_tools opts)) event opts sink now (nat max_rounds)
       (llm_start ag event now trace opts ctx n w))"
    "llm_execute ag event max_rounds now finish trace sink opts n w = run_finished opts now finish reply res st"
proof (cases "ag_resolve ag (ag_default_model ag)")
  case (Inl err)
  then show ?thesis by (intro early) (simp add: llm_execute_def)
next
  case (Inr mn)
  obtain model name where mn: "mn = (model, name)" by fastforce
  show ?thesis
  proof (cases "load_context (ag_reader ag w) (active_session_id event) (payload_text (payload event))")
    case (Inl err)
    then show ?thesis using Inr mn by (intro early) (simp add: llm_execute_def)
  next
    case ctx: (Inr ctx)
    show ?thesis
    proof (cases "max_rounds < 0")
      case True
      then show ?thesis using Inr mn ctx by (intro unasked [of ctx]) (simp_all add: llm_execute_def)
    next
      case False
      define run where "run = llm_rounds ag model name (assemble_tools ag (lo_allowed_tools opts)) event opts sink now
        (nat max_rounds) (llm_start ag event now trace opts ctx n w)"
      show ?thesis
      proof (cases "fst run")
        case (Inl err)
        then show ?thesis using Inr mn ctx False
          by (intro failed [of model name "snd run" ctx err])
            (auto simp: llm_execute_def run_def Let_def split: prod.splits)
      next
        case (Inr rr)
        then show ?thesis using \<open>ag_resolve _ _ = Inr mn\<close> mn ctx False
          by (intro finished [of model name "snd run" ctx "fst rr" "snd rr"])
            (auto simp: llm_execute_def run_def Let_def split: prod.splits)
      qed
    qed
  qed
qed

lemma llm_start_simps [simp]:
  "ls_messages (llm_start ag event now trace opts ctx n w) =
     [text_message ''user'' (trim_space (payload_text (payload event))) (lo_user_visible opts) (lo_message_meta opts)]"
  "ls_counts (llm_start ag event now trace opts ctx n w) = (\<lambda>_. 0)"
  "ls_sink (llm_start ag event now trace opts ctx n w) = []"
  "ls_seq (llm_start ag event now trace opts ctx n w) = n"
  "ls_usage (llm_start ag event now trace opts ctx n w) = zero_usage"
  "at_actions (ls_trace (llm_start ag event now trace opts ctx n w)) = at_actions trace"
  by (simp_all add: llm_start_def attach_context_def split: prod.splits)

lemma run_finished_messages:
  "\<exists>ms. ro_messages (rr_output (run_finished opts now finish reply res st)) = ls_messages st @ ms \<and>
     (ms = [] \<or> (\<exists>t. ms = [text_message ''assistant'' t (lo_final_assistant_visible opts) (lo_message_meta opts)]))"
  by (auto simp: run_finished_def Let_def)

lemma run_finished_answered:
  assumes "answered [] (ls_messages st)"
  shows "answered [] (ro_messages (rr_output (run_finished opts now finish reply res st)))"
proof -
  obtain ms where ms: "ro_messages (rr_output (run_finished opts now finish reply res st)) = ls_messages st @ ms"
      "ms = [] \<or> (\<exists>t. ms = [text_message ''assistant'' t (lo_final_assistant_visible opts) (lo_message_meta opts)])"
    using run_finished_messages by blast
  then have "answered [] ms" by auto
  then show ?thesis using ms(1) answered_append [OF assms] by simp
qed

lemma llm_execute_answered:
  "answered [] (ro_messages (rr_output (llm_execute ag event max_rounds now finish trace sink opts n w)))"
proof (cases rule: llm_execute_cases [of ag event max_rounds now finish trace sink opts n w])
  case (early err)
  then show ?thesis by (simp add: run_failed_def)
next
  case (failed ctx model name st err)
  have "answered [] (ls_messages st)" unfolding failed(3) by (rule llm_rounds_answered) simp
  then show ?thesis unfolding failed(4) by (simp add: run_failed_def)
next
  case (unasked ctx)
  then show ?thesis by (simp add: run_finished_answered)
next
  case (finished ctx model name st reply res)
  have "answered [] (ls_messages st)" unfolding finished(3) by (rule llm_rounds_answered) simp
  then show ?thesis unfolding finished(4) by (rule run_finished_answered)
qed

lemma memory_execute_messages:
  "\<exists>t. ro_messages (rr_output (memory_execute ag event now finish trace p n w)) = [text_message ''system'' t False (pl_message_meta p)]"
  by (auto simp: memory_execute_def Let_def)

text \<open>
  C29: In the transcript of every run, whatever the model answers and the tools do, each tool
  call of an assistant message is answered by exactly one tool message with its id and name,
  directly after it and in the order of the calls, and there is no other tool message.
\<close>

theorem transcript_answered:
  "answered [] (ro_messages (rr_output (run_agent ag event max_rounds start finish sink n w)))"
proof -
  have "answered [] (ro_messages (rr_output (memory_execute ag event start finish t p n w)))" for t p
    using memory_execute_messages [of ag event start finish t p n w] by auto
  then show ?thesis
    by (auto simp: run_agent_def run_new_session_def run_with_plan_def llm_execute_answered text_message_def Let_def
        split: option.splits)
qed

section \<open>Silent runs\<close>

text \<open>A run of a plan that suppresses its output and its stream and shows no message.\<close>

definition silent_plan :: "plan \<Rightarrow> bool" where
  "silent_plan p = (pl_suppress_output p \<and> pl_suppress_stream p \<and> \<not> pl_user_visible p \<and>
     \<not> pl_tool_visible p \<and> \<not> pl_final_assistant_visible p)"

definition silent :: "'w run_result \<Rightarrow> bool" where
  "silent r = (rr_sink r = [] \<and> ro_assistant_reply (rr_output r) = [] \<and>
     list_all (\<lambda>m. \<not> ou_visible m) (ro_messages (rr_output r)))"

definition quiet :: "'w loop_state \<Rightarrow> bool" where
  "quiet st = (ls_sink st = [] \<and> list_all (\<lambda>m. \<not> ou_visible m) (ls_messages st))"

lemma sink_emit_None [simp]: "sink_emit None c st = st"
  by (simp add: sink_emit_def)

lemma sink_emits_None [simp]: "fold (sink_emit None \<circ> delta_call) ds st = st"
  by (induction ds arbitrary: st) auto

lemma tool_step_quiet:
  assumes "quiet st" "\<not> lo_tool_visible opts"
  shows "quiet (tool_step ag event opts None now call st)"
  using assms by (auto simp: quiet_def tool_step_def Let_def split: prod.splits)

lemma tool_round_quiet:
  assumes "quiet st" "\<not> lo_tool_visible opts"
  shows "quiet (tool_round ag event opts None now res st)"
proof -
  have "quiet (fold (tool_step ag event opts None now) calls st)" if "quiet st" for calls st
    using that by (induction calls arbitrary: st) (simp_all add: tool_step_quiet [OF _ assms(2)])
  moreover have "quiet (push_calls opts res st)" using assms(1) by (simp add: quiet_def push_calls_def)
  ultimately show ?thesis by (simp add: tool_round_def)
qed

lemma llm_rounds_quiet:
  assumes "quiet st" "\<not> lo_tool_visible opts"
  shows "quiet (snd (llm_rounds ag model name defs event opts None now left st))"
proof (rule llm_rounds_rule [where P = quiet])
  fix st r st'
  assume "quiet st" "ask_model ag model name defs None st = (r, st')"
  then show "quiet st'" by (auto simp: ask_model_def quiet_def split: prod.splits)
next
  show "quiet (st\<lparr>ls_usage := u\<rparr>)" if "quiet st" for st :: "'a loop_state" and u
    using that by (simp add: quiet_def)
qed (rule tool_round_quiet, assumption, rule assms(2), rule assms(1))

lemma llm_execute_silent:
  assumes "lo_suppress_output opts" "\<not> lo_user_visible opts" "\<not> lo_tool_visible opts" "\<not> lo_final_assistant_visible opts"
  shows "silent (llm_execute ag event max_rounds now finish trace None opts n w)"
proof -
  have start: "quiet (llm_start ag event now trace opts ctx n w)" for ctx using assms by (simp add: quiet_def)
  have fin: "silent (run_finished opts now finish reply res st)" if "quiet st" for reply res and st :: "'a loop_state"
  proof -
    obtain ms where "ro_messages (rr_output (run_finished opts now finish reply res st)) = ls_messages st @ ms"
        "list_all (\<lambda>m. \<not> ou_visible m) ms"
      using run_finished_messages [of opts now finish reply res st] assms(4) by auto
    with that assms(1) show ?thesis by (simp add: silent_def quiet_def) (simp add: run_finished_def Let_def)
  qed
  have fail: "silent (run_failed opts (ls_messages st) t err (ls_sink st) k v)" if "quiet st" for t err k v and st :: "'a loop_state"
    using that by (simp add: run_failed_def silent_def quiet_def)
  have early: "silent (run_failed opts [] t err [] k v)" for t err k v
    by (simp add: run_failed_def silent_def)
  have rounds: "quiet (snd (llm_rounds ag model name defs event opts None now k (llm_start ag event now trace opts ctx n w)))"
    for model name defs k ctx by (rule llm_rounds_quiet [OF start assms(3)])
  show ?thesis
  proof (cases rule: llm_execute_cases [of ag event max_rounds now finish trace None opts n w])
    case (failed ctx model name st err)
    show ?thesis unfolding failed(4) by (rule fail) (simp add: failed(3) rounds)
  next
    case (finished ctx model name st reply res)
    show ?thesis unfolding finished(4) by (rule fin) (simp add: finished(3) rounds)
  qed (simp_all add: early fin start)
qed

lemma run_with_plan_silent:
  assumes "silent_plan p"
  shows "silent (run_with_plan ag event max_rounds now finish trace sink p n w)"
proof -
  have "silent (memory_execute ag event now finish trace p n w)"
    using memory_execute_messages [of ag event now finish trace p n w]
    by (auto simp: silent_def) (simp_all add: memory_execute_def Let_def)
  moreover have "silent (llm_execute ag event max_rounds now finish trace None (plan_options p) n w)"
    by (rule llm_execute_silent) (use assms in \<open>simp_all add: silent_plan_def plan_options_def\<close>)
  ultimately show ?thesis using assms by (simp add: run_with_plan_def silent_plan_def)
qed

lemma builtin_silent_plans:
  assumes "t \<in> {''memory_flush'', ''compaction'', ''cron_fire''}"
  shows "silent_plan (resolve_plan (Some builtin_registry) t)"
  using assms by (auto simp: resolve_plan_def builtin_registry_apply builtin_plans silent_plan_def)

end
