(* ===== verification/Kernel_Adapter.thy ===== *)
theory Kernel_Adapter
  imports Agent_System Kernel Delivery
begin

text \<open>
  \<open>internal/runtime/kernel_adapter.go\<close>, \<open>delivery_intent.go\<close> and \<open>stream_sink.go\<close>: the
  executor the kernel is given.  It runs the agent on a claimed event, publishes the calls of its
  stream sink as runtime events and translates the output of the run.
\<close>

section \<open>Delivery\<close>

text \<open>The text of the error of \<open>strconv.ParseInt(raw, 10, 64)\<close>.\<close>

definition parse_int_error :: "(nat \<Rightarrow> bool) \<Rightarrow> string \<Rightarrow> string" where
  "parse_int_error printable raw =
     (let body = (if raw \<noteq> [] \<and> (hd raw = CHR ''-'' \<or> hd raw = CHR ''+'') then tl raw else raw)
      in ''strconv.ParseInt: parsing '' @ go_quote printable raw @ '': '' @
         (if parse_nat body = None then ''invalid syntax'' else ''value out of range''))"

text \<open>\<open>telegramTargetID\<close>; a map of extras that is nil has no keys.\<close>

definition telegram_target_id :: "(nat \<Rightarrow> bool) \<Rightarrow> internal_event \<Rightarrow> go_error + string" where
  "telegram_target_id printable event =
     (let raw = trim_space (map_get (extra (payload event)) ''telegram_chat_id'') in
      if raw = [] then Inl (TextError ''telegram event missing payload.extra.telegram_chat_id'')
      else
        (case parse_int64 raw of
           None \<Rightarrow> Inl (WrappedError (''invalid payload.extra.telegram_chat_id '' @ go_quote printable raw @ '': '')
             (TextError (parse_int_error printable raw)))
         | Some chat \<Rightarrow> Inr (show_int chat)))"

text \<open>\<open>deliveryIntentResolver.Resolve\<close>; a blank reply has no intent.\<close>

definition resolve_delivery :: "(nat \<Rightarrow> bool) \<Rightarrow> internal_event \<Rightarrow> string \<Rightarrow> go_error + delivery_intent option" where
  "resolve_delivery printable event reply =
     (let intent = \<lparr> di_channel = [], di_target_id = [], di_body = reply, di_metadata = [] \<rparr> in
      if trim_space reply = [] then Inr None
      else if source event \<noteq> ''telegram'' then Inr (Some intent)
      else
        (case telegram_target_id printable event of
           Inl e \<Rightarrow> Inl e
         | Inr chat \<Rightarrow> Inr (Some (intent\<lparr>di_channel := ''telegram'', di_target_id := chat\<rparr>))))"

section \<open>Translation of the output\<close>

definition stored_output :: "output_message \<Rightarrow> stored_message" where
  "stored_output m = \<lparr> sm_message_id = [], sm_session_key = [], sm_session_id = [], sm_run_id = [],
     sm_role = ou_role m, sm_content = ou_content m, sm_visible = ou_visible m,
     sm_tool_calls = ou_tool_calls m, sm_tool_call_id = ou_tool_call_id m, sm_tool_name = ou_tool_name m,
     sm_tool_args = ou_tool_args m, sm_tool_result = ou_tool_result m, sm_meta = ou_meta m,
     sm_created_at = zero_time \<rparr>"

definition translated_result :: "claim_context \<Rightarrow> run_output \<Rightarrow> execution_result" where
  "translated_result claim out =
     (let t = ro_trace out in
      \<lparr> er_run_mode = (if ro_run_mode out = RunModeUnset then cc_run_mode claim else ro_run_mode out),
        er_assistant_reply = ro_assistant_reply out, er_output_messages = map stored_output (ro_messages out),
        er_tool_calls = rt_tool_calls t, er_diagnostics = rt_diagnostics t, er_delivery = None,
        er_suppress_output = ro_suppress_output out, er_provider = rt_provider t, er_model = rt_model t,
        er_prompt_tokens = rt_prompt_tokens t, er_completion_tokens = rt_completion_tokens t,
        er_total_tokens = rt_total_tokens t, er_latency_ms = rt_latency_ms t,
        er_finish_reason = rt_finish_reason t, er_raw_finish_reason = rt_raw_finish_reason t,
        er_provider_request_id = rt_provider_request_id t, er_output_text = rt_output_text t,
        er_error = None \<rparr>)"

definition translate_output ::
  "(nat \<Rightarrow> bool) \<Rightarrow> claim_context \<Rightarrow> run_output \<Rightarrow> execution_result \<times> go_error option" where
  "translate_output printable claim out =
     (let result = translated_result claim out in
      if ro_suppress_output out \<or> trim_space (ro_assistant_reply out) = [] then (result, None)
      else
        (case resolve_delivery printable (cc_event claim) (ro_assistant_reply out) of
           Inl e \<Rightarrow> (result\<lparr>er_assistant_reply := []\<rparr>, Some e)
         | Inr intent \<Rightarrow> (result\<lparr>er_delivery := intent\<rparr>, None)))"

definition normalize_max_tool_rounds :: "int \<Rightarrow> int" where
  "normalize_max_tool_rounds n = (if n \<le> 0 then 4 else n)"

definition first_execution_error :: "go_error option \<Rightarrow> go_error option \<Rightarrow> go_error option" where
  "first_execution_error run_err conv_err = (case run_err of Some e \<Rightarrow> Some e | None \<Rightarrow> conv_err)"

section \<open>Runtime events of the stream\<close>

definition blank_runtime_event :: "runtime_event_kind \<Rightarrow> claim_context \<Rightarrow> time \<Rightarrow> runtime_event" where
  "blank_runtime_event kind claim now = kernel_event kind claim [] [] now"

text \<open>
  The event published for a call of the sink at the time \<open>now\<close>; status calls and empty deltas
  publish nothing.
\<close>

fun sink_event :: "claim_context \<Rightarrow> time \<Rightarrow> sink_call \<Rightarrow> runtime_event option" where
  "sink_event claim now (OnStatus s m) = None"
| "sink_event claim now (OnReasoningDelta d) =
     (if d = [] then None else Some ((blank_runtime_event RuntimeEventReasoningDelta claim now)\<lparr>re_delta := d\<rparr>))"
| "sink_event claim now (OnTextDelta d) =
     (if d = [] then None else Some ((blank_runtime_event RuntimeEventTextDelta claim now)\<lparr>re_delta := d\<rparr>))"
| "sink_event claim now (OnToolStart i name args truncated) =
     Some ((blank_runtime_event RuntimeEventToolStarted claim now)
       \<lparr>re_tool_call_id := i, re_tool_name := name, re_args := args, re_truncated := truncated\<rparr>)"
| "sink_event claim now (OnToolResult i name res truncated err) =
     Some ((blank_runtime_event RuntimeEventToolFinished claim now)
       \<lparr>re_tool_call_id := i, re_tool_name := name, re_result := res, re_truncated := truncated, re_error := err\<rparr>)"

text \<open>\<open>stamps\<close> is the clock at each call.\<close>

definition sink_events :: "claim_context \<Rightarrow> (nat \<Rightarrow> time) \<Rightarrow> sink_call list \<Rightarrow> runtime_event list" where
  "sink_events claim stamps calls = List.map_filter (\<lambda>(i, c). sink_event claim (stamps i) c) (List.enumerate 0 calls)"

section \<open>The executor\<close>

record run_clock =
  rk_start :: time
  rk_finish :: time
  rk_stamps :: "nat \<Rightarrow> time"

text \<open>The executor on a world; the sink's calls never panic, and the world after it is left out.\<close>

definition runner_executor :: "'w agent \<Rightarrow> int \<Rightarrow> run_clock \<Rightarrow> nat \<Rightarrow> 'w \<Rightarrow> executor" where
  "runner_executor ag max_rounds clk n w claim =
     (let r = run_agent ag (cc_event claim) (normalize_max_tool_rounds max_rounds) (rk_start clk) (rk_finish clk)
                (Some (\<lambda>_. None)) n w;
          (result, conv) = translate_output (ag_printable ag) claim (rr_output r)
      in ExecReturns result (map_option error_text (first_execution_error (rr_error r) conv))
           (sink_events claim (rk_stamps clk) (rr_sink r)))"

end
