(* ===== verification/Agent_Watch.thy ===== *)
theory Agent_Watch
  imports Agent_System
begin

text \<open>
  The calls a run makes to the model and to the tools, recorded by \<open>watched\<close> beside the world.
\<close>

datatype effect = Asked model_request | Invoked string json_object

fun asked :: "effect list \<Rightarrow> model_request list" where
  "asked [] = []"
| "asked (Asked rq # es) = rq # asked es"
| "asked (Invoked n a # es) = asked es"

fun invoked :: "effect list \<Rightarrow> string list" where
  "invoked [] = []"
| "invoked (Asked rq # es) = invoked es"
| "invoked (Invoked n a # es) = n # invoked es"

definition watch_model :: "'w invoker \<Rightarrow> ('w \<times> effect list) invoker" where
  "watch_model model rq wl = (let (r, w) = model rq (fst wl) in (r, (w, snd wl @ [Asked rq])))"

definition watched :: "'w agent \<Rightarrow> ('w \<times> effect list) agent" where
  "watched ag =
     \<lparr> ag_workspace = ag_workspace ag, ag_printable = ag_printable ag, ag_marshal = ag_marshal ag,
       ag_tool_definitions = ag_tool_definitions ag,
       ag_invoke = (\<lambda>tx name args wl.
         let (r, w) = ag_invoke ag tx name args (fst wl) in (r, (w, snd wl @ [Invoked name args]))),
       ag_default_model = ag_default_model ag,
       ag_resolve = (\<lambda>m. map_sum id (map_prod watch_model id) (ag_resolve ag m)),
       ag_reader = (\<lambda>wl. ag_reader ag (fst wl)),
       ag_system_prompt = (\<lambda>event now wl. let (p, w) = ag_system_prompt ag event now (fst wl) in (p, (w, snd wl))),
       ag_write_daily = (\<lambda>src note now chan wl. (ag_write_daily ag src note now chan (fst wl), snd wl)),
       ag_write_curated = (\<lambda>note now chan wl. (ag_write_curated ag note now chan (fst wl), snd wl)),
       ag_payloads = ag_payloads ag \<rparr>"

lemma asked_append [simp]: "asked (xs @ ys) = asked xs @ asked ys"
  by (induction xs rule: asked.induct) auto

lemma invoked_append [simp]: "invoked (xs @ ys) = invoked xs @ invoked ys"
  by (induction xs rule: invoked.induct) auto

lemma watched_simps [simp]:
  "ag_workspace (watched ag) = ag_workspace ag" "ag_printable (watched ag) = ag_printable ag"
  "ag_marshal (watched ag) = ag_marshal ag" "ag_tool_definitions (watched ag) = ag_tool_definitions ag"
  "ag_default_model (watched ag) = ag_default_model ag" "ag_payloads (watched ag) = ag_payloads ag"
  "ag_reader (watched ag) wl = ag_reader ag (fst wl)"
  "ag_resolve (watched ag) m = map_sum id (map_prod watch_model id) (ag_resolve ag m)"
  "assemble_tools (watched ag) allowed = assemble_tools ag allowed"
  by (simp_all add: watched_def assemble_tools_def)

section \<open>Watching changes nothing\<close>

definition forget_state :: "('w \<times> 'e) loop_state \<Rightarrow> 'w loop_state" where
  "forget_state st = \<lparr> ls_world = fst (ls_world st), ls_messages = ls_messages st, ls_chat = ls_chat st,
     ls_trace = ls_trace st, ls_counts = ls_counts st, ls_sink = ls_sink st, ls_seq = ls_seq st,
     ls_usage = ls_usage st \<rparr>"

definition forget_result :: "('w \<times> 'e) run_result \<Rightarrow> 'w run_result" where
  "forget_result r = \<lparr> rr_output = rr_output r, rr_error = rr_error r, rr_sink = rr_sink r, rr_seq = rr_seq r,
     rr_world = fst (rr_world r) \<rparr>"

lemma forget_state_simps [simp]:
  "ls_world (forget_state st) = fst (ls_world st)" "ls_messages (forget_state st) = ls_messages st"
  "ls_chat (forget_state st) = ls_chat st" "ls_trace (forget_state st) = ls_trace st"
  "ls_counts (forget_state st) = ls_counts st" "ls_sink (forget_state st) = ls_sink st"
  "ls_seq (forget_state st) = ls_seq st" "ls_usage (forget_state st) = ls_usage st"
  by (simp_all add: forget_state_def)

lemma forget_state_updates [simp]:
  "forget_state (st\<lparr>ls_world := v\<rparr>) = (forget_state st)\<lparr>ls_world := fst v\<rparr>"
  "forget_state (st\<lparr>ls_messages := m\<rparr>) = (forget_state st)\<lparr>ls_messages := m\<rparr>"
  "forget_state (st\<lparr>ls_chat := c\<rparr>) = (forget_state st)\<lparr>ls_chat := c\<rparr>"
  "forget_state (st\<lparr>ls_trace := t\<rparr>) = (forget_state st)\<lparr>ls_trace := t\<rparr>"
  "forget_state (st\<lparr>ls_counts := k\<rparr>) = (forget_state st)\<lparr>ls_counts := k\<rparr>"
  "forget_state (st\<lparr>ls_sink := s\<rparr>) = (forget_state st)\<lparr>ls_sink := s\<rparr>"
  "forget_state (st\<lparr>ls_seq := q\<rparr>) = (forget_state st)\<lparr>ls_seq := q\<rparr>"
  "forget_state (st\<lparr>ls_usage := u\<rparr>) = (forget_state st)\<lparr>ls_usage := u\<rparr>"
  by (simp_all add: forget_state_def)

lemma forget_sink_emit: "forget_state (sink_emit sink c st) = sink_emit sink c (forget_state st)"
  by (simp add: sink_emit_def forget_state_def Let_def split: option.splits)

lemma forget_sink_emits:
  "forget_state (fold (sink_emit sink \<circ> delta_call) ds st) = fold (sink_emit sink \<circ> delta_call) ds (forget_state st)"
  by (induction ds arbitrary: st) (simp_all add: forget_sink_emit)

lemma forget_ask_model:
  "map_prod id forget_state (ask_model (watched ag) (watch_model model) name defs sink st) =
     ask_model ag model name defs sink (forget_state st)"
  by (simp add: ask_model_def watch_model_def forget_sink_emits split: prod.splits)

lemma forget_push_calls: "forget_state (push_calls opts res st) = push_calls opts res (forget_state st)"
  by (simp add: push_calls_def)

text \<open>Whether the policy lets a call through to the tool.\<close>

definition invokes :: "'w agent \<Rightarrow> internal_event \<Rightarrow> string list \<Rightarrow> tool_call \<Rightarrow> (string \<Rightarrow> nat) \<Rightarrow> bool" where
  "invokes ag event allowed call counts =
     (tool_allowed (tc_name call) allowed \<and>
      (equal_fold (trim_space (payload_type (payload event))) ''cron_fire'' \<longrightarrow>
         cron_fire_tool_policy_error (ag_printable ag) call counts = None))"

lemma invokes_watched [simp]: "invokes (watched ag) event allowed call counts = invokes ag event allowed call counts"
  by (simp add: invokes_def)

lemma run_tool_watched:
  "run_tool (watched ag) event allowed call counts wl =
     (let (r, c, w) = run_tool ag event allowed call counts (fst wl)
      in (r, c, (w, snd wl @ (if invokes ag event allowed call counts then [Invoked (tc_name call) (tc_args call)] else []))))"
  by (simp add: run_tool_def invokes_def Let_def watched_def [of ag] split: option.splits prod.splits)

text \<open>What a call of the sink does to the trace.\<close>

definition emit_trace :: "stream_sink \<Rightarrow> sink_call \<Rightarrow> api_run_trace \<Rightarrow> api_run_trace" where
  "emit_trace sink c t = (case Option.bind sink (\<lambda>panics. panics c) of None \<Rightarrow> t
     | Some v \<Rightarrow> t\<lparr>rt_diagnostics := map_put (''stream_sink.'' @ sink_call_kind c) (''panic: '' @ v) (rt_diagnostics t)\<rparr>)"

lemma ls_trace_sink_emit: "ls_trace (sink_emit sink c st) = emit_trace sink c (ls_trace st)"
  by (simp add: sink_emit_def emit_trace_def Let_def split: option.splits)

lemma forget_tool_step:
  "forget_state (tool_step (watched ag) event opts sink now call st) = tool_step ag event opts sink now call (forget_state st)"
  by (simp add: tool_step_def run_tool_watched forget_sink_emit ls_trace_sink_emit Let_def split: prod.splits)

lemma forget_tool_steps:
  "forget_state (fold (tool_step (watched ag) event opts sink now) calls st) =
     fold (tool_step ag event opts sink now) calls (forget_state st)"
  by (induction calls arbitrary: st) (simp_all add: forget_tool_step)

lemma forget_llm_rounds:
  "map_prod id forget_state (llm_rounds (watched ag) (watch_model model) name defs event opts sink now left st) =
     llm_rounds ag model name defs event opts sink now left (forget_state st)"
proof (induction left arbitrary: st)
  case 0
  obtain r st1 where a: "ask_model (watched ag) (watch_model model) name defs sink st = (r, st1)" by fastforce
  have b: "ask_model ag model name defs sink (forget_state st) = (r, forget_state st1)"
    using forget_ask_model [of ag model name defs sink st] a by simp
  show ?case by (cases r) (simp_all add: llm_rounds.simps [of _ _ _ _ _ _ _ _ 0] a b Let_def)
next
  case (Suc k)
  obtain r st1 where a: "ask_model (watched ag) (watch_model model) name defs sink st = (r, st1)" by fastforce
  have b: "ask_model ag model name defs sink (forget_state st) = (r, forget_state st1)"
    using forget_ask_model [of ag model name defs sink st] a by simp
  show ?case
    by (cases r) (simp_all add: llm_rounds.simps [of _ _ _ _ _ _ _ _ "Suc k"] a b Let_def Suc.IH [unfolded id_def] forget_tool_steps forget_push_calls)
qed

lemma forget_run_finished:
  "forget_result (run_finished opts now finish reply res st) = run_finished opts now finish reply res (forget_state st)"
  by (simp add: run_finished_def forget_result_def Let_def)

lemma forget_run_failed:
  "forget_result (run_failed opts ms t err calls n w) = run_failed opts ms t err calls n (fst w)"
  by (simp add: run_failed_def forget_result_def)

lemma forget_llm_start:
  "forget_state (llm_start (watched ag) event now trace opts ctx n wl) = llm_start ag event now trace opts ctx n (fst wl)"
  by (simp add: llm_start_def watched_def forget_state_def split: prod.splits)

lemma forget_llm_execute:
  "forget_result (llm_execute (watched ag) event max_rounds now finish trace sink opts n wl) =
     llm_execute ag event max_rounds now finish trace sink opts n (fst wl)"
proof (cases "ag_resolve ag (ag_default_model ag)")
  case (Inl e)
  then show ?thesis by (simp add: llm_execute_def forget_run_failed)
next
  case (Inr mn)
  obtain model name where mn: "mn = (model, name)" by fastforce
  show ?thesis
  proof (cases "load_context (ag_reader ag (fst wl)) (active_session_id event) (payload_text (payload event))")
    case (Inl e)
    with Inr mn show ?thesis by (simp add: llm_execute_def forget_run_failed)
  next
    case ctx: (Inr ctx)
    let ?defs = "assemble_tools ag (lo_allowed_tools opts)"
    let ?st = "llm_start (watched ag) event now trace opts ctx n wl"
    obtain r st where run: "llm_rounds (watched ag) (watch_model model) name ?defs event opts sink now (nat max_rounds) ?st = (r, st)"
      by fastforce
    have "llm_rounds ag model name ?defs event opts sink now (nat max_rounds) (llm_start ag event now trace opts ctx n (fst wl)) =
        (r, forget_state st)"
      using forget_llm_rounds [of ag model name ?defs event opts sink now "nat max_rounds" ?st]
      by (simp add: run forget_llm_start)
    with run Inr mn ctx show ?thesis
      by (cases r) (auto simp: llm_execute_def forget_run_failed forget_run_finished forget_llm_start Let_def)
  qed
qed

theorem watched_run:
  "forget_result (run_agent (watched ag) event max_rounds start finish sink n (w, l)) =
     run_agent ag event max_rounds start finish sink n w"
proof -
  have m: "forget_result (memory_execute (watched ag) event start finish t p n (w, l)) =
      memory_execute ag event start finish t p n w" for t p
    by (cases "pl_memory_write_target p") (simp_all add: memory_execute_def forget_result_def Let_def watched_def)
  have s: "forget_result (run_new_session event start finish t n (w, l)) = run_new_session event start finish t n w" for t
    by (simp add: run_new_session_def forget_result_def Let_def)
  show ?thesis
    by (cases "ag_payloads ag")
      (simp_all add: run_agent_def run_with_plan_def m s forget_llm_execute Let_def, simp_all add: forget_result_def)
qed

section \<open>How often the model is asked\<close>

abbreviation log_of :: "('w \<times> effect list) loop_state \<Rightarrow> effect list" where
  "log_of st \<equiv> snd (ls_world st)"

lemma ask_model_log:
  "log_of (snd (ask_model (watched ag) (watch_model model) name defs sink st)) =
     log_of st @ [Asked \<lparr> mq_model = name, mq_messages = ls_chat st, mq_tools = defs \<rparr>]"
  by (simp add: ask_model_def watch_model_def split: prod.splits)

lemma tool_step_world:
  "ls_world (tool_step ag event opts sink now call st) =
     snd (snd (run_tool ag event (lo_allowed_tools opts) call (ls_counts st) (ls_world st)))"
  "ls_counts (tool_step ag event opts sink now call st) =
     fst (snd (run_tool ag event (lo_allowed_tools opts) call (ls_counts st) (ls_world st)))"
  by (simp_all add: tool_step_def Let_def split: prod.splits)

lemma tool_step_log:
  "log_of (tool_step (watched ag) event opts sink now call st) =
     log_of st @ (if invokes ag event (lo_allowed_tools opts) call (ls_counts st) then [Invoked (tc_name call) (tc_args call)] else [])"
  by (simp add: tool_step_world run_tool_watched split: prod.splits)

lemma tool_steps_asked:
  "asked (log_of (fold (tool_step (watched ag) event opts sink now) calls st)) = asked (log_of st)"
  by (induction calls arbitrary: st) (simp_all add: tool_step_log)

lemma llm_rounds_asked:
  "length (asked (log_of (snd (llm_rounds (watched ag) (watch_model model) name defs event opts sink now left st))))
     \<le> length (asked (log_of st)) + Suc left"
proof (induction left arbitrary: st)
  case 0
  obtain r st1 where a: "ask_model (watched ag) (watch_model model) name defs sink st = (r, st1)" by fastforce
  then show ?case
    using ask_model_log [of ag model name defs sink st]
    by (cases r) (simp_all add: llm_rounds.simps [of _ _ _ _ _ _ _ _ 0] Let_def)
next
  case (Suc k)
  obtain r st1 where a: "ask_model (watched ag) (watch_model model) name defs sink st = (r, st1)" by fastforce
  then have log: "asked (log_of st1) = asked (log_of st) @ [\<lparr> mq_model = name, mq_messages = ls_chat st, mq_tools = defs \<rparr>]"
    using ask_model_log [of ag model name defs sink st] by simp
  show ?case
  proof (cases r)
    case (Inr res)
    let ?st = "fold (tool_step (watched ag) event opts sink now) (mr_tool_calls res)
      (push_calls opts res (st1\<lparr>ls_usage := add_usage (ls_usage st1) (mr_usage res)\<rparr>))"
    have "length (asked (log_of ?st)) = Suc (length (asked (log_of st)))"
      by (simp add: tool_steps_asked log)
    then show ?thesis
      using Suc.IH [of ?st] Inr by (auto simp: llm_rounds.simps [of _ _ _ _ _ _ _ _ "Suc k"] a Let_def log)
  qed (simp add: llm_rounds.simps [of _ _ _ _ _ _ _ _ "Suc k"] a log)
qed

lemma llm_start_log [simp]:
  "log_of (llm_start (watched ag) event now trace opts ctx n wl) = snd wl"
  by (simp add: llm_start_def watched_def split: prod.splits)

text \<open>A way to prove things of the log of a run from what holds at its start and after the loop.\<close>

lemma watched_execute_log:
  assumes "Q (snd wl)"
    and "\<And>ctx model name k. k = nat max_rounds \<Longrightarrow> Q (log_of (snd (llm_rounds (watched ag) (watch_model model) name
      (assemble_tools ag (lo_allowed_tools opts)) event opts sink now k (llm_start (watched ag) event now trace opts ctx n wl))))"
  shows "Q (snd (rr_world (llm_execute (watched ag) event max_rounds now finish trace sink opts n wl)))"
proof (cases rule: llm_execute_cases [of "watched ag" event max_rounds now finish trace sink opts n wl])
  case (early err)
  then show ?thesis using assms(1) by (simp add: run_failed_def)
next
  case (failed ctx m name st err)
  then obtain model where "m = watch_model model" by (cases "ag_resolve ag (ag_default_model ag)") auto
  then show ?thesis unfolding failed(4) using assms(2) by (simp add: run_failed_def failed(3))
next
  case (unasked ctx)
  then show ?thesis using assms(1) by (simp add: run_finished_def Let_def)
next
  case (finished ctx m name st reply res)
  then obtain model where "m = watch_model model" by (cases "ag_resolve ag (ag_default_model ag)") auto
  then show ?thesis unfolding finished(4) using assms(2) by (simp add: run_finished_def Let_def finished(3))
qed

lemma watched_memory_log [simp]:
  "snd (rr_world (memory_execute (watched ag) event now finish trace p n wl)) = snd wl"
  by (cases "pl_memory_write_target p") (simp_all add: memory_execute_def Let_def watched_def)

text \<open>
  C30: A run asks the model at most once more than it allows rounds with tools, so the loop ends
  however the model answers.
\<close>

theorem model_calls_bounded:
  "length (asked (snd (rr_world (run_agent (watched ag) event max_rounds start finish sink n (w, []))))) \<le> Suc (nat max_rounds)"
proof -
  have "length (asked (snd (rr_world (llm_execute (watched ag) event max_rounds start finish t s opts n (w, []))))) \<le> Suc (nat max_rounds)"
    for t s opts
  proof (rule watched_execute_log [where Q = "\<lambda>l. length (asked l) \<le> Suc (nat max_rounds)"])
    fix ctx model name k
    assume "k = nat max_rounds"
    then show "length (asked (log_of (snd (llm_rounds (watched ag) (watch_model model) name (assemble_tools ag (lo_allowed_tools opts))
        event opts s start k (llm_start (watched ag) event start t opts ctx n (w, [])))))) \<le> Suc (nat max_rounds)"
      using llm_rounds_asked [of ag model name "assemble_tools ag (lo_allowed_tools opts)" event opts s start k
          "llm_start (watched ag) event start t opts ctx n (w, [])"] by simp
  qed simp
  then show ?thesis
    by (auto simp: run_agent_def run_new_session_def run_with_plan_def Let_def split: option.splits)
qed

section \<open>Which tools a scheduled run calls\<close>

text \<open>
  In a run of type cron_fire the counts are those of the calls the tools got, none above its
  budget of one, and only the tools of the plan are called.
\<close>

definition cron_bounded :: "('w \<times> effect list) loop_state \<Rightarrow> bool" where
  "cron_bounded st =
     (ls_counts st = count_list (invoked (log_of st)) \<and> (\<forall>t. count_list (invoked (log_of st)) t \<le> 1) \<and>
      set (invoked (log_of st)) \<subseteq> set cron_fire_allowed_tools)"

lemma cron_policy_budget:
  assumes "cron_fire_tool_policy_error printable call counts = None" "tc_name call \<in> set cron_fire_allowed_tools"
  shows "counts (tc_name call) = 0"
  using assms
  by (auto simp: cron_fire_tool_policy_error_def cron_fire_tool_budgets_def cron_fire_allowed_tools_def
      split: if_splits)

lemma run_tool_counts:
  assumes "equal_fold (trim_space (payload_type (payload event))) ''cron_fire''"
  shows "fst (snd (run_tool ag event allowed call counts w)) =
     (if invokes ag event allowed call counts then counts(tc_name call := Suc (counts (tc_name call))) else counts)"
  using assms by (simp add: run_tool_def invokes_def Let_def split: option.splits prod.splits)

lemma tool_step_cron:
  assumes cron: "equal_fold (trim_space (payload_type (payload event))) ''cron_fire''"
    and allowed: "lo_allowed_tools opts = cron_fire_allowed_tools"
    and ok: "cron_bounded st"
  shows "cron_bounded (tool_step (watched ag) event opts sink now call st)"
proof (cases "invokes ag event cron_fire_allowed_tools call (ls_counts st)")
  case True
  then have "tc_name call \<in> set cron_fire_allowed_tools"
      "cron_fire_tool_policy_error (ag_printable ag) call (ls_counts st) = None"
    using cron by (auto simp: invokes_def tool_allowed_def cron_fire_allowed_tools_def)
  moreover from this have "ls_counts st (tc_name call) = 0" by (intro cron_policy_budget)
  moreover have "ls_counts (tool_step (watched ag) event opts sink now call st) =
      (ls_counts st)(tc_name call := Suc (ls_counts st (tc_name call)))"
    using True allowed by (simp add: tool_step_world run_tool_counts [OF cron])
  ultimately show ?thesis
    using ok True allowed by (auto simp: cron_bounded_def tool_step_log fun_eq_iff)
next
  case False
  moreover from this have "ls_counts (tool_step (watched ag) event opts sink now call st) = ls_counts st"
    using allowed by (simp add: tool_step_world run_tool_counts [OF cron])
  ultimately show ?thesis using ok allowed by (simp add: cron_bounded_def tool_step_log)
qed

lemma llm_rounds_cron:
  assumes cron: "equal_fold (trim_space (payload_type (payload event))) ''cron_fire''"
    and allowed: "lo_allowed_tools opts = cron_fire_allowed_tools"
    and start: "cron_bounded st"
  shows "cron_bounded (snd (llm_rounds (watched ag) (watch_model model) name defs event opts sink now left st))"
proof (rule llm_rounds_rule [where P = cron_bounded])
  fix st r st'
  assume "cron_bounded st" "ask_model (watched ag) (watch_model model) name defs sink st = (r, st')"
  then show "cron_bounded st'"
    using ask_model_log [of ag model name defs sink st] by (simp add: cron_bounded_def ask_model_frame(3))
next
  fix st :: "('a \<times> effect list) loop_state" and u
  assume "cron_bounded st"
  then show "cron_bounded (st\<lparr>ls_usage := u\<rparr>)" by (simp add: cron_bounded_def)
next
  fix res and st :: "('a \<times> effect list) loop_state"
  have "cron_bounded (fold (tool_step (watched ag) event opts sink now) calls st)" if "cron_bounded st"
    for calls and st :: "('a \<times> effect list) loop_state"
    using that by (induction calls arbitrary: st) (simp_all add: tool_step_cron [OF cron allowed])
  moreover assume "cron_bounded st"
  then have "cron_bounded (push_calls opts res st)" by (simp add: cron_bounded_def)
  ultimately show "cron_bounded (tool_round (watched ag) event opts sink now res st)"
    by (simp add: tool_round_def)
qed (rule start)

lemma distinct_count_list: "(\<And>x. count_list xs x \<le> 1) \<Longrightarrow> distinct xs"
proof (induction xs)
  case (Cons x xs)
  have "count_list xs y \<le> 1" for y using Cons.prems [of y] by (simp split: if_splits)
  moreover have "count_list xs x = 0" using Cons.prems [of x] by simp
  ultimately show ?case using Cons.IH by (simp add: count_list_0_iff)
qed simp


section \<open>What the model is asked\<close>

text \<open>
  \<open>called\<close>: every tool message answers a tool call of an assistant message before it, which the
  interfaces of chat models require.
\<close>

fun called :: "string list \<Rightarrow> model_message list \<Rightarrow> bool" where
  "called ids [] = True"
| "called ids (m # ms) =
     ((if mm_role m = ''tool'' then mm_tool_call_id m \<in> set ids else True) \<and>
      called (map tc_id (mm_tool_calls m) @ ids) ms)"

fun call_ids :: "model_message list \<Rightarrow> string list" where
  "call_ids [] = []"
| "call_ids (m # ms) = call_ids ms @ map tc_id (mm_tool_calls m)"

lemma called_append: "called ids (xs @ ys) \<longleftrightarrow> called ids xs \<and> called (call_ids xs @ ids) ys"
  by (induction xs arbitrary: ids) auto

lemma chat_message_simps [simp]:
  "mm_role (chat_message role content i calls) = role"
  "mm_tool_call_id (chat_message role content i calls) = i"
  "mm_tool_calls (chat_message role content i calls) = calls"
  by (simp_all add: chat_message_def)

lemma call_ids_append [simp]: "call_ids (xs @ ys) = call_ids ys @ call_ids xs"
  by (induction xs) auto

lemma history_chat_called: "set pending \<subseteq> set ids \<Longrightarrow> called ids (history_chat pending hs)"
proof (induction pending hs arbitrary: ids rule: history_chat.induct)
  case (2 pending m ms)
  show ?case
  proof (cases "should_skip_prompt_history_payload_type (map_of (hm_meta m) ''payload_type'')")
    case False
    consider "hm_role m = ''assistant''" | "hm_role m = ''tool''" | "hm_role m \<notin> {''assistant'', ''tool''}" by blast
    then show ?thesis
    proof cases
      case 1
      have "set (filter (\<lambda>i. trim_space i \<noteq> []) (map tc_id (hm_tool_calls m)) @ pending)
          \<subseteq> set (map tc_id (hm_tool_calls m) @ ids)" using "2.prems" by auto
      with 1 2 False show ?thesis by simp
    next
      case 2
      have "set (removeAll (hm_tool_call_id m) pending) \<subseteq> set ids" using "2.prems" by auto
      with 2 "2.IH"(4,5) "2.prems" False show ?thesis by auto
    next
      case 3
      with "2.IH"(6) "2.prems" False show ?thesis by auto
    qed
  qed (use 2 in simp)
qed simp

definition answerable :: "('w \<times> effect list) loop_state \<Rightarrow> bool" where
  "answerable st = (called [] (ls_chat st) \<and> list_all (\<lambda>rq. called [] (mq_messages rq)) (asked (log_of st)))"

lemma tool_step_chat:
  "\<exists>content. ls_chat (tool_step ag event opts sink now call st) = ls_chat st @ [chat_message ''tool'' content (tc_id call) []]"
  by (auto simp: tool_step_def Let_def split: prod.splits)

lemma tool_steps_chat:
  "called ids (ls_chat st) \<Longrightarrow> set (map tc_id calls) \<subseteq> set (call_ids (ls_chat st)) \<Longrightarrow>
     called ids (ls_chat (fold (tool_step ag event opts sink now) calls st))"
proof (induction calls arbitrary: st)
  case (Cons c cs)
  obtain content where "ls_chat (tool_step ag event opts sink now c st) = ls_chat st @ [chat_message ''tool'' content (tc_id c) []]"
    using tool_step_chat by blast
  then show ?case using Cons.prems Cons.IH [of "tool_step ag event opts sink now c st"] by (simp add: called_append)
qed simp

lemma llm_rounds_answerable:
  assumes "answerable st"
  shows "answerable (snd (llm_rounds (watched ag) (watch_model model) name defs event opts sink now left st))"
proof (rule llm_rounds_rule [where P = answerable])
  fix st r st'
  assume "answerable st" "ask_model (watched ag) (watch_model model) name defs sink st = (r, st')"
  then show "answerable st'"
    using ask_model_log [of ag model name defs sink st] by (simp add: answerable_def ask_model_frame(2))
next
  fix res and st :: "('a \<times> effect list) loop_state"
  assume ok: "answerable st"
  let ?st = "push_calls opts res st"
  have "called [] (ls_chat (fold (tool_step (watched ag) event opts sink now) (mr_tool_calls res) ?st))"
    by (rule tool_steps_chat) (use ok in \<open>auto simp: answerable_def called_append\<close>)
  then show "answerable (tool_round (watched ag) event opts sink now res st)"
    using ok by (simp add: answerable_def tool_round_def tool_steps_asked)
qed (use assms in \<open>simp_all add: answerable_def\<close>)

lemma llm_start_chat: "called [] (ls_chat (llm_start ag event now trace opts ctx n w))"
  by (simp add: llm_start_def assemble_chat_def called_append history_to_chat_messages_def history_chat_called split: prod.splits)

text \<open>
  In every request the model gets, from the stored history to the last round, every tool
  message answers a tool call of an assistant message before it.
\<close>

theorem requests_answerable:
  "list_all (\<lambda>rq. called [] (mq_messages rq))
     (asked (snd (rr_world (run_agent (watched ag) event max_rounds start finish sink n (w, [])))))"
proof -
  let ?Q = "\<lambda>l. list_all (\<lambda>rq. called [] (mq_messages rq)) (asked l)"
  have "?Q (snd (rr_world (llm_execute (watched ag) event max_rounds start finish t s opts n (w, []))))" for t s opts
  proof (rule watched_execute_log [where Q = ?Q])
    fix ctx model name k
    let ?st = "llm_start (watched ag) event start t opts ctx n (w, [])"
    have "answerable ?st" by (simp add: answerable_def llm_start_chat)
    from llm_rounds_answerable [OF this]
    show "?Q (log_of (snd (llm_rounds (watched ag) (watch_model model) name (assemble_tools ag (lo_allowed_tools opts))
       event opts s start k ?st)))" by (simp add: answerable_def)
  qed simp
  then show ?thesis
    by (auto simp: run_agent_def run_new_session_def run_with_plan_def Let_def split: option.splits)
qed

section \<open>An agent at work\<close>

text \<open>
  A model that first calls three tools, one of them twice and one that is not allowed, and then
  answers; its world counts its calls.
\<close>

definition demo_call :: "string \<Rightarrow> string \<Rightarrow> tool_call" where
  "demo_call i name = \<lparr> tc_id = i, tc_name = name, tc_args = [] \<rparr>"

definition demo_model :: "nat invoker" where
  "demo_model rq w =
     (([TextDelta ''...''],
       Inr (if w = 0
            then zero_result\<lparr>mr_tool_calls := [demo_call ''1'' ''memory_search'', demo_call ''2'' ''memory_search'',
                                              demo_call ''3'' ''workspace_delete'']\<rparr>
            else zero_result\<lparr>mr_text := ''done''\<rparr>)), Suc w)"

definition demo_agent :: "nat agent" where
  "demo_agent = \<lparr> ag_workspace = ''/w'', ag_printable = (\<lambda>_. True), ag_marshal = (\<lambda>_. None), ag_tool_definitions = [],
     ag_invoke = (\<lambda>tx name args w. (\<lparr> tr_disabled = False, tr_output = [], tr_error = None \<rparr>, w)),
     ag_default_model = ''m'', ag_resolve = (\<lambda>m. Inr (demo_model, m)),
     ag_reader = (\<lambda>w. \<lparr> cr_load_prompt_history = (\<lambda>s k. Inr []), cr_search_rag_hits = (\<lambda>s q k. Inr []) \<rparr>),
     ag_system_prompt = (\<lambda>e t w. (''system'', w)), ag_write_daily = (\<lambda>a b c d w. w), ag_write_curated = (\<lambda>a b c w. w),
     ag_payloads = Some builtin_registry \<rparr>"

definition demo_cron_event :: internal_event where
  "demo_cron_event = \<lparr> event_id = ''e'', source = ''cron'', tenant_id = [], scopes = [],
     ie_conversation = \<lparr> conversation_id = ''c'', thread_id = [], channel_type = ''cron'', participant_id = [] \<rparr>,
     session_key = ''k'', idempotency_key = ''i'', timestamp = 0,
     payload = \<lparr> payload_type = ''cron_fire'', payload_text = ''go'', mentions = [], attachments = [], native = None,
                 native_ref = [], extra = [] \<rparr>,
     active_session_id = ''s'' \<rparr>"


end
