(* ===== verification/Adapter_System.thy ===== *)
theory Adapter_System
  imports Kernel_Adapter Kernel_Facts Agent_Watch
begin

text \<open>
  The agent behind the kernel, on the database: its runs publish no terminal event of their own, a
  silent run leaves nothing a user sees, and a reply to a Telegram message goes to the chat the
  message came from.
\<close>

section \<open>What a run publishes\<close>

lemma sink_event_kind:
  "sink_event claim now c = Some e \<Longrightarrow> re_kind e \<in>
     {RuntimeEventReasoningDelta, RuntimeEventTextDelta, RuntimeEventToolStarted, RuntimeEventToolFinished} \<and>
     re_event_id e = event_id (cc_event claim) \<and> re_run_id e = cc_run_id claim"
  by (cases c) (auto simp: blank_runtime_event_def kernel_event_def split: if_splits)

lemma sink_events_not_terminal: "list_all (\<lambda>e. \<not> is_terminal e) (sink_events claim stamps calls)"
proof -
  have "\<not> is_terminal e" if "sink_event claim now c = Some e" for now c e
    using sink_event_kind [OF that] by (auto simp: is_terminal_def)
  then show ?thesis by (auto simp: list_all_iff sink_events_def List.map_filter_def)
qed

lemma sink_events_Nil [simp]: "sink_events claim stamps [] = []"
  by (simp add: sink_events_def List.map_filter_def)

lemma runner_executor_events:
  "snd (kernel_execute (runner_executor ag m clk n w) c) =
     sink_events c (rk_stamps clk)
       (rr_sink (run_agent ag (cc_event c) (normalize_max_tool_rounds m) (rk_start clk) (rk_finish clk) (Some (\<lambda>_. None)) n w))"
  by (simp add: kernel_execute_def runner_executor_def Let_def split: prod.splits)

lemma runner_executor_not_terminal:
  "list_all (\<lambda>e. \<not> is_terminal e) (snd (kernel_execute (runner_executor ag m clk n w) c))"
  unfolding runner_executor_events by (rule sink_events_not_terminal)

section \<open>Silent runs on the database\<close>

lemma silent_translation:
  assumes "silent r"
  shows "translate_output printable claim (rr_output r) = (translated_result claim (rr_output r), None)"
  using assms by (simp add: silent_def translate_output_def Let_def)

lemma stored_messages_hidden:
  "list_all (\<lambda>m. \<not> ou_visible m) ms \<Longrightarrow>
     list_all (\<lambda>m. \<not> sm_visible m) (stored_messages now n claim (map stored_output ms))"
  by (induction ms arbitrary: n) (auto simp: stored_output_def)

lemma message_rows_hidden:
  "list_all (\<lambda>m. \<not> sm_visible m) ms \<Longrightarrow> list_all (\<lambda>m. ms_visible m = 0) (message_rows n ms)"
  by (induction ms arbitrary: n) (auto simp: new_message_row_def bool_to_int_def)

lemma builtin_run_silent:
  assumes "ag_payloads ag = Some builtin_registry"
    and "payload_type (payload event) \<in> {''memory_flush'', ''compaction'', ''cron_fire''}"
  shows "silent (run_agent ag event m start finish sink n w)"
proof -
  have "payload_type (payload event) \<noteq> ''new_session''" using assms(2) by auto
  then show ?thesis
    using assms run_with_plan_silent [OF builtin_silent_plans [OF assms(2)]]
    by (simp add: run_agent_def Let_def)
qed

lemma silent_finalize:
  assumes "silent r" and "translate_output printable claim (rr_output r) = (result, conv)"
    and "result' = result \<or> result' = result\<lparr>er_run_mode := mode\<rparr>"
  shows "\<not> delivers (build_finalize now n claim result' err) \<and>
    list_all (\<lambda>m. \<not> sm_visible m) (fc_messages (build_finalize now n claim result' err))"
proof -
  have r: "result = translated_result claim (rr_output r)" using assms silent_translation by fastforce
  then have "er_delivery result' = None" "er_output_messages result' = map stored_output (ro_messages (rr_output r))"
    using assms(3) by (auto simp: translated_result_def Let_def)
  moreover have "list_all (\<lambda>m. \<not> ou_visible m) (ro_messages (rr_output r))" using assms(1) by (simp add: silent_def)
  ultimately show ?thesis
    by (auto simp: build_finalize_claim stored_messages_hidden delivers_def)
      (auto simp: build_finalize_def finalize_base_def Let_def split: option.splits if_splits)
qed

lemma claim_work_payload:
  assumes "claim_work flt w run_id now d = (Inr (Some c), d')"
  obtains e where "e \<in> set (db_events d)" "ev_event_id e = wi_event_id w" "payload (cc_event c) = ev_payload e"
    "db_outbox d' = db_outbox d" "db_messages d' = db_messages d"
proof -
  obtain r0 where r0: "claim_event flt (wi_event_id w) run_id now d = (r0, d')"
    using assms by (auto simp: claim_work_def Let_def split: prod.splits sum.splits option.splits)
  then obtain c0 where c0: "r0 = Inr (Some c0)" "cc_event c = cc_event c0"
    using assms by (auto simp: claim_work_def Let_def split: sum.splits option.splits)
  have "claim_event_tx (wi_event_id w) run_id now d = Inr (c0, d')"
    by (rule claim_event_cases [OF r0]) (use c0 in auto)
  then show ?thesis
    by (rule claim_event_tx_InrD) (rule that, use c0(2) in \<open>auto simp: claimed_context_def\<close>)
qed

lemma claim_work_frame:
  assumes "claim_work flt w run_id now d = (r, d')"
  shows "db_outbox d' = db_outbox d \<and> db_messages d' = db_messages d"
proof -
  obtain r0 where r0: "claim_event flt (wi_event_id w) run_id now d = (r0, d')"
    using assms by (auto simp: claim_work_def Let_def split: prod.splits sum.splits option.splits)
  show ?thesis by (rule claim_event_cases [OF r0]) (auto elim!: claim_event_tx_InrD)
qed

lemma finalize_silent:
  assumes "\<not> delivers cmd" "list_all (\<lambda>m. \<not> sm_visible m) (fc_messages cmd)" "finalize flt cmd d = (r, d')"
  shows "db_outbox d' = db_outbox d \<and> (\<exists>ms. db_messages d' = db_messages d @ ms \<and> list_all (\<lambda>m. ms_visible m = 0) ms)"
proof (cases r)
  case (Inl e)
  then have "d' = d" using assms(3) by (auto simp: finalize_def dest: with_writer_tx_Inl)
  then show ?thesis by auto
next
  case (Inr u)
  then have "finalize_tx cmd d = Inr ((), d')" using assms(3) by (auto simp: finalize_def dest: with_writer_tx_InrD)
  then show ?thesis
    by (rule finalize_tx_InrD) (use assms(1,2) message_rows_hidden in \<open>auto simp: frame\<close>)
qed

text \<open>The kinds of the events of the kernel itself.\<close>

definition lifecycle_kinds :: "runtime_event_kind list" where
  "lifecycle_kinds = [RuntimeEventClaimed, RuntimeEventExecuting, RuntimeEventFinalizeStarted, RuntimeEventCompleted, RuntimeEventFailed]"

lemma kernel_event_kind [simp]: "re_kind (kernel_event kind c status message now) = kind"
  by (simp add: kernel_event_def)

lemma process_claimed_silent:
  assumes "ag_payloads ag = Some builtin_registry"
    and "payload_type (payload (cc_event c)) \<in> {''memory_flush'', ''compaction'', ''cron_fire''}"
    and "process_claimed (db_facts flt etext) (runner_executor ag m rclk k w) clk n c d = (pr, d')"
  shows "db_outbox d' = db_outbox d \<and> (\<exists>ms. db_messages d' = db_messages d @ ms \<and> list_all (\<lambda>m. ms_visible m = 0) ms) \<and>
    list_all (\<lambda>e. re_kind e \<in> set lifecycle_kinds) (pz_events pr)"
proof -
  let ?ex = "runner_executor ag m rclk k w"
  define r where "r = run_agent ag (cc_event c) (normalize_max_tool_rounds m) (rk_start rclk) (rk_finish rclk) (Some (\<lambda>_. None)) k w"
  have r: "silent r" unfolding r_def by (rule builtin_run_silent [OF assms(1,2)])
  obtain result conv where t: "translate_output (ag_printable ag) c (rr_output r) = (result, conv)" by fastforce
  obtain result' err where ex: "kernel_execute ?ex c = ((result', err), [])"
      "result' = result \<or> result' = result\<lparr>er_run_mode := cc_run_mode c\<rparr>"
    using r t by (auto simp: kernel_execute_def runner_executor_def r_def [symmetric] Let_def silent_def)
  define cmd where "cmd = build_finalize (clk_finalize clk) n c result' err"
  have cmd: "\<not> delivers cmd" "list_all (\<lambda>m. \<not> sm_visible m) (fc_messages cmd)"
    unfolding cmd_def using silent_finalize [OF r t ex(2)] by blast+
  obtain a d1 where f: "finalize (flt ''finalize'') cmd d = (a, d1)" by fastforce
  then have "fx_finalize (db_facts flt etext) cmd d = (error_of etext a, d1)" by (simp add: db_facts_def)
  then have "d1 = d' \<and> list_all (\<lambda>e. re_kind e \<in> set lifecycle_kinds) (pz_events pr)"
    using assms(3) ex(1)
    by (cases "error_of etext a")
      (auto simp: process_claimed_def cmd_def [symmetric] Let_def lifecycle_kinds_def terminal_kind_def)
  with finalize_silent [OF cmd f] show ?thesis by blast
qed

text \<open>
  C38: Processing an event of type memory_flush, compaction or cron_fire with the agent on the
  database puts nothing in the outbox, stores no visible message and publishes no event but
  those of the lifecycle.
\<close>

theorem silent_payload_leaves_nothing:
  assumes "ag_payloads ag = Some builtin_registry"
    and "\<And>e. e \<in> set (db_events d) \<Longrightarrow> ev_event_id e = wi_event_id work \<Longrightarrow>
      payload_type (ev_payload e) \<in> {''memory_flush'', ''compaction'', ''cron_fire''}"
    and "process (Some (db_facts flt etext)) (Some (runner_executor ag m rclk k w)) clk n work d = (pr, d')"
  shows "db_outbox d' = db_outbox d \<and> (\<exists>ms. db_messages d' = db_messages d @ ms \<and> list_all (\<lambda>m. ms_visible m = 0) ms) \<and>
    list_all (\<lambda>e. re_kind e \<in> set lifecycle_kinds) (pz_events pr)"
proof -
  let ?rid = "run_id_for (clk_claim clk) (Suc n)"
  obtain a d1 where a: "claim_work (flt ''claim'') work ?rid (clk_claim clk) d = (a, d1)" by fastforce
  show ?thesis
  proof (cases "\<exists>c. a = Inr (Some c)")
    case True
    then obtain c where c: "a = Inr (Some c)" by blast
    obtain e where e: "e \<in> set (db_events d)" "ev_event_id e = wi_event_id work" "payload (cc_event c) = ev_payload e"
        "db_outbox d1 = db_outbox d" "db_messages d1 = db_messages d"
      using claim_work_payload [OF a [unfolded c]] by blast
    have "cc_run_id c \<noteq> []" using claim_work_run_id [OF a c] by (simp add: run_id_for_def)
    then have p: "process_claimed (db_facts flt etext) (runner_executor ag m rclk k w) clk (Suc n) c d1 = (pr, d')"
      using assms(3) a c by (simp add: process_def kernel_claim_def db_facts_def with_text_def Let_def)
    have "payload_type (payload (cc_event c)) \<in> {''memory_flush'', ''compaction'', ''cron_fire''}"
      using assms(2) [OF e(1,2)] e(3) by simp
    from process_claimed_silent [OF assms(1) this p] e(4,5) show ?thesis by simp
  next
    case False
    then have "db_outbox d' = db_outbox d" "db_messages d' = db_messages d" "pz_events pr = []"
      using assms(3) a claim_work_frame [OF a]
      by (auto simp: process_def kernel_claim_def db_facts_def with_text_def Let_def split: sum.splits option.splits)
    then show ?thesis by simp
  qed
qed

text \<open>The stored event of the scenario as one that a schedule fired.\<close>

definition demo_cron_db :: database where
  "demo_cron_db = (rt_db demo_ingested)\<lparr>db_events :=
     map (\<lambda>e. e\<lparr>ev_payload := payload demo_cron_event\<rparr>) (db_events (rt_db demo_ingested))\<rparr>"

definition demo_run_clock :: run_clock where
  "demo_run_clock = \<lparr> rk_start = 1, rk_finish = 2, rk_stamps = (\<lambda>_. 1) \<rparr>"

theorem silent_payload_leaves_nothing_witness:
  "db_outbox (snd (process (Some (db_facts (\<lambda>_. TxOk) (\<lambda>_. []))) (Some (runner_executor demo_agent 4 demo_run_clock 0 0))
     \<lparr> clk_claim = 1, clk_finalize = 2, clk_failure = 2 \<rparr> 0 demo_work demo_cron_db)) = db_outbox demo_cron_db"
proof -
  have p: "ag_payloads demo_agent = Some builtin_registry" by (simp add: demo_agent_def)
  have "payload_type (ev_payload e) \<in> {''memory_flush'', ''compaction'', ''cron_fire''}"
    if "e \<in> set (db_events demo_cron_db)" for e
    using that by (auto simp: demo_cron_db_def demo_cron_event_def)
  then show ?thesis
    by (intro conjunct1 [OF silent_payload_leaves_nothing [OF p _ prod.collapse [symmetric]]])
qed

section \<open>Replies to Telegram\<close>

lemma show_int_chars: "set (show_int i) \<subseteq> insert (CHR ''-'') {c. is_digit c}"
  using set_show_nat by (auto simp: show_int_def)

lemma trim_space_show_int [simp]: "trim_space (show_int i) = show_int i"
proof (rule trim_space_id)
  have edge: "hd w \<notin> insert (CHR ''-'') {c. is_digit c} \<and> List.last w \<notin> insert (CHR ''-'') {c. is_digit c}"
    if "w \<in> set space_runes" for w
    using that by (auto simp: space_runes_def is_digit_def)
  show "lead_space (show_int i) = None"
  proof (rule ccontr)
    assume "lead_space (show_int i) \<noteq> None"
    then obtain w where w: "w \<in> set space_runes" "prefix w (show_int i)" "w \<noteq> []" using lead_space_Some by blast
    then have "hd w \<in> set (show_int i)" by (meson hd_in_set in_mono set_mono_prefix)
    then show False using edge [OF w(1)] show_int_chars [of i] by blast
  qed
  show "trail_space (show_int i) = None"
  proof (rule ccontr)
    assume "trail_space (show_int i) \<noteq> None"
    then obtain w where w: "w \<in> set space_runes" "suffix w (show_int i)" "w \<noteq> []" using trail_space_Some by blast
    then have "List.last w \<in> set (show_int i)" by (meson last_in_set in_mono set_mono_suffix)
    then show False using edge [OF w(1)] show_int_chars [of i] by blast
  qed
qed

lemma parse_int64_range: "parse_int64 s = Some i \<Longrightarrow> - (2 ^ 63) \<le> i \<and> i < 2 ^ 63"
  by (auto simp: parse_int64_def Let_def split: option.splits if_splits)

text \<open>
  The target the executor resolves is the one the sender of \<open>internal/outbound/sender\<close> sends to.
\<close>

text \<open>
  The reply of a run to a Telegram message is delivered on the channel telegram, unchanged,
  and the sender sends it to the chat whose id the message carried.
\<close>

theorem telegram_reply_reaches_chat:
  assumes "source (cc_event claim) = ''telegram''"
    and "parse_int64 (trim_space (map_get (extra (payload (cc_event claim))) ''telegram_chat_id'')) = Some chat"
    and "\<not> ro_suppress_output out" and "trim_space (ro_assistant_reply out) \<noteq> []"
    and "om_target_id m = di_target_id (the (er_delivery (fst (translate_output printable claim out))))"
  shows "snd (translate_output printable claim out) = None \<and>
    di_channel (the (er_delivery (fst (translate_output printable claim out)))) = ''telegram'' \<and>
    di_body (the (er_delivery (fst (translate_output printable claim out)))) = ro_assistant_reply out \<and>
    telegram_send (Some send) m = map_option SenderFailure (send chat (om_body m))"
proof -
  let ?raw = "trim_space (map_get (extra (payload (cc_event claim))) ''telegram_chat_id'')"
  have "?raw \<noteq> []" using assms(2) by (auto simp: parse_int64_def parse_nat_def)
  then have t: "telegram_target_id printable (cc_event claim) = Inr (show_int chat)"
    using assms(2) by (simp add: telegram_target_id_def Let_def)
  have "parse_int64 (show_int chat) = Some chat"
    using parse_int64_range [OF assms(2)] by (intro parse_int64_show_int) auto
  with t show ?thesis using assms(1,3,4,5)
    by (simp add: translate_output_def resolve_delivery_def telegram_send_def Let_def)
qed

definition demo_telegram_claim :: claim_context where
  "demo_telegram_claim =
     \<lparr> cc_work = demo_work,
       cc_event = demo_cron_event\<lparr>source := ''telegram'',
         payload := (payload demo_cron_event)\<lparr>payload_type := ''message'', extra := [(''telegram_chat_id'', ''+042'')]\<rparr>\<rparr>,
       cc_run_id = ''r'', cc_run_mode = RunModeNormal, cc_session_key = ''k'', cc_session_id = ''s'',
       cc_source = ''telegram'', cc_channel = ''telegram'', cc_metadata = [] \<rparr>"

definition demo_run_output :: run_output where
  "demo_run_output = \<lparr> ro_run_mode = RunModeNormal, ro_messages = [], ro_trace = zero_trace,
     ro_assistant_reply = ''hi'', ro_suppress_output = False \<rparr>"

theorem telegram_reply_reaches_chat_witness:
  "telegram_send (Some (\<lambda>chat body. Some (show_int chat)))
     \<lparr> om_outbox_id = ''o'', om_event_id = ''e'', om_session_key = ''k'', om_channel = ''telegram'',
       om_target_id = di_target_id (the (er_delivery (fst (translate_output (\<lambda>_. True) demo_telegram_claim demo_run_output)))),
       om_body = ''hi'', om_created_at = 0, om_attempts = 0, om_last_error = [] \<rparr>
   = Some (SenderFailure (show_int 42))"
proof -
  have p: "parse_int64 (trim_space (map_get (extra (payload (cc_event demo_telegram_claim))) ''telegram_chat_id'')) = Some 42"
  proof -
    have "trim_space ''+042'' = ''+042''" by (rule trim_space_id) code_simp+
    then show ?thesis
      by (simp add: demo_telegram_claim_def map_get_def parse_int64_def parse_nat_def is_digit_def digit_val_def)
  qed
  have r: "trim_space (ro_assistant_reply demo_run_output) \<noteq> []" by (simp add: demo_run_output_def) code_simp
  show ?thesis
    by (subst telegram_reply_reaches_chat [THEN conjunct2, THEN conjunct2, THEN conjunct2, OF _ p _ r])
      (simp_all add: demo_telegram_claim_def demo_run_output_def)
qed

end
