(* ===== verification/Telegram_System.thy ===== *)
theory Telegram_System
  imports Telegram Gateway_System Adapter_System
begin

text \<open>
  The Telegram channel in front of the gateway on the database: whatever updates arrive, the events
  they leave are texts of allowed users in private chats, one per update, and the reply of a run
  goes back to the chat of the update.
\<close>

section \<open>What an ingest adds to the events\<close>

text \<open>The columns of an event that its ingest sets for good.\<close>

definition event_origin :: "event_row \<Rightarrow> string \<times> string \<times> string \<times> string \<times> string \<times> string \<times> string_map" where
  "event_origin e = (ev_source e, ev_conversation_id e, ev_channel_type e, ev_participant_id e, ev_idempotency_key e,
     payload_text (ev_payload e), extra (ev_payload e))"

definition ingress_origin :: "normalized_ingress \<Rightarrow> string \<times> string \<times> string \<times> string \<times> string \<times> string \<times> string_map" where
  "ingress_origin i = (let c = in_conversation i in
     (in_source i, conversation_id c, channel_type c, participant_id c, in_idempotency_key i,
      payload_text (in_payload i), extra (in_payload i)))"

definition origins :: "database \<Rightarrow> (string \<times> string \<times> string \<times> string \<times> string \<times> string \<times> string_map) set" where
  "origins d = event_origin ` set (db_events d)"

definition keys_distinct :: "database \<Rightarrow> bool" where
  "keys_distinct d \<longleftrightarrow> distinct (map ev_idempotency_key (db_events d))"

lemma persist_origins:
  assumes "persist_event flt tenant key req hash now d = (res, d')"
    "ingress_origin i = (pq_source req, conversation_id (pq_conversation req), channel_type (pq_conversation req),
       participant_id (pq_conversation req), pq_idempotency_key req, payload_text (pq_payload req), extra (pq_payload req))"
  shows "origins d' \<subseteq> insert (ingress_origin i) (origins d) \<and> (keys_distinct d \<longrightarrow> keys_distinct d')"
proof (cases res)
  case (Inl e)
  then have "d' = d" using assms(1) by (auto simp: persist_event_def dest: with_writer_tx_Inl)
  then show ?thesis by auto
next
  case (Inr r)
  then have t: "persist_event_tx tenant key req hash now d = Inr (r, d')"
    using assms(1) unfolding persist_event_def by (auto dest: with_writer_tx_InrD)
  show ?thesis
  proof (cases "pq_idempotency_key req \<in> ik_key ` set (db_idempotency d)")
    case True
    then obtain row where "find_row ik_key (pq_idempotency_key req) (db_idempotency d) = Some row"
      by (cases "find_row ik_key (pq_idempotency_key req) (db_idempotency d)") (auto simp: find_row_None)
    with t have "d' = d" by (auto simp: persist_event_tx_def split: if_splits)
    then show ?thesis by auto
  next
    case False
    obtain sid where "db_events d' = db_events d @ [new_event_row tenant key sid req hash now]"
      "pq_idempotency_key req \<notin> ev_idempotency_key ` set (db_events d)"
      by (rule persist_event_tx_newD [OF t False]) (metis database.select_convs(5) database.surjective database.update_convs(5))
    then show ?thesis using assms(2)
      by (auto simp: origins_def keys_distinct_def event_origin_def new_event_row_def)
  qed
qed

lemma mark_origins:
  "origins (snd (mark_event_queued flt eid now d)) = origins d \<and>
   keys_distinct (snd (mark_event_queued flt eid now d)) = keys_distinct d"
proof -
  let ?f = "\<lambda>e. e\<lparr>ev_status := EventStatusQueued, ev_updated_at := time_text now\<rparr>"
  let ?p = "\<lambda>e. ev_event_id e = eid \<and> ev_status e = EventStatusReceived"
  have "map event_origin (update_where ?p ?f es) = map event_origin es"
    "map ev_idempotency_key (update_where ?p ?f es) = map ev_idempotency_key es" for es
    by (simp_all add: update_where_def event_origin_def)
  then have m: "event_origin ` set (update_where ?p ?f es) = event_origin ` set es"
    "distinct (map ev_idempotency_key (update_where ?p ?f es)) = distinct (map ev_idempotency_key es)" for es
    by (simp_all flip: set_map)
  have e: "db_events (snd (mark_event_queued flt eid now d)) \<in> {db_events d, update_where ?p ?f (db_events d)}"
    by (cases flt) (simp_all add: mark_event_queued_def exec_writer_def with_writer_tx_def)
  then show ?thesis unfolding origins_def keys_distinct_def by (elim insertE emptyE) (simp_all add: m)
qed

lemma enqueue_stored_origins:
  assumes "enqueue_stored gw (db_ingest flt etext) r now st = (g, st')"
  shows "origins (gs_store st') = origins (gs_store st) \<and> keys_distinct (gs_store st') = keys_distinct (gs_store st)"
  using assms mark_origins
  by (auto simp: enqueue_stored_def db_ingest_def Let_def split: option.splits if_splits prod.splits)

lemma accept_persist_origins:
  assumes "accept_persist gw (db_ingest flt etext) i b dec ts now st = (res, st')"
  shows "origins (gs_store st') \<subseteq> insert (ingress_origin i) (origins (gs_store st)) \<and>
    (keys_distinct (gs_store st) \<longrightarrow> keys_distinct (gs_store st'))"
proof -
  let ?pt = "if rd_payload_type dec \<noteq> [] then rd_payload_type dec else payload_type (in_payload i)"
  let ?eff = "i\<lparr>in_payload := (in_payload i)\<lparr>payload_type := ?pt\<rparr>\<rparr>"
  define req where "req = \<lparr> pq_source = in_source i, pq_conversation = in_conversation i,
    pq_payload = in_payload ?eff, pq_idempotency_key = in_idempotency_key i, pq_dm_scope = bc_scope b \<rparr>"
  have o: "ingress_origin i = (pq_source req, conversation_id (pq_conversation req), channel_type (pq_conversation req),
     participant_id (pq_conversation req), pq_idempotency_key req, payload_text (pq_payload req), extra (pq_payload req))"
    by (simp add: req_def ingress_origin_def Let_def)
  have persist: "er_persist_event (db_ingest flt etext) = persist_event (flt ''persist'')"
    by (simp add: db_ingest_def fun_eq_iff)
  show ?thesis
  proof (cases "gw_payload_hash gw ?eff")
    case None
    then show ?thesis using assms by (auto simp: accept_persist_def Let_def)
  next
    case (Some hash)
    obtain p d' where p: "persist_event (flt ''persist'') (bc_tenant_id b) (bc_session_key b) req hash ts (gs_store st) = (p, d')"
      by fastforce
    have "accept_persist gw (db_ingest flt etext) i b dec ts now st =
      (case p of Inl e \<Rightarrow> (Inl (persist_api_error (gw_error_text gw) e), st\<lparr>gs_store := d'\<rparr>)
       | Inr r \<Rightarrow> (let (g, st') = enqueue_stored gw (db_ingest flt etext) r now (st\<lparr>gs_store := d'\<rparr>) in (Inr (to_accepted g), st')))"
      using p by (cases p) (simp_all add: accept_persist_def Some Let_def req_def persist)
    then have "origins (gs_store st') = origins d' \<and> keys_distinct (gs_store st') = keys_distinct d'"
      using enqueue_stored_origins [of gw flt etext _ now "st\<lparr>gs_store := d'\<rparr>"] assms by (auto split: sum.splits prod.splits)
    then show ?thesis using persist_origins [OF p o] by simp
  qed
qed

lemma accept_origins:
  assumes "gw_repo gw = Some (db_ingest flt etext)" "accept gw i now st = (res, st')"
  shows "origins (gs_store st') \<subseteq> insert (ingress_origin i) (origins (gs_store st)) \<and>
    (keys_distinct (gs_store st) \<longrightarrow> keys_distinct (gs_store st'))"
proof -
  let ?i = "i\<lparr>in_payload := (in_payload i)\<lparr>native_ref := normalize_native_ref (native_ref (in_payload i))\<rparr>\<rparr>"
  consider "gs_store st' = gs_store st"
    | (go) b dec ts st1 where "accept_persist gw (db_ingest flt etext) ?i b dec ts now st1 = (res, st')"
        "gs_store st1 = gs_store st"
    using assms by (auto simp: accept_def Let_def charge_limiters_def split: sum.splits prod.splits if_splits)
  then show ?thesis
  proof cases
    case go
    have "ingress_origin ?i = ingress_origin i" by (simp add: ingress_origin_def Let_def)
    then show ?thesis using accept_persist_origins [OF go(1)] go(2) by simp
  qed auto
qed

section \<open>Sequences of updates\<close>

text \<open>What the bot's package promises: the handler of texts gets the message of the update.\<close>

definition text_update :: "tele_context \<Rightarrow> bool" where
  "text_update c \<longleftrightarrow> tl_context_message c = tl_message (tl_update c)"

fun handle_all ::
  "(tele_update \<Rightarrow> string + json) \<Rightarrow> telegram_runtime \<Rightarrow> ('s, 'q) gateway_service \<Rightarrow> (tele_context \<times> time \<times> time) list \<Rightarrow>
   ('s, 'q) gateway_state \<Rightarrow> ('s, 'q) gateway_state" where
  "handle_all marshal r gw [] st = st"
| "handle_all marshal r gw ((c, received_at, now) # cs) st =
     handle_all marshal r gw cs (snd (handle_text marshal r gw c received_at now st))"

text \<open>The origin an event has when it comes from an update that may pass.\<close>

definition update_origin :: "int set \<Rightarrow> tele_update \<Rightarrow> (string \<times> string \<times> string \<times> string \<times> string \<times> string \<times> string_map) \<Rightarrow> bool" where
  "update_origin allowed u orig \<longleftrightarrow>
     (\<exists>m chat sender. tl_message u = Some m \<and> tl_chat m = Some chat \<and> tl_sender m = Some sender \<and>
        tl_update_id u \<noteq> 0 \<and> tl_chat_type chat = chat_private \<and> tl_user_id sender \<in> allowed \<and> \<not> tl_is_bot sender \<and>
        trim_space (tl_text m) \<noteq> [] \<and>
        (\<exists>ex. orig = (''telegram'', ''tg_chat_'' @ show_int (tl_chat_id chat), ''dm'', show_int (tl_user_id sender),
           ''telegram:update:'' @ show_int (tl_update_id u), trim_space (tl_text m), ex) \<and>
         map_get ex ''telegram_chat_id'' = show_int (tl_chat_id chat)))"

lemma allowed_message:
  "is_allowed_private_text_message me allowed msg = None \<Longrightarrow>
   \<exists>m chat sender. msg = Some m \<and> tl_chat m = Some chat \<and> tl_sender m = Some sender \<and> tl_chat_type chat = chat_private \<and>
     tl_user_id sender \<in> allowed \<and> \<not> tl_is_bot sender \<and> trim_space (tl_text m) \<noteq> []"
  by (auto simp: is_allowed_private_text_message_def split: option.splits if_splits)

lemma normalized_origin:
  assumes "normalize_text_update marshal u t = Inr i" "tl_message u = Some m" "tl_chat m = Some chat" "tl_sender m = Some sender"
  shows "tl_update_id u \<noteq> 0 \<and> (\<exists>ex. ingress_origin i = (''telegram'', ''tg_chat_'' @ show_int (tl_chat_id chat), ''dm'',
    show_int (tl_user_id sender), ''telegram:update:'' @ show_int (tl_update_id u), trim_space (tl_text m), ex) \<and>
    map_get ex ''telegram_chat_id'' = show_int (tl_chat_id chat))"
  using assms by (auto simp: normalize_text_update_def ingress_origin_def map_get_def split: if_splits sum.splits)

lemma handle_text_origins:
  assumes "gw_repo gw = Some (db_ingest flt etext)" "text_update c" "handle_text marshal r gw c t now st = (out, st')"
  shows "origins (gs_store st') \<subseteq> origins (gs_store st) \<union> {orig. update_origin (tg_allowed_users r) (tl_update c) orig} \<and>
    (keys_distinct (gs_store st) \<longrightarrow> keys_distinct (gs_store st'))"
proof (cases "is_allowed_private_text_message (bot_user_id r) (tg_allowed_users r) (tl_context_message c)")
  case None
  from allowed_message [OF None] assms(2) obtain m chat sender where
    m: "tl_message (tl_update c) = Some m" "tl_chat m = Some chat" "tl_sender m = Some sender"
    and ok: "tl_chat_type chat = chat_private" "tl_user_id sender \<in> tg_allowed_users r" "\<not> tl_is_bot sender"
      "trim_space (tl_text m) \<noteq> []"
    unfolding text_update_def by metis
  show ?thesis
  proof (cases "normalize_text_update marshal (tl_update c) t")
    case (Inr i)
    obtain res st1 where a: "accept gw i now st = (res, st1)" by fastforce
    have "st' = st1" using assms(3) None Inr a by (auto simp: handle_text_def split: sum.splits if_splits)
    moreover have "update_origin (tg_allowed_users r) (tl_update c) (ingress_origin i)"
      using normalized_origin [OF Inr m] m ok unfolding update_origin_def by blast
    ultimately show ?thesis using accept_origins [OF assms(1) a] by auto
  qed (use assms(3) None in \<open>auto simp: handle_text_def\<close>)
qed (use assms(3) in \<open>auto simp: handle_text_def\<close>)

section \<open>Properties\<close>

text \<open>
  C9: Whatever sequence of updates arrives, with the gateway on the database, every event that
  is new is the text of an update of a user on the list, in a private chat and not of a bot: its
  source, conversation, participant, idempotency key, text and chat id are those of the update,
  and no two events share an idempotency key, so an update adds at most one.
\<close>

theorem telegram_events_authorised:
  assumes "gw_repo gw = Some (db_ingest flt etext)" "\<forall>(c, _) \<in> set cs. text_update c"
  shows "origins (gs_store (handle_all marshal r gw cs st)) \<subseteq> origins (gs_store st) \<union>
      {orig. \<exists>(c, _) \<in> set cs. update_origin (tg_allowed_users r) (tl_update c) orig} \<and>
    (keys_distinct (gs_store st) \<longrightarrow> keys_distinct (gs_store (handle_all marshal r gw cs st)))"
  using assms(2)
proof (induction cs arbitrary: st)
  case (Cons q cs)
  obtain c t now where q: "q = (c, t, now)" by (metis prod_cases3)
  obtain out st1 where h: "handle_text marshal r gw c t now st = (out, st1)" by fastforce
  have "text_update c" using Cons.prems q by auto
  note one = handle_text_origins [OF assms(1) this h]
  have "\<forall>(c, _) \<in> set cs. text_update c" using Cons.prems by simp
  from Cons.IH [OF this, of st1] one show ?case using h q by auto
qed simp

text \<open>
  C39: The reply of a run that claimed the event of a Telegram update is delivered on the
  channel telegram, unchanged, and the sender sends it to the chat the update came from.
\<close>

theorem telegram_reply_returns:
  assumes "distinct (map ev_event_id (db_events d))" "e \<in> set (db_events d)"
    and "update_origin allowed u (event_origin e)"
    and "\<forall>m chat. tl_message u = Some m \<longrightarrow> tl_chat m = Some chat \<longrightarrow> - (2 ^ 63) \<le> tl_chat_id chat \<and> tl_chat_id chat < 2 ^ 63"
    and "claim_event flt (ev_event_id e) run_id now d = (Inr (Some claim), d')"
    and "\<not> ro_suppress_output out" "trim_space (ro_assistant_reply out) \<noteq> []"
  shows "\<exists>m chat delivery. tl_message u = Some m \<and> tl_chat m = Some chat \<and>
    translate_output printable claim out = (delivery, None) \<and>
    di_channel (the (er_delivery delivery)) = ''telegram'' \<and> di_body (the (er_delivery delivery)) = ro_assistant_reply out \<and>
    (\<forall>send msg. om_target_id msg = di_target_id (the (er_delivery delivery)) \<longrightarrow>
       telegram_send (Some send) msg = map_option SenderFailure (send (tl_chat_id chat) (om_body msg)))"
proof -
  obtain m chat ex where m: "tl_message u = Some m" "tl_chat m = Some chat" "ev_source e = ''telegram''"
    "extra (ev_payload e) = ex" "map_get ex ''telegram_chat_id'' = show_int (tl_chat_id chat)"
    using assms(3) by (auto simp: update_origin_def event_origin_def)
  let ?id = "tl_chat_id chat"
  have "claim_event_tx (ev_event_id e) run_id now d = Inr (claim, d')"
    by (rule claim_event_cases [OF assms(5)]) simp_all
  then obtain e' where
    e': "e' \<in> set (db_events d)" "ev_event_id e' = ev_event_id e" "claim = claimed_context e' run_id (claim_run_mode (ev_payload e'))"
    by (rule claim_event_tx_InrD) auto
  then have "e' = e" using assms(1,2) by (metis distinct_map inj_onD)
  then have c: "source (cc_event claim) = ''telegram''"
      "trim_space (map_get (extra (payload (cc_event claim))) ''telegram_chat_id'') = show_int ?id"
    using e'(3) m by (simp_all add: claimed_context_def)
  have p: "parse_int64 (show_int ?id) = Some ?id" using assms(4) m(1,2) by (intro parse_int64_show_int) auto
  have "show_int ?id \<noteq> []" by (simp add: show_int_def)
  then have t: "telegram_target_id printable (cc_event claim) = Inr (show_int ?id)"
    using c(2) p by (simp add: telegram_target_id_def Let_def)
  show ?thesis
    using m(1,2) c(1) t p assms(6,7)
    by (auto simp: translate_output_def resolve_delivery_def telegram_send_def Let_def)
qed

text \<open>Two texts arrive, one of an allowed user and one of a stranger.\<close>

definition demo_update :: "int \<Rightarrow> int \<Rightarrow> tele_context" where
  "demo_update u user = (let m = Some \<lparr> tl_message_id = 9, tl_chat = Some \<lparr> tl_chat_id = 42, tl_chat_type = ''private'' \<rparr>,
       tl_sender = Some \<lparr> tl_user_id = user, tl_is_bot = False \<rparr>, tl_text = ''hi'' \<rparr>
     in \<lparr> tl_update = \<lparr> tl_update_id = u, tl_message = m \<rparr>, tl_context_message = m \<rparr>)"

definition demo_runtime :: telegram_runtime where
  "demo_runtime = (new_runtime ''token'' 0 [7])\<lparr>tg_bot := Some \<lparr> tl_me = Some 1 \<rparr>, tg_started := True\<rparr>"

theorem telegram_events_authorised_witness:
  "origins (gs_store (handle_all (\<lambda>_. Inr JNull) demo_runtime demo_gateway
       [(demo_update 1 7, 0, 0), (demo_update 2 8, 0, 0)] demo_gateway_state)) \<subseteq>
     {orig. update_origin {7} (tl_update (demo_update 1 7)) orig \<or> update_origin {7} (tl_update (demo_update 2 8)) orig}"
proof -
  have "gw_repo demo_gateway = Some (db_ingest (\<lambda>_. TxOk) (\<lambda>_. []))" by (simp add: demo_gateway_def)
  moreover have e: "origins (gs_store demo_gateway_state) = {}" by (simp add: demo_gateway_state_def origins_def empty_db_def)
  moreover have a: "tg_allowed_users demo_runtime = {7}" by (simp add: demo_runtime_def new_runtime_def new_allowed_users_def)
  moreover have "\<forall>(c, _) \<in> set [(demo_update 1 7, 0, 0), (demo_update 2 8, 0, 0)]. text_update c"
    by (simp add: text_update_def demo_update_def Let_def)
  ultimately show ?thesis
    using telegram_events_authorised [of demo_gateway "\<lambda>_. TxOk" "\<lambda>_. []"
        "[(demo_update 1 7, 0, 0), (demo_update 2 8, 0, 0)]" "\<lambda>_. Inr JNull" demo_runtime demo_gateway_state]
    unfolding a e by auto
qed

text \<open>The event of the first, claimed from a database that holds it.\<close>

definition demo_telegram_row :: event_row where
  "demo_telegram_row = new_event_row ''t'' ''k'' ''s''
     \<lparr> pq_source = ''telegram'', pq_conversation = \<lparr> conversation_id = ''tg_chat_'' @ show_int 42, thread_id = [],
         channel_type = ''dm'', participant_id = show_int 7 \<rparr>,
       pq_payload = \<lparr> payload_type = ''message'', payload_text = ''hi'', mentions = [], attachments = [], native = None,
         native_ref = [], extra = [(''telegram_chat_id'', show_int 42)] \<rparr>,
       pq_idempotency_key = ''telegram:update:'' @ show_int 1, pq_dm_scope = [] \<rparr> ''h'' 0"

lemma demo_telegram_origin: "update_origin {7} (tl_update (demo_update 1 7)) (event_origin demo_telegram_row)"
proof -
  have "trim_space ''hi'' = ''hi''" by code_simp
  then show ?thesis
    by (simp add: update_origin_def demo_update_def event_origin_def demo_telegram_row_def new_event_row_def map_get_def
        chat_private_def Let_def)
qed

lemma demo_telegram_claimed:
  "\<exists>claim d'. claim_event TxOk (ev_event_id demo_telegram_row) ''r'' 1 (empty_db\<lparr>db_events := [demo_telegram_row]\<rparr>) =
     (Inr (Some claim), d')"
  by (simp add: claim_event_def with_writer_tx_def claim_event_tx_def demo_telegram_row_def new_event_row_def claimable_def
      has_started_run_def empty_db_def require_row_def insert_row_def claimed_context_def event_id_for_def Let_def)

theorem telegram_reply_returns_witness:
  "\<exists>delivery :: execution_result. di_channel (the (er_delivery delivery)) = ''telegram'' \<and>
     (\<forall>msg. om_target_id msg = di_target_id (the (er_delivery delivery)) \<longrightarrow>
        telegram_send (Some (\<lambda>chat _. Some (show_int chat))) msg = Some (SenderFailure (show_int 42)))"
proof -
  obtain claim d' where c: "claim_event TxOk (ev_event_id demo_telegram_row) ''r'' 1 (empty_db\<lparr>db_events := [demo_telegram_row]\<rparr>) =
     (Inr (Some claim), d')" using demo_telegram_claimed by blast
  have r: "trim_space (ro_assistant_reply demo_run_output) \<noteq> []" "\<not> ro_suppress_output demo_run_output"
    by (simp add: demo_run_output_def, code_simp) (simp add: demo_run_output_def)
  have u: "tl_message (tl_update (demo_update 1 7)) = Some m \<Longrightarrow> tl_chat m = Some chat \<Longrightarrow> tl_chat_id chat = 42" for m chat
    by (auto simp: demo_update_def Let_def)
  have d: "distinct (map ev_event_id (db_events (empty_db\<lparr>db_events := [demo_telegram_row]\<rparr>)))"
    "demo_telegram_row \<in> set (db_events (empty_db\<lparr>db_events := [demo_telegram_row]\<rparr>))" by simp_all
  have range: "\<forall>m chat. tl_message (tl_update (demo_update 1 7)) = Some m \<longrightarrow> tl_chat m = Some chat \<longrightarrow>
      - (2 ^ 63) \<le> tl_chat_id chat \<and> tl_chat_id chat < 2 ^ 63" using u by simp
  from telegram_reply_returns [where printable = "\<lambda>_. True", OF d demo_telegram_origin range c r(2,1)] obtain m chat delivery where
    m: "tl_message (tl_update (demo_update 1 7)) = Some m" "tl_chat m = Some chat"
    and o: "translate_output (\<lambda>_. True) claim demo_run_output = (delivery, None)"
    and t: "di_channel (the (er_delivery delivery)) = ''telegram''"
    "\<forall>send msg. om_target_id msg = di_target_id (the (er_delivery delivery)) \<longrightarrow>
       telegram_send (Some send) msg = map_option SenderFailure (send (tl_chat_id chat) (om_body msg))" by blast
  show ?thesis
  proof (intro exI [of _ delivery] conjI allI impI)
    fix msg :: outbox_message assume "om_target_id msg = di_target_id (the (er_delivery delivery))"
    then show "telegram_send (Some (\<lambda>chat _. Some (show_int chat))) msg = Some (SenderFailure (show_int 42))"
      using t(2) u [OF m] by simp
  qed (rule t(1))
qed

end
