(* ===== verification/Tools.thy ===== *)
theory Tools
  imports Runner Workspace_Safety
begin

text \<open>
  \<open>internal/tools\<close>: the registry and the tools on files.  The tools work on a world that holds
  the file system and counts the calls, so that each call has what it takes from outside
  (\<open>file_env\<close>); the rest of the world is the models'.  A Go value of a struct type among the
  outputs is its JSON object.
\<close>

section \<open>Registry\<close>

text \<open>A handler returns, or panics with a value that prints as a text.\<close>

type_synonym 'w handler = "tool_context \<Rightarrow> json_object \<Rightarrow> 'w \<Rightarrow> (string + tool_result) \<times> 'w"
type_synonym 'w registry = "(string \<times> tool_definition \<times> 'w handler) list"

definition register_tool :: "string \<Rightarrow> tool_definition \<Rightarrow> 'w handler \<Rightarrow> 'w registry \<Rightarrow> 'w registry" where
  "register_tool name schema h reg = map_put name (schema, h) reg"

definition register_handler :: "string \<Rightarrow> 'w handler \<Rightarrow> 'w registry \<Rightarrow> 'w registry" where
  "register_handler name h reg =
     register_tool name \<lparr> td_name = name, td_description = [],
       td_parameters = ParameterSchema [] [] [] None None [] [] None \<rparr> h reg"

definition error_result :: "string \<Rightarrow> string \<Rightarrow> tool_result" where
  "error_result code message =
     \<lparr> tr_disabled = False, tr_output = [],
       tr_error = Some \<lparr> eb_code = code, eb_message = message, eb_details = [] \<rparr> \<rparr>"

definition output_result :: "json_object \<Rightarrow> tool_result" where
  "output_result out = \<lparr> tr_disabled = False, tr_output = out, tr_error = None \<rparr>"

text \<open>\<open>Invoke\<close>; \<open>ctx\<close> is the error of the context.\<close>

definition tool_invoke :: "go_error option \<Rightarrow> 'w registry \<Rightarrow> 'w tool_handler" where
  "tool_invoke ctx reg tx name args w =
     (case map_of reg name of
        None \<Rightarrow> (error_result ErrorCodeInvalidArgument ''tool not found'', w)
      | Some (schema, h) \<Rightarrow>
          (case ctx of
             Some e \<Rightarrow>
               (\<lparr> tr_disabled = False, tr_output = [],
                  tr_error = error_block_from_error (wrap_capability_error ''tool'' name ''invoke'' (Some e)) \<rparr>, w)
           | None \<Rightarrow>
               (case h tx args w of
                  (Inl v, w') \<Rightarrow> (error_result ErrorCodeInternal (''tool panic: '' @ v), w')
                | (Inr r, w') \<Rightarrow> (r, w'))))"

definition tool_definitions :: "'w registry \<Rightarrow> tool_definition list" where
  "tool_definitions reg = map (fst \<circ> snd) (sort_key fst reg)"

section \<open>Schemas\<close>

definition tool_schema :: "string \<Rightarrow> string \<Rightarrow> (string \<times> parameter_schema) list \<Rightarrow> string list \<Rightarrow> tool_definition" where
  "tool_schema name description properties required =
     \<lparr> td_name = name, td_description = description,
       td_parameters = ParameterSchema ''object'' [] [] None None properties required None \<rparr>"

definition leaf_schema :: "string \<Rightarrow> string \<Rightarrow> string list \<Rightarrow> parameter_schema" where
  "leaf_schema kind description enum = ParameterSchema kind description enum None None [] [] None"

definition array_schema :: "string \<Rightarrow> string \<Rightarrow> parameter_schema" where
  "array_schema item description =
     ParameterSchema ''array'' description [] None None [] [] (Some (leaf_schema item [] []))"

definition context_get_schema :: tool_definition where
  "context_get_schema = tool_schema ''context_get''
     (bytes [0xE8, 0xAF, 0xBB, 0xE5, 0x8F, 0x96, 0xE5, 0xB7, 0xA5, 0xE4, 0xBD, 0x9C, 0xE5, 0x8C, 0xBA, 0xE6,
         0xA0, 0xB9, 0xE7, 0x9B, 0xAE, 0xE5, 0xBD, 0x95, 0xE4, 0xB8, 0x8A, 0xE4, 0xB8, 0x8B, 0xE6, 0x96,
         0x87, 0xE6, 0x96, 0x87, 0xE4, 0xBB, 0xB6, 0xE6, 0x88, 0x96, 0x20, 0x73, 0x6B, 0x69, 0x6C, 0x6C,
         0x20, 0xE6, 0xAD, 0xA3, 0xE6, 0x96, 0x87, 0xEF, 0xBC, 0x8C, 0xE6, 0x94, 0xAF, 0xE6, 0x8C, 0x81,
         0xE6, 0x8C, 0x87, 0xE5, 0xAE, 0x9A, 0xE8, 0xA1, 0x8C, 0xE8, 0x8C, 0x83, 0xE5, 0x9B, 0xB4, 0xE3,
         0x80, 0x82])
     [(''path'', leaf_schema ''string'' (bytes [0xE6, 0x96, 0x87, 0xE4, 0xBB, 0xB6, 0xE8, 0xB7, 0xAF, 0xE5, 0xBE, 0x84, 0xEF, 0xBC, 0x8C, 0xE7,
         0x9B, 0xB8, 0xE5, 0xAF, 0xB9, 0xE4, 0xBA, 0x8E, 0x20, 0x77, 0x6F, 0x72, 0x6B, 0x73, 0x70, 0x61,
         0x63, 0x65]) []),
      (''lines'', array_schema ''integer'' (bytes [0x5B, 0x73, 0x74, 0x61, 0x72, 0x74, 0x2C, 0x20, 0x65, 0x6E, 0x64, 0x5D, 0x20, 0xE8, 0xA1, 0x8C,
         0xE5, 0x8F, 0xB7, 0xE8, 0x8C, 0x83, 0xE5, 0x9B, 0xB4, 0xEF, 0xBC, 0x88, 0xE5, 0x8F, 0xAF, 0xE9,
         0x80, 0x89, 0xEF, 0xBC, 0x89]))]
     [''path'']"

definition memory_search_schema :: tool_definition where
  "memory_search_schema = tool_schema ''memory_search''
     (bytes [0xE5, 0x9C, 0xA8, 0xE5, 0xB7, 0xA5, 0xE4, 0xBD, 0x9C, 0xE5, 0x8C, 0xBA, 0xE8, 0xAE, 0xB0, 0xE5,
         0xBF, 0x86, 0xE4, 0xB8, 0xAD, 0xE6, 0x90, 0x9C, 0xE7, 0xB4, 0xA2, 0xE7, 0x9B, 0xB8, 0xE5, 0x85,
         0xB3, 0xE4, 0xBF, 0xA1, 0xE6, 0x81, 0xAF, 0xEF, 0xBC, 0x8C, 0xE8, 0xBF, 0x94, 0xE5, 0x9B, 0x9E,
         0xE5, 0x8C, 0xB9, 0xE9, 0x85, 0x8D, 0xE7, 0x9A, 0x84, 0xE7, 0x89, 0x87, 0xE6, 0xAE, 0xB5, 0xE5,
         0x88, 0x97, 0xE8, 0xA1, 0xA8, 0xE3, 0x80, 0x82])
     [(''query'', leaf_schema ''string'' (bytes [0xE6, 0x90, 0x9C, 0xE7, 0xB4, 0xA2, 0xE5, 0x85, 0xB3, 0xE9, 0x94, 0xAE, 0xE8, 0xAF, 0x8D]) []),
      (''visibility'', leaf_schema ''string'' (''auto | public | private'') [''auto'', ''public'', ''private'']),
      (''kind'', leaf_schema ''string'' (''any | curated | daily'') [''any'', ''curated'', ''daily'']),
      (''top_k'', leaf_schema ''integer'' (bytes [0xE8, 0xBF, 0x94, 0xE5, 0x9B, 0x9E, 0xE6, 0x9D, 0xA1, 0xE6, 0x95, 0xB0, 0xEF, 0xBC, 0x8C, 0xE9,
         0xBB, 0x98, 0xE8, 0xAE, 0xA4, 0x20, 0x36]) [])]
     [''query'']"

definition memory_get_schema :: tool_definition where
  "memory_get_schema = tool_schema ''memory_get''
     (bytes [0xE8, 0xAF, 0xBB, 0xE5, 0x8F, 0x96, 0xE5, 0xB7, 0xA5, 0xE4, 0xBD, 0x9C, 0xE5, 0x8C, 0xBA, 0xE8,
         0xAE, 0xB0, 0xE5, 0xBF, 0x86, 0xE6, 0x96, 0x87, 0xE4, 0xBB, 0xB6, 0xE7, 0x9A, 0x84, 0xE5, 0x86,
         0x85, 0xE5, 0xAE, 0xB9, 0xEF, 0xBC, 0x8C, 0xE6, 0x94, 0xAF, 0xE6, 0x8C, 0x81, 0xE6, 0x8C, 0x87,
         0xE5, 0xAE, 0x9A, 0xE8, 0xA1, 0x8C, 0xE8, 0x8C, 0x83, 0xE5, 0x9B, 0xB4, 0xE3, 0x80, 0x82])
     [(''path'', leaf_schema ''string'' (bytes [0xE6, 0x96, 0x87, 0xE4, 0xBB, 0xB6, 0xE8, 0xB7, 0xAF, 0xE5, 0xBE, 0x84, 0xEF, 0xBC, 0x8C, 0xE7,
         0x9B, 0xB8, 0xE5, 0xAF, 0xB9, 0xE4, 0xBA, 0x8E, 0x20, 0x77, 0x6F, 0x72, 0x6B, 0x73, 0x70, 0x61,
         0x63, 0x65]) []),
      (''lines'', array_schema ''integer'' (bytes [0x5B, 0x73, 0x74, 0x61, 0x72, 0x74, 0x2C, 0x20, 0x65, 0x6E, 0x64, 0x5D, 0x20, 0xE8, 0xA1, 0x8C,
         0xE5, 0x8F, 0xB7, 0xE8, 0x8C, 0x83, 0xE5, 0x9B, 0xB4, 0xEF, 0xBC, 0x88, 0xE5, 0x8F, 0xAF, 0xE9,
         0x80, 0x89, 0xEF, 0xBC, 0x89]))]
     [''path'']"

definition workspace_patch_schema :: tool_definition where
  "workspace_patch_schema = tool_schema ''workspace_patch''
     (bytes [0xE5, 0x9C, 0xA8, 0x20, 0x77, 0x6F, 0x72, 0x6B, 0x73, 0x70, 0x61, 0x63, 0x65, 0x20, 0xE5, 0x86,
         0x85, 0xE7, 0xB2, 0xBE, 0xE7, 0xA1, 0xAE, 0xE6, 0x9B, 0xBF, 0xE6, 0x8D, 0xA2, 0xE6, 0x96, 0x87,
         0xE6, 0x9C, 0xAC, 0xEF, 0xBC, 0x8C, 0xE6, 0x88, 0x96, 0xE5, 0x9C, 0xA8, 0xE6, 0x98, 0xBE, 0xE5,
         0xBC, 0x8F, 0x20, 0x63, 0x72, 0x65, 0x61, 0x74, 0x65, 0x3D, 0x74, 0x72, 0x75, 0x65, 0x20, 0xE6,
         0x97, 0xB6, 0xE5, 0x88, 0x9B, 0xE5, 0xBB, 0xBA, 0xE6, 0x96, 0xB0, 0xE7, 0x9A, 0x84, 0x20, 0x55,
         0x54, 0x46, 0x2D, 0x38, 0x20, 0xE6, 0x96, 0x87, 0xE6, 0x9C, 0xAC, 0xE6, 0x96, 0x87, 0xE4, 0xBB,
         0xB6, 0xE3, 0x80, 0x82])
     [(''path'', leaf_schema ''string'' (bytes [0xE6, 0x96, 0x87, 0xE4, 0xBB, 0xB6, 0xE8, 0xB7, 0xAF, 0xE5, 0xBE, 0x84, 0xEF, 0xBC, 0x8C, 0xE7,
         0x9B, 0xB8, 0xE5, 0xAF, 0xB9, 0xE4, 0xBA, 0x8E, 0x20, 0x77, 0x6F, 0x72, 0x6B, 0x73, 0x70, 0x61,
         0x63, 0x65]) []),
      (''old_text'', leaf_schema ''string'' (bytes [0xE7, 0x8E, 0xB0, 0xE6, 0x9C, 0x89, 0xE6, 0x96, 0x87, 0xE4, 0xBB, 0xB6, 0xE4, 0xB8, 0xAD, 0xE5,
         0xBF, 0x85, 0xE9, 0xA1, 0xBB, 0xE6, 0x81, 0xB0, 0xE5, 0xA5, 0xBD, 0xE5, 0x91, 0xBD, 0xE4, 0xB8,
         0xAD, 0xE4, 0xB8, 0x80, 0xE6, 0xAC, 0xA1, 0xE7, 0x9A, 0x84, 0xE6, 0x97, 0xA7, 0xE6, 0x96, 0x87,
         0xE6, 0x9C, 0xAC, 0xEF, 0xBC, 0x9B, 0xE5, 0x88, 0x9B, 0xE5, 0xBB, 0xBA, 0xE6, 0x96, 0xB0, 0xE6,
         0x96, 0x87, 0xE4, 0xBB, 0xB6, 0xE6, 0x97, 0xB6, 0xE5, 0x8F, 0xAF, 0xE7, 0x95, 0x99, 0xE7, 0xA9,
         0xBA]) []),
      (''new_text'', leaf_schema ''string'' (bytes [0xE6, 0x9B, 0xBF, 0xE6, 0x8D, 0xA2, 0xE5, 0x90, 0x8E, 0xE7, 0x9A, 0x84, 0xE6, 0x96, 0xB0, 0xE6,
         0x96, 0x87, 0xE6, 0x9C, 0xAC, 0xEF, 0xBC, 0x9B, 0xE5, 0x88, 0x9B, 0xE5, 0xBB, 0xBA, 0xE6, 0x96,
         0xB0, 0xE6, 0x96, 0x87, 0xE4, 0xBB, 0xB6, 0xE6, 0x97, 0xB6, 0xE4, 0xBD, 0x9C, 0xE4, 0xB8, 0xBA,
         0xE5, 0xAE, 0x8C, 0xE6, 0x95, 0xB4, 0xE5, 0x88, 0x9D, 0xE5, 0xA7, 0x8B, 0xE5, 0x86, 0x85, 0xE5,
         0xAE, 0xB9]) []),
      (''create'', leaf_schema ''boolean'' (bytes [0xE5, 0xBD, 0x93, 0xE7, 0x9B, 0xAE, 0xE6, 0xA0, 0x87, 0xE6, 0x96, 0x87, 0xE4, 0xBB, 0xB6, 0xE4,
         0xB8, 0x8D, 0xE5, 0xAD, 0x98, 0xE5, 0x9C, 0xA8, 0xE6, 0x97, 0xB6, 0xEF, 0xBC, 0x8C, 0xE6, 0x98,
         0xAF, 0xE5, 0x90, 0xA6, 0xE5, 0x85, 0x81, 0xE8, 0xAE, 0xB8, 0xE5, 0x88, 0x9B, 0xE5, 0xBB, 0xBA,
         0xE6, 0x96, 0xB0, 0xE6, 0x96, 0x87, 0xE6, 0x9C, 0xAC, 0xE6, 0x96, 0x87, 0xE4, 0xBB, 0xB6]) [])]
     [''path'', ''new_text'']"

definition workspace_delete_schema :: tool_definition where
  "workspace_delete_schema = tool_schema ''workspace_delete''
     (bytes [0xE5, 0x88, 0xA0, 0xE9, 0x99, 0xA4, 0x20, 0x77, 0x6F, 0x72, 0x6B, 0x73, 0x70, 0x61, 0x63, 0x65,
         0x20, 0xE5, 0x86, 0x85, 0xE7, 0x9A, 0x84, 0xE5, 0x8D, 0x95, 0xE4, 0xB8, 0xAA, 0xE5, 0xB8, 0xB8,
         0xE8, 0xA7, 0x84, 0xE6, 0x96, 0x87, 0xE6, 0x9C, 0xAC, 0xE6, 0x96, 0x87, 0xE4, 0xBB, 0xB6, 0xE3,
         0x80, 0x82])
     [(''path'', leaf_schema ''string'' (bytes [0xE6, 0x96, 0x87, 0xE4, 0xBB, 0xB6, 0xE8, 0xB7, 0xAF, 0xE5, 0xBE, 0x84, 0xEF, 0xBC, 0x8C, 0xE7,
         0x9B, 0xB8, 0xE5, 0xAF, 0xB9, 0xE4, 0xBA, 0x8E, 0x20, 0x77, 0x6F, 0x72, 0x6B, 0x73, 0x70, 0x61,
         0x63, 0x65]) [])]
     [''path'']"


section \<open>Arguments\<close>

text \<open>
  The numbers among the arguments are \<open>float64\<close>; the conversion to \<open>int\<close> truncates, and
  what does not fit is, on amd64, the least integer.
\<close>

definition float_int :: "rat \<Rightarrow> int" where
  "float_int q =
     (let (a, b) = quotient_of q; n = int_quot a b in if - (2 ^ 63) \<le> n \<and> n < 2 ^ 63 then n else - (2 ^ 63))"

definition parse_int_arg :: "json option \<Rightarrow> int \<Rightarrow> int" where
  "parse_int_arg v fallback = (case v of Some (JNum q) \<Rightarrow> float_int q | _ \<Rightarrow> fallback)"

definition parse_lines :: "json option \<Rightarrow> int list" where
  "parse_lines v = (case v of Some (JArr items) \<Rightarrow> map (\<lambda>x. parse_int_arg (Some x) 0) items | _ \<Rightarrow> [])"

definition bool_arg :: "string \<Rightarrow> json_object \<Rightarrow> bool" where
  "bool_arg k args = (case map_of args k of Some (JBool b) \<Rightarrow> b | _ \<Rightarrow> False)"

section \<open>Tools that read\<close>

definition memory_error_code :: "memory_error \<Rightarrow> string" where
  "memory_error_code e = (case e of ErrPathDenied m \<Rightarrow> ErrorCodeForbidden | _ \<Rightarrow> ErrorCodeInvalidArgument)"

definition memory_get_tool :: "tool_context \<Rightarrow> json_object \<Rightarrow> file_system \<Rightarrow> tool_result" where
  "memory_get_tool tx args fs =
     (let path = string_arg ''path'' args; lines = parse_lines (map_of args ''lines'');
          failed = (\<lambda>e. error_result (memory_error_code e) (''memory_get failed: '' @ memory_error_text fs e))
      in case memory_resolve_path fs (tx_workspace tx) path of
           Inl e \<Rightarrow> failed e
         | Inr (_, _, sc) \<Rightarrow>
             if \<not> can_access_scope (channel_type (tx_conversation tx)) sc
             then error_result ErrorCodeForbidden ''memory_get failed: scope denied''
             else (case memory_get fs (tx_workspace tx) path lines (int default_max_get_chars) of
                     Inl e \<Rightarrow> failed e
                   | Inr (rel, content) \<Rightarrow> output_result [(''path'', JStr rel), (''content'', JStr content)]))"

definition hit_json :: "search_hit \<Rightarrow> json" where
  "hit_json h = JObj [(''path'', JStr (sh_path h)), (''visibility'', JStr (sh_visibility h)), (''kind'', JStr (sh_kind h)),
     (''lines'', JArr [JNum (of_nat (sh_line h)), JNum (of_nat (sh_line h))]), (''score'', JNum (of_nat (sh_score h))),
     (''preview'', JStr (sh_preview h))]"

definition memory_search_tool :: "(string \<Rightarrow> string) \<Rightarrow> tool_context \<Rightarrow> json_object \<Rightarrow> file_system \<Rightarrow> tool_result" where
  "memory_search_tool lower tx args fs =
     (case memory_search lower fs (tx_workspace tx)
             \<lparr> sa_query = string_arg ''query'' args, sa_visibility = string_arg ''visibility'' args,
               sa_kind = string_arg ''kind'' args, sa_top_k = parse_int_arg (map_of args ''top_k'') 6,
               sa_channel_type = channel_type (tx_conversation tx) \<rparr> of
        Inl e \<Rightarrow> error_result ErrorCodeInvalidArgument (''memory_search failed: '' @ memory_error_text fs e)
      | Inr hits \<Rightarrow> output_result [(''disabled'', JBool False),
          (''hits'', case hits of None \<Rightarrow> JNull | Some hs \<Rightarrow> JArr (map hit_json hs))])"

definition context_get_error :: "file_system \<Rightarrow> file_error \<Rightarrow> tool_result" where
  "context_get_error fs e =
     error_result
       (case e of
          FileOsError op p n \<Rightarrow> if n = ENOENT then ErrorCodeNotFound else ErrorCodeInvalidArgument
        | FileError code m d \<Rightarrow>
            if code = CodeNotFound then ErrorCodeNotFound
            else if code = CodeForbidden then ErrorCodeForbidden else ErrorCodeInvalidArgument
        | FileOtherError m \<Rightarrow> ErrorCodeInvalidArgument)
       (''context_get failed: '' @ file_error_text fs e)"

definition context_get_tool :: "tool_context \<Rightarrow> json_object \<Rightarrow> file_system \<Rightarrow> tool_result" where
  "context_get_tool tx args fs =
     (case get_context fs (tx_workspace tx) (string_arg ''path'' args) (parse_lines (map_of args ''lines''))
             (int default_max_context_chars) of
        Inl e \<Rightarrow> context_get_error fs e
      | Inr (rel, content) \<Rightarrow> output_result [(''path'', JStr rel), (''content'', JStr content)])"

section \<open>Tools that write\<close>

definition workspace_file_error_code :: "string \<Rightarrow> string" where
  "workspace_file_error_code code =
     (if code = CodeInvalidArgument then ErrorCodeInvalidArgument
      else if code = CodeNotFound then ErrorCodeNotFound
      else if code = CodeConflict then ErrorCodeConflict
      else if code = CodeForbidden then ErrorCodeForbidden else ErrorCodeInternal)"

definition workspace_file_error_block :: "file_system \<Rightarrow> string \<Rightarrow> file_error \<Rightarrow> error_block" where
  "workspace_file_error_block fs tool e =
     (case e of
        FileError code m d \<Rightarrow>
          \<lparr> eb_code = workspace_file_error_code code, eb_message = tool @ '' failed: '' @ m, eb_details = d \<rparr>
      | _ \<Rightarrow> \<lparr> eb_code = ErrorCodeInternal, eb_message = tool @ '' failed: '' @ file_error_text fs e, eb_details = [] \<rparr>)"

definition workspace_patch_tool ::
  "file_env \<Rightarrow> tool_context \<Rightarrow> json_object \<Rightarrow> file_system \<Rightarrow> tool_result \<times> file_system" where
  "workspace_patch_tool env tx args fs =
     (case patch_file env (tx_workspace tx) (channel_type (tx_conversation tx))
             \<lparr> pa_path = string_arg ''path'' args, pa_old_text = string_arg ''old_text'' args,
               pa_new_text = string_arg ''new_text'' args, pa_create = bool_arg ''create'' args \<rparr> fs of
        (Inl e, fs') \<Rightarrow>
          (\<lparr> tr_disabled = False, tr_output = [],
             tr_error = Some (workspace_file_error_block fs' ''workspace_patch'' e) \<rparr>, fs')
      | (Inr r, fs') \<Rightarrow>
          (output_result [(''path'', JStr (pr_path r)), (''operation'', JStr (pr_operation r)),
             (''bytes_written'', JNum (of_nat (pr_bytes_written r))), (''sha256'', JStr (pr_sha256 r))], fs'))"

definition workspace_delete_tool ::
  "file_env \<Rightarrow> tool_context \<Rightarrow> json_object \<Rightarrow> file_system \<Rightarrow> tool_result \<times> file_system" where
  "workspace_delete_tool env tx args fs =
     (case delete_file env (tx_workspace tx) (channel_type (tx_conversation tx)) (string_arg ''path'' args) fs of
        (Inl e, fs') \<Rightarrow>
          (\<lparr> tr_disabled = False, tr_output = [],
             tr_error = Some (workspace_file_error_block fs' ''workspace_delete'' e) \<rparr>, fs')
      | (Inr r, fs') \<Rightarrow> (output_result [(''path'', JStr (dr_path r)), (''operation'', JStr (dr_operation r))], fs'))"

section \<open>The built-in tools\<close>

record 'm tool_world =
  tw_files :: file_system
  tw_calls :: nat
  tw_rest :: 'm

definition reading_tool :: "(tool_context \<Rightarrow> json_object \<Rightarrow> file_system \<Rightarrow> tool_result) \<Rightarrow> 'm tool_world handler" where
  "reading_tool f tx args w = (Inr (f tx args (tw_files w)), w)"

definition writing_tool ::
  "(nat \<Rightarrow> file_env) \<Rightarrow> (file_env \<Rightarrow> tool_context \<Rightarrow> json_object \<Rightarrow> file_system \<Rightarrow> tool_result \<times> file_system)
     \<Rightarrow> 'm tool_world handler" where
  "writing_tool envs f tx args w =
     (let (r, fs') = f (envs (tw_calls w)) tx args (tw_files w)
      in (Inr r, w\<lparr>tw_files := fs', tw_calls := Suc (tw_calls w)\<rparr>))"

text \<open>\<open>RegisterBuiltins\<close>; the tools of the web, in \<open>web\<close>, work on the rest of the world.\<close>

type_synonym 'm web_tools = "(tool_definition \<times> (tool_context \<Rightarrow> json_object \<Rightarrow> 'm \<Rightarrow> (string + tool_result) \<times> 'm)) \<times>
  (tool_definition \<times> (tool_context \<Rightarrow> json_object \<Rightarrow> 'm \<Rightarrow> (string + tool_result) \<times> 'm))"

definition web_tool :: "(tool_context \<Rightarrow> json_object \<Rightarrow> 'm \<Rightarrow> (string + tool_result) \<times> 'm) \<Rightarrow> 'm tool_world handler" where
  "web_tool f tx args w = (let (r, m) = f tx args (tw_rest w) in (r, w\<lparr>tw_rest := m\<rparr>))"

definition builtin_tools :: "(string \<Rightarrow> string) \<Rightarrow> (nat \<Rightarrow> file_env) \<Rightarrow> 'm web_tools \<Rightarrow> 'm tool_world registry" where
  "builtin_tools lower envs web =
     (register_tool ''workspace_delete'' workspace_delete_schema (writing_tool envs workspace_delete_tool)
      \<circ> register_tool ''workspace_patch'' workspace_patch_schema (writing_tool envs workspace_patch_tool)
      \<circ> register_tool ''web_fetch'' (fst (snd web)) (web_tool (snd (snd web)))
      \<circ> register_tool ''web_search'' (fst (fst web)) (web_tool (snd (fst web)))
      \<circ> register_tool ''memory_get'' memory_get_schema (reading_tool memory_get_tool)
      \<circ> register_tool ''memory_search'' memory_search_schema (reading_tool (memory_search_tool lower))
      \<circ> register_tool ''context_get'' context_get_schema (reading_tool context_get_tool)) []"

end
