(* ===== verification/Tools_System.thy ===== *)
theory Tools_System
  imports Tools Agent_System
begin

text \<open>
  The tools together with the agent that calls them: what a run may change in the file system,
  whatever the model asks for, and what the memory tools show to a channel.
\<close>

section \<open>One call\<close>

text \<open>The files a run leaves, seen from those it found.\<close>

definition fenced_files :: "string \<Rightarrow> string \<Rightarrow> file_system \<Rightarrow> file_system \<Rightarrow> bool" where
  "fenced_files w ch fs fs' \<longleftrightarrow> entries_kept fs fs' \<and> confined w ch fs fs'"

definition rooted_files :: "string \<Rightarrow> file_system \<Rightarrow> bool" where
  "rooted_files w fs \<longleftrightarrow> prefix ''/'' (fy_cwd fs) \<and> kind_at (fy_root fs) (base_of fs w) = Some IsDir"

lemma fenced_files_refl [simp]: "fenced_files w ch fs fs"
  by (simp add: fenced_files_def)

lemma fenced_files_base:
  "rooted_files w fs \<Longrightarrow> fenced_files w ch fs fs' \<Longrightarrow> rooted_files w fs' \<and> base_of fs' w = base_of fs w"
  using base_of_kept [of fs w fs'] by (auto simp: fenced_files_def rooted_files_def entries_kept_def)

lemma fenced_files_trans:
  "rooted_files w fs \<Longrightarrow> fenced_files w ch fs fs' \<Longrightarrow> fenced_files w ch fs' fs'' \<Longrightarrow> fenced_files w ch fs fs''"
  using fenced_files_base [of w fs ch fs'] entries_kept_trans [of fs fs' fs'']
  unfolding fenced_files_def confined_def by metis

lemma workspace_patch_tool_fenced:
  assumes "rooted_files (tx_workspace tx) fs"
  shows "fenced_files (tx_workspace tx) (channel_type (tx_conversation tx)) fs (snd (workspace_patch_tool env tx args fs))"
proof -
  have "snd (workspace_patch_tool env tx args fs) = snd (patch_file env (tx_workspace tx) (channel_type (tx_conversation tx))
      \<lparr> pa_path = string_arg ''path'' args, pa_old_text = string_arg ''old_text'' args,
        pa_new_text = string_arg ''new_text'' args, pa_create = bool_arg ''create'' args \<rparr> fs)" (is "_ = snd ?p")
    by (simp add: workspace_patch_tool_def split: prod.splits sum.splits)
  moreover obtain r fs' where p: "?p = (r, fs')" by fastforce
  ultimately show ?thesis
    using patch_file_confined [OF _ _ p] patch_file_entries [OF _ _ p] assms by (simp add: fenced_files_def rooted_files_def)
qed

lemma workspace_delete_tool_fenced:
  assumes "rooted_files (tx_workspace tx) fs"
  shows "fenced_files (tx_workspace tx) (channel_type (tx_conversation tx)) fs (snd (workspace_delete_tool env tx args fs))"
proof -
  have "snd (workspace_delete_tool env tx args fs) =
      snd (delete_file env (tx_workspace tx) (channel_type (tx_conversation tx)) (string_arg ''path'' args) fs)" (is "_ = snd ?p")
    by (simp add: workspace_delete_tool_def split: prod.splits sum.splits)
  moreover obtain r fs' where p: "?p = (r, fs')" by fastforce
  ultimately show ?thesis
    using delete_file_confined [OF _ _ p] delete_file_entries [OF _ _ p] assms by (simp add: fenced_files_def rooted_files_def)
qed

lemma builtin_tools_cases:
  assumes "map_of (builtin_tools lower envs web) name = Some (d, h)"
  obtains (reads) f where "h = reading_tool f" | (web) f where "h = web_tool f"
    | (patch) "h = writing_tool envs workspace_patch_tool" | (delete) "h = writing_tool envs workspace_delete_tool"
  using assms by (auto simp: builtin_tools_def register_tool_def split: if_splits)

lemma tool_invoke_fenced:
  assumes "rooted_files (tx_workspace tx) (tw_files w)"
  shows "fenced_files (tx_workspace tx) (channel_type (tx_conversation tx)) (tw_files w)
    (tw_files (snd (tool_invoke ctx (builtin_tools lower envs web) tx name args w)))"
proof (cases "map_of (builtin_tools lower envs web) name")
  case None
  then show ?thesis by (simp add: tool_invoke_def)
next
  case (Some dh)
  obtain d h where dh: "dh = (d, h)" by fastforce
  show ?thesis
  proof (cases ctx)
    case (Some e)
    then show ?thesis using \<open>map_of _ name = Some dh\<close> dh by (simp add: tool_invoke_def)
  next
    case None
    then have inv: "tw_files (snd (tool_invoke ctx (builtin_tools lower envs web) tx name args w)) = tw_files (snd (h tx args w))"
      using \<open>map_of _ name = Some dh\<close> dh by (simp add: tool_invoke_def split: prod.splits sum.splits)
    have h: "map_of (builtin_tools lower envs web) name = Some (d, h)" using \<open>map_of _ name = Some dh\<close> dh by simp
    have "fenced_files (tx_workspace tx) (channel_type (tx_conversation tx)) (tw_files w) (tw_files (snd (h tx args w)))"
    proof (cases rule: builtin_tools_cases [OF h, case_names reads web patch delete])
      case (reads f)
      then show ?thesis by (simp add: reading_tool_def)
    next
      case (web f)
      then show ?thesis by (simp add: web_tool_def case_prod_beta Let_def)
    next
      case patch
      then show ?thesis using workspace_patch_tool_fenced [OF assms, of "envs (tw_calls w)" args]
        by (simp add: writing_tool_def case_prod_beta Let_def)
    next
      case delete
      then show ?thesis using workspace_delete_tool_fenced [OF assms, of "envs (tw_calls w)" args]
        by (simp add: writing_tool_def case_prod_beta Let_def)
    qed
    then show ?thesis unfolding inv .
  qed
qed

section \<open>A run\<close>

text \<open>An agent whose tools are the built-in ones; its models and its prompt do not change files.\<close>

definition built_in_agent ::
  "(string \<Rightarrow> string) \<Rightarrow> (nat \<Rightarrow> file_env) \<Rightarrow> 'm web_tools \<Rightarrow> ('m tool_world \<Rightarrow> go_error option) \<Rightarrow> 'm tool_world agent \<Rightarrow> bool" where
  "built_in_agent lower envs web ctx ag \<longleftrightarrow>
     ag_invoke ag = (\<lambda>tx name args w. tool_invoke (ctx w) (builtin_tools lower envs web) tx name args w) \<and>
     (\<forall>m model name q w. ag_resolve ag m = Inr (model, name) \<longrightarrow> tw_files (snd (model q w)) = tw_files w) \<and>
     (\<forall>event now w. tw_files (snd (ag_system_prompt ag event now w)) = tw_files w)"

lemma run_tool_fenced:
  assumes "built_in_agent lower envs web ctx ag" "rooted_files (ag_workspace ag) (tw_files w)"
  shows "fenced_files (ag_workspace ag) (channel_type (ie_conversation event)) (tw_files w)
    (tw_files (snd (snd (run_tool ag event allowed call counts w))))"
proof -
  let ?tx = "\<lparr> tx_workspace = ag_workspace ag, tx_scopes = [], tx_conversation = ie_conversation event \<rparr>"
  have "fenced_files (ag_workspace ag) (channel_type (ie_conversation event)) (tw_files w)
      (tw_files (snd (ag_invoke ag ?tx (tc_name call) (tc_args call) w)))"
    using tool_invoke_fenced [of ?tx w "ctx w" lower envs web "tc_name call" "tc_args call"] assms
    by (simp add: built_in_agent_def)
  then show ?thesis by (auto simp: run_tool_def Let_def split: prod.splits option.splits)
qed

lemma tool_step_fenced:
  assumes "built_in_agent lower envs web ctx ag" "rooted_files (ag_workspace ag) (tw_files (ls_world st))"
  shows "fenced_files (ag_workspace ag) (channel_type (ie_conversation event)) (tw_files (ls_world st))
    (tw_files (ls_world (tool_step ag event opts sink now call st)))"
proof -
  obtain args cut where a: "sanitize_display_map (tc_args call) = (args, cut)" by fastforce
  let ?st1 = "sink_emit sink (OnToolStart (tc_id call) (tc_name call) args cut) st"
  obtain res counts w where r: "run_tool ag event (lo_allowed_tools opts) call (ls_counts ?st1) (ls_world ?st1) = (res, counts, w)"
    by (metis prod_cases3)
  have "ls_world (tool_step ag event opts sink now call st) = w"
    using r by (simp add: tool_step_def a Let_def split: prod.splits)
  then show ?thesis
    using run_tool_fenced [OF assms, of event "lo_allowed_tools opts" call "ls_counts ?st1"] r by simp
qed

lemma tool_steps_fenced:
  assumes "built_in_agent lower envs web ctx ag"
  shows "rooted_files (ag_workspace ag) (tw_files (ls_world st)) \<Longrightarrow>
    fenced_files (ag_workspace ag) (channel_type (ie_conversation event)) (tw_files (ls_world st))
      (tw_files (ls_world (fold (tool_step ag event opts sink now) calls st)))"
proof (induction calls arbitrary: st)
  case (Cons c cs)
  note step = tool_step_fenced [OF assms Cons.prems, of event opts sink now c]
  have "rooted_files (ag_workspace ag) (tw_files (ls_world (tool_step ag event opts sink now c st)))"
    using fenced_files_base [OF Cons.prems step] by blast
  then show ?case using fenced_files_trans [OF Cons.prems step Cons.IH] by simp
qed simp

lemma llm_rounds_fenced:
  fixes ag :: "'m tool_world agent"
  assumes agent: "built_in_agent lower envs web ctx ag" and model: "ag_resolve ag m = Inr (model, name)"
    and rooted: "rooted_files (ag_workspace ag) fs0"
    and start: "fenced_files (ag_workspace ag) (channel_type (ie_conversation event)) fs0 (tw_files (ls_world st))"
  shows "fenced_files (ag_workspace ag) (channel_type (ie_conversation event)) fs0
    (tw_files (ls_world (snd (llm_rounds ag model name' defs event opts sink now left st))))"
proof (rule llm_rounds_rule
    [where P = "\<lambda>st. fenced_files (ag_workspace ag) (channel_type (ie_conversation event)) fs0 (tw_files (ls_world st))"])
  fix st st' :: "'m tool_world loop_state" and r
  assume "fenced_files (ag_workspace ag) (channel_type (ie_conversation event)) fs0 (tw_files (ls_world st))"
    and "ask_model ag model name' defs sink st = (r, st')"
  moreover have "tw_files (snd (model q w)) = tw_files w" for q w using agent model by (auto simp: built_in_agent_def)
  ultimately show "fenced_files (ag_workspace ag) (channel_type (ie_conversation event)) fs0 (tw_files (ls_world st'))"
    by (simp add: ask_model_frame)
next
  fix res and st :: "'m tool_world loop_state"
  assume st: "fenced_files (ag_workspace ag) (channel_type (ie_conversation event)) fs0 (tw_files (ls_world st))"
  have "rooted_files (ag_workspace ag) (tw_files (ls_world (push_calls opts res st)))"
    using fenced_files_base [OF rooted st] by simp
  from tool_steps_fenced [OF agent this, of event opts sink now "mr_tool_calls res"]
  show "fenced_files (ag_workspace ag) (channel_type (ie_conversation event)) fs0
      (tw_files (ls_world (tool_round ag event opts sink now res st)))"
    using fenced_files_trans [OF rooted st] by (simp add: tool_round_def)
qed (use start in simp_all)

lemma llm_execute_fenced:
  assumes "built_in_agent lower envs web ctx ag" "rooted_files (ag_workspace ag) (tw_files w)"
  shows "fenced_files (ag_workspace ag) (channel_type (ie_conversation event)) (tw_files w)
    (tw_files (rr_world (llm_execute ag event max_rounds now finish trace sink opts n w)))"
proof -
  have start: "tw_files (ls_world (llm_start ag event now trace opts b n w)) = tw_files w" for b
    using assms(1) by (simp add: llm_start_def Let_def built_in_agent_def case_prod_beta)
  show ?thesis
  proof (cases rule: llm_execute_cases [of ag event max_rounds now finish trace sink opts n w, case_names early failed unasked finished])
    case (early err)
    then show ?thesis by (simp add: run_failed_def)
  next
    case (failed b model name st err)
    then show ?thesis
      using llm_rounds_fenced [OF assms(1) failed(1) assms(2), of event] start by (simp add: run_failed_def)
  next
    case (unasked b)
    then show ?thesis by (simp add: run_finished_def Let_def start)
  next
    case (finished b model name st reply res)
    then show ?thesis
      using llm_rounds_fenced [OF assms(1) finished(1) assms(2), of event] start by (simp add: run_finished_def Let_def)
  qed
qed

lemma run_agent_fenced:
  assumes "built_in_agent lower envs web ctx ag" "rooted_files (ag_workspace ag) (tw_files w)"
    and "ag_payloads ag = Some builtin_registry" "payload_type (payload event) \<notin> {''memory_flush'', ''compaction''}"
  shows "fenced_files (ag_workspace ag) (channel_type (ie_conversation event)) (tw_files w)
    (tw_files (rr_world (run_agent ag event max_rounds start finish sink n w)))"
proof -
  have "pl_kind (resolve_plan (Some builtin_registry) (payload_type (payload event))) \<noteq> ExecutionKindMemoryWrite"
    using assms(4) by (auto simp: resolve_plan_def builtin_registry_apply builtin_plans)
  then show ?thesis using llm_execute_fenced [OF assms(1,2)] assms(3)
    by (simp add: run_agent_def run_with_plan_def run_new_session_def Let_def)
qed

section \<open>What the memory tools show\<close>

lemma resolve_path_info_visibility:
  "resolve_path_info fs w raw = Inr (rel, p, info) \<Longrightarrow> pi_visibility info \<in> {VisibilityPublic, VisibilityPrivate}"
  by (auto simp: resolve_path_info_def describe_memory_path_def Let_def split: if_splits option.splits sum.splits)

lemma can_access_scope_public:
  "public_channel c \<Longrightarrow> v \<in> {VisibilityPublic, VisibilityPrivate} \<Longrightarrow> can_access_scope c v \<longleftrightarrow> v = VisibilityPublic"
proof -
  have "trim_space ''public'' = ''public''" "trim_space ''private'' = ''private''" by code_simp+
  moreover have "to_lower ''public'' = ''public''" "to_lower ''private'' = ''private''" by code_simp+
  ultimately show "public_channel c \<Longrightarrow> v \<in> {VisibilityPublic, VisibilityPrivate} \<Longrightarrow> can_access_scope c v \<longleftrightarrow> v = VisibilityPublic"
    by (auto simp: can_access_scope_def can_access_visibility_def allowed_visibilities_for_channel_def public_channel_def
        VisibilityPublic_def VisibilityPrivate_def)
qed

lemma file_text_public [simp]: "fy_text (public_view fs w) = fy_text fs"
  by (simp add: public_view_def)

lemma memory_error_text_public [simp]: "memory_error_text (public_view fs w) e = memory_error_text fs e"
  by (simp add: memory_error_text_def cong: memory_error.case_cong)

lemma memory_resolve_public [simp]: "memory_resolve_path (public_view fs w) v raw = memory_resolve_path fs v raw"
  by (simp add: memory_resolve_path_def public_view_def)

lemma memory_search_tool_public_view:
  assumes "public_channel (channel_type (tx_conversation tx))"
  shows "memory_search_tool lower tx args (public_view fs (tx_workspace tx)) = memory_search_tool lower tx args fs"
  unfolding memory_search_tool_def
  by (subst memory_search_public_view) (use assms in \<open>simp_all add: public_channel_def cong: sum.case_cong\<close>)

lemma memory_get_tool_public_view:
  assumes "public_channel (channel_type (tx_conversation tx))"
  shows "memory_get_tool tx args (public_view fs (tx_workspace tx)) = memory_get_tool tx args fs"
proof (cases "resolve_path_info fs (tx_workspace tx) (string_arg ''path'' args)")
  case (Inl e)
  then have "memory_resolve_path fs (tx_workspace tx) (string_arg ''path'' args) = Inl e" by (simp add: memory_resolve_path_def)
  then show ?thesis by (simp add: memory_get_tool_def Let_def)
next
  case (Inr r)
  obtain rel p info where r: "r = (rel, p, info)" using prod_cases3 by blast
  have res: "memory_resolve_path fs (tx_workspace tx) (string_arg ''path'' args) = Inr (rel, p, pi_visibility info)"
    using Inr r by (simp add: memory_resolve_path_def)
  show ?thesis
  proof (cases "pi_visibility info = VisibilityPublic")
    case True
    have "read_file (public_view fs (tx_workspace tx)) p = read_file fs p"
      using read_resolved_public [of fs "tx_workspace tx" _ rel p info] Inr r True by blast
    then show ?thesis by (simp add: memory_get_tool_def memory_get_def Let_def res cong: sum.case_cong if_cong)
  next
    case False
    then have "\<not> can_access_scope (channel_type (tx_conversation tx)) (pi_visibility info)"
      using can_access_scope_public [OF assms resolve_path_info_visibility [OF Inr [unfolded r]]] by simp
    then show ?thesis by (simp add: memory_get_tool_def Let_def res)
  qed
qed

section \<open>Files of an example\<close>

definition demo_files :: "string \<Rightarrow> file_system" where
  "demo_files secret =
     \<lparr> fy_root = Dir [(''w'', Dir [(''a.md'', File ''one two'' 420),
         (''memory'', Dir [(''public'', Dir [(''MEMORY.md'', File ''tea at five'' 420)]),
                           (''private'', Dir [(''MEMORY.md'', File secret 420)])])])],
       fy_cwd = ''/'', fy_text = (\<lambda>_ _ _. []) \<rparr>"

definition demo_env :: file_env where
  "demo_env = \<lparr> fv_printable = (\<lambda>_. True), fv_sha256 = id, fv_random = [''1''], fv_faults = no_faults \<rparr>"

definition demo_patch :: patch_args where
  "demo_patch = \<lparr> pa_path = ''a.md'', pa_old_text = ''two'', pa_new_text = ''six'', pa_create = False \<rparr>"

lemma demo_rooted: "rooted_files ''/w'' (demo_files secret)"
  unfolding rooted_files_def by code_simp

lemma demo_resolve:
  "resolve_path (fv_printable demo_env) (demo_files secret) ''/w'' ''a.md'' ''group'' =
     Inr \<lparr> fp_request_path = ''a.md'', fp_effective_path = ''a.md'', fp_abs_path = [''w'', ''a.md''],
           fp_exists = True, fp_channel_type = ''group'' \<rparr>"
  by code_simp

lemma demo_texts:
  "validate_text_content ''one two'' = None" "validate_text_content ''one six'' = None" "validate_text_content ''six'' = None"
  by (rule validate_ascii; simp)+

lemma demo_reads:
  "stat (demo_files secret) [''w'', ''a.md''] = Inr (File ''one two'' 420)"
  "read_file (demo_files secret) [''w'', ''a.md''] = Inr ''one two''"
  "count_text ''one two'' ''two'' = 1" "replace_first ''one two'' ''two'' ''six'' = ''one six''"
  "normalize_text ''six'' = ''six''" "normalize_text ''two'' = ''two''" "normalize_text ''one two'' = ''one two''"
  by code_simp+

lemma demo_writes:
  "fst (atomic_write_file (fv_faults demo_env) (fv_random demo_env) (demo_files []) [''w'', ''a.md''] ''one six'' 420) = None"
  by code_simp

lemma demo_patched: "\<not> isl (fst (patch_file demo_env ''/w'' ''group'' demo_patch (demo_files [])))"
  by (simp add: patch_file_def demo_patch_def demo_resolve demo_reads demo_texts demo_writes Let_def write_outcome_def)

section \<open>Properties\<close>


text \<open>A model that patches a file, then answers; its part of the world counts its calls.\<close>

definition patching_model :: "nat tool_world invoker" where
  "patching_model rq w =
     (([], Inr (if tw_rest w = 0
                then zero_result\<lparr>mr_tool_calls := [\<lparr> tc_id = ''1'', tc_name = ''workspace_patch'',
                  tc_args = [(''path'', JStr ''a.md''), (''old_text'', JStr ''two''), (''new_text'', JStr ''six'')] \<rparr>]\<rparr>
                else zero_result\<lparr>mr_text := ''ok''\<rparr>)), w\<lparr>tw_rest := Suc (tw_rest w)\<rparr>)"

definition no_web :: "nat web_tools" where
  "no_web = ((tool_schema ''web_search'' [] [] [], (\<lambda>tx args m. (Inr (output_result []), m))),
             (tool_schema ''web_fetch'' [] [] [], (\<lambda>tx args m. (Inr (output_result []), m))))"

definition patching_agent :: "nat tool_world agent" where
  "patching_agent = \<lparr> ag_workspace = ''/w'', ag_printable = (\<lambda>_. True), ag_marshal = (\<lambda>_. None), ag_tool_definitions = [],
     ag_invoke = (\<lambda>tx name args w. tool_invoke None (builtin_tools id (\<lambda>_. demo_env) no_web) tx name args w),
     ag_default_model = ''m'', ag_resolve = (\<lambda>m. Inr (patching_model, m)),
     ag_reader = (\<lambda>w. \<lparr> cr_load_prompt_history = (\<lambda>s k. Inr []), cr_search_rag_hits = (\<lambda>s q k. Inr []) \<rparr>),
     ag_system_prompt = (\<lambda>e t w. (''system'', w)), ag_write_daily = (\<lambda>a b c d w. w), ag_write_curated = (\<lambda>a b c w. w),
     ag_payloads = Some builtin_registry \<rparr>"

definition group_event :: internal_event where
  "group_event = \<lparr> event_id = ''e'', source = ''cli'', tenant_id = [], scopes = [],
     ie_conversation = \<lparr> conversation_id = ''c'', thread_id = [], channel_type = ''group'', participant_id = [] \<rparr>,
     session_key = ''k'', idempotency_key = ''i'', timestamp = 0,
     payload = \<lparr> payload_type = ''message'', payload_text = ''go'', mentions = [], attachments = [], native = None,
                 native_ref = [], extra = [] \<rparr>,
     active_session_id = ''s'' \<rparr>"

lemma patching_built_in: "built_in_agent id (\<lambda>_. demo_env) no_web (\<lambda>_. None) patching_agent"
  by (simp add: built_in_agent_def patching_agent_def patching_model_def)

definition demo_world :: "nat tool_world" where
  "demo_world = \<lparr> tw_files = demo_files [], tw_calls = 0, tw_rest = 0 \<rparr>"



definition group_context :: tool_context where
  "group_context = \<lparr> tx_workspace = ''/w'', tx_scopes = [], tx_conversation = ie_conversation group_event \<rparr>"

lemma demo_public_view: "public_view (demo_files ''x'') ''/w'' = public_view (demo_files ''yz'') ''/w''"
  by (simp add: public_view_def demo_files_def blanked_def public_memory_def) code_simp


text \<open>
  C36: A file is written all or nothing: at every moment of the write, whichever of its calls
  fails, the target holds what it held or the whole new text, and nothing else changed but that
  a temporary file of its own name may exist beside it; when the write succeeds the target holds
  the new text and there is no temporary file, when it fails the target is as it was, and so is
  everything if the temporary file could be removed.
\<close>

theorem write_all_or_nothing:
  fixes fl :: write_faults and random :: "string list" and data :: string and mode :: nat
  assumes "canonical (kind_at (fy_root fs)) p" and "p \<noteq> []" and "kind_at (fy_root fs) p \<noteq> Some IsDir"
  defines "run \<equiv> atomic_write_file fl random fs p data mode"
  shows "(\<forall>s. s \<in> set (snd run) \<longrightarrow>
            leaf_at (fy_root s) p \<in> {leaf_at (fy_root fs) p, Some (File data mode)} \<and>
            {q. leaf_at (fy_root s) q \<noteq> leaf_at (fy_root fs) q} - {p}
              \<subseteq> {butlast p @ [''.'' @ last p @ ''.tmp-'' @ r] | r. True}) \<and>
    (fst run = None \<longrightarrow> leaf_at (fy_root (last (snd run))) = (leaf_at (fy_root fs))(p := Some (File data mode))) \<and>
    (fst run \<noteq> None \<longrightarrow> leaf_at (fy_root (last (snd run))) p = leaf_at (fy_root fs) p) \<and>
    (fst run \<noteq> None \<and> wl_remove fl = None \<longrightarrow> leaf_at (fy_root (last (snd run))) = leaf_at (fy_root fs))"
proof -
  obtain r states where run: "run = (r, states)" by fastforce
  note leaves = atomic_write_file_leaves [OF assms(1-3) run [unfolded run_def]]
  then show ?thesis by (auto simp: run write_kept_def temp_names_def)
qed

theorem write_all_or_nothing_witness:
  "leaf_at (fy_root (last (snd (atomic_write_file no_faults [''1''] (demo_files []) [''w'', ''a.md''] ''one six'' 420)))) =
     (leaf_at (fy_root (demo_files [])))([''w'', ''a.md''] := Some (File ''one six'' 420))"
proof -
  have d: "canonical (kind_at (fy_root (demo_files []))) [''w'', ''a.md'']"
    "kind_at (fy_root (demo_files [])) [''w'', ''a.md''] \<noteq> Some IsDir"
    unfolding canonical_def by (simp_all add: demo_files_def kind_at_def less_Suc_eq)
  show ?thesis
    using write_all_or_nothing [OF d(1) _ d(2), of "no_faults" "[''1'']" "''one six''" 420] demo_writes
    by (simp add: demo_env_def)
qed

text \<open>
  A successful patch of a file that is there replaces an occurrence of the old text after
  which it does not occur again, the line ends of the file and of both texts normalised: the
  file, a text of valid UTF-8, keeps its mode, no other entry of the tree changes, and the
  result names the operation and the length that was written.
\<close>

theorem patch_replaces_match:
  assumes "prefix ''/'' (fy_cwd fs)" and "kind_at (fy_root fs) (base_of fs w) = Some IsDir"
    and "\<not> isl (fst (patch_file env w ch args fs))" and "\<not> pa_create args"
  shows "\<exists>rel data mode pre post. leaf_at (fy_root fs) (base_of fs w @ rel) = Some (File data mode) \<and> valid_utf8 data \<and>
    normalize_text data = pre @ normalize_text (pa_old_text args) @ post \<and>
    count_text post (normalize_text (pa_old_text args)) = 0 \<and>
    leaf_at (fy_root (snd (patch_file env w ch args fs))) = (leaf_at (fy_root fs))(base_of fs w @ rel :=
      Some (File (pre @ normalize_text (pa_new_text args) @ post) mode)) \<and>
    pr_operation (projr (fst (patch_file env w ch args fs))) = ''patched'' \<and>
    pr_bytes_written (projr (fst (patch_file env w ch args fs))) = length (pre @ normalize_text (pa_new_text args) @ post)"
proof -
  obtain r fs' where run: "patch_file env w ch args fs = (r, fs')" by fastforce
  let ?old = "normalize_text (pa_old_text args)" and ?new = "normalize_text (pa_new_text args)"
  show ?thesis
  proof (cases rule: patch_file_cases [OF assms(1,2) run, case_names refused created patched])
    case (patched rel data mode new e st)
    have e: "e = None" using patched(9) assms(3) run by simp
    obtain x where x: "r = Inr x" using assms(3) run by (cases r) auto
    have t: "validate_text_content data = None" "count_text (normalize_text data) ?old = 1"
        "new = replace_first (normalize_text data) ?old ?new"
      using patched(6) by (auto simp: patched_text_def Let_def split: if_splits)
    have old: "?old \<noteq> []" using patched(3) by (simp add: normalize_text_Nil)
    obtain pre post where split: "normalize_text data = pre @ ?old @ post" "new = pre @ ?new @ post" "count_text post ?old = 0"
      using replace_first_split [of "normalize_text data" ?old ?new] t(2,3) old by auto
    have "leaf_at (fy_root fs') = (leaf_at (fy_root fs))(base_of fs w @ rel := Some (File new mode))"
      using atomic_write_file_leaves(3) [OF patched(4) _ _ patched(7) e] patched(1,5,8)
      by (auto simp: guarded_path_def kind_at_leaf)
    moreover have "valid_utf8 data" using t(1) by (auto simp: validate_text_content_def split: if_splits)
    ultimately show ?thesis using patched(5,10) x run split
      by (intro exI [of _ rel] exI [of _ data] exI [of _ mode] exI [of _ pre] exI [of _ post]) simp
  qed (use assms(3,4) run in auto)
qed

theorem patch_replaces_match_witness:
  "\<exists>rel data mode pre post. leaf_at (fy_root (demo_files [])) (base_of (demo_files []) ''/w'' @ rel) = Some (File data mode) \<and>
    valid_utf8 data \<and> normalize_text data = pre @ normalize_text (pa_old_text demo_patch) @ post \<and>
    count_text post (normalize_text (pa_old_text demo_patch)) = 0 \<and>
    leaf_at (fy_root (snd (patch_file demo_env ''/w'' ''group'' demo_patch (demo_files [])))) =
      (leaf_at (fy_root (demo_files [])))(base_of (demo_files []) ''/w'' @ rel :=
        Some (File (pre @ normalize_text (pa_new_text demo_patch) @ post) mode)) \<and>
    pr_operation (projr (fst (patch_file demo_env ''/w'' ''group'' demo_patch (demo_files [])))) = ''patched'' \<and>
    pr_bytes_written (projr (fst (patch_file demo_env ''/w'' ''group'' demo_patch (demo_files [])))) =
      length (pre @ normalize_text (pa_new_text demo_patch) @ post)"
proof (rule patch_replaces_match)
  show "prefix ''/'' (fy_cwd (demo_files []))" "kind_at (fy_root (demo_files [])) (base_of (demo_files []) ''/w'') = Some IsDir"
    using demo_rooted [of "[]"] by (simp_all add: rooted_files_def)
  show "\<not> pa_create demo_patch" by (simp add: demo_patch_def)
qed (rule demo_patched)

section \<open>Two limits\<close>

text \<open>
  The count of a patch is of occurrences that do not overlap, so an old text that occurs at two
  places counts once when they overlap; and the guard of private memory covers
  \<open>memory/private\<close> only, while the memory tools take every other Markdown file below
  \<open>memory\<close> for private.
\<close>

lemma overlapping_match_counts_once:
  "count_text ''aaa'' ''aa'' = 1 \<and> ''aaa'' = [] @ ''aa'' @ ''a'' \<and> ''aaa'' = ''a'' @ ''aa'' @ []"
  by code_simp

lemma legacy_memory_not_guarded:
  "map_option pi_visibility (describe_memory_path ''memory/notes.md'') = Some VisibilityPrivate \<and>
   \<not> is_private_memory_path ''memory/notes.md''"
  by code_simp

end
