(* ===== verification/Go_Regexp.thy ===== *)
theory Go_Regexp
  imports Prelude
begin

text \<open>
  The regular expressions of the web tools with the leftmost-first matching of \<open>regexp\<close>: a
  match is the first one a backtracking search finds.  All patterns are of the same kind: their
  repetitions are of single characters, and every match begins with an ASCII character, so that
  matching the bytes of a text finds what matching its runes finds.
\<close>

datatype regex =
  Nothing
| OneOf "char list"
| NoneOf "char list"
| Then regex regex
| Either regex regex
| Greedy regex
| Lazy regex
| Group regex

text \<open>
  The ways to match the front of a text, best first: the captured groups and the rest.  The
  number bounds the repetitions.
\<close>

fun repeats :: "bool \<Rightarrow> (string \<Rightarrow> (string list \<times> string) list) \<Rightarrow> nat \<Rightarrow> string \<Rightarrow> (string list \<times> string) list" where
  "repeats greedy f 0 s = [([], s)]"
| "repeats greedy f (Suc n) s =
     (let more = concat (map (\<lambda>(g, r). if length r < length s
                                       then map (\<lambda>(h, q). (g @ h, q)) (repeats greedy f n r) else []) (f s))
      in if greedy then more @ [([], s)] else ([], s) # more)"

fun matches :: "regex \<Rightarrow> string \<Rightarrow> (string list \<times> string) list" where
  "matches Nothing s = [([], s)]"
| "matches (OneOf cs) s = (case s of [] \<Rightarrow> [] | c # r \<Rightarrow> if c \<in> set cs then [([], r)] else [])"
| "matches (NoneOf cs) s = (case s of [] \<Rightarrow> [] | c # r \<Rightarrow> if c \<in> set cs then [] else [([], r)])"
| "matches (Then a b) s =
     concat (map (\<lambda>(g, r). map (\<lambda>(h, q). (g @ h, q)) (matches b r)) (matches a s))"
| "matches (Either a b) s = matches a s @ matches b s"
| "matches (Greedy a) s = repeats True (matches a) (length s) s"
| "matches (Lazy a) s = repeats False (matches a) (length s) s"
| "matches (Group a) s = map (\<lambda>(g, r). (take (length s - length r) s # g, r)) (matches a s)"

definition first_match :: "regex \<Rightarrow> string \<Rightarrow> (string list \<times> string) option" where
  "first_match re s = (case matches re s of [] \<Rightarrow> None | m # ms \<Rightarrow> Some m)"

text \<open>\<open>FindStringSubmatch\<close>: the groups of the leftmost match.\<close>

fun find_submatch :: "regex \<Rightarrow> string \<Rightarrow> string list option" where
  "find_submatch re [] = map_option fst (first_match re [])"
| "find_submatch re (c # s) =
     (case first_match re (c # s) of Some (g, r) \<Rightarrow> Some g | None \<Rightarrow> find_submatch re s)"

text \<open>\<open>ReplaceAllString\<close> and \<open>FindAllStringSubmatch\<close>, for patterns that match no empty text.\<close>

function replace_all :: "regex \<Rightarrow> string \<Rightarrow> string \<Rightarrow> string" where
  "replace_all re repl [] = []"
| "replace_all re repl (c # s) =
     (case first_match re (c # s) of
        Some (g, r) \<Rightarrow> if length r \<le> length s then repl @ replace_all re repl r else c # replace_all re repl s
      | None \<Rightarrow> c # replace_all re repl s)"
  by pat_completeness auto
termination by (relation "measure (\<lambda>(re, repl, s). length s)") auto

function find_all :: "regex \<Rightarrow> string \<Rightarrow> string list list" where
  "find_all re [] = []"
| "find_all re (c # s) =
     (case first_match re (c # s) of
        Some (g, r) \<Rightarrow> if length r \<le> length s then g # find_all re r else find_all re s
      | None \<Rightarrow> find_all re s)"
  by pat_completeness auto
termination by (relation "measure (\<lambda>(re, s). length s)") auto

section \<open>Building patterns\<close>

definition literal_text :: "string \<Rightarrow> regex" where
  "literal_text s = foldr (\<lambda>c r. Then (OneOf [c]) r) s Nothing"

text \<open>
  A letter of a case-insensitive pattern: both cases, and the two other characters that fold to an
  ASCII letter, the long s and the Kelvin sign.
\<close>

definition fold_letter :: "char \<Rightarrow> regex" where
  "fold_letter c =
     (if c = CHR ''s'' then Either (OneOf [CHR ''S'', CHR ''s'']) (literal_text [CHR 0xC5, CHR 0xBF])
      else if c = CHR ''k'' then Either (OneOf [CHR ''K'', CHR ''k'']) (literal_text [CHR 0xE2, CHR 0x84, CHR 0xAA])
      else if CHR ''a'' \<le> c \<and> c \<le> CHR ''z'' then OneOf [char_of (of_char c - 32 :: nat), c]
      else OneOf [c])"

definition fold_text :: "string \<Rightarrow> regex" where
  "fold_text s = foldr (\<lambda>c r. Then (fold_letter c) r) s Nothing"

definition any_of :: "regex list \<Rightarrow> regex" where
  "any_of rs = (case rev rs of [] \<Rightarrow> Nothing | r # qs \<Rightarrow> foldr Either (rev qs) r)"

text \<open>The white space of a pattern.\<close>

definition regex_space :: "char list" where
  "regex_space = [CHR 0x09, CHR 0x0A, CHR 0x0C, CHR 0x0D, CHR '' '']"

definition one_or_more :: "regex \<Rightarrow> regex" where
  "one_or_more r = Then r (Greedy r)"

section \<open>Matching takes from the front\<close>

lemma repeats_suffix:
  assumes "\<And>s m. m \<in> set (f s) \<Longrightarrow> suffix (snd m) s"
  shows "m \<in> set (repeats g f n s) \<Longrightarrow> suffix (snd m) s"
proof (induction n arbitrary: m s)
  case (Suc n)
  then show ?case
    by (auto simp: Let_def split: if_splits) (metis assms suffix_order.trans snd_conv)+
qed simp

lemma matches_suffix: "m \<in> set (matches re s) \<Longrightarrow> suffix (snd m) s"
proof (induction re arbitrary: s m)
  case (Then a b)
  then show ?case by (fastforce intro: suffix_order.trans)
next
  case (Greedy a)
  show ?case
    by (rule repeats_suffix [where f = "matches a" and g = True and n = "length s"])
      (use Greedy in simp_all)
next
  case (Lazy a)
  show ?case
    by (rule repeats_suffix [where f = "matches a" and g = False and n = "length s"])
      (use Lazy in simp_all)
next
  case (Group a)
  then show ?case by fastforce
qed (auto split: list.splits if_splits simp: suffix_def)

lemma first_match_suffix: "first_match re s = Some (g, r) \<Longrightarrow> suffix r s"
  using matches_suffix [of "(g, r)" re s] by (auto simp: first_match_def split: list.splits)

end
