(* ===== verification/Web_Search.thy ===== *)
theory Web_Search
  imports Web_Client Go_Regexp Tools
begin

text \<open>
  \<open>internal/tools/web_search.go\<close>: the tool \<open>web_search\<close>, which reads the result page of
  a search engine.  The client is the default one.
\<close>

section \<open>Options\<close>

abbreviation "default_web_search_max_results \<equiv> (5 :: int)"
abbreviation "min_web_search_top_k \<equiv> (1 :: int)"
abbreviation "max_web_search_top_k \<equiv> (8 :: int)"
abbreviation "web_search_summary_sources \<equiv> (3 :: nat)"
abbreviation "web_search_summary_max_runes \<equiv> (600 :: nat)"

definition web_search_body_limit :: int where
  "web_search_body_limit = 2 ^ 20"

definition default_duckduckgo_base_url :: string where
  "default_duckduckgo_base_url = ''https://html.duckduckgo.com/html/''"

record web_search_options =
  so_max_results :: int
  so_base_url :: string

record web_search_tool_state =
  st_base_url :: string
  st_max_results :: int

definition normalize_web_search_max_results :: "int \<Rightarrow> int" where
  "normalize_web_search_max_results v =
     (if v \<le> 0 then default_web_search_max_results
      else if max_web_search_top_k < v then max_web_search_top_k else v)"

definition new_web_search_tool :: "web_search_options \<Rightarrow> web_search_tool_state" where
  "new_web_search_tool opts =
     (let base = trim_space (so_base_url opts) in
      \<lparr> st_base_url = (if base = [] then default_duckduckgo_base_url else base),
        st_max_results = normalize_web_search_max_results (so_max_results opts) \<rparr>)"

definition clamp_requested_web_search_top_k :: "int \<Rightarrow> int" where
  "clamp_requested_web_search_top_k v =
     (if v < min_web_search_top_k then min_web_search_top_k
      else if max_web_search_top_k < v then max_web_search_top_k else v)"

definition resolve_web_search_top_k :: "json option \<Rightarrow> int \<Rightarrow> int" where
  "resolve_web_search_top_k raw fallback =
     (let allowed = normalize_web_search_max_results fallback in
      case raw of Some (JNum q) \<Rightarrow> min (clamp_requested_web_search_top_k (float_int q)) allowed | _ \<Rightarrow> allowed)"

section \<open>Reading the page\<close>

definition re_html_tags :: regex where
  "re_html_tags = Then (OneOf ''<'') (Then (one_or_more (NoneOf ''>'')) (OneOf ''>''))"

definition re_whitespace :: regex where
  "re_whitespace = one_or_more (OneOf regex_space)"

abbreviation (input) "dquote \<equiv> CHR 0x22"

text \<open>The part of both patterns up to the class they look for.\<close>

definition re_anchor_class :: "string \<Rightarrow> regex \<Rightarrow> regex" where
  "re_anchor_class cls rest =
     Then (literal_text ''<a'') (Then (Greedy (NoneOf ''>'')) (Then (literal_text (''class='' @ [dquote]))
       (Then (Greedy (NoneOf [dquote])) (Then (literal_text cls) (Then (Greedy (NoneOf [dquote]))
         (Then (OneOf [dquote]) (Then (Greedy (NoneOf ''>'')) rest)))))))"

definition re_duckduckgo_result_link :: regex where
  "re_duckduckgo_result_link =
     re_anchor_class ''result__a'' (Then (literal_text (''href='' @ [dquote]))
       (Then (Group (one_or_more (NoneOf [dquote]))) (Then (OneOf [dquote]) (Then (Greedy (NoneOf ''>''))
         (Then (OneOf ''>'') (Then (Group (Lazy (NoneOf []))) (literal_text ''</a>'')))))))"

definition re_duckduckgo_snippet :: regex where
  "re_duckduckgo_snippet =
     re_anchor_class ''result__snippet'' (Then (OneOf ''>'') (Then (Group (Lazy (NoneOf []))) (literal_text ''</a>'')))"

definition normalize_whitespace :: "string \<Rightarrow> string" where
  "normalize_whitespace s = trim_space (replace_all re_whitespace '' '' s)"

definition clean_html_text :: "'n web_env \<Rightarrow> string \<Rightarrow> string" where
  "clean_html_text env raw = normalize_whitespace (we_unescape_html env (replace_all re_html_tags '' '' raw))"

definition decode_duckduckgo_url :: "'n web_env \<Rightarrow> string \<Rightarrow> string" where
  "decode_duckduckgo_url env raw =
     (let trimmed = we_unescape_html env (trim_space raw) in
      if sublist ''uddg='' trimmed
      then (case we_parse_url env trimmed of
              Inl m \<Rightarrow> trimmed
            | Inr u \<Rightarrow>
                (let target = query_get (parse_query (u_raw_query u)) ''uddg'' in
                 if target = [] then trimmed
                 else (case query_unescape target of Some decoded \<Rightarrow> decoded | None \<Rightarrow> target)))
      else trimmed)"

definition has_duckduckgo_no_results :: "string \<Rightarrow> bool" where
  "has_duckduckgo_no_results lower_body \<longleftrightarrow>
     sublist ''result--no-result'' lower_body \<or> sublist ''no results found'' lower_body \<or>
     sublist ''did not match any documents'' lower_body"

record web_search_result =
  wr_title :: string
  wr_url :: string
  wr_snippet :: string

text \<open>The loop over the links; the snippet of a link is the one at its index.\<close>

fun collect_results :: "'n web_env \<Rightarrow> string list list \<Rightarrow> int \<Rightarrow> nat \<Rightarrow> string list list \<Rightarrow> web_search_result list
    \<Rightarrow> web_search_result list" where
  "collect_results env snippets top_k idx [] acc = acc"
| "collect_results env snippets top_k idx (m # ms) acc =
     (if top_k \<le> int (length acc) then acc
      else (case m of
              [href, text] \<Rightarrow>
                (let link = decode_duckduckgo_url env href; title = clean_html_text env text in
                 if title = [] \<or> link = [] then collect_results env snippets top_k (Suc idx) ms acc
                 else collect_results env snippets top_k (Suc idx) ms
                   (acc @ [\<lparr> wr_title = title, wr_url = link,
                      wr_snippet = (if idx < length snippets then clean_html_text env (hd (snippets ! idx)) else []) \<rparr>]))
            | _ \<Rightarrow> collect_results env snippets top_k (Suc idx) ms acc))"

definition extract_duckduckgo_results :: "'n web_env \<Rightarrow> string \<Rightarrow> int \<Rightarrow> string + web_search_result list" where
  "extract_duckduckgo_results env body top_k =
     (let lower_body = to_lower body; links = find_all re_duckduckgo_result_link body;
          snippets = take (length links) (find_all re_duckduckgo_snippet body);
          results = collect_results env snippets top_k 0 links []
      in if \<not> sublist ''<html'' lower_body then Inl ''non-HTML response body''
         else if results = [] then (if has_duckduckgo_no_results lower_body then Inr [] else Inl ''unexpected response format'')
         else Inr results)"

definition truncate_runes :: "string \<Rightarrow> nat \<Rightarrow> string" where
  "truncate_runes s limit =
     (if limit = 0 then [] else if length (runes s) \<le> limit then s else string_of_runes (take limit (runes s)))"

definition summarize_web_search_results :: "web_search_result list \<Rightarrow> string" where
  "summarize_web_search_results results =
     (let snippets = take web_search_summary_sources
            (filter (\<lambda>s. s \<noteq> []) (map (\<lambda>r. normalize_whitespace (wr_snippet r)) results))
      in if snippets = [] then [] else truncate_runes (join '' '' snippets) web_search_summary_max_runes)"

section \<open>The search\<close>

definition build_duckduckgo_search_url :: "'n web_env \<Rightarrow> string \<Rightarrow> string \<Rightarrow> string + string" where
  "build_duckduckgo_search_url env base query =
     (case we_parse_url env (trim_space base) of
        Inl m \<Rightarrow> Inl (''invalid web search base url: '' @ m)
      | Inr u \<Rightarrow> Inr (we_url_string env
                  (u\<lparr>u_raw_query := query_encode (query_set (parse_query (u_raw_query u)) ''q'' query)\<rparr>)))"

definition default_client_do ::
  "'n web_env \<Rightarrow> url \<Rightarrow> 'n web_net \<Rightarrow> (web_error + url \<times> http_response) \<times> 'n web_net" where
  "default_client_do env u w =
     client_do env 10 ''stopped after 10 redirects'' (\<lambda>u via w. (None, w)) (plain_trip env) [] u w"

definition web_search ::
  "'n web_env \<Rightarrow> web_search_tool_state \<Rightarrow> string \<Rightarrow> int \<Rightarrow> 'n web_net \<Rightarrow> (string + web_search_result list) \<times> 'n web_net" where
  "web_search env st query top_k w =
     (case build_duckduckgo_search_url env (st_base_url st) query of
        Inl m \<Rightarrow> (Inl m, w)
      | Inr search_url \<Rightarrow>
          (case new_request env search_url of
             Inl e \<Rightarrow> (Inl (web_error_text (we_printable env) e), w)
           | Inr req \<Rightarrow>
               (case default_client_do env req w of
                  (Inl e, w1) \<Rightarrow> (Inl (web_error_text (we_printable env) e), w1)
                | (Inr (final, resp), w1) \<Rightarrow>
                    (if hr_status resp \<noteq> 200 then Inl (''unexpected status '' @ show_int (hr_status resp))
                     else (case read_limited_body resp web_search_body_limit of
                             Inl m \<Rightarrow> Inl m
                           | Inr body \<Rightarrow> extract_duckduckgo_results env body top_k), w1))))"

definition web_search_handle ::
  "'n web_env \<Rightarrow> web_search_tool_state \<Rightarrow> tool_context \<Rightarrow> json_object \<Rightarrow> 'n web_net \<Rightarrow> tool_result \<times> 'n web_net" where
  "web_search_handle env st tx args w =
     (let query = trim_space (string_arg ''query'' args) in
      if query = [] then (error_result ErrorCodeInvalidArgument ''web_search failed: query is required'', w)
      else (case web_search env st query (resolve_web_search_top_k (map_of args ''top_k'') (st_max_results st)) w of
              (Inl m, w1) \<Rightarrow>
                (case we_ctx_err env (wn_rest w1) of
                   Some e \<Rightarrow> error_result ErrorCodeCanceled (''web_search canceled: '' @ error_text e)
                 | None \<Rightarrow> error_result ErrorCodeInternal (''web_search failed: '' @ m), w1)
            | (Inr results, w1) \<Rightarrow>
                (output_result [(''provider'', JStr ''duckduckgo''), (''query'', JStr query),
                   (''summary'', JStr (summarize_web_search_results results)),
                   (''results'', JArr (map (\<lambda>r. JObj [(''title'', JStr (wr_title r)), (''url'', JStr (wr_url r)),
                      (''snippet'', JStr (wr_snippet r))]) results))], w1)))"

definition number_schema :: "string \<Rightarrow> rat \<Rightarrow> rat \<Rightarrow> parameter_schema" where
  "number_schema description low high = ParameterSchema ''integer'' description [] (Some low) (Some high) [] [] None"

definition web_search_schema :: tool_definition where
  "web_search_schema = tool_schema ''web_search''
     (bytes [0xE6, 0x9F, 0xA5, 0xE8, 0xAF, 0xA2, 0xE5, 0xBD, 0x93, 0xE5, 0x89, 0x8D, 0xE5, 0xA4, 0x96, 0xE9,
         0x83, 0xA8, 0xE5, 0x85, 0xAC, 0xE5, 0xBC, 0x80, 0xE7, 0xBD, 0x91, 0xE9, 0xA1, 0xB5, 0xE4, 0xBF,
         0xA1, 0xE6, 0x81, 0xAF, 0xEF, 0xBC, 0x8C, 0xE8, 0xBF, 0x94, 0xE5, 0x9B, 0x9E, 0xE6, 0xA0, 0x87,
         0xE9, 0xA2, 0x98, 0xE3, 0x80, 0x81, 0x55, 0x52, 0x4C, 0x20, 0xE5, 0x92, 0x8C, 0xE6, 0x91, 0x98,
         0xE8, 0xA6, 0x81, 0xE7, 0x89, 0x87, 0xE6, 0xAE, 0xB5, 0xE3, 0x80, 0x82])
     [(''query'', leaf_schema ''string'' (bytes [0xE6, 0x90, 0x9C, 0xE7, 0xB4, 0xA2, 0xE5, 0x85, 0xB3, 0xE9, 0x94, 0xAE, 0xE8, 0xAF, 0x8D, 0xE6,
         0x88, 0x96, 0xE9, 0x97, 0xAE, 0xE9, 0xA2, 0x98, 0xEF, 0xBC, 0x8C, 0xE9, 0x80, 0x82, 0xE7, 0x94,
         0xA8, 0xE4, 0xBA, 0x8E, 0xE9, 0x9C, 0x80, 0xE8, 0xA6, 0x81, 0xE6, 0x9C, 0x80, 0xE6, 0x96, 0xB0,
         0xE5, 0x85, 0xAC, 0xE5, 0xBC, 0x80, 0xE4, 0xBF, 0xA1, 0xE6, 0x81, 0xAF, 0xE7, 0x9A, 0x84, 0xE5,
         0x9C, 0xBA, 0xE6, 0x99, 0xAF, 0xE3, 0x80, 0x82]) []),
      (''top_k'', number_schema (bytes [0xE8, 0xBF, 0x94, 0xE5, 0x9B, 0x9E, 0xE7, 0xBB, 0x93, 0xE6, 0x9E, 0x9C, 0xE6, 0x9D, 0xA1, 0xE6,
         0x95, 0xB0, 0xEF, 0xBC, 0x8C, 0xE8, 0x8C, 0x83, 0xE5, 0x9B, 0xB4, 0x20, 0x31, 0x20, 0xE5, 0x88,
         0xB0, 0x20, 0x38, 0xEF, 0xBC, 0x8C, 0xE9, 0xBB, 0x98, 0xE8, 0xAE, 0xA4, 0xE4, 0xBD, 0xBF, 0xE7,
         0x94, 0xA8, 0xE5, 0xB7, 0xA5, 0xE5, 0x85, 0xB7, 0xE9, 0x85, 0x8D, 0xE7, 0xBD, 0xAE, 0xE3, 0x80,
         0x82]) 1 8)]
     [''query'']"

section \<open>Bounds\<close>

lemma collect_results_length:
  "int (length acc) \<le> k \<Longrightarrow> int (length (collect_results env sn k i ms acc)) \<le> k"
  by (induction env sn k i ms acc rule: collect_results.induct) (auto simp: Let_def split: list.splits)

lemma resolve_top_k_bounds: "1 \<le> resolve_web_search_top_k raw fb \<and> resolve_web_search_top_k raw fb \<le> 8"
  by (auto simp: resolve_web_search_top_k_def normalize_web_search_max_results_def
      clamp_requested_web_search_top_k_def Let_def split: option.splits json.splits)

lemma extract_results_length:
  "0 \<le> k \<Longrightarrow> extract_duckduckgo_results env body k = Inr rs \<Longrightarrow> int (length rs) \<le> k"
  using collect_results_length [of "[]" k env]
  by (auto simp: extract_duckduckgo_results_def Let_def split: if_splits)

end
