(* ===== verification/Web_Fetch.thy ===== *)
theory Web_Fetch
  imports Web_Search
begin

text \<open>
  \<open>internal/tools/web_fetch.go\<close>: the tool \<open>web_fetch\<close> with its guard against private
  hosts, its redirects, the extraction of text, and the cache of pages.
\<close>

section \<open>Limits\<close>

abbreviation "default_web_fetch_max_chars \<equiv> (8000 :: int)"
abbreviation "min_web_fetch_max_chars \<equiv> (200 :: int)"
abbreviation "max_web_fetch_max_chars \<equiv> (20000 :: int)"
abbreviation "default_web_fetch_cache_capacity \<equiv> (128 :: int)"
abbreviation "max_web_fetch_redirects \<equiv> (5 :: nat)"

definition default_web_fetch_cache_ttl :: int where
  "default_web_fetch_cache_ttl = 2 * 60 * 10 ^ 9"

definition default_web_fetch_body_limit :: int where
  "default_web_fetch_body_limit = 2 ^ 20"

definition normalize_web_fetch_max_chars :: "int \<Rightarrow> int" where
  "normalize_web_fetch_max_chars v =
     (if v \<le> 0 then default_web_fetch_max_chars
      else if v < min_web_fetch_max_chars then min_web_fetch_max_chars
      else if max_web_fetch_max_chars < v then max_web_fetch_max_chars else v)"

definition clamp_requested_web_fetch_max_chars :: "int \<Rightarrow> int" where
  "clamp_requested_web_fetch_max_chars v =
     (if v < min_web_fetch_max_chars then min_web_fetch_max_chars
      else if max_web_fetch_max_chars < v then max_web_fetch_max_chars else v)"

definition resolve_web_fetch_max_chars :: "json option \<Rightarrow> int \<Rightarrow> int" where
  "resolve_web_fetch_max_chars raw fallback =
     (case raw of Some (JNum q) \<Rightarrow> clamp_requested_web_fetch_max_chars (float_int q)
      | _ \<Rightarrow> normalize_web_fetch_max_chars fallback)"

definition normalize_web_fetch_body_limit :: "int \<Rightarrow> int" where
  "normalize_web_fetch_body_limit v = (if v \<le> 0 then default_web_fetch_body_limit else v)"

definition normalize_web_fetch_cache_capacity :: "int \<Rightarrow> int" where
  "normalize_web_fetch_cache_capacity v = (if v \<le> 0 then default_web_fetch_cache_capacity else v)"

text \<open>
  The options; the transport of the base client decides how connections are made, and its own
  check of redirects is asked after the check of the tool.
\<close>

datatype base_transport = NoTransport | HttpTransport | OtherTransport

record 'n web_fetch_options =
  fo_cache_ttl :: int
  fo_max_chars :: int
  fo_body_limit :: int
  fo_cache_capacity :: int
  fo_allow_private_hosts :: bool
  fo_transport :: base_transport
  fo_check_redirect :: "(url \<Rightarrow> url list \<Rightarrow> 'n \<Rightarrow> go_error option \<times> 'n) option"

section \<open>The guard\<close>

definition is_public_web_fetch_addr :: "ip_addr \<Rightarrow> bool" where
  "is_public_web_fetch_addr a \<longleftrightarrow>
     addr_is_global_unicast a \<and> \<not> addr_is_private a \<and> \<not> addr_is_loopback a \<and>
     \<not> addr_is_link_local_unicast a \<and> \<not> addr_is_link_local_multicast a \<and> \<not> addr_is_multicast a \<and>
     \<not> addr_is_unspecified a"

definition private_host_error :: web_error where
  "private_host_error = WebFetchError ErrorCodeForbidden ''private or loopback hosts are not allowed''"

definition trim_dot :: "string \<Rightarrow> string" where
  "trim_dot host = trim_space (if suffix ''.'' host then butlast host else host)"

definition validate_web_fetch_host ::
  "'n web_env \<Rightarrow> bool \<Rightarrow> string \<Rightarrow> 'n web_net \<Rightarrow> web_error option \<times> 'n web_net" where
  "validate_web_fetch_host env allow host w =
     (let trimmed = trim_dot host; lower = to_lower trimmed in
      if trimmed = [] then (Some (WebFetchError ErrorCodeInvalidArgument ''url host is required''), w)
      else if allow then (None, w)
      else if lower = ''localhost'' \<or> suffix ''.localhost'' lower then (Some private_host_error, w)
      else (case parse_addr lower of
              Some a \<Rightarrow> (if is_public_web_fetch_addr a then None else Some private_host_error, w)
            | None \<Rightarrow>
                (case net_lookup env trimmed w of
                   (Inl e, w1) \<Rightarrow> (Some (OtherWebError (WrappedError ''resolve host: '' e)), w1)
                 | (Inr ips, w1) \<Rightarrow>
                     (if ips = []
                      then Some (WebFetchError ErrorCodeNotFound ''host did not resolve to any address'')
                      else if list_all is_public_web_fetch_addr ips then None else Some private_host_error, w1))))"

definition validate_web_fetch_target ::
  "'n web_env \<Rightarrow> bool \<Rightarrow> url \<Rightarrow> 'n web_net \<Rightarrow> web_error option \<times> 'n web_net" where
  "validate_web_fetch_target env allow target w =
     (let scheme = to_lower (trim_space (u_scheme target)) in
      if scheme \<noteq> ''http'' \<and> scheme \<noteq> ''https''
      then (Some (WebFetchError ErrorCodeInvalidArgument ''url must use http or https''), w)
      else validate_web_fetch_host env allow (url_hostname target) w)"

text \<open>
  \<open>protectWebFetchTransport\<close>: a new connection is made only to a host that passes the guard.
\<close>

definition protected_trip ::
  "'n web_env \<Rightarrow> bool \<Rightarrow> url \<Rightarrow> 'n web_net \<Rightarrow> (web_error + http_response) \<times> 'n web_net" where
  "protected_trip env allow u w =
     (if we_pooled env u (wn_rest w) then net_exchange env u w
      else (case validate_web_fetch_host env allow (we_dial_host env u) w of
              (Some e, w1) \<Rightarrow> (Inl e, w1)
            | (None, w1) \<Rightarrow>
                (case net_dial env (we_dial_host env u) w1 of
                   (Some e, w2) \<Rightarrow> (Inl (OtherWebError e), w2)
                 | (None, w2) \<Rightarrow> net_exchange env u w2)))"

definition new_web_fetch_transport ::
  "'n web_env \<Rightarrow> base_transport \<Rightarrow> bool \<Rightarrow> url \<Rightarrow> 'n web_net \<Rightarrow> (web_error + http_response) \<times> 'n web_net" where
  "new_web_fetch_transport env base allow =
     (case base of OtherTransport \<Rightarrow> net_exchange env | _ \<Rightarrow> protected_trip env allow)"

text \<open>The round tripper that asks the guard for the target of every request.\<close>

definition validated_round_trip ::
  "'n web_env \<Rightarrow> base_transport \<Rightarrow> bool \<Rightarrow> url \<Rightarrow> 'n web_net \<Rightarrow> (web_error + http_response) \<times> 'n web_net" where
  "validated_round_trip env base allow u w =
     (case validate_web_fetch_target env allow u w of
        (Some e, w1) \<Rightarrow> (Inl e, w1)
      | (None, w1) \<Rightarrow> new_web_fetch_transport env base allow u w1)"

definition web_fetch_check_redirect ::
  "'n web_env \<Rightarrow> 'n web_fetch_options \<Rightarrow> url \<Rightarrow> url list \<Rightarrow> 'n web_net \<Rightarrow> web_error option \<times> 'n web_net" where
  "web_fetch_check_redirect env opts u via w =
     (case validate_web_fetch_target env (fo_allow_private_hosts opts) u w of
        (Some e, w1) \<Rightarrow> (Some e, w1)
      | (None, w1) \<Rightarrow>
          (case fo_check_redirect opts of
             None \<Rightarrow> (None, w1)
           | Some f \<Rightarrow> (let (r, n) = f u via (wn_rest w1) in (map_option OtherWebError r, w1\<lparr>wn_rest := n\<rparr>))))"

definition web_fetch_client_do ::
  "'n web_env \<Rightarrow> 'n web_fetch_options \<Rightarrow> url \<Rightarrow> 'n web_net \<Rightarrow> (web_error + url \<times> http_response) \<times> 'n web_net" where
  "web_fetch_client_do env opts u w =
     client_do env max_web_fetch_redirects ''too many redirects'' (web_fetch_check_redirect env opts)
       (validated_round_trip env (fo_transport opts) (fo_allow_private_hosts opts)) [] u w"

section \<open>URLs and errors\<close>

definition normalize_web_fetch_url :: "'n web_env \<Rightarrow> string \<Rightarrow> string + string" where
  "normalize_web_fetch_url env raw =
     (case we_parse_url env (trim_space raw) of
        Inl m \<Rightarrow> Inl ''invalid url''
      | Inr u \<Rightarrow>
          (let scheme = to_lower (u_scheme u) in
           if u_user u \<noteq> None then Inl ''userinfo is not allowed''
           else if scheme \<noteq> ''http'' \<and> scheme \<noteq> ''https'' then Inl ''url must use http or https''
           else if trim_space (url_hostname u) = [] then Inl ''url host is required''
           else Inr (we_url_string env (u\<lparr>u_scheme := scheme, u_host := we_lower env (u_host u), u_fragment := [],
                  u_path := (if u_path u = [] then ''/'' else u_path u)\<rparr>))))"

definition classify_web_fetch_status :: "int \<Rightarrow> web_error" where
  "classify_web_fetch_status status =
     (let text = ''unexpected status '' @ show_int status in
      if status = 401 then WebFetchError ErrorCodeUnauthorized text
      else if status = 403 then WebFetchError ErrorCodeForbidden text
      else if status = 404 then WebFetchError ErrorCodeNotFound text
      else if status = 429 then WebFetchError ErrorCodeRateLimited text
      else WebFetchError ErrorCodeInternal text)"

text \<open>\<open>errors.Is\<close> and \<open>errors.As\<close> along a \<open>*url.Error\<close>.\<close>

fun web_context_error :: "web_error \<Rightarrow> bool" where
  "web_context_error (UrlError u e) = web_context_error e"
| "web_context_error (OtherWebError e) = (is_error ContextCanceled e \<or> is_error DeadlineExceeded e)"
| "web_context_error (WebFetchError c m) = False"

fun as_web_fetch_error :: "web_error \<Rightarrow> (string \<times> string) option" where
  "as_web_fetch_error (UrlError u e) = as_web_fetch_error e"
| "as_web_fetch_error (OtherWebError e) = None"
| "as_web_fetch_error (WebFetchError c m) = Some (c, m)"

fun classify_web_fetch_error :: "web_error \<Rightarrow> web_error" where
  "classify_web_fetch_error (UrlError u e) =
     (if web_context_error e \<or> as_web_fetch_error e \<noteq> None then UrlError u e else classify_web_fetch_error e)"
| "classify_web_fetch_error e = e"

section \<open>Documents\<close>

record web_fetch_document =
  dc_url :: string
  dc_final_url :: string
  dc_status_code :: int
  dc_content_type :: string
  dc_title :: string
  dc_text :: string

definition re_tag_open :: "string list \<Rightarrow> regex \<Rightarrow> regex" where
  "re_tag_open names rest = Then (OneOf ''<'') (Then (any_of (map fold_text names))
     (Then (Greedy (NoneOf ''>'')) (Then (OneOf ''>'') rest)))"

definition re_html_title :: regex where
  "re_html_title = re_tag_open [''title''] (Then (Group (Lazy (NoneOf []))) (fold_text ''</title>''))"

definition re_html_drop_blocks :: regex where
  "re_html_drop_blocks =
     (let names = [''script'', ''style'', ''noscript'', ''svg''] in
      re_tag_open names (Then (Lazy (NoneOf [])) (Then (literal_text ''</'')
        (Then (any_of (map fold_text names)) (OneOf ''>'')))))"

definition html_blocks :: "regex list" where
  "html_blocks = map fold_text [''p'', ''div'', ''section'', ''article'', ''li'', ''tr'', ''td'', ''th'']
     @ [Then (fold_letter CHR ''h'') (OneOf ''123456'')] @ map fold_text [''pre'', ''blockquote'']"

definition re_html_line_breaks :: regex where
  "re_html_line_breaks = Then (OneOf ''<'') (Then (Greedy (OneOf regex_space))
     (Then (any_of (fold_text ''br'' # html_blocks)) (Then (Greedy (NoneOf ''>'')) (OneOf ''>''))))"

definition re_html_block_ends :: regex where
  "re_html_block_ends = Then (literal_text ''</'') (Then (Greedy (OneOf regex_space))
     (Then (any_of html_blocks) (Then (Greedy (OneOf regex_space)) (OneOf ''>''))))"

definition extract_web_fetch_title :: "'n web_env \<Rightarrow> string \<Rightarrow> string" where
  "extract_web_fetch_title env body =
     (case find_submatch re_html_title body of Some (t # ts) \<Rightarrow> clean_html_text env t | _ \<Rightarrow> [])"

definition is_html_type :: "string \<Rightarrow> bool" where
  "is_html_type content_type \<longleftrightarrow> content_type = ''text/html'' \<or> content_type = ''application/xhtml+xml''"

definition extract_web_fetch_text :: "'n web_env \<Rightarrow> string \<Rightarrow> string \<Rightarrow> string" where
  "extract_web_fetch_text env content_type body =
     (if is_html_type content_type
      then normalize_whitespace (we_unescape_html env
             (replace_all re_html_tags '' ''
               (replace_all re_html_block_ends [CHR 0x0A]
                 (replace_all re_html_line_breaks [CHR 0x0A]
                   (replace_all re_html_drop_blocks '' '' body)))))
      else trim_space body)"

definition normalize_web_fetch_content_type :: "'n web_env \<Rightarrow> string \<Rightarrow> string \<Rightarrow> string \<times> string" where
  "normalize_web_fetch_content_type env raw body =
     (let sniffed = (to_lower (trim_space (hd (split_on CHR '';'' (we_detect_type env body)))), []) in
      case we_media_type env (trim_space raw) of
        Some (media_type, charset) \<Rightarrow>
          if media_type \<noteq> [] then (to_lower media_type, to_lower (trim_space charset)) else sniffed
      | None \<Rightarrow> sniffed)"

definition decode_web_fetch_body :: "'n web_env \<Rightarrow> string \<Rightarrow> string \<Rightarrow> string" where
  "decode_web_fetch_body env body charset_name =
     (let normalized = to_lower (trim_space charset_name) in
      if normalized \<in> {[], ''utf-8'', ''utf8'', ''us-ascii''} then body
      else (case we_charset env normalized of
              None \<Rightarrow> body
            | Some dec \<Rightarrow> (case dec body of None \<Rightarrow> body | Some decoded \<Rightarrow> decoded)))"

definition is_supported_web_fetch_content_type :: "string \<Rightarrow> bool" where
  "is_supported_web_fetch_content_type content_type \<longleftrightarrow>
     prefix ''text/'' content_type \<or>
     content_type \<in> {''application/xhtml+xml'', ''application/json'', ''application/xml'', ''text/xml''}"

definition build_web_fetch_document ::
  "'n web_env \<Rightarrow> string \<Rightarrow> url \<Rightarrow> string \<Rightarrow> int \<Rightarrow> string \<Rightarrow> web_error + web_fetch_document" where
  "build_web_fetch_document env request_url final raw_content_type status body =
     (let (content_type, charset_name) = normalize_web_fetch_content_type env raw_content_type body in
      if \<not> is_supported_web_fetch_content_type content_type
      then Inl (WebFetchError ErrorCodeInvalidArgument
             (''unsupported content type '' @ go_quote (we_printable env) content_type))
      else (let decoded = decode_web_fetch_body env body charset_name;
                text = extract_web_fetch_text env content_type decoded;
                title = (if is_html_type content_type then extract_web_fetch_title env decoded else [])
            in Inr \<lparr> dc_url = request_url, dc_final_url = we_url_string env final, dc_status_code = status,
                     dc_content_type = content_type, dc_title = title,
                     dc_text = (if text = [] \<and> title \<noteq> [] then title else text) \<rparr>))"

section \<open>The fetch\<close>

definition http_fetch ::
  "'n web_env \<Rightarrow> 'n web_fetch_options \<Rightarrow> string \<Rightarrow> 'n web_net \<Rightarrow> (web_error + web_fetch_document) \<times> 'n web_net" where
  "http_fetch env opts target_url w =
     (case we_parse_url env target_url of
        Inl m \<Rightarrow> (Inl (WebFetchError ErrorCodeInvalidArgument ''invalid url''), w)
      | Inr parsed \<Rightarrow>
          (case validate_web_fetch_target env (fo_allow_private_hosts opts) parsed w of
             (Some e, w1) \<Rightarrow> (Inl (classify_web_fetch_error e), w1)
           | (None, w1) \<Rightarrow>
               (case new_request env (we_url_string env parsed) of
                  Inl e \<Rightarrow> (Inl e, w1)
                | Inr req \<Rightarrow>
                    (case web_fetch_client_do env opts req w1 of
                       (Inl e, w2) \<Rightarrow> (Inl (classify_web_fetch_error e), w2)
                     | (Inr (final, resp), w2) \<Rightarrow>
                         (if hr_status resp < 200 \<or> 300 \<le> hr_status resp
                          then Inl (classify_web_fetch_status (hr_status resp))
                          else (case read_limited_body resp (normalize_web_fetch_body_limit (fo_body_limit opts)) of
                                  Inl m \<Rightarrow> Inl (WebFetchError ErrorCodeInternal m)
                                | Inr body \<Rightarrow>
                                    build_web_fetch_document env target_url final (hr_content_type resp)
                                      (hr_status resp) body), w2)))))"

section \<open>The cache\<close>

record web_cache_entry =
  ce_document :: web_fetch_document
  ce_expires_at :: int
  ce_last_used :: int

type_synonym web_cache = "(string \<times> web_cache_entry) list"

text \<open>The first critical section of \<open>Fetch\<close>: a hit, or an expired entry that is dropped.\<close>

definition cache_lookup :: "int \<Rightarrow> string \<Rightarrow> web_cache \<Rightarrow> web_fetch_document option \<times> web_cache" where
  "cache_lookup now key entries =
     (case map_of entries key of
        Some e \<Rightarrow>
          if now < ce_expires_at e
          then (Some (ce_document e), map_put key (e\<lparr>ce_last_used := now\<rparr>) entries)
          else (None, filter (\<lambda>p. fst p \<noteq> key) entries)
      | None \<Rightarrow> (None, entries))"

text \<open>The loop that looks for the least recently used entry; the empty key is no key.\<close>

definition oldest_entry :: "web_cache \<Rightarrow> string" where
  "oldest_entry entries =
     fst (foldl (\<lambda>(key, used) (k, e). if key = [] \<or> ce_last_used e < used then (k, ce_last_used e) else (key, used))
            ([], 0) entries)"

definition evict_locked :: "int \<Rightarrow> int \<Rightarrow> web_cache \<Rightarrow> web_cache" where
  "evict_locked now capacity entries =
     (let live = filter (\<lambda>(k, e). now < ce_expires_at e) entries in
      if int (length live) \<le> capacity then live
      else (let oldest = oldest_entry live in
            if oldest = [] then live else filter (\<lambda>p. fst p \<noteq> oldest) live))"

text \<open>The second critical section.\<close>

definition cache_store :: "int \<Rightarrow> int \<Rightarrow> int \<Rightarrow> string \<Rightarrow> web_fetch_document \<Rightarrow> web_cache \<Rightarrow> web_cache" where
  "cache_store now ttl capacity key doc entries =
     evict_locked now capacity
       (map_put key \<lparr> ce_document = doc, ce_expires_at = now + ttl, ce_last_used = now \<rparr> entries)"

definition cache_ttl :: "'n web_fetch_options \<Rightarrow> int" where
  "cache_ttl opts = (if fo_cache_ttl opts \<le> 0 then default_web_fetch_cache_ttl else fo_cache_ttl opts)"

record 'n web_world =
  ww_cache :: web_cache
  ww_net :: "'n web_net"

definition cached_fetch ::
  "'n web_env \<Rightarrow> 'n web_fetch_options \<Rightarrow> string \<Rightarrow> 'n web_world \<Rightarrow>
   (web_error + web_fetch_document \<times> bool) \<times> 'n web_world" where
  "cached_fetch env opts target_url w =
     (let now = we_now env (wn_rest (ww_net w)) in
      case cache_lookup now target_url (ww_cache w) of
        (Some doc, cache) \<Rightarrow> (Inr (doc, True), w\<lparr>ww_cache := cache\<rparr>)
      | (None, cache) \<Rightarrow>
          (case http_fetch env opts target_url (ww_net w) of
             (Inl e, net) \<Rightarrow> (Inl e, \<lparr> ww_cache = cache, ww_net = net \<rparr>)
           | (Inr doc, net) \<Rightarrow>
               (Inr (doc, False),
                \<lparr> ww_cache = cache_store now (cache_ttl opts) (normalize_web_fetch_cache_capacity (fo_cache_capacity opts))
                    target_url doc cache, ww_net = net \<rparr>)))"

section \<open>The tool\<close>

record web_fetch_response =
  wf_document :: web_fetch_document
  wf_cached :: bool
  wf_total_chars :: nat
  wf_truncated :: bool

definition service_fetch ::
  "'n web_env \<Rightarrow> 'n web_fetch_options \<Rightarrow> string \<Rightarrow> int \<Rightarrow> 'n web_world \<Rightarrow> (web_error + web_fetch_response) \<times> 'n web_world" where
  "service_fetch env opts target_url max_chars w =
     (case cached_fetch env opts target_url w of
        (Inl e, w1) \<Rightarrow> (Inl e, w1)
      | (Inr (doc, cached), w1) \<Rightarrow>
          (let text_runes = runes (dc_text doc); truncated = max_chars < int (length text_runes) in
           (Inr \<lparr> wf_document = (if truncated
                     then doc\<lparr>dc_text := string_of_runes (take (nat max_chars) text_runes)\<rparr> else doc),
                  wf_cached = cached, wf_total_chars = length text_runes, wf_truncated = truncated \<rparr>, w1)))"

definition web_fetch_handle ::
  "'n web_env \<Rightarrow> 'n web_fetch_options \<Rightarrow> tool_context \<Rightarrow> json_object \<Rightarrow> 'n web_world \<Rightarrow> tool_result \<times> 'n web_world" where
  "web_fetch_handle env opts tx args w =
     (let raw_url = trim_space (string_arg ''url'' args) in
      if raw_url = [] then (error_result ErrorCodeInvalidArgument ''web_fetch failed: url is required'', w)
      else (case normalize_web_fetch_url env raw_url of
              Inl m \<Rightarrow> (error_result ErrorCodeInvalidArgument (''web_fetch failed: '' @ m), w)
            | Inr normalized \<Rightarrow>
                (let max_chars = resolve_web_fetch_max_chars (map_of args ''max_chars'')
                       (normalize_web_fetch_max_chars (fo_max_chars opts)) in
                 case service_fetch env opts normalized max_chars w of
                   (Inl e, w1) \<Rightarrow>
                     (case we_ctx_err env (wn_rest (ww_net w1)) of
                        Some c \<Rightarrow> error_result ErrorCodeCanceled (''web_fetch canceled: '' @ error_text c)
                      | None \<Rightarrow>
                          (case as_web_fetch_error e of
                             Some (code, m) \<Rightarrow> error_result code (''web_fetch failed: '' @ m)
                           | None \<Rightarrow> error_result ErrorCodeInternal
                                 (''web_fetch failed: '' @ web_error_text (we_printable env) e)), w1)
                 | (Inr r, w1) \<Rightarrow>
                     (let doc = wf_document r in
                      (output_result [(''url'', JStr (dc_url doc)), (''final_url'', JStr (dc_final_url doc)),
                         (''status_code'', JNum (of_int (dc_status_code doc))), (''content_type'', JStr (dc_content_type doc)),
                         (''title'', JStr (dc_title doc)), (''text'', JStr (dc_text doc)),
                         (''total_chars'', JNum (of_nat (wf_total_chars r))), (''truncated'', JBool (wf_truncated r)),
                         (''cached'', JBool (wf_cached r))], w1)))))"

definition web_fetch_schema :: tool_definition where
  "web_fetch_schema = tool_schema ''web_fetch''
     (bytes [0xE6, 0x8A, 0x93, 0xE5, 0x8F, 0x96, 0xE5, 0x8D, 0x95, 0xE4, 0xB8, 0xAA, 0xE5, 0x85, 0xAC, 0xE5,
         0xBC, 0x80, 0xE7, 0xBD, 0x91, 0xE9, 0xA1, 0xB5, 0x20, 0x55, 0x52, 0x4C, 0x20, 0xE7, 0x9A, 0x84,
         0xE6, 0xAD, 0xA3, 0xE6, 0x96, 0x87, 0xE5, 0x86, 0x85, 0xE5, 0xAE, 0xB9, 0xEF, 0xBC, 0x8C, 0xE8,
         0xBF, 0x94, 0xE5, 0x9B, 0x9E, 0xE6, 0xA0, 0x87, 0xE9, 0xA2, 0x98, 0xE3, 0x80, 0x81, 0xE8, 0xA7,
         0x84, 0xE8, 0x8C, 0x83, 0xE5, 0x8C, 0x96, 0xE6, 0x96, 0x87, 0xE6, 0x9C, 0xAC, 0xE5, 0x92, 0x8C,
         0xE5, 0x93, 0x8D, 0xE5, 0xBA, 0x94, 0xE5, 0x85, 0x83, 0xE6, 0x95, 0xB0, 0xE6, 0x8D, 0xAE, 0xE3,
         0x80, 0x82])
     [(''url'', leaf_schema ''string'' (bytes [0xE8, 0xA6, 0x81, 0xE6, 0x8A, 0x93, 0xE5, 0x8F, 0x96, 0xE7, 0x9A, 0x84, 0xE5, 0x85, 0xAC, 0xE5,
         0xBC, 0x80, 0x20, 0x68, 0x74, 0x74, 0x70, 0x2F, 0x68, 0x74, 0x74, 0x70, 0x73, 0x20, 0x55, 0x52,
         0x4C, 0xE3, 0x80, 0x82]) []),
      (''max_chars'', number_schema (bytes [0xE8, 0xBF, 0x94, 0xE5, 0x9B, 0x9E, 0xE6, 0xAD, 0xA3, 0xE6, 0x96, 0x87, 0xE6, 0x9C, 0x80, 0xE5,
         0xA4, 0xA7, 0xE5, 0xAD, 0x97, 0xE7, 0xAC, 0xA6, 0xE6, 0x95, 0xB0, 0xEF, 0xBC, 0x8C, 0xE8, 0x8C,
         0x83, 0xE5, 0x9B, 0xB4, 0x20, 0x32, 0x30, 0x30, 0x20, 0xE5, 0x88, 0xB0, 0x20, 0x32, 0x30, 0x30,
         0x30, 0x30, 0xEF, 0xBC, 0x8C, 0xE9, 0xBB, 0x98, 0xE8, 0xAE, 0xA4, 0xE4, 0xBD, 0xBF, 0xE7, 0x94,
         0xA8, 0xE5, 0xB7, 0xA5, 0xE5, 0x85, 0xB7, 0xE9, 0x85, 0x8D, 0xE7, 0xBD, 0xAE, 0xE3, 0x80, 0x82]) 200 20000)]
     [''url'']"

text \<open>The two tools of the web, as the registry takes them: a search has no cache.\<close>

definition web_builtin_tools ::
  "'n web_env \<Rightarrow> web_search_options \<Rightarrow> 'n web_fetch_options \<Rightarrow> 'n web_world web_tools" where
  "web_builtin_tools env sopts fopts =
     ((web_search_schema, \<lambda>tx args w.
         (let (r, net) = web_search_handle env (new_web_search_tool sopts) tx args (ww_net w)
          in (Inr r, w\<lparr>ww_net := net\<rparr>))),
      (web_fetch_schema, \<lambda>tx args w. (let (r, w1) = web_fetch_handle env fopts tx args w in (Inr r, w1))))"

end
