(* ===== verification/Web_Safety.thy ===== *)
theory Web_Safety
  imports Web_Fetch
begin

text \<open>
  What the web tools may do to the network and what they return: the guard against private hosts,
  the number of exchanges, the length of the text, and the cache.
\<close>

section \<open>Guarded calls\<close>

definition host_allowed :: "string \<Rightarrow> bool" where
  "host_allowed h \<longleftrightarrow>
     (let lower = to_lower (trim_dot h) in
      trim_dot h \<noteq> [] \<and> lower \<noteq> ''localhost'' \<and> \<not> suffix ''.localhost'' lower \<and>
      (case parse_addr lower of Some a \<Rightarrow> is_public_web_fetch_addr a | None \<Rightarrow> True))"

text \<open>
  A name may be dialed only right after it was looked up and all its addresses were public; an
  address may be dialed when it is public.
\<close>

definition dial_allowed :: "net_call option \<Rightarrow> string \<Rightarrow> bool" where
  "dial_allowed before h \<longleftrightarrow>
     host_allowed h \<and>
     (parse_addr (to_lower (trim_dot h)) = None \<longrightarrow>
        (case before of
           Some (Lookup name (Inr ips)) \<Rightarrow> name = trim_dot h \<and> ips \<noteq> [] \<and> list_all is_public_web_fetch_addr ips
         | _ \<Rightarrow> False))"

definition exchange_allowed :: "url \<Rightarrow> bool" where
  "exchange_allowed u \<longleftrightarrow>
     to_lower (trim_space (u_scheme u)) \<in> {''http'', ''https''} \<and> host_allowed (url_hostname u)"

fun calls_allowed :: "net_call option \<Rightarrow> net_call list \<Rightarrow> bool" where
  "calls_allowed before [] = True"
| "calls_allowed before (Dial h # cs) = (dial_allowed before h \<and> calls_allowed (Some (Dial h)) cs)"
| "calls_allowed before (Exchange u # cs) = (exchange_allowed u \<and> calls_allowed (Some (Exchange u)) cs)"
| "calls_allowed before (Lookup h r # cs) = calls_allowed (Some (Lookup h r)) cs"

fun exchanges :: "net_call list \<Rightarrow> nat" where
  "exchanges [] = 0"
| "exchanges (Exchange u # cs) = Suc (exchanges cs)"
| "exchanges (c # cs) = exchanges cs"

lemma exchanges_append [simp]: "exchanges (xs @ ys) = exchanges xs + exchanges ys"
  by (induction xs rule: exchanges.induct) simp_all

lemma dial_allowed_None: "dial_allowed None h \<Longrightarrow> dial_allowed p h"
  by (auto simp: dial_allowed_def)

lemma calls_allowed_None: "calls_allowed None cs \<Longrightarrow> calls_allowed p cs"
proof (cases cs)
  case (Cons c ds)
  then show "calls_allowed None cs \<Longrightarrow> calls_allowed p cs" by (cases c) (auto intro: dial_allowed_None)
qed simp

lemma calls_allowed_append: "calls_allowed p xs \<Longrightarrow> calls_allowed None ys \<Longrightarrow> calls_allowed p (xs @ ys)"
  by (induction p xs rule: calls_allowed.induct) (simp_all add: calls_allowed_None)

text \<open>What a call adds to the log: allowed calls, with at most \<open>k\<close> exchanges.\<close>

definition guarded_run :: "nat \<Rightarrow> 'n web_net \<Rightarrow> 'n web_net \<Rightarrow> bool" where
  "guarded_run k w w' \<longleftrightarrow> (\<exists>new. wn_log w' = wn_log w @ new \<and> calls_allowed None new \<and> exchanges new \<le> k)"

lemma guarded_refl [simp]: "guarded_run k w w"
  by (simp add: guarded_run_def)

lemma guarded_trans: "guarded_run k w w1 \<Longrightarrow> guarded_run m w1 w2 \<Longrightarrow> k + m \<le> n \<Longrightarrow> guarded_run n w w2"
  unfolding guarded_run_def by (force intro: calls_allowed_append)

lemma guarded_mono: "guarded_run k w w' \<Longrightarrow> k \<le> n \<Longrightarrow> guarded_run n w w'"
  by (rule guarded_trans [of k w w' 0 w']) simp_all

section \<open>The guard\<close>

lemma validate_host_cases:
  assumes "validate_web_fetch_host env False h w = (r, w')"
  obtains (refused) e where "r = Some e" "guarded_run 0 w w'"
  | (address) "r = None" "w' = w" "dial_allowed None h"
  | (name) ips where "r = None" "wn_log w' = wn_log w @ [Lookup (trim_dot h) (Inr ips)]"
      "dial_allowed (Some (Lookup (trim_dot h) (Inr ips))) h"
proof -
  have lookup: "wn_log (snd (net_lookup env x w)) = wn_log w @ [Lookup x (fst (net_lookup env x w))]" for x
    by (simp add: net_lookup_def split: prod.splits)
  have looked: "guarded_run 0 w (snd (net_lookup env x w))" for x
    using lookup [of x] by (simp add: guarded_run_def)
  show thesis
  proof (cases "\<exists>e. r = Some e")
    case True
    moreover have "w' = w \<or> w' = snd (net_lookup env (trim_dot h) w)"
      using assms by (auto simp: validate_web_fetch_host_def Let_def split: if_splits option.splits prod.splits sum.splits)
    ultimately show thesis using refused looked by auto
  next
    case False
    then have ok: "trim_dot h \<noteq> []" "to_lower (trim_dot h) \<noteq> ''localhost''" "\<not> suffix ''.localhost'' (to_lower (trim_dot h))"
      using assms by (auto simp: validate_web_fetch_host_def Let_def split: if_splits)
    show thesis
    proof (cases "parse_addr (to_lower (trim_dot h))")
      case (Some a)
      then show thesis
        using assms ok False address
        by (auto simp: validate_web_fetch_host_def Let_def dial_allowed_def host_allowed_def split: if_splits)
    next
      case None
      obtain ips where "fst (net_lookup env (trim_dot h) w) = Inr ips" "ips \<noteq> []" "list_all is_public_web_fetch_addr ips"
          "w' = snd (net_lookup env (trim_dot h) w)" "r = None"
        using assms ok False None
        by (auto simp: validate_web_fetch_host_def Let_def split: prod.splits sum.splits if_splits)
      then show thesis
        using name [of ips] ok None lookup [of "trim_dot h"] by (simp add: dial_allowed_def host_allowed_def Let_def)
    qed
  qed
qed

lemma validate_host_run: "validate_web_fetch_host env False h w = (r, w') \<Longrightarrow> guarded_run 0 w w'"
  by (erule validate_host_cases) (auto simp: guarded_run_def)

lemma validate_host_allowed: "validate_web_fetch_host env False h w = (None, w') \<Longrightarrow> host_allowed h"
  by (erule validate_host_cases) (auto simp: dial_allowed_def)

lemma validate_target_run:
  assumes "validate_web_fetch_target env False u w = (r, w')"
  shows "guarded_run 0 w w'" "r = None \<Longrightarrow> exchange_allowed u"
  using assms validate_host_run validate_host_allowed
  by (auto simp: validate_web_fetch_target_def exchange_allowed_def Let_def split: if_splits)

lemma net_exchange_run: "exchange_allowed u \<Longrightarrow> net_exchange env u w = (r, w') \<Longrightarrow> guarded_run 1 w w'"
  by (auto simp: net_exchange_def guarded_run_def split: prod.splits)

text \<open>The guard of the transport, then the connection: the call before the dial is the lookup.\<close>

lemma guarded_dial_run:
  assumes "validate_web_fetch_host env False h w = (None, w1)" "net_dial env h w1 = (r, w2)"
  shows "guarded_run 0 w w2"
proof -
  have log: "wn_log w2 = wn_log w1 @ [Dial h]" using assms(2) by (auto simp: net_dial_def split: prod.splits)
  from assms(1) show ?thesis
  proof (cases rule: validate_host_cases)
    case (name ips)
    then show ?thesis using log by (simp add: guarded_run_def)
  qed (use log in \<open>auto simp: guarded_run_def\<close>)
qed

lemma protected_trip_run:
  assumes "exchange_allowed u" "protected_trip env False u w = (r, w')"
  shows "guarded_run 1 w w'"
proof (cases "we_pooled env u (wn_rest w)")
  case True
  then show ?thesis using assms net_exchange_run by (auto simp: protected_trip_def)
next
  case False
  obtain v w1 where v: "validate_web_fetch_host env False (we_dial_host env u) w = (v, w1)" by fastforce
  show ?thesis
  proof (cases v)
    case (Some e)
    then have "w' = w1" using assms(2) False v by (simp add: protected_trip_def)
    then show ?thesis using validate_host_run [OF v] by (auto intro: guarded_mono)
  next
    case None
    obtain d w2 where d: "net_dial env (we_dial_host env u) w1 = (d, w2)" by fastforce
    have run: "guarded_run 0 w w2" by (rule guarded_dial_run [OF v [unfolded None] d])
    show ?thesis
    proof (cases d)
      case (Some e)
      then have "w' = w2" using assms(2) False v None d by (simp add: protected_trip_def)
      then show ?thesis using run by (auto intro: guarded_mono)
    next
      case d': None
      then have "net_exchange env u w2 = (r, w')" using assms(2) False v None d by (simp add: protected_trip_def)
      then show ?thesis using guarded_trans [OF run] net_exchange_run [OF assms(1)] by force
    qed
  qed
qed

lemma validated_round_trip_run:
  assumes "validated_round_trip env base False u w = (r, w')" "base \<noteq> OtherTransport"
  shows "guarded_run 1 w w'"
proof -
  obtain v w1 where v: "validate_web_fetch_target env False u w = (v, w1)" by fastforce
  note run = validate_target_run [OF v]
  show ?thesis
  proof (cases v)
    case (Some e)
    then show ?thesis using assms(1) v run(1) by (auto simp: validated_round_trip_def intro: guarded_mono)
  next
    case None
    then have "protected_trip env False u w1 = (r, w')"
      using assms v by (cases base) (auto simp: validated_round_trip_def new_web_fetch_transport_def)
    then show ?thesis using guarded_trans [OF run(1)] protected_trip_run [OF run(2) [OF None]] by force
  qed
qed

lemma check_redirect_run:
  assumes "web_fetch_check_redirect env opts u via w = (r, w')" "\<not> fo_allow_private_hosts opts"
  shows "guarded_run 0 w w'"
proof -
  obtain v w1 where v: "validate_web_fetch_target env False u w = (v, w1)" by fastforce
  have "wn_log w' = wn_log w1"
    using assms v by (auto simp: web_fetch_check_redirect_def split: option.splits prod.splits)
  then show ?thesis using validate_target_run(1) [OF v] by (simp add: guarded_run_def)
qed

section \<open>Redirects\<close>

lemma client_do_run:
  assumes "client_do env limit refusal check trip via u w = (r, w')"
    and "\<And>u w r w'. trip u w = (r, w') \<Longrightarrow> guarded_run 1 w w'"
    and "\<And>u via w r w'. check u via w = (r, w') \<Longrightarrow> guarded_run 0 w w'"
  shows "guarded_run (max 1 (limit - length via)) w w'"
  using assms
proof (induction env limit refusal check trip via u w arbitrary: r w' rule: client_do.induct)
  case (1 env limit refusal check trip via u w)
  obtain t w1 where t: "trip u w = (t, w1)" by fastforce
  have one: "guarded_run 1 w w1" by (rule "1.prems"(2) [OF t])
  note unfold = "1.prems"(1) [unfolded client_do.simps [of env limit refusal check trip via u w] t]
  show ?case
  proof (cases "w' = w1")
    case True
    then show ?thesis using guarded_mono [OF one] by simp
  next
    case False
    then obtain resp "next" where resp: "t = Inr resp" "\<not> (\<not> redirects (hr_status resp) \<or> hr_location resp = [])"
        "we_reference env u (hr_location resp) = Inr next" "\<not> limit \<le> Suc (length via)"
      using unfold by (auto split: sum.splits if_splits)
    obtain c w2 where c: "check next (via @ [u]) w1 = (c, w2)" by fastforce
    have two: "guarded_run 1 w w2" by (rule guarded_trans [OF one "1.prems"(3) [OF c]]) simp
    show ?thesis
    proof (cases c)
      case (Some e)
      then have "w' = w2" using unfold resp c by simp
      then show ?thesis using guarded_mono [OF two] by simp
    next
      case None
      then have rec: "client_do env limit refusal check trip (via @ [u]) next w2 = (r, w')"
        using unfold resp c by simp
      have "guarded_run (max 1 (limit - length (via @ [u]))) w2 w'"
        by (rule "1.IH" [OF t [symmetric] resp(1) _ _ _ c [symmetric] None rec]) (use resp "1.prems" in auto)
      then show ?thesis using guarded_trans [OF two] resp(4) by force
    qed
  qed
qed

lemma http_fetch_run:
  assumes "http_fetch env opts target w = (r, w')" "\<not> fo_allow_private_hosts opts" "fo_transport opts \<noteq> OtherTransport"
  shows "guarded_run max_web_fetch_redirects w w'"
proof (cases "we_parse_url env target")
  case (Inl m)
  then show ?thesis using assms(1) by (simp add: http_fetch_def)
next
  case (Inr parsed)
  obtain v w1 where v: "validate_web_fetch_target env False parsed w = (v, w1)" by fastforce
  note run = validate_target_run(1) [OF v]
  show ?thesis
  proof (cases "w' = w1")
    case True
    then show ?thesis using guarded_mono [OF run] by simp
  next
    case False
    then obtain req where req: "v = None" "new_request env (we_url_string env parsed) = Inr req"
      using assms(1,2) Inr v by (auto simp: http_fetch_def split: option.splits sum.splits)
    obtain d w2 where d: "web_fetch_client_do env opts req w1 = (d, w2)" by fastforce
    have "guarded_run (max 1 (max_web_fetch_redirects - length ([] :: url list))) w1 w2"
      by (rule client_do_run [OF d [unfolded web_fetch_client_do_def]])
        (use assms(2,3) validated_round_trip_run check_redirect_run in auto)
    moreover have "w' = w2" using assms(1,2) Inr v req d by (auto simp: http_fetch_def split: sum.splits)
    ultimately show ?thesis using guarded_trans [OF run] by simp
  qed
qed

lemma cached_fetch_run:
  assumes "cached_fetch env opts target w = (r, w')" "\<not> fo_allow_private_hosts opts" "fo_transport opts \<noteq> OtherTransport"
  shows "guarded_run max_web_fetch_redirects (ww_net w) (ww_net w')"
  using assms(1) http_fetch_run [OF _ assms(2,3)]
  by (auto simp: cached_fetch_def Let_def split: prod.splits option.splits sum.splits)

lemma web_fetch_handle_run:
  assumes "web_fetch_handle env opts tx args w = (r, w')" "\<not> fo_allow_private_hosts opts" "fo_transport opts \<noteq> OtherTransport"
  shows "guarded_run max_web_fetch_redirects (ww_net w) (ww_net w')"
  using assms(1) cached_fetch_run [OF _ assms(2,3)]
  by (auto simp: web_fetch_handle_def service_fetch_def Let_def split: if_splits prod.splits sum.splits)

end
