(* ===== verification/Web_System.thy ===== *)
theory Web_System
  imports Web_Safety
begin

text \<open>
  The properties of the web tools: what reaches the network, how long a text gets, what the cache
  holds; and three limits of the code.
\<close>

section \<open>Length of the text\<close>

lemma service_fetch_text:
  assumes "service_fetch env opts target max_chars w = (Inr r, w')" "0 \<le> max_chars"
  shows "int (length (runes (dc_text (wf_document r)))) \<le> max_chars"
proof -
  have cut: "length (runes (string_of_runes (take n (runes s)))) \<le> n" for n s
  proof -
    have "\<forall>r \<in> set (take n (runes s)). valid_rune r" using valid_runes [of _ s] by (blast dest: in_set_takeD)
    then show ?thesis by (simp add: runes_string_of_runes)
  qed
  show ?thesis
    using assms cut [of "nat max_chars"]
    by (auto simp: service_fetch_def Let_def split: prod.splits sum.splits) (metis int_nat_eq of_nat_mono)
qed

lemma max_chars_bounds:
  "200 \<le> resolve_web_fetch_max_chars raw (normalize_web_fetch_max_chars v) \<and>
   resolve_web_fetch_max_chars raw (normalize_web_fetch_max_chars v) \<le> 20000"
  by (auto simp: resolve_web_fetch_max_chars_def normalize_web_fetch_max_chars_def clamp_requested_web_fetch_max_chars_def
      split: option.splits json.splits)

section \<open>The cache\<close>

text \<open>
  The critical sections of concurrent fetches, in any order: \<open>h\<close> holds the stores so far.  A key
  is the text of a URL, which is not empty.
\<close>

inductive cache_run :: "int \<Rightarrow> int \<Rightarrow> (int \<times> string \<times> web_fetch_document) list \<Rightarrow> web_cache \<Rightarrow> bool"
  for ttl :: int and capacity :: int where
  cache_empty: "cache_run ttl capacity [] []"
| cache_looked_up: "cache_run ttl capacity h c \<Longrightarrow> cache_run ttl capacity h (snd (cache_lookup now k c))"
| cache_stored: "cache_run ttl capacity h c \<Longrightarrow> k \<noteq> [] \<Longrightarrow>
    cache_run ttl capacity ((now, k, doc) # h) (cache_store now ttl capacity k doc c)"

definition cache_ok :: "int \<Rightarrow> int \<Rightarrow> (int \<times> string \<times> web_fetch_document) list \<Rightarrow> web_cache \<Rightarrow> bool" where
  "cache_ok ttl capacity h c \<longleftrightarrow>
     distinct (map fst c) \<and> int (length c) \<le> capacity \<and> [] \<notin> fst ` set c \<and>
     (\<forall>(k, e) \<in> set c. \<exists>t. (t, k, ce_document e) \<in> set h \<and> ce_expires_at e = t + ttl)"

lemma map_put_keys: "fst ` set (map_put k v m) = insert k (fst ` set m)"
  by (induction k v m rule: map_put.induct) auto

lemma map_put_set: "set (map_put k v m) \<subseteq> insert (k, v) (set m)"
  by (induction k v m rule: map_put.induct) auto

lemma map_put_distinct: "distinct (map fst m) \<Longrightarrow> distinct (map fst (map_put k v m))"
proof (induction k v m rule: map_put.induct)
  case (2 k v k' v' m)
  then show ?case using map_put_keys [of k v m] by (auto simp flip: set_map)
qed simp

lemma map_put_length: "length (map_put k v m) \<le> Suc (length m)"
  and map_put_length_in: "k \<in> fst ` set m \<Longrightarrow> length (map_put k v m) = length m"
  by (induction k v m rule: map_put.induct) auto

lemma distinct_map_fst_filter: "distinct (map fst c) \<Longrightarrow> distinct (map fst (filter P c))"
  by (induction c) auto

lemma oldest_entry_key:
  assumes "[] \<notin> fst ` set c" "c \<noteq> []"
  shows "oldest_entry c \<in> fst ` set c"
proof -
  let ?f = "\<lambda>(key, used) (k, e). if key = [] \<or> ce_last_used e < used then (k, ce_last_used e) else (key, used)"
  have "fst (foldl ?f (key, used) c) \<in> fst ` set c \<or> key \<noteq> [] \<and> fst (foldl ?f (key, used) c) = key"
    if "[] \<notin> fst ` set c" "c \<noteq> []" for key used and c :: web_cache
    using that
  proof (induction c arbitrary: key used)
    case (Cons x c)
    obtain k e where x: "x = (k, e)" by fastforce
    show ?case
    proof (cases "c = []")
      case False
      then show ?thesis using Cons.IH Cons.prems by (auto simp: x)
    qed (auto simp: x)
  qed simp
  from this [of c "[]" 0] assms show ?thesis by (simp add: oldest_entry_def)
qed

lemma cache_lookup_ok:
  assumes "cache_ok ttl capacity h c"
  shows "cache_ok ttl capacity h (snd (cache_lookup now k c))"
proof (cases "map_of c k")
  case (Some e)
  then have e: "(k, e) \<in> set c" by (rule map_of_SomeD)
  then have k: "k \<in> fst ` set c" by force
  show ?thesis
  proof (cases "now < ce_expires_at e")
    case True
    let ?c = "map_put k (e\<lparr>ce_last_used := now\<rparr>) c"
    have "\<exists>t. (t, k', ce_document e') \<in> set h \<and> ce_expires_at e' = t + ttl" if "(k', e') \<in> set ?c" for k' e'
    proof -
      have "(k', e') = (k, e\<lparr>ce_last_used := now\<rparr>) \<or> (k', e') \<in> set c"
        using that map_put_set [of k "e\<lparr>ce_last_used := now\<rparr>" c] by blast
      then show ?thesis using assms e unfolding cache_ok_def by fastforce
    qed
    then show ?thesis
      using assms Some True k by (auto simp: cache_lookup_def cache_ok_def map_put_distinct map_put_length_in map_put_keys)
  next
    case False
    have "int (length (filter (\<lambda>p. fst p \<noteq> k) c)) \<le> capacity"
      using assms order_trans [OF of_nat_mono [OF length_filter_le]] by (auto simp: cache_ok_def)
    then show ?thesis using assms Some False by (auto simp: cache_lookup_def cache_ok_def distinct_map_fst_filter)
  qed
qed (use assms in \<open>simp add: cache_lookup_def\<close>)

lemma length_filter_out: "distinct (map fst c) \<Longrightarrow> k \<in> fst ` set c \<Longrightarrow> length (filter (\<lambda>p. fst p \<noteq> k) c) = length c - 1"
proof (induction c)
  case (Cons p c)
  show ?case
  proof (cases "fst p = k")
    case True
    then have "\<forall>q \<in> set c. fst q \<noteq> k" using Cons.prems(1) by (metis distinct.simps(2) image_eqI list.set_map list.simps(9))
    then have "filter (\<lambda>p. fst p \<noteq> k) c = c" by (simp add: filter_id_conv)
    with True show ?thesis by simp
  next
    case False
    then have k: "k \<in> fst ` set c" using Cons.prems(2) by auto
    then have "0 < length c" by (cases c) auto
    with False k Cons show ?thesis by simp
  qed
qed simp

lemma cache_store_ok:
  assumes "cache_ok ttl capacity h c" "k \<noteq> []" "0 < capacity"
  shows "cache_ok ttl capacity ((now, k, doc) # h) (cache_store now ttl capacity k doc c)"
proof -
  let ?put = "map_put k \<lparr> ce_document = doc, ce_expires_at = now + ttl, ce_last_used = now \<rparr> c"
  define live where "live = filter (\<lambda>(k, e). now < ce_expires_at e) ?put"
  have put: "distinct (map fst live)" "length live \<le> Suc (length c)" "[] \<notin> fst ` set live"
  proof -
    show "distinct (map fst live)"
      using assms(1) unfolding live_def by (intro distinct_map_fst_filter map_put_distinct) (simp add: cache_ok_def)
    show "length live \<le> Suc (length c)"
      unfolding live_def by (rule le_trans [OF length_filter_le map_put_length])
    have "fst ` set live \<subseteq> fst ` set ?put" by (auto simp: live_def)
    then have "fst ` set live \<subseteq> insert k (fst ` set c)" by (simp only: map_put_keys)
    then show "[] \<notin> fst ` set live" using assms(1,2) by (auto simp: cache_ok_def)
  qed
  have entries: "\<exists>t. (t, k', ce_document e) \<in> set ((now, k, doc) # h) \<and> ce_expires_at e = t + ttl" if "(k', e) \<in> set live" for k' e
  proof -
    have "(k', e) = (k, \<lparr> ce_document = doc, ce_expires_at = now + ttl, ce_last_used = now \<rparr>) \<or> (k', e) \<in> set c"
      using that map_put_set [of k _ c] by (auto simp: live_def)
    then show ?thesis using assms(1) unfolding cache_ok_def by fastforce
  qed
  show ?thesis
  proof (cases "int (length live) \<le> capacity")
    case True
    then show ?thesis using put entries by (auto simp: cache_store_def evict_locked_def Let_def cache_ok_def simp flip: live_def)
  next
    case False
    then have "live \<noteq> []" using assms(3) by auto
    then have old: "oldest_entry live \<in> fst ` set live" by (rule oldest_entry_key [OF put(3)])
    have "length (filter (\<lambda>p. fst p \<noteq> oldest_entry live) live) = length live - 1"
      by (rule length_filter_out [OF put(1) old])
    then have "int (length (filter (\<lambda>p. fst p \<noteq> oldest_entry live) live)) \<le> capacity"
      using put(2) conjunct1 [OF conjunct2 [OF assms(1) [unfolded cache_ok_def]]] by linarith
    moreover have "oldest_entry live \<noteq> []" using old put(3) by metis
    ultimately show ?thesis
      using False put entries by (auto simp: cache_store_def evict_locked_def Let_def cache_ok_def distinct_map_fst_filter simp flip: live_def)
  qed
qed

lemma cache_run_ok: "cache_run ttl capacity h c \<Longrightarrow> 0 < capacity \<Longrightarrow> cache_ok ttl capacity h c"
proof (induction rule: cache_run.induct)
  case cache_empty
  then show ?case by (simp add: cache_ok_def)
qed (simp_all add: cache_lookup_ok cache_store_ok)

text \<open>A fetch is a run of these critical sections.\<close>

lemma cached_fetch_cache_run:
  assumes "cache_run (cache_ttl opts) capacity h (ww_cache w)" "target \<noteq> []"
    and "capacity = normalize_web_fetch_cache_capacity (fo_cache_capacity opts)"
  shows "\<exists>h'. cache_run (cache_ttl opts) capacity h' (ww_cache (snd (cached_fetch env opts target w)))"
proof -
  let ?now = "we_now env (wn_rest (ww_net w))"
  have run: "cache_run (cache_ttl opts) capacity h (snd (cache_lookup ?now target (ww_cache w)))"
    using assms(1) by (rule cache_looked_up)
  show ?thesis
    using run cache_stored [OF run assms(2)] unfolding assms(3)
    by (auto simp: cached_fetch_def Let_def split: prod.splits option.splits sum.splits) blast
qed

section \<open>Three limits\<close>

text \<open>
  The guard lets through the unspecified IPv6 address with a zone, which \<open>netip\<close> does not call
  unspecified; shared address space, where some clouds keep their metadata; and an IPv4 address
  behind the prefix of a translator.
\<close>

lemma zeros: "replicate 16 0 = [0, 0, 0, 0, 0, 0, 0, 0, 0, 0, 0, 0, 0, 0, 0, 0 :: nat]"
  "replicate 15 0 = [0, 0, 0, 0, 0, 0, 0, 0, 0, 0, 0, 0, 0, 0, 0 :: nat]"
  "replicate 10 0 = [0, 0, 0, 0, 0, 0, 0, 0, 0, 0 :: nat]"
  by (simp_all add: eval_nat_numeral)

lemmas parse_addr_eval = parse_addr_def parse_ipv4_def parse_ipv6_def ipv6_loop.simps ipv6_expand_def hex_group_def
  hex_nibble_def is_digit_def digit_val_def Let_def

lemmas public_addr_eval = zeros is_public_web_fetch_addr_def addr_is_global_unicast_def addr_is_private_def
  addr_is_loopback_def addr_is_link_local_unicast_def addr_is_link_local_multicast_def addr_is_multicast_def
  addr_is_unspecified_def addr_unmap_def Let_def

lemma zoned_unspecified_passes:
  "map_option is_public_web_fetch_addr (parse_addr ''::%1'') = Some True"
  "map_option is_public_web_fetch_addr (parse_addr ''::'') = Some False"
  by (simp_all add: parse_addr_eval public_addr_eval)

lemma shared_space_passes:
  "map_option is_public_web_fetch_addr (parse_addr ''100.100.100.200'') = Some True"
  "map_option is_public_web_fetch_addr (parse_addr ''64:ff9b::10.0.0.1'') = Some True"
  "map_option is_public_web_fetch_addr (parse_addr ''::ffff:10.0.0.1'') = Some False"
  by (simp_all add: parse_addr_eval public_addr_eval)

text \<open>The target of a result link is unescaped twice: a plus sign of it becomes a space.\<close>

lemma target_unescaped_twice:
  "query_get (parse_query (query_encode [(''uddg'', ''https://h/?q=c++'')])) ''uddg'' = ''https://h/?q=c++'' \<and>
   query_unescape ''https://h/?q=c++'' = Some ''https://h/?q=c  ''"
  by code_simp

section \<open>Properties\<close>


text \<open>
  The text that web_fetch answers has at most the number of runes that was asked for, which is
  brought between 200 and 20000.
\<close>

theorem web_fetch_text_bounded:
  "int (length (runes (string_arg ''text'' (tr_output (fst (web_fetch_handle env opts tx args w))))))
     \<le> resolve_web_fetch_max_chars (map_of args ''max_chars'') (normalize_web_fetch_max_chars (fo_max_chars opts)) \<and>
   200 \<le> resolve_web_fetch_max_chars (map_of args ''max_chars'') (normalize_web_fetch_max_chars (fo_max_chars opts)) \<and>
   resolve_web_fetch_max_chars (map_of args ''max_chars'') (normalize_web_fetch_max_chars (fo_max_chars opts)) \<le> 20000"
    (is "_ \<le> ?m \<and> _")
proof -
  note m = max_chars_bounds [of "map_of args ''max_chars''" "fo_max_chars opts"]
  then have "0 \<le> ?m" by simp
  then have "int (length (runes (string_arg ''text'' (tr_output (fst (web_fetch_handle env opts tx args w)))))) \<le> ?m"
    using service_fetch_text [of env opts _ ?m w]
    by (auto simp: web_fetch_handle_def Let_def error_result_def output_result_def string_arg_def
        split: prod.splits sum.splits option.splits)
  with m show ?thesis by simp
qed

text \<open>
  C35: Whatever the order of the critical sections of concurrent fetches, the cache of pages
  holds at most its capacity, each URL once, and a hit is a document that was stored for this
  URL less than the time to live before.
\<close>

theorem web_cache_fresh:
  assumes "cache_run ttl capacity h c" and "0 < capacity"
  shows "distinct (map fst c) \<and> int (length c) \<le> capacity \<and>
    {(now, k, doc). fst (cache_lookup now k c) = Some doc}
      \<subseteq> {(now, k, doc). \<exists>t. (t, k, doc) \<in> set h \<and> now < t + ttl}"
proof -
  have ok: "cache_ok ttl capacity h c" by (rule cache_run_ok [OF assms])
  have "\<exists>t. (t, k, doc) \<in> set h \<and> now < t + ttl" if hit: "fst (cache_lookup now k c) = Some doc" for now k doc
  proof -
    obtain e where e: "map_of c k = Some e" "now < ce_expires_at e" "doc = ce_document e"
      using hit by (auto simp: cache_lookup_def split: option.splits if_splits)
    then show ?thesis using ok map_of_SomeD [OF e(1)] unfolding cache_ok_def by fastforce
  qed
  with ok show ?thesis by (auto simp: cache_ok_def)
qed

definition demo_doc :: web_fetch_document where
  "demo_doc = \<lparr> dc_url = ''u'', dc_final_url = ''u'', dc_status_code = 200, dc_content_type = ''text/plain'',
     dc_title = [], dc_text = ''x'' \<rparr>"

theorem web_cache_fresh_witness:
  "int (length (cache_store 1 5 2 ''b'' demo_doc (cache_store 0 5 2 ''a'' demo_doc []))) \<le> 2"
proof -
  have run: "cache_run 5 2 [(1, ''b'', demo_doc), (0, ''a'', demo_doc)]
      (cache_store 1 5 2 ''b'' demo_doc (cache_store 0 5 2 ''a'' demo_doc []))"
    by (intro cache_stored cache_empty) simp_all
  show ?thesis using web_cache_fresh [OF run] by simp
qed

text \<open>A public server that redirects to a private address.\<close>

definition web_url :: "string \<Rightarrow> url" where
  "web_url host = \<lparr> u_scheme = ''http'', u_opaque = [], u_user = None, u_host = host, u_path = ''/'', u_fragment = [],
     u_raw_query = [], u_raw_path = [], u_raw_fragment = [], u_force_query = False, u_omit_host = False \<rparr>"

definition redirecting_env :: "unit web_env" where
  "redirecting_env = \<lparr> we_parse_url = (\<lambda>s. Inr (web_url s)), we_url_string = u_host,
     we_reference = (\<lambda>u l. Inr (web_url l)), we_dial_host = u_host, we_pooled = (\<lambda>u n. False),
     we_lookup = (\<lambda>h n. (Inr [V4 [93, 184, 216, 34]], n)), we_dial = (\<lambda>h n. (None, n)),
     we_exchange = (\<lambda>u n. (Inr \<lparr> hr_status = 302, hr_location = ''10.0.0.1'', hr_content_type = [], hr_body = [],
        hr_body_error = None \<rparr>, n)),
     we_now = (\<lambda>n. 0), we_ctx_err = (\<lambda>n. None), we_lower = id, we_printable = (\<lambda>r. True), we_unescape_html = id,
     we_media_type = (\<lambda>s. None), we_detect_type = (\<lambda>s. []), we_charset = (\<lambda>s. None) \<rparr>"

definition default_fetch_options :: "unit web_fetch_options" where
  "default_fetch_options = \<lparr> fo_cache_ttl = 0, fo_max_chars = 0, fo_body_limit = 0, fo_cache_capacity = 0,
     fo_allow_private_hosts = False, fo_transport = NoTransport, fo_check_redirect = None \<rparr>"

definition fetch_context :: tool_context where
  "fetch_context = \<lparr> tx_workspace = ''/w'', tx_scopes = [],
     tx_conversation = \<lparr> conversation_id = ''c'', thread_id = [], channel_type = ''dm'', participant_id = [] \<rparr> \<rparr>"


end
