(* ===== verification/Hub_System.thy ===== *)
theory Hub_System
  imports Hub
begin

text \<open>
  The hub as a state machine and what its observers see: each queue has strictly increasing sequence
  numbers, holds at most one terminal event, which is its last and after which the subscription is
  closed, and loses only droppable events.
\<close>

section \<open>The store of subscriptions\<close>

lemma length_dispatch [simp]: "length (dispatch ps e t d subs) = length subs"
  unfolding dispatch_def by (induction ps arbitrary: subs) simp_all

lemma nth_dispatch:
  assumes "distinct ps" "\<forall>p \<in> set ps. p < length subs"
  shows "dispatch ps e t d subs ! q = (if q \<in> set ps then deliver e t d (subs ! q) else subs ! q)"
  using assms
proof (induction ps arbitrary: subs)
  case (Cons p ps)
  have "dispatch (p # ps) e t d subs = dispatch ps e t d (subs[p := deliver e t d (subs ! p)])"
    by (simp add: dispatch_def)
  then show ?case using Cons by (auto simp: nth_list_update)
qed (simp add: dispatch_def)

section \<open>History\<close>

lemma set_keep_history: "set (keep_history n kept qs) \<subseteq> set kept \<union> set qs"
  by (induction n kept qs rule: keep_history.induct) (auto split: if_splits)

lemma sorted_keep_history:
  "sorted_wrt R (kept @ qs) \<Longrightarrow> sorted_wrt R (keep_history n kept qs)"
proof (induction n kept qs rule: keep_history.induct)
  case (2 n kept q qs)
  then show ?case by (simp add: sorted_wrt_append)
qed simp

lemma sorted_wrt_drop_list: "sorted_wrt R xs \<Longrightarrow> sorted_wrt R (drop n xs)"
  by (metis append_take_drop_id sorted_wrt_append)

lemma append_history_subset: "set (append_history q n hs) \<subseteq> insert q (set hs)"
proof -
  have "set (keep_history n [] (hs @ [q])) \<subseteq> insert q (set hs)"
    using set_keep_history [of n "[]" "hs @ [q]"] by simp
  then show ?thesis by (auto simp: append_history_def Let_def dest!: in_set_dropD)
qed

lemma append_history_sorted: "sorted_wrt R (hs @ [q]) \<Longrightarrow> sorted_wrt R (append_history q n hs)"
  by (simp add: append_history_def Let_def sorted_keep_history sorted_wrt_drop_list)

lemma append_history_length: "0 < n \<Longrightarrow> length (append_history q n hs) \<le> n"
  by (simp add: append_history_def Let_def)

section \<open>Queues\<close>

abbreviation seq_of :: "queued_event \<Rightarrow> int" where
  "seq_of q \<equiv> re_sequence (qe_event q)"

abbreviation in_order :: "queued_event list \<Rightarrow> bool" where
  "in_order \<equiv> sorted_wrt (\<lambda>p q. seq_of p < seq_of q)"

text \<open>What a reader relies on: order, and a terminal event only at the end of a closed stream.\<close>

definition sub_ok :: "subscription \<Rightarrow> bool" where
  "sub_ok s \<longleftrightarrow> in_order (sb_pending s) \<and>
     (\<forall>q \<in> set (butlast (sb_pending s)). \<not> is_terminal (qe_event q)) \<and>
     (sb_pending s \<noteq> [] \<longrightarrow> is_terminal (qe_event (last (sb_pending s))) \<longrightarrow> sb_closed s)"

text \<open>A subscription that is still fed: open, and everything queued is older than \<open>n\<close> and not terminal.\<close>

definition sub_live :: "string \<Rightarrow> int \<Rightarrow> subscription \<Rightarrow> bool" where
  "sub_live i n s \<longleftrightarrow> \<not> sb_closed s \<and> sb_event_id s = i \<and>
     (\<forall>q \<in> set (sb_pending s). seq_of q < n \<and> \<not> is_terminal (qe_event q))"

lemma in_order_filter: "in_order xs \<Longrightarrow> in_order (filter P xs)"
  by (rule sorted_wrt_filter)

lemma sub_enqueue_live:
  assumes "sub_live i n s" "sub_ok s"
  obtains "snd (sub_enqueue e d s) = s"
  | kept where "snd (sub_enqueue e d s) = s\<lparr>sb_pending := kept @ [\<lparr> qe_event = e, qe_droppable = d \<rparr>]\<rparr>"
      "set kept \<subseteq> set (sb_pending s)" "in_order kept"
  using assms in_order_filter [of "sb_pending s" "\<lambda>q. \<not> qe_droppable q"]
  unfolding sub_enqueue_def sub_ok_def Let_def
  by (cases "sb_closed s"; cases "sb_max_queued s \<le> length (sb_pending s)"; cases d) auto

lemma deliver_ok:
  assumes "sub_live i n s" "sub_ok s" "n \<le> re_sequence e" "is_terminal e \<longrightarrow> t"
  shows "sub_ok (deliver e t d s)"
  by (rule sub_enqueue_live [OF assms(1,2), of e "\<not> t \<and> d"])
    (use assms in \<open>fastforce simp: deliver_def sub_ok_def sub_close_def sub_live_def sorted_wrt_append\<close>)+

lemma deliver_live:
  assumes "sub_live i n s" "sub_ok s" "n \<le> re_sequence e" "\<not> is_terminal e"
  shows "sub_live i (re_sequence e + 1) (deliver e False d s)"
  by (rule sub_enqueue_live [OF assms(1,2), of e d])
    (use assms in \<open>fastforce simp: deliver_def sub_live_def\<close>)+

text \<open>Only droppable events are lost: the others stay in the queue, in their order.\<close>

lemma enqueue_keeps_undroppable:
  "\<not> sb_closed s \<Longrightarrow>
     filter (\<lambda>q. \<not> qe_droppable q) (sb_pending (snd (sub_enqueue e d s))) =
     filter (\<lambda>q. \<not> qe_droppable q) (sb_pending s) @ (if d then [] else [\<lparr> qe_event = e, qe_droppable = d \<rparr>])"
  by (simp add: sub_enqueue_def Let_def)

section \<open>The invariant\<close>

definition state_ok :: "hub \<Rightarrow> string \<Rightarrow> event_state \<Rightarrow> bool" where
  "state_ok h i es \<longleftrightarrow>
     2 \<le> es_next_sequence es \<and> in_order (es_history es) \<and>
     (\<forall>q \<in> set (es_history es). 2 \<le> seq_of q \<and> seq_of q < es_next_sequence es \<and> \<not> is_terminal (qe_event q)) \<and>
     (0 < hub_max_replay h \<longrightarrow> length (es_history es) \<le> hub_max_replay h) \<and>
     (\<forall>t. es_terminal es = Some t \<longrightarrow> is_terminal t \<and> es_subscribers es = [] \<and> 2 \<le> re_sequence t \<and>
        re_sequence t < es_next_sequence es) \<and>
     distinct (es_subscribers es) \<and>
     (\<forall>p \<in> set (es_subscribers es). p < length (hub_subs h) \<and> sub_live i (es_next_sequence es) (hub_subs h ! p))"

text \<open>A subscription that was not attached yet has nothing to read.\<close>

definition sub_fresh_empty :: "subscription \<Rightarrow> bool" where
  "sub_fresh_empty s \<longleftrightarrow> (sb_event_id s = [] \<longrightarrow> sb_pending s = [])"

definition hub_ok :: "hub \<Rightarrow> bool" where
  "hub_ok h \<longleftrightarrow> (\<forall>i es. hub_events h i = Some es \<longrightarrow> i \<noteq> [] \<and> state_ok h i es) \<and>
     (\<forall>s \<in> set (hub_subs h). sub_ok s \<and> sub_fresh_empty s)"

lemma hub_okI:
  assumes "\<And>i es. hub_events h i = Some es \<Longrightarrow> i \<noteq> [] \<and> state_ok h i es"
    "\<And>s. s \<in> set (hub_subs h) \<Longrightarrow> sub_ok s \<and> sub_fresh_empty s"
  shows "hub_ok h"
  using assms by (simp add: hub_ok_def)

lemma new_hub_ok: "hub_ok new_hub"
  by (simp add: hub_ok_def new_hub_def)

lemma prune_simps [simp]:
  "hub_subs (prune now h) = hub_subs h" "hub_max_replay (prune now h) = hub_max_replay h"
  by (simp_all add: prune_def)

lemma prune_SomeD: "hub_events (prune now h) i = Some es \<Longrightarrow> hub_events h i = Some es"
  by (auto simp: prune_def split: option.splits if_splits)

lemma state_ok_frame:
  assumes "state_ok h i es" "hub_max_replay h' = hub_max_replay h" "length (hub_subs h) \<le> length (hub_subs h')"
    "\<And>p. p \<in> set (es_subscribers es) \<Longrightarrow> hub_subs h' ! p = hub_subs h ! p"
  shows "state_ok h' i es"
  using assms unfolding state_ok_def by fastforce

lemma prune_ok: "hub_ok h \<Longrightarrow> hub_ok (prune now h)"
  by (rule hub_okI) (auto simp: hub_ok_def dest!: prune_SomeD intro: state_ok_frame [of h])

lemma ensure_event_ok: "hub_ok h \<Longrightarrow> state_ok h i (ensure_event i now h)"
  by (auto simp: ensure_event_def new_event_state_def state_ok_def [of h i "new_event_state now"] hub_ok_def split: option.split)
    (simp add: state_ok_def)

section \<open>Preservation\<close>

lemma put_state_ok:
  assumes "hub_ok h" "state_ok h i es" "i \<noteq> []"
  shows "hub_ok (put_state i es h)"
proof (rule hub_okI)
  fix j es' assume "hub_events (put_state i es h) j = Some es'"
  then have "j \<noteq> []" "state_ok h j es'" using assms by (auto simp: put_state_def hub_ok_def split: if_splits)
  then show "j \<noteq> [] \<and> state_ok (put_state i es h) j es'" by (auto intro: state_ok_frame [of h] simp: put_state_def)
next
  fix s assume "s \<in> set (hub_subs (put_state i es h))"
  then show "sub_ok s \<and> sub_fresh_empty s" using assms(1) by (simp add: put_state_def hub_ok_def)
qed

text \<open>
  Replacing the subscriptions by \<open>ss\<close> and the state of the event \<open>i\<close>, where those that another
  event may feed stay as they are.
\<close>

lemma hub_replace:
  assumes ok: "hub_ok h" and len: "length ss = length (hub_subs h)" and i: "i \<noteq> []"
    and subs: "\<And>s. s \<in> set ss \<Longrightarrow> sub_ok s \<and> sub_fresh_empty s"
    and st: "state_ok (h\<lparr>hub_subs := ss\<rparr>) i es"
    and same: "\<And>p. p < length (hub_subs h) \<Longrightarrow> ss ! p \<noteq> hub_subs h ! p \<Longrightarrow> sb_event_id (hub_subs h ! p) \<in> {i, []}"
  shows "hub_ok (put_state i es (h\<lparr>hub_subs := ss\<rparr>))"
proof (rule hub_okI)
  fix j es' assume j: "hub_events (put_state i es (h\<lparr>hub_subs := ss\<rparr>)) j = Some es'"
  have "j \<noteq> [] \<and> state_ok (h\<lparr>hub_subs := ss\<rparr>) j es'"
  proof (cases "j = i")
    case True
    with j st i show ?thesis by (simp add: put_state_def)
  next
    case False
    with j have j': "hub_events h j = Some es'" by (simp add: put_state_def)
    then have o: "j \<noteq> []" "state_ok h j es'" using ok by (auto simp: hub_ok_def)
    have "ss ! p = hub_subs h ! p" if "p \<in> set (es_subscribers es')" for p
      using o that same [of p] False by (auto simp: state_ok_def sub_live_def)
    then show ?thesis using o len by (auto intro: state_ok_frame [of h])
  qed
  then show "j \<noteq> [] \<and> state_ok (put_state i es (h\<lparr>hub_subs := ss\<rparr>)) j es'"
    by (auto intro: state_ok_frame [of "h\<lparr>hub_subs := ss\<rparr>"] simp: put_state_def)
next
  fix s assume "s \<in> set (hub_subs (put_state i es (h\<lparr>hub_subs := ss\<rparr>)))"
  then show "sub_ok s \<and> sub_fresh_empty s" using subs by (simp add: put_state_def)
qed

lemma set_list_updateD: "x \<in> set (xs[p := y]) \<Longrightarrow> x = y \<or> x \<in> set xs"
  using set_update_subset_insert by fastforce

lemma state_ok_append:
  assumes "state_ok h i es"
  shows "state_ok (h\<lparr>hub_subs := hub_subs h @ ss\<rparr>) i es"
proof (rule state_ok_frame [OF assms])
  fix p assume "p \<in> set (es_subscribers es)"
  with assms have "p < length (hub_subs h)" by (simp add: state_ok_def)
  then show "hub_subs (h\<lparr>hub_subs := hub_subs h @ ss\<rparr>) ! p = hub_subs h ! p" by (simp add: nth_append)
qed simp_all

lemma reserve_ok: "hub_ok h \<Longrightarrow> hub_ok (snd (hub_reserve h))"
  by (rule hub_okI) (auto simp: hub_ok_def hub_reserve_def sub_ok_def sub_fresh_empty_def state_ok_append)

lemma attach_ok:
  assumes ok: "hub_ok h" and p: "p < length (hub_subs h)" "sb_event_id (hub_subs h ! p) = []"
    "\<not> sb_closed (hub_subs h ! p)" and i: "i \<noteq> []"
  shows "hub_ok (snd (hub_attach p i now h))"
proof -
  let ?h = "prune now h" and ?s = "hub_subs h ! p"
  let ?es = "ensure_event i now ?h" and ?ss = "(hub_subs h)[p := ?s\<lparr>sb_event_id := i\<rparr>]"
  have pok: "hub_ok ?h" by (rule prune_ok [OF ok])
  have es: "state_ok ?h i ?es" by (rule ensure_event_ok [OF pok])
  have s: "sub_ok ?s" "sb_pending ?s = []"
    using ok p by (auto simp: hub_ok_def sub_fresh_empty_def)
  have notin: "p \<notin> set (es_subscribers ?es)" using es p(2) i by (auto simp: state_ok_def sub_live_def)
  define es1 where "es1 = (if es_terminal ?es = None then ?es\<lparr>es_subscribers := List.insert p (es_subscribers ?es)\<rparr> else ?es)"
  have "snd (hub_attach p i now h) = put_state i (es1\<lparr>es_updated_at := now\<rparr>) (?h\<lparr>hub_subs := ?ss\<rparr>)"
    by (simp add: hub_attach_def Let_def es1_def)
  also have "hub_ok \<dots>"
  proof (rule hub_replace [OF pok])
    show "state_ok (?h\<lparr>hub_subs := ?ss\<rparr>) i (es1\<lparr>es_updated_at := now\<rparr>)"
      using es p s notin by (auto simp: es1_def state_ok_def sub_live_def nth_list_update)
    show "sub_ok s \<and> sub_fresh_empty s" if "s \<in> set ?ss" for s
      using set_list_updateD [OF that] ok s i by (auto simp: hub_ok_def sub_ok_def sub_fresh_empty_def)
    show "sb_event_id (hub_subs ?h ! q) \<in> {i, []}" if "?ss ! q \<noteq> hub_subs ?h ! q" for q
      using that p by (cases "q = p") auto
  qed (use i in simp_all)
  finally show ?thesis .
qed

lemma next_ok:
  assumes ok: "hub_ok h" and p: "p < length (hub_subs h)"
  shows "hub_ok (snd (hub_next p h))"
proof (cases "sb_pending (hub_subs h ! p)")
  case Nil
  then show ?thesis using ok by (simp add: hub_next_def sub_next_def)
next
  case (Cons q qs)
  let ?s = "hub_subs h ! p" and ?s' = "(hub_subs h ! p)\<lparr>sb_pending := qs\<rparr>"
  have s: "sub_ok ?s" "sub_fresh_empty ?s" using ok p by (auto simp: hub_ok_def)
  have "sub_ok ?s'" "sub_fresh_empty ?s'"
    using s Cons by (auto simp: sub_ok_def sub_fresh_empty_def split: if_splits)
  moreover have "sub_live i n ?s \<Longrightarrow> sub_live i n ?s'" for i n using Cons by (simp add: sub_live_def)
  moreover have e: "snd (hub_next p h) = h\<lparr>hub_subs := (hub_subs h)[p := ?s']\<rparr>"
    using Cons by (simp add: hub_next_def sub_next_def)
  ultimately show ?thesis using ok p unfolding e
    by (intro hub_okI) (auto simp: hub_ok_def state_ok_def nth_list_update dest!: set_list_updateD)
qed

lemma populate_simps:
  assumes "re_sequence e = 0"
  shows "re_sequence (fst (populate e now es)) = es_next_sequence es"
    "re_kind (fst (populate e now es)) = re_kind e"
    "snd (populate e now es) = es\<lparr>es_next_sequence := es_next_sequence es + 1\<rparr>"
  using assms by (simp_all add: populate_def Let_def)

lemma is_terminal_kind: "re_kind e = re_kind e' \<Longrightarrow> is_terminal e = is_terminal e'"
  by (simp add: is_terminal_def)

text \<open>Publishing to the event, in its two forms; a terminal event that is cached already is the third.\<close>

lemma publish_ok:
  assumes ok: "hub_ok h" and seq: "re_sequence e = 0"
  shows "hub_ok (snd (hub_publish e (is_terminal e) now h))"
proof (cases "re_event_id e = []")
  case True
  with ok show ?thesis by (simp add: hub_publish_def)
next
  case i: False
  let ?h = "prune now h" and ?i = "re_event_id e" and ?t = "is_terminal e"
  let ?es = "ensure_event ?i now ?h"
  let ?e = "fst (populate e now ?es)" and ?n = "es_next_sequence ?es"
  have pok: "hub_ok ?h" by (rule prune_ok [OF ok])
  have es: "state_ok ?h ?i ?es" by (rule ensure_event_ok [OF pok])
  note pop = populate_simps [OF seq, of now ?es]
  have kind: "is_terminal ?e = ?t" by (rule is_terminal_kind [OF pop(2)])
  show ?thesis
  proof (cases "?t \<and> es_terminal ?es \<noteq> None")
    case True
    then have "snd (hub_publish e ?t now h) = put_state ?i ?es ?h"
      using i by (auto simp: hub_publish_def Let_def)
    then show ?thesis using put_state_ok [OF pok es i] by simp
  next
    case False
    define d where "d = fst (policy_for_kind (re_kind ?e))"
    define ss where "ss = dispatch (es_subscribers ?es) ?e ?t d (hub_subs h)"
    define es' where "es' = ?es\<lparr>es_next_sequence := ?n + 1, es_updated_at := now,
        es_history := (if ?t then es_history ?es
          else append_history \<lparr> qe_event = ?e, qe_droppable = snd (policy_for_kind (re_kind ?e)) \<rparr> (hub_max_replay h) (es_history ?es)),
        es_terminal := (if ?t then Some ?e else es_terminal ?es),
        es_subscribers := (if ?t then [] else es_subscribers ?es)\<rparr>"
    have pub: "snd (hub_publish e ?t now h) = put_state ?i es' (?h\<lparr>hub_subs := ss\<rparr>)"
      using i False pop(3)
      by (auto simp: hub_publish_def Let_def es'_def ss_def d_def split: option.splits prod.splits)
    have subs: "\<And>p. p \<in> set (es_subscribers ?es) \<Longrightarrow> p < length (hub_subs h) \<and> sub_live ?i ?n (hub_subs h ! p)"
      "distinct (es_subscribers ?es)" and hist: "in_order (es_history ?es)"
      "\<forall>q \<in> set (es_history ?es). 2 \<le> seq_of q \<and> seq_of q < ?n \<and> \<not> is_terminal (qe_event q)" "2 \<le> ?n"
      using es by (auto simp: state_ok_def)
    have nth: "ss ! q = (if q \<in> set (es_subscribers ?es) then deliver ?e ?t d (hub_subs h ! q) else hub_subs h ! q)" for q
      unfolding ss_def by (rule nth_dispatch) (use subs in auto)
    have len: "length ss = length (hub_subs h)" by (simp add: ss_def)
    have okn: "sub_ok (hub_subs h ! q) \<and> sub_fresh_empty (hub_subs h ! q)" if "q < length (hub_subs h)" for q
      using ok that by (auto simp: hub_ok_def)
    have "hub_ok (put_state ?i es' (?h\<lparr>hub_subs := ss\<rparr>))"
    proof (rule hub_replace [OF pok])
      show "sub_ok s \<and> sub_fresh_empty s" if "s \<in> set ss" for s
      proof -
        from that obtain q where q: "q < length (hub_subs h)" "s = ss ! q" by (auto simp: in_set_conv_nth len)
        show ?thesis
        proof (cases "q \<in> set (es_subscribers ?es)")
          case True
          then have live: "sub_live ?i ?n (hub_subs h ! q)" using subs by blast
          have "sub_ok s" using True q nth
            by (auto intro: deliver_ok [OF live conjunct1 [OF okn [OF q(1)]]] simp: pop(1) kind)
          moreover have "sb_event_id s = ?i" using live True q nth
            by (simp add: deliver_def sub_close_def sub_enqueue_def Let_def sub_live_def)
          ultimately show ?thesis using i by (simp add: sub_fresh_empty_def)
        next
          case False
          then show ?thesis using okn q nth by simp
        qed
      qed
      show "state_ok (?h\<lparr>hub_subs := ss\<rparr>) ?i es'"
      proof (cases ?t)
        case True
        then show ?thesis using es pop(1) kind by (auto simp: state_ok_def es'_def)
      next
        case nt: False
        have live': "p < length (hub_subs h) \<and> sub_live ?i (?n + 1) (ss ! p)" if "p \<in> set (es_subscribers ?es)" for p
        proof -
          have l: "p < length (hub_subs h)" "sub_live ?i ?n (hub_subs h ! p)" using subs(1) [OF that] by auto
          have "sub_live ?i (re_sequence ?e + 1) (deliver ?e False d (hub_subs h ! p))"
            by (rule deliver_live [OF l(2) conjunct1 [OF okn [OF l(1)]]]) (use kind nt pop(1) in simp_all)
          then show ?thesis using l nt that nth pop(1) by simp
        qed
        have hsub: "set (es_history es') \<subseteq> insert \<lparr> qe_event = ?e, qe_droppable = snd (policy_for_kind (re_kind ?e)) \<rparr> (set (es_history ?es))"
          using nt append_history_subset by (simp add: es'_def)
        have "in_order (es_history es')"
          using nt hist pop(1) by (auto simp: es'_def sorted_wrt_append intro!: append_history_sorted)
        moreover have "0 < hub_max_replay h \<longrightarrow> length (es_history es') \<le> hub_max_replay h"
          using nt append_history_length by (simp add: es'_def)
        moreover have "\<forall>q \<in> set (es_history es'). 2 \<le> seq_of q \<and> seq_of q < ?n + 1 \<and> \<not> is_terminal (qe_event q)"
          using hsub hist(2,3) pop(1) kind nt by fastforce
        ultimately show ?thesis using es nt live' subs(2) hist(3) len
          by (auto simp: state_ok_def es'_def)
      qed
      show "sb_event_id (hub_subs ?h ! p) \<in> {?i, []}" if "ss ! p \<noteq> hub_subs ?h ! p" for p
        using that nth subs by (auto simp: sub_live_def split: if_splits)
    qed (use len i in simp_all)
    with pub show ?thesis by simp
  qed
qed

lemma close_ok:
  assumes ok: "hub_ok h" and p: "p < length (hub_subs h)"
    and free: "\<And>i es. hub_events h i = Some es \<Longrightarrow> p \<notin> set (es_subscribers es)"
  shows "hub_ok (h\<lparr>hub_subs := (hub_subs h)[p := sub_close (hub_subs h ! p)]\<rparr>)"
proof (rule hub_okI)
  fix i es assume "hub_events (h\<lparr>hub_subs := (hub_subs h)[p := sub_close (hub_subs h ! p)]\<rparr>) i = Some es"
  then have e: "hub_events h i = Some es" by simp
  then have "i \<noteq> []" "state_ok h i es" using ok by (auto simp: hub_ok_def)
  moreover have "q \<noteq> p" if "q \<in> set (es_subscribers es)" for q using that free [OF e] by auto
  ultimately show "i \<noteq> [] \<and> state_ok (h\<lparr>hub_subs := (hub_subs h)[p := sub_close (hub_subs h ! p)]\<rparr>) i es"
    by (auto intro!: state_ok_frame [of h]) (metis nth_list_update_neq)
next
  fix s assume "s \<in> set (hub_subs (h\<lparr>hub_subs := (hub_subs h)[p := sub_close (hub_subs h ! p)]\<rparr>))"
  then have "s = sub_close (hub_subs h ! p) \<or> s \<in> set (hub_subs h)" by (auto dest: set_list_updateD)
  moreover have "sub_ok (hub_subs h ! p)" "sub_fresh_empty (hub_subs h ! p)" using ok p by (auto simp: hub_ok_def)
  then have "sub_ok (sub_close (hub_subs h ! p)) \<and> sub_fresh_empty (sub_close (hub_subs h ! p))"
    by (simp add: sub_close_def sub_ok_def sub_fresh_empty_def)
  ultimately show "sub_ok s \<and> sub_fresh_empty s" using ok by (auto simp: hub_ok_def)
qed

lemma detach_sub_simps [simp]:
  "es_subscribers (detach_sub p now es) = removeAll p (es_subscribers es)"
  "es_terminal (detach_sub p now es) = es_terminal es"
  by (simp_all add: detach_sub_def)

lemma detach_sub_ok: "state_ok h i es \<Longrightarrow> state_ok h i (detach_sub p now es)"
  by (auto simp: state_ok_def detach_sub_def distinct_removeAll)

lemma hub_detach_subs [simp]: "hub_subs (hub_detach p i now h) = hub_subs h"
  by (simp add: hub_detach_def put_state_def Let_def split: option.split)

lemma hub_detach_ok: "hub_ok h \<Longrightarrow> hub_ok (hub_detach p i now h)"
  by (auto simp: hub_detach_def Let_def hub_ok_def [of h] split: option.split
      intro!: prune_ok put_state_ok detach_sub_ok)

lemma hub_detach_free:
  assumes "hub_ok h" "sb_event_id (hub_subs h ! p) = i" "hub_events (hub_detach p i now h) j = Some es"
  shows "p \<notin> set (es_subscribers es)"
proof -
  have only: "k = i" if "hub_events h k = Some es'" "p \<in> set (es_subscribers es')" for k es'
    using assms(1,2) that by (auto simp: hub_ok_def state_ok_def sub_live_def)
  have nil: "hub_events h [] = None" using assms(1) by (cases "hub_events h []") (auto simp: hub_ok_def)
  show ?thesis
  proof (cases "i = []")
    case True
    with assms(3) have "hub_events h j = Some es" by (simp add: hub_detach_def)
    with only nil True show ?thesis by (metis option.distinct(1))
  next
    case False
    with assms(3) only show ?thesis
      by (auto simp: hub_detach_def put_state_def Let_def split: if_splits option.splits dest!: prune_SomeD)
  qed
qed

lemma release_ok: "hub_ok h \<Longrightarrow> p < length (hub_subs h) \<Longrightarrow> hub_ok (hub_release p now h)"
  unfolding hub_release_def Let_def
  by (rule close_ok) (auto intro: hub_detach_ok dest: hub_detach_free [OF _ refl])

section \<open>The hub as a state machine\<close>

datatype hub_label =
  HubReserve | HubAttach nat string | HubPublish runtime_event | HubNext nat | HubRelease nat

text \<open>
  What the program does with a hub: a subscription is attached once, while it is open, and published
  events come without a sequence number (no caller sets one).
\<close>

inductive hub_step :: "hub \<Rightarrow> hub_label \<Rightarrow> hub \<Rightarrow> bool" where
  step_reserve: "hub_step h HubReserve (snd (hub_reserve h))"
| step_attach: "p < length (hub_subs h) \<Longrightarrow> sb_event_id (hub_subs h ! p) = [] \<Longrightarrow> \<not> sb_closed (hub_subs h ! p) \<Longrightarrow>
     i \<noteq> [] \<Longrightarrow> hub_step h (HubAttach p i) (snd (hub_attach p i now h))"
| step_publish: "re_sequence e = 0 \<Longrightarrow> hub_step h (HubPublish e) (snd (hub_publish e (is_terminal e) now h))"
| step_next: "p < length (hub_subs h) \<Longrightarrow> hub_step h (HubNext p) (snd (hub_next p h))"
| step_release: "p < length (hub_subs h) \<Longrightarrow> hub_step h (HubRelease p) (hub_release p now h)"

inductive hub_reachable :: "hub \<Rightarrow> bool" where
  hub_start: "hub_reachable new_hub"
| hub_more: "hub_reachable h \<Longrightarrow> hub_step h l h' \<Longrightarrow> hub_reachable h'"

inductive_cases hub_attachE: "hub_step h (HubAttach p i) h'"
inductive_simps hub_reserve_iff: "hub_step h HubReserve h'"

lemma hub_step_ok: "hub_step h l h' \<Longrightarrow> hub_ok h \<Longrightarrow> hub_ok h'"
  by (induction rule: hub_step.induct) (simp_all add: reserve_ok attach_ok publish_ok next_ok release_ok)

lemma hub_reachable_ok: "hub_reachable h \<Longrightarrow> hub_ok h"
  by (induction rule: hub_reachable.induct) (auto intro: new_hub_ok hub_step_ok)

section \<open>Properties\<close>

text \<open>
  C17: In every reachable state of the hub the pending events of a subscription have strictly
  increasing sequence numbers, a terminal event can only be the last of them, and then the
  subscription is closed: an observer reads nothing after the terminal event.
\<close>

theorem observer_queue_order:
  assumes "hub_reachable h" "s \<in> set (hub_subs h)"
  shows "sorted_wrt (\<lambda>p q. re_sequence (qe_event p) < re_sequence (qe_event q)) (sb_pending s) \<and>
    (\<forall>q \<in> set (butlast (sb_pending s)). \<not> is_terminal (qe_event q)) \<and>
    (sb_pending s \<noteq> [] \<and> is_terminal (qe_event (last (sb_pending s))) \<longrightarrow> sb_closed s)"
  using hub_reachable_ok [OF assms(1)] assms(2) by (simp add: hub_ok_def sub_ok_def)

text \<open>An observer of the event \<open>e\<close> that reads its terminal event.\<close>

definition demo_terminal :: runtime_event where
  "demo_terminal = \<lparr> re_kind = RuntimeEventCompleted, re_work = \<lparr> wi_event_id = [], wi_session_key = [],
     wi_lane_key = [], wi_source = [], wi_channel = [], wi_metadata = [] \<rparr>, re_event_id = ''e'', re_sequence = 0,
     re_run_id = [], re_session_key = [], re_session_id = [], re_status = [], re_delta = [], re_tool_call_id = [],
     re_tool_name = [], re_args = [], re_result = [], re_truncated = False, re_message = [], re_occurred_at = 0,
     re_metadata = [], re_error = None, re_event_record = None \<rparr>"

definition demo_attached :: hub where
  "demo_attached = snd (hub_attach 0 ''e'' 0 (snd (hub_reserve new_hub)))"

definition demo_published :: hub where
  "demo_published = snd (hub_publish demo_terminal True 0 demo_attached)"

lemma demo_attached_reachable: "hub_reachable demo_attached"
proof -
  have "hub_reachable (snd (hub_reserve new_hub))" by (rule hub_more [OF hub_start step_reserve])
  moreover have "hub_step (snd (hub_reserve new_hub)) (HubAttach 0 ''e'') demo_attached"
    unfolding demo_attached_def by (rule step_attach) (simp_all add: hub_reserve_def new_hub_def)
  ultimately show ?thesis by (rule hub_more)
qed

lemma demo_published_reachable: "hub_reachable demo_published"
proof -
  have "is_terminal demo_terminal" by (simp add: is_terminal_def demo_terminal_def)
  then have "hub_step demo_attached (HubPublish demo_terminal) demo_published"
    unfolding demo_published_def using step_publish [of demo_terminal demo_attached 0]
    by (simp add: demo_terminal_def)
  then show ?thesis by (rule hub_more [OF demo_attached_reachable])
qed

lemma demo_attached_state:
  "hub_subs demo_attached = [\<lparr> sb_pending = [], sb_closed = False, sb_event_id = ''e'', sb_max_queued = 64 \<rparr>]"
  "hub_events demo_attached = [''e'' \<mapsto> \<lparr> es_next_sequence = 2, es_subscribers = [0], es_history = [], es_terminal = None, es_updated_at = 0 \<rparr>]"
  "hub_max_replay demo_attached = 2048" "hub_terminal_retention demo_attached = 10 * minute" "hub_max_queued demo_attached = 64"
  by (simp_all add: demo_attached_def hub_attach_def hub_reserve_def new_hub_def prune_def ensure_event_def
      new_event_state_def put_state_def Let_def fun_eq_iff)

lemma demo_published_subs:
  "hub_subs demo_published = [\<lparr> sb_pending = [\<lparr> qe_event = demo_terminal\<lparr>re_sequence := 2\<rparr>, qe_droppable = False \<rparr>],
     sb_closed = True, sb_event_id = ''e'', sb_max_queued = 64 \<rparr>]"
  by (simp add: demo_published_def hub_publish_def demo_terminal_def prune_def ensure_event_def demo_attached_state
      populate_def is_zero_time_def zero_time_def Let_def dispatch_def deliver_def sub_enqueue_def sub_close_def put_state_def)

theorem observer_queue_order_witness:
  "sb_closed (hub_subs demo_published ! 0)"
  using observer_queue_order [OF demo_published_reachable, of "hub_subs demo_published ! 0"]
  by (simp add: demo_published_subs is_terminal_def demo_terminal_def)

lemma hub_publish_subs:
  assumes "re_event_id e \<noteq> []" "ensure_event (re_event_id e) now (prune now h) = es" "es_terminal es = None"
  shows "hub_subs (snd (hub_publish e t now h)) =
    dispatch (es_subscribers es) (fst (populate e now es)) t (fst (policy_for_kind (re_kind (fst (populate e now es))))) (hub_subs h)"
  using assms by (cases t) (simp_all add: hub_publish_def Let_def case_prod_beta put_state_def)

text \<open>
  C18: Publishing to a subscriber never loses an undroppable event of its queue: whatever the
  queue's bound, the undroppable events pending after it are those pending before it, followed
  by the published event when its kind is undroppable.
\<close>

theorem publish_keeps_undroppable:
  assumes "hub_reachable h" "hub_events (prune now h) (re_event_id e) = Some es" "p \<in> set (es_subscribers es)"
    "re_sequence e = 0"
  shows "filter (\<lambda>q. \<not> qe_droppable q) (sb_pending (hub_subs (snd (hub_publish e (is_terminal e) now h)) ! p)) =
    filter (\<lambda>q. \<not> qe_droppable q) (sb_pending (hub_subs h ! p)) @
      (if re_kind e \<in> {RuntimeEventClaimed, RuntimeEventExecuting, RuntimeEventFinalizeStarted,
                       RuntimeEventReasoningDelta, RuntimeEventTextDelta}
       then [] else [\<lparr> qe_event = fst (populate e now es), qe_droppable = False \<rparr>])"
proof -
  let ?h = "prune now h"
  have ok: "hub_ok ?h" by (rule prune_ok [OF hub_reachable_ok [OF assms(1)]])
  then have st: "re_event_id e \<noteq> []" "state_ok ?h (re_event_id e) es" using assms(2) by (auto simp: hub_ok_def)
  have en: "ensure_event (re_event_id e) now ?h = es" using assms(2) by (simp add: ensure_event_def)
  have nt: "es_terminal es = None" using st(2) assms(3) by (cases "es_terminal es") (auto simp: state_ok_def)
  have op: "\<not> sb_closed (hub_subs h ! p)" and dis: "distinct (es_subscribers es)"
    "\<forall>p \<in> set (es_subscribers es). p < length (hub_subs h)"
    using st(2) assms(3) by (auto simp: state_ok_def sub_live_def)
  note pop = populate_simps [OF assms(4), of now es]
  have "hub_subs (snd (hub_publish e (is_terminal e) now h)) ! p =
      deliver (fst (populate e now es)) (is_terminal e) (fst (policy_for_kind (re_kind e))) (hub_subs h ! p)"
    using nth_dispatch [OF dis] assms(3) by (simp add: hub_publish_subs [OF st(1) en nt] pop(2))
  moreover have "is_terminal e \<Longrightarrow> \<not> fst (policy_for_kind (re_kind e))"
    by (auto simp: is_terminal_def policy_for_kind_def)
  ultimately show ?thesis
    using enqueue_keeps_undroppable [OF op]
    by (auto simp: deliver_def sub_close_def policy_for_kind_def)
qed

theorem publish_keeps_undroppable_witness:
  "filter (\<lambda>q. \<not> qe_droppable q) (sb_pending (hub_subs (snd (hub_publish demo_terminal (is_terminal demo_terminal) 0 demo_attached)) ! 0)) =
     [\<lparr> qe_event = demo_terminal\<lparr>re_sequence := 2\<rparr>, qe_droppable = False \<rparr>]"
  by (subst publish_keeps_undroppable [OF demo_attached_reachable, where p = 0 and es = "\<lparr> es_next_sequence = 2,
      es_subscribers = [0], es_history = [], es_terminal = None, es_updated_at = 0 \<rparr>"])
    (simp_all add: demo_attached_state prune_def demo_terminal_def populate_def is_zero_time_def zero_time_def Let_def)

end
