(* ===== verification/Delivery_Db.thy ===== *)
theory Delivery_Db
  imports Delivery Scenario
begin

text \<open>
  The delivery worker on the database: its repository is \<open>RuntimeRepository\<close>, whose operations
  obey the worker's contract, so that what was proved of a tick holds of the outbox table.  The
  retry policy's delays have their closed form here.
\<close>

section \<open>The repository on the database\<close>

definition db_status :: "database \<Rightarrow> string \<Rightarrow> outbox_status option" where
  "db_status d i = map_option ob_status (find_row ob_outbox_id i (db_outbox d))"

text \<open>The fault of each call and the texts of the errors are arguments.\<close>

definition db_delivery :: "(string \<Rightarrow> tx_fault) \<Rightarrow> (store_error \<Rightarrow> string) \<Rightarrow> (send_error \<Rightarrow> string) \<Rightarrow> database delivery_repo" where
  "db_delivery flt text send_text = \<lparr>
     dr_beat_heartbeat = (\<lambda>w now d. map_prod (error_of text) id (beat_heartbeat (flt ''beat'') w now d)),
     dr_recover_expired_sending = (\<lambda>cutoff now d.
       map_prod (error_of text) id (recover_expired_sending (flt ''recover'') cutoff now d)),
     dr_claim_outbox = (\<lambda>owner now d. map_prod (with_text text) id (claim_runtime_outbox (flt ''claim'') owner now d)),
     dr_fail_send = (\<lambda>i e err dead next_at now d.
       map_prod (error_of text) id (fail_outbox_send (flt ''fail'') i e (send_text err) dead next_at now d)),
     dr_complete_send = (\<lambda>i e now d. map_prod (error_of text) id (complete_outbox_send (flt ''complete'') i e now d)) \<rparr>"

section \<open>Its laws\<close>

lemma db_status_update:
  assumes "\<And>r. ob_outbox_id (f r) = ob_outbox_id r" "\<And>r. ob_status (f r) = st" "db_status d i \<noteq> None"
  shows "db_status (d\<lparr>db_outbox := update_where (\<lambda>r. ob_outbox_id r = i) f (db_outbox d), db_events := evs\<rparr>) =
    (db_status d)(i := Some st)"
proof
  fix j
  obtain r where "find_row ob_outbox_id i (db_outbox d) = Some r" using assms(3) by (auto simp: db_status_def)
  then show "db_status (d\<lparr>db_outbox := update_where (\<lambda>r. ob_outbox_id r = i) f (db_outbox d), db_events := evs\<rparr>) j =
    ((db_status d)(i := Some st)) j"
    using find_row_update_where [of "\<lambda>r. ob_outbox_id r = i" ob_outbox_id f j "db_outbox d"] assms(1,2)
    by (cases "find_row ob_outbox_id j (db_outbox d)") (auto simp: db_status_def dest: find_row_SomeD)
qed

lemma recover_outbox_item_status:
  "db_status d (fst it) = Some OutboxStatusSending \<or> db_status d (fst it) = Some OutboxStatusRetryWait \<Longrightarrow>
     db_status (recover_outbox_item now it d) = (db_status d)(fst it := Some OutboxStatusRetryWait)"
  unfolding recover_outbox_item_def by (rule db_status_update) auto

text \<open>The loop of the recovery, on items whose rows were sending when it started.\<close>

lemma recover_fold_status:
  "\<forall>it \<in> set items. db_status d (fst it) \<in> {Some OutboxStatusSending, Some OutboxStatusRetryWait} \<Longrightarrow>
     db_status (fold (recover_outbox_item now) items d) i =
       (if i \<in> fst ` set items then Some OutboxStatusRetryWait else db_status d i)"
proof (induction items arbitrary: d)
  case (Cons it items)
  have s: "db_status (recover_outbox_item now it d) = (db_status d)(fst it := Some OutboxStatusRetryWait)"
    by (rule recover_outbox_item_status) (use Cons.prems in auto)
  have "db_status (fold (recover_outbox_item now) items (recover_outbox_item now it d)) i =
     (if i \<in> fst ` set items then Some OutboxStatusRetryWait else db_status (recover_outbox_item now it d) i)"
    by (rule Cons.IH) (use Cons.prems s in auto)
  with s show ?case by auto
qed simp

lemma db_recover_law:
  assumes "db_ok d" "recover_expired_sending flt cutoff now d = (r, d')"
  shows "db_status d' i = db_status d i \<or>
    db_status d i = Some OutboxStatusSending \<and> db_status d' i = Some OutboxStatusRetryWait"
proof -
  let ?items = "map (\<lambda>r. (ob_outbox_id r, ob_event_id r)) (filter (sending_expired cutoff) (db_outbox d))"
  have dis: "distinct (map ob_outbox_id (db_outbox d))" by (rule keys_uniqueD(8) [OF db_okD(1) [OF assms(1)]])
  have st: "db_status d (ob_outbox_id r) = Some OutboxStatusSending"
    if "r \<in> set (db_outbox d)" "sending_expired cutoff r" for r
  proof -
    have "find_row ob_outbox_id (ob_outbox_id r) (db_outbox d) = Some r"
      using that(1) by (simp add: find_row_Some_iff [OF dis])
    then show ?thesis using that(2) by (simp add: db_status_def sending_expired_def)
  qed
  then have items: "\<forall>it \<in> set ?items. db_status d (fst it) = Some OutboxStatusSending" by auto
  have f: "db_status (fold (recover_outbox_item now) ?items d) i =
      (if i \<in> fst ` set ?items then Some OutboxStatusRetryWait else db_status d i)"
    by (rule recover_fold_status) (use items in auto)
  show ?thesis
  proof (cases r)
    case (Inl e)
    then show ?thesis using assms(2) by (auto simp: recover_expired_sending_def dest: with_writer_tx_Inl)
  next
    case (Inr u)
    then have "d' = fold (recover_outbox_item now) ?items d"
      using assms(2) by (auto simp: recover_expired_sending_def Let_def dest!: with_writer_tx_InrD)
    then show ?thesis using f items by auto
  qed
qed

lemma db_claim_law:
  assumes "db_ok d" "claim_runtime_outbox flt owner now d = (ro, d')"
  shows "case ro of
      Inr (Some m) \<Rightarrow> db_status d (co_outbox_id m) \<in> {Some OutboxStatusPending, Some OutboxStatusRetryWait} \<and>
        db_status d' = (db_status d)(co_outbox_id m := Some OutboxStatusSending)
    | _ \<Rightarrow> db_status d' = db_status d"
proof (cases ro)
  case (Inl e)
  then show ?thesis using assms(2) by (auto simp: claim_runtime_outbox_def dest: with_writer_tx_Inl)
next
  case (Inr om)
  then have t: "claim_runtime_outbox_tx owner now d = Inr (om, d')"
    using assms(2) by (auto simp: claim_runtime_outbox_def dest: with_writer_tx_InrD)
  show ?thesis
  proof (cases "next_outbox now (db_outbox d)")
    case None
    then show ?thesis using t Inr by (auto simp: claim_runtime_outbox_tx_def)
  next
    case (Some r)
    note due = next_outbox_SomeD(1,2) [OF Some]
    have "find_row ob_outbox_id (ob_outbox_id r) (db_outbox d) = Some r"
      using due(1) find_row_Some_iff [OF keys_uniqueD(8) [OF db_okD(1) [OF assms(1)]]] by simp
    then have "db_status d (ob_outbox_id r) = Some (ob_status r)" by (simp add: db_status_def)
    moreover from this have "db_status d' = (db_status d)(ob_outbox_id r := Some OutboxStatusSending)"
      using t Some by (auto simp: claim_runtime_outbox_tx_def lock_outbox_row_def intro!: db_status_update)
    ultimately show ?thesis
      using t Some Inr due(2) by (auto simp: claim_runtime_outbox_tx_def outbox_due_def to_claimed_outbox_def)
  qed
qed

lemma db_fail_law:
  assumes "fail_outbox_send flt i e err dead next_at now d = (r, d')" "db_status d i \<noteq> None"
  shows "db_status d' = (case r of Inl _ \<Rightarrow> db_status d
    | Inr _ \<Rightarrow> (db_status d)(i := Some (if dead then OutboxStatusDead else OutboxStatusRetryWait)))"
proof (cases r)
  case (Inl e)
  then show ?thesis using assms(1) by (auto simp: fail_outbox_send_def Let_def dest: with_writer_tx_Inl)
next
  case (Inr u)
  then show ?thesis using assms
    by (auto simp: fail_outbox_send_def Let_def fail_outbox_row_def dest!: with_writer_tx_InrD intro!: db_status_update)
qed

lemma db_complete_law:
  assumes "complete_outbox_send flt i e now d = (r, d')" "db_status d i \<noteq> None"
  shows "db_status d' = (case r of Inl _ \<Rightarrow> db_status d | Inr _ \<Rightarrow> (db_status d)(i := Some OutboxStatusSent))"
proof (cases r)
  case (Inl e)
  then show ?thesis using assms(1) by (auto simp: complete_outbox_send_def dest: with_writer_tx_Inl)
next
  case (Inr u)
  then show ?thesis using assms
    by (auto simp: complete_outbox_send_def sent_outbox_row_def dest!: with_writer_tx_InrD intro!: db_status_update)
qed

lemma beat_outbox: "beat_heartbeat flt w now d = (r, d') \<Longrightarrow> db_outbox d' = db_outbox d"
  unfolding beat_heartbeat_def by (erule exec_writer_cases) (auto simp: Let_def)

section \<open>The worker's contract\<close>

lemma db_beat_contract:
  assumes "db_ok s" "dr_beat_heartbeat (db_delivery flt text send_text) w now s = (r, s')"
  shows "db_ok s' \<and> db_status s' = db_status s"
proof -
  obtain a where a: "beat_heartbeat (flt ''beat'') w now s = (a, s')"
    using assms(2) by (auto simp: db_delivery_def dest!: map_prod_eqD)
  show ?thesis using beat_heartbeat_ok [OF a assms(1)] beat_outbox [OF a] by (simp add: db_status_def fun_eq_iff)
qed

lemma db_recover_contract:
  assumes "db_ok s" "dr_recover_expired_sending (db_delivery flt text send_text) cutoff now s = (r, s')"
  shows "db_ok s' \<and> (\<forall>i. db_status s' i = db_status s i \<or>
    db_status s i = Some OutboxStatusSending \<and> db_status s' i = Some OutboxStatusRetryWait)"
proof -
  obtain a where a: "recover_expired_sending (flt ''recover'') cutoff now s = (a, s')"
    using assms(2) by (auto simp: db_delivery_def dest!: map_prod_eqD)
  show ?thesis using recover_expired_sending_ok [OF a assms(1)] db_recover_law [OF assms(1) a] by blast
qed

lemma db_claim_contract:
  assumes "db_ok s" "dr_claim_outbox (db_delivery flt text send_text) owner now s = (ro, s')"
  shows "db_ok s' \<and> (case ro of
      Inr (Some m) \<Rightarrow> db_status s (co_outbox_id m) \<in> {Some OutboxStatusPending, Some OutboxStatusRetryWait} \<and>
        db_status s' = (db_status s)(co_outbox_id m := Some OutboxStatusSending)
    | _ \<Rightarrow> db_status s' = db_status s)"
proof -
  obtain a where a: "claim_runtime_outbox (flt ''claim'') owner now s = (a, s')" "ro = with_text text a"
    using assms(2) by (auto simp: db_delivery_def dest!: map_prod_eqD)
  show ?thesis
    using db_claim_law [OF assms(1) a(1)] claim_runtime_outbox_ok [OF a(1) assms(1)] a(2)
    by (auto simp: with_text_def split: sum.splits option.splits)
qed

lemma db_fail_contract:
  assumes "db_ok s" "db_status s i \<noteq> None" "dr_fail_send (db_delivery flt text send_text) i e err dead next_at now s = (r, s')"
  shows "db_ok s' \<and> db_status s' =
    (if r = None then (db_status s)(i := Some (if dead then OutboxStatusDead else OutboxStatusRetryWait)) else db_status s)"
proof -
  obtain a where a: "fail_outbox_send (flt ''fail'') i e (send_text err) dead next_at now s = (a, s')" "r = error_of text a"
    using assms(3) by (auto simp: db_delivery_def dest!: map_prod_eqD)
  show ?thesis using db_fail_law [OF a(1) assms(2)] fail_outbox_send_ok [OF a(1) assms(1)] a(2)
    by (auto simp: error_of_def split: sum.splits)
qed

lemma db_complete_contract:
  assumes "db_ok s" "db_status s i \<noteq> None" "dr_complete_send (db_delivery flt text send_text) i e now s = (r, s')"
  shows "db_ok s' \<and> db_status s' = (if r = None then (db_status s)(i := Some OutboxStatusSent) else db_status s)"
proof -
  obtain a where a: "complete_outbox_send (flt ''complete'') i e now s = (a, s')" "r = error_of text a"
    using assms(3) by (auto simp: db_delivery_def dest!: map_prod_eqD)
  show ?thesis using db_complete_law [OF a(1) assms(2)] complete_outbox_send_ok [OF a(1) assms(1)] a(2)
    by (auto simp: error_of_def split: sum.splits)
qed

interpretation db_worker: delivery_contract "db_delivery flt etext send_text" db_status db_ok for flt etext send_text
  by (unfold_locales; (rule db_beat_contract db_recover_contract db_claim_contract db_fail_contract db_complete_contract; assumption))


text \<open>The reply of the scenario, delivered to the standard output.\<close>

definition demo_tick :: "(tick_outcome \<times> claimed_outbox option) \<times> database" where
  "demo_tick = delivery_tick (db_delivery (\<lambda>_. TxOk) (\<lambda>_. []) (\<lambda>_. [])) default_policy (Some stdout_send) 2 (rt_db demo_done)"

lemma demo_done_ok: "db_ok (rt_db demo_done)"
  using fenced_reachable_inv [OF demo_done_reachable] by (simp add: fenced_inv_def rt_inv_def)

lemma demo_tick_sent:
  "fst demo_tick = (TickSent, Some (to_claimed_outbox (new_outbox_row demo_command)))"
proof -
  let ?r = "new_outbox_row demo_command"
  have due: "outbox_due 2 ?r" "\<not> sending_expired c ?r" for c
    by (simp_all add: outbox_due_def sending_expired_def new_outbox_row_def demo_command_simps)
  have body: "fc_outbox_body demo_command = ''ok''"
    by (simp add: demo_command_def build_finalize_def Let_def demo_result_def empty_execution_result_def)
  have ok: "stdout_send (to_outbox_message (to_claimed_outbox ?r)) = None"
    by (simp add: stdout_send_def contains_def to_outbox_message_def to_claimed_outbox_def new_outbox_row_def body sublist_code)
  define d1 where "d1 = snd (beat_heartbeat TxOk ''outbox_retry'' 2 (rt_db demo_done))"
  have d1: "db_outbox d1 = [?r]"
    using beat_outbox [of TxOk "''outbox_retry''" 2 "rt_db demo_done"] demo_done_outbox by (simp add: d1_def prod_eq_iff)
  have rec: "recover_expired_sending TxOk c 2 d1 = (Inr (), d1)" for c
    by (simp add: recover_expired_sending_def with_writer_tx_def d1 due)
  obtain d2 where claim: "claim_runtime_outbox TxOk ''outbox-worker'' 2 d1 = (Inr (Some (to_claimed_outbox ?r)), d2)"
    by (simp add: claim_runtime_outbox_def with_writer_tx_def claim_runtime_outbox_tx_def next_outbox_def d1 due first_by_def)
  show ?thesis
    by (simp add: demo_tick_def delivery_tick_def db_delivery_def Let_def d1_def [symmetric] rec claim with_text_def
        deliver_message_def ok complete_outbox_send_def with_writer_tx_def error_of_def)
qed


section \<open>Delays\<close>

lemma retry_delay_closed:
  "0 < b \<Longrightarrow> b \<le> limit \<Longrightarrow> limit < 2 ^ 62 \<Longrightarrow> retry_delay limit n b = min limit (b * 2 ^ n)"
proof (induction n arbitrary: b)
  case (Suc n)
  have w: "wrap64 (b * 2) = b * 2" by (rule wrap64_id) (use Suc.prems in auto)
  have big: "limit \<le> b * 2 ^ Suc n" if "limit < b * 2 \<or> limit = b"
  proof -
    have "(1::int) \<le> 2 ^ n" by simp
    then have "b * 2 * 1 \<le> b * 2 * 2 ^ n" using Suc.prems(1) by (intro mult_left_mono) auto
    moreover have "limit \<le> b * 2" using that Suc.prems(1) by auto
    ultimately show ?thesis by (simp add: mult.assoc)
  qed
  show ?case
  proof (cases "limit < b * 2 \<or> limit = b")
    case True
    then show ?thesis using w big Suc.prems by (auto simp: min_def)
  next
    case False
    then show ?thesis using w Suc.IH [of "b * 2"] Suc.prems by (simp add: mult.assoc)
  qed
qed simp

definition or_default :: "int \<Rightarrow> int \<Rightarrow> int" where
  "or_default configured dflt = (if configured \<le> 0 then dflt else configured)"



end
