(* ===== verification/Workers_System.thy ===== *)
theory Workers_System
  imports Workers Hub_System Delivery_Db
begin

text \<open>
  The workers on the database: a scheduled job that was ingested and recorded does not fire again
  before its interval is over, and an observer that attaches after the work is done still gets a
  terminal event.
\<close>

section \<open>Scheduled jobs on the database\<close>

definition db_job_repo :: "(string \<Rightarrow> tx_fault) \<Rightarrow> (store_error \<Rightarrow> string) \<Rightarrow> database job_repo" where
  "db_job_repo flt etext = \<lparr>
     sj_beat_heartbeat = (\<lambda>w now d. map_prod (error_of etext) id (beat_heartbeat (flt ''beat'') w now d)),
     sj_claim = (\<lambda>kind owner now d. map_prod (with_text etext) id (claim_scheduled_job (flt ''claim'') kind owner now d)),
     sj_fail = (\<lambda>jid e next_at now d. map_prod (error_of etext) id (fail_scheduled_job (flt ''fail'') jid e next_at now d)),
     sj_complete = (\<lambda>j now d. map_prod (error_of etext) id (complete_scheduled_job (flt ''complete'') j now d)),
     sj_mark_event_queued = (\<lambda>eid now d. map_prod (error_of etext) id (mark_event_queued (flt ''mark'') eid now d)) \<rparr>"

lemma exec_writer_jobs:
  "exec_writer flt f d = (r, d') \<Longrightarrow> (\<And>d. db_jobs (f d) = db_jobs d) \<Longrightarrow> db_jobs d' = db_jobs d"
  by (erule exec_writer_cases) auto

lemma beat_jobs: "db_jobs (snd (beat_heartbeat flt w now d)) = db_jobs d"
  using exec_writer_jobs [of flt _ d "fst (beat_heartbeat flt w now d)" "snd (beat_heartbeat flt w now d)"]
  by (simp add: beat_heartbeat_def Let_def)

lemma mark_jobs: "db_jobs (snd (mark_event_queued flt eid now d)) = db_jobs d"
  using exec_writer_jobs [of flt _ d "fst (mark_event_queued flt eid now d)" "snd (mark_event_queued flt eid now d)"]
  by (simp add: mark_event_queued_def)

lemma mark_jobsD: "mark_event_queued flt eid now d = (r, d') \<Longrightarrow> db_jobs d' = db_jobs d"
  using mark_jobs [of flt eid now d] by simp

lemma claim_scheduled_job_SomeD:
  assumes "claim_scheduled_job flt kind owner now d = (Inr (Some j), d')"
  obtains r where "r \<in> set (db_jobs d)" "job_due kind now r" "cj_job_id j = jb_job_id r" "cj_kind j = kind"
    "db_jobs d' = update_where (\<lambda>r'. jb_job_id r' = jb_job_id r) (lock_job_row owner now) (db_jobs d)"
proof -
  have t: "(case next_job kind now (db_jobs d) of None \<Rightarrow> Inr (None, d)
       | Some r \<Rightarrow> Inr (Some (to_claimed_job (lock_job_row owner now r)),
           d\<lparr>db_jobs := update_where (\<lambda>r'. jb_job_id r' = jb_job_id r) (lock_job_row owner now) (db_jobs d)\<rparr>)) = (Inr (Some j, d') :: store_error + _)"
    using assms unfolding claim_scheduled_job_def by (auto dest: with_writer_tx_InrD)
  show ?thesis
  proof (cases "next_job kind now (db_jobs d)")
    case None
    then show ?thesis using t by simp
  next
    case (Some r)
    note due = next_job_SomeD(1,2) [OF Some]
    show ?thesis
      by (rule that [OF due]) (use t Some due(2) in \<open>auto simp: to_claimed_job_def lock_job_row_def job_due_def\<close>)
  qed
qed

lemma complete_scheduled_job_jobs:
  assumes "map_prod (error_of etext) id (complete_scheduled_job flt j now d) = (None, d')"
  shows "db_jobs d' = update_where (\<lambda>r. jb_job_id r = cj_job_id j) (complete_job_row j now) (db_jobs d)"
  using assms
  by (cases flt) (auto simp: complete_scheduled_job_def exec_writer_def with_writer_tx_def error_of_def)

text \<open>The rows of the job after a tick that ingested and recorded it.\<close>

lemma run_scheduled_kind_jobs:
  assumes "run_scheduled_kind (Some (db_job_repo flt etext)) (Some ing) queue kind now d = (JobIngested j a None, d')"
    and ing: "\<And>q d. db_jobs (snd (ing q d)) = db_jobs d"
    and enq: "\<And>e i d. queue = Some e \<Longrightarrow> db_jobs (snd (e i d)) = db_jobs d"
  shows "cj_kind j = kind \<and> (\<exists>d1 :: database. db_jobs d' = update_where (\<lambda>r. jb_job_id r = cj_job_id j) (complete_job_row j now) (db_jobs d1) \<and>
    map jb_kind (db_jobs d1) = map jb_kind (db_jobs d) \<and> map jb_job_id (db_jobs d1) = map jb_job_id (db_jobs d))"
proof -
  obtain rc d1 where c: "claim_scheduled_job (flt ''claim'') kind (job_kind_text kind @ ''-worker'') now d = (rc, d1)" by fastforce
  have rc: "rc = Inr (Some j)" and
    ex: "\<exists>d2. ing (job_request j now) d1 = (Inr a, d2) \<and>
      finish_job (db_job_repo flt etext) queue kind j a now d2 = (JobIngested j a None, d')"
    using assms(1) c
    by (auto simp: run_scheduled_kind_def db_job_repo_def with_text_def finish_job_def Let_def
        split: sum.splits option.splits prod.splits)
  obtain d2 where i: "ing (job_request j now) d1 = (Inr a, d2)" and
    f: "finish_job (db_job_repo flt etext) queue kind j a now d2 = (JobIngested j a None, d')" using ex by blast
  obtain ce d3 where ce: "map_prod (error_of etext) id (complete_scheduled_job (flt ''complete'') j now d2) = (ce, d3)"
    by fastforce
  obtain r :: job_row where r: "cj_kind j = kind"
    "db_jobs d1 = update_where (\<lambda>r'. jb_job_id r' = jb_job_id r) (lock_job_row (job_kind_text kind @ ''-worker'') now) (db_jobs d)"
    by (rule claim_scheduled_job_SomeD [OF c [unfolded rc]]) blast
  have "ce = None" using f ce by (auto simp: finish_job_def db_job_repo_def Let_def split: prod.splits)
  with ce have fin: "db_jobs d3 = update_where (\<lambda>r. jb_job_id r = cj_job_id j) (complete_job_row j now) (db_jobs d2)"
    using complete_scheduled_job_jobs by blast
  have "db_jobs d' = db_jobs d3"
    using f ce enq mark_jobs beat_jobs
    by (auto simp: finish_job_def db_job_repo_def Let_def split: prod.splits option.splits if_splits dest!: map_prod_eqD mark_jobsD)
  moreover have "db_jobs d2 = db_jobs d1" using ing [of "job_request j now" d1] i by simp
  moreover have "map jb_kind (db_jobs d1) = map jb_kind (db_jobs d)" "map jb_job_id (db_jobs d1) = map jb_job_id (db_jobs d)"
    unfolding r(2) by (simp_all add: map_update_where lock_job_row_def)
  ultimately show ?thesis using r(1) fin by (intro conjI exI [of _ d1]) simp_all
qed

lemma completed_cron_not_due:
  assumes "cj_kind j = ScheduledJobKindCron" "year_ok t" "year_ok (now + job_interval j)"
    "t div second < (now + job_interval j) div second"
  shows "\<not> job_due kind t (complete_job_row j now r)"
  using time_text_less_second [OF assms(2-4)] assms(1) by (auto simp: job_due_def complete_job_row_def)

lemma completed_other_not_due:
  "cj_kind j \<noteq> ScheduledJobKindCron \<Longrightarrow> \<not> job_due kind t (complete_job_row j now r)"
  by (cases "cj_kind j") (auto simp: job_due_def complete_job_row_def)

text \<open>
  A scheduled job that a tick ingested and recorded as completed is not due again before
  its interval is over, and never when it is not a cron job.
\<close>

theorem recorded_job_waits:
  assumes "run_scheduled_kind (Some (db_job_repo flt etext)) (Some ing) queue kind now d = (JobIngested j a None, d')"
    and "\<And>q d. db_jobs (snd (ing q d)) = db_jobs d"
    and "\<And>e i d. queue = Some e \<Longrightarrow> db_jobs (snd (e i d)) = db_jobs d"
    and "r \<in> set (db_jobs d')" "jb_job_id r = cj_job_id j" "job_due k t r" "year_ok t" "year_ok (now + job_interval j)"
  shows "kind = ScheduledJobKindCron \<and> (now + job_interval j) div second \<le> t div second"
proof -
  obtain d1 :: database where d1: "cj_kind j = kind"
      "db_jobs d' = update_where (\<lambda>r. jb_job_id r = cj_job_id j) (complete_job_row j now) (db_jobs d1)"
    using run_scheduled_kind_jobs [of flt etext ing queue kind now d j a d', OF assms(1)] assms(2,3) by blast
  obtain r0 where r0: "r = complete_job_row j now r0"
    using assms(4,5) unfolding d1(2) by (auto simp: set_update_where)
  show ?thesis
  proof (rule ccontr)
    assume "\<not> ?thesis"
    then have "\<not> job_due k t r"
      using completed_other_not_due [of j k t now r0] completed_cron_not_due [of j t now k r0] d1(1) assms(7,8) r0
      by (cases "cj_kind j = ScheduledJobKindCron") auto
    with assms(6) show False by blast
  qed
qed

section \<open>Late observers\<close>

lemma terminal_runtime_event_Some:
  "terminal_runtime_event rec = Some e \<Longrightarrow> is_terminal e \<and> re_event_id e = rec_event_id rec \<and> re_event_record e = Some rec"
  by (cases "rec_status rec") (auto simp: terminal_runtime_event_def is_terminal_def Let_def)

lemma terminal_runtime_event_iff: "terminal_runtime_event rec = None \<longleftrightarrow> \<not> event_terminal (rec_status rec)"
  by (cases "rec_status rec") (simp_all add: terminal_runtime_event_def event_terminal_def Let_def)

text \<open>What the hub still holds of the event after an attach is in the replay.\<close>

lemma hub_attach_terminal:
  assumes "hub_attach p i now h = (rs, h1)" "es_terminal (ensure_event i now (prune now h1)) = Some c"
  shows "c \<in> set rs" "es_terminal (ensure_event i now (prune now h)) = Some c"
proof -
  let ?es = "ensure_event i now (prune now h)"
  let ?es1 = "(if es_terminal ?es = None then ?es\<lparr>es_subscribers := List.insert p (es_subscribers ?es)\<rparr> else ?es)\<lparr>es_updated_at := now\<rparr>"
  have rs: "rs = replay ?es" and st: "hub_events h1 i = Some ?es1"
    using assms by (auto simp: hub_attach_def Let_def put_state_def)
  have "ensure_event i now (prune now h1) = ?es1 \<or> ensure_event i now (prune now h1) = new_event_state now"
    by (simp add: ensure_event_def prune_def st del: split_paired_All)
  then show "es_terminal ?es = Some c" using assms(2) by (auto simp: new_event_state_def split: if_splits)
  then show "c \<in> set rs" by (simp add: rs replay_def)
qed

lemma observer_attach_terminal:
  assumes "hub_reachable h" "stored i = Some t" "is_terminal t" "re_event_id t = i"
    "observer_attach stored p i now h = (rs, h')"
  shows "\<exists>e \<in> set rs. is_terminal e"
proof -
  obtain rs1 h1 where at: "hub_attach p i now h = (rs1, h1)" by fastforce
  show ?thesis
  proof (cases "replay_contains_terminal rs1")
    case True
    then show ?thesis using assms(5) at by (auto simp: observer_attach_def replay_contains_terminal_def list_ex_iff)
  next
    case False
    obtain e h2 where pub: "hub_publish t True now h1 = (e, h2)" by fastforce
    then have rs: "rs = rs1 @ [e]" using assms(2,5) at False by (simp add: observer_attach_def)
    show ?thesis
    proof (cases "i = []")
      case True
      then have "e = t" using pub assms(4) by (simp add: hub_publish_def)
      with rs assms(3) show ?thesis by simp
    next
      case ne: False
      let ?es = "ensure_event i now (prune now h1)"
      show ?thesis
      proof (cases "es_terminal ?es")
        case None
        then have "e = fst (populate t now ?es)"
          using pub ne assms(4) by (simp add: hub_publish_def Let_def case_prod_beta)
        then have "is_terminal e" using assms(3) by (simp add: populate_def Let_def is_terminal_def)
        with rs show ?thesis by simp
      next
        case (Some c)
        then have "e = c" using pub ne assms(4) by (simp add: hub_publish_def Let_def)
        moreover have "c \<in> set rs1" by (rule hub_attach_terminal(1) [OF at Some])
        moreover have "is_terminal c"
          using ensure_event_ok [OF prune_ok [OF hub_reachable_ok [OF assms(1)]]] hub_attach_terminal(2) [OF at Some]
          by (auto simp: state_ok_def)
        ultimately show ?thesis using rs by auto
      qed
    qed
  qed
qed

text \<open>
  C22: An observer that attaches after an event was processed and recorded still finds a
  terminal event in its replay, from the hub or from the store, in every reachable state of the
  hub.
\<close>

theorem late_observer_gets_terminal:
  assumes "db_ok d" "process (Some (db_facts (\<lambda>_. TxOk) etext)) (Some ex) clk n w d = (pr, d')"
    and "pz_events pr \<noteq> []" "pz_error pr = None" "re_event_record (last (pz_events pr)) \<noteq> None"
    and "hub_reachable h"
    and "observer_attach (stored_terminal d') p (re_event_id (last (pz_events pr))) now h = (rs, h')"
  shows "\<exists>e \<in> set rs. is_terminal e"
proof -
  obtain c t where l: "lifecycle ex clk c t pr"
      "re_event_record t = fx_event_record (db_facts (\<lambda>_. TxOk) etext) (event_id (cc_event c)) d'"
    using assms(4) db_kernel.process_outcome [OF assms(1,2)] assms(3) by blast
  then have t: "last (pz_events pr) = t" "re_event_id t = event_id (cc_event c)" by (simp_all add: lifecycle_def)
  obtain rec where rec: "re_event_record t = Some rec" using assms(5) t(1) by auto
  then have r: "rec_event_id rec = re_event_id t" "event_terminal (rec_status rec)"
    using l assms(4) t(2) by (simp_all add: lifecycle_def)
  have "get_event_record d' (re_event_id t) = Some rec" using rec l(2) t(2) by (simp add: db_facts_def)
  moreover obtain e where e: "terminal_runtime_event rec = Some e"
    using terminal_runtime_event_iff [of rec] r(2) by (cases "terminal_runtime_event rec") auto
  ultimately have "stored_terminal d' (re_event_id t) = Some e" by (simp add: stored_terminal_def)
  then show ?thesis
    using observer_attach_terminal [of h "stored_terminal d'" "re_event_id t" e p now rs h'] assms(6,7) t(1) r(1)
      terminal_runtime_event_Some [OF e] by simp
qed

section \<open>A cron job and a late observer\<close>

definition tick_job :: job_row where
  "tick_job = (cron_job_row ''t'' 0 demo_cron)\<lparr>jb_next_run_at := time_text 0\<rparr>"

definition tick_db :: database where
  "tick_db = empty_db\<lparr>db_jobs := [tick_job]\<rparr>"

definition tick_result :: job_ingest_result where
  "tick_result = \<lparr> jr_event_id = ''e'', jr_duplicate = False, jr_enqueued = True \<rparr>"

definition tick_claimed :: claimed_job where
  "tick_claimed = to_claimed_job (lock_job_row ''cron-worker'' 0 tick_job)"

lemma tick_due: "job_due ScheduledJobKindCron 0 tick_job"
  by (simp add: job_due_def tick_job_def cron_job_row_def)

lemma tick_run:
  "\<exists>d'. run_scheduled_kind (Some (db_job_repo (\<lambda>_. TxOk) (\<lambda>_. []))) (Some (\<lambda>q d. (Inr tick_result, d))) None
     ScheduledJobKindCron 0 tick_db = (JobIngested tick_claimed tick_result None, d') \<and>
     db_jobs d' = [complete_job_row tick_claimed 0 (lock_job_row ''cron-worker'' 0 tick_job)]"
proof -
  obtain d1 where claim: "claim_scheduled_job TxOk ScheduledJobKindCron ''cron-worker'' 0 tick_db = (Inr (Some tick_claimed), d1)"
      "db_jobs d1 = [lock_job_row ''cron-worker'' 0 tick_job]"
    by (simp add: claim_scheduled_job_def with_writer_tx_def next_job_def first_by_def tick_db_def tick_due tick_claimed_def)
  have id: "cj_job_id tick_claimed = jb_job_id tick_job" by (simp add: tick_claimed_def to_claimed_job_def)
  obtain d2 where complete: "complete_scheduled_job TxOk tick_claimed 0 d1 = (Inr (), d2)"
      "db_jobs d2 = [complete_job_row tick_claimed 0 (lock_job_row ''cron-worker'' 0 tick_job)]"
    by (simp add: complete_scheduled_job_def exec_writer_def with_writer_tx_def claim(2) id)
  show ?thesis
    using claim complete beat_jobs [of TxOk "''cron''" 0 d2]
    by (simp add: run_scheduled_kind_def db_job_repo_def with_text_def finish_job_def error_of_def)
qed

lemma tick_interval: "job_interval tick_claimed = 60 * second"
  by (simp add: job_interval_def tick_claimed_def to_claimed_job_def lock_job_row_def tick_job_def cron_job_row_def
      cron_payload_def demo_cron_def int_quot_def wrap64_def)

lemma year_ok_minute: "year_ok (60 * second)"
  by (simp add: year_ok_def year_of_secs_def civil_of_days_def year_of_days_def epoch_days_def days_before_year_def Let_def)

theorem recorded_job_waits_witness:
  "\<exists>r. job_due ScheduledJobKindCron (60 * second) r \<and> (0 + job_interval tick_claimed) div second \<le> (60 * second) div second"
proof -
  let ?ing = "(\<lambda>q d. (Inr tick_result, d)) :: database event_ingestor"
  let ?r = "complete_job_row tick_claimed 0 (lock_job_row ''cron-worker'' 0 tick_job)"
  obtain d' where run: "run_scheduled_kind (Some (db_job_repo (\<lambda>_. TxOk) (\<lambda>_. []))) (Some ?ing) None
     ScheduledJobKindCron 0 tick_db = (JobIngested tick_claimed tick_result None, d')" "db_jobs d' = [?r]"
    using tick_run by blast
  have kind: "cj_kind tick_claimed = ScheduledJobKindCron" "cj_status tick_claimed = ScheduledJobStatusActive"
    by (simp_all add: tick_claimed_def to_claimed_job_def lock_job_row_def tick_job_def cron_job_row_def)
  have due: "job_due ScheduledJobKindCron (60 * second) ?r"
    using kind tick_interval
    by (simp add: job_due_def complete_job_row_def lock_job_row_def tick_job_def cron_job_row_def)
  have id: "jb_job_id ?r = cj_job_id tick_claimed" by (simp add: tick_claimed_def to_claimed_job_def)
  show ?thesis
    using recorded_job_waits [OF run(1), of ?r ScheduledJobKindCron "60 * second"] due id run(2) tick_interval year_ok_minute
    by auto
qed

definition demo_processed :: "process_result \<times> database" where
  "demo_processed = process (Some (db_facts (\<lambda>_. TxOk) (\<lambda>_. []))) (Some demo_executor)
     \<lparr> clk_claim = 1, clk_finalize = 2, clk_failure = 2 \<rparr> 0 demo_work (rt_db demo_ingested)"

lemma demo_finalize: "finalize TxOk demo_command (rt_db demo_claimed) = (Inr (), rt_db demo_done)"
  by (simp add: demo_done_def finalize_def with_writer_tx_def finalize_tx_def demo_command_simps Let_def
      insert_outbox_def require_row_def insert_row_def demo_claim_work demo_ingested_tables frame)

lemma demo_done_record: "\<exists>rec. get_event_record (rt_db demo_done) (event_id_for 0) = Some rec"
  by (simp add: demo_done_def finalize_def with_writer_tx_def finalize_tx_def demo_command_simps Let_def
      insert_outbox_def require_row_def insert_row_def demo_claim_work demo_ingested_tables frame
      get_event_record_def find_row_def claim_event_row_def)

lemma demo_processed_events:
  "\<exists>pr. demo_processed = (pr, rt_db demo_done) \<and> pz_events pr \<noteq> [] \<and> pz_error pr = None \<and>
     re_event_id (last (pz_events pr)) = event_id_for 0 \<and> re_event_record (last (pz_events pr)) \<noteq> None"
proof -
  have mode: "er_run_mode demo_result = RunModeNormal" by (simp add: demo_result_def)
  have cmd: "build_finalize 2 (Suc 0) demo_claim demo_result None = demo_command"
    by (simp add: demo_command_def)
  have ev: "event_id (cc_event demo_claim) = event_id_for 0" by (simp add: demo_claim_work claimed_context_def)
  have rid: "cc_run_id demo_claim \<noteq> []" by (simp add: demo_claim_work demo_run_id_def run_id_for_def)
  have kc: "kernel_claim (db_facts (\<lambda>_. TxOk) (\<lambda>_. [])) \<lparr> clk_claim = 1, clk_finalize = 2, clk_failure = 2 \<rparr> 0 demo_work (rt_db demo_ingested)
      = (Inr (Some demo_claim), rt_db demo_claimed)"
    using demo_claim_work(1) rid by (simp add: kernel_claim_def db_facts_def demo_run_id_def [symmetric] with_text_def)
  have ke: "kernel_execute demo_executor demo_claim = ((demo_result, None), [])"
    by (simp add: kernel_execute_def demo_executor_def mode)
  show ?thesis
    using demo_done_record
    by (simp add: demo_processed_def process_def kc process_claimed_def ke cmd)
      (simp add: db_facts_def demo_finalize error_of_def kernel_event_def ev)
qed

theorem late_observer_gets_terminal_witness:
  "\<exists>e \<in> set (fst (observer_attach (stored_terminal (snd demo_processed)) 0 (event_id_for 0) 3 new_hub)). is_terminal e"
proof -
  obtain pr where pr: "demo_processed = (pr, rt_db demo_done)" "pz_events pr \<noteq> []" "pz_error pr = None"
    "re_event_id (last (pz_events pr)) = event_id_for 0" "re_event_record (last (pz_events pr)) \<noteq> None"
    using demo_processed_events by blast
  have ok: "db_ok (rt_db demo_ingested)"
    using fenced_reachable_inv [OF demo_ingested_reachable] by (simp add: fenced_inv_def rt_inv_def)
  obtain rs h' where at: "observer_attach (stored_terminal (rt_db demo_done)) 0 (event_id_for 0) 3 new_hub = (rs, h')" by fastforce
  show ?thesis
    unfolding pr(1) snd_conv at fst_conv
    using at late_observer_gets_terminal [OF ok pr(1) [unfolded demo_processed_def] pr(2,3,5) hub_start, of 0 3 rs h'] pr(4) by simp
qed

end
