(* ===== verification/Spec2Isabelle.thy ===== *)
theory Spec2Isabelle
  imports Client_System Config_System Http_Pages Http_System Lane_System Lifecycle_System
    Prompt_System Provider_System Telegram_System Tools_System Web_System Workers_System
begin

text \<open>
  A model of SimiClaw, a local agent gateway written in Go, and the theorems that make it correct.
  All paths below are relative to \<open>src/\<close>.

  \<^bold>\<open>The program.\<close>  A message comes in through HTTP (\<open>internal/http/ingest\<close>,
  \<open>internal/http/stream\<close>), from a Telegram bot (\<open>internal/channels/telegram\<close>) or from a worker
  (\<open>internal/runtime/workers\<close>).  The gateway (\<open>internal/gateway\<close>) validates it, binds it to a
  session, limits its rate, stores it as an event and queues it.  The event loop
  (\<open>internal/runtime/eventloop.go\<close>) takes events from the queue, serialises them on lanes and gives
  them to the kernel (\<open>internal/runtime/kernel\<close>), which claims the event, lets an executor run it
  and finalizes it in one transaction.  The executor (\<open>internal/runtime/kernel_adapter.go\<close>) runs
  the agent (\<open>internal/runner\<close>): a prompt (\<open>internal/prompt\<close>), a model (\<open>internal/provider\<close>) and
  tools (\<open>internal/tools\<close>) on the files of a workspace and on the web.  A reply goes to the outbox,
  from which the delivery worker (\<open>internal/outbound\<close>) sends it; what happens in between is published
  to observers (\<open>internal/runtime/events\<close>).  The tables are in SQLite (\<open>internal/store\<close>), the read
  side is \<open>internal/query\<close> behind \<open>internal/http/query\<close>, and \<open>cmd/simiclaw\<close> has a client.

  \<^bold>\<open>The conventions.\<close>  A Go string is the list of its bytes, a Go \<open>int\<close> is an \<open>int\<close> with the wrap
  of 64 bits written out where the code computes with it, an error is the left side of a sum, a
  struct is a record, a table is a list of rows in the order of their insertion, and an operation
  on state returns the new state.  A clock is an argument: where a Go function asks for the time
  more than once, each look has its own argument or its own place in a sequence.

  \<^bold>\<open>Library pieces.\<close>  \<open>Prelude\<close> (strings, integers, rows of tables), \<open>Go_Time\<close> and \<open>Time_Text\<close>
  (\<open>time.Time\<close> and its RFC3339Nano text), \<open>Utf8\<close>, \<open>Json_Text\<close> (the part of \<open>encoding/json\<close> and
  \<open>base64\<close> page cursors rest on), \<open>Paths\<close> (\<open>path.Clean\<close>), \<open>Go_Strings\<close>, \<open>Net_Addr\<close>
  (\<open>net/netip\<close>), \<open>Go_Regexp\<close> (leftmost-first matching), and \<open>Paging\<close> (keyset pagination).

  \<^bold>\<open>The data and the database.\<close>  \<open>Data_Model\<close> has the records of \<open>pkg/model\<close> and
  \<open>internal/runtime/model\<close>.  \<open>Store\<close> has the tables and the writer of \<open>db.go\<close>; the transactions
  are \<open>Session_Projection\<close>, \<open>Ingest_Tx\<close>, \<open>Claim_Tx\<close>, \<open>Finalize_Tx\<close>, \<open>Outbox_Tx\<close>, \<open>Recover_Tx\<close>
  (\<open>internal/store/tx\<close>) and \<open>Jobs_Tx\<close> (\<open>internal/store/jobs.go\<close>).  A transaction may fail at its
  begin or at its commit, as \<open>flt\<close> says, and then leaves the database as it was.  \<open>Db_Invariant\<close>
  shows that all of them keep \<open>db_ok\<close>: idempotency keys mirror events, references exist, leases are
  held exactly while an event is processed, an event has one started run.  \<open>Queries\<close> is the read
  side, with the listings, the history and the search.

  \<^bold>\<open>The runtime as a state machine.\<close>  \<open>Runtime_System\<close> has the database, the executions and sendings
  in progress and the id counter; a step is one transaction, and steps interleave freely, crash and
  expire.  \<open>Fenced_Runtime\<close> restricts recovery to moments without an execution in flight, which is
  what the two constants of two minutes aim at.  \<open>Event_Lifecycle\<close> is the abstract life of an event,
  \<open>Lifecycle_System\<close> the simulation by the runtime, \<open>Scenario\<close> the concrete runs that witness the
  reachable states the theorems speak of.

  \<^bold>\<open>The write side.\<close>  \<open>Bindings\<close>, \<open>Payloads\<close> (plans and routing), \<open>Gateway\<close> with the token
  buckets and \<open>Gateway_System\<close> (a key is stored and queued once, native references are confined, a
  limiter admits its burst); \<open>Lanes\<close> with \<open>Lane_System\<close> (mutual exclusion and no stuck lane);
  \<open>Event_Loop\<close>; \<open>Workers\<close> with \<open>Workers_System\<close>; \<open>Kernel\<close>, with \<open>Kernel_Facts\<close> for any store that
  keeps the contract, which the database does; \<open>Delivery\<close> with \<open>Delivery_Db\<close> (the worker against
  the contract of its repository, and the backoff); \<open>Hub\<close> with \<open>Hub_System\<close> (what each observer
  sees, in which order); \<open>Capability\<close> (error kinds).

  \<^bold>\<open>The HTTP surface and its client.\<close>  \<open>Http_Ingest\<close>, \<open>Http_Query\<close>, \<open>Http_Server\<close> (routes and key),
  \<open>Http_Pages\<close> (cursors come back as they were, and following them lists every row once),
  \<open>Http_System\<close> (what an ingest answers can be read back); \<open>Stream\<close> and \<open>Stream_Codec\<close> (the chat
  stream as written and as read); \<open>Cli_Client\<close> and \<open>Client_System\<close> (the client of
  \<open>cmd/simiclaw/internal/client\<close>: it returns by its deadline with a terminal record, and reads the
  stream of the server as it was written).

  \<^bold>\<open>The agent.\<close>  \<open>Display\<close> (what a stream may show of a tool call), \<open>Runner\<close>, \<open>Agent\<close>, and the
  theorems of \<open>Agent_System\<close> and \<open>Agent_Watch\<close>, which hold whatever the model and the tools do;
  \<open>Kernel_Adapter\<close> and \<open>Adapter_System\<close> put the agent behind the kernel on the database.
  \<open>Prompt\<close> and \<open>Prompt_System\<close> are the prompt builder and its cache; \<open>Provider\<close> and
  \<open>Provider_System\<close> the models.  \<open>Config\<close> and \<open>Config_System\<close> are the configuration, up to the
  factory of models that reads it.  \<open>Telegram\<close> and \<open>Telegram_System\<close> put the bot in front of the
  gateway on the database, and behind the outbox.

  \<^bold>\<open>Files and the web.\<close>  \<open>Fs\<close> is a file system with directories, files and symbolic links and the
  path resolution of Linux; \<open>Memory\<close>, \<open>Workspace_File\<close> and \<open>Tools\<close> are the code on it, with
  \<open>Workspace_Safety\<close> and \<open>Tools_System\<close> for what a run may change and what a channel may see.
  \<open>Web_Client\<close>, \<open>Web_Search\<close>, \<open>Web_Fetch\<close> are the web tools, with \<open>Web_Safety\<close> and \<open>Web_System\<close>
  for the hosts they may reach, the size of what they return and the age of what they cache.

  \<^bold>\<open>The lemma groups.\<close>  The system theories, \<open>Db_Invariant\<close> and \<open>Workspace_Safety\<close> hold invariants
  and their preservation by each operation; the theories of the operations hold their inversion
  rules (\<open>..._InrD\<close>, \<open>..._cases\<close>), frame lemmas and key lemmas, which the properties combine.
  Interfaces are locales, each interpreted on the definitions of the code that provides them: the
  store of the kernel and of the gateway, the repository of the delivery worker, and a listing by
  pages.  The theorems below are those on the transactions and
  on the runtime as a whole.

  \<^bold>\<open>Bounds and fuel.\<close>  The JSON parser has fuel \<open>2 * length + 2\<close>, enough by \<open>parse_fuel\<close> because
  each call that recurses on the same text is followed by one that consumes; its nesting limit
  10000 is that of \<open>encoding/json\<close>.  Path resolution follows at most 40 links, as Linux does, and 255
  in \<open>filepath.EvalSymlinks\<close>.  A client that follows pages needs no more rounds than there are rows.
  The rounds of the agent are bounded by the configuration, redirects by the constant of the code,
  the build of a prompt by its three attempts, each look at the files at its own time.  A repetition in a regular
  expression consumes, so the length of the text bounds it.  Polling for an event is a
  \<open>partial_function\<close>: that it returns is the theorem \<open>client_returns\<close>.  The lines of a stream are
  read by recursion on what is left of them.

  \<^bold>\<open>Parameters.\<close>  Code that is not in the repository is an argument of the definitions that use it:
  SHA-256, the JSON of request and response bodies, the URL parser, name servers and connections,
  the Unicode tables beyond the ones written out, the rounding of \<open>float64\<close>, the full-text index,
  the bot package and the client package of the model service, the embedded texts of the prompt, and the file modes as text.
  The conditions on them are hypotheses of the theorems that need them, each with a witness.

  \<^bold>\<open>Not modelled.\<close>  The screens of the terminal interface and the flags of the commands
  (\<open>cmd/simiclaw\<close> but its client), which rest on third-party packages; \<open>pkg/logging\<close> and all log
  lines; \<open>internal/bootstrap/app.go\<close>, which constructs the parts in turn; \<open>internal/workspace\<close>,
  which copies templates; opening the database, its migration and the SQLite driver; the start and
  stop of goroutines, whose work is modelled as steps, ticks and sequences of calls; the test support
  in \<open>internal/testutil\<close>, the linters in \<open>devtools\<close> and the web page in \<open>web\<close>.
\<close>


text \<open>
  C1: In every run of the runtime in which the processing lease fences the executions (recovery
  requeues only when no execution is in flight), an outbox row belongs to a processed event
  whose outbox columns are the row's, and no two rows of the outbox belong to the same event: an
  event delivers at most one reply.
\<close>

theorem fenced_reply_once:
  assumes "fenced_reachable s" "r \<in> set (db_outbox (rt_db s))"
  shows "(\<exists>e \<in> set (db_events (rt_db s)). ev_event_id e = ob_event_id r \<and>
            ev_status e = EventStatusProcessed \<and> ev_outbox_id e = ob_outbox_id r \<and> ev_outbox_status e = ob_status r) \<and>
         (\<forall>r' \<in> set (db_outbox (rt_db s)). ob_event_id r' = ob_event_id r \<longrightarrow> r' = r)"
proof -
  have inv: "db_ok (rt_db s)" "outbox_mirrored (rt_db s)"
    using fenced_reachable_inv [OF assms(1)] by (simp_all add: fenced_inv_def rt_inv_def)
  then show ?thesis
    using assms(2) mirrored_event_once [OF inv] by (simp add: outbox_mirrored_def row_mirrored_def)
qed

theorem fenced_reply_once_witness:
  "\<exists>e \<in> set (db_events (rt_db demo_done)). ev_event_id e = event_id_for 0 \<and>
      ev_status e = EventStatusProcessed \<and> ev_outbox_id e = outbox_id_for 2 \<and> ev_outbox_status e = OutboxStatusPending"
  using fenced_reply_once [OF demo_done_reachable, of "new_outbox_row demo_command"]
  by (simp add: demo_done_outbox new_outbox_row_def demo_command_simps)

text \<open>
  C2: Without that fence a run exists, from the empty database through ingest, claim, recovery
  of the expired lease, a second claim and both finalize transactions, that leaves two pending
  outbox rows of one event: Finalize checks neither the status of the event nor that of the run.
\<close>

theorem late_finalize_duplicates_reply:
  "\<exists>s r r'. reachable s \<and> r \<in> set (db_outbox (rt_db s)) \<and> r' \<in> set (db_outbox (rt_db s)) \<and>
     ob_event_id r = ob_event_id r' \<and> ob_outbox_id r \<noteq> ob_outbox_id r' \<and>
     ob_status r = OutboxStatusPending \<and> ob_status r' = OutboxStatusPending"
proof -
  have "outbox_id_for 6 \<noteq> outbox_id_for 5" by (simp add: outbox_id_for_def unix_nano_def)
  moreover have "event_id (cc_event demo_claim) = event_id (cc_event late_claim)"
    by (simp add: demo_claim_work(2) late_claim_work(2) claimed_context_def)
  ultimately show ?thesis
    using late_both_reachable
    by (intro exI [of _ late_both] exI [of _ "new_outbox_row (late_command 5 demo_claim)"]
        exI [of _ "new_outbox_row (late_command 6 late_claim)"])
      (simp add: late_both_outbox new_outbox_row_def late_command_simps)
qed

text \<open>
  In every reachable state of the runtime an event has at most one run in status started,
  whatever the order of the transactions, their failures and the crashes.
\<close>

theorem one_started_run_per_event:
  assumes "reachable s" "r \<in> set (db_runs (rt_db s))" "r' \<in> set (db_runs (rt_db s))"
    "rn_status r = RunStatusStarted" "rn_status r' = RunStatusStarted" "rn_event_id r = rn_event_id r'"
  shows "r = r'"
  using db_okD(6) [OF reachable_ok [OF assms(1)]] assms(2-)
  by (auto simp: started_unique_def distinct_map inj_on_def)

theorem one_started_run_per_event_witness:
  "\<exists>!r. r \<in> set (db_runs (rt_db demo_claimed)) \<and> rn_status r = RunStatusStarted \<and> rn_event_id r = event_id_for 0"
proof (rule ex1I [of _ demo_run])
  show "demo_run \<in> set (db_runs (rt_db demo_claimed)) \<and> rn_status demo_run = RunStatusStarted \<and>
      rn_event_id demo_run = event_id_for 0"
    by (intro conjI demo_claimed_run)
  show "r = demo_run" if "r \<in> set (db_runs (rt_db demo_claimed)) \<and> rn_status r = RunStatusStarted \<and>
      rn_event_id r = event_id_for 0" for r
    by (rule one_started_run_per_event [OF fenced_is_reachable [OF demo_claimed_reachable] _ demo_claimed_run(1) _ demo_claimed_run(2)])
      (use that demo_claimed_run(3) in simp_all)
qed

text \<open>
  C6: In every reachable state an event has a processing lease exactly when its status is
  processing, and then the run it names exists, belongs to the event and its session, and is
  started.
\<close>

theorem processing_event_has_started_run:
  assumes "reachable s" "e \<in> set (db_events (rt_db s))"
  shows "(ev_processing_started_at e \<noteq> [] \<longleftrightarrow> ev_status e = EventStatusProcessing) \<and>
    (ev_status e = EventStatusProcessing \<longrightarrow>
      (\<exists>r \<in> set (db_runs (rt_db s)). rn_run_id r = ev_run_id e \<and> rn_event_id r = ev_event_id e \<and>
         rn_session_key r = ev_session_key e \<and> rn_status r = RunStatusStarted))"
proof -
  have ok: "db_ok (rt_db s)" by (rule reachable_ok [OF assms(1)])
  have p: "(ev_processing_started_at e \<noteq> [] \<longleftrightarrow> ev_status e = EventStatusProcessing) \<and>
    (ev_status e = EventStatusProcessing \<longrightarrow>
      (\<exists>r \<in> set (db_runs (rt_db s)). rn_run_id r = ev_run_id e \<and> rn_event_id r = ev_event_id e \<and> rn_status r = RunStatusStarted))"
    using db_okD(5) [OF ok] assms(2) by (simp add: processing_has_run_def)
  have "rn_session_key r = ev_session_key e" if "r \<in> set (db_runs (rt_db s))" "rn_event_id r = ev_event_id e" for r
    by (rule run_event_exists [OF ok that(1)]) (use event_unique [OF ok assms(2)] that(2) in metis)
  with p show ?thesis by metis
qed

theorem processing_event_has_started_run_witness:
  "\<exists>r \<in> set (db_runs (rt_db demo_claimed)). rn_run_id r = demo_run_id \<and> rn_event_id r = event_id_for 0 \<and>
     rn_session_key r = ''k'' \<and> rn_status r = RunStatusStarted"
proof -
  define e where "e = (claim_event_row demo_run_id 1 demo_event)\<lparr>ev_run_mode := RunModeNormal\<rparr>"
  have "e \<in> set (db_events (rt_db demo_claimed))" by (simp add: demo_claim_work(5) e_def)
  moreover have "ev_status e = EventStatusProcessing" "ev_run_id e = demo_run_id"
    "ev_event_id e = event_id_for 0" "ev_session_key e = ''k''"
    by (simp_all add: e_def claim_event_row_def)
  ultimately show ?thesis
    using processing_event_has_started_run [OF fenced_is_reachable [OF demo_claimed_reachable], of e] by metis
qed

text \<open>
  C7: In every reachable state the cached columns of a session row (message count, token totals,
  last run and its model and time) are those computed from the session's messages and completed
  runs.
\<close>

theorem session_aggregates_cached:
  assumes "reachable s" "x \<in> set (db_sessions (rt_db s))"
  shows "se_message_count x = message_count (se_session_key x) (db_messages (rt_db s)) \<and>
    se_prompt_tokens_total x = token_sum rn_prompt_tokens (se_session_key x) (db_runs (rt_db s)) \<and>
    se_completion_tokens_total x = token_sum rn_completion_tokens (se_session_key x) (db_runs (rt_db s)) \<and>
    se_total_tokens_total x = token_sum rn_total_tokens (se_session_key x) (db_runs (rt_db s)) \<and>
    (case last_completed_run (se_session_key x) (db_runs (rt_db s)) of
       None \<Rightarrow> se_last_run_id x = [] \<and> se_last_model x = []
     | Some r \<Rightarrow> se_last_run_id x = rn_run_id r \<and> se_last_model x = rn_model r \<and> se_last_activity_at x = rn_finished_at r)"
  using db_okD(9) [OF reachable_ok [OF assms(1)]] assms(2)
  by (auto simp: sessions_cached_def session_cached_def split: option.splits)

theorem session_aggregates_cached_witness:
  "se_message_count (new_session_row ''k'' demo_conv (normalize_scope ''default'') 0) =
     message_count ''k'' (db_messages (rt_db demo_ingested))"
  using session_aggregates_cached [OF fenced_is_reachable [OF demo_ingested_reachable],
      of "new_session_row ''k'' demo_conv (normalize_scope ''default'') 0"]
  by (simp add: demo_ingested_tables new_session_row_def)

text \<open>
  In every reachable state the idempotency table lists, in the same order, key, id, payload
  hash, session and time of the events, and no two events share an id or an idempotency key.
\<close>

theorem idempotency_keys_mirror_events:
  assumes "reachable s"
  shows "map (\<lambda>i. (ik_key i, ik_event_id i, ik_payload_hash i, ik_session_key i, ik_session_id i, ik_created_at i))
           (db_idempotency (rt_db s)) =
         map (\<lambda>e. (ev_idempotency_key e, ev_event_id e, ev_payload_hash e, ev_session_key e, ev_session_id e, ev_created_at e))
           (db_events (rt_db s)) \<and>
    distinct (map ev_event_id (db_events (rt_db s))) \<and> distinct (map ev_idempotency_key (db_events (rt_db s)))"
  using db_okD(1,2) [OF reachable_ok [OF assms(1)]]
  by (simp add: idem_mirrors_def keys_unique_def idem_core_def [abs_def] event_core_def [abs_def])

theorem idempotency_keys_mirror_events_witness:
  "distinct (map ev_idempotency_key (db_events (rt_db late_both)))"
  using idempotency_keys_mirror_events [OF late_both_reachable] by simp

text \<open>
  C8: Once an ingest is stored, a second ingest with the same idempotency key changes nothing:
  with the same payload hash it returns the stored result marked as a duplicate, with another
  hash it is an idempotency conflict.
\<close>

theorem persist_event_replay:
  assumes "persist_event flt tenant key req hash now d = (Inr r, d')" "year_ok now"
    "pq_idempotency_key req' = pq_idempotency_key req"
  shows "persist_event TxOk tenant' key' req' hash' now' d' =
    (if hash' = hash then Inr (r\<lparr>pr_duplicate := True, pr_existing_event_id := pr_event_id r\<rparr>)
     else Inl IdempotencyConflict, d')"
  by (rule persist_event_again [OF assms])


theorem persist_event_replay_witness:
  "\<exists>r. fst demo_persisted = Inr r \<and>
     persist_event TxOk ''t'' ''k'' demo_request ''other'' 1 (snd demo_persisted) = (Inl IdempotencyConflict, snd demo_persisted) \<and>
     persist_event TxOk ''t'' ''k'' demo_request ''h'' 1 (snd demo_persisted) =
       (Inr (r\<lparr>pr_duplicate := True, pr_existing_event_id := pr_event_id r\<rparr>), snd demo_persisted)"
proof -
  have "\<exists>r. fst demo_persisted = Inr r"
    by (simp add: demo_persisted_def empty_db_def persist_event_def with_writer_tx_def
      persist_event_tx_def find_row_def upsert_conversation_dm_scope_tx_def resolve_session_tx_def
      require_row_def insert_row_def insert_event_def Let_def demo_request_def upsert_row_def)
  then obtain r where r: "persist_event TxOk ''t'' ''k'' demo_request ''h'' 0 empty_db = (Inr r, snd demo_persisted)"
    unfolding demo_persisted_def by (metis prod.collapse)
  have "persist_event TxOk ''t'' ''k'' demo_request ''other'' 1 (snd demo_persisted) = (Inl IdempotencyConflict, snd demo_persisted)"
    using persist_event_replay [OF r year_ok_0 refl, of "''t''" "''k''" "''other''" 1] by simp
  moreover have "persist_event TxOk ''t'' ''k'' demo_request ''h'' 1 (snd demo_persisted) =
      (Inr (r\<lparr>pr_duplicate := True, pr_existing_event_id := pr_event_id r\<rparr>), snd demo_persisted)"
    using persist_event_replay [OF r year_ok_0 refl, of "''t''" "''k''" "''h''" 1] by simp
  moreover have "fst demo_persisted = Inr r" using r unfolding demo_persisted_def by (metis fst_conv)
  ultimately show ?thesis by blast
qed

text \<open>
  claimEvent on an event of the table: it claims exactly when the event is received or
  queued and has no started run, and then adds one started run and sets status, lease, run id
  and run mode of that event only; otherwise nothing changes.
\<close>

theorem claim_event_outcome:
  assumes "keys_unique d" "run_id \<notin> rn_run_id ` set (db_runs d)" "e \<in> set (db_events d)" "ev_event_id e = eid" "eid \<noteq> []"
  shows "claim_event TxOk eid run_id now d =
    (if ev_status e \<in> {EventStatusReceived, EventStatusQueued} \<and>
        \<not> (\<exists>r \<in> set (db_runs d). rn_event_id r = eid \<and> rn_status r = RunStatusStarted)
     then (Inr (Some (claimed_context e run_id (claim_run_mode (ev_payload e)))),
           d\<lparr>db_runs := db_runs d @ [new_run_row run_id e (claim_run_mode (ev_payload e)) now],
             db_events := update_where (\<lambda>x. ev_event_id x = eid)
               (\<lambda>x. x\<lparr>ev_status := EventStatusProcessing, ev_processing_started_at := time_text now,
                  ev_updated_at := time_text now, ev_run_id := run_id, ev_run_mode := claim_run_mode (ev_payload e)\<rparr>)
               (db_events d)\<rparr>)
     else (Inr None, d))"
proof -
  have dis: "distinct (map ev_event_id (db_events d))" by (rule keys_uniqueD(5) [OF assms(1)])
  have only: "x = e" if "x \<in> set (db_events d)" "ev_event_id x = eid" for x
    using that assms(3,4) dis by (metis distinct_map inj_onD)
  have c: "claimable eid (db_runs d) x \<longleftrightarrow> x = e \<and> claimable eid (db_runs d) e" if "x \<in> set (db_events d)" for x
    using only that by (auto simp: claimable_def)
  show ?thesis
  proof (cases "claimable eid (db_runs d) e")
    case False
    then have "find (claimable eid (db_runs d)) (db_events d) = None" using c by (auto simp: find_None_iff)
    with False show ?thesis
      using assms(4) by (auto simp: claim_event_def with_writer_tx_def claim_event_tx_def claimable_def has_started_run_def)
  next
    case True
    have "find (claimable eid (db_runs d)) (db_events d) \<noteq> None" using True assms(3) by (auto simp: find_None_iff)
    then obtain x where "find (claimable eid (db_runs d)) (db_events d) = Some x" by blast
    then have f: "find (claimable eid (db_runs d)) (db_events d) = Some e" using c by (auto dest: find_SomeD)
    note u = claim_updates [OF dis assms(3,4) True, of "claim_run_mode (ev_payload e)" run_id now]
    have "claim_event_tx eid run_id now d = Inr (claimed_context e run_id (claim_run_mode (ev_payload e)),
        d\<lparr>db_runs := db_runs d @ [new_run_row run_id e (claim_run_mode (ev_payload e)) now],
          db_events := update_where (\<lambda>x. ev_event_id x = eid)
            (\<lambda>x. (claim_event_row run_id now x)\<lparr>ev_run_mode := claim_run_mode (ev_payload e)\<rparr>) (db_events d)\<rparr>)"
      using assms(2) by (simp add: claim_event_tx_def f Let_def require_row_def insert_row_def u) (simp add: new_run_row_def)
    then show ?thesis
      using True assms(4,5)
      by (simp add: claim_event_def claimable_def has_started_run_def claimed_context_def claim_event_row_def)
  qed
qed



theorem claim_event_outcome_witness:
  "fst (claim_event TxOk (event_id_for 0) demo_run_id 1 (rt_db demo_ingested)) =
     Inr (Some (claimed_context demo_event demo_run_id RunModeNormal))"
  using claim_event_outcome [of "rt_db demo_ingested" demo_run_id demo_event "event_id_for 0" 1]
    db_okD(1) [OF reachable_ok [OF fenced_is_reachable [OF demo_ingested_reachable]]]
  by (simp add: demo_ingested_tables claim_run_mode_def is_no_reply_payload_def demo_payload_def)


text \<open>
  ClaimRuntimeOutbox takes a row only if one is due, and then the due row with the least
  next attempt text and id, which becomes sending and locked by the owner.
\<close>

theorem claim_outbox_least_due:
  assumes "claim_runtime_outbox TxOk owner now d = (Inr ro, d')"
  shows "(ro = None \<longleftrightarrow> (\<forall>r \<in> set (db_outbox d). \<not> outbox_due now r)) \<and> (ro = None \<longrightarrow> d' = d) \<and>
    (\<forall>m. ro = Some m \<longrightarrow>
       (\<exists>r \<in> set (db_outbox d). m = to_claimed_outbox r \<and> outbox_due now r \<and>
          (\<forall>r' \<in> set (db_outbox d). outbox_due now r' \<longrightarrow>
             (ob_next_attempt_at r, ob_outbox_id r) \<le> (ob_next_attempt_at r', ob_outbox_id r')) \<and>
          db_outbox d' = update_where (\<lambda>r'. ob_outbox_id r' = ob_outbox_id r)
            (\<lambda>r'. r'\<lparr>ob_status := OutboxStatusSending, ob_locked_at := time_text now, ob_lock_owner := owner,
               ob_updated_at := time_text now\<rparr>) (db_outbox d)))"
proof (cases "next_outbox now (db_outbox d)")
  case None
  then show ?thesis using assms
    by (auto simp: claim_runtime_outbox_def with_writer_tx_def claim_runtime_outbox_tx_def simp flip: next_outbox_None)
next
  case (Some r)
  note due = next_outbox_SomeD [OF Some]
  have ro: "ro = Some (to_claimed_outbox r)"
    and d': "db_outbox d' = update_where (\<lambda>r'. ob_outbox_id r' = ob_outbox_id r)
      (\<lambda>r'. r'\<lparr>ob_status := OutboxStatusSending, ob_locked_at := time_text now, ob_lock_owner := owner,
         ob_updated_at := time_text now\<rparr>) (db_outbox d)"
    using assms Some
    by (auto simp: claim_runtime_outbox_def with_writer_tx_def claim_runtime_outbox_tx_def lock_outbox_row_def [abs_def])
  have "\<not> (\<forall>r \<in> set (db_outbox d). \<not> outbox_due now r)" using due(1,2) by blast
  moreover have "\<forall>r' \<in> set (db_outbox d). outbox_due now r' \<longrightarrow>
      (ob_next_attempt_at r, ob_outbox_id r) \<le> (ob_next_attempt_at r', ob_outbox_id r')"
    using due(3) by blast
  ultimately show ?thesis using ro d' due(1,2) by (simp del: less_eq_prod_simp) (rule bexI [OF _ due(1)], simp)
qed

theorem claim_outbox_least_due_witness:
  "fst (claim_runtime_outbox TxOk ''w'' 2 (rt_db demo_done)) = Inr (Some (to_claimed_outbox (new_outbox_row demo_command)))"
proof -
  have "\<exists>ro. fst (claim_runtime_outbox TxOk ''w'' 2 (rt_db demo_done)) = Inr ro"
    by (simp add: claim_runtime_outbox_def with_writer_tx_def claim_runtime_outbox_tx_def split: option.split)
  then obtain ro where "claim_runtime_outbox TxOk ''w'' 2 (rt_db demo_done) =
      (Inr ro, snd (claim_runtime_outbox TxOk ''w'' 2 (rt_db demo_done)))" by (metis prod.collapse)
  note c = this and l = claim_outbox_least_due [OF this]
  have "outbox_due 2 (new_outbox_row demo_command)"
    by (simp add: outbox_due_def new_outbox_row_def demo_command_simps)
  then have "ro \<noteq> None" using l by (simp add: demo_done_outbox)
  then have "ro = Some (to_claimed_outbox (new_outbox_row demo_command))" using l by (auto simp: demo_done_outbox)
  with c show ?thesis by (metis fst_conv)
qed

text \<open>
  Writing the cron configuration again keeps the schedule of a job that exists: next run,
  status, kind, attempt count, lock and creation time.
\<close>

theorem cron_upsert_keeps_schedule:
  assumes "upsert_cron_jobs TxOk tenant jobs now d = (Inr (), d')" "find_row jb_job_id k (db_jobs d) = Some r"
  shows "\<exists>r'. find_row jb_job_id k (db_jobs d') = Some r' \<and> jb_next_run_at r' = jb_next_run_at r \<and>
    jb_status r' = jb_status r \<and> jb_kind r' = jb_kind r \<and> jb_attempt_count r' = jb_attempt_count r \<and>
    jb_locked_at r' = jb_locked_at r \<and> jb_created_at r' = jb_created_at r"
  using schedule_upsert_cron_jobs [of k "db_jobs d" tenant now jobs] assms
  by (auto simp: upsert_cron_jobs_def with_writer_tx_def schedule_of_def)

text \<open>
  A page of events followed by the page of its anchor is the first two pages' worth of the
  matching events in descending order of time and id: pagination neither skips nor repeats a
  row.
\<close>

theorem event_pages_continue:
  assumes "distinct (map ev_event_id (db_events d))" "\<forall>r \<in> set (db_events d). anchorable (event_key r)"
    and "list_events d f = (items, Some a)"
  shows "items @ fst (list_events d (f\<lparr>ef_cursor := Some a\<rparr>)) =
    map scan_event (take (2 * page_size (ef_limit f)) (events_matching d f))"
  using events_matching_next [OF assms] assms(3) by (simp add: list_events_eq mult_2 take_add)

text \<open>
  C14: The loop of LoadPromptHistory returns the newest messages of the session, oldest first,
  without those of the payload types cron_fire and new_session, at most the limit of them.
\<close>

theorem prompt_history_newest:
  "load_prompt_history d session_id limit =
     last_n (if limit \<le> 0 then 20 else nat limit)
       (filter (\<lambda>m. map_of (hm_meta m) ''payload_type'' \<noteq> Some (JStr ''cron_fire'') \<and>
                    map_of (hm_meta m) ''payload_type'' \<noteq> Some (JStr ''new_session''))
         (map scan_history
           (sort_key (\<lambda>r. (ms_created_at r, ms_rowid r))
             (filter (\<lambda>r. ms_session_id r = session_id) (db_messages d)))))"
  unfolding load_prompt_history_eq history_limit_def session_messages_asc_def prompt_worthy_def
    should_skip_prompt_history_payload_type_def
  by simp


theorem cron_upsert_keeps_schedule_witness:
  "\<exists>r'. find_row jb_job_id ''cron:a'' (fold (upsert_cron_job ''t'' 7) [demo_cron] [demo_job]) = Some r' \<and>
     jb_next_run_at r' = jb_next_run_at demo_job"
proof -
  let ?d = "empty_db\<lparr>db_jobs := [demo_job]\<rparr>"
  have "find_row jb_job_id ''cron:a'' (db_jobs ?d) = Some demo_job"
    by (simp add: find_row_def demo_job_def cron_job_row_def demo_cron_def cron_job_id_def)
  moreover have "upsert_cron_jobs TxOk ''t'' [demo_cron] 7 ?d =
      (Inr (), ?d\<lparr>db_jobs := fold (upsert_cron_job ''t'' 7) [demo_cron] [demo_job]\<rparr>)"
    by (simp add: upsert_cron_jobs_def with_writer_tx_def)
  ultimately show ?thesis
    using cron_upsert_keeps_schedule [of "''t''" "[demo_cron]" 7 ?d _ "''cron:a''" demo_job] by simp blast
qed

theorem event_pages_continue_witness:
  "\<exists>a. list_events page_db page_filter = ([scan_event (page_event ''b'')], Some a) \<and>
     [scan_event (page_event ''b'')] @ fst (list_events page_db (page_filter\<lparr>ef_cursor := Some a\<rparr>)) =
     map scan_event [page_event ''b'', page_event ''a'']"
proof -
  have k: "event_key (page_event i) = (time_text 0, i)" for i
    by (simp add: event_key_def page_event_def demo_event_def new_event_row_def)
  have m: "events_matching page_db page_filter = [page_event ''b'', page_event ''a'']"
    by (simp add: events_matching_def matching_def page_db_def page_filter_def event_selected_def
        text_selects_def desc_order_def k less_eq_prod_def)
  then have l: "list_events page_db page_filter = ([scan_event (page_event ''b'')], Some (event_anchor (scan_event (page_event ''b''))))"
    by (simp add: list_events_eq page_filter_def page_size_def)
  have t: "trim_space ''a'' = ''a''" "trim_space ''b'' = ''b''"
    by (rule trim_space_id; auto simp: lead_space_def trail_space_def find_None_iff space_runes_def suffix_def)+
  have "\<exists>x. time_text 0 = time_text x \<and> year_ok x \<and> \<not> is_zero_time x"
    by (rule exI [of _ 0]) (simp add: is_zero_time_def zero_time_def)
  then have "\<forall>r \<in> set (db_events page_db). anchorable (event_key r)"
    by (simp add: page_db_def k anchorable_def t)
  moreover have "distinct (map ev_event_id (db_events page_db))" by (simp add: page_db_def page_event_def)
  ultimately show ?thesis
    using event_pages_continue [OF _ _ l] l m by (simp add: page_filter_def page_size_def)
qed

end
